(* ===== verification/Prelude.thy ===== *)
theory Prelude imports Complex_Main "HOL-Library.AList" begin

text \<open>
  Shared ground of the development: the named collections that carry the component proofs,
  Python's insertion-ordered dictionaries as association lists (\<open>AList.update\<close> keeps the
  position of an existing key and appends a new one, \<open>AList.delete\<close> removes it, exactly as
  \<open>dict\<close> does), sums over dictionary values, and a few facts on options and lists.
\<close>

named_theorems dict_simps "rewrite rules for insertion-ordered dictionaries"
named_theorems op_defs "definitions of the operations, for unfolding"
named_theorems inv_intros "introduction rules for component invariants"

subsection \<open>Dictionaries\<close>

type_synonym ('k, 'v) dict = "('k \<times> 'v) list"

abbreviation dict_get :: "('k, 'v) dict \<Rightarrow> 'k \<Rightarrow> 'v option" where
  "dict_get d k \<equiv> map_of d k"

abbreviation dict_set :: "'k \<Rightarrow> 'v \<Rightarrow> ('k, 'v) dict \<Rightarrow> ('k, 'v) dict" where
  "dict_set k v d \<equiv> AList.update k v d"

abbreviation dict_pop :: "'k \<Rightarrow> ('k, 'v) dict \<Rightarrow> ('k, 'v) dict" where
  "dict_pop k d \<equiv> AList.delete k d"

abbreviation keys :: "('k, 'v) dict \<Rightarrow> 'k set" where
  "keys d \<equiv> fst ` set d"

abbreviation dict_ok :: "('k, 'v) dict \<Rightarrow> bool" where
  "dict_ok d \<equiv> distinct (map fst d)"

text \<open>\<open>d.get(k, default)\<close>.\<close>

definition get_default :: "('k, 'v) dict \<Rightarrow> 'k \<Rightarrow> 'v \<Rightarrow> 'v" where
  "get_default d k v = (case dict_get d k of None \<Rightarrow> v | Some x \<Rightarrow> x)"

definition dict_sum :: "('v \<Rightarrow> int) \<Rightarrow> ('k, 'v) dict \<Rightarrow> int" where
  "dict_sum f d = sum_list (map (\<lambda>p. f (snd p)) d)"

lemma dict_sum_simps [simp]:
  "dict_sum f [] = 0"
  "dict_sum f (p # d) = f (snd p) + dict_sum f d"
  "dict_sum f (d @ e) = dict_sum f d + dict_sum f e"
  by (simp_all add: dict_sum_def)

lemma dict_get_set [dict_simps]:
  "dict_get (dict_set k v d) k' = (if k' = k then Some v else dict_get d k')"
  by (simp add: update_conv')

lemma dict_get_pop [dict_simps]:
  "dict_get (dict_pop k d) k' = (if k' = k then None else dict_get d k')"
  by (simp add: delete_conv')

lemma dict_ok_set [simp, intro]: "dict_ok d \<Longrightarrow> dict_ok (dict_set k v d)"
  by (rule distinct_update)

lemma dict_ok_pop [simp, intro]: "dict_ok d \<Longrightarrow> dict_ok (dict_pop k d)"
  by (rule distinct_delete)

lemma keys_set [dict_simps]: "keys (dict_set k v d) = insert k (keys d)"
  by (simp add: dom_update)

lemma keys_pop [dict_simps]: "keys (dict_pop k d) = keys d - {k}"
  by (auto simp: delete_keys dom_map_of_conv_image_fst [symmetric] dict_simps split: if_splits)

lemma get_default_set [dict_simps]:
  "get_default (dict_set k v d) k' x = (if k' = k then v else get_default d k' x)"
  by (simp add: get_default_def dict_simps)

lemma get_default_pop [dict_simps]:
  "get_default (dict_pop k d) k' x = (if k' = k then x else get_default d k' x)"
  by (simp add: get_default_def dict_simps)

lemma get_None_iff: "dict_get d k = None \<longleftrightarrow> k \<notin> keys d"
  by (simp add: map_of_eq_None_iff)

lemma dict_set_fresh: "k \<notin> keys d \<Longrightarrow> dict_set k v d = d @ [(k, v)]"
  by (induction d) auto

lemma dict_pop_absent: "k \<notin> keys d \<Longrightarrow> dict_pop k d = d"
  by (force simp: AList.delete_eq filter_id_conv)

lemma dict_sum_set_fresh: "k \<notin> keys d \<Longrightarrow> dict_sum f (dict_set k v d) = dict_sum f d + f v"
  by (simp add: dict_set_fresh)

lemma dict_sum_pop:
  "dict_ok d \<Longrightarrow> dict_get d k = Some v \<Longrightarrow> dict_sum f (dict_pop k d) = dict_sum f d - f v"
proof (induction d)
  case Nil
  then show ?case by simp
next
  case (Cons p d)
  show ?case
  proof (cases "fst p = k")
    case True
    with Cons.prems have "k \<notin> keys d" and "snd p = v" by auto
    with True show ?thesis by (simp add: dict_pop_absent)
  next
    case False
    with Cons show ?thesis by simp
  qed
qed

lemma dict_sum_nonneg: "(\<And>p. p \<in> set d \<Longrightarrow> 0 \<le> f (snd p)) \<Longrightarrow> 0 \<le> dict_sum f d"
  by (auto simp: dict_sum_def intro!: sum_list_nonneg)

lemma dict_sum_mono:
  "(\<And>p. p \<in> set d \<Longrightarrow> f (snd p) \<le> g (snd p)) \<Longrightarrow> dict_sum f d \<le> dict_sum g d"
  by (auto simp: dict_sum_def intro!: sum_list_mono)

lemma set_dict_set: "set (dict_set k v d) \<subseteq> insert (k, v) (set d)"
  by (induction d) auto

lemma set_dict_pop: "set (dict_pop k d) = {p \<in> set d. fst p \<noteq> k}"
  by (auto simp: AList.delete_eq)

lemma dict_entry_le_sum:
  assumes "\<And>p. p \<in> set d \<Longrightarrow> 0 \<le> f (snd p)" and "dict_get d k = Some v"
  shows "f v \<le> dict_sum f d"
proof -
  from assms(2) have "(k, v) \<in> set d" by (rule map_of_SomeD)
  then have "f v \<in> set (map (\<lambda>p. f (snd p)) d)" by force
  then show ?thesis
    unfolding dict_sum_def using assms(1) by (intro member_le_sum_list) auto
qed

subsection \<open>Sums as results\<close>

text \<open>Sequencing of computations that may raise: the first error ends the run.\<close>

fun bind_exc :: "'e + 'a \<Rightarrow> ('a \<Rightarrow> 'e + 'b) \<Rightarrow> 'e + 'b" where
  "bind_exc (Inl e) f = Inl e"
| "bind_exc (Inr x) f = f x"

lemma bind_exc_Inr_iff: "bind_exc m f = Inr y \<longleftrightarrow> (\<exists>x. m = Inr x \<and> f x = Inr y)"
  by (cases m) auto

lemma bind_exc_cong [fundef_cong]:
  "m = m' \<Longrightarrow> (\<And>x. m' = Inr x \<Longrightarrow> f x = g x) \<Longrightarrow> bind_exc m f = bind_exc m' g"
  by (cases m') auto

end
