(* ===== verification/Py_Values.thy ===== *)
theory Py_Values imports Prelude begin

text \<open>
  The dynamic values of the program: decoded JSON, truthiness, \<open>str()\<close>, \<open>int()\<close>, the string
  methods the code calls, and binary floats. A float is carried as the decimal its \<open>repr\<close>
  prints (coefficient and power of ten) or as one of the three special values; sums and
  products of floats outside the \<open>decimal\<close> module are taken exactly over the rationals.
  Characters are the code points below 256.
\<close>

subsection \<open>Floats\<close>

datatype pyfloat = FDec int int | FNan | FInf bool

definition pow10 :: "int \<Rightarrow> rat" where
  "pow10 e = (if 0 \<le> e then 10 ^ nat e else 1 / 10 ^ nat (- e))"

definition dec_val :: "int \<Rightarrow> int \<Rightarrow> rat" where
  "dec_val c e = of_int c * pow10 e"

text \<open>\<open>math.isfinite\<close>, and the rational a finite float stands for.\<close>

fun isfinite :: "pyfloat \<Rightarrow> bool" where
  "isfinite (FDec c e) = True"
| "isfinite FNan = False"
| "isfinite (FInf neg) = False"

fun fval :: "pyfloat \<Rightarrow> rat" where
  "fval (FDec c e) = dec_val c e"
| "fval FNan = 0"
| "fval (FInf neg) = 0"

text \<open>\<open>x > q\<close>, \<open>x >= q\<close> and \<open>x <= q\<close> against a finite bound: every comparison with NaN is false.\<close>

fun f_gt :: "pyfloat \<Rightarrow> rat \<Rightarrow> bool" where
  "f_gt (FDec c e) q = (q < dec_val c e)"
| "f_gt FNan q = False"
| "f_gt (FInf neg) q = (\<not> neg)"

fun f_ge :: "pyfloat \<Rightarrow> rat \<Rightarrow> bool" where
  "f_ge (FDec c e) q = (q \<le> dec_val c e)"
| "f_ge FNan q = False"
| "f_ge (FInf neg) q = (\<not> neg)"

fun f_le :: "pyfloat \<Rightarrow> rat \<Rightarrow> bool" where
  "f_le (FDec c e) q = (dec_val c e \<le> q)"
| "f_le FNan q = False"
| "f_le (FInf neg) q = neg"

subsection \<open>Exceptions\<close>

text \<open>The exception classes the code distinguishes in its handlers.\<close>

datatype py_exc =
    TypeError | ValueError | OverflowError | InvalidOperation | IndexError | KeyError
  | TimeoutError | ConnectionError | OtherError string

text \<open>
  \<open>except (TypeError, ValueError, ArithmeticError)\<close>: \<open>OverflowError\<close> and the decimal module's
  \<open>InvalidOperation\<close> are subclasses of \<open>ArithmeticError\<close>.
\<close>

fun is_value_fault :: "py_exc \<Rightarrow> bool" where
  "is_value_fault TypeError = True"
| "is_value_fault ValueError = True"
| "is_value_fault OverflowError = True"
| "is_value_fault InvalidOperation = True"
| "is_value_fault _ = False"

subsection \<open>JSON values\<close>

datatype json =
    JNull | JBool bool | JInt int | JFloat pyfloat | JStr string
  | JArr "json list" | JObj "(string \<times> json) list"

type_synonym obj = "(string, json) dict"

text \<open>\<open>d.get(key)\<close>: a missing key reads as \<open>None\<close>.\<close>

definition jget :: "obj \<Rightarrow> string \<Rightarrow> json" where
  "jget d k = get_default d k JNull"

fun py_bool :: "json \<Rightarrow> bool" where
  "py_bool JNull = False"
| "py_bool (JBool b) = b"
| "py_bool (JInt i) = (i \<noteq> 0)"
| "py_bool (JFloat (FDec c e)) = (c \<noteq> 0)"
| "py_bool (JFloat x) = True"
| "py_bool (JStr s) = (s \<noteq> [])"
| "py_bool (JArr xs) = (xs \<noteq> [])"
| "py_bool (JObj d) = (d \<noteq> [])"

text \<open>Python's \<open>a or b\<close> on values and on strings.\<close>

definition py_or :: "json \<Rightarrow> json \<Rightarrow> json" where
  "py_or a b = (if py_bool a then a else b)"

definition str_or :: "string \<Rightarrow> string \<Rightarrow> string" where
  "str_or a b = (if a \<noteq> [] then a else b)"

fun is_obj :: "json \<Rightarrow> bool" where
  "is_obj (JObj d) = True"
| "is_obj _ = False"

fun obj_of :: "json \<Rightarrow> obj" where
  "obj_of (JObj d) = d"
| "obj_of _ = []"

text \<open>An optional string as a JSON value.\<close>

definition jstr_opt :: "string option \<Rightarrow> json" where
  "jstr_opt x = (case x of None \<Rightarrow> JNull | Some s \<Rightarrow> JStr s)"

subsection \<open>Strings\<close>

definition cp :: "char \<Rightarrow> nat" where
  "cp c = of_char c"

definition is_space :: "char \<Rightarrow> bool" where
  "is_space c = (let n = cp c in (9 \<le> n \<and> n \<le> 13) \<or> (28 \<le> n \<and> n \<le> 32) \<or> n = 133 \<or> n = 160)"

definition lstrip :: "string \<Rightarrow> string" where
  "lstrip s = dropWhile is_space s"

definition rstrip :: "string \<Rightarrow> string" where
  "rstrip s = rev (dropWhile is_space (rev s))"

definition strip :: "string \<Rightarrow> string" where
  "strip s = rstrip (lstrip s)"

definition lower_char :: "char \<Rightarrow> char" where
  "lower_char c =
     (let n = cp c in
      if (65 \<le> n \<and> n \<le> 90) \<or> (192 \<le> n \<and> n \<le> 222 \<and> n \<noteq> 215) then char_of (n + 32) else c)"

definition lower :: "string \<Rightarrow> string" where
  "lower s = map lower_char s"

definition startswith :: "string \<Rightarrow> string \<Rightarrow> bool" where
  "startswith s p = (take (length p) s = p)"

definition removeprefix :: "string \<Rightarrow> string \<Rightarrow> string" where
  "removeprefix s p = (if startswith s p then drop (length p) s else s)"

definition endswith :: "string \<Rightarrow> string \<Rightarrow> bool" where
  "endswith s p = (length p \<le> length s \<and> drop (length s - length p) s = p)"

definition removesuffix :: "string \<Rightarrow> string \<Rightarrow> string" where
  "removesuffix s p = (if endswith s p then take (length s - length p) s else s)"

text \<open>\<open>s.rstrip(c)\<close> for a single character.\<close>

definition rstrip_char :: "char \<Rightarrow> string \<Rightarrow> string" where
  "rstrip_char c s = rev (dropWhile (\<lambda>x. x = c) (rev s))"

text \<open>\<open>s.split(c)\<close> for a single character, and \<open>needle in s\<close>.\<close>

fun split_on :: "char \<Rightarrow> string \<Rightarrow> string list" where
  "split_on c [] = [[]]"
| "split_on c (x # xs) =
     (if x = c then [] # split_on c xs
      else (case split_on c xs of [] \<Rightarrow> [[x]] | w # ws \<Rightarrow> (x # w) # ws))"

fun contains :: "string \<Rightarrow> string \<Rightarrow> bool" where
  "contains p [] = (p = [])"
| "contains p (x # xs) = (startswith (x # xs) p \<or> contains p xs)"

definition truthy_words :: "string list" where
  "truthy_words = [''1'', ''true'', ''yes'']"

text \<open>The environment-flag idiom \<open>value.strip().lower() in {"1", "true", "yes"}\<close>.\<close>

definition env_flag :: "string \<Rightarrow> bool" where
  "env_flag raw = (lower (strip raw) \<in> set truthy_words)"

subsection \<open>Decimal digits, \<open>str()\<close> and \<open>int()\<close>\<close>

fun show_nat :: "nat \<Rightarrow> string" where
  "show_nat n = (if n < 10 then [char_of (48 + n)] else show_nat (n div 10) @ [char_of (48 + n mod 10)])"

declare show_nat.simps [simp del]

definition show_int :: "int \<Rightarrow> string" where
  "show_int i = (if i < 0 then CHR ''-'' # show_nat (nat (- i)) else show_nat (nat i))"

definition is_digit :: "char \<Rightarrow> bool" where
  "is_digit c = (48 \<le> cp c \<and> cp c \<le> 57)"

text \<open>The digit run of \<open>int(str)\<close>: digits, single underscores allowed between two digits.\<close>

fun read_digits :: "nat \<Rightarrow> string \<Rightarrow> nat option" where
  "read_digits acc [] = Some acc"
| "read_digits acc (c # cs) =
     (if is_digit c then read_digits (10 * acc + (cp c - 48)) cs
      else if c = CHR ''_'' then
        (case cs of [] \<Rightarrow> None
         | d # ds \<Rightarrow> if is_digit d then read_digits (10 * acc + (cp d - 48)) ds else None)
      else None)"

definition read_nat :: "string \<Rightarrow> nat option" where
  "read_nat s = (case s of [] \<Rightarrow> None | c # cs \<Rightarrow> if is_digit c then read_digits 0 s else None)"

definition parse_int :: "string \<Rightarrow> int option" where
  "parse_int raw =
     (case strip raw of
        [] \<Rightarrow> None
      | c # cs \<Rightarrow>
          if c = CHR ''-'' then map_option (\<lambda>n. - int n) (read_nat cs)
          else if c = CHR ''+'' then map_option int (read_nat cs)
          else map_option int (read_nat (c # cs)))"

text \<open>Truncation towards zero of a finite float, as \<open>int(float)\<close> does.\<close>

definition trunc_rat :: "rat \<Rightarrow> int" where
  "trunc_rat q = (if q < 0 then - \<lfloor>- q\<rfloor> else \<lfloor>q\<rfloor>)"

fun py_int :: "json \<Rightarrow> py_exc + int" where
  "py_int (JInt i) = Inr i"
| "py_int (JBool b) = Inr (if b then 1 else 0)"
| "py_int (JFloat (FDec c e)) = Inr (trunc_rat (dec_val c e))"
| "py_int (JFloat FNan) = Inl ValueError"
| "py_int (JFloat (FInf neg)) = Inl OverflowError"
| "py_int (JStr s) = (case parse_int s of None \<Rightarrow> Inl ValueError | Some i \<Rightarrow> Inr i)"
| "py_int _ = Inl TypeError"

text \<open>\<open>value[n]\<close> for a constant index.\<close>

fun py_index :: "json \<Rightarrow> nat \<Rightarrow> py_exc + json" where
  "py_index (JArr xs) n = (if n < length xs then Inr (xs ! n) else Inl IndexError)"
| "py_index (JStr s) n = (if n < length s then Inr (JStr [s ! n]) else Inl IndexError)"
| "py_index (JObj d) n = Inl KeyError"
| "py_index _ n = Inl TypeError"

text \<open>\<open>str(value)\<close>; the printing of floats, lists and dicts is a parameter.\<close>

fun py_str :: "(json \<Rightarrow> string) \<Rightarrow> json \<Rightarrow> string" where
  "py_str rep JNull = ''None''"
| "py_str rep (JBool b) = (if b then ''True'' else ''False'')"
| "py_str rep (JInt i) = show_int i"
| "py_str rep (JStr s) = s"
| "py_str rep v = rep v"

subsection \<open>Lemmas\<close>

lemma pow10_pos [simp]: "0 < pow10 e"
  by (simp add: pow10_def)

lemma pow10_add: "pow10 (a + b) = pow10 a * pow10 b"
proof -
  have eq: "pow10 e = 10 powi e" for e
    by (auto simp: pow10_def power_int_def inverse_eq_divide power_divide)
  show ?thesis by (simp add: eq power_int_add)
qed

lemma dec_val_mult: "dec_val c e * dec_val d f = dec_val (c * d) (e + f)"
  by (simp add: dec_val_def pow10_add)

lemma dec_val_shift: "dec_val (c * 10 ^ n) e = dec_val c (e + int n)"
proof -
  have "pow10 (e + int n) = pow10 e * 10 ^ n"
    by (simp only: pow10_add) (simp add: pow10_def)
  then show ?thesis by (simp add: dec_val_def)
qed

lemma strip_Nil [simp]: "strip [] = []"
  by (simp add: strip_def lstrip_def rstrip_def)

lemma hd_dropWhile_not: "dropWhile P xs \<noteq> [] \<Longrightarrow> \<not> P (hd (dropWhile P xs))"
  by (induction xs) auto

lemma strip_idem [simp]: "strip (strip s) = strip s"
proof -
  let ?l = "lstrip s" and ?r = "strip s"
  have r: "rstrip ?r = ?r"
    by (simp add: strip_def rstrip_def dropWhile_idem)
  have "lstrip ?r = ?r"
  proof (cases ?r)
    case Nil
    then show ?thesis by (simp add: lstrip_def)
  next
    case (Cons c cs)
    have "\<exists>zs. ?l = ?r @ zs"
      by (metis strip_def rstrip_def rev_rev_ident rev_append takeWhile_dropWhile_id)
    with Cons have "?l \<noteq> []" and "hd ?l = c" by auto
    then have "\<not> is_space c"
      using hd_dropWhile_not [of is_space s] by (auto simp: lstrip_def)
    with Cons show ?thesis by (simp add: lstrip_def)
  qed
  with r show ?thesis by (metis strip_def)
qed

lemma contains_append: "contains p xs \<Longrightarrow> contains p (ys @ xs)"
  by (induction ys) auto

lemma startswith_append: "startswith xs p \<Longrightarrow> startswith (xs @ ys) p"
  unfolding startswith_def by (metis append_take_drop_id append_assoc append_eq_conv_conj)

text \<open>What \<open>str(int)\<close> prints, \<open>int\<close> reads back.\<close>

lemma digit_of: "n < 10 \<Longrightarrow> is_digit (char_of (48 + n)) \<and> cp (char_of (48 + n)) = 48 + n"
proof -
  have "list_all (\<lambda>n. is_digit (char_of (48 + n)) \<and> cp (char_of (48 + n)) = 48 + n) [0..<10]" by code_simp
  then show "n < 10 \<Longrightarrow> is_digit (char_of (48 + n)) \<and> cp (char_of (48 + n)) = 48 + n" by (simp add: list_all_iff)
qed

lemma show_nat_digits: "list_all is_digit (show_nat n) \<and> show_nat n \<noteq> []"
proof (induction n rule: show_nat.induct)
  case (1 n)
  then show ?case using digit_of [of n] digit_of [of "n mod 10"] by (subst (1 2) show_nat.simps) auto
qed

lemma read_digits_append:
  "list_all is_digit xs \<Longrightarrow> read_digits acc xs = Some v \<Longrightarrow> read_digits acc (xs @ ys) = read_digits v ys"
  by (induction xs arbitrary: acc) auto

lemma read_show_nat: "read_digits 0 (show_nat n) = Some n"
proof (induction n rule: show_nat.induct)
  case (1 n)
  show ?case
  proof (cases "n < 10")
    case True
    then show ?thesis using digit_of [OF True] by (subst show_nat.simps) simp
  next
    case False
    then have "read_digits 0 (show_nat (n div 10) @ [char_of (48 + n mod 10)]) = read_digits (n div 10) [char_of (48 + n mod 10)]"
      using 1 show_nat_digits by (intro read_digits_append) auto
    also have "\<dots> = Some n" using digit_of [of "n mod 10"] by simp
    finally show ?thesis using False by (subst show_nat.simps) simp
  qed
qed

lemma no_space_strip: "list_all (\<lambda>c. \<not> is_space c) s \<Longrightarrow> strip s = s"
proof -
  have l: "dropWhile is_space t = t" if "list_all (\<lambda>c. \<not> is_space c) t" for t using that by (cases t) auto
  assume s: "list_all (\<lambda>c. \<not> is_space c) s"
  then have "list_all (\<lambda>c. \<not> is_space c) (rev s)" by (simp add: list_all_iff)
  with s show ?thesis by (simp add: strip_def lstrip_def rstrip_def l)
qed

lemma digit_no_space: "is_digit c \<Longrightarrow> \<not> is_space c \<and> c \<noteq> CHR ''-'' \<and> c \<noteq> CHR ''+''"
proof -
  have "cp (CHR ''-'') = 45" "cp (CHR ''+'') = 43" by code_simp+
  then show "is_digit c \<Longrightarrow> \<not> is_space c \<and> c \<noteq> CHR ''-'' \<and> c \<noteq> CHR ''+''"
    by (auto simp: is_digit_def is_space_def Let_def)
qed

lemma parse_show_int: "parse_int (show_int n) = Some n"
proof -
  have digits: "list_all is_digit (show_nat k)" "show_nat k \<noteq> []" for k using show_nat_digits by auto
  have nat: "read_nat (show_nat k) = Some k" for k
    using read_show_nat [of k] digits [of k] by (cases "show_nat k") (auto simp: read_nat_def)
  have blank: "list_all (\<lambda>c. \<not> is_space c) (show_nat k)" for k
    using digits(1) [of k] digit_no_space by (auto simp: list_all_iff)
  have minus: "\<not> is_space (CHR ''-'')" by code_simp
  show ?thesis
  proof (cases "n < 0")
    case True
    have "strip (show_int n) = show_int n" using True blank minus by (intro no_space_strip) (simp add: show_int_def)
    with True nat show ?thesis by (simp add: parse_int_def show_int_def)
  next
    case False
    have "strip (show_int n) = show_int n" using False blank by (intro no_space_strip) (simp add: show_int_def)
    with False nat [of "nat n"] digits [of "nat n"] digit_no_space show ?thesis
      by (cases "show_nat (nat n)") (auto simp: parse_int_def show_int_def)
  qed
qed

end
