(* ===== verification/Errors.thy ===== *)
theory Errors imports Py_Values begin

text \<open>
  \<open>app/gateway/errors.py\<close>: the OpenAI-style error envelope, the exceptions that carry it and
  the handlers that put every exception's detail into it.
\<close>

record HTTPException =
  he_status :: int
  he_detail :: json
  he_headers :: "(string, string) dict"

text \<open>\<open>{**a, **b}\<close>: the keys of \<open>b\<close> override in place, new ones are appended.\<close>

definition dict_merge :: "obj \<Rightarrow> obj \<Rightarrow> obj" where
  "dict_merge a b = fold (\<lambda>(k, v) d. dict_set k v d) b a"

definition add_extra :: "string \<times> json \<Rightarrow> obj \<Rightarrow> obj" where
  "add_extra kv payload =
     (case kv of (key, value) \<Rightarrow>
        if key = ''error'' \<and> is_obj value
        then dict_set ''error'' (JObj (dict_merge (obj_of (jget payload ''error'')) (obj_of value))) payload
        else dict_set key value payload)"

definition error_body :: "string \<Rightarrow> string \<Rightarrow> string \<Rightarrow> string option \<Rightarrow> obj \<Rightarrow> obj" where
  "error_body code message error_type request_id extra =
     (let err = [(''type'', JStr error_type), (''code'', JStr code), (''message'', JStr message)];
          payload = [(''error'', JObj err)];
          payload = (case request_id of
              Some r \<Rightarrow> if r \<noteq> []
                then dict_set ''request_id'' (JStr r) (dict_set ''error'' (JObj (dict_set ''request_id'' (JStr r) err)) payload)
                else payload
            | None \<Rightarrow> payload)
      in fold add_extra extra payload)"

definition api_error ::
  "int \<Rightarrow> string \<Rightarrow> string \<Rightarrow> string \<Rightarrow> string option \<Rightarrow> (string, string) dict \<Rightarrow> obj \<Rightarrow> HTTPException" where
  "api_error status_code code message error_type request_id headers extra =
     \<lparr>he_status = status_code,
      he_detail = JObj (error_body code message error_type request_id extra),
      he_headers = headers\<rparr>"

definition normalize_error_payload :: "(json \<Rightarrow> string) \<Rightarrow> json \<Rightarrow> string \<Rightarrow> string \<Rightarrow> obj" where
  "normalize_error_payload rep detail default_code default_message =
     (case detail of
        JObj d \<Rightarrow>
          if is_obj (jget d ''error'') then d
          else if is_obj (jget d ''detail'') \<and> ''error'' \<in> keys (obj_of (jget d ''detail''))
          then obj_of (jget d ''detail'')
          else error_body default_code (py_str rep (py_or (jget d ''message'') (JStr default_message)))
                 ''api_error'' None d
      | JStr s \<Rightarrow> error_body default_code s ''api_error'' None []
      | _ \<Rightarrow> error_body default_code default_message ''api_error'' None [])"

text \<open>\<open>d.setdefault(k, v)\<close>.\<close>

definition setdefault :: "string \<Rightarrow> json \<Rightarrow> obj \<Rightarrow> obj" where
  "setdefault k v d = (if dict_get d k = None then dict_set k v d else d)"

text \<open>The handler of \<open>fastapi.HTTPException\<close>: status, body and headers of the response.\<close>

definition http_exception_handler ::
  "(json \<Rightarrow> string) \<Rightarrow> string option \<Rightarrow> HTTPException \<Rightarrow> int \<times> obj \<times> (string, string) dict" where
  "http_exception_handler rep request_id e =
     (let payload = normalize_error_payload rep (he_detail e) ''http_error'' ''request failed'';
          payload = (case request_id of
              Some r \<Rightarrow> if r \<noteq> [] then
                  (let p = setdefault ''request_id'' (JStr r) payload in
                   if is_obj (jget p ''error'')
                   then dict_set ''error'' (JObj (setdefault ''request_id'' (JStr r) (obj_of (jget p ''error'')))) p
                   else p)
                else payload
            | None \<Rightarrow> payload)
      in (he_status e, payload, he_headers e))"

text \<open>
  The handlers of Starlette's own exceptions (routing, methods), which serve no headers, and of
  request validation; a response is its status, body and headers.
\<close>

type_synonym error_response = "int \<times> obj \<times> (string, string) dict"

definition starlette_http_exception_handler :: "(json \<Rightarrow> string) \<Rightarrow> string option \<Rightarrow> HTTPException \<Rightarrow> error_response" where
  "starlette_http_exception_handler rep request_id e =
     (let payload = normalize_error_payload rep (he_detail e) ''http_error'' ''request failed''
      in (he_status e,
          case request_id of Some r \<Rightarrow> if r \<noteq> [] then setdefault ''request_id'' (JStr r) payload else payload | None \<Rightarrow> payload,
          []))"

definition validation_exception_handler :: "string option \<Rightarrow> json \<Rightarrow> error_response" where
  "validation_exception_handler request_id errors =
     (422, error_body ''invalid_request'' ''request validation failed'' ''invalid_request_error'' request_id
        [(''validation_errors'', errors)], [])"

text \<open>What the registered handlers catch, and the response served for it.\<close>

datatype raised = FastAPIException HTTPException | StarletteException HTTPException | ValidationError json

fun serve_exception :: "(json \<Rightarrow> string) \<Rightarrow> string option \<Rightarrow> raised \<Rightarrow> error_response" where
  "serve_exception rep request_id (FastAPIException e) = http_exception_handler rep request_id e"
| "serve_exception rep request_id (StarletteException e) = starlette_http_exception_handler rep request_id e"
| "serve_exception rep request_id (ValidationError errors) = validation_exception_handler request_id errors"

text \<open>The OpenAI envelope: a top-level \<open>error\<close> object with a type, a code and a message.\<close>

definition openai_envelope :: "obj \<Rightarrow> bool" where
  "openai_envelope p =
     (is_obj (jget p ''error'')
      \<and> (let e = obj_of (jget p ''error'') in {''type'', ''code'', ''message''} \<subseteq> keys e))"

subsection \<open>Lemmas\<close>

lemma jget_set: "jget (dict_set k v d) k' = (if k' = k then v else jget d k')"
  by (simp add: jget_def get_default_def dict_simps)

lemma jget_obj_key: "is_obj (jget d k) \<Longrightarrow> k \<in> keys d"
  by (rule ccontr) (auto simp: jget_def get_default_def get_None_iff [THEN iffD2])

lemma obj_of_JObj: "is_obj j \<Longrightarrow> JObj (obj_of j) = j"
  by (cases j) auto

lemma keys_fold_set: "keys (fold (\<lambda>(k, v) d. dict_set k v d) b a) = keys a \<union> keys b"
proof (induction b arbitrary: a)
  case Nil
  then show ?case by simp
next
  case (Cons p b)
  show ?case by (cases p) (simp only: fold.simps o_apply prod.case Cons.IH keys_set, simp)
qed

lemma keys_merge: "keys (dict_merge a b) = keys a \<union> keys b"
  by (simp add: dict_merge_def keys_fold_set)

lemma envelope_set_other:
  "openai_envelope p \<Longrightarrow> k \<noteq> ''error'' \<Longrightarrow> openai_envelope (dict_set k v p)"
  by (simp add: openai_envelope_def jget_set Let_def)

lemma envelope_set_error:
  "{''type'', ''code'', ''message''} \<subseteq> keys e \<Longrightarrow> openai_envelope (dict_set ''error'' (JObj e) p)"
  by (simp add: openai_envelope_def jget_set Let_def)

lemma add_extra_envelope:
  assumes "openai_envelope p" and "k = ''error'' \<Longrightarrow> is_obj v"
  shows "openai_envelope (add_extra (k, v) p)"
proof (cases "k = ''error''")
  case True
  have "{''type'', ''code'', ''message''} \<subseteq> keys (obj_of (jget p ''error''))"
    using assms(1) by (simp add: openai_envelope_def Let_def)
  then have "{''type'', ''code'', ''message''} \<subseteq> keys (dict_merge (obj_of (jget p ''error'')) (obj_of v))"
    unfolding keys_merge by blast
  then have "openai_envelope (dict_set ''error'' (JObj (dict_merge (obj_of (jget p ''error'')) (obj_of v))) p)"
    by (rule envelope_set_error)
  with True assms(2) show ?thesis by (simp add: add_extra_def)
next
  case False
  with assms show ?thesis by (simp add: add_extra_def envelope_set_other)
qed

lemma fold_add_extra_envelope:
  "openai_envelope p \<Longrightarrow> \<forall>(k, v)\<in>set extra. k = ''error'' \<longrightarrow> is_obj v \<Longrightarrow> openai_envelope (fold add_extra extra p)"
  by (induction extra arbitrary: p) (auto intro: add_extra_envelope)

lemma error_body_envelope:
  "\<forall>(k, v)\<in>set extra. k = ''error'' \<longrightarrow> is_obj v \<Longrightarrow> openai_envelope (error_body code msg ty rid extra)"
  unfolding error_body_def Let_def
  by (rule fold_add_extra_envelope)
    (auto simp: openai_envelope_def jget_def get_default_def split: option.split)

subsection \<open>Properties\<close>

definition supplied_error_ok :: "json \<Rightarrow> bool" where
  "supplied_error_ok e = (case e of JObj d \<Rightarrow> {''type'', ''code'', ''message''} \<subseteq> keys d | _ \<Rightarrow> False)"

text \<open>
  The details that are served in the envelope: those that are no object, those that supply an error
  object with type, code and message themselves, directly or in a \<open>detail\<close> entry, and those without
  an \<open>error\<close> entry.
\<close>

fun enveloped :: "json \<Rightarrow> bool" where
  "enveloped (JObj d) =
     (if is_obj (jget d ''error'') then supplied_error_ok (jget d ''error'')
      else if is_obj (jget d ''detail'') \<and> ''error'' \<in> keys (obj_of (jget d ''detail''))
      then supplied_error_ok (jget (obj_of (jget d ''detail'')) ''error'')
      else ''error'' \<notin> keys d)"
| "enveloped _ = True"

text \<open>A JSON object has each key once.\<close>

fun wf_detail :: "json \<Rightarrow> bool" where
  "wf_detail (JObj d) = dict_ok d"
| "wf_detail _ = True"

lemma supplied_envelope: "openai_envelope d \<longleftrightarrow> supplied_error_ok (jget d ''error'')"
  by (auto simp: supplied_error_ok_def openai_envelope_def Let_def split: json.splits)

text \<open>An \<open>error\<close> entry that is no object overrides the envelope's own.\<close>

lemma fold_add_extra_error:
  assumes "dict_ok d" and "''error'' \<in> keys d" and "\<not> is_obj (jget d ''error'')"
  shows "jget (fold add_extra d p) ''error'' = jget d ''error''"
proof -
  have later: "jget (fold add_extra d p) ''error'' = jget p ''error''" if "''error'' \<notin> keys d" for d p
    using that by (induction d arbitrary: p) (auto simp: add_extra_def jget_set)
  show ?thesis
    using assms
  proof (induction d arbitrary: p)
    case (Cons kv d)
    obtain k v where kv: "kv = (k, v)" by fastforce
    show ?case
    proof (cases "k = ''error''")
      case True
      with Cons.prems kv have "''error'' \<notin> keys d" "\<not> is_obj v"
        by (auto simp: jget_def get_default_def)
      moreover have "jget (kv # d) ''error'' = v" using True kv by (simp add: jget_def get_default_def)
      moreover have "add_extra kv p = dict_set ''error'' v p" using True kv \<open>\<not> is_obj v\<close> by (simp add: add_extra_def)
      ultimately show ?thesis by (simp add: later jget_set)
    next
      case False
      with Cons.prems kv have "dict_ok d" "''error'' \<in> keys d" "jget (kv # d) ''error'' = jget d ''error''"
        by (auto simp: jget_def get_default_def)
      with Cons.IH Cons.prems(3) kv show ?thesis by simp
    qed
  qed simp
qed

lemma normalize_envelope:
  assumes "wf_detail detail"
  shows "openai_envelope (normalize_error_payload rep detail code msg) \<longleftrightarrow> enveloped detail"
proof (cases detail)
  case (JObj d)
  let ?nested = "is_obj (jget d ''detail'') \<and> ''error'' \<in> keys (obj_of (jget d ''detail''))"
  show ?thesis
  proof (cases "is_obj (jget d ''error'') \<or> ?nested")
    case True
    with JObj show ?thesis by (auto simp: normalize_error_payload_def supplied_envelope)
  next
    case plain: False
    have "openai_envelope (error_body code m ty None d) \<longleftrightarrow> ''error'' \<notin> keys d" for m ty
    proof (cases "''error'' \<in> keys d")
      case True
      with plain assms JObj have "jget (error_body code m ty None d) ''error'' = jget d ''error''"
        by (simp add: error_body_def fold_add_extra_error)
      with True plain show ?thesis by (simp add: openai_envelope_def)
    next
      case False
      then have "\<forall>(k, v)\<in>set d. k = ''error'' \<longrightarrow> is_obj v" by force
      with False error_body_envelope show ?thesis by blast
    qed
    with plain JObj show ?thesis unfolding normalize_error_payload_def by auto
  qed
qed (auto simp: normalize_error_payload_def intro!: error_body_envelope)

lemma jget_setdefault: "k' \<noteq> k \<Longrightarrow> jget (setdefault k v d) k' = jget d k'"
  by (simp add: setdefault_def jget_set)

lemma setdefault_envelope: "k \<noteq> ''error'' \<Longrightarrow> openai_envelope (setdefault k v p) \<longleftrightarrow> openai_envelope p"
  by (simp add: openai_envelope_def jget_setdefault)

lemma keys_setdefault: "keys (setdefault k v d) = insert k (keys d)"
  by (auto simp: setdefault_def keys_set get_None_iff)

lemma http_handler_envelope:
  assumes "wf_detail (he_detail e)"
  shows "openai_envelope (fst (snd (http_exception_handler rep request_id e))) \<longleftrightarrow> enveloped (he_detail e)"
proof -
  have "openai_envelope (dict_set ''error'' (JObj (setdefault ''request_id'' v (obj_of (jget q ''error'')))) q) \<longleftrightarrow> openai_envelope q"
    if "is_obj (jget q ''error'')" for q v
    using that by (auto simp: openai_envelope_def jget_set keys_setdefault Let_def)
  then show ?thesis
    unfolding normalize_envelope [OF assms, symmetric, where rep = rep and code = "''http_error''" and msg = "''request failed''"]
    by (auto simp: http_exception_handler_def Let_def setdefault_envelope split: option.split)
qed

fun raised_detail :: "raised \<Rightarrow> json" where
  "raised_detail (FastAPIException e) = he_detail e"
| "raised_detail (StarletteException e) = he_detail e"
| "raised_detail (ValidationError errors) = JNull"

text \<open>
  C8: exactly which exceptions are served in the OpenAI envelope, an object whose \<open>error\<close> is an
  object with a type, a code and a message. Whichever registered handler serves an exception, with
  or without a request id, the body is an envelope exactly if the detail is no object, supplies
  such an error object itself (directly or in a \<open>detail\<close> entry), or has no \<open>error\<close> entry at all; so
  every validation error is, and a detail whose \<open>error\<close> is a bare text is not.
\<close>

theorem error_bodies_have_envelope_type:
  assumes "wf_detail (raised_detail x)"
  shows "openai_envelope (fst (snd (serve_exception rep request_id x))) \<longleftrightarrow> enveloped (raised_detail x)"
proof (cases x)
  case (FastAPIException e)
  with assms http_handler_envelope show ?thesis by simp
next
  case (StarletteException e)
  with assms normalize_envelope [of "he_detail e" rep "''http_error''" "''request failed''"] show ?thesis
    by (auto simp: starlette_http_exception_handler_def Let_def setdefault_envelope split: option.split)
next
  case (ValidationError errors)
  then show ?thesis
    by (auto simp: validation_exception_handler_def intro!: error_body_envelope)
qed

theorem error_bodies_have_envelope_type_witness:
  "openai_envelope (fst (snd (serve_exception (\<lambda>_. []) (Some ''r1'')
      (StarletteException \<lparr>he_status = 405, he_detail = JStr ''Method Not Allowed'', he_headers = [(''allow'', ''POST'')]\<rparr>))))
   \<and> \<not> openai_envelope (fst (snd (serve_exception (\<lambda>_. []) (Some ''r1'')
      (FastAPIException \<lparr>he_status = 502, he_detail = JObj [(''error'', JStr ''down'')], he_headers = []\<rparr>))))"
proof
  show "openai_envelope (fst (snd (serve_exception (\<lambda>_. []) (Some ''r1'')
      (StarletteException \<lparr>he_status = 405, he_detail = JStr ''Method Not Allowed'', he_headers = [(''allow'', ''POST'')]\<rparr>))))"
    by (subst error_bodies_have_envelope_type) simp_all
  show "\<not> openai_envelope (fst (snd (serve_exception (\<lambda>_. []) (Some ''r1'')
      (FastAPIException \<lparr>he_status = 502, he_detail = JObj [(''error'', JStr ''down'')], he_headers = []\<rparr>))))"
    by (subst error_bodies_have_envelope_type) (simp_all add: jget_def get_default_def)
qed

text \<open>
  The detail shape several routers raise, \<open>{"error": "<text>"}\<close>, is not converted: the
  body served for it has the bare string under \<open>error\<close>, so an OpenAI client that reads
  \<open>error.message\<close> fails. This holds for every text.
\<close>

theorem bare_error_detail_not_enveloped:
  "jget (normalize_error_payload rep (JObj [(''error'', JStr text)]) ''http_error'' ''request failed'') ''error'' = JStr text
   \<and> \<not> openai_envelope (normalize_error_payload rep (JObj [(''error'', JStr text)]) ''http_error'' ''request failed'')"
  by (simp add: normalize_error_payload_def error_body_def add_extra_def openai_envelope_def jget_def get_default_def
      Let_def)

end
