(* ===== verification/Py_Decimal.thy ===== *)
theory Py_Decimal imports Py_Values begin

text \<open>
  The part of Python's \<open>decimal\<close> module the money path uses, with its default context: a
  finite number is a coefficient and a power of ten, a product or a sum is computed exactly and
  then rounded half-even to 28 significant digits, \<open>to_integral_value\<close> rounds to an integer in
  a given mode. Infinities and NaN follow the context's traps: \<open>0 * inf\<close> and \<open>inf - inf\<close> raise
  \<open>InvalidOperation\<close>, \<open>int(inf)\<close> raises \<open>OverflowError\<close>, \<open>int(nan)\<close> raises \<open>ValueError\<close>.
  The exponent limits of the context (999999) are not modelled.
\<close>

datatype rounding = ROUND_CEILING | ROUND_FLOOR | ROUND_HALF_EVEN

datatype decimal = DFin int int | DInf bool | DNan

fun digits10 :: "nat \<Rightarrow> nat" where
  "digits10 n = (if n < 10 then 1 else Suc (digits10 (n div 10)))"

declare digits10.simps [simp del]

definition half_even_div :: "int \<Rightarrow> int \<Rightarrow> int" where
  "half_even_div c d =
     (let q = c div d; r = c mod d in
      if 2 * r < d then q
      else if 2 * r > d then q + 1
      else if even q then q else q + 1)"

text \<open>Rounding of a coefficient to the context's precision of 28 digits.\<close>

definition ctx_round :: "int \<Rightarrow> int \<Rightarrow> decimal" where
  "ctx_round c e =
     (let n = digits10 (nat \<bar>c\<bar>) in
      if n \<le> 28 then DFin c e
      else let s = n - 28; q = half_even_div c (10 ^ s) in
        if \<bar>q\<bar> = 10 ^ 28 then DFin (q div 10) (e + int s + 1) else DFin q (e + int s))"

fun dec_mul :: "decimal \<Rightarrow> decimal \<Rightarrow> py_exc + decimal" where
  "dec_mul (DFin c e) (DFin d f) = Inr (ctx_round (c * d) (e + f))"
| "dec_mul DNan y = Inr DNan"
| "dec_mul x DNan = Inr DNan"
| "dec_mul (DInf s) (DFin d f) = (if d = 0 then Inl InvalidOperation else Inr (DInf (s \<noteq> (d < 0))))"
| "dec_mul (DFin c e) (DInf s) = (if c = 0 then Inl InvalidOperation else Inr (DInf (s \<noteq> (c < 0))))"
| "dec_mul (DInf s) (DInf t) = Inr (DInf (s \<noteq> t))"

fun dec_add :: "decimal \<Rightarrow> decimal \<Rightarrow> py_exc + decimal" where
  "dec_add (DFin c e) (DFin d f) =
     (let m = min e f in Inr (ctx_round (c * 10 ^ nat (e - m) + d * 10 ^ nat (f - m)) m))"
| "dec_add DNan y = Inr DNan"
| "dec_add x DNan = Inr DNan"
| "dec_add (DInf s) (DFin d f) = Inr (DInf s)"
| "dec_add (DFin c e) (DInf s) = Inr (DInf s)"
| "dec_add (DInf s) (DInf t) = (if s = t then Inr (DInf s) else Inl InvalidOperation)"

definition int_round :: "rounding \<Rightarrow> int \<Rightarrow> int \<Rightarrow> int" where
  "int_round r c e =
     (if 0 \<le> e then c * 10 ^ nat e
      else let d = 10 ^ nat (- e) in
        (case r of ROUND_FLOOR \<Rightarrow> c div d
         | ROUND_CEILING \<Rightarrow> - ((- c) div d)
         | ROUND_HALF_EVEN \<Rightarrow> half_even_div c d))"

text \<open>\<open>int(d.to_integral_value(rounding=r))\<close>.\<close>

fun dec_to_int :: "rounding \<Rightarrow> decimal \<Rightarrow> py_exc + int" where
  "dec_to_int r (DFin c e) = Inr (int_round r c e)"
| "dec_to_int r (DInf s) = Inl OverflowError"
| "dec_to_int r DNan = Inl ValueError"

text \<open>\<open>Decimal(str(x))\<close> for a float and \<open>Decimal(n)\<close> for an integer: both exact.\<close>

fun dec_of_float :: "pyfloat \<Rightarrow> decimal" where
  "dec_of_float (FDec c e) = DFin c e"
| "dec_of_float FNan = DNan"
| "dec_of_float (FInf neg) = DInf neg"

definition dec_of_int :: "int \<Rightarrow> decimal" where
  "dec_of_int n = DFin n 0"

subsection \<open>Exactness\<close>

lemma digits10_le_iff: "0 < k \<Longrightarrow> digits10 n \<le> k \<longleftrightarrow> n < 10 ^ k"
proof (induction n arbitrary: k rule: digits10.induct)
  case (1 n)
  show ?case
  proof (cases "n < 10")
    case True
    from \<open>0 < k\<close> have "(10::nat) ^ 1 \<le> 10 ^ k" by (intro power_increasing) auto
    with True have "n < 10 ^ k" by simp
    with True 1(2) show ?thesis by (simp add: digits10.simps [of n])
  next
    case False
    obtain j where k: "k = Suc j" using 1(2) by (cases k) auto
    show ?thesis
    proof (cases "j = 0")
      case True
      have "digits10 (n div 10) > 0" by (subst digits10.simps) simp
      with True False k show ?thesis by (simp add: digits10.simps [of n])
    next
      case j: False
      have "digits10 n \<le> k \<longleftrightarrow> digits10 (n div 10) \<le> j"
        using False k by (simp add: digits10.simps [of n])
      also have "\<dots> \<longleftrightarrow> n div 10 < 10 ^ j" using 1(1) [OF False, of j] j by simp
      also have "\<dots> \<longleftrightarrow> n < 10 ^ k" by (simp add: k div_less_iff_less_mult mult.commute)
      finally show ?thesis .
    qed
  qed
qed

lemma ctx_round_exact: "\<bar>c\<bar> < 10 ^ 28 \<Longrightarrow> ctx_round c e = DFin c e"
proof -
  assume "\<bar>c\<bar> < 10 ^ 28"
  then have "nat \<bar>c\<bar> < 10 ^ 28" by simp
  then have "digits10 (nat \<bar>c\<bar>) \<le> 28" by (subst digits10_le_iff) auto
  then show ?thesis by (simp add: ctx_round_def)
qed

text \<open>Code equation: a coefficient that fits is returned without counting its digits.\<close>

lemma ctx_round_code [code]:
  "ctx_round c e =
     (if \<bar>c\<bar> < 10000000000000000000000000000 then DFin c e
      else let n = digits10 (nat \<bar>c\<bar>); s = n - 28; q = half_even_div c (10 ^ s) in
        if n \<le> 28 then DFin c e
        else if \<bar>q\<bar> = 10 ^ 28 then DFin (q div 10) (e + int s + 1) else DFin q (e + int s))"
  using ctx_round_exact [of c e] by (simp add: ctx_round_def Let_def)

lemma dec_val_nonneg_exp: "0 \<le> e \<Longrightarrow> dec_val c e = of_int (c * 10 ^ nat e)"
  by (simp add: dec_val_def pow10_def)

lemma dec_val_neg_exp: "e < 0 \<Longrightarrow> dec_val c e = of_int c / of_int (10 ^ nat (- e))"
  by (simp add: dec_val_def pow10_def)

lemma int_round_ceiling: "int_round ROUND_CEILING c e = \<lceil>dec_val c e\<rceil>"
proof (cases "0 \<le> e")
  case True
  then show ?thesis by (simp add: int_round_def dec_val_nonneg_exp del: of_int_mult of_int_power)
next
  case False
  then have "dec_val c e = of_int c / of_int (10 ^ nat (- e))" by (simp add: dec_val_neg_exp)
  then have "\<lceil>dec_val c e\<rceil> = - ((- c) div 10 ^ nat (- e))"
    by (simp only: ceiling_divide_eq_div)
  with False show ?thesis by (simp add: int_round_def)
qed

lemma int_round_floor: "int_round ROUND_FLOOR c e = \<lfloor>dec_val c e\<rfloor>"
proof (cases "0 \<le> e")
  case True
  then show ?thesis by (simp add: int_round_def dec_val_nonneg_exp del: of_int_mult of_int_power)
next
  case False
  then have "dec_val c e = of_int c / of_int (10 ^ nat (- e))" by (simp add: dec_val_neg_exp)
  then have "\<lfloor>dec_val c e\<rfloor> = c div 10 ^ nat (- e)"
    by (simp only: floor_divide_of_int_eq)
  with False show ?thesis by (simp add: int_round_def)
qed

lemma dec_mul_exact:
  "\<bar>c * d\<bar> < 10 ^ 28 \<Longrightarrow> dec_mul (DFin c e) (DFin d f) = Inr (DFin (c * d) (e + f))"
  by (simp add: ctx_round_exact)

lemma dec_val_align: "m \<le> e \<Longrightarrow> dec_val (c * 10 ^ nat (e - m)) m = dec_val c e"
  by (simp add: dec_val_shift)

lemma dec_val_plus: "dec_val (c + d) e = dec_val c e + dec_val d e"
  by (simp add: dec_val_def distrib_right)

end
