(* ===== verification/Budget_Policy.thy ===== *)
theory Budget_Policy imports Py_Decimal begin

text \<open>
  \<open>app/gateway/budget_policy.py\<close>: the policy document of the inference budget guard, its
  field constraints, the choice of budget scope and price for a request, the cost estimate in
  integer micro-USD, and loading from the environment. SHA-256, the canonical JSON dump, the
  file system and the pydantic decoder are parameters.
\<close>

subsection \<open>The policy document\<close>

record ModelPrice =
  input_per_million :: pyfloat
  output_per_million :: pyfloat

record ScopeBudget =
  budget_usd :: pyfloat
  window_seconds :: int
  soft_warning_ratio :: pyfloat
  reservation_ttl_seconds :: pyfloat

record TenantBudgetPolicy = ScopeBudget +
  api_keys :: "(string, ScopeBudget) dict"

record InferenceBudgetPolicy =
  policy_version :: string
  policy_enabled :: bool
  default_budget :: ScopeBudget
  budget_tenants :: "(string, TenantBudgetPolicy) dict"
  prices :: "(string, ModelPrice) dict"
  require_store :: bool

text \<open>The \<open>Field\<close> constraints.\<close>

definition valid_price :: "ModelPrice \<Rightarrow> bool" where
  "valid_price p = (f_ge (input_per_million p) 0 \<and> f_ge (output_per_million p) 0)"

definition valid_scope_budget :: "('a) ScopeBudget_scheme \<Rightarrow> bool" where
  "valid_scope_budget b =
     (f_gt (budget_usd b) 0 \<and> 0 < window_seconds b
      \<and> f_gt (soft_warning_ratio b) 0 \<and> f_le (soft_warning_ratio b) 1
      \<and> f_gt (reservation_ttl_seconds b) 0)"

definition require_default_price :: "(string, ModelPrice) dict \<Rightarrow> py_exc + (string, ModelPrice) dict" where
  "require_default_price value =
     (if ''*'' \<notin> keys value \<and> ''default'' \<notin> keys value then Inl ValueError else Inr value)"

definition non_empty_version :: "InferenceBudgetPolicy \<Rightarrow> py_exc + InferenceBudgetPolicy" where
  "non_empty_version p = (if strip (policy_version p) = [] then Inl ValueError else Inr p)"

text \<open>
  A document accepted by the model with its \<open>prices\<close> given: field constraints, then the two
  validators.
\<close>

definition valid_policy :: "InferenceBudgetPolicy \<Rightarrow> bool" where
  "valid_policy p =
     (policy_version p \<noteq> [] \<and> non_empty_version p = Inr p
      \<and> valid_scope_budget (default_budget p)
      \<and> list_all (\<lambda>(k, t). valid_scope_budget t \<and> list_all (\<lambda>(a, b). valid_scope_budget b) (api_keys t))
          (budget_tenants p)
      \<and> list_all (\<lambda>(k, x). valid_price x) (prices p)
      \<and> require_default_price (prices p) = Inr (prices p))"

subsection \<open>Scope and price of a request\<close>

definition api_key_fingerprint :: "(string \<Rightarrow> string) \<Rightarrow> string \<Rightarrow> string" where
  "api_key_fingerprint sha256_hex api_key = take 16 (sha256_hex api_key)"

definition scope_budget_of_tenant :: "TenantBudgetPolicy \<Rightarrow> ScopeBudget" where
  "scope_budget_of_tenant t =
     \<lparr>budget_usd = budget_usd t, window_seconds = window_seconds t,
      soft_warning_ratio = soft_warning_ratio t,
      reservation_ttl_seconds = reservation_ttl_seconds t\<rparr>"

definition scope_for ::
  "(string \<Rightarrow> string) \<Rightarrow> InferenceBudgetPolicy \<Rightarrow> string \<Rightarrow> string option \<Rightarrow> string \<times> ScopeBudget" where
  "scope_for sha256_hex p tenant_id api_key =
     (case dict_get (budget_tenants p) tenant_id of
        None \<Rightarrow> (''tenant:'' @ tenant_id, default_budget p)
      | Some tenant \<Rightarrow>
          (case api_key of
             Some k \<Rightarrow>
               (case (if k \<noteq> [] then dict_get (api_keys tenant) k else None) of
                  Some b \<Rightarrow>
                    (''key:'' @ tenant_id @ '':'' @ api_key_fingerprint sha256_hex k, b)
                | None \<Rightarrow> (''tenant:'' @ tenant_id, scope_budget_of_tenant tenant))
           | None \<Rightarrow> (''tenant:'' @ tenant_id, scope_budget_of_tenant tenant)))"

definition price_for :: "InferenceBudgetPolicy \<Rightarrow> string \<Rightarrow> py_exc + ModelPrice" where
  "price_for p model =
     (case dict_get (prices p) model of
        Some x \<Rightarrow> Inr x
      | None \<Rightarrow>
          (case dict_get (prices p) ''*'' of
             Some x \<Rightarrow> Inr x
           | None \<Rightarrow>
               (case dict_get (prices p) ''default'' of
                  Some x \<Rightarrow> Inr x
                | None \<Rightarrow> Inl KeyError)))"

definition estimate_cost_micros :: "InferenceBudgetPolicy \<Rightarrow> string \<Rightarrow> int \<Rightarrow> int \<Rightarrow> py_exc + int" where
  "estimate_cost_micros p model input_tokens output_tokens =
     bind_exc (price_for p model) (\<lambda>price.
     bind_exc (dec_mul (dec_of_int (max 0 input_tokens)) (dec_of_float (input_per_million price))) (\<lambda>a.
     bind_exc (dec_mul (dec_of_int (max 0 output_tokens)) (dec_of_float (output_per_million price))) (\<lambda>b.
     bind_exc (dec_add a b) (\<lambda>micros. dec_to_int ROUND_CEILING micros))))"

definition estimate_cost_usd :: "InferenceBudgetPolicy \<Rightarrow> string \<Rightarrow> int \<Rightarrow> int \<Rightarrow> py_exc + rat" where
  "estimate_cost_usd p model input_tokens output_tokens =
     bind_exc (estimate_cost_micros p model input_tokens output_tokens)
       (\<lambda>micros. Inr (of_int micros / 1000000))"

definition policy_sha256 ::
  "(string \<Rightarrow> string) \<Rightarrow> (InferenceBudgetPolicy \<Rightarrow> string) \<Rightarrow> InferenceBudgetPolicy \<Rightarrow> string" where
  "policy_sha256 sha256_hex canonical_bytes p = ''sha256:'' @ sha256_hex (canonical_bytes p)"

subsection \<open>Loading\<close>

datatype load_error = BudgetPolicyError string | Uncaught py_exc

text \<open>
  \<open>_load_raw_policy\<close>: the file wins over the inline document; both empty is \<open>None\<close>. An
  \<open>OSError\<close> of \<open>open\<close> is \<open>OtherError ''OSError''\<close>, a decoding fault is \<open>ValueError\<close>
  (\<open>JSONDecodeError\<close> is a subclass).
\<close>

definition load_raw_policy ::
  "(string \<Rightarrow> py_exc + json) \<Rightarrow> (string \<Rightarrow> py_exc + json) \<Rightarrow> string \<Rightarrow> string \<Rightarrow> py_exc + json" where
  "load_raw_policy read_json_file json_loads path_env raw_env =
     (let path = strip path_env; raw = strip raw_env in
      if path \<noteq> [] then read_json_file path
      else if raw \<noteq> [] then json_loads raw
      else Inr JNull)"

definition load_inference_budget_policy ::
  "(string \<Rightarrow> py_exc + json) \<Rightarrow> (string \<Rightarrow> py_exc + json) \<Rightarrow> (json \<Rightarrow> py_exc + InferenceBudgetPolicy)
   \<Rightarrow> string \<Rightarrow> string \<Rightarrow> string \<Rightarrow> load_error + InferenceBudgetPolicy option" where
  "load_inference_budget_policy read_json_file json_loads model_validate enabled_env path_env raw_env =
     (if \<not> env_flag enabled_env then Inr None
      else (case load_raw_policy read_json_file json_loads path_env raw_env of
        Inl e \<Rightarrow>
          if e = OtherError ''OSError'' \<or> e = TypeError \<or> e = ValueError
          then Inl (BudgetPolicyError ''malformed'') else Inl (Uncaught e)
      | Inr data \<Rightarrow>
          if data = JNull then Inl (BudgetPolicyError ''missing'')
          else (case model_validate data of
             Inl e \<Rightarrow> Inl (BudgetPolicyError ''malformed'')
           | Inr p \<Rightarrow> Inr (Some p))))"

subsection \<open>Lemmas\<close>

lemmas policy_defs = scope_for_def price_for_def estimate_cost_micros_def

lemma price_for_total:
  "require_default_price (prices p) = Inr (prices p) \<Longrightarrow> \<exists>x. price_for p m = Inr x \<and> x \<in> snd ` set (prices p)"
  by (force simp: price_for_def require_default_price_def get_None_iff [symmetric]
      dest: map_of_SomeD split: option.splits if_splits)

lemma scope_for_cases:
  obtains (tenant) b where "scope_for h p t k = (''tenant:'' @ t, b)"
  | (key) a b where "k = Some a" "a \<noteq> []" "scope_for h p t k = (''key:'' @ t @ '':'' @ api_key_fingerprint h a, b)"
proof -
  have "(\<exists>b. scope_for h p t k = (''tenant:'' @ t, b)) \<or>
    (\<exists>a b. k = Some a \<and> a \<noteq> [] \<and> scope_for h p t k = (''key:'' @ t @ '':'' @ api_key_fingerprint h a, b))"
    by (auto simp: scope_for_def split: option.splits if_splits)
  with that show thesis by blast
qed

lemma scope_for_valid:
  "valid_policy p \<Longrightarrow> valid_scope_budget (snd (scope_for h p t k))"
  by (fastforce simp: scope_for_def valid_policy_def list_all_iff valid_scope_budget_def
      scope_budget_of_tenant_def dest: map_of_SomeD split: option.splits if_splits)

lemma append_same_suffix:
  "xs @ us = ys @ vs \<Longrightarrow> length us = length vs \<Longrightarrow> xs = ys \<and> us = vs"
  by (metis append_eq_append_conv)

text \<open>A price with at most six decimals and nine digits, as price lists have.\<close>

definition plain_price :: "pyfloat \<Rightarrow> bool" where
  "plain_price x = (case x of FDec c e \<Rightarrow> 0 \<le> c \<and> c < 10 ^ 9 \<and> -6 \<le> e \<and> e \<le> 0 | _ \<Rightarrow> False)"

lemma plain_price_cases:
  assumes "plain_price x"
  obtains c e where "x = FDec c e" "0 \<le> c" "c < 10 ^ 9" "-6 \<le> e" "e \<le> 0"
  using assms by (cases x) (auto simp: plain_price_def)

lemma pow10_shift_le: "-6 \<le> (m::int) \<Longrightarrow> e \<le> 0 \<Longrightarrow> (10::int) ^ nat (e - m) \<le> 10 ^ 6"
  by (rule power_increasing) auto

lemma term_bound:
  assumes "0 \<le> t" "t < 10 ^ 12" "0 \<le> c" "c < (10::int) ^ 9"
  shows "0 \<le> t * c" "t * c < 10 ^ 21"
proof -
  show "0 \<le> t * c" using assms by simp
  have "t * c \<le> 10 ^ 12 * c" using assms by (intro mult_right_mono) auto
  also have "\<dots> < 10 ^ 12 * 10 ^ 9" using assms by (intro mult_strict_left_mono) auto
  finally show "t * c < 10 ^ 21" by simp
qed

lemma sum_of_products_exact:
  assumes t: "0 \<le> s" "s < 10 ^ 12" "0 \<le> t" "t < (10::int) ^ 12"
    and c: "0 \<le> c" "c < 10 ^ 9" "-6 \<le> e" "e \<le> 0"
    and d: "0 \<le> d" "d < 10 ^ 9" "-6 \<le> f" "f \<le> 0"
  shows "\<exists>n m. dec_add (DFin (s * c) e) (DFin (t * d) f) = Inr (DFin n m)
           \<and> dec_val n m = of_int s * dec_val c e + of_int t * dec_val d f"
proof -
  let ?m = "min e f"
  let ?a = "s * c * 10 ^ nat (e - ?m)" and ?b = "t * d * 10 ^ nat (f - ?m)"
  note sc = term_bound [OF t(1,2) c(1,2)] and td = term_bound [OF t(3,4) d(1,2)]
  have "?a \<le> 10 ^ 21 * 10 ^ 6"
    using sc c d by (intro mult_mono pow10_shift_le) auto
  moreover have "?b \<le> 10 ^ 21 * 10 ^ 6"
    using td c d by (intro mult_mono pow10_shift_le) auto
  moreover have "0 \<le> ?a" "0 \<le> ?b" using sc(1) td(1) by simp_all
  ultimately have "\<bar>?a + ?b\<bar> < 10 ^ 28" by simp
  then have "dec_add (DFin (s * c) e) (DFin (t * d) f) = Inr (DFin (?a + ?b) ?m)"
    by (simp add: ctx_round_exact Let_def)
  moreover have "dec_val (?a + ?b) ?m = of_int s * dec_val c e + of_int t * dec_val d f"
    by (simp only: dec_val_plus dec_val_align min.cobounded1 min.cobounded2)
      (simp add: dec_val_def)
  ultimately show ?thesis by blast
qed

subsection \<open>Properties\<close>

text \<open>
  The estimate a reservation is made with is never below the exact cost. For a policy whose
  price entry for the model has at most six decimals and nine digits, and token counts up to
  \<open>10 ^ 12\<close> (negative counts read as 0), \<open>estimate_cost_micros\<close> is exactly the ceiling of
  tokens times price: no binary or decimal rounding error, and less than one micro above.
\<close>

theorem estimate_is_exact_ceiling:
  assumes "price_for p model = Inr price"
    and "plain_price (input_per_million price)" and "plain_price (output_per_million price)"
    and "input_tokens < 10 ^ 12" and "output_tokens < 10 ^ 12"
  shows "estimate_cost_micros p model input_tokens output_tokens =
    Inr \<lceil>of_int (max 0 input_tokens) * fval (input_per_million price)
        + of_int (max 0 output_tokens) * fval (output_per_million price)\<rceil>"
proof -
  obtain c e where i: "input_per_million price = FDec c e" "0 \<le> c" "c < 10 ^ 9" "-6 \<le> e" "e \<le> 0"
    using assms(2) by (rule plain_price_cases)
  obtain d f where o: "output_per_million price = FDec d f" "0 \<le> d" "d < 10 ^ 9" "-6 \<le> f" "f \<le> 0"
    using assms(3) by (rule plain_price_cases)
  let ?s = "max 0 input_tokens" and ?t = "max 0 output_tokens"
  have b: "0 \<le> ?s" "?s < 10 ^ 12" "0 \<le> ?t" "?t < 10 ^ 12" using assms(4,5) by auto
  obtain n m where add: "dec_add (DFin (?s * c) e) (DFin (?t * d) f) = Inr (DFin n m)"
    and val: "dec_val n m = of_int ?s * dec_val c e + of_int ?t * dec_val d f"
    using sum_of_products_exact [OF b i(2-5) o(2-5)] by blast
  have "\<bar>?s * c\<bar> < 10 ^ 28" "\<bar>?t * d\<bar> < 10 ^ 28"
    using term_bound [OF b(1,2) i(2,3)] term_bound [OF b(3,4) o(2,3)] by simp_all
  then have "dec_mul (DFin ?s 0) (DFin c e) = Inr (DFin (?s * c) e)"
    and "dec_mul (DFin ?t 0) (DFin d f) = Inr (DFin (?t * d) f)"
    by (simp_all add: ctx_round_exact)
  with add show ?thesis
    unfolding estimate_cost_micros_def
    by (simp add: assms(1) i(1) o(1) dec_of_int_def int_round_ceiling val del: dec_mul.simps dec_add.simps)
qed

definition demo_policy :: InferenceBudgetPolicy where
  "demo_policy =
     \<lparr>policy_version = ''v1'', policy_enabled = True,
      default_budget = \<lparr>budget_usd = FDec 1 0, window_seconds = 3600,
        soft_warning_ratio = FDec 8 (-1), reservation_ttl_seconds = FDec 120 0\<rparr>,
      budget_tenants = [], prices = [(''*'', \<lparr>input_per_million = FDec 25 (-2), output_per_million = FDec 15 (-1)\<rparr>)],
      require_store = True\<rparr>"

theorem estimate_is_exact_ceiling_witness:
  "estimate_cost_micros demo_policy ''qwen'' 3 5 =
    Inr \<lceil>of_int (max 0 3) * fval (FDec 25 (-2)) + of_int (max 0 5) * fval (FDec 15 (-1))\<rceil>"
  using estimate_is_exact_ceiling [of demo_policy "''qwen''"
      "\<lparr>input_per_million = FDec 25 (-2), output_per_million = FDec 15 (-1)\<rparr>" 3 5]
  by (simp add: price_for_def demo_policy_def plain_price_def)

text \<open>
  Budgets of different tenants are never shared. If two requests are charged to the same
  scope key then they belong to the same tenant, whatever the tenant ids, API keys and policy
  are, provided the fingerprint hash prints at least 16 characters (SHA-256 prints 64).
\<close>

theorem scope_for_separates_tenants:
  assumes "\<And>x. 16 \<le> length (sha256_hex x)"
    and "fst (scope_for sha256_hex p tenant1 key1) = fst (scope_for sha256_hex p tenant2 key2)"
  shows "tenant1 = tenant2"
proof -
  have len: "length (api_key_fingerprint sha256_hex a) = 16" for a
    using assms(1) [of a] by (simp add: api_key_fingerprint_def)
  show ?thesis
  proof (cases rule: scope_for_cases [of sha256_hex p tenant1 key1])
    case (tenant b)
    with assms(2) show ?thesis
      by (cases rule: scope_for_cases [of sha256_hex p tenant2 key2]) auto
  next
    case (key a b)
    show ?thesis
    proof (cases rule: scope_for_cases [of sha256_hex p tenant2 key2])
      case (tenant b')
      with key assms(2) show ?thesis by simp
    next
      case key2: (key a' b')
      have "tenant1 @ '':'' @ api_key_fingerprint sha256_hex a =
            tenant2 @ '':'' @ api_key_fingerprint sha256_hex a'"
        using key key2 assms(2) by simp
      then show ?thesis by (auto dest!: append_same_suffix simp: len)
    qed
  qed
qed

theorem scope_for_separates_tenants_witness:
  "(\<forall>x::string. 16 \<le> length (replicate 64 (CHR ''a'')))
   \<and> fst (scope_for (\<lambda>_. replicate 64 (CHR ''a'')) demo_policy ''t'' None) =
     fst (scope_for (\<lambda>_. replicate 64 (CHR ''a'')) demo_policy ''t'' (Some ''k''))
   \<and> ''t'' = ''t''"
  using scope_for_separates_tenants [of "\<lambda>_. replicate 64 (CHR ''a'')" demo_policy "''t''" None "''t''" "Some ''k''"]
  by (simp add: scope_for_def demo_policy_def)

text \<open>
  The loader never lets an enabled guard start without a policy. With the feature flag on,
  the result is an error or a policy the decoder accepted: no environment makes it the
  \<open>None\<close> that means "feature off".
\<close>

theorem load_policy_fails_closed:
  assumes "env_flag enabled_env"
  shows "case load_inference_budget_policy read_file loads validate enabled_env path_env raw_env of
      Inl e \<Rightarrow> True
    | Inr None \<Rightarrow> False
    | Inr (Some p) \<Rightarrow> \<exists>data. load_raw_policy read_file loads path_env raw_env = Inr data \<and> validate data = Inr p"
  using assms by (auto simp: load_inference_budget_policy_def split: sum.splits)

theorem load_policy_fails_closed_witness:
  "env_flag '' TRUE '' \<and>
   load_inference_budget_policy (\<lambda>_. Inl ValueError) (\<lambda>_. Inr (JObj [])) (\<lambda>_. Inr demo_policy) '' TRUE '' [] ''{}'' = Inr (Some demo_policy)"
proof -
  have flag: "env_flag '' TRUE ''" by code_simp
  have res: "load_inference_budget_policy (\<lambda>_. Inl ValueError) (\<lambda>_. Inr (JObj [])) (\<lambda>_. Inr demo_policy) '' TRUE '' [] ''{}'' = Inr (Some demo_policy)"
    unfolding load_inference_budget_policy_def load_raw_policy_def using flag by simp code_simp
  from load_policy_fails_closed [OF flag, where read_file = "\<lambda>_. Inl ValueError"
      and loads = "\<lambda>_. Inr (JObj [])" and validate = "\<lambda>_. Inr demo_policy" and path_env = "[]" and raw_env = "''{}''"]
  show ?thesis using flag res by simp
qed

end
