(* ===== verification/Budget_Store.thy ===== *)
theory Budget_Store imports Prelude begin

text \<open>
  What a budget store promises to the guard, whatever keeps the window: one scope's state with
  live reservations, expired but unsettled ones (tombstones), the spend committed in the window
  and the exposure (committed plus reserved), and the three operations on it. The lemmas every
  backend inherits: settling is exactly once over any run, and the exposure never exceeds the
  cap by more than what late or over-estimate settlements added.
\<close>

datatype budget_event =
    EReserve string int int   \<comment> \<open>reservation id, clock, estimate\<close>
  | ESettle string int int    \<comment> \<open>reservation id, clock, actual spend\<close>
  | EPurge int                \<comment> \<open>clock\<close>

locale budget_store =
  fixes inv :: "'s \<Rightarrow> bool"
    and exposure :: "'s \<Rightarrow> int"
    and live :: "'s \<Rightarrow> string \<Rightarrow> int option"
    and late :: "'s \<Rightarrow> string \<Rightarrow> int option"
    and reserve :: "int \<Rightarrow> int \<Rightarrow> int \<Rightarrow> string \<Rightarrow> 's \<Rightarrow> bool \<times> 's"
    and settle :: "int \<Rightarrow> string \<Rightarrow> int \<Rightarrow> 's \<Rightarrow> 's"
    and purge :: "int \<Rightarrow> 's \<Rightarrow> 's"
  assumes reserve_inv: "inv s \<Longrightarrow> 0 \<le> est \<Longrightarrow> live s i = None \<Longrightarrow> late s i = None \<Longrightarrow> inv (snd (reserve now cap est i s))"
    and reserve_allow: "inv s \<Longrightarrow> fst (reserve now cap est i s) \<Longrightarrow> exposure (snd (reserve now cap est i s)) \<le> cap"
    and reserve_deny: "inv s \<Longrightarrow> \<not> fst (reserve now cap est i s) \<Longrightarrow> exposure (snd (reserve now cap est i s)) \<le> exposure s"
    and reserve_frame: "inv s \<Longrightarrow> j \<noteq> i \<Longrightarrow> live s j = None \<Longrightarrow> late s j = None \<Longrightarrow>
      live (snd (reserve now cap est i s)) j = None \<and> late (snd (reserve now cap est i s)) j = None"
    and settle_inv: "inv s \<Longrightarrow> 0 \<le> actual \<Longrightarrow> inv (settle now i actual s)"
    and settle_live: "inv s \<Longrightarrow> 0 \<le> actual \<Longrightarrow> live s i = Some a \<Longrightarrow> exposure (settle now i actual s) \<le> exposure s - a + actual"
    and settle_late: "inv s \<Longrightarrow> 0 \<le> actual \<Longrightarrow> live s i = None \<Longrightarrow> late s i = Some a \<Longrightarrow> exposure (settle now i actual s) \<le> exposure s + actual"
    and settle_unknown: "inv s \<Longrightarrow> live s i = None \<Longrightarrow> late s i = None \<Longrightarrow> settle now i actual s = s"
    and settle_gone: "inv s \<Longrightarrow> 0 \<le> actual \<Longrightarrow> live (settle now i actual s) i = None \<and> late (settle now i actual s) i = None"
    and settle_frame: "inv s \<Longrightarrow> live s j = None \<Longrightarrow> late s j = None \<Longrightarrow>
      live (settle now i actual s) j = None \<and> late (settle now i actual s) j = None"
    and purge_inv: "inv s \<Longrightarrow> inv (purge now s)"
    and purge_exposure: "inv s \<Longrightarrow> exposure (purge now s) \<le> exposure s"
    and purge_frame: "inv s \<Longrightarrow> live s j = None \<Longrightarrow> late s j = None \<Longrightarrow>
      live (purge now s) j = None \<and> late (purge now s) j = None"
begin

definition unknown :: "'s \<Rightarrow> string \<Rightarrow> bool" where
  "unknown s i \<longleftrightarrow> live s i = None \<and> late s i = None"

text \<open>One event against the cap, and what it may add to the exposure beyond the cap.\<close>

fun apply_event :: "int \<Rightarrow> budget_event \<Rightarrow> 's \<Rightarrow> 's" where
  "apply_event cap (EReserve i now est) s = snd (reserve now cap est i s)"
| "apply_event cap (ESettle i now actual) s = settle now i actual s"
| "apply_event cap (EPurge now) s = purge now s"

fun overshoot :: "'s \<Rightarrow> budget_event \<Rightarrow> int" where
  "overshoot s (ESettle i now actual) =
     (case live s i of
        Some a \<Rightarrow> max 0 (actual - a)
      | None \<Rightarrow> (case late s i of Some a \<Rightarrow> actual | None \<Rightarrow> 0))"
| "overshoot s _ = 0"

text \<open>The events the guard produces: fresh ids, estimates and charges that are not negative.\<close>

fun legal :: "'s \<Rightarrow> budget_event \<Rightarrow> bool" where
  "legal s (EReserve i now est) = (0 \<le> est \<and> unknown s i)"
| "legal s (ESettle i now actual) = (0 \<le> actual)"
| "legal s (EPurge now) = True"

fun legal_run :: "int \<Rightarrow> budget_event list \<Rightarrow> 's \<Rightarrow> bool" where
  "legal_run cap [] s = True"
| "legal_run cap (e # es) s = (legal s e \<and> legal_run cap es (apply_event cap e s))"

fun run :: "int \<Rightarrow> budget_event list \<Rightarrow> 's \<Rightarrow> 's" where
  "run cap [] s = s"
| "run cap (e # es) s = run cap es (apply_event cap e s)"

fun total_overshoot :: "int \<Rightarrow> budget_event list \<Rightarrow> 's \<Rightarrow> int" where
  "total_overshoot cap [] s = 0"
| "total_overshoot cap (e # es) s = overshoot s e + total_overshoot cap es (apply_event cap e s)"

fun reserves :: "string \<Rightarrow> budget_event \<Rightarrow> bool" where
  "reserves i (EReserve j now est) = (i = j)"
| "reserves i _ = False"

lemma overshoot_nonneg: "legal s e \<Longrightarrow> 0 \<le> overshoot s e"
  by (cases e) (auto split: option.splits)

lemma apply_event_inv: "inv s \<Longrightarrow> legal s e \<Longrightarrow> inv (apply_event cap e s)"
  by (cases e) (auto simp: unknown_def intro: reserve_inv settle_inv purge_inv)

lemma apply_event_exposure:
  assumes "inv s" and "legal s e" and "exposure s \<le> cap + k" and "0 \<le> k"
  shows "exposure (apply_event cap e s) \<le> cap + k + overshoot s e"
proof (cases e)
  case (EReserve i now est)
  show ?thesis
  proof (cases "fst (reserve now cap est i s)")
    case True
    with EReserve assms reserve_allow [of s now cap est i] show ?thesis by simp
  next
    case False
    with EReserve assms reserve_deny [of s now cap est i] show ?thesis by simp
  qed
next
  case (ESettle i now actual)
  show ?thesis
  proof (cases "live s i")
    case None
    then show ?thesis
      using ESettle assms settle_late [of s actual i _ now] settle_unknown [of s i now actual]
      by (cases "late s i") fastforce+
  next
    case (Some a)
    then show ?thesis using ESettle assms settle_live [of s actual i a now] by simp
  qed
next
  case (EPurge now)
  then show ?thesis using assms purge_exposure [of s now] by simp
qed

lemma run_exposure:
  assumes "inv s" and "legal_run cap es s" and "exposure s \<le> cap + k" and "0 \<le> k"
  shows "inv (run cap es s) \<and> exposure (run cap es s) \<le> cap + k + total_overshoot cap es s"
  using assms
proof (induction es arbitrary: s k)
  case Nil
  then show ?case by simp
next
  case (Cons e es)
  let ?s = "apply_event cap e s"
  have "inv ?s" using Cons.prems by (simp add: apply_event_inv)
  moreover have "exposure ?s \<le> cap + (k + overshoot s e)"
    using apply_event_exposure [of s e cap k] Cons.prems by simp
  moreover have "0 \<le> k + overshoot s e" using Cons.prems overshoot_nonneg [of s e] by simp
  ultimately have "inv (run cap es ?s) \<and> exposure (run cap es ?s) \<le> cap + (k + overshoot s e) + total_overshoot cap es ?s"
    using Cons.IH [of ?s "k + overshoot s e"] Cons.prems(2) by simp
  then show ?case by simp
qed

lemma unknown_run:
  assumes "inv s" and "legal_run cap es s" and "unknown s i" and "\<forall>e\<in>set es. \<not> reserves i e"
  shows "inv (run cap es s) \<and> unknown (run cap es s) i"
  using assms
proof (induction es arbitrary: s)
  case Nil
  then show ?case by simp
next
  case (Cons e es)
  have "unknown (apply_event cap e s) i"
    using Cons.prems reserve_frame settle_frame purge_frame
    by (cases e) (auto simp: unknown_def)
  with Cons show ?case by (simp add: apply_event_inv)
qed

lemma settled_once:
  assumes "inv s" and "0 \<le> actual" and "legal_run cap es (settle now i actual s)"
    and "\<forall>e\<in>set es. \<not> reserves i e"
  shows "settle now' i actual' (run cap es (settle now i actual s)) = run cap es (settle now i actual s)"
proof -
  have "unknown (settle now i actual s) i"
    using settle_gone [OF assms(1,2)] by (simp add: unknown_def)
  then have "inv (run cap es (settle now i actual s)) \<and> unknown (run cap es (settle now i actual s)) i"
    using assms by (intro unknown_run settle_inv) auto
  then show ?thesis by (auto simp: unknown_def intro: settle_unknown)
qed

end

end
