(* ===== verification/Budget_Memory.thy ===== *)
theory Budget_Memory imports Budget_Store begin

text \<open>
  The in-process window of \<open>app/gateway/budget_guard.py\<close> (\<open>_MemoryWindow\<close>, \<open>_expire_memory\<close>,
  \<open>_roll_window\<close> and the critical sections of \<open>_reserve_memory\<close>, \<open>_settle\<close>, \<open>purge_expired\<close> and
  \<open>snapshot_micros\<close>): money in integer micros, clocks in milliseconds. Its invariant says that the
  running total \<open>reserved_micros\<close> is the sum of the live reservations, so that no
  \<open>max(0, ...)\<close> of the code ever cuts anything off; the window is an interpretation of
  \<open>budget_store\<close>.
\<close>

subsection \<open>State\<close>

record MemoryWindow =
  window_start_ms :: int
  committed_micros :: int
  reserved_micros :: int
  reservations :: "(string, int \<times> int) dict"   \<comment> \<open>id to expiry and micros\<close>
  tombstones :: "(string, int \<times> int) dict"     \<comment> \<open>id to forget-after and micros\<close>

definition new_window :: MemoryWindow where
  "new_window = \<lparr>window_start_ms = 0, committed_micros = 0, reserved_micros = 0, reservations = [], tombstones = []\<rparr>"

subsection \<open>Operations\<close>

text \<open>
  \<open>_expire_memory\<close>: the ids are collected first, then each is popped; an id that is not found
  would raise \<open>KeyError\<close>, which cannot happen (the ids come from the dictionary itself, whose
  keys are distinct: \<open>expire_ids_found\<close>).
\<close>

definition expired_ids :: "MemoryWindow \<Rightarrow> int \<Rightarrow> string list" where
  "expired_ids st now_ms = map fst (filter (\<lambda>(res_id, expiry, amt). expiry \<le> now_ms) (reservations st))"

fun expire_each :: "int \<Rightarrow> int \<Rightarrow> string list \<Rightarrow> MemoryWindow \<Rightarrow> MemoryWindow" where
  "expire_each now_ms keys_ttl_ms [] st = st"
| "expire_each now_ms keys_ttl_ms (res_id # ids) st =
     (case dict_get (reservations st) res_id of
        None \<Rightarrow> expire_each now_ms keys_ttl_ms ids st
      | Some (expiry, amt) \<Rightarrow>
          expire_each now_ms keys_ttl_ms ids
            (st\<lparr>reservations := dict_pop res_id (reservations st),
                reserved_micros := max 0 (reserved_micros st - amt),
                tombstones := dict_set res_id (now_ms + keys_ttl_ms, amt) (tombstones st)\<rparr>))"

definition drop_stale :: "int \<Rightarrow> MemoryWindow \<Rightarrow> MemoryWindow" where
  "drop_stale now_ms st =
     st\<lparr>tombstones := filter (\<lambda>(rid, forget, a). \<not> forget \<le> now_ms) (tombstones st)\<rparr>"

definition expire_memory :: "MemoryWindow \<Rightarrow> int \<Rightarrow> int \<Rightarrow> MemoryWindow \<times> int" where
  "expire_memory st now_ms keys_ttl_ms =
     (let ids = expired_ids st now_ms
      in (drop_stale now_ms (expire_each now_ms keys_ttl_ms ids st), int (length ids)))"

definition roll_window :: "MemoryWindow \<Rightarrow> int \<Rightarrow> int \<Rightarrow> MemoryWindow" where
  "roll_window st now_ms window_ms =
     (if window_start_ms st = 0 \<or> now_ms - window_start_ms st \<ge> window_ms
      then st\<lparr>window_start_ms := now_ms, committed_micros := 0\<rparr> else st)"

text \<open>The body of \<open>async with self._lock\<close> in \<open>_reserve_memory\<close>, split where \<open>budget_to_micros\<close> may raise.\<close>

definition reserve_prepare :: "int \<Rightarrow> int \<Rightarrow> int \<Rightarrow> MemoryWindow \<Rightarrow> MemoryWindow" where
  "reserve_prepare now_ms window_ms ttl_ms st =
     roll_window (fst (expire_memory st now_ms (max window_ms ttl_ms * 4))) now_ms window_ms"

definition reserve_decide ::
  "int \<Rightarrow> int \<Rightarrow> int \<Rightarrow> int \<Rightarrow> string \<Rightarrow> MemoryWindow \<Rightarrow> bool \<times> MemoryWindow" where
  "reserve_decide now_ms ttl_ms budget_micros estimate_micros res_id st =
     (if committed_micros st + reserved_micros st + estimate_micros > budget_micros then (False, st)
      else (True, st\<lparr>reserved_micros := reserved_micros st + estimate_micros,
                     reservations := dict_set res_id (now_ms + ttl_ms, estimate_micros) (reservations st)\<rparr>))"

definition mem_reserve ::
  "int \<Rightarrow> int \<Rightarrow> int \<Rightarrow> int \<Rightarrow> int \<Rightarrow> string \<Rightarrow> MemoryWindow \<Rightarrow> bool \<times> MemoryWindow" where
  "mem_reserve window_ms ttl_ms now_ms budget_micros estimate_micros res_id st =
     reserve_decide now_ms ttl_ms budget_micros estimate_micros res_id
       (reserve_prepare now_ms window_ms ttl_ms st)"

definition commit_spend :: "int \<Rightarrow> int \<Rightarrow> int \<Rightarrow> MemoryWindow \<Rightarrow> MemoryWindow" where
  "commit_spend window_ms now_ms actual_micros st =
     (let st' = roll_window st now_ms window_ms
      in st'\<lparr>committed_micros := committed_micros st' + actual_micros\<rparr>)"

definition mem_settle :: "int \<Rightarrow> int \<Rightarrow> string \<Rightarrow> int \<Rightarrow> MemoryWindow \<Rightarrow> MemoryWindow" where
  "mem_settle window_ms now_ms res_id actual_micros st =
     (case dict_get (reservations st) res_id of
        Some (expiry, reserved_amt) \<Rightarrow>
          commit_spend window_ms now_ms actual_micros
            (st\<lparr>reservations := dict_pop res_id (reservations st),
                reserved_micros := max 0 (reserved_micros st - reserved_amt)\<rparr>)
      | None \<Rightarrow>
          (case dict_get (tombstones st) res_id of
             None \<Rightarrow> st
           | Some t \<Rightarrow>
               commit_spend window_ms now_ms actual_micros
                 (st\<lparr>tombstones := dict_pop res_id (tombstones st)\<rparr>)))"

definition mem_purge :: "int \<Rightarrow> MemoryWindow \<Rightarrow> MemoryWindow" where
  "mem_purge now_ms st = fst (expire_memory st now_ms (4 * 3600000))"

subsection \<open>Invariant\<close>

definition mem_live :: "MemoryWindow \<Rightarrow> string \<Rightarrow> int option" where
  "mem_live st i = map_option snd (dict_get (reservations st) i)"

definition mem_late :: "MemoryWindow \<Rightarrow> string \<Rightarrow> int option" where
  "mem_late st i = map_option snd (dict_get (tombstones st) i)"

definition mem_exposure :: "MemoryWindow \<Rightarrow> int" where
  "mem_exposure st = committed_micros st + reserved_micros st"

definition mem_inv :: "MemoryWindow \<Rightarrow> bool" where
  "mem_inv st \<longleftrightarrow>
     dict_ok (reservations st) \<and> dict_ok (tombstones st)
     \<and> keys (reservations st) \<inter> keys (tombstones st) = {}
     \<and> (\<forall>p\<in>set (reservations st). 0 \<le> snd (snd p))
     \<and> reserved_micros st = dict_sum snd (reservations st)
     \<and> 0 \<le> committed_micros st"

lemmas mem_defs = mem_live_def mem_late_def mem_exposure_def

lemma mem_inv_new [simp]: "mem_inv new_window"
  by (simp add: mem_inv_def new_window_def)

lemma mem_inv_reserved_nonneg: "mem_inv st \<Longrightarrow> 0 \<le> reserved_micros st"
  by (auto simp: mem_inv_def intro!: dict_sum_nonneg)

lemma mem_inv_entry:
  assumes "mem_inv st" and "dict_get (reservations st) i = Some (e, a)"
  shows "0 \<le> a \<and> a \<le> reserved_micros st"
proof -
  have "(i, e, a) \<in> set (reservations st)" using assms(2) by (rule map_of_SomeD)
  moreover from assms(1) have nn: "\<And>p. p \<in> set (reservations st) \<Longrightarrow> 0 \<le> snd (snd p)"
    by (simp add: mem_inv_def)
  ultimately have "0 \<le> a" by fastforce
  moreover have "snd (e, a) \<le> dict_sum snd (reservations st)"
    using nn assms(2) by (intro dict_entry_le_sum) auto
  ultimately show ?thesis using assms(1) by (simp add: mem_inv_def)
qed

text \<open>One expiry, and the pop a settlement makes, keep the invariant; neither clamps.\<close>

lemma mem_inv_pop:
  assumes "mem_inv st" and "dict_get (reservations st) i = Some (e, a)"
  shows "mem_inv (st\<lparr>reservations := dict_pop i (reservations st), reserved_micros := max 0 (reserved_micros st - a)\<rparr>)"
    and "max 0 (reserved_micros st - a) = reserved_micros st - a"
proof -
  have a: "0 \<le> a" "a \<le> reserved_micros st" using mem_inv_entry [OF assms] by simp_all
  then show eq: "max 0 (reserved_micros st - a) = reserved_micros st - a" by simp
  have "dict_sum snd (dict_pop i (reservations st)) = reserved_micros st - a"
    using assms by (simp add: mem_inv_def dict_sum_pop)
  with assms(1) show "mem_inv (st\<lparr>reservations := dict_pop i (reservations st), reserved_micros := max 0 (reserved_micros st - a)\<rparr>)"
    unfolding eq by (auto simp: mem_inv_def keys_pop set_dict_pop)
qed

lemma mem_inv_expire_one:
  assumes "mem_inv st" and "dict_get (reservations st) i = Some (e, a)"
  shows "mem_inv (st\<lparr>reservations := dict_pop i (reservations st), reserved_micros := max 0 (reserved_micros st - a),
           tombstones := dict_set i (t, a) (tombstones st)\<rparr>)"
proof -
  let ?s = "st\<lparr>reservations := dict_pop i (reservations st), reserved_micros := max 0 (reserved_micros st - a)\<rparr>"
  have "mem_inv ?s" by (rule mem_inv_pop(1) [OF assms])
  moreover have "i \<notin> keys (reservations ?s)" by (simp add: keys_pop)
  ultimately show ?thesis by (simp add: mem_inv_def keys_set)
qed

lemma expire_each_inv: "mem_inv st \<Longrightarrow> mem_inv (expire_each now ttl ids st)"
  by (induction ids arbitrary: st) (auto split: option.splits simp: mem_inv_expire_one)

lemma expire_each_reservations:
  "reservations (expire_each now ttl ids st) = filter (\<lambda>p. fst p \<notin> set ids) (reservations st)"
proof (induction ids arbitrary: st)
  case Nil
  then show ?case by simp
next
  case (Cons i ids)
  show ?case
  proof (cases "dict_get (reservations st) i")
    case None
    then have "fst p \<noteq> i" if "p \<in> set (reservations st)" for p
      using that by (auto simp: map_of_eq_None_iff)
    with Cons None show ?thesis by (auto intro!: filter_cong)
  next
    case (Some ea)
    have "filter (\<lambda>p. fst p \<notin> set ids) (dict_pop i (reservations st)) =
      filter (\<lambda>p. fst p \<notin> set (i # ids)) (reservations st)"
      by (auto simp: AList.delete_eq intro!: filter_cong)
    with Cons Some show ?thesis by (simp split: prod.split)
  qed
qed

lemma expire_each_committed [simp]:
  "committed_micros (expire_each now ttl ids st) = committed_micros st"
  "window_start_ms (expire_each now ttl ids st) = window_start_ms st"
  by (induction ids arbitrary: st) (auto split: option.splits)

lemma expire_each_unknown:
  "mem_live st j = None \<Longrightarrow> mem_late st j = None \<Longrightarrow>
    mem_live (expire_each now ttl ids st) j = None \<and> mem_late (expire_each now ttl ids st) j = None"
proof (induction ids arbitrary: st)
  case Nil
  then show ?case by simp
next
  case (Cons i ids)
  show ?case
  proof (cases "dict_get (reservations st) i")
    case None
    with Cons show ?thesis by simp
  next
    case (Some ea)
    let ?s = "st\<lparr>reservations := dict_pop i (reservations st),
      reserved_micros := max 0 (reserved_micros st - snd ea),
      tombstones := dict_set i (now + ttl, snd ea) (tombstones st)\<rparr>"
    have "mem_live ?s j = None \<and> mem_late ?s j = None"
      using Cons.prems Some by (auto simp: mem_defs dict_simps)
    with Cons.IH [of ?s] Some show ?thesis by (cases ea) simp
  qed
qed

lemma drop_stale_inv: "mem_inv st \<Longrightarrow> mem_inv (drop_stale now st)"
  by (auto simp: mem_inv_def drop_stale_def distinct_map_filter)

lemma drop_stale_late: "mem_late st j = None \<Longrightarrow> mem_late (drop_stale now st) j = None"
  by (auto simp: mem_defs drop_stale_def get_None_iff image_iff)

lemma filter_expired_ids:
  assumes "dict_ok (reservations st)"
  shows "filter (\<lambda>p. fst p \<notin> set (expired_ids st now)) (reservations st) =
         filter (\<lambda>(i, e, a). now < e) (reservations st)"
proof (rule filter_cong [OF refl])
  fix p assume p: "p \<in> set (reservations st)"
  obtain i e a where pe: "p = (i, e, a)" by (cases p)
  have "fst p \<in> set (expired_ids st now) \<longleftrightarrow> e \<le> now"
  proof
    assume "fst p \<in> set (expired_ids st now)"
    then obtain e' a' where q: "(i, e', a') \<in> set (reservations st)" "e' \<le> now"
      using pe by (auto simp: expired_ids_def)
    with p pe assms show "e \<le> now" by (auto dest: eq_key_imp_eq_value)
  next
    assume "e \<le> now"
    with p pe show "fst p \<in> set (expired_ids st now)" by (force simp: expired_ids_def)
  qed
  with pe show "(fst p \<notin> set (expired_ids st now)) = (case p of (i, e, a) \<Rightarrow> now < e)" by auto
qed

lemma expire_ids_found: "set (expired_ids st now) \<subseteq> keys (reservations st)"
  by (auto simp: expired_ids_def)

lemma expire_memory_reservations:
  "mem_inv st \<Longrightarrow> reservations (fst (expire_memory st now ttl)) = filter (\<lambda>(i, e, a). now < e) (reservations st)"
  by (simp add: expire_memory_def Let_def drop_stale_def expire_each_reservations filter_expired_ids mem_inv_def)

lemma expire_memory_inv: "mem_inv st \<Longrightarrow> mem_inv (fst (expire_memory st now ttl))"
  by (simp add: expire_memory_def Let_def drop_stale_inv expire_each_inv)

lemma expire_memory_committed [simp]:
  "committed_micros (fst (expire_memory st now ttl)) = committed_micros st"
  "window_start_ms (fst (expire_memory st now ttl)) = window_start_ms st"
  by (simp_all add: expire_memory_def Let_def drop_stale_def)

lemma dict_sum_filter_le:
  "(\<And>p. p \<in> set d \<Longrightarrow> 0 \<le> f (snd p)) \<Longrightarrow> dict_sum f (filter P d) \<le> dict_sum f d"
proof (induction d)
  case Nil
  then show ?case by simp
next
  case (Cons p d)
  then have "dict_sum f (filter P d) \<le> dict_sum f d" and "0 \<le> f (snd p)" by auto
  then show ?case by simp
qed

lemma expire_memory_reserved_le:
  assumes "mem_inv st"
  shows "reserved_micros (fst (expire_memory st now ttl)) \<le> reserved_micros st"
proof -
  have "reserved_micros (fst (expire_memory st now ttl)) = dict_sum snd (filter (\<lambda>(i, e, a). now < e) (reservations st))"
    using expire_memory_inv [OF assms] expire_memory_reservations [OF assms] by (simp add: mem_inv_def)
  also have "\<dots> \<le> dict_sum snd (reservations st)"
    using assms by (intro dict_sum_filter_le) (auto simp: mem_inv_def)
  finally show ?thesis using assms by (simp add: mem_inv_def)
qed

lemma expire_memory_unknown:
  "mem_live st j = None \<Longrightarrow> mem_late st j = None \<Longrightarrow>
    mem_live (fst (expire_memory st now ttl)) j = None \<and> mem_late (fst (expire_memory st now ttl)) j = None"
  using expire_each_unknown [of st j now ttl "expired_ids st now"]
  by (simp add: expire_memory_def Let_def drop_stale_late) (simp add: mem_live_def drop_stale_def)

lemma roll_window_inv: "mem_inv st \<Longrightarrow> mem_inv (roll_window st now w)"
  by (auto simp: roll_window_def mem_inv_def)

lemma roll_window_simps [simp]:
  "reservations (roll_window st now w) = reservations st"
  "tombstones (roll_window st now w) = tombstones st"
  "reserved_micros (roll_window st now w) = reserved_micros st"
  by (auto simp: roll_window_def)

lemma roll_window_committed_le: "mem_inv st \<Longrightarrow> committed_micros (roll_window st now w) \<le> committed_micros st"
  by (auto simp: roll_window_def mem_inv_def)

lemma prepare_facts:
  assumes "mem_inv st"
  shows "mem_inv (reserve_prepare now w ttl st)"
    and "mem_exposure (reserve_prepare now w ttl st) \<le> mem_exposure st"
proof -
  let ?e = "fst (expire_memory st now (max w ttl * 4))"
  have i: "mem_inv ?e" by (rule expire_memory_inv [OF assms])
  then show "mem_inv (reserve_prepare now w ttl st)" by (simp add: reserve_prepare_def roll_window_inv)
  show "mem_exposure (reserve_prepare now w ttl st) \<le> mem_exposure st"
    using roll_window_committed_le [OF i, of now w] expire_memory_reserved_le [OF assms, of now "max w ttl * 4"]
    by (simp add: mem_exposure_def reserve_prepare_def)
qed

lemma prepare_unknown:
  "mem_live st j = None \<Longrightarrow> mem_late st j = None \<Longrightarrow>
    mem_live (reserve_prepare now w ttl st) j = None \<and> mem_late (reserve_prepare now w ttl st) j = None"
  using expire_memory_unknown [of st j now "max w ttl * 4"]
  by (simp add: reserve_prepare_def mem_live_def mem_late_def)

lemma decide_inv:
  assumes "mem_inv st" "0 \<le> est" "mem_live st i = None" "mem_late st i = None"
  shows "mem_inv (snd (reserve_decide now ttl cap est i st))"
proof -
  have "i \<notin> keys (reservations st)" "i \<notin> keys (tombstones st)"
    using assms(3,4) by (simp_all add: mem_defs get_None_iff)
  with assms(1,2) show ?thesis
    by (auto simp: reserve_decide_def mem_inv_def dict_set_fresh)
qed

lemma decide_allow:
  "fst (reserve_decide now ttl cap est i st) \<Longrightarrow> mem_exposure (snd (reserve_decide now ttl cap est i st)) \<le> cap"
  "\<not> fst (reserve_decide now ttl cap est i st) \<Longrightarrow> snd (reserve_decide now ttl cap est i st) = st"
  by (auto simp: reserve_decide_def mem_exposure_def split: if_splits)

lemma settle_cases:
  obtains (live) e a where "dict_get (reservations st) i = Some (e, a)"
  | (late) f a where "dict_get (reservations st) i = None" "dict_get (tombstones st) i = Some (f, a)"
  | (unknown) "dict_get (reservations st) i = None" "dict_get (tombstones st) i = None"
  by (cases "dict_get (reservations st) i"; cases "dict_get (tombstones st) i") auto

lemma commit_spend_facts [simp]:
  "reservations (commit_spend w now actual st) = reservations st"
  "tombstones (commit_spend w now actual st) = tombstones st"
  "reserved_micros (commit_spend w now actual st) = reserved_micros st"
  by (simp_all add: commit_spend_def Let_def)

lemma commit_spend_inv: "mem_inv st \<Longrightarrow> 0 \<le> actual \<Longrightarrow> mem_inv (commit_spend w now actual st)"
  by (auto simp: commit_spend_def Let_def mem_inv_def roll_window_def)

lemma commit_spend_exposure:
  "mem_inv st \<Longrightarrow> mem_exposure (commit_spend w now actual st) \<le> mem_exposure st + actual"
  by (auto simp: commit_spend_def Let_def mem_exposure_def roll_window_def mem_inv_def)

lemma mem_inv_late_pop: "mem_inv st \<Longrightarrow> mem_inv (st\<lparr>tombstones := dict_pop i (tombstones st)\<rparr>)"
  by (auto simp: mem_inv_def keys_pop)

lemma settle_inv_mem:
  assumes "mem_inv st" and "0 \<le> actual"
  shows "mem_inv (mem_settle w now i actual st)"
proof (cases rule: settle_cases [of st i])
  case (live e a)
  with assms mem_inv_pop(1) [OF assms(1) live] show ?thesis
    by (simp add: mem_settle_def commit_spend_inv)
next
  case (late f a)
  with assms show ?thesis by (simp add: mem_settle_def commit_spend_inv mem_inv_late_pop)
next
  case unknown
  with assms show ?thesis by (simp add: mem_settle_def)
qed

lemma settle_exposure_live:
  assumes "mem_inv st" and "mem_live st i = Some a"
  shows "mem_exposure (mem_settle w now i actual st) \<le> mem_exposure st - a + actual"
proof -
  obtain e where e: "dict_get (reservations st) i = Some (e, a)"
    using assms(2) by (auto simp: mem_live_def)
  note pop = mem_inv_pop [OF assms(1) e]
  from commit_spend_exposure [OF pop(1), of w now actual] show ?thesis
    by (simp add: mem_settle_def e mem_exposure_def pop(2))
qed

lemma settle_exposure_late:
  assumes "mem_inv st" and "mem_live st i = None" and "mem_late st i = Some a"
  shows "mem_exposure (mem_settle w now i actual st) \<le> mem_exposure st + actual"
proof -
  from assms(2,3) obtain f where "dict_get (reservations st) i = None" "dict_get (tombstones st) i = Some (f, a)"
    by (auto simp: mem_defs)
  with commit_spend_exposure [OF mem_inv_late_pop [OF assms(1), of i], of w now actual] show ?thesis
    by (simp add: mem_settle_def mem_exposure_def)
qed

lemma settle_gone_mem:
  assumes "mem_inv st"
  shows "mem_live (mem_settle w now i actual st) i = None \<and> mem_late (mem_settle w now i actual st) i = None"
proof (cases rule: settle_cases [of st i])
  case (live e a)
  then have "i \<in> keys (reservations st)" by (metis get_None_iff option.discI)
  with assms have "i \<notin> keys (tombstones st)" by (auto simp: mem_inv_def)
  with live show ?thesis by (simp add: mem_settle_def mem_defs dict_get_pop get_None_iff)
next
  case (late f a)
  then show ?thesis by (simp add: mem_settle_def mem_defs dict_get_pop)
next
  case unknown
  then show ?thesis by (simp add: mem_settle_def mem_defs)
qed

lemma settle_frame_mem:
  assumes "mem_live st j = None" and "mem_late st j = None"
  shows "mem_live (mem_settle w now i actual st) j = None \<and> mem_late (mem_settle w now i actual st) j = None"
  using assms
  by (cases rule: settle_cases [of st i]) (simp_all add: mem_settle_def mem_defs dict_get_pop)

interpretation mem: budget_store mem_inv mem_exposure mem_live mem_late
  "mem_reserve w ttl" "mem_settle w" mem_purge for w ttl :: int
proof (unfold_locales, goal_cases)
  case (1 s est i now cap)
  then show ?case
    unfolding mem_reserve_def using prepare_unknown [of s i] by (intro decide_inv prepare_facts) auto
next
  case (2 s now cap est i)
  from 2(2) show ?case unfolding mem_reserve_def by (rule decide_allow(1))
next
  case (3 s now cap est i)
  then show ?case using decide_allow(2) [of now ttl cap est i] prepare_facts(2) [of s now w ttl]
    by (simp add: mem_reserve_def)
next
  case (4 s j i now cap est)
  then show ?case using prepare_unknown [of s j now w ttl]
    by (auto simp: mem_reserve_def reserve_decide_def mem_defs dict_simps)
next
  case (5 s actual now i)
  then show ?case by (rule settle_inv_mem)
next
  case (6 s actual i a now)
  from 6(1,3) show ?case by (rule settle_exposure_live)
next
  case (7 s actual i a now)
  from 7(1,3,4) show ?case by (rule settle_exposure_late)
next
  case (8 s i now actual)
  then show ?case by (simp add: mem_settle_def mem_defs)
next
  case (9 s actual now i)
  from 9(1) show ?case by (rule settle_gone_mem)
next
  case (10 s j now i actual)
  from 10(2,3) show ?case by (rule settle_frame_mem)
next
  case (11 s now)
  then show ?case by (simp add: mem_purge_def expire_memory_inv)
next
  case (12 s now)
  then show ?case using expire_memory_reserved_le [of s now] by (simp add: mem_purge_def mem_exposure_def)
next
  case (13 s j now)
  then show ?case by (simp add: mem_purge_def expire_memory_unknown)
qed

end
