(* ===== verification/Budget_Guard.thy ===== *)
theory Budget_Guard imports Errors Budget_Policy Budget_Memory begin

text \<open>
  \<open>app/gateway/budget_guard.py\<close>, the guard itself: conversion of USD to micros, the decision and
  reservation objects, reserve on either backend, interpretation of a store reply, settle,
  release and abandon, purge and snapshot, and the HTTP form of a denial. The window of the
  in-process backend is \<open>Budget_Memory\<close>; the Redis client is a parameter: \<open>ev\<close> runs one of the
  three Lua scripts (\<open>_eval_unbounded\<close> under \<open>asyncio.wait_for\<close>) on a server state of any type
  and answers with a reply or an exception. Metrics are not modelled.
\<close>

subsection \<open>Money\<close>

definition MICROS :: int where
  "MICROS = 1000000"

definition usd_to_micros :: "pyfloat \<Rightarrow> rounding \<Rightarrow> py_exc + int" where
  "usd_to_micros usd r =
     (case usd of
        FDec c e \<Rightarrow> bind_exc (dec_mul (DFin c e) (dec_of_int MICROS)) (dec_to_int r)
      | _ \<Rightarrow> Inl ValueError)"

definition charge_to_micros :: "pyfloat \<Rightarrow> py_exc + int" where
  "charge_to_micros usd = usd_to_micros usd ROUND_CEILING"

definition budget_to_micros :: "pyfloat \<Rightarrow> py_exc + int" where
  "budget_to_micros usd = usd_to_micros usd ROUND_FLOOR"

text \<open>\<open>int(micros) / MICROS\<close>: the decimal with six places.\<close>

definition micros_to_usd :: "int \<Rightarrow> pyfloat" where
  "micros_to_usd micros = FDec micros (-6)"

subsection \<open>Decisions and reservations\<close>

datatype Decision = ALLOW | DENY

record BudgetDecision =
  decision :: Decision
  reason :: string
  scope :: string
  estimated_usd :: pyfloat
  reserved_usd :: pyfloat
  committed_usd :: pyfloat
  decision_budget_usd :: pyfloat
  soft_warning :: bool
  reservation_id :: "string option"
  decision_policy_version :: string
  decision_policy_sha256 :: string
  status_code :: int

record BudgetReservation =
  res_scope :: string
  res_id :: string
  res_micros :: int
  res_budget_usd :: pyfloat
  res_soft_warning :: bool
  res_policy_version :: string
  res_policy_sha256 :: string
  res_window_ms :: int
  executed :: bool
  settled :: bool

record 'r InferenceBudgetGuard =
  guard_policy :: "InferenceBudgetPolicy option"
  guard_redis :: "'r option"
  guard_memory :: "(string, MemoryWindow) dict"
  guard_redis_ok :: bool
  guard_last_error :: "py_exc option"
  force_unavailable :: bool
  force_timeout :: bool
  force_corrupt :: bool

text \<open>The hashes the decisions quote: SHA-256 in hex and the canonical policy bytes.\<close>

record hash_env =
  sha256_hex :: "string \<Rightarrow> string"
  canonical_bytes :: "InferenceBudgetPolicy \<Rightarrow> string"

type_synonym 'r evaluator = "string \<Rightarrow> string list \<Rightarrow> json list \<Rightarrow> 'r \<Rightarrow> (py_exc + json) \<times> 'r"

definition init_guard :: "InferenceBudgetPolicy option \<Rightarrow> 'r option \<Rightarrow> 'r InferenceBudgetGuard" where
  "init_guard policy redis =
     \<lparr>guard_policy = policy, guard_redis = redis, guard_memory = [],
      guard_redis_ok = (redis \<noteq> None), guard_last_error = None,
      force_unavailable = False, force_timeout = False, force_corrupt = False\<rparr>"

definition guard_enabled :: "'r InferenceBudgetGuard \<Rightarrow> bool" where
  "guard_enabled g = (case guard_policy g of None \<Rightarrow> False | Some p \<Rightarrow> policy_enabled p)"

definition deny_for ::
  "hash_env \<Rightarrow> string \<Rightarrow> int \<Rightarrow> string \<Rightarrow> ScopeBudget \<Rightarrow> int \<Rightarrow> InferenceBudgetPolicy \<Rightarrow> int \<Rightarrow> int \<Rightarrow> BudgetDecision" where
  "deny_for env rsn status sc scope_budget estimate_micros policy res com =
     \<lparr>decision = DENY, reason = rsn, scope = sc,
      estimated_usd = micros_to_usd estimate_micros, reserved_usd = micros_to_usd res,
      committed_usd = micros_to_usd com, decision_budget_usd = budget_usd scope_budget,
      soft_warning = False, reservation_id = None,
      decision_policy_version = policy_version policy,
      decision_policy_sha256 = policy_sha256 (sha256_hex env) (canonical_bytes env) policy,
      status_code = status\<rparr>"

definition guard_disabled_decision :: BudgetDecision where
  "guard_disabled_decision =
     \<lparr>decision = ALLOW, reason = ''guard_disabled'', scope = [],
      estimated_usd = FDec 0 0, reserved_usd = FDec 0 0, committed_usd = FDec 0 0,
      decision_budget_usd = FDec 0 0, soft_warning = False, reservation_id = None,
      decision_policy_version = [], decision_policy_sha256 = [], status_code = 200\<rparr>"

subsection \<open>Interpretation of a store reply\<close>

text \<open>\<open>Decimal(n) >= d\<close>; a comparison with NaN raises \<open>InvalidOperation\<close>.\<close>

fun dec_ge_int :: "int \<Rightarrow> decimal \<Rightarrow> py_exc + bool" where
  "dec_ge_int n (DFin c e) = Inr (dec_val c e \<le> of_int n)"
| "dec_ge_int n (DInf neg) = Inr neg"
| "dec_ge_int n DNan = Inl InvalidOperation"

definition read_reply :: "json \<Rightarrow> py_exc + int \<times> int \<times> int" where
  "read_reply result =
     bind_exc (bind_exc (py_index result 0) py_int) (\<lambda>code.
     bind_exc (bind_exc (py_index result 1) py_int) (\<lambda>com.
     bind_exc (bind_exc (py_index result 2) py_int) (\<lambda>res. Inr (code, com, res))))"

definition interpret_reserve_result ::
  "hash_env \<Rightarrow> json \<Rightarrow> string \<Rightarrow> ScopeBudget \<Rightarrow> int \<Rightarrow> InferenceBudgetPolicy \<Rightarrow> string
   \<Rightarrow> py_exc + BudgetDecision \<times> BudgetReservation option" where
  "interpret_reserve_result env result sc scope_budget estimate_micros policy rid =
     (case read_reply result of
        Inl e \<Rightarrow>
          if e \<in> {TypeError, ValueError, IndexError, KeyError}
          then Inr (deny_for env ''store_corrupt'' 503 sc scope_budget estimate_micros policy 0 0, None)
          else Inl e
      | Inr (code, com, res) \<Rightarrow>
          if (code \<noteq> 0 \<and> code \<noteq> 1) \<or> com < 0 \<or> res < 0
          then Inr (deny_for env ''store_corrupt'' 503 sc scope_budget estimate_micros policy 0 0, None)
          else if code = 0
          then Inr (deny_for env ''budget_exceeded'' 429 sc scope_budget estimate_micros policy res com, None)
          else
            bind_exc (budget_to_micros (budget_usd scope_budget)) (\<lambda>budget_micros.
            bind_exc (dec_mul (dec_of_int budget_micros) (dec_of_float (soft_warning_ratio scope_budget))) (\<lambda>threshold.
            bind_exc (dec_ge_int (com + res) threshold) (\<lambda>soft.
              Inr (\<lparr>decision = ALLOW, reason = (if soft then ''soft_warning'' else ''within_budget''), scope = sc,
                    estimated_usd = micros_to_usd estimate_micros, reserved_usd = micros_to_usd res,
                    committed_usd = micros_to_usd com, decision_budget_usd = budget_usd scope_budget,
                    soft_warning = soft, reservation_id = Some rid,
                    decision_policy_version = policy_version policy,
                    decision_policy_sha256 = policy_sha256 (sha256_hex env) (canonical_bytes env) policy,
                    status_code = 200\<rparr>,
                   Some \<lparr>res_scope = sc, res_id = rid, res_micros = estimate_micros,
                    res_budget_usd = budget_usd scope_budget, res_soft_warning = soft,
                    res_policy_version = policy_version policy,
                    res_policy_sha256 = policy_sha256 (sha256_hex env) (canonical_bytes env) policy,
                    res_window_ms = window_seconds scope_budget * 1000, executed = False, settled = False\<rparr>)))))"

subsection \<open>Reserve\<close>

text \<open>
  \<open>int(reservation_ttl_seconds * 1000)\<close>, at least 1; the binary product is taken exactly, so the model
  can be one millisecond above the code for a lifetime that is not a whole number of milliseconds in binary.
\<close>

definition ttl_ms_of :: "ScopeBudget \<Rightarrow> py_exc + int" where
  "ttl_ms_of b =
     (case reservation_ttl_seconds b of
        FDec c e \<Rightarrow> Inr (max 1 (trunc_rat (dec_val c e * 1000)))
      | FNan \<Rightarrow> Inl ValueError
      | FInf neg \<Rightarrow> Inl OverflowError)"

text \<open>\<open>_eval\<close>: simulated faults first, then the time-bounded exchange and its bookkeeping.\<close>

definition store_eval ::
  "'r evaluator \<Rightarrow> string \<Rightarrow> string list \<Rightarrow> json list \<Rightarrow> 'r InferenceBudgetGuard
   \<Rightarrow> (py_exc + json) \<times> 'r InferenceBudgetGuard" where
  "store_eval ev sha_attr ks args g =
     (case guard_redis g of
        None \<Rightarrow> (Inl (OtherError ''AssertionError''), g)
      | Some r \<Rightarrow>
          if force_unavailable g then (Inl ConnectionError, g)
          else if force_timeout g then (Inl TimeoutError, g)
          else if force_corrupt g then (Inr (JArr [JStr ''corrupt'']), g)
          else (case ev sha_attr ks args r of
              (Inl e, r') \<Rightarrow> (Inl e, g\<lparr>guard_redis := Some r', guard_redis_ok := False, guard_last_error := Some e\<rparr>)
            | (Inr v, r') \<Rightarrow> (Inr v, g\<lparr>guard_redis := Some r', guard_redis_ok := True, guard_last_error := None\<rparr>)))"

definition budget_keys :: "string \<Rightarrow> string list" where
  "budget_keys sc =
     [''arp:budget:'' @ sc @ '':window'', ''arp:budget:'' @ sc @ '':reservations'', ''arp:budget:'' @ sc @ '':amounts'']"

definition reserve_redis ::
  "hash_env \<Rightarrow> 'r evaluator \<Rightarrow> string \<Rightarrow> ScopeBudget \<Rightarrow> int \<Rightarrow> InferenceBudgetPolicy \<Rightarrow> string \<Rightarrow> int
   \<Rightarrow> 'r InferenceBudgetGuard \<Rightarrow> (py_exc + BudgetDecision \<times> BudgetReservation option) \<times> 'r InferenceBudgetGuard" where
  "reserve_redis env ev sc scope_budget estimate_micros policy rid now_ms g =
     (case budget_to_micros (budget_usd scope_budget) of
        Inl e \<Rightarrow> (Inl e, g)
      | Inr budget_micros \<Rightarrow>
          (case ttl_ms_of scope_budget of
             Inl e \<Rightarrow> (Inl e, g)
           | Inr ttl_ms \<Rightarrow>
               (case store_eval ev ''_reserve_sha'' (budget_keys sc)
                      [JInt now_ms, JInt (window_seconds scope_budget * 1000), JInt budget_micros,
                       JInt estimate_micros, JStr rid, JInt ttl_ms] g of
                  (Inl e, g') \<Rightarrow> (Inl e, g')
                | (Inr result, g') \<Rightarrow>
                    (interpret_reserve_result env result sc scope_budget estimate_micros policy rid, g'))))"

definition reserve_memory ::
  "hash_env \<Rightarrow> string \<Rightarrow> ScopeBudget \<Rightarrow> int \<Rightarrow> InferenceBudgetPolicy \<Rightarrow> string \<Rightarrow> int
   \<Rightarrow> 'r InferenceBudgetGuard \<Rightarrow> (py_exc + BudgetDecision \<times> BudgetReservation option) \<times> 'r InferenceBudgetGuard" where
  "reserve_memory env sc scope_budget estimate_micros policy rid now_ms g =
     (if force_unavailable g then (Inl ConnectionError, g)
      else if force_timeout g then (Inl TimeoutError, g)
      else if force_corrupt g then
        (interpret_reserve_result env (JArr [JStr ''corrupt'']) sc scope_budget estimate_micros policy [], g)
      else (case ttl_ms_of scope_budget of
          Inl e \<Rightarrow> (Inl e, g)
        | Inr ttl_ms \<Rightarrow>
            (let window_ms = window_seconds scope_budget * 1000;
                 st = reserve_prepare now_ms window_ms ttl_ms (get_default (guard_memory g) sc new_window)
             in case budget_to_micros (budget_usd scope_budget) of
                  Inl e \<Rightarrow> (Inl e, g\<lparr>guard_memory := dict_set sc st (guard_memory g)\<rparr>)
                | Inr budget_micros \<Rightarrow>
                    (case reserve_decide now_ms ttl_ms budget_micros estimate_micros rid st of
                       (ok, st') \<Rightarrow>
                         (interpret_reserve_result env
                            (JArr [JInt (if ok then 1 else 0), JInt (committed_micros st'), JInt (reserved_micros st')])
                            sc scope_budget estimate_micros policy rid,
                          g\<lparr>guard_memory := dict_set sc st' (guard_memory g)\<rparr>)))))"

text \<open>
  The estimate: computed from the policy prices or converted from the caller's figure. The
  value bound to \<open>estimate_micros\<close> when an exception leaves the block is 0 before the
  assignment and the negative number itself after it.
\<close>

definition estimate_of ::
  "InferenceBudgetPolicy \<Rightarrow> string \<Rightarrow> int \<Rightarrow> int \<Rightarrow> pyfloat option \<Rightarrow> int \<times> (py_exc + int)" where
  "estimate_of policy model input_tokens output_tokens usd =
     (case (case usd of
              None \<Rightarrow> estimate_cost_micros policy model input_tokens output_tokens
            | Some f \<Rightarrow> charge_to_micros f) of
        Inl e \<Rightarrow> (0, Inl e)
      | Inr n \<Rightarrow> if n < 0 then (n, Inl ValueError) else (n, Inr n))"

definition reserve_fault ::
  "hash_env \<Rightarrow> py_exc \<Rightarrow> string \<Rightarrow> ScopeBudget \<Rightarrow> int \<Rightarrow> InferenceBudgetPolicy \<Rightarrow> 'r InferenceBudgetGuard
   \<Rightarrow> (BudgetDecision \<times> BudgetReservation option) \<times> 'r InferenceBudgetGuard" where
  "reserve_fault env e sc scope_budget estimate_micros policy g =
     (if e = TimeoutError then
        ((deny_for env ''store_timeout'' 503 sc scope_budget estimate_micros policy 0 0, None), g)
      else if is_value_fault e then
        ((deny_for env ''store_corrupt'' 503 sc scope_budget estimate_micros policy 0 0, None),
         g\<lparr>guard_last_error := Some e\<rparr>)
      else
        ((deny_for env ''store_unavailable'' 503 sc scope_budget estimate_micros policy 0 0, None),
         g\<lparr>guard_last_error := Some e\<rparr>))"

definition guard_reserve ::
  "hash_env \<Rightarrow> 'r evaluator \<Rightarrow> string \<Rightarrow> string \<Rightarrow> int \<Rightarrow> int \<Rightarrow> string option \<Rightarrow> pyfloat option
   \<Rightarrow> string \<Rightarrow> int \<Rightarrow> 'r InferenceBudgetGuard
   \<Rightarrow> (BudgetDecision \<times> BudgetReservation option) \<times> 'r InferenceBudgetGuard" where
  "guard_reserve env ev tenant_id model input_tokens output_tokens api_key usd rid now_ms g =
     (case guard_policy g of
        None \<Rightarrow> ((guard_disabled_decision, None), g)
      | Some policy \<Rightarrow>
          (case scope_for (sha256_hex env) policy tenant_id api_key of
             (sc, scope_budget) \<Rightarrow>
               (case estimate_of policy model input_tokens output_tokens usd of
                  (est, Inl e) \<Rightarrow> reserve_fault env e sc scope_budget est policy g
                | (est, Inr _) \<Rightarrow>
                    (case (if guard_redis g \<noteq> None
                           then reserve_redis env ev sc scope_budget est policy rid now_ms g
                           else reserve_memory env sc scope_budget est policy rid now_ms g) of
                       (Inl e, g') \<Rightarrow> reserve_fault env e sc scope_budget est policy g'
                     | (Inr result, g') \<Rightarrow> (result, g')))))"

subsection \<open>Settle, release, abandon\<close>

definition guard_settle ::
  "'r evaluator \<Rightarrow> BudgetReservation \<Rightarrow> int \<Rightarrow> int \<Rightarrow> 'r InferenceBudgetGuard \<Rightarrow> 'r InferenceBudgetGuard" where
  "guard_settle ev r actual now_ms g =
     (let actual_micros = max 0 actual;
          window_ms = (if res_window_ms r \<noteq> 0 then res_window_ms r else 3600000)
      in if guard_redis g \<noteq> None then
           (case store_eval ev ''_settle_sha'' (budget_keys (res_scope r))
                   [JStr (res_id r), JInt actual_micros, JInt now_ms, JInt window_ms] g of
              (Inl e, g') \<Rightarrow> g'\<lparr>guard_last_error := Some e, guard_redis_ok := False\<rparr>
            | (Inr v, g') \<Rightarrow> g')
         else (case dict_get (guard_memory g) (res_scope r) of
              None \<Rightarrow> g
            | Some st \<Rightarrow>
                g\<lparr>guard_memory := dict_set (res_scope r)
                     (mem_settle window_ms now_ms (res_id r) actual_micros st) (guard_memory g)\<rparr>))"

definition actual_charge :: "BudgetReservation \<Rightarrow> pyfloat option \<Rightarrow> int" where
  "actual_charge r actual_usd =
     (case actual_usd of
        None \<Rightarrow> res_micros r
      | Some v \<Rightarrow>
          if isfinite v \<and> f_ge v 0
          then (case charge_to_micros v of Inr n \<Rightarrow> n | Inl e \<Rightarrow> res_micros r)
          else res_micros r)"

definition settle ::
  "'r evaluator \<Rightarrow> pyfloat option \<Rightarrow> int \<Rightarrow> BudgetReservation \<times> 'r InferenceBudgetGuard
   \<Rightarrow> BudgetReservation \<times> 'r InferenceBudgetGuard" where
  "settle ev actual_usd now_ms rg =
     (case rg of (r, g) \<Rightarrow>
        if settled r then (r, g)
        else (r\<lparr>settled := True\<rparr>, guard_settle ev r (actual_charge r actual_usd) now_ms g))"

definition release ::
  "'r evaluator \<Rightarrow> int \<Rightarrow> BudgetReservation \<times> 'r InferenceBudgetGuard
   \<Rightarrow> BudgetReservation \<times> 'r InferenceBudgetGuard" where
  "release ev now_ms rg =
     (case rg of (r, g) \<Rightarrow>
        if settled r then (r, g) else (r\<lparr>settled := True\<rparr>, guard_settle ev r 0 now_ms g))"

definition abandon ::
  "'r evaluator \<Rightarrow> int \<Rightarrow> BudgetReservation \<times> 'r InferenceBudgetGuard
   \<Rightarrow> BudgetReservation \<times> 'r InferenceBudgetGuard" where
  "abandon ev now_ms rg = (if executed (fst rg) then settle ev None now_ms rg else release ev now_ms rg)"

definition mark_executed :: "BudgetReservation \<Rightarrow> BudgetReservation" where
  "mark_executed r = r\<lparr>executed := True\<rparr>"

datatype finish = Settle "pyfloat option" | Release | Abandon

fun finish_op :: "'r evaluator \<Rightarrow> finish \<Rightarrow> int \<Rightarrow> BudgetReservation \<times> 'r InferenceBudgetGuard \<Rightarrow> BudgetReservation \<times> 'r InferenceBudgetGuard" where
  "finish_op ev (Settle usd) now rg = settle ev usd now rg"
| "finish_op ev Release now rg = release ev now rg"
| "finish_op ev Abandon now rg = abandon ev now rg"

lemma finish_settled: "settled (fst (finish_op ev f now rg))"
  by (cases f; cases rg) (auto simp: settle_def release_def abandon_def)

lemma finish_noop: "settled (fst rg) \<Longrightarrow> finish_op ev f now rg = rg"
  by (cases f; cases rg) (auto simp: settle_def release_def abandon_def)

subsection \<open>Purge and snapshot\<close>

definition purge_expired ::
  "'r evaluator \<Rightarrow> string \<Rightarrow> int \<Rightarrow> 'r InferenceBudgetGuard \<Rightarrow> (py_exc + int) \<times> 'r InferenceBudgetGuard" where
  "purge_expired ev sc now_ms g =
     (if guard_redis g \<noteq> None then
        (case store_eval ev ''_purge_sha'' (budget_keys sc) [JInt now_ms] g of
           (Inl e, g') \<Rightarrow> (Inl e, g')
         | (Inr result, g') \<Rightarrow>
             (bind_exc (bind_exc (py_index result 0) py_int) (\<lambda>code. if code < 0 then Inl ValueError else Inr code), g'))
      else (case dict_get (guard_memory g) sc of
          None \<Rightarrow> (Inr 0, g)
        | Some st \<Rightarrow>
            (case expire_memory st now_ms (4 * 3600000) of
               (st', n) \<Rightarrow> (Inr n, g\<lparr>guard_memory := dict_set sc st' (guard_memory g)\<rparr>))))"

definition snapshot_micros ::
  "'r evaluator \<Rightarrow> string \<Rightarrow> int \<Rightarrow> 'r InferenceBudgetGuard \<Rightarrow> (py_exc + int \<times> int) \<times> 'r InferenceBudgetGuard" where
  "snapshot_micros ev sc now_ms g =
     (if guard_redis g \<noteq> None then
        (case store_eval ev ''_purge_sha'' (budget_keys sc) [JInt now_ms] g of
           (Inl e, g') \<Rightarrow> (Inl e, g')
         | (Inr result, g') \<Rightarrow>
             (bind_exc (bind_exc (py_index result 0) py_int) (\<lambda>code.
              if code < 0 then Inl ValueError
              else bind_exc (bind_exc (py_index result 2) py_int) (\<lambda>com.
                   bind_exc (bind_exc (py_index result 3) py_int) (\<lambda>res. Inr (com, res)))), g'))
      else (case dict_get (guard_memory g) sc of
          None \<Rightarrow> (Inr (0, 0), g)
        | Some st \<Rightarrow>
            (case expire_memory st now_ms (4 * 3600000) of
               (st', n) \<Rightarrow> (Inr (committed_micros st', reserved_micros st'),
                            g\<lparr>guard_memory := dict_set sc st' (guard_memory g)\<rparr>))))"

subsection \<open>HTTP form of a denial\<close>

definition deny_code :: "string \<Rightarrow> string" where
  "deny_code rsn =
     get_default
       [(''budget_exceeded'', ''inference_budget_exceeded''),
        (''store_unavailable'', ''budget_store_unavailable''),
        (''store_timeout'', ''budget_store_timeout''),
        (''store_corrupt'', ''budget_store_corrupt''),
        (''malformed_policy'', ''budget_policy_invalid''),
        (''guard_disabled_misconfigured'', ''budget_policy_invalid'')]
       rsn ''inference_budget_denied''"

definition message_for :: "BudgetDecision \<Rightarrow> string" where
  "message_for d =
     (if reason d = ''budget_exceeded'' then ''inference budget would be exceeded by this reservation''
      else if reason d = ''store_unavailable'' then ''inference budget store unavailable; fail-closed''
      else if reason d = ''store_timeout'' then ''inference budget store timed out; fail-closed''
      else if reason d = ''store_corrupt'' then ''inference budget store returned corrupt data; fail-closed''
      else if reason d = ''malformed_policy'' then ''inference budget policy is malformed; fail-closed''
      else ''inference budget denied: '' @ reason d)"

definition decision_to_http_exception :: "BudgetDecision \<Rightarrow> HTTPException" where
  "decision_to_http_exception d =
     \<lparr>he_status = status_code d,
      he_detail = JObj [(''error'', JObj
        [(''type'', JStr (if status_code d = 429 then ''rate_limit_error'' else ''api_error'')),
         (''code'', JStr (deny_code (reason d))),
         (''message'', JStr (message_for d)),
         (''reason'', JStr (reason d)),
         (''scope'', if scope d = [] then JNull else JStr (scope d)),
         (''budget_usd'', JFloat (decision_budget_usd d)),
         (''committed_usd'', JFloat (committed_usd d)),
         (''reserved_usd'', JFloat (reserved_usd d)),
         (''estimated_usd'', JFloat (estimated_usd d))])],
      he_headers = [(''Retry-After'', ''1''), (''X-AI-Budget-Decision'', ''DENY''), (''X-AI-Budget-Reason'', reason d)]\<rparr>"

end
