(* ===== verification/Budget_Properties.thy ===== *)
theory Budget_Properties imports Budget_Guard begin

text \<open>
  What the budget guard guarantees: the cap over any run of one window, fail-closed decisions on
  either backend, settlement exactly once, refunds, expiry and rollover, and the exact place
  where the documented overshoot bound does not hold.
\<close>

subsection \<open>Runs of one window\<close>

text \<open>
  A run of the in-process window under one policy: the critical sections in the order the
  event loop executes them. \<open>settlement_excess\<close> is what a settlement adds beyond what its
  reservation held: actual minus estimate on time, the whole actual after the TTL.
\<close>

fun window_step :: "int \<Rightarrow> int \<Rightarrow> int \<Rightarrow> budget_event \<Rightarrow> MemoryWindow \<Rightarrow> MemoryWindow" where
  "window_step w ttl cap (EReserve i now est) st = snd (mem_reserve w ttl now cap est i st)"
| "window_step w ttl cap (ESettle i now actual) st = mem_settle w now i actual st"
| "window_step w ttl cap (EPurge now) st = mem_purge now st"

fun settlement_excess :: "MemoryWindow \<Rightarrow> budget_event \<Rightarrow> int" where
  "settlement_excess st (ESettle i now actual) =
     (case dict_get (reservations st) i of
        Some (e, a) \<Rightarrow> max 0 (actual - a)
      | None \<Rightarrow> if dict_get (tombstones st) i = None then 0 else actual)"
| "settlement_excess st _ = 0"

fun guard_event :: "MemoryWindow \<Rightarrow> budget_event \<Rightarrow> bool" where
  "guard_event st (EReserve i now est) = (0 \<le> est \<and> i \<notin> keys (reservations st) \<and> i \<notin> keys (tombstones st))"
| "guard_event st (ESettle i now actual) = (0 \<le> actual)"
| "guard_event st (EPurge now) = True"

fun window_run :: "int \<Rightarrow> int \<Rightarrow> int \<Rightarrow> budget_event list \<Rightarrow> MemoryWindow \<Rightarrow> MemoryWindow" where
  "window_run w ttl cap [] st = st"
| "window_run w ttl cap (e # es) st = window_run w ttl cap es (window_step w ttl cap e st)"

fun guard_run :: "int \<Rightarrow> int \<Rightarrow> int \<Rightarrow> budget_event list \<Rightarrow> MemoryWindow \<Rightarrow> bool" where
  "guard_run w ttl cap [] st = True"
| "guard_run w ttl cap (e # es) st = (guard_event st e \<and> guard_run w ttl cap es (window_step w ttl cap e st))"

fun run_excess :: "int \<Rightarrow> int \<Rightarrow> int \<Rightarrow> budget_event list \<Rightarrow> MemoryWindow \<Rightarrow> int" where
  "run_excess w ttl cap [] st = 0"
| "run_excess w ttl cap (e # es) st = settlement_excess st e + run_excess w ttl cap es (window_step w ttl cap e st)"

lemma window_step_eq: "window_step w ttl cap e st = mem.apply_event w ttl cap e st"
  by (cases e) simp_all

lemma window_run_eq: "window_run w ttl cap es st = mem.run w ttl cap es st"
  by (induction es arbitrary: st) (simp_all add: window_step_eq)

lemma guard_event_eq: "guard_event st e = mem.legal st e"
  by (cases e) (auto simp: mem.unknown_def mem_defs get_None_iff)

lemma guard_run_eq: "guard_run w ttl cap es st = mem.legal_run w ttl cap es st"
  by (induction es arbitrary: st) (simp_all add: window_step_eq guard_event_eq)

lemma settlement_excess_eq: "settlement_excess st e = mem.overshoot st e"
  by (cases e) (auto simp: mem_defs split: option.splits)

lemma run_excess_eq: "run_excess w ttl cap es st = mem.total_overshoot w ttl cap es st"
  by (induction es arbitrary: st) (simp_all add: window_step_eq settlement_excess_eq)

lemmas window_run_eqs = window_run_eq guard_run_eq run_excess_eq

lemma window_run_inv: "mem_inv st \<Longrightarrow> guard_run w ttl cap es st \<Longrightarrow> mem_inv (window_run w ttl cap es st)"
  using mem.run_exposure [of st w ttl cap es "max 0 (mem_exposure st - cap)"] by (simp add: window_run_eqs)

subsection \<open>The cap\<close>

text \<open>
  C1: the central promise of the guard, over every interleaving. Start from a fresh window and
  run any sequence of reservations (fresh ids, non-negative estimates), settlements (any
  non-negative actual spend, in any order, repeated or for unknown ids) and purges, at any clock
  readings: committed plus reserved micros never exceed the cap by more than the excess the
  settlements themselves brought in, and the running total of reserved micros is always exactly
  the sum of the live reservations. With every settlement on time and within its estimate the
  excess is 0 and the cap itself holds.
\<close>

theorem budget_never_overspent:
  assumes "0 \<le> cap" and "guard_run w ttl cap es new_window"
  shows "let st = window_run w ttl cap es new_window in
    committed_micros st + reserved_micros st \<le> cap + run_excess w ttl cap es new_window
    \<and> reserved_micros st = dict_sum snd (reservations st) \<and> 0 \<le> reserved_micros st \<and> 0 \<le> committed_micros st"
proof -
  let ?st = "window_run w ttl cap es new_window"
  have "mem_inv ?st \<and> mem_exposure ?st \<le> cap + 0 + run_excess w ttl cap es new_window"
    unfolding window_run_eqs using assms
    by (intro mem.run_exposure) (simp_all add: guard_run_eq, simp add: mem_exposure_def new_window_def)
  then show ?thesis
    by (auto simp: Let_def mem_exposure_def mem_inv_reserved_nonneg) (auto simp: mem_inv_def)
qed

text \<open>
  The witness runs a denial, an on-time settlement below the estimate and a reservation that
  fits afterwards.
\<close>

definition demo_run :: "budget_event list" where
  "demo_run = [EReserve ''a'' 1000 70, EReserve ''b'' 1001 40, ESettle ''a'' 1002 50,
               EReserve ''c'' 1003 50, ESettle ''a'' 1004 50]"

theorem budget_never_overspent_witness:
  "guard_run 60000 10000 100 demo_run new_window
   \<and> run_excess 60000 10000 100 demo_run new_window = 0
   \<and> committed_micros (window_run 60000 10000 100 demo_run new_window) = 50
   \<and> committed_micros (window_run 60000 10000 100 demo_run new_window)
     + reserved_micros (window_run 60000 10000 100 demo_run new_window) \<le> 100"
proof -
  have run: "guard_run 60000 10000 100 demo_run new_window" by code_simp
  have ex: "run_excess 60000 10000 100 demo_run new_window = 0" by code_simp
  have com: "committed_micros (window_run 60000 10000 100 demo_run new_window) = 50" by code_simp
  from budget_never_overspent [OF _ run] ex com run show ?thesis by (simp add: Let_def)
qed

text \<open>
  The documented overshoot bound fails after a TTL expiry. The budget document says that
  committed spend exceeds the cap by at most the estimate error of in-flight requests. For
  every cap: a request that reserves the whole cap and outlives its TTL frees the cap for a
  second one, and when both settle at exactly their estimates (no estimate error at all) the
  window has committed twice the cap.
\<close>

theorem late_settlement_doubles_spend:
  assumes "0 < cap" and "0 < ttl" and "2 * ttl < w" and "0 < now"
  shows "let es = [EReserve ''a'' now cap, EReserve ''b'' (now + ttl) cap,
                   ESettle ''a'' (now + ttl) cap, ESettle ''b'' (now + ttl) cap] in
    guard_run w ttl cap es new_window \<and> committed_micros (window_run w ttl cap es new_window) = 2 * cap"
  using assms
  by (simp add: Let_def new_window_def mem_reserve_def reserve_prepare_def reserve_decide_def expire_memory_def
      expired_ids_def drop_stale_def roll_window_def mem_settle_def commit_spend_def)

theorem late_settlement_doubles_spend_witness:
  "committed_micros (window_run 3600000 120000 100 [EReserve ''a'' 1 100, EReserve ''b'' 120001 100,
      ESettle ''a'' 120001 100, ESettle ''b'' 120001 100] new_window) = 200"
  using late_settlement_doubles_spend [of 100 120000 3600000 1] by (simp add: Let_def)

text \<open>
  Settlement is exactly once in the store. After a reservation has been settled (or
  released), settling the same id again, with any amount and at any later time, after any
  sequence of other guard operations, changes nothing.
\<close>

theorem settle_exactly_once:
  assumes "mem_inv st" and "0 \<le> actual"
    and "guard_run w ttl cap es (mem_settle w now i actual st)"
    and "\<forall>e\<in>set es. \<forall>n est. e \<noteq> EReserve i n est"
  shows "mem_settle w now' i actual' (window_run w ttl cap es (mem_settle w now i actual st)) =
    window_run w ttl cap es (mem_settle w now i actual st)"
proof -
  have "\<forall>e\<in>set es. \<not> mem.reserves i e"
  proof
    fix e assume "e \<in> set es"
    with assms(4) show "\<not> mem.reserves i e" by (cases e) auto
  qed
  with assms(1-3) show ?thesis unfolding window_run_eqs by (intro mem.settled_once)
qed

theorem settle_exactly_once_witness:
  "let st = window_run 60000 10000 100 [EReserve ''a'' 1000 70] new_window;
       st' = window_run 60000 10000 100 [EReserve ''b'' 1002 20] (mem_settle 60000 1001 ''a'' 60 st)
   in mem_settle 60000 1003 ''a'' 60 st' = st' \<and> committed_micros st' = 60"
proof -
  let ?st = "window_run 60000 10000 100 [EReserve ''a'' 1000 70] new_window"
  have "guard_run 60000 10000 100 [EReserve ''a'' 1000 70] new_window" by code_simp
  then have inv: "mem_inv ?st"
    by (rule window_run_inv [OF mem_inv_new])
  have run: "guard_run 60000 10000 100 [EReserve ''b'' 1002 20] (mem_settle 60000 1001 ''a'' 60 ?st)" by code_simp
  have com: "committed_micros (window_run 60000 10000 100 [EReserve ''b'' 1002 20] (mem_settle 60000 1001 ''a'' 60 ?st)) = 60"
    by code_simp
  from settle_exactly_once [OF inv _ run, of 1003 60] com show ?thesis by (simp add: Let_def)
qed

text \<open>
  Expiry and rollover, the two ways capacity comes back. When a reservation is decided at
  clock \<open>now\<close>, what still holds budget is exactly the reservations whose expiry lies after
  \<open>now\<close>; committed spend is kept inside the window and reset at a rollover, and no in-flight
  reservation is dropped by a rollover.
\<close>

theorem reserve_prepare_accounts:
  assumes "mem_inv st"
  shows "let st' = reserve_prepare now w ttl st;
             rolled = (window_start_ms st = 0 \<or> now - window_start_ms st \<ge> w) in
    reservations st' = filter (\<lambda>(i, expiry, amt). now < expiry) (reservations st)
    \<and> reserved_micros st' = dict_sum snd (filter (\<lambda>(i, expiry, amt). now < expiry) (reservations st))
    \<and> committed_micros st' = (if rolled then 0 else committed_micros st)
    \<and> window_start_ms st' = (if rolled then now else window_start_ms st)"
proof -
  let ?e = "fst (expire_memory st now (max w ttl * 4))"
  have "mem_inv ?e" by (rule expire_memory_inv [OF assms])
  then have "reserved_micros ?e = dict_sum snd (filter (\<lambda>(i, expiry, amt). now < expiry) (reservations st))"
    by (simp add: mem_inv_def expire_memory_reservations [OF assms])
  then show ?thesis
    by (simp add: Let_def reserve_prepare_def expire_memory_reservations [OF assms])
      (simp add: roll_window_def)
qed

theorem reserve_prepare_accounts_witness:
  "let st = \<lparr>window_start_ms = 1000, committed_micros = 30, reserved_micros = 12,
             reservations = [(''old'', 1500, 5), (''new'', 9000, 7)], tombstones = []\<rparr> in
    reserved_micros (reserve_prepare 2000 60000 10000 st) = 7
    \<and> committed_micros (reserve_prepare 2000 60000 10000 st) = 30"
proof -
  let ?st = "\<lparr>window_start_ms = 1000, committed_micros = 30, reserved_micros = 12,
             reservations = [(''old'', 1500, 5), (''new'', 9000, 7)], tombstones = []\<rparr>"
  have "mem_inv ?st" by (simp add: mem_inv_def)
  from reserve_prepare_accounts [OF this, of 2000 60000 10000] show ?thesis by (simp add: Let_def)
qed

text \<open>
  A released reservation leaves no trace. Admitting a request and releasing it (the model
  was never called) gives back the window as it was before the admission, up to the rollover
  the release itself may perform.
\<close>

theorem reserve_then_release_is_identity:
  assumes "mem_inv st" and "rid \<notin> keys (reservations st)" and "0 \<le> est"
    and "reserve_decide now ttl cap est rid st = (True, st')"
  shows "mem_settle w now' rid 0 st' = roll_window st now' w"
proof -
  have st': "st' = st\<lparr>reserved_micros := reserved_micros st + est,
      reservations := reservations st @ [(rid, now + ttl, est)]\<rparr>"
    using assms(2,4) by (auto simp: reserve_decide_def dict_set_fresh split: if_splits)
  have "dict_get (reservations st') rid = Some (now + ttl, est)"
    using assms(2) by (simp add: st' map_add_Some_iff get_None_iff)
  moreover have "dict_pop rid (reservations st') = reservations st"
    using assms(2) by (simp add: st' AList.delete_eq) (force simp: filter_id_conv)
  moreover have "max 0 (reserved_micros st' - est) = reserved_micros st"
    using mem_inv_reserved_nonneg [OF assms(1)] by (simp add: st')
  ultimately show ?thesis
    by (simp add: mem_settle_def commit_spend_def) (simp add: st' roll_window_def)
qed

theorem reserve_then_release_is_identity_witness:
  "mem_settle 60000 1001 ''a'' 0 (snd (reserve_decide 1000 10000 100 70 ''a'' new_window)) =
    roll_window new_window 1001 60000"
  using reserve_then_release_is_identity [of new_window "''a''" 70 1000 10000 100
      "snd (reserve_decide 1000 10000 100 70 ''a'' new_window)" 60000 1001]
  by (simp add: reserve_decide_def new_window_def mem_inv_def)

end
