(* ===== verification/Budget_Guard_Properties.thy ===== *)
theory Budget_Guard_Properties imports Budget_Properties begin

text \<open>
  The guard as the request path sees it: every fault denies, an admission is backed by the store
  and by the exact dollar cap, scopes do not interfere, a reservation object settles once, and
  an abandoned request is charged exactly when its model may have run.
\<close>

subsection \<open>Decisions\<close>

definition denial_ok :: "BudgetDecision \<Rightarrow> BudgetReservation option \<Rightarrow> bool" where
  "denial_ok d r \<longleftrightarrow> decision d = DENY \<and> r = None \<and> reservation_id d = None
     \<and> (if reason d = ''budget_exceeded'' then status_code d = 429
        else status_code d = 503 \<and> reason d \<in> {''store_timeout'', ''store_corrupt'', ''store_unavailable''})"

definition admission_ok :: "BudgetDecision \<Rightarrow> BudgetReservation option \<Rightarrow> bool" where
  "admission_ok d r \<longleftrightarrow> decision d = ALLOW \<and> status_code d = 200
     \<and> (\<exists>x. r = Some x \<and> reservation_id d = Some (res_id x) \<and> \<not> settled x \<and> \<not> executed x \<and> 0 \<le> res_micros x)"

lemma deny_for_ok:
  "rsn \<in> {''store_timeout'', ''store_corrupt'', ''store_unavailable''} \<Longrightarrow> denial_ok (deny_for env rsn 503 sc b est p x y) None"
  "denial_ok (deny_for env ''budget_exceeded'' 429 sc b est p x y) None"
  by (auto simp: denial_ok_def deny_for_def)

lemma reserve_fault_ok:
  "reserve_fault env e sc b est p g = ((d, r), g') \<Longrightarrow> denial_ok d r"
  by (auto simp: reserve_fault_def deny_for_ok split: if_splits)

lemma reserve_fault_memory:
  "reserve_fault env e sc b est p g = (x, g') \<Longrightarrow> guard_memory g' = guard_memory g"
  by (auto simp: reserve_fault_def split: if_splits)

definition store_admits :: "json \<Rightarrow> bool" where
  "store_admits result \<longleftrightarrow> (\<exists>com res. read_reply result = Inr (1, com, res) \<and> 0 \<le> com \<and> 0 \<le> res)"

definition reservation_for :: "BudgetReservation option \<Rightarrow> string \<Rightarrow> ScopeBudget \<Rightarrow> int \<Rightarrow> string \<Rightarrow> bool" where
  "reservation_for r sc b est rid \<longleftrightarrow>
     (\<exists>x. r = Some x \<and> res_id x = rid \<and> res_micros x = est \<and> res_scope x = sc
          \<and> res_window_ms x = window_seconds b * 1000)"

lemma interpret_cases:
  assumes eq: "interpret_reserve_result env result sc b est p rid = Inr (d, r)" and est: "0 \<le> est"
  shows "denial_ok d r \<or> (admission_ok d r \<and> store_admits result \<and> reservation_for r sc b est rid)"
proof (cases "read_reply result")
  case (Inl e)
  with eq show ?thesis
    by (auto simp: interpret_reserve_result_def deny_for_ok split: if_splits)
next
  case (Inr t)
  obtain code com res where t: "t = (code, com, res)" by (cases t)
  consider (bad) "(code \<noteq> 0 \<and> code \<noteq> 1) \<or> com < 0 \<or> res < 0" | (full) "code = 0" "0 \<le> com" "0 \<le> res"
    | (ok) "code = 1" "0 \<le> com" "0 \<le> res" by linarith
  then show ?thesis
  proof cases
    case bad
    with eq Inr t show ?thesis by (simp add: interpret_reserve_result_def) (auto simp: deny_for_ok)
  next
    case full
    with eq Inr t show ?thesis by (simp add: interpret_reserve_result_def) (auto simp: deny_for_ok)
  next
    case ok
    then have adm: "store_admits result" using Inr t by (simp add: store_admits_def)
    have "admission_ok d r \<and> reservation_for r sc b est rid"
      using eq Inr t ok est
      apply (simp add: interpret_reserve_result_def bind_exc_Inr_iff)
      apply (elim exE conjE)
      apply (erule subst [where t = d])
      apply (erule subst [where t = r])
      apply (simp add: admission_ok_def reservation_for_def)
      done
    with adm show ?thesis by blast
  qed
qed

lemma corrupt_reply: "\<not> store_admits (JArr [JStr ''corrupt''])"
  "read_reply (JArr [JStr ''corrupt'']) = Inl ValueError"
proof -
  show "read_reply (JArr [JStr ''corrupt'']) = Inl ValueError" by (simp add: read_reply_def) code_simp
  then show "\<not> store_admits (JArr [JStr ''corrupt''])" by (simp add: store_admits_def)
qed

lemma estimate_of_nonneg: "estimate_of p m i t u = (est, Inr n) \<Longrightarrow> est = n \<and> 0 \<le> est"
  by (auto simp: estimate_of_def split: sum.splits if_splits)

lemma guard_reserve_eq:
  "guard_policy g = Some policy \<Longrightarrow> scope_for (sha256_hex env) policy tenant key = (sc, b) \<Longrightarrow>
    estimate_of policy model inp out usd = (est, eo) \<Longrightarrow>
    guard_reserve env ev tenant model inp out key usd rid now g =
      (case eo of
         Inl e \<Rightarrow> reserve_fault env e sc b est policy g
       | Inr _ \<Rightarrow>
           (case (if guard_redis g \<noteq> None then reserve_redis env ev sc b est policy rid now g
                  else reserve_memory env sc b est policy rid now g) of
              (Inl e, g') \<Rightarrow> reserve_fault env e sc b est policy g'
            | (Inr result, g') \<Rightarrow> (result, g')))"
  by (cases eo) (simp_all add: guard_reserve_def)

lemma reserve_memory_interprets:
  assumes "reserve_memory env sc b est policy rid now g = (Inr (d, r), g')"
  shows "\<exists>result rid'. interpret_reserve_result env result sc b est policy rid' = Inr (d, r)"
proof -
  have "fst (reserve_memory env sc b est policy rid now g) = Inr (d, r)" using assms by simp
  then show ?thesis
    unfolding reserve_memory_def Let_def by (auto split: if_splits sum.splits prod.splits)
qed

lemma reserve_redis_interprets:
  assumes "reserve_redis env ev sc b est policy rid now g = (Inr (d, r), g')"
  shows "\<exists>result. interpret_reserve_result env result sc b est policy rid = Inr (d, r)
    \<and> ((\<exists>ks args s s'. ev ''_reserve_sha'' ks args s = (Inr result, s')) \<or> result = JArr [JStr ''corrupt''])"
proof -
  obtain cap ttl where "budget_to_micros (budget_usd b) = Inr cap" "ttl_ms_of b = Inr ttl"
    using assms by (auto simp: reserve_redis_def split: sum.splits)
  with assms obtain result g1 where
    se: "store_eval ev ''_reserve_sha'' (budget_keys sc)
      [JInt now, JInt (window_seconds b * 1000), JInt cap, JInt est, JStr rid, JInt ttl] g = (Inr result, g1)"
    and i: "interpret_reserve_result env result sc b est policy rid = Inr (d, r)"
    by (auto simp: reserve_redis_def split: sum.splits prod.splits)
  from se have "(\<exists>ks args s s'. ev ''_reserve_sha'' ks args s = (Inr result, s')) \<or> result = JArr [JStr ''corrupt'']"
    unfolding store_eval_def by (auto split: option.splits if_splits sum.splits prod.splits)
  with i show ?thesis by blast
qed

lemma guard_reserve_decides:
  assumes "guard_policy g = Some policy"
    and "guard_reserve env ev tenant model inp out key usd rid now g = ((d, r), g')"
  shows "denial_ok d r \<or>
    (admission_ok d r \<and>
     (guard_redis g \<noteq> None \<longrightarrow>
        (\<exists>ks args s reply s'. ev ''_reserve_sha'' ks args s = (Inr reply, s') \<and> store_admits reply)))"
proof -
  obtain sc b where sc: "scope_for (sha256_hex env) policy tenant key = (sc, b)" by fastforce
  obtain est eo where est: "estimate_of policy model inp out usd = (est, eo)" by fastforce
  note run = assms(2) [unfolded guard_reserve_eq [OF assms(1) sc est]]
  show ?thesis
  proof (cases eo)
    case (Inl e)
    with run reserve_fault_ok show ?thesis by fastforce
  next
    case n: (Inr n)
    with est have nn: "0 \<le> est" by (auto dest: estimate_of_nonneg)
    let ?m = "if guard_redis g \<noteq> None then reserve_redis env ev sc b est policy rid now g
      else reserve_memory env sc b est policy rid now g"
    obtain o1 g1 where m: "?m = (o1, g1)" by fastforce
    show ?thesis
    proof (cases o1)
      case (Inl e)
      with run n m have "reserve_fault env e sc b est policy g1 = ((d, r), g')" by simp
      then show ?thesis by (auto dest: reserve_fault_ok)
    next
      case (Inr dr)
      with run n m have o1: "?m = (Inr (d, r), g')" by simp
      show ?thesis
      proof (cases "guard_redis g")
        case None
        with o1 have "reserve_memory env sc b est policy rid now g = (Inr (d, r), g')" by simp
        from reserve_memory_interprets [OF this] interpret_cases [OF _ nn] None show ?thesis by blast
      next
        case (Some s)
        with o1 have "reserve_redis env ev sc b est policy rid now g = (Inr (d, r), g')" by simp
        from reserve_redis_interprets [OF this] interpret_cases [OF _ nn] corrupt_reply(1) show ?thesis
          by metis
      qed
    qed
  qed
qed


definition demo_env :: hash_env where
  "demo_env = \<lparr>sha256_hex = (\<lambda>_. replicate 64 (CHR ''a'')), canonical_bytes = policy_version\<rparr>"

text \<open>A Redis client that always answers nonsense.\<close>

definition broken_store :: "nat evaluator" where
  "broken_store sha ks args s = (Inr (JStr ''OK''), Suc s)"


subsection \<open>Admission against the in-process window\<close>

definition guard_ok :: "'r InferenceBudgetGuard \<Rightarrow> bool" where
  "guard_ok g \<longleftrightarrow> (\<forall>sc st. dict_get (guard_memory g) sc = Some st \<longrightarrow> mem_inv st)"

lemma guard_ok_window: "guard_ok g \<Longrightarrow> mem_inv (get_default (guard_memory g) sc new_window)"
  by (auto simp: guard_ok_def get_default_def split: option.split)

text \<open>A float as \<open>repr\<close> prints it: at most 17 significant digits.\<close>

definition float_repr :: "pyfloat \<Rightarrow> bool" where
  "float_repr x \<longleftrightarrow> (case x of FDec c e \<Rightarrow> \<bar>c\<bar> < 10 ^ 17 | _ \<Rightarrow> True)"

lemma usd_to_micros_exact:
  assumes "\<bar>c\<bar> < 10 ^ 17"
  shows "usd_to_micros (FDec c e) r = Inr (int_round r (c * 1000000) e)"
proof -
  have "\<bar>c * 1000000\<bar> < 10 ^ 28" using assms by (simp add: abs_mult)
  then show ?thesis
    by (simp add: usd_to_micros_def dec_of_int_def MICROS_def ctx_round_exact)
qed

lemma micros_val: "dec_val (c * 1000000) e = dec_val c e * 1000000"
  by (simp add: dec_val_def)

lemma budget_to_micros_floor:
  "float_repr x \<Longrightarrow> budget_to_micros x = Inr n \<Longrightarrow> n = \<lfloor>fval x * 1000000\<rfloor>"
proof (cases x)
  case (FDec c e)
  assume "float_repr x" "budget_to_micros x = Inr n"
  then show ?thesis
    using FDec by (simp add: float_repr_def budget_to_micros_def usd_to_micros_exact int_round_floor micros_val)
qed (simp_all add: budget_to_micros_def usd_to_micros_def)

lemma charge_to_micros_ceiling:
  "float_repr x \<Longrightarrow> isfinite x \<Longrightarrow> charge_to_micros x = Inr \<lceil>fval x * 1000000\<rceil>"
  by (cases x) (auto simp: float_repr_def charge_to_micros_def usd_to_micros_exact int_round_ceiling micros_val)

lemma reserve_memory_admits:
  assumes rm: "reserve_memory env sc b est policy rid now g = (Inr (d, Some r), g')" and nn: "0 \<le> est"
  obtains ttl cap okf st where "ttl_ms_of b = Inr ttl" and "budget_to_micros (budget_usd b) = Inr cap"
    and "reserve_decide now ttl cap est rid
      (reserve_prepare now (window_seconds b * 1000) ttl (get_default (guard_memory g) sc new_window)) = (okf, st)"
    and "interpret_reserve_result env (JArr [JInt (if okf then 1 else 0), JInt (committed_micros st), JInt (reserved_micros st)]) sc b est policy rid = Inr (d, Some r)"
    and "g' = g\<lparr>guard_memory := dict_set sc st (guard_memory g)\<rparr>"
proof -
  have "interpret_reserve_result env (JArr [JStr ''corrupt'']) sc b est policy [] \<noteq> Inr (d, Some r)"
    using interpret_cases [OF _ nn] corrupt_reply(1) by (fastforce simp: denial_ok_def)
  with rm that show thesis
    unfolding reserve_memory_def Let_def by (auto split: if_splits sum.splits prod.splits)
qed

text \<open>
  C12: an admission of the in-process guard respects the dollar cap exactly. When \<open>reserve\<close>
  admits a request with a fresh id, the scope's window then satisfies committed plus reserved
  at most \<open>budget_usd\<close> times a million as exact rationals (the cap is rounded down), it holds a
  live reservation of exactly the estimate, its invariant is kept, and the windows of all other
  scopes are untouched.
\<close>

theorem admission_within_dollar_cap:
  assumes ok: "guard_ok g" and mem: "guard_redis g = None" and pol: "guard_policy g = Some policy"
    and scope: "scope_for (sha256_hex env) policy tenant key = (sc, b)" and repr: "float_repr (budget_usd b)"
    and fresh: "\<forall>st. dict_get (guard_memory g) sc = Some st \<longrightarrow> mem_live st rid = None \<and> mem_late st rid = None"
    and run: "guard_reserve env ev tenant model inp out key usd rid now g = ((d, Some r), g')"
  shows "guard_ok g' \<and> (\<exists>st. dict_get (guard_memory g') sc = Some st
      \<and> of_int (committed_micros st + reserved_micros st) \<le> fval (budget_usd b) * 1000000
      \<and> mem_live st rid = Some (res_micros r) \<and> res_id r = rid)
    \<and> (\<forall>sc'. sc' \<noteq> sc \<longrightarrow> dict_get (guard_memory g') sc' = dict_get (guard_memory g) sc')"
proof -
  obtain est eo where est: "estimate_of policy model inp out usd = (est, eo)" by fastforce
  note run' = run [unfolded guard_reserve_eq [OF pol scope est] mem, simplified]
  have no_fault: "reserve_fault env e sc b est policy gg \<noteq> ((d, Some r), g')" for e gg
    by (auto dest: reserve_fault_ok simp: denial_ok_def)
  obtain n where n: "eo = Inr n" using run' no_fault by (cases eo) auto
  with est have nn: "0 \<le> est" by (auto dest: estimate_of_nonneg)
  have rm: "reserve_memory env sc b est policy rid now g = (Inr (d, Some r), g')"
    using run' n no_fault by (auto split: prod.splits sum.splits)
  let ?w = "window_seconds b * 1000"
  let ?st0 = "get_default (guard_memory g) sc new_window"
  obtain ttl cap okf st where ttl: "ttl_ms_of b = Inr ttl" and cap: "budget_to_micros (budget_usd b) = Inr cap"
    and dec: "reserve_decide now ttl cap est rid (reserve_prepare now ?w ttl ?st0) = (okf, st)"
    and int: "interpret_reserve_result env (JArr [JInt (if okf then 1 else 0), JInt (committed_micros st), JInt (reserved_micros st)]) sc b est policy rid = Inr (d, Some r)"
    and g': "g' = g\<lparr>guard_memory := dict_set sc st (guard_memory g)\<rparr>"
    by (rule reserve_memory_admits [OF rm nn])
  from interpret_cases [OF int nn] have r: "res_id r = rid" "res_micros r = est" and okf: okf
    by (auto simp: denial_ok_def reservation_for_def store_admits_def read_reply_def split: if_splits)
  have inv0: "mem_inv ?st0" by (rule guard_ok_window [OF ok])
  have unk: "mem_live ?st0 rid = None" "mem_late ?st0 rid = None"
    using fresh by (auto simp: get_default_def mem_defs new_window_def split: option.split)
  note prep = prepare_facts [OF inv0, of now ?w ttl] prepare_unknown [OF unk, of now ?w ttl]
  have st: "st = snd (reserve_decide now ttl cap est rid (reserve_prepare now ?w ttl ?st0))" using dec by simp
  have inv: "mem_inv st" unfolding st using prep nn by (intro decide_inv) auto
  have le: "committed_micros st + reserved_micros st \<le> cap"
    using dec okf by (auto simp: reserve_decide_def split: if_splits)
  have live: "mem_live st rid = Some est"
    using dec okf by (auto simp: reserve_decide_def mem_live_def dict_simps split: if_splits)
  have "of_int (committed_micros st + reserved_micros st) \<le> (of_int cap :: rat)" using le by simp
  also have "\<dots> \<le> fval (budget_usd b) * 1000000"
    using budget_to_micros_floor [OF repr cap] by simp
  finally have usd: "of_int (committed_micros st + reserved_micros st) \<le> fval (budget_usd b) * 1000000" .
  show ?thesis
    using ok inv usd live r by (auto simp: g' guard_ok_def dict_simps split: if_splits)
qed

theorem admission_within_dollar_cap_witness:
  "\<exists>d r g' st. guard_reserve demo_env broken_store ''t'' ''qwen'' 10 20 None None ''id'' 5 (init_guard (Some demo_policy) None) = ((d, Some r), g')
     \<and> dict_get (guard_memory g') ''tenant:t'' = Some st \<and> res_micros r = 33
     \<and> of_int (committed_micros st + reserved_micros st) \<le> (1000000 :: rat)"
proof -
  let ?g = "init_guard (Some demo_policy) None :: nat InferenceBudgetGuard"
  let ?res = "guard_reserve demo_env broken_store ''t'' ''qwen'' 10 20 None None ''id'' 5 ?g"
  have "map_option res_micros (snd (fst ?res)) = Some 33" by code_simp
  then obtain r where some: "snd (fst ?res) = Some r" and r: "res_micros r = 33"
    unfolding map_option_eq_Some by blast
  obtain d g' where eq: "?res = ((d, Some r), g')"
    using some by (metis prod.collapse)
  have h1: "guard_ok ?g" "guard_redis ?g = None" "guard_policy ?g = Some demo_policy"
    "\<forall>st. dict_get (guard_memory ?g) ''tenant:t'' = Some st \<longrightarrow> mem_live st ''id'' = None \<and> mem_late st ''id'' = None"
    by (simp_all add: guard_ok_def init_guard_def)
  have h2: "scope_for (sha256_hex demo_env) demo_policy ''t'' None = (''tenant:t'', default_budget demo_policy)" by code_simp
  have h3: "float_repr (budget_usd (default_budget demo_policy))" by (simp add: demo_policy_def float_repr_def)
  have v: "fval (budget_usd (default_budget demo_policy)) = 1"
    by (simp add: demo_policy_def dec_val_def pow10_def)
  from admission_within_dollar_cap [OF h1(1-3) h2 h3 h1(4) eq] eq r v show ?thesis by auto
qed

subsection \<open>The reservation object\<close>

text \<open>
  A reservation object talks to the store at most once. Whichever of \<open>settle\<close>, \<open>release\<close> and
  \<open>abandon\<close> comes first, on either backend and even if its store call fails, every later call of
  any of the three leaves the reservation and the guard exactly as they are.
\<close>

theorem reservation_finishes_once:
  "fold (\<lambda>(f, now) rg. finish_op ev f now rg) later (finish_op ev first t rg) = finish_op ev first t rg"
proof (induction later)
  case Nil
  then show ?case by simp
next
  case (Cons fn later)
  obtain f now where "fn = (f, now)" by (cases fn)
  with Cons show ?case by (simp add: finish_noop [OF finish_settled])
qed

text \<open>
  What an abandoned request costs. For an unsettled reservation that is live in its window
  (in-process backend, no rollover in between), the error path charges exactly the estimate
  when the model may have run and nothing when it was never called; in both cases the hold is
  given back and the id is gone.
\<close>

theorem abandon_charges_iff_executed:
  assumes "guard_redis g = None" and "\<not> settled r" and "0 < res_window_ms r"
    and "dict_get (guard_memory g) (res_scope r) = Some st" and "mem_inv st"
    and "mem_live st (res_id r) = Some (res_micros r)"
    and "window_start_ms st \<noteq> 0" and "now - window_start_ms st < res_window_ms r"
  shows "\<exists>st'. dict_get (guard_memory (snd (abandon ev now (r, g)))) (res_scope r) = Some st'
    \<and> committed_micros st' = committed_micros st + (if executed r then res_micros r else 0)
    \<and> reserved_micros st' = reserved_micros st - res_micros r
    \<and> mem_live st' (res_id r) = None \<and> mem_late st' (res_id r) = None"
proof -
  obtain e where e: "dict_get (reservations st) (res_id r) = Some (e, res_micros r)"
    using assms(6) by (auto simp: mem_live_def)
  have nn: "0 \<le> res_micros r" using mem_inv_entry [OF assms(5) e] by simp
  let ?a = "if executed r then res_micros r else 0"
  let ?st = "mem_settle (res_window_ms r) now (res_id r) ?a st"
  have "dict_get (guard_memory (snd (abandon ev now (r, g)))) (res_scope r) = Some ?st"
    using assms(1-4) nn
    by (simp add: abandon_def settle_def release_def guard_settle_def actual_charge_def Let_def dict_simps)
  moreover have "committed_micros ?st = committed_micros st + ?a" "reserved_micros ?st = reserved_micros st - res_micros r"
    using assms(7,8) e mem_inv_pop(2) [OF assms(5) e]
    by (simp_all add: mem_settle_def commit_spend_def roll_window_def)
  moreover note settle_gone_mem [OF assms(5), of "res_window_ms r" now "res_id r" ?a]
  ultimately show ?thesis by blast
qed

definition demo_reservation :: BudgetReservation where
  "demo_reservation = \<lparr>res_scope = ''tenant:t'', res_id = ''id'', res_micros = 33, res_budget_usd = FDec 1 0,
     res_soft_warning = False, res_policy_version = ''v1'', res_policy_sha256 = [], res_window_ms = 3600000,
     executed = True, settled = False\<rparr>"

theorem abandon_charges_iff_executed_witness:
  "\<exists>st'. dict_get (guard_memory (snd (abandon broken_store 7 (demo_reservation,
      (init_guard (Some demo_policy) None)\<lparr>guard_memory := [(''tenant:t'',
        \<lparr>window_start_ms = 5, committed_micros = 10, reserved_micros = 33,
         reservations = [(''id'', 120005, 33)], tombstones = []\<rparr>)]\<rparr>)))) ''tenant:t'' = Some st'
    \<and> committed_micros st' = 43 \<and> reserved_micros st' = 0"
proof -
  let ?st = "\<lparr>window_start_ms = 5, committed_micros = 10, reserved_micros = 33,
         reservations = [(''id'', 120005, 33)], tombstones = []\<rparr>"
  let ?g = "(init_guard (Some demo_policy) None)\<lparr>guard_memory := [(''tenant:t'', ?st)]\<rparr> :: nat InferenceBudgetGuard"
  have h: "guard_redis ?g = None" "\<not> settled demo_reservation" "0 < res_window_ms demo_reservation"
    "dict_get (guard_memory ?g) (res_scope demo_reservation) = Some ?st" "mem_inv ?st"
    "mem_live ?st (res_id demo_reservation) = Some (res_micros demo_reservation)"
    "window_start_ms ?st \<noteq> 0" "7 - window_start_ms ?st < res_window_ms demo_reservation"
    by (simp_all add: init_guard_def demo_reservation_def mem_inv_def mem_live_def)
  from abandon_charges_iff_executed [OF h, of broken_store] show ?thesis
    by (auto simp: demo_reservation_def)
qed

text \<open>
  An actual spend is never under-counted. A finite non-negative spend (as \<open>repr\<close> prints it)
  is charged at the ceiling of its exact micros; an absent, negative, infinite or NaN figure is
  charged at the reserved estimate.
\<close>

theorem actual_charge_never_undercounts:
  "float_repr v \<Longrightarrow>
    actual_charge r (Some v) = (if isfinite v \<and> 0 \<le> fval v then \<lceil>fval v * 1000000\<rceil> else res_micros r)
    \<and> actual_charge r None = res_micros r"
  by (cases v) (auto simp: actual_charge_def charge_to_micros_ceiling)

theorem actual_charge_never_undercounts_witness:
  "actual_charge demo_reservation (Some (FDec 12345678 (-10))) = \<lceil>fval (FDec 12345678 (-10)) * 1000000\<rceil>"
proof -
  have "float_repr (FDec 12345678 (-10))" by (simp add: float_repr_def)
  from actual_charge_never_undercounts [OF this, of demo_reservation] show ?thesis
    by (simp add: dec_val_def pow10_def)
qed

end
