(* ===== verification/Resilience.thy ===== *)
theory Resilience imports Errors begin

text \<open>
  \<open>app/gateway/resilience.py\<close>: the drain switch, the process-wide admission gate, the circuit
  breaker and the retry budget. The gate stands on \<open>asyncio.Semaphore\<close>, modelled with its value,
  its first-come-first-served waiters (a waiter is woken by setting its future, and runs later)
  and its behaviour on cancellation. The code between two suspension points is one step; the
  \<open>asyncio.Lock\<close> is never contended because no block under it suspends. Clocks are rationals
  (seconds).
\<close>

subsection \<open>Drain\<close>

record DrainState =
  draining :: bool
  started_at :: "rat option"

definition drain_begin :: "rat \<Rightarrow> DrainState \<Rightarrow> DrainState" where
  "drain_begin now d = (if draining d then d else d\<lparr>draining := True, started_at := Some now\<rparr>)"

definition plain_error :: "int \<Rightarrow> string \<Rightarrow> string \<Rightarrow> string \<Rightarrow> (string, string) dict \<Rightarrow> HTTPException" where
  "plain_error status ty code msg headers =
     \<lparr>he_status = status,
      he_detail = JObj [(''error'', JObj [(''type'', JStr ty), (''code'', JStr code), (''message'', JStr msg)])],
      he_headers = headers\<rparr>"

definition reject_if_draining :: "DrainState \<Rightarrow> HTTPException + unit" where
  "reject_if_draining d =
     (if draining d
      then Inl (plain_error 503 ''api_error'' ''gateway_draining''
                  ''gateway is draining and not accepting new requests'' [(''Retry-After'', ''1'')])
      else Inr ())"

subsection \<open>The admission gate\<close>

text \<open>A waiter is a task and whether its future is done.\<close>

record AdmissionGate =
  max_inflight :: int
  max_queued :: int
  sem_value :: nat
  sem_waiters :: "(string \<times> bool) list"
  gate_queued :: int
  gate_inflight :: int

definition new_gate :: "int \<Rightarrow> int \<Rightarrow> AdmissionGate" where
  "new_gate inflight queued =
     \<lparr>max_inflight = inflight, max_queued = queued, sem_value = nat (max 1 inflight),
      sem_waiters = [], gate_queued = 0, gate_inflight = 0\<rparr>"

text \<open>\<open>_wake_up_next\<close>: the first waiter whose future is not done; \<open>None\<close> when there is none.\<close>

fun wake_up_next :: "(string \<times> bool) list \<Rightarrow> (string \<times> bool) list option" where
  "wake_up_next [] = None"
| "wake_up_next ((t, woken) # ws) =
     (if woken then map_option ((#) (t, woken)) (wake_up_next ws) else Some ((t, True) # ws))"

text \<open>\<open>while self._value > 0: if not self._wake_up_next(): break\<close>.\<close>

fun wake_many :: "nat \<Rightarrow> (string \<times> bool) list \<Rightarrow> nat \<times> (string \<times> bool) list" where
  "wake_many 0 ws = (0, ws)"
| "wake_many (Suc v) ws = (case wake_up_next ws of None \<Rightarrow> (Suc v, ws) | Some ws' \<Rightarrow> wake_many v ws')"

definition sem_locked :: "AdmissionGate \<Rightarrow> bool" where
  "sem_locked g = (sem_value g = 0 \<or> sem_waiters g \<noteq> [])"

definition load_shed :: "AdmissionGate \<Rightarrow> HTTPException" where
  "load_shed g =
     plain_error 503 ''rate_limit_error'' ''gateway_load_shed'' ''gateway capacity exceeded; request shed''
       [(''Retry-After'', ''1''), (''X-RateLimit-Limit'', show_int (max_inflight g)), (''X-RateLimit-Remaining'', ''0'')]"

text \<open>The \<open>finally\<close> of \<open>acquire\<close>.\<close>

definition acquire_done :: "bool \<Rightarrow> AdmissionGate \<Rightarrow> AdmissionGate" where
  "acquire_done acquired g =
     g\<lparr>gate_queued := max 0 (gate_queued g - 1),
       gate_inflight := (if acquired then gate_inflight g + 1 else gate_inflight g)\<rparr>"

text \<open>\<open>acquire\<close> up to its first suspension: shed, admitted at once, or queued on the semaphore.\<close>

definition gate_acquire :: "string \<Rightarrow> AdmissionGate \<Rightarrow> HTTPException + AdmissionGate" where
  "gate_acquire t g =
     (if max_inflight g \<le> gate_inflight g \<and> max_queued g \<le> gate_queued g then Inl (load_shed g)
      else let g = g\<lparr>gate_queued := gate_queued g + 1\<rparr> in
        if sem_locked g then Inr (g\<lparr>sem_waiters := sem_waiters g @ [(t, False)]\<rparr>)
        else Inr (acquire_done True (g\<lparr>sem_value := sem_value g - 1\<rparr>)))"

definition leave_queue :: "string \<Rightarrow> nat \<Rightarrow> AdmissionGate \<Rightarrow> AdmissionGate" where
  "leave_queue t back g =
     (case wake_many (sem_value g + back) (filter (\<lambda>w. fst w \<noteq> t) (sem_waiters g)) of
        (v, ws) \<Rightarrow> g\<lparr>sem_value := v, sem_waiters := ws\<rparr>)"

text \<open>A woken task runs: it leaves the queue and is in flight.\<close>

definition gate_resume :: "string \<Rightarrow> AdmissionGate \<Rightarrow> AdmissionGate" where
  "gate_resume t g = acquire_done True (leave_queue t 0 g)"

text \<open>A queued task is cancelled: if it had been woken it gives the slot back.\<close>

definition gate_cancel :: "string \<Rightarrow> AdmissionGate \<Rightarrow> AdmissionGate" where
  "gate_cancel t g = acquire_done False (leave_queue t (if (t, True) \<in> set (sem_waiters g) then 1 else 0) g)"

definition gate_release :: "AdmissionGate \<Rightarrow> AdmissionGate" where
  "gate_release g =
     (let g = (case wake_up_next (sem_waiters g) of
                 None \<Rightarrow> g\<lparr>sem_value := sem_value g + 1\<rparr>
               | Some ws \<Rightarrow> g\<lparr>sem_waiters := ws\<rparr>)
      in g\<lparr>gate_inflight := max 0 (gate_inflight g - 1)\<rparr>)"

text \<open>
  The steps of the event loop on a gate. A task waits at most once, and a slot is released only
  by a request that is in flight.
\<close>

inductive gate_step :: "AdmissionGate \<Rightarrow> AdmissionGate \<Rightarrow> bool" where
  arrive: "t \<notin> fst ` set (sem_waiters g) \<Longrightarrow> gate_acquire t g = Inr g' \<Longrightarrow> gate_step g g'"
| resume: "(t, True) \<in> set (sem_waiters g) \<Longrightarrow> gate_step g (gate_resume t g)"
| cancel: "t \<in> fst ` set (sem_waiters g) \<Longrightarrow> gate_step g (gate_cancel t g)"
| release: "0 < gate_inflight g \<Longrightarrow> gate_step g (gate_release g)"

inductive_cases gate_stepE: "gate_step g g'"

definition woken_count :: "(string \<times> bool) list \<Rightarrow> nat" where
  "woken_count ws = length (filter snd ws)"

definition capacity :: "AdmissionGate \<Rightarrow> int" where
  "capacity g = max 1 (max_inflight g)"

definition gate_inv :: "AdmissionGate \<Rightarrow> bool" where
  "gate_inv g \<longleftrightarrow>
     distinct (map fst (sem_waiters g)) \<and> 0 \<le> gate_inflight g
     \<and> gate_queued g = int (length (sem_waiters g))
     \<and> int (sem_value g) + int (woken_count (sem_waiters g)) + gate_inflight g = capacity g
     \<and> (0 < sem_value g \<and> woken_count (sem_waiters g) = 0 \<longrightarrow> sem_waiters g = [])"

lemma wake_up_next_Some:
  "wake_up_next ws = Some ws' \<Longrightarrow>
    map fst ws' = map fst ws \<and> length ws' = length ws \<and> woken_count ws' = Suc (woken_count ws)"
  by (induction ws arbitrary: ws' rule: wake_up_next.induct) (auto simp: woken_count_def split: if_splits)

lemma wake_up_next_None: "wake_up_next ws = None \<Longrightarrow> woken_count ws = length ws"
  by (induction ws rule: wake_up_next.induct) (auto simp: woken_count_def split: if_splits)

lemma wake_many_facts:
  "wake_many v ws = (v', ws') \<Longrightarrow>
    map fst ws' = map fst ws \<and> length ws' = length ws \<and> v' + woken_count ws' = v + woken_count ws
    \<and> (0 < v' \<longrightarrow> woken_count ws' = length ws')"
proof (induction v ws rule: wake_many.induct)
  case (1 ws)
  then show ?case by simp
next
  case (2 v ws)
  show ?case
  proof (cases "wake_up_next ws")
    case None
    with 2 show ?thesis using wake_up_next_None [OF None] by auto
  next
    case (Some u)
    with 2 wake_up_next_Some [OF Some] show ?thesis by auto
  qed
qed

lemma leave_counts:
  assumes "distinct (map fst ws)" and "(t, b) \<in> set ws"
  shows "length (filter (\<lambda>w. fst w \<noteq> t) ws) + 1 = length ws"
    and "woken_count (filter (\<lambda>w. fst w \<noteq> t) ws) + (if b then 1 else 0) = woken_count ws"
proof -
  from assms(2) obtain xs ys where ws: "ws = xs @ (t, b) # ys" by (meson split_list)
  with assms(1) have "t \<notin> fst ` set xs" "t \<notin> fst ` set ys" by auto
  then have "\<forall>w\<in>set xs. fst w \<noteq> t" "\<forall>w\<in>set ys. fst w \<noteq> t" by auto
  then have f: "filter (\<lambda>w. fst w \<noteq> t) ws = xs @ ys" using ws by simp
  show "length (filter (\<lambda>w. fst w \<noteq> t) ws) + 1 = length ws" unfolding f by (simp add: ws)
  show "woken_count (filter (\<lambda>w. fst w \<noteq> t) ws) + (if b then 1 else 0) = woken_count ws"
    unfolding f by (simp add: ws woken_count_def)
qed

lemma leave_queue_inv:
  assumes "gate_inv g" and "(t, b) \<in> set (sem_waiters g)" and "back \<le> 1"
    and "g' = leave_queue t back g"
  shows "distinct (map fst (sem_waiters g'))" and "gate_queued g = int (length (sem_waiters g')) + 1"
    and "int (sem_value g') + int (woken_count (sem_waiters g')) + (if b then 1 else 0)
      = int (sem_value g) + int (woken_count (sem_waiters g)) + int back"
    and "0 < sem_value g' \<and> woken_count (sem_waiters g') = 0 \<longrightarrow> sem_waiters g' = []"
    and "gate_queued g' = gate_queued g" "gate_inflight g' = gate_inflight g" "capacity g' = capacity g"
proof -
  let ?f = "filter (\<lambda>w. fst w \<noteq> t) (sem_waiters g)"
  obtain v ws where w: "wake_many (sem_value g + back) ?f = (v, ws)" by fastforce
  have g': "g' = g\<lparr>sem_value := v, sem_waiters := ws\<rparr>" using assms(4) w by (simp add: leave_queue_def)
  have d: "distinct (map fst (sem_waiters g))" and q: "gate_queued g = int (length (sem_waiters g))"
    using assms(1) by (simp_all add: gate_inv_def)
  note l = leave_counts [OF d assms(2)] and m = wake_many_facts [OF w]
  show "distinct (map fst (sem_waiters g'))" using m d by (simp add: g' distinct_map_filter)
  show "gate_queued g = int (length (sem_waiters g')) + 1" using l(1) m q by (simp add: g')
  show "int (sem_value g') + int (woken_count (sem_waiters g')) + (if b then 1 else 0)
      = int (sem_value g) + int (woken_count (sem_waiters g)) + int back"
    using l(2) m by (auto simp: g' split: if_splits)
  show "0 < sem_value g' \<and> woken_count (sem_waiters g') = 0 \<longrightarrow> sem_waiters g' = []"
    using m by (auto simp: g')
qed (simp_all add: assms(4) leave_queue_def capacity_def split: prod.split)

lemma gate_acquire_inv:
  assumes "gate_inv g" and "t \<notin> fst ` set (sem_waiters g)" and "gate_acquire t g = Inr g'"
  shows "gate_inv g'"
proof (cases "sem_locked (g\<lparr>gate_queued := gate_queued g + 1\<rparr>)")
  case True
  with assms(3) have g': "g' = g\<lparr>gate_queued := gate_queued g + 1, sem_waiters := sem_waiters g @ [(t, False)]\<rparr>"
    by (auto simp: gate_acquire_def Let_def split: if_splits)
  have "sem_waiters g \<noteq> [] \<or> sem_value g = 0" using True by (auto simp: sem_locked_def)
  with assms(1,2) show ?thesis
    by (auto simp: g' gate_inv_def capacity_def woken_count_def)
next
  case False
  with assms(3) have "g' = acquire_done True (g\<lparr>gate_queued := gate_queued g + 1, sem_value := sem_value g - 1\<rparr>)"
    by (auto simp: gate_acquire_def Let_def split: if_splits)
  with False assms(1) show ?thesis
    by (auto simp: gate_inv_def capacity_def acquire_done_def sem_locked_def woken_count_def)
qed

lemma gate_step_inv:
  assumes "gate_step g g'" and "gate_inv g"
  shows "gate_inv g' \<and> capacity g' = capacity g"
  using assms(1)
proof (cases rule: gate_step.cases)
  case (arrive t)
  then show ?thesis using gate_acquire_inv [OF assms(2)]
    by (auto simp: gate_acquire_def Let_def acquire_done_def capacity_def split: if_splits)
next
  case (resume t)
  note l = leave_queue_inv [OF assms(2) resume(2) _ refl, of 0]
  from l assms(2) show ?thesis
    by (auto simp: resume(1) gate_resume_def acquire_done_def gate_inv_def capacity_def)
next
  case (cancel t)
  then obtain b where b: "(t, b) \<in> set (sem_waiters g)" by auto
  have same: "(t, True) \<in> set (sem_waiters g) \<longleftrightarrow> b"
    using b assms(2) by (auto simp: gate_inv_def dest: eq_key_imp_eq_value)
  note l = leave_queue_inv [OF assms(2) b _ refl, of "if b then 1 else 0"]
  from l assms(2) show ?thesis
    by (auto simp: cancel(1) gate_cancel_def same acquire_done_def gate_inv_def capacity_def)
next
  case release
  show ?thesis
  proof (cases "wake_up_next (sem_waiters g)")
    case None
    with release assms(2) wake_up_next_None [OF None] show ?thesis
      by (auto simp: gate_release_def Let_def gate_inv_def capacity_def)
  next
    case (Some ws)
    with release assms(2) wake_up_next_Some [OF Some] show ?thesis
      by (auto simp: gate_release_def Let_def gate_inv_def capacity_def)
  qed
qed

lemma new_gate_inv: "gate_inv (new_gate i q)"
  by (simp add: gate_inv_def new_gate_def capacity_def woken_count_def)

text \<open>
  C22: the admission gate neither loses nor invents slots. In every state reachable from a new
  gate by arrivals, wake-ups, cancellations of queued tasks and releases, free slots, slots on
  their way to a woken task and requests in flight add up to the capacity, so never more
  requests run than the limit; the queue length counts exactly the waiting tasks; and if a slot
  is free while somebody waits, a woken task is about to run and pass it on.
\<close>

theorem gate_conserves_slots:
  assumes "gate_step\<^sup>*\<^sup>* (new_gate i q) g"
  shows "gate_inflight g \<le> max 1 i
    \<and> int (sem_value g) + int (woken_count (sem_waiters g)) + gate_inflight g = max 1 i
    \<and> gate_queued g = int (length (sem_waiters g))
    \<and> (0 < sem_value g \<and> sem_waiters g \<noteq> [] \<longrightarrow> (\<exists>t. (t, True) \<in> set (sem_waiters g)))"
proof -
  have "gate_inv g \<and> capacity g = max 1 i"
    using assms
  proof (induction rule: rtranclp_induct)
    case base
    then show ?case by (simp add: new_gate_inv) (simp add: new_gate_def capacity_def)
  next
    case (step g g')
    then show ?case using gate_step_inv by metis
  qed
  moreover have "\<exists>t. (t, True) \<in> set ws" if "woken_count ws \<noteq> 0" for ws
  proof -
    from that have "filter snd ws \<noteq> []" by (simp add: woken_count_def)
    then obtain w where "w \<in> set ws" "snd w" by (auto simp: filter_empty_conv)
    then show ?thesis by (metis prod.collapse)
  qed
  ultimately show ?thesis by (auto simp: gate_inv_def)
qed

definition gate_after :: "AdmissionGate \<Rightarrow> string \<Rightarrow> AdmissionGate" where
  "gate_after g t = (case gate_acquire t g of Inr g' \<Rightarrow> g' | Inl e \<Rightarrow> g)"

theorem gate_conserves_slots_witness:
  "gate_inflight (gate_after (gate_after (new_gate 1 5) ''a'') ''b'') \<le> 1"
proof -
  let ?g = "gate_after (new_gate 1 5) ''a''"
  have "gate_acquire ''a'' (new_gate 1 5) = Inr ?g" by code_simp
  then have 1: "gate_step (new_gate 1 5) ?g" by (intro arrive) (simp_all add: new_gate_def)
  have "gate_acquire ''b'' ?g = Inr (gate_after ?g ''b'')" by code_simp
  moreover have "sem_waiters ?g = []" by code_simp
  ultimately have 2: "gate_step ?g (gate_after ?g ''b'')" by (intro arrive) simp_all
  from 1 2 have "gate_step\<^sup>*\<^sup>* (new_gate 1 5) (gate_after ?g ''b'')" by simp
  from gate_conserves_slots [OF this] show ?thesis by simp
qed

text \<open>
  The queue limit is not a limit. With one slot and a queue limit of one there is a
  reachable state with three queued requests: between a release and the run of the task it woke,
  the in-flight count is below its maximum, so arrivals pass the check without the queue being
  looked at.
\<close>

theorem queue_limit_overrun:
  "\<exists>g. gate_step\<^sup>*\<^sup>* (new_gate 1 1) g \<and> max_queued g = 1 \<and> gate_queued g = 3"
proof -
  let ?g1 = "gate_after (new_gate 1 1) ''a''"
  let ?g2 = "gate_after ?g1 ''b''"
  let ?g3 = "gate_release ?g2"
  let ?g4 = "gate_after ?g3 ''c''"
  let ?g5 = "gate_after ?g4 ''d''"
  have 1: "gate_step (new_gate 1 1) ?g1" by (rule arrive [of "''a''"]; code_simp)
  have 2: "gate_step ?g1 ?g2" by (rule arrive [of "''b''"]; code_simp)
  have 3: "gate_step ?g2 ?g3" by (rule release; code_simp)
  have 4: "gate_step ?g3 ?g4" by (rule arrive [of "''c''"]; code_simp)
  have 5: "gate_step ?g4 ?g5" by (rule arrive [of "''d''"]; code_simp)
  have "gate_step\<^sup>*\<^sup>* (new_gate 1 1) ?g5"
    using 1 2 3 4 5 by (meson converse_rtranclp_into_rtranclp rtranclp.rtrancl_refl)
  moreover have "max_queued ?g5 = 1" "gate_queued ?g5 = 3" by code_simp+
  ultimately show ?thesis by blast
qed

end
