(* ===== verification/Config.thy ===== *)
theory Config imports Py_Values begin

text \<open>
  \<open>app/gateway/config.py\<close>: the configuration models with their validators and the reading of the
  environment, and \<open>app/gateway/services/urls.py\<close>. A validator returns the message of the
  \<open>ValueError\<close> it raises. The JSON parser, \<open>float(str)\<close> and pydantic's decoding of the two JSON
  tables are parameters; unit prices, weights and timeouts are exact rationals.
\<close>

subsection \<open>Models\<close>

record ModelTarget =
  mt_url :: string
  mt_input_cost :: rat
  mt_output_cost :: rat
  mt_backend_name :: "string option"
  mt_health_path :: string
  mt_provider :: "string option"
  mt_model_revision :: "string option"
  mt_artifact_digest :: "string option"

record RouteTarget =
  rt_model :: string
  rt_weight :: int

record RoutingWeights =
  w_health :: rat
  w_latency :: rat
  w_cost :: rat

record RoutingPolicy =
  rp_strategy :: string
  rp_weights :: RoutingWeights

record ModelRoute =
  route_targets :: "RouteTarget list"
  route_primary :: "string option"
  route_fallback :: "string option"
  route_min_health_score :: "int option"
  route_unhealthy_action :: string
  route_routing_policy :: "RoutingPolicy option"
  route_shadow :: "string option"

definition totals_one :: "RoutingWeights \<Rightarrow> string + RoutingWeights" where
  "totals_one w =
     (if 1 / 10000 < \<bar>w_health w + w_latency w + w_cost w - 1\<bar> then Inl ''routing weights must total 1'' else Inr w)"

definition uses_supported_strategy :: "RoutingPolicy \<Rightarrow> string + RoutingPolicy" where
  "uses_supported_strategy p =
     (if rp_strategy p \<noteq> ''balanced'' then Inl ''unsupported routing strategy'' else Inr p)"

definition model_names :: "ModelRoute \<Rightarrow> string option list" where
  "model_names r =
     (case route_primary r of
        Some p \<Rightarrow> [Some p, route_fallback r]
      | None \<Rightarrow> map (\<lambda>t. Some (rt_model t)) (route_targets r))"

definition has_valid_policy :: "ModelRoute \<Rightarrow> string + ModelRoute" where
  "has_valid_policy r =
     (let is_canary = route_targets r \<noteq> []; is_failover = route_primary r \<noteq> None in
      if is_canary = is_failover then Inl ''route must define either weighted targets or primary and fallback models''
      else if is_canary \<and> sum_list (map rt_weight (route_targets r)) \<noteq> 100 then Inl ''route target weights must total 100''
      else if is_canary \<and> route_fallback r \<noteq> None then Inl ''weighted routes cannot define a fallback model''
      else if is_failover \<and> route_fallback r = None then Inl ''failover routes require a fallback model''
      else if is_failover \<and> route_primary r = route_fallback r then Inl ''primary and fallback models must differ''
      else if route_min_health_score r \<noteq> None \<and> \<not> is_failover
        then Inl ''health-aware routing requires a primary and fallback policy''
      else if route_min_health_score r \<noteq> None \<and> route_unhealthy_action r \<noteq> ''skip''
        then Inl ''unsupported unhealthy action''
      else if route_routing_policy r \<noteq> None \<and> \<not> is_failover
        then Inl ''cost-aware routing requires a primary and fallback policy''
      else if route_shadow r \<noteq> None \<and> route_shadow r \<notin> set (model_names r)
        then Inl ''shadow must reference a model configured on the route''
      else Inr r)"

text \<open>What the field constraints and the validators admit.\<close>

definition valid_route :: "ModelRoute \<Rightarrow> bool" where
  "valid_route r \<longleftrightarrow> has_valid_policy r = Inr r \<and> (\<forall>t\<in>set (route_targets r). 0 < rt_weight t)
     \<and> (case route_min_health_score r of None \<Rightarrow> True | Some n \<Rightarrow> 0 \<le> n \<and> n \<le> 100)"

record GatewaySettings =
  model_targets :: "(string, ModelTarget) dict"
  model_routes :: "(string, ModelRoute) dict"
  timeout_seconds :: pyfloat
  health_interval_seconds :: pyfloat
  settings_api_keys :: "string list"
  redis_url :: "string option"
  gateway_replicas :: int
  require_shared_state :: bool
  gateway_profile :: string
  jwt_verify_enabled :: bool
  jwt_issuer :: "string option"
  jwt_audience :: "string option"
  require_jwt_iss_aud :: bool
  control_plane_configured :: bool
  require_auth :: bool
  require_control_plane :: bool

definition truthy_opt :: "string option \<Rightarrow> bool" where
  "truthy_opt s = (case s of None \<Rightarrow> False | Some x \<Rightarrow> x \<noteq> [])"

definition missing_models :: "GatewaySettings \<Rightarrow> string option list" where
  "missing_models s =
     filter (\<lambda>m. m \<notin> Some ` keys (model_targets s)) (concat (map (\<lambda>p. model_names (snd p)) (model_routes s)))"

definition route_targets_exist :: "GatewaySettings \<Rightarrow> string + GatewaySettings" where
  "route_targets_exist s = (if missing_models s \<noteq> [] then Inl ''route references unknown models'' else Inr s)"

definition shared_state_required_for_ha :: "GatewaySettings \<Rightarrow> string + GatewaySettings" where
  "shared_state_required_for_ha s =
     (if require_shared_state s \<and> \<not> truthy_opt (redis_url s)
      then Inl ''REDIS_URL is required when REQUIRE_SHARED_STATE=true or GATEWAY_REPLICAS > 1'' else Inr s)"

definition profile_security_guards :: "GatewaySettings \<Rightarrow> string + GatewaySettings" where
  "profile_security_guards s =
     (if gateway_profile s \<notin> {''local'', ''internal'', ''production''}
      then Inl ''GATEWAY_PROFILE must be one of: local, internal, production''
      else let has_auth = settings_api_keys s \<noteq> [] \<or> jwt_verify_enabled s in
        if require_auth s \<and> \<not> has_auth
        then Inl ''authentication is required: set GATEWAY_API_KEYS and/or OIDC_JWT_VERIFY=true''
        else if require_control_plane s \<and> \<not> control_plane_configured s
        then Inl ''CONTROL_PLANE_URL is required for this GATEWAY_PROFILE''
        else if gateway_profile s = ''production'' then
          (if \<not> jwt_verify_enabled s
           then Inl ''production profile requires OIDC_JWT_VERIFY=true and a configured JWKS URL''
           else if \<not> truthy_opt (jwt_issuer s) \<or> \<not> truthy_opt (jwt_audience s)
           then Inl ''production profile requires OIDC_JWT_ISSUER and OIDC_JWT_AUDIENCE''
           else if \<not> require_jwt_iss_aud s then Inl ''production profile requires OIDC_JWT_REQUIRE_ISS_AUD=true''
           else if \<not> require_shared_state s \<or> \<not> truthy_opt (redis_url s)
           then Inl ''production profile requires REDIS_URL shared state''
           else if \<not> control_plane_configured s then Inl ''production profile requires CONTROL_PLANE_URL''
           else Inr s)
        else Inr s)"

text \<open>The field constraints of \<open>GatewaySettings\<close>, then its three validators in order.\<close>

definition validate_settings :: "GatewaySettings \<Rightarrow> string + GatewaySettings" where
  "validate_settings s =
     (if \<not> f_gt (timeout_seconds s) 0 \<or> \<not> f_gt (health_interval_seconds s) 0 \<or> gateway_replicas s < 1
      then Inl ''field constraint''
      else bind_exc (route_targets_exist s) (\<lambda>s.
           bind_exc (shared_state_required_for_ha s) profile_security_guards))"

subsection \<open>The environment\<close>

type_synonym environ = "string \<Rightarrow> string option"

definition getenv :: "environ \<Rightarrow> string \<Rightarrow> string \<Rightarrow> string" where
  "getenv env k dflt = (case env k of None \<Rightarrow> dflt | Some v \<Rightarrow> v)"

definition or_none :: "string \<Rightarrow> string option" where
  "or_none s = (if s = [] then None else Some s)"

text \<open>\<open>[x.strip() for x in raw.split(",") if x.strip()]\<close>.\<close>

definition csv :: "string \<Rightarrow> string list" where
  "csv raw = filter (\<lambda>x. x \<noteq> []) (map strip (split_on (CHR '','') raw))"

definition is_jwt_verify_enabled :: "environ \<Rightarrow> bool" where
  "is_jwt_verify_enabled env = env_flag (getenv env ''OIDC_JWT_VERIFY'' [])"

definition default_targets :: obj where
  "default_targets = [(''qwen2.5-7b-instruct'', JObj
     [(''url'', JStr ''http://vllm-qwen.ai-runtime.svc.cluster.local:8000''),
      (''input_cost_per_million'', JFloat (FDec 2 (-1))),
      (''output_cost_per_million'', JFloat (FDec 2 (-1)))])]"

definition ollama_entry :: "environ \<Rightarrow> (string \<Rightarrow> string + pyfloat) \<Rightarrow> string \<Rightarrow> string \<Rightarrow> string + json" where
  "ollama_entry env to_float url model =
     bind_exc (to_float (getenv env ''OLLAMA_INPUT_COST_PER_MILLION'' ''0'')) (\<lambda>inp.
     bind_exc (to_float (getenv env ''OLLAMA_OUTPUT_COST_PER_MILLION'' ''0'')) (\<lambda>out.
       Inr (JObj [(''url'', JStr url), (''input_cost_per_million'', JFloat inp),
                  (''output_cost_per_million'', JFloat out),
                  (''backend_name'', JStr (''ollama-'' @ model)), (''health_path'', JStr ''/'')])))"

fun add_ollama :: "environ \<Rightarrow> (string \<Rightarrow> string + pyfloat) \<Rightarrow> string \<Rightarrow> string list \<Rightarrow> obj \<Rightarrow> string + obj" where
  "add_ollama env to_float url [] targets = Inr targets"
| "add_ollama env to_float url (m # ms) targets =
     bind_exc (ollama_entry env to_float url m) (\<lambda>e.
       add_ollama env to_float url ms (if dict_get targets m = None then dict_set m e targets else targets))"

definition ollama_targets :: "environ \<Rightarrow> (string \<Rightarrow> string + pyfloat) \<Rightarrow> json \<Rightarrow> string + json" where
  "ollama_targets env to_float targets =
     (let base = getenv env ''OLLAMA_BASE_URL'' [] in
      if base = [] then Inr targets
      else let models = csv (getenv env ''OLLAMA_MODELS'' (getenv env ''OLLAMA_MODEL'' ''qwen2.5:1.5b''));
               url = rstrip_char (CHR ''/'') base;
               url = (if endswith url ''/v1'' then url else url @ ''/v1'')
           in if models = [] then Inr targets
              else case targets of
                  JObj d \<Rightarrow> map_sum id JObj (add_ollama env to_float url models d)
                | _ \<Rightarrow> Inl ''AttributeError'')"

text \<open>The libraries: \<open>json.loads\<close>, \<open>float\<close>, and the decoding of the two tables.\<close>

record config_libs =
  json_loads :: "string \<Rightarrow> string + json"
  to_float :: "string \<Rightarrow> string + pyfloat"
  decode_targets :: "json \<Rightarrow> string + (string, ModelTarget) dict"
  decode_routes :: "json \<Rightarrow> string + (string, ModelRoute) dict"

definition from_environment :: "config_libs \<Rightarrow> environ \<Rightarrow> string + GatewaySettings" where
  "from_environment lib env =
     bind_exc (case or_none (getenv env ''MODEL_TARGETS'' []) of
                 Some raw \<Rightarrow> json_loads lib raw | None \<Rightarrow> Inr (JObj default_targets)) (\<lambda>targets.
     bind_exc (ollama_targets env (to_float lib) targets) (\<lambda>targets.
     bind_exc (case parse_int (getenv env ''GATEWAY_REPLICAS'' ''1'') of
                 None \<Rightarrow> Inl ''invalid literal for int()'' | Some n \<Rightarrow> Inr (max 1 n)) (\<lambda>replicas.
     bind_exc (case or_none (getenv env ''MODEL_ROUTES'' []) of
                 Some raw \<Rightarrow> json_loads lib raw | None \<Rightarrow> Inr (JObj [])) (\<lambda>routes.
     bind_exc (to_float lib (getenv env ''UPSTREAM_TIMEOUT_SECONDS'' ''120'')) (\<lambda>timeout.
     bind_exc (to_float lib (getenv env ''BACKEND_HEALTH_INTERVAL_SECONDS'' ''15'')) (\<lambda>interval.
     bind_exc (decode_targets lib targets) (\<lambda>target_table.
     bind_exc (decode_routes lib routes) (\<lambda>route_table.
       let profile = str_or (lower (strip (getenv env ''GATEWAY_PROFILE'' ''local''))) ''local'' in
       validate_settings
         \<lparr>model_targets = target_table, model_routes = route_table,
          timeout_seconds = timeout, health_interval_seconds = interval,
          settings_api_keys = csv (getenv env ''GATEWAY_API_KEYS'' []),
          redis_url = or_none (getenv env ''REDIS_URL'' []),
          gateway_replicas = replicas,
          require_shared_state = env_flag (getenv env ''REQUIRE_SHARED_STATE'' []) \<or> 1 < replicas \<or> profile = ''production'',
          gateway_profile = profile,
          jwt_verify_enabled = is_jwt_verify_enabled env,
          jwt_issuer = or_none (strip (getenv env ''OIDC_JWT_ISSUER'' [])),
          jwt_audience = or_none (strip (getenv env ''OIDC_JWT_AUDIENCE'' [])),
          require_jwt_iss_aud = profile = ''production'' \<or> env_flag (getenv env ''OIDC_JWT_REQUIRE_ISS_AUD'' []),
          control_plane_configured = strip (getenv env ''CONTROL_PLANE_URL'' []) \<noteq> [],
          require_auth = profile \<in> {''internal'', ''production''} \<or> env_flag (getenv env ''REQUIRE_AUTH'' []),
          require_control_plane = profile = ''production'' \<or> env_flag (getenv env ''REQUIRE_CONTROL_PLANE'' [])\<rparr>))))))))"

subsection \<open>URLs and cost\<close>

definition chat_completions_url :: "string \<Rightarrow> string" where
  "chat_completions_url base_url =
     (let normalized = rstrip_char (CHR ''/'') base_url in
      normalized @ (if endswith normalized ''/v1'' then ''/chat/completions'' else ''/v1/chat/completions''))"

definition backend_health_url :: "ModelTarget \<Rightarrow> string" where
  "backend_health_url t =
     (let base_url = rstrip_char (CHR ''/'') (mt_url t) in
      (if endswith base_url ''/v1'' then removesuffix base_url ''/v1'' else base_url) @ mt_health_path t)"

text \<open>\<open>round(x)\<close> and \<open>round(x, n)\<close> on an exact rational: half to even.\<close>

definition round_half_even :: "rat \<Rightarrow> int" where
  "round_half_even q =
     (let f = \<lfloor>q\<rfloor>; r = q - of_int f in
      if r < 1 / 2 then f else if 1 / 2 < r then f + 1 else if even f then f else f + 1)"

definition round_to :: "nat \<Rightarrow> rat \<Rightarrow> rat" where
  "round_to n q = of_int (round_half_even (q * 10 ^ n)) / 10 ^ n"

definition request_cost :: "(string, int) dict option \<Rightarrow> ModelTarget \<Rightarrow> rat option" where
  "request_cost usage t =
     (case usage of
        None \<Rightarrow> None
      | Some u \<Rightarrow>
          Some (round_to 8 ((of_int (get_default u ''prompt_tokens'' 0) * mt_input_cost t
                           + of_int (get_default u ''completion_tokens'' 0) * mt_output_cost t) / 1000000)))"

subsection \<open>Lemmas\<close>

lemma round_half_even_bounds: "of_int (round_half_even q) \<le> q + 1 / 2" "q - 1 / 2 \<le> of_int (round_half_even q)"
  unfolding round_half_even_def Let_def by (auto split: if_splits) linarith+

lemma round_half_even_mono_int: "q \<le> of_int n \<Longrightarrow> round_half_even q \<le> n" "of_int n \<le> q \<Longrightarrow> n \<le> round_half_even q"
  using round_half_even_bounds [of q] by linarith+

lemma valid_route_cases:
  assumes "valid_route r"
  obtains (canary) "route_primary r = None" "route_targets r \<noteq> []"
      "sum_list (map rt_weight (route_targets r)) = 100" "\<forall>t\<in>set (route_targets r). 0 < rt_weight t"
    | (failover) p f where "route_primary r = Some p" "route_fallback r = Some f" "p \<noteq> f" "route_targets r = []"
proof (cases "route_targets r = []")
  case True
  with assms have "route_primary r \<noteq> None" "route_fallback r \<noteq> None" "route_primary r \<noteq> route_fallback r"
    by (auto simp: valid_route_def has_valid_policy_def Let_def split: if_splits)
  with True failover show thesis by auto
next
  case False
  with assms have "route_primary r = None" "sum_list (map rt_weight (route_targets r)) = 100"
    by (auto simp: valid_route_def has_valid_policy_def Let_def split: if_splits)
  with False assms canary show thesis by (auto simp: valid_route_def)
qed

lemma validate_settings_id: "validate_settings s = Inr s' \<Longrightarrow> s' = s"
  by (auto simp: validate_settings_def route_targets_exist_def shared_state_required_for_ha_def
      profile_security_guards_def Let_def split: if_splits)

text \<open>
  C32: the production profile cannot start open. Whatever the environment holds, if the settings
  load and the profile reads \<open>production\<close> then bearer tokens are verified with a configured
  issuer and audience that tokens must carry, the shared store and the control plane are
  configured, and every model a route names has a target; and with more than one replica every
  profile has a shared store.
\<close>

theorem production_profile_is_locked_down:
  assumes "from_environment lib env = Inr s"
  shows "(gateway_profile s = ''production'' \<longrightarrow>
      env_flag (getenv env ''OIDC_JWT_VERIFY'' []) \<and> jwt_verify_enabled s
      \<and> truthy_opt (jwt_issuer s) \<and> truthy_opt (jwt_audience s) \<and> require_jwt_iss_aud s
      \<and> truthy_opt (redis_url s) \<and> strip (getenv env ''CONTROL_PLANE_URL'' []) \<noteq> [])
    \<and> (1 < gateway_replicas s \<longrightarrow> truthy_opt (redis_url s))
    \<and> (\<forall>(name, r)\<in>set (model_routes s). \<forall>m\<in>set (model_names r). m \<in> Some ` keys (model_targets s))"
proof -
  from assms obtain s0 where v: "validate_settings s0 = Inr s" and
    j: "jwt_verify_enabled s0 = env_flag (getenv env ''OIDC_JWT_VERIFY'' [])" and
    c: "control_plane_configured s0 = (strip (getenv env ''CONTROL_PLANE_URL'' []) \<noteq> [])" and
    r: "1 < gateway_replicas s0 \<longrightarrow> require_shared_state s0"
    unfolding from_environment_def bind_exc_Inr_iff Let_def
    by (elim exE conjE) (auto simp: is_jwt_verify_enabled_def)
  have eq: "s0 = s" using validate_settings_id [OF v] by simp
  from v have 1: "missing_models s = []" and 2: "\<not> (require_shared_state s \<and> \<not> truthy_opt (redis_url s))"
    and 3: "profile_security_guards s = Inr s"
    unfolding eq validate_settings_def
    by (auto simp: route_targets_exist_def shared_state_required_for_ha_def split: if_splits)
  from 3 have "gateway_profile s = ''production'' \<longrightarrow> jwt_verify_enabled s \<and> truthy_opt (jwt_issuer s)
      \<and> truthy_opt (jwt_audience s) \<and> require_jwt_iss_aud s \<and> truthy_opt (redis_url s) \<and> control_plane_configured s"
    by (auto simp: profile_security_guards_def Let_def split: if_splits)
  moreover from 1 have "\<forall>(name, r)\<in>set (model_routes s). \<forall>m\<in>set (model_names r). m \<in> Some ` keys (model_targets s)"
    by (force simp: missing_models_def filter_empty_conv)
  ultimately show ?thesis using 2 j c r unfolding eq by auto
qed

definition demo_libs :: config_libs where
  "demo_libs = \<lparr>json_loads = (\<lambda>s. Inr (JObj [])), to_float = (\<lambda>s. Inr (FDec 15 0)),
     decode_targets = (\<lambda>j. Inr []), decode_routes = (\<lambda>j. Inr [])\<rparr>"

definition production_env :: environ where
  "production_env = map_of
     [(''GATEWAY_PROFILE'', '' Production ''), (''OIDC_JWT_VERIFY'', ''True''), (''OIDC_JWT_ISSUER'', ''https://issuer''),
      (''OIDC_JWT_AUDIENCE'', ''gw''), (''REDIS_URL'', ''redis://r''), (''CONTROL_PLANE_URL'', ''http://cp'')]"

theorem production_profile_is_locked_down_witness:
  "\<exists>s. from_environment demo_libs production_env = Inr s \<and> gateway_profile s = ''production''
     \<and> truthy_opt (redis_url s) \<and> require_jwt_iss_aud s"
proof -
  have "(case from_environment demo_libs production_env of Inr s \<Rightarrow> gateway_profile s | Inl e \<Rightarrow> []) = ''production''"
    by code_simp
  then obtain s where s: "from_environment demo_libs production_env = Inr s" "gateway_profile s = ''production''"
    by (auto split: sum.splits)
  from production_profile_is_locked_down [OF s(1)] s show ?thesis by auto
qed

lemma endswith_append: "endswith (xs @ p) p"
  by (simp add: endswith_def)

text \<open>
  One target base URL, with or without the API prefix and trailing slashes, yields the same
  endpoints: for a base that does not itself end in a slash or in the prefix, the completions
  URL and the health URL are independent of which of the two spellings is configured.
\<close>

theorem urls_ignore_api_prefix:
  assumes "rstrip_char (CHR ''/'') base = base" and "\<not> endswith base ''/v1''"
  shows "chat_completions_url (base @ ''/v1/'') = chat_completions_url base
    \<and> chat_completions_url base = base @ ''/v1/chat/completions''
    \<and> backend_health_url (t\<lparr>mt_url := base @ ''/v1/''\<rparr>) = backend_health_url (t\<lparr>mt_url := base\<rparr>)
    \<and> backend_health_url (t\<lparr>mt_url := base\<rparr>) = base @ mt_health_path t"
proof -
  have "rstrip_char (CHR ''/'') (base @ ''/v1/'') = base @ ''/v1''"
    by (simp add: rstrip_char_def)
  moreover have "endswith (base @ ''/v1'') ''/v1''" by (rule endswith_append)
  moreover have "removesuffix (base @ ''/v1'') ''/v1'' = base" by (simp add: removesuffix_def endswith_append)
  ultimately show ?thesis
    using assms by (simp add: chat_completions_url_def backend_health_url_def Let_def)
qed

theorem urls_ignore_api_prefix_witness:
  "chat_completions_url ''http://vllm:8000/v1/'' = ''http://vllm:8000/v1/chat/completions''"
proof -
  have "rstrip_char (CHR ''/'') ''http://vllm:8000'' = ''http://vllm:8000''" "\<not> endswith ''http://vllm:8000'' ''/v1''"
    by code_simp+
  from urls_ignore_api_prefix [OF this] show ?thesis by simp
qed

end
