(* ===== verification/Health.thy ===== *)
theory Health imports Config begin

text \<open>
  \<open>app/gateway/stores/health.py\<close>: the health record of a backend, its score, the update by one
  request, probing, and the in-process store. A store of either kind is an interface (\<open>load\<close>,
  \<open>store_probe\<close>, \<open>record_request\<close>): what a router may rely on is proved once for the interface,
  which the in-process store provides here and the Redis store in \<open>Health_Redis\<close>. Arithmetic on floats is exact.
\<close>

record BackendHealth =
  available :: "bool option"
  latency_ms :: "rat option"
  request_count :: int
  error_count :: int
  fallback_count :: int
  ewma_error_rate :: rat
  consecutive_failures :: int
  updated_at :: rat

definition new_health :: BackendHealth where
  "new_health = \<lparr>available = None, latency_ms = None, request_count = 0, error_count = 0, fallback_count = 0,
     ewma_error_rate = 0, consecutive_failures = 0, updated_at = 0\<rparr>"

definition error_rate :: "BackendHealth \<Rightarrow> rat" where
  "error_rate h = (if request_count h \<noteq> 0 then ewma_error_rate h else 0)"

definition fallback_rate :: "BackendHealth \<Rightarrow> rat" where
  "fallback_rate h = (if request_count h \<noteq> 0 then of_int (fallback_count h) / of_int (request_count h) else 0)"

definition score :: "BackendHealth \<Rightarrow> int" where
  "score h =
     (if available h = Some False then 0
      else
        let latency_penalty = min ((case latency_ms h of None \<Rightarrow> 0 | Some l \<Rightarrow> l) / 20) 30;
            error_penalty = error_rate h * 50;
            fallback_penalty = fallback_rate h * 20;
            s = round_half_even (max 0 (100 - latency_penalty - error_penalty - fallback_penalty))
        in if 3 \<le> consecutive_failures h then min s 20 else s)"

definition apply_request_signal :: "rat \<Rightarrow> bool \<Rightarrow> bool \<Rightarrow> BackendHealth \<Rightarrow> BackendHealth" where
  "apply_request_signal now success fallback_used h =
     (let sample = (if success then 0 else 1) in
      h\<lparr>request_count := request_count h + 1,
        error_count := error_count h + (if success then 0 else 1),
        fallback_count := fallback_count h + (if fallback_used then 1 else 0),
        ewma_error_rate := 3 / 10 * sample + (1 - 3 / 10) * ewma_error_rate h,
        consecutive_failures := (if success then 0 else consecutive_failures h + 1),
        updated_at := now\<rparr>)"

record health_row =
  row_name :: string
  row_model :: string
  row_status :: string
  row_score :: int
  row_latency_ms :: "rat option"
  row_error_rate :: rat
  row_fallback_rate :: rat

definition format_health_row :: "string \<Rightarrow> ModelTarget \<Rightarrow> BackendHealth \<Rightarrow> health_row" where
  "format_health_row model t h =
     \<lparr>row_name = (case mt_backend_name t of Some b \<Rightarrow> str_or b model | None \<Rightarrow> model),
      row_model = model,
      row_status = (case available h of Some True \<Rightarrow> ''healthy'' | Some False \<Rightarrow> ''unhealthy'' | None \<Rightarrow> ''unknown''),
      row_score = score h, row_latency_ms = latency_ms h,
      row_error_rate = round_to 4 (error_rate h), row_fallback_rate = round_to 4 (fallback_rate h)\<rparr>"

text \<open>What the client of a store reads: \<open>meets_score\<close> and \<open>routing_signal\<close>, over a loaded record.\<close>

definition meets_score :: "BackendHealth \<Rightarrow> int \<Rightarrow> bool" where
  "meets_score h threshold = (available h \<noteq> Some False \<and> threshold \<le> score h)"

definition routing_signal :: "BackendHealth \<Rightarrow> int \<times> rat option \<times> bool option" where
  "routing_signal h = (score h, latency_ms h, available h)"

subsection \<open>The record's invariant\<close>

definition health_ok :: "BackendHealth \<Rightarrow> bool" where
  "health_ok h \<longleftrightarrow>
     0 \<le> fallback_count h \<and> fallback_count h \<le> request_count h
     \<and> 0 \<le> error_count h \<and> error_count h \<le> request_count h
     \<and> 0 \<le> ewma_error_rate h \<and> ewma_error_rate h \<le> 1
     \<and> 0 \<le> consecutive_failures h \<and> consecutive_failures h \<le> error_count h
     \<and> (case latency_ms h of None \<Rightarrow> True | Some l \<Rightarrow> 0 \<le> l)"

lemma new_health_ok [inv_intros]: "health_ok new_health"
  by (simp add: health_ok_def new_health_def)

lemma signal_ok [inv_intros]: "health_ok h \<Longrightarrow> health_ok (apply_request_signal now s f h)"
  unfolding health_ok_def apply_request_signal_def Let_def by (auto split: option.splits)

lemma probe_ok [inv_intros]: "health_ok h \<Longrightarrow> 0 \<le> l \<Longrightarrow> health_ok (h\<lparr>available := Some a, latency_ms := Some l\<rparr>)"
  by (simp add: health_ok_def)

lemma fallback_rate_bounds: "health_ok h \<Longrightarrow> 0 \<le> fallback_rate h \<and> fallback_rate h \<le> 1"
  by (auto simp: fallback_rate_def health_ok_def divide_le_eq_1)

lemma error_rate_bounds: "health_ok h \<Longrightarrow> 0 \<le> error_rate h \<and> error_rate h \<le> 1"
  by (auto simp: error_rate_def health_ok_def)

lemma raw_score_bounds:
  assumes "health_ok h"
  shows "0 \<le> score h" "score h \<le> 100"
proof -
  let ?l = "min ((case latency_ms h of None \<Rightarrow> 0 | Some l \<Rightarrow> l) / 20) 30"
  let ?x = "max 0 (100 - ?l - error_rate h * 50 - fallback_rate h * 20)"
  have l: "0 \<le> ?l" using assms by (auto simp: health_ok_def split: option.splits)
  have "0 \<le> round_half_even ?x" by (rule round_half_even_mono_int) simp
  moreover have "round_half_even ?x \<le> 100"
    using l error_rate_bounds [OF assms] fallback_rate_bounds [OF assms]
    by (intro round_half_even_mono_int) auto
  ultimately show "0 \<le> score h" "score h \<le> 100" by (auto simp: score_def Let_def)
qed

subsection \<open>The store interface\<close>

locale health_store =
  fixes load :: "'s \<Rightarrow> string \<Rightarrow> BackendHealth"
    and store_probe :: "rat \<Rightarrow> string \<Rightarrow> bool \<Rightarrow> rat \<Rightarrow> 's \<Rightarrow> 's"
    and record_request :: "rat \<Rightarrow> string \<Rightarrow> bool \<Rightarrow> bool \<Rightarrow> 's \<Rightarrow> 's"
    and known :: "string \<Rightarrow> bool"
    and inv :: "'s \<Rightarrow> bool"
  assumes load_ok: "inv s \<Longrightarrow> known m \<Longrightarrow> health_ok (load s m)"
    and probe_inv: "inv s \<Longrightarrow> known m \<Longrightarrow> 0 \<le> l \<Longrightarrow> inv (store_probe now m a l s)"
    and record_inv: "inv s \<Longrightarrow> known m \<Longrightarrow> inv (record_request now m ok fb s)"
    and load_probe: "inv s \<Longrightarrow> known m \<Longrightarrow> known m' \<Longrightarrow>
      available (load (store_probe now m a l s) m') = (if m' = m then Some a else available (load s m'))
      \<and> latency_ms (load (store_probe now m a l s) m') = (if m' = m then Some l else latency_ms (load s m'))
      \<and> consecutive_failures (load (store_probe now m a l s) m') = consecutive_failures (load s m')
      \<and> ewma_error_rate (load (store_probe now m a l s) m') = ewma_error_rate (load s m')
      \<and> request_count (load (store_probe now m a l s) m') = request_count (load s m')
      \<and> fallback_count (load (store_probe now m a l s) m') = fallback_count (load s m')"
    and load_record: "inv s \<Longrightarrow> known m \<Longrightarrow> known m' \<Longrightarrow>
      load (record_request now m ok fb s) m' =
        (if m' = m then apply_request_signal now ok fb (load s m) else load s m')"
begin

fun record_all :: "(rat \<times> bool \<times> bool) list \<Rightarrow> string \<Rightarrow> 's \<Rightarrow> 's" where
  "record_all [] m s = s"
| "record_all ((t, ok, fb) # es) m s = record_all es m (record_request t m ok fb s)"

lemma record_all_inv: "inv s \<Longrightarrow> known m \<Longrightarrow> inv (record_all es m s)"
  by (induction es arbitrary: s) (auto simp: record_inv)

lemma load_record_all:
  "inv s \<Longrightarrow> known m \<Longrightarrow> known m' \<Longrightarrow> load (record_all es m s) m' =
    (if m' = m then fold (\<lambda>(t, ok, fb). apply_request_signal t ok fb) es (load s m) else load s m')"
  by (induction es arbitrary: s) (auto simp: load_record record_inv)

lemma score_range: "inv s \<Longrightarrow> known m \<Longrightarrow> 0 \<le> score (load s m) \<and> score (load s m) \<le> 100"
  using load_ok raw_score_bounds by blast

text \<open>Three failures in a row take a backend below every threshold above 20.\<close>

lemma three_strikes:
  assumes "inv s" and "known m" and "3 \<le> length ts"
  shows "score (load (record_all (map (\<lambda>(t, fb). (t, False, fb)) ts) m s) m) \<le> 20"
proof -
  have h: "health_ok (load s m)" by (rule load_ok [OF assms(1,2)])
  have "consecutive_failures (fold (\<lambda>(t, ok, fb). apply_request_signal t ok fb) (map (\<lambda>(t, fb). (t, False, fb)) ts) h)
      = consecutive_failures h + int (length ts)" for h
  proof (induction ts arbitrary: h)
    case Nil
    then show ?case by simp
  next
    case (Cons p ts)
    show ?case by (cases p) (simp add: Cons.IH, simp add: apply_request_signal_def Let_def)
  qed
  moreover have "3 \<le> int (length ts)" using assms(3) by linarith
  ultimately have "3 \<le> consecutive_failures (load (record_all (map (\<lambda>(t, fb). (t, False, fb)) ts) m s) m)"
    using h by (simp add: load_record_all assms(1,2) health_ok_def)
  then show ?thesis by (simp add: score_def Let_def)
qed

lemma probe_down_blocks:
  "inv s \<Longrightarrow> known m \<Longrightarrow> \<not> meets_score (load (store_probe now m False l s) m) threshold"
  by (simp add: meets_score_def load_probe)

end

subsection \<open>The in-process store\<close>

text \<open>
  \<open>BackendHealthStore\<close>: one record per configured model; the models are the dictionary's keys
  from construction on, so an unknown model raises \<open>KeyError\<close> (\<open>mem_known\<close> fails).
\<close>

type_synonym health_table = "(string, BackendHealth) dict"

definition new_health_table :: "(string, ModelTarget) dict \<Rightarrow> health_table" where
  "new_health_table targets = map (\<lambda>(m, t). (m, new_health)) targets"

definition mem_load :: "health_table \<Rightarrow> string \<Rightarrow> py_exc + BackendHealth" where
  "mem_load table m = (case dict_get table m of None \<Rightarrow> Inl KeyError | Some h \<Rightarrow> Inr h)"

definition mem_store_probe :: "string \<Rightarrow> bool \<Rightarrow> rat \<Rightarrow> health_table \<Rightarrow> py_exc + health_table" where
  "mem_store_probe m a l table =
     bind_exc (mem_load table m) (\<lambda>h. Inr (dict_set m (h\<lparr>available := Some a, latency_ms := Some l\<rparr>) table))"

definition mem_record_request :: "rat \<Rightarrow> string \<Rightarrow> bool \<Rightarrow> bool \<Rightarrow> health_table \<Rightarrow> py_exc + health_table" where
  "mem_record_request now m success fb table =
     bind_exc (mem_load table m) (\<lambda>h. Inr (dict_set m (apply_request_signal now success fb h) table))"

text \<open>\<open>probe\<close>: the outcome of the health request (\<open>None\<close> for a transport error) and its duration.\<close>

definition probe :: "string \<Rightarrow> bool option \<Rightarrow> rat \<Rightarrow> health_table \<Rightarrow> py_exc + health_table" where
  "probe m response elapsed_s table =
     mem_store_probe m (case response of Some ok \<Rightarrow> ok | None \<Rightarrow> False) (round_to 2 (elapsed_s * 1000)) table"

definition snapshot :: "(string, ModelTarget) dict \<Rightarrow> health_table \<Rightarrow> py_exc + health_row list" where
  "snapshot targets table =
     fold (\<lambda>(m, t) acc. bind_exc acc (\<lambda>rows. bind_exc (mem_load table m) (\<lambda>h. Inr (rows @ [format_health_row m t h]))))
       targets (Inr [])"

definition proj :: "'a \<Rightarrow> 'e + 'a \<Rightarrow> 'a" where
  "proj d r = (case r of Inr x \<Rightarrow> x | Inl e \<Rightarrow> d)"

definition table_ok :: "(string, ModelTarget) dict \<Rightarrow> health_table \<Rightarrow> bool" where
  "table_ok targets table \<longleftrightarrow> keys table = keys targets \<and> (\<forall>m h. dict_get table m = Some h \<longrightarrow> health_ok h)"

lemma mem_load_known: "table_ok targets table \<Longrightarrow> m \<in> keys targets \<Longrightarrow> \<exists>h. dict_get table m = Some h \<and> health_ok h"
  by (metis table_ok_def get_None_iff not_Some_eq)

lemma table_ok_set: "table_ok targets s \<Longrightarrow> m \<in> keys targets \<Longrightarrow> health_ok h \<Longrightarrow> table_ok targets (dict_set m h s)"
  unfolding table_ok_def keys_set dict_get_set by (simp add: insert_absorb)

interpretation mem_health: health_store
  "\<lambda>table m. proj new_health (mem_load table m)"
  "\<lambda>now m a l table. proj table (mem_store_probe m a l table)"
  "\<lambda>now m ok fb table. proj table (mem_record_request now m ok fb table)"
  "\<lambda>m. m \<in> keys targets" "table_ok targets" for targets
proof (unfold_locales, goal_cases)
  case (1 s m)
  with mem_load_known [OF 1] show ?case by (auto simp: mem_load_def proj_def)
next
  case (2 s m l now a)
  obtain h where h: "dict_get s m = Some h" "health_ok h" using mem_load_known [OF 2(1,2)] by blast
  show ?case using table_ok_set [OF 2(1,2) probe_ok [OF h(2) 2(3)], of a] h(1)
    by (simp add: mem_load_def mem_store_probe_def proj_def)
next
  case (3 s m now ok fb)
  obtain h where h: "dict_get s m = Some h" "health_ok h" using mem_load_known [OF 3] by blast
  show ?case using table_ok_set [OF 3 signal_ok [OF h(2)], of now ok fb] h(1)
    by (simp add: mem_load_def mem_record_request_def proj_def)
next
  case (4 s m m' now a l)
  with mem_load_known [OF 4(1,2)] show ?case
    by (auto simp: mem_load_def mem_store_probe_def proj_def dict_simps)
next
  case (5 s m m' now ok fb)
  with mem_load_known [OF 5(1,2)] show ?case
    by (auto simp: mem_load_def mem_record_request_def proj_def dict_simps)
qed

datatype health_event = EProbe rat bool rat | ERequest rat bool bool

fun health_step :: "string \<Rightarrow> health_event \<Rightarrow> health_table \<Rightarrow> health_table" where
  "health_step m (EProbe now a l) t = proj t (mem_store_probe m a l t)"
| "health_step m (ERequest now ok fb) t = proj t (mem_record_request now m ok fb t)"

fun event_ok :: "health_event \<Rightarrow> bool" where
  "event_ok (EProbe now a l) = (0 \<le> l)"
| "event_ok (ERequest now ok fb) = True"

lemma health_run_ok:
  "table_ok targets t \<Longrightarrow> \<forall>(m, e)\<in>set es. m \<in> keys targets \<and> event_ok e \<Longrightarrow>
    table_ok targets (fold (\<lambda>(m, e). health_step m e) es t)"
proof (induction es arbitrary: t)
  case Nil
  then show ?case by simp
next
  case (Cons me es)
  obtain m e where me: "me = (m, e)" by (cases me)
  with Cons.prems have "table_ok targets (health_step m e t)"
    by (cases e) (auto intro: mem_health.probe_inv mem_health.record_inv)
  with Cons me show ?case by simp
qed

lemma new_table_ok: "table_ok targets (new_health_table targets)"
proof -
  have "keys (new_health_table targets) = keys targets" by (force simp: new_health_table_def)
  moreover have "dict_get (new_health_table targets) m = Some h \<Longrightarrow> h = new_health" for m h
    by (auto simp: new_health_table_def dest!: map_of_SomeD)
  ultimately show ?thesis using new_health_ok unfolding table_ok_def by metis
qed

text \<open>
  Health scores stay on their scale and three strikes count. For every state of the
  in-process store reachable by probes and recorded requests, a configured model's score lies
  between 0 and 100; after three or more failures in a row it is at most 20, whatever came
  before; and a backend whose last probe failed meets no threshold.
\<close>

theorem health_score_scale:
  assumes "m \<in> keys targets" and "\<forall>(m', e)\<in>set es. m' \<in> keys targets \<and> event_ok e"
    and "table = fold (\<lambda>(m, e). health_step m e) es (new_health_table targets)"
    and "table3 = fold (\<lambda>t. health_step m (ERequest t False fb)) ts table" and "3 \<le> length ts"
  shows "(\<exists>h. mem_load table m = Inr h \<and> 0 \<le> score h \<and> score h \<le> 100)
    \<and> (\<exists>h. mem_load table3 m = Inr h \<and> score h \<le> 20)
    \<and> (\<exists>h. mem_load (health_step m (EProbe now False l) table) m = Inr h \<and> \<not> meets_score h threshold)"
proof -
  have ok: "table_ok targets table" unfolding assms(3) by (rule health_run_ok [OF new_table_ok assms(2)])
  let ?load = "\<lambda>t. proj new_health (mem_load t m)"
  have all: "table3 = mem_health.record_all (map (\<lambda>(t, fb). (t, False, fb)) (map (\<lambda>t. (t, fb)) ts)) m table"
    unfolding assms(4) by (induction ts arbitrary: table) simp_all
  have ok3: "table_ok targets table3" unfolding all by (rule mem_health.record_all_inv [OF ok assms(1)])
  have down: "\<exists>h. mem_load (health_step m (EProbe now False l) table) m = Inr h"
    using mem_load_known [OF ok assms(1)] by (auto simp: mem_load_def mem_store_probe_def proj_def dict_simps)
  have ex: "\<exists>h. mem_load t m = Inr h" if "table_ok targets t" for t
    using mem_load_known [OF that assms(1)] by (auto simp: mem_load_def)
  have 1: "0 \<le> score (?load table) \<and> score (?load table) \<le> 100" by (rule mem_health.score_range [OF ok assms(1)])
  have 2: "score (?load table3) \<le> 20"
    unfolding all by (rule mem_health.three_strikes [OF ok assms(1)]) (simp add: assms(5))
  have 3: "\<not> meets_score (?load (health_step m (EProbe now False l) table)) threshold"
    using mem_health.probe_down_blocks [OF ok assms(1)] by simp
  from 1 2 3 ex [OF ok] ex [OF ok3] down show ?thesis by (auto simp: proj_def)
qed

definition demo_targets :: "(string, ModelTarget) dict" where
  "demo_targets = [(''a'', \<lparr>mt_url = ''http://a'', mt_input_cost = 1, mt_output_cost = 2, mt_backend_name = None, mt_health_path = ''/health'',
                     mt_provider = None, mt_model_revision = None, mt_artifact_digest = None\<rparr>),
                   (''b'', \<lparr>mt_url = ''http://b'', mt_input_cost = 1, mt_output_cost = 1, mt_backend_name = None, mt_health_path = ''/health'',
                     mt_provider = None, mt_model_revision = None, mt_artifact_digest = None\<rparr>)]"

theorem health_score_scale_witness:
  "\<exists>h. mem_load (fold (\<lambda>t. health_step ''a'' (ERequest t False True)) [2, 3, 4]
        (health_step ''a'' (EProbe 1 True 40) (new_health_table demo_targets))) ''a'' = Inr h \<and> score h \<le> 20"
proof -
  have "''a'' \<in> keys demo_targets"
    "\<forall>(m', e)\<in>set [(''a'', EProbe 1 True 40)]. m' \<in> keys demo_targets \<and> event_ok e"
    by (simp_all add: demo_targets_def)
  from health_score_scale [OF this refl refl, of "[2, 3, 4]" True] show ?thesis by auto
qed

end
