(* ===== verification/Circuit.thy ===== *)
theory Circuit imports Py_Values "HOL-Library.List_Lexorder" "HOL-Library.Char_ord" begin

text \<open>
  \<open>app/gateway/resilience.py\<close>, continued: the circuit breaker (consecutive failures per backend,
  bounded half-open probes) and the retry budget. Each operation runs under its lock, so it is
  one step; the clock reading it makes is an argument (seconds, rational).
\<close>

subsection \<open>Circuit breaker\<close>

datatype CircuitState = CLOSED | OPEN | HALF_OPEN

fun circuit_value :: "CircuitState \<Rightarrow> string" where
  "circuit_value CLOSED = ''closed''"
| "circuit_value OPEN = ''open''"
| "circuit_value HALF_OPEN = ''half_open''"

record CircuitBreaker =
  failure_threshold :: int
  recovery_seconds :: rat
  half_open_max_probes :: int
  cb_failures :: "(string, int) dict"
  cb_opened_at :: "(string, rat) dict"
  cb_state :: "(string, CircuitState) dict"
  cb_probes :: "(string, int) dict"

definition new_breaker :: "int \<Rightarrow> rat \<Rightarrow> int \<Rightarrow> CircuitBreaker" where
  "new_breaker threshold recovery probes =
     \<lparr>failure_threshold = threshold, recovery_seconds = recovery, half_open_max_probes = probes,
      cb_failures = [], cb_opened_at = [], cb_state = [], cb_probes = []\<rparr>"

definition circuit_state :: "CircuitBreaker \<Rightarrow> string \<Rightarrow> CircuitState" where
  "circuit_state cb backend = get_default (cb_state cb) backend CLOSED"

definition set_state :: "string \<Rightarrow> CircuitState \<Rightarrow> CircuitBreaker \<Rightarrow> CircuitBreaker" where
  "set_state backend s cb = cb\<lparr>cb_state := dict_set backend s (cb_state cb)\<rparr>"

definition allow :: "rat \<Rightarrow> string \<Rightarrow> CircuitBreaker \<Rightarrow> bool \<times> CircuitBreaker" where
  "allow now backend cb =
     (case circuit_state cb backend of
        CLOSED \<Rightarrow> (True, cb)
      | OPEN \<Rightarrow>
          (case dict_get (cb_opened_at cb) backend of
             None \<Rightarrow> (True, cb)
           | Some opened \<Rightarrow>
               if now - opened < recovery_seconds cb then (False, cb)
               else (True, (set_state backend HALF_OPEN cb)\<lparr>cb_probes := dict_set backend 1 (cb_probes cb)\<rparr>))
      | HALF_OPEN \<Rightarrow>
          (let used = get_default (cb_probes cb) backend 0 in
           if half_open_max_probes cb \<le> used then (False, cb)
           else (True, cb\<lparr>cb_probes := dict_set backend (used + 1) (cb_probes cb)\<rparr>)))"

definition record_success :: "string \<Rightarrow> CircuitBreaker \<Rightarrow> CircuitBreaker" where
  "record_success backend cb =
     set_state backend CLOSED
       (cb\<lparr>cb_failures := dict_set backend 0 (cb_failures cb),
           cb_opened_at := dict_pop backend (cb_opened_at cb),
           cb_probes := dict_pop backend (cb_probes cb)\<rparr>)"

definition record_failure :: "rat \<Rightarrow> string \<Rightarrow> CircuitBreaker \<Rightarrow> CircuitBreaker" where
  "record_failure now backend cb =
     (if circuit_state cb backend = HALF_OPEN then
        set_state backend OPEN
          (cb\<lparr>cb_failures := dict_set backend (failure_threshold cb) (cb_failures cb),
              cb_opened_at := dict_set backend now (cb_opened_at cb),
              cb_probes := dict_set backend 0 (cb_probes cb)\<rparr>)
      else
        (let failures = get_default (cb_failures cb) backend 0 + 1;
             cb = cb\<lparr>cb_failures := dict_set backend failures (cb_failures cb)\<rparr>
         in if failure_threshold cb \<le> failures then
              set_state backend OPEN
                (cb\<lparr>cb_opened_at := dict_set backend now (cb_opened_at cb),
                    cb_probes := dict_set backend 0 (cb_probes cb)\<rparr>)
            else cb))"

definition in_state :: "CircuitState \<Rightarrow> CircuitBreaker \<Rightarrow> string list" where
  "in_state s cb = map fst (filter (\<lambda>p. snd p = s) (cb_state cb))"

text \<open>The snapshot: backends that are open and half open, failure counts, states.\<close>

definition circuit_snapshot ::
  "CircuitBreaker \<Rightarrow> string list \<times> string list \<times> (string, int) dict \<times> (string, string) dict" where
  "circuit_snapshot cb =
     (sort (in_state OPEN cb), sort (in_state HALF_OPEN cb), cb_failures cb,
      map (\<lambda>(b, s). (b, circuit_value s)) (cb_state cb))"

subsection \<open>Retry budget\<close>

record RetryBudget =
  max_retries_per_minute :: int
  retry_window_start :: rat
  retry_used :: int

definition consume :: "rat \<Rightarrow> RetryBudget \<Rightarrow> bool \<times> RetryBudget" where
  "consume now b =
     (let b = (if 60 \<le> now - retry_window_start b then b\<lparr>retry_window_start := now, retry_used := 0\<rparr> else b)
      in if max_retries_per_minute b \<le> retry_used b then (False, b)
         else (True, b\<lparr>retry_used := retry_used b + 1\<rparr>))"

fun consume_all :: "rat list \<Rightarrow> RetryBudget \<Rightarrow> bool list \<times> RetryBudget" where
  "consume_all [] b = ([], b)"
| "consume_all (t # ts) b =
     (case consume t b of (ok, b) \<Rightarrow> case consume_all ts b of (oks, b) \<Rightarrow> (ok # oks, b))"

subsection \<open>Lemmas on the breaker\<close>

lemmas breaker_defs = circuit_state_def set_state_def allow_def record_success_def record_failure_def Let_def

text \<open>A run of admission questions for one backend, with no outcome reported in between.\<close>

fun allow_all :: "rat list \<Rightarrow> string \<Rightarrow> CircuitBreaker \<Rightarrow> bool list \<times> CircuitBreaker" where
  "allow_all [] backend cb = ([], cb)"
| "allow_all (t # ts) backend cb =
     (case allow t backend cb of (ok, cb) \<Rightarrow> case allow_all ts backend cb of (oks, cb) \<Rightarrow> (ok # oks, cb))"

definition granted :: "bool list \<Rightarrow> nat" where
  "granted oks = length (filter id oks)"

lemma granted_allow_all:
  "granted (fst (allow_all (t # ts) backend cb)) =
    (if fst (allow t backend cb) then 1 else 0) + granted (fst (allow_all ts backend (snd (allow t backend cb))))"
  by (simp add: granted_def split: prod.split)

lemma half_open_grants:
  "circuit_state cb backend = HALF_OPEN \<Longrightarrow>
    int (granted (fst (allow_all ts backend cb)))
      \<le> max 0 (half_open_max_probes cb - get_default (cb_probes cb) backend 0)"
proof (induction ts arbitrary: cb)
  case Nil
  then show ?case by (simp add: granted_def)
next
  case (Cons t ts)
  let ?used = "get_default (cb_probes cb) backend 0"
  show ?case
  proof (cases "half_open_max_probes cb \<le> ?used")
    case True
    with Cons.prems have a: "allow t backend cb = (False, cb)" by (simp add: allow_def Let_def)
    from Cons.IH [OF Cons.prems] True a show ?thesis by (simp add: granted_allow_all del: allow_all.simps)
  next
    case False
    let ?cb = "cb\<lparr>cb_probes := dict_set backend (?used + 1) (cb_probes cb)\<rparr>"
    from False Cons.prems have a: "allow t backend cb = (True, ?cb)" by (simp add: allow_def Let_def)
    have "circuit_state ?cb backend = HALF_OPEN" using Cons.prems by (simp add: circuit_state_def)
    from Cons.IH [OF this] False a show ?thesis by (simp add: granted_allow_all dict_simps del: allow_all.simps)
  qed
qed

text \<open>
  C31: an open circuit lets a bounded number of probes through. From an open circuit, however
  many requests ask and whenever they ask, until an outcome is reported at most
  \<open>half_open_max_probes\<close> of them (at least one is allowed) reach the backend, and none before the
  recovery time has passed.
\<close>

theorem open_circuit_bounds_probes:
  assumes "circuit_state cb backend = OPEN" and "dict_get (cb_opened_at cb) backend = Some opened"
  shows "int (granted (fst (allow_all ts backend cb))) \<le> max 1 (half_open_max_probes cb)
    \<and> ((\<forall>t\<in>set ts. t - opened < recovery_seconds cb) \<longrightarrow> granted (fst (allow_all ts backend cb)) = 0)"
  using assms
proof (induction ts)
  case Nil
  then show ?case by (simp add: granted_def)
next
  case (Cons t ts)
  show ?case
  proof (cases "t - opened < recovery_seconds cb")
    case True
    with Cons.prems have "allow t backend cb = (False, cb)" by (simp add: allow_def)
    with Cons show ?thesis by (simp add: granted_allow_all del: allow_all.simps)
  next
    case False
    let ?cb = "(set_state backend HALF_OPEN cb)\<lparr>cb_probes := dict_set backend 1 (cb_probes cb)\<rparr>"
    from False Cons.prems have a: "allow t backend cb = (True, ?cb)" by (simp add: allow_def)
    have "circuit_state ?cb backend = HALF_OPEN" by (simp add: breaker_defs dict_simps)
    from half_open_grants [OF this, of ts] False a show ?thesis
      by (simp add: granted_allow_all dict_simps set_state_def del: allow_all.simps)
  qed
qed

definition open_breaker :: CircuitBreaker where
  "open_breaker = \<lparr>failure_threshold = 5, recovery_seconds = 30, half_open_max_probes = 1,
     cb_failures = [(''m'', 5)], cb_opened_at = [(''m'', 100)], cb_state = [(''m'', OPEN)], cb_probes = [(''m'', 0)]\<rparr>"

theorem open_circuit_bounds_probes_witness:
  "int (granted (fst (allow_all [110, 131, 132, 140] ''m'' open_breaker))) \<le> 1
   \<and> fst (allow_all [110, 131, 132, 140] ''m'' open_breaker) = [False, True, False, False]"
proof -
  have "circuit_state open_breaker ''m'' = OPEN" "dict_get (cb_opened_at open_breaker) ''m'' = Some 100"
    by (simp_all add: open_breaker_def circuit_state_def get_default_def)
  from open_circuit_bounds_probes [OF this, of "[110, 131, 132, 140]"]
  have "int (granted (fst (allow_all [110, 131, 132, 140] ''m'' open_breaker))) \<le> 1"
    by (simp add: open_breaker_def)
  moreover have "fst (allow_all [110, 131, 132, 140] ''m'' open_breaker) = [False, True, False, False]"
    by (simp add: open_breaker_def breaker_defs get_default_def)
  ultimately show ?thesis by blast
qed

lemma failures_count:
  assumes "circuit_state cb backend = CLOSED" and "0 < failure_threshold cb"
    and "get_default (cb_failures cb) backend 0 + int (length ts) < failure_threshold cb"
  shows "circuit_state (fold (\<lambda>t. record_failure t backend) ts cb) backend = CLOSED
    \<and> get_default (cb_failures (fold (\<lambda>t. record_failure t backend) ts cb)) backend 0
      = get_default (cb_failures cb) backend 0 + int (length ts)
    \<and> failure_threshold (fold (\<lambda>t. record_failure t backend) ts cb) = failure_threshold cb"
  using assms
proof (induction ts arbitrary: cb)
  case Nil
  then show ?case by simp
next
  case (Cons t ts)
  let ?cb = "cb\<lparr>cb_failures := dict_set backend (get_default (cb_failures cb) backend 0 + 1) (cb_failures cb)\<rparr>"
  have eq: "record_failure t backend cb = ?cb"
    using Cons.prems by (simp add: record_failure_def Let_def)
  have "circuit_state ?cb backend = CLOSED" using Cons.prems(1) by (simp add: circuit_state_def)
  from Cons.IH [OF this] Cons.prems show ?case by (simp add: eq dict_simps)
qed

text \<open>
  The breaker opens on exactly the threshold's number of consecutive failures. After a
  success, fewer failures than the threshold leave the circuit closed and every request allowed;
  one more failure opens it at its own time, and every request before the recovery time is
  refused.
\<close>

theorem circuit_opens_at_threshold:
  assumes "0 < failure_threshold cb" and "int (length ts) + 1 = failure_threshold cb"
    and "cb1 = fold (\<lambda>t. record_failure t backend) ts (record_success backend cb)"
  shows "circuit_state cb1 backend = CLOSED \<and> fst (allow now backend cb1)
    \<and> circuit_state (record_failure t backend cb1) backend = OPEN
    \<and> (now - t < recovery_seconds (record_failure t backend cb1) \<longrightarrow>
        \<not> fst (allow now backend (record_failure t backend cb1)))"
proof -
  let ?cb0 = "record_success backend cb"
  have 0: "circuit_state ?cb0 backend = CLOSED" "get_default (cb_failures ?cb0) backend 0 = 0"
    "failure_threshold ?cb0 = failure_threshold cb"
    by (simp_all add: record_success_def set_state_def circuit_state_def dict_simps)
  have f: "circuit_state cb1 backend = CLOSED" "get_default (cb_failures cb1) backend 0 = int (length ts)"
    "failure_threshold cb1 = failure_threshold cb"
    using failures_count [of ?cb0 backend ts] 0 assms by auto
  have r: "record_failure t backend cb1 =
    set_state backend OPEN (cb1\<lparr>cb_failures := dict_set backend (failure_threshold cb) (cb_failures cb1),
      cb_opened_at := dict_set backend t (cb_opened_at cb1), cb_probes := dict_set backend 0 (cb_probes cb1)\<rparr>)"
    using f assms(2) by (simp add: record_failure_def Let_def)
  have o: "circuit_state (record_failure t backend cb1) backend = OPEN"
    by (simp add: r set_state_def circuit_state_def dict_simps)
  have a: "dict_get (cb_opened_at (record_failure t backend cb1)) backend = Some t"
    by (simp add: r set_state_def dict_simps)
  show ?thesis using f(1) o a by (simp add: allow_def)
qed

theorem circuit_opens_at_threshold_witness:
  "circuit_state (record_failure 7 ''m'' (fold (\<lambda>t. record_failure t ''m'') [5, 6] (record_success ''m'' (new_breaker 3 30 1)))) ''m'' = OPEN"
  using circuit_opens_at_threshold [of "new_breaker 3 30 1" "[5, 6]" _ "''m''" _ 7, OF _ _ refl]
  by (simp add: new_breaker_def)

text \<open>
  A probe that is asked for twice locks the backend out. With the default of one probe, if
  the question that starts the half-open phase is asked again before an outcome is recorded,
  the second answer is no; and as long as no outcome is recorded every later answer is no, at
  any time. Recording a success is the only thing that closes the circuit again.
\<close>

theorem second_question_locks_out:
  assumes "circuit_state cb backend = OPEN" and "dict_get (cb_opened_at cb) backend = Some opened"
    and "half_open_max_probes cb = 1" and "\<not> now - opened < recovery_seconds cb"
  shows "fst (allow now backend cb)
    \<and> fst (allow_all later backend (snd (allow now backend cb))) = map (\<lambda>t. False) later"
proof -
  let ?cb = "(set_state backend HALF_OPEN cb)\<lparr>cb_probes := dict_set backend 1 (cb_probes cb)\<rparr>"
  have a: "allow now backend cb = (True, ?cb)" using assms by (simp add: allow_def)
  have "allow t backend ?cb = (False, ?cb)" for t
    using assms(3) by (simp add: allow_def circuit_state_def set_state_def dict_simps)
  then have "allow_all later backend ?cb = (map (\<lambda>t. False) later, ?cb)"
    by (induction later) simp_all
  with a show ?thesis by simp
qed

theorem second_question_locks_out_witness:
  "fst (allow 131 ''m'' open_breaker)
   \<and> fst (allow_all [132, 1000000] ''m'' (snd (allow 131 ''m'' open_breaker))) = [False, False]"
proof -
  have "circuit_state open_breaker ''m'' = OPEN" "dict_get (cb_opened_at open_breaker) ''m'' = Some 100"
    "half_open_max_probes open_breaker = 1" "\<not> 131 - 100 < recovery_seconds open_breaker"
    by (simp_all add: open_breaker_def circuit_state_def get_default_def)
  from second_question_locks_out [OF this, of "[132, 1000000]"] show ?thesis by simp
qed

lemma allow_frame: "b' \<noteq> backend \<Longrightarrow> circuit_state (snd (allow now backend cb)) b' = circuit_state cb b'"
  by (auto simp: breaker_defs dict_simps split: CircuitState.splits option.splits)

subsection \<open>Lemmas on the retry budget\<close>

lemma granted_consume_all:
  "granted (fst (consume_all (t # ts) b)) =
    (if fst (consume t b) then 1 else 0) + granted (fst (consume_all ts (snd (consume t b))))"
  by (simp add: granted_def split: prod.split)

lemma consume_window:
  assumes "\<forall>t\<in>set ts. t - retry_window_start b < 60"
  shows "int (granted (fst (consume_all ts b))) \<le> max 0 (max_retries_per_minute b - retry_used b)"
  using assms
proof (induction ts arbitrary: b)
  case Nil
  then show ?case by (simp add: granted_def)
next
  case (Cons t ts)
  then have w: "\<not> 60 \<le> t - retry_window_start b" by auto
  show ?case
  proof (cases "max_retries_per_minute b \<le> retry_used b")
    case True
    with w have a: "consume t b = (False, b)" by (simp add: consume_def)
    from Cons.IH [of b] Cons.prems a True show ?thesis by (simp add: granted_consume_all del: consume_all.simps)
  next
    case False
    let ?b = "b\<lparr>retry_used := retry_used b + 1\<rparr>"
    from False w have a: "consume t b = (True, ?b)" by (simp add: consume_def)
    from Cons.IH [of ?b] Cons.prems a False show ?thesis by (simp add: granted_consume_all del: consume_all.simps)
  qed
qed

text \<open>
  Retries per window are bounded. Among the requests that fall into one 60 second window of
  the retry budget at most \<open>max_retries_per_minute\<close> are granted a retry, whatever their order.
\<close>

theorem retry_budget_bounds_window:
  assumes "0 \<le> retry_used b" and "0 \<le> max_retries_per_minute b"
    and "60 \<le> t - retry_window_start b" and "\<forall>u\<in>set ts. u - t < 60"
  shows "int (granted (fst (consume_all (t # ts) b))) \<le> max_retries_per_minute b"
proof (cases "max_retries_per_minute b = 0")
  case True
  let ?b = "b\<lparr>retry_window_start := t, retry_used := 0\<rparr>"
  have a: "consume t b = (False, ?b)" using assms(3) True by (simp add: consume_def)
  from consume_window [of ts ?b] assms(4) True a show ?thesis
    by (simp add: granted_consume_all del: consume_all.simps)
next
  case False
  let ?b = "b\<lparr>retry_window_start := t, retry_used := 1\<rparr>"
  have a: "consume t b = (True, ?b)" using assms(2,3) False by (simp add: consume_def)
  from consume_window [of ts ?b] assms(2,4) False a show ?thesis
    by (simp add: granted_consume_all del: consume_all.simps)
qed

theorem retry_budget_bounds_window_witness:
  "fst (consume_all [100, 101, 102] \<lparr>max_retries_per_minute = 2, retry_window_start = 0, retry_used = 2\<rparr>)
    = [True, True, False]
   \<and> int (granted (fst (consume_all [100, 101, 102] \<lparr>max_retries_per_minute = 2, retry_window_start = 0, retry_used = 2\<rparr>))) \<le> 2"
  using retry_budget_bounds_window [of "\<lparr>max_retries_per_minute = 2, retry_window_start = 0, retry_used = 2\<rparr>" 100 "[101, 102]"]
  by (simp add: consume_def)

end
