(* ===== verification/Routing.thy ===== *)
theory Routing imports Health Circuit begin

text \<open>
  \<open>app/gateway/services/routing.py\<close>: which model a public route name resolves to, and the health-
  and cost-aware choice between primary and fallback. The SHA-256 digest, read as a number, is a
  parameter; the health store is read through \<open>load\<close>; the circuit breaker is asked (and changed)
  at the times \<open>clk\<close> gives.
\<close>

subsection \<open>Route resolution\<close>

fun pick_weighted :: "int \<Rightarrow> int \<Rightarrow> RouteTarget list \<Rightarrow> string option" where
  "pick_weighted bucket upper [] = None"
| "pick_weighted bucket upper (t # ts) =
     (let upper = upper + rt_weight t in
      if bucket < upper then Some (rt_model t) else pick_weighted bucket upper ts)"

definition select_route_target :: "(string \<Rightarrow> nat) \<Rightarrow> ModelRoute \<Rightarrow> string \<Rightarrow> string \<Rightarrow> py_exc + string" where
  "select_route_target sha256_int route request_id route_name =
     (if route_targets route = [] then Inl ValueError
      else let bucket = int (sha256_int (route_name @ '':'' @ request_id) mod 100) in
        case pick_weighted bucket 0 (route_targets route) of
          Some m \<Rightarrow> Inr m
        | None \<Rightarrow> Inl (OtherError ''RuntimeError''))"

definition resolve_route ::
  "(string \<Rightarrow> nat) \<Rightarrow> ModelRoute option \<Rightarrow> string \<Rightarrow> string \<Rightarrow> py_exc + string \<times> string option" where
  "resolve_route sha256_int route request_id route_name =
     (case route of
        None \<Rightarrow> Inr (route_name, None)
      | Some r \<Rightarrow>
          (case route_primary r of
             Some p \<Rightarrow> Inr (p, route_fallback r)
           | None \<Rightarrow> map_sum id (\<lambda>m. (m, None)) (select_route_target sha256_int r request_id route_name)))"

definition resolve_shadow_backend :: "ModelRoute option \<Rightarrow> string \<Rightarrow> string option" where
  "resolve_shadow_backend route selected_model =
     (case route of
        None \<Rightarrow> None
      | Some r \<Rightarrow> if route_shadow r = None \<or> route_shadow r = Some selected_model then None else route_shadow r)"

subsection \<open>Health-aware choice\<close>

definition circuit_allows :: "rat \<Rightarrow> string \<Rightarrow> CircuitBreaker option \<Rightarrow> bool \<times> CircuitBreaker option" where
  "circuit_allows now m cb =
     (case cb of None \<Rightarrow> (True, None) | Some c \<Rightarrow> (case allow now m c of (ok, c') \<Rightarrow> (ok, Some c')))"

definition no_healthy_backend :: py_exc where
  "no_healthy_backend = OtherError ''NoHealthyBackendError''"

definition select_health_aware_backend ::
  "ModelRoute option \<Rightarrow> string \<Rightarrow> string option \<Rightarrow> (string \<Rightarrow> BackendHealth) \<Rightarrow> (nat \<Rightarrow> rat)
   \<Rightarrow> CircuitBreaker option \<Rightarrow> (py_exc + string \<times> bool) \<times> CircuitBreaker option" where
  "select_health_aware_backend route primary_model fallback_model load clk cb =
     (let threshold = (case route of None \<Rightarrow> None | Some r \<Rightarrow> route_min_health_score r);
          good = (\<lambda>m. case threshold of None \<Rightarrow> True | Some n \<Rightarrow> meets_score (load m) n)
      in case circuit_allows (clk 0) primary_model cb of (ok, cb) \<Rightarrow>
        if ok \<and> good primary_model then (Inr (primary_model, False), cb)
        else case fallback_model of
            None \<Rightarrow> (Inl no_healthy_backend, cb)
          | Some f \<Rightarrow>
              (case circuit_allows (clk 1) f cb of (ok, cb) \<Rightarrow>
                 if ok \<and> good f then (Inr (f, True), cb) else (Inl no_healthy_backend, cb)))"

subsection \<open>Cost-aware choice\<close>

text \<open>A latency, or infinity when it is missing or zero (\<open>signals[model][1] or float("inf")\<close>).\<close>

definition latency_of :: "BackendHealth \<Rightarrow> rat option" where
  "latency_of h = (case latency_ms h of None \<Rightarrow> None | Some l \<Rightarrow> if l = 0 then None else Some l)"

definition min_latency :: "BackendHealth list \<Rightarrow> rat option" where
  "min_latency hs = (case List.map_filter latency_of hs of [] \<Rightarrow> None | l # ls \<Rightarrow> Some (fold min ls l))"

definition unit_cost :: "ModelTarget \<Rightarrow> rat" where
  "unit_cost t = mt_input_cost t + mt_output_cost t"

definition latency_component :: "rat option \<Rightarrow> rat option \<Rightarrow> rat" where
  "latency_component min_l l =
     (case min_l of None \<Rightarrow> 1 | Some m \<Rightarrow> (case l of None \<Rightarrow> 0 | Some x \<Rightarrow> m / x))"

definition cost_component :: "rat \<Rightarrow> rat \<Rightarrow> rat" where
  "cost_component min_c c = (if c \<noteq> 0 then min_c / c else 1)"

definition route_score :: "RoutingWeights \<Rightarrow> rat option \<Rightarrow> rat \<Rightarrow> BackendHealth \<Rightarrow> rat \<Rightarrow> rat" where
  "route_score w min_l min_c h c =
     w_health w * of_int (score h) / 100 + w_latency w * latency_component min_l (latency_of h)
     + w_cost w * cost_component min_c c"

definition eligible_for :: "int \<Rightarrow> BackendHealth \<Rightarrow> bool" where
  "eligible_for threshold h = (available h \<noteq> Some False \<and> threshold \<le> score h)"

text \<open>
  \<open>signals\<close> is a dictionary, so a fallback equal to the primary is one candidate. \<open>max\<close> with the
  key \<open>(score(model), model == primary_model)\<close> prefers the primary on a tie.
\<close>

definition select_cost_aware_backend ::
  "ModelRoute option \<Rightarrow> string \<Rightarrow> string option \<Rightarrow> (string \<Rightarrow> BackendHealth) \<Rightarrow> (string, ModelTarget) dict
   \<Rightarrow> py_exc + string \<times> bool" where
  "select_cost_aware_backend route primary_model fallback_model load targets =
     (case (route, fallback_model) of
        (Some r, Some f) \<Rightarrow>
          (case route_routing_policy r of
             None \<Rightarrow> Inr (primary_model, False)
           | Some policy \<Rightarrow>
               (let threshold = (case route_min_health_score r of None \<Rightarrow> 0 | Some n \<Rightarrow> n);
                    candidates = remdups [primary_model, f];
                    eligible = filter (\<lambda>m. eligible_for threshold (load m)) candidates
                in case eligible of
                     [] \<Rightarrow> Inl no_healthy_backend
                   | [m] \<Rightarrow> Inr (m, m \<noteq> primary_model)
                   | p # q # _ \<Rightarrow>
                       (case (dict_get targets p, dict_get targets q) of
                          (Some tp, Some tq) \<Rightarrow>
                            (let min_c = min (unit_cost tp) (unit_cost tq);
                                 min_l = min_latency [load p, load q];
                                 sp = route_score (rp_weights policy) min_l min_c (load p) (unit_cost tp);
                                 sq = route_score (rp_weights policy) min_l min_c (load q) (unit_cost tq);
                                 selected = (if sq > sp then q else p)
                             in Inr (selected, selected \<noteq> primary_model))
                        | _ \<Rightarrow> Inl KeyError)))
      | _ \<Rightarrow> Inr (primary_model, False))"

subsection \<open>Weighted selection\<close>

definition total_weight :: "RouteTarget list \<Rightarrow> int" where
  "total_weight ts = sum_list (map rt_weight ts)"

definition weight_of :: "string \<Rightarrow> RouteTarget list \<Rightarrow> int" where
  "weight_of m ts = sum_list (map rt_weight (filter (\<lambda>t. rt_model t = m) ts))"

lemma total_weight_nonneg: "\<forall>t\<in>set ts. 0 < rt_weight t \<Longrightarrow> 0 \<le> total_weight ts"
  by (induction ts) (auto simp: total_weight_def)

lemma pick_weighted_total:
  "u \<le> b \<Longrightarrow> b < u + total_weight ts \<Longrightarrow> \<exists>t\<in>set ts. pick_weighted b u ts = Some (rt_model t)"
proof (induction ts arbitrary: u)
  case Nil
  then show ?case by (simp add: total_weight_def)
next
  case (Cons t ts)
  show ?case
  proof (cases "b < u + rt_weight t")
    case True
    then show ?thesis by (simp add: Let_def)
  next
    case False
    with Cons.IH [of "u + rt_weight t"] Cons.prems show ?thesis
      by (auto simp: Let_def total_weight_def add.assoc)
  qed
qed

text \<open>The buckets that fall to a model: as many as its weight.\<close>

lemma pick_weighted_share:
  assumes "\<forall>t\<in>set ts. 0 < rt_weight t"
  shows "int (card {b. u \<le> b \<and> b < u + total_weight ts \<and> pick_weighted b u ts = Some m}) = weight_of m ts"
  using assms
proof (induction ts arbitrary: u)
  case Nil
  then show ?case by (simp add: weight_of_def)
next
  case (Cons t ts)
  let ?v = "u + rt_weight t"
  let ?S = "\<lambda>u ts. {b. u \<le> b \<and> b < u + total_weight ts \<and> pick_weighted b u ts = Some m}"
  have pos: "0 < rt_weight t" "0 \<le> total_weight ts"
    using Cons.prems total_weight_nonneg by auto
  have split: "?S u (t # ts) = (if rt_model t = m then {u..<?v} else {}) \<union> ?S ?v ts"
    using pos by (auto simp: Let_def total_weight_def)
  have "finite (?S ?v ts)"
    by (rule finite_subset [of _ "{?v..<?v + total_weight ts}"]) auto
  moreover have "{u..<?v} \<inter> ?S ?v ts = {}" by auto
  ultimately have "int (card (?S u (t # ts))) =
      (if rt_model t = m then rt_weight t else 0) + int (card (?S ?v ts))"
    unfolding split using pos by (auto simp: card_Un_disjoint)
  with Cons show ?case by (simp add: weight_of_def)
qed

text \<open>Reducing a hash mod 100 meets every bucket once in any hundred consecutive hash values.\<close>

lemma card_window_mod:
  "card {d::nat. k \<le> d \<and> d < k + 100 \<and> P (int (d mod 100))} = card {b::int. 0 \<le> b \<and> b < 100 \<and> P b}"
proof (rule bij_betw_same_card [of "\<lambda>d. int (d mod 100)"], unfold bij_betw_def, rule conjI)
  show "inj_on (\<lambda>d. int (d mod 100)) {d::nat. k \<le> d \<and> d < k + 100 \<and> P (int (d mod 100))}"
  proof (rule inj_onI, clarsimp simp del: of_nat_mod)
    fix x y :: nat
    assume a: "k \<le> x" "x < k + 100" "k \<le> y" "y < k + 100" "x mod 100 = y mod 100"
    have e: "x = 100 * (x div 100) + x mod 100" "y = 100 * (y div 100) + x mod 100"
      using mult_div_mod_eq [of 100 x] mult_div_mod_eq [of 100 y] a(5) by simp_all
    consider "x div 100 + 1 \<le> y div 100" | "y div 100 + 1 \<le> x div 100" | "x div 100 = y div 100" by linarith
    then show "x = y" using e a(1-4) by cases linarith+
  qed
  show "(\<lambda>d. int (d mod 100)) ` {d::nat. k \<le> d \<and> d < k + 100 \<and> P (int (d mod 100))} = {b. 0 \<le> b \<and> b < 100 \<and> P b}"
  proof (rule equalityI; rule subsetI)
    fix b :: int
    assume b: "b \<in> {b. 0 \<le> b \<and> b < 100 \<and> P b}"
    define d where "d = k + (nat b + 100 - k mod 100) mod 100"
    have less: "k mod 100 < 100" by simp
    have turn: "m < 100 \<Longrightarrow> k = 100 * q + m \<Longrightarrow> k + (n + 100 - m) = n + 100 * (q + 1)" for m q n :: nat by simp
    have eq: "k + (nat b + 100 - k mod 100) = nat b + 100 * (k div 100 + 1)" by (rule turn [OF less]) simp
    have "d mod 100 = (k + (nat b + 100 - k mod 100)) mod 100" unfolding d_def by (rule mod_add_right_eq)
    also have "\<dots> = (nat b + 100 * (k div 100 + 1)) mod 100" by (simp only: eq)
    also have "\<dots> = nat b mod 100" by (rule mod_mult_self2)
    also have "\<dots> = nat b" using b by (auto simp: nat_less_iff)
    finally have "b = int (d mod 100)" using b by simp
    moreover have "k \<le> d" "d < k + 100" by (simp_all add: d_def)
    ultimately show "b \<in> (\<lambda>d. int (d mod 100)) ` {d::nat. k \<le> d \<and> d < k + 100 \<and> P (int (d mod 100))}" using b by blast
  qed auto
qed

text \<open>
  C29: a validated weighted route splits traffic exactly. For every request \<open>select_route_target\<close>
  answers one of the route's own models (the \<open>RuntimeError\<close> branch is dead), the choice depends only
  on the hash of route name and request id, and of any hundred consecutive hash values it sends to
  each model precisely the sum of its weights.
\<close>

theorem weighted_route_splits_exactly:
  assumes "valid_route r" and "route_targets r \<noteq> []"
  shows "(\<exists>t\<in>set (route_targets r). select_route_target sha r rid name = Inr (rt_model t))
    \<and> select_route_target sha r rid name = select_route_target (\<lambda>_. sha (name @ '':'' @ rid)) r any_id any_name
    \<and> int (card {d. k \<le> d \<and> d < k + 100 \<and> select_route_target (\<lambda>_. d) r rid name = Inr m}) = weight_of m (route_targets r)"
proof -
  from assms have total: "total_weight (route_targets r) = 100" "\<forall>t\<in>set (route_targets r). 0 < rt_weight t"
    by (auto simp: total_weight_def elim: valid_route_cases)
  let ?b = "int (sha (name @ '':'' @ rid) mod 100)"
  have "\<exists>t\<in>set (route_targets r). pick_weighted ?b 0 (route_targets r) = Some (rt_model t)"
    by (rule pick_weighted_total) (simp_all add: total)
  moreover have "int (card {b. 0 \<le> b \<and> b < 100 \<and> pick_weighted b 0 (route_targets r) = Some m}) = weight_of m (route_targets r)"
    using pick_weighted_share [OF total(2), of 0 m] by (simp add: total)
  moreover have "select_route_target (\<lambda>_. d) r rid name = Inr m \<longleftrightarrow> pick_weighted (int (d mod 100)) 0 (route_targets r) = Some m" for d
    using assms(2) by (simp add: select_route_target_def Let_def split: option.splits)
  ultimately show ?thesis
    using assms(2) by (auto simp: select_route_target_def Let_def
        card_window_mod [of k "\<lambda>b. pick_weighted b 0 (route_targets r) = Some m"] simp del: of_nat_mod)
qed

definition canary_route :: ModelRoute where
  "canary_route = \<lparr>route_targets = [\<lparr>rt_model = ''a'', rt_weight = 90\<rparr>, \<lparr>rt_model = ''b'', rt_weight = 10\<rparr>],
     route_primary = None, route_fallback = None, route_min_health_score = None,
     route_unhealthy_action = ''skip'', route_routing_policy = None, route_shadow = Some ''b''\<rparr>"

theorem weighted_route_splits_exactly_witness:
  "int (card {d. 7 \<le> d \<and> d < 7 + 100 \<and> select_route_target (\<lambda>_. d) canary_route ''r1'' ''chat'' = Inr ''b''}) = 10"
proof -
  have "valid_route canary_route" "route_targets canary_route \<noteq> []"
    by (simp_all add: valid_route_def canary_route_def has_valid_policy_def model_names_def)
  from weighted_route_splits_exactly [OF this, where m = "''b''" and k = 7 and rid = "''r1''" and name = "''chat''"] show ?thesis
    by (simp add: canary_route_def weight_of_def)
qed

subsection \<open>Choice of a backend\<close>

lemma circuit_allows_None [simp]: "circuit_allows now m None = (True, None)"
  by (simp add: circuit_allows_def)

text \<open>
  A health-aware route never serves from a backend it considers bad. Whatever the circuit
  breaker says, a successful choice is the primary (not rerouted) or the fallback (rerouted), and
  with a configured threshold the chosen backend is not known to be down and scores at least the
  threshold; without a breaker the primary is kept whenever it qualifies, and the error is
  raised only if neither qualifies.
\<close>

theorem health_aware_choice_meets_threshold:
  assumes "route_min_health_score r = Some n"
    and "fst (select_health_aware_backend (Some r) p fb load clk cb) = Inr (m, rerouted)"
  shows "meets_score (load m) n \<and> (if rerouted then fb = Some m else m = p)
    \<and> (cb = None \<longrightarrow> (rerouted \<longrightarrow> \<not> meets_score (load p) n))"
  using assms
  by (auto simp: select_health_aware_backend_def Let_def split: prod.splits option.splits if_splits)

definition failover_route :: ModelRoute where
  "failover_route = \<lparr>route_targets = [], route_primary = Some ''a'', route_fallback = Some ''b'',
     route_min_health_score = Some 60, route_unhealthy_action = ''skip'',
     route_routing_policy = Some \<lparr>rp_strategy = ''balanced'', rp_weights = \<lparr>w_health = 1/2, w_latency = 3/10, w_cost = 1/5\<rparr>\<rparr>,
     route_shadow = None\<rparr>"

definition down_a :: "string \<Rightarrow> BackendHealth" where
  "down_a m = (if m = ''a'' then new_health\<lparr>available := Some False\<rparr> else new_health)"

theorem health_aware_choice_meets_threshold_witness:
  "meets_score (down_a ''b'') 60 \<and> \<not> meets_score (down_a ''a'') 60
   \<and> fst (select_health_aware_backend (Some failover_route) ''a'' (Some ''b'') down_a (\<lambda>_. 0) None) = Inr (''b'', True)"
proof -
  have "fst (select_health_aware_backend (Some failover_route) ''a'' (Some ''b'') down_a (\<lambda>_. 0) None) = Inr (''b'', True)"
    by code_simp
  with health_aware_choice_meets_threshold [of failover_route 60 "''a''" "Some ''b''" down_a "\<lambda>_. 0" None "''b''" True]
  show ?thesis by (simp add: failover_route_def)
qed

text \<open>
  C30: the cost-aware choice is optimal. On a valid failover route with a routing policy and both
  targets configured, the chosen backend is one of the two, is eligible (not down, at least the
  threshold), and no eligible candidate has a strictly higher weighted score; an equal score
  keeps the primary; the error is raised exactly when no candidate is eligible.
\<close>

theorem cost_aware_choice_is_optimal:
  assumes "valid_route r" and "route_primary r = Some p" and "route_fallback r = Some f"
    and "route_routing_policy r = Some policy"
    and "dict_get targets p = Some tp" and "dict_get targets f = Some tf"
    and "threshold = (case route_min_health_score r of None \<Rightarrow> 0 | Some n \<Rightarrow> n)"
    and "sc = (\<lambda>m t. route_score (rp_weights policy) (min_latency [load p, load f]) (min (unit_cost tp) (unit_cost tf)) (load m) (unit_cost t))"
  shows "case select_cost_aware_backend (Some r) p (Some f) load targets of
      Inl e \<Rightarrow> e = no_healthy_backend \<and> \<not> eligible_for threshold (load p) \<and> \<not> eligible_for threshold (load f)
    | Inr (m, rerouted) \<Rightarrow> eligible_for threshold (load m) \<and> (rerouted \<longleftrightarrow> m = f) \<and> m \<in> {p, f}
        \<and> (eligible_for threshold (load p) \<and> eligible_for threshold (load f) \<longrightarrow> (m = f \<longleftrightarrow> sc p tp < sc f tf))"
proof -
  have ne: "p \<noteq> f" using assms(1-3) by (auto elim: valid_route_cases)
  show ?thesis
    using ne assms(4-6) unfolding assms(7,8)
    by (cases "eligible_for threshold (load p)"; cases "eligible_for threshold (load f)")
      (auto simp: select_cost_aware_backend_def Let_def assms(7))
qed

theorem cost_aware_choice_is_optimal_witness:
  "select_cost_aware_backend (Some failover_route) ''a'' (Some ''b'') (\<lambda>m. new_health) demo_targets = Inr (''b'', True)
   \<and> eligible_for 60 new_health"
proof -
  have "valid_route failover_route"
    by (simp add: valid_route_def failover_route_def has_valid_policy_def model_names_def)
  note opt = cost_aware_choice_is_optimal [OF this _ _ _ _ _ refl refl, of "''a''" "''b''"
      "\<lparr>rp_strategy = ''balanced'', rp_weights = \<lparr>w_health = 1/2, w_latency = 3/10, w_cost = 1/5\<rparr>\<rparr>" demo_targets
      "snd (demo_targets ! 0)" "snd (demo_targets ! 1)" "\<lambda>m. new_health"]
  moreover have sel: "select_cost_aware_backend (Some failover_route) ''a'' (Some ''b'') (\<lambda>m. new_health) demo_targets = Inr (''b'', True)"
    by code_simp
  moreover from sel opt have "eligible_for (case route_min_health_score failover_route of None \<Rightarrow> 0 | Some n \<Rightarrow> n) new_health"
    by (simp add: failover_route_def demo_targets_def)
  ultimately show ?thesis by (simp add: failover_route_def)
qed

end
