(* ===== verification/Completions.thy ===== *)
theory Completions imports Routing Errors begin

text \<open>
  \<open>app/gateway/services/completions.py\<close>: forwarding with one fallback under the circuit breaker and
  the retry budget, and shadow traffic. The upstream is a parameter that answers a call with a
  response, an error status or a transport error; the run returns the calls it made. The clock
  readings of attempt \<open>i\<close> are \<open>clk (3 * i)\<close> (admission), \<open>clk (3 * i + 1)\<close> (retry budget) and
  \<open>clk (3 * i + 2)\<close> (outcome).
\<close>

text \<open>A successful answer whose body is no JSON document is \<open>UOk None\<close>.\<close>

datatype upstream_outcome = UOk "json option" | UStatus int | UTransport string

datatype completion_error = HTTPStatusError int | RequestError string | NoAttempt

record upstream_call =
  call_url :: string
  call_payload :: obj
  call_headers :: "(string, string) dict"

record completion_state =
  cs_breaker :: "CircuitBreaker option"
  cs_budget :: "RetryBudget option"
  cs_calls :: "upstream_call list"
  cs_failed :: "string list"

type_synonym attempt = "string \<times> ModelTarget \<times> bool"
type_synonym upstream = "upstream_call \<Rightarrow> upstream_outcome"

definition note_failed :: "string \<Rightarrow> completion_state \<Rightarrow> completion_state" where
  "note_failed m s = s\<lparr>cs_failed := cs_failed s @ [m]\<rparr>"

definition breaker_failure :: "rat \<Rightarrow> string \<Rightarrow> completion_state \<Rightarrow> completion_state" where
  "breaker_failure now m s = s\<lparr>cs_breaker := map_option (record_failure now m) (cs_breaker s)\<rparr>"

definition breaker_success :: "string \<Rightarrow> completion_state \<Rightarrow> completion_state" where
  "breaker_success m s = s\<lparr>cs_breaker := map_option (record_success m) (cs_breaker s)\<rparr>"

definition completion_call :: "obj \<Rightarrow> (string, string) dict \<Rightarrow> string \<Rightarrow> ModelTarget \<Rightarrow> upstream_call" where
  "completion_call payload headers m t =
     \<lparr>call_url = chat_completions_url (mt_url t), call_payload = dict_set ''model'' (JStr m) payload,
      call_headers = headers\<rparr>"

text \<open>The retry budget, asked before a fallback attempt.\<close>

definition budget_allows :: "rat \<Rightarrow> bool \<Rightarrow> completion_state \<Rightarrow> bool \<times> completion_state" where
  "budget_allows now fallback_used s =
     (case cs_budget s of
        Some b \<Rightarrow>
          if fallback_used then (case consume now b of (ok, b') \<Rightarrow> (ok, s\<lparr>cs_budget := Some b'\<rparr>)) else (True, s)
      | None \<Rightarrow> (True, s))"

fun run_attempts ::
  "upstream \<Rightarrow> obj \<Rightarrow> (string, string) dict \<Rightarrow> (nat \<Rightarrow> rat) \<Rightarrow> nat \<Rightarrow> attempt list \<Rightarrow> completion_state
   \<Rightarrow> (completion_error + json option \<times> string \<times> bool) \<times> completion_state" where
  "run_attempts post payload headers clk i [] s = (Inl NoAttempt, s)"
| "run_attempts post payload headers clk i ((m, t, fb) # rest) s =
     (case circuit_allows (clk (3 * i)) m (cs_breaker s) of (ok, cb) \<Rightarrow>
        let s = s\<lparr>cs_breaker := cb\<rparr> in
        if \<not> ok then
          (let s = note_failed m s in
           if rest = [] then (Inl (RequestError (''circuit open for backend '' @ m)), s)
           else run_attempts post payload headers clk (i + 1) rest s)
        else case budget_allows (clk (3 * i + 1)) fb s of (ok, s) \<Rightarrow>
          if \<not> ok then (Inl (RequestError ''retry budget exhausted''), s)
          else
            let c = completion_call payload headers m t; s = s\<lparr>cs_calls := cs_calls s @ [c]\<rparr> in
            case post c of
              UOk body \<Rightarrow> (Inr (body, m, fb), breaker_success m s)
            | UStatus code \<Rightarrow>
                (let s = breaker_failure (clk (3 * i + 2)) m s in
                 if code < 500 \<or> rest = [] then (Inl (HTTPStatusError code), s)
                 else run_attempts post payload headers clk (i + 1) rest (note_failed m s))
            | UTransport e \<Rightarrow>
                (let s = breaker_failure (clk (3 * i + 2)) m s in
                 if rest = [] then (Inl (RequestError e), s)
                 else run_attempts post payload headers clk (i + 1) rest (note_failed m s)))"

definition attempts_for ::
  "string \<Rightarrow> ModelTarget \<Rightarrow> string option \<Rightarrow> ModelTarget option \<Rightarrow> attempt list" where
  "attempts_for p tp f tf =
     (p, tp, False) # (case (f, tf) of (Some m, Some t) \<Rightarrow> [(m, t, True)] | _ \<Rightarrow> [])"

definition post_completion_with_fallback ::
  "upstream \<Rightarrow> obj \<Rightarrow> (string, string) dict \<Rightarrow> (nat \<Rightarrow> rat) \<Rightarrow> string \<Rightarrow> ModelTarget \<Rightarrow> string option
   \<Rightarrow> ModelTarget option \<Rightarrow> CircuitBreaker option \<Rightarrow> RetryBudget option
   \<Rightarrow> (completion_error + json option \<times> string \<times> bool) \<times> completion_state" where
  "post_completion_with_fallback post payload headers clk p tp f tf cb rb =
     run_attempts post payload headers clk 0 (attempts_for p tp f tf)
       \<lparr>cs_breaker = cb, cs_budget = rb, cs_calls = [], cs_failed = []\<rparr>"

definition routing_reason :: "bool \<Rightarrow> bool \<Rightarrow> bool \<Rightarrow> string" where
  "routing_reason cost_rerouted health_rerouted fallback_used =
     (if cost_rerouted then ''cost_aware'' else if health_rerouted then ''health_score''
      else if fallback_used then ''fallback'' else ''primary'')"

subsection \<open>Shadow traffic\<close>

definition shadow_call :: "obj \<Rightarrow> (string, string) dict \<Rightarrow> string \<Rightarrow> ModelTarget \<Rightarrow> upstream_call" where
  "shadow_call payload headers shadow_model t =
     (let p = dict_set ''stream'' (JBool False) (dict_set ''model'' (JStr shadow_model) payload)
      in \<lparr>call_url = chat_completions_url (mt_url t),
          call_payload = (if dict_get p ''max_tokens'' = None then dict_set ''max_tokens'' (JInt 64) p else p),
          call_headers = dict_set ''x-shadow-traffic'' ''true'' headers\<rparr>)"

definition run_shadow_request ::
  "upstream \<Rightarrow> obj \<Rightarrow> (string, string) dict \<Rightarrow> string \<Rightarrow> ModelTarget \<Rightarrow> rat \<Rightarrow> string \<times> rat" where
  "run_shadow_request post payload headers shadow_model t duration_s =
     ((case post (shadow_call payload headers shadow_model t) of UOk b \<Rightarrow> ''success'' | _ \<Rightarrow> ''error''),
      round_to 2 (duration_s * 1000))"

subsection \<open>Lemmas\<close>

definition call_to :: "string \<Rightarrow> upstream_call \<Rightarrow> bool" where
  "call_to m c \<longleftrightarrow> dict_get (call_payload c) ''model'' = Some (JStr m)"

definition retryable :: "upstream_outcome \<Rightarrow> bool" where
  "retryable u = (case u of UOk b \<Rightarrow> False | UStatus c \<Rightarrow> 500 \<le> c | UTransport e \<Rightarrow> True)"

lemma budget_allows_calls [simp]:
  "budget_allows now fb s = (ok, s') \<Longrightarrow> cs_calls s' = cs_calls s \<and> cs_breaker s' = cs_breaker s \<and> cs_failed s' = cs_failed s"
  by (auto simp: budget_allows_def split: option.splits prod.splits if_splits)

lemma state_simps [simp]:
  "cs_calls (note_failed m s) = cs_calls s" "cs_calls (breaker_failure n m s) = cs_calls s"
  "cs_calls (breaker_success m s) = cs_calls s"
  "cs_failed (breaker_failure n m s) = cs_failed s" "cs_failed (breaker_success m s) = cs_failed s"
  by (simp_all add: note_failed_def breaker_failure_def breaker_success_def)

lemma last_attempt:
  "run_attempts post payload headers clk i [(m, t, fb)] s = (r, s') \<Longrightarrow>
    (cs_calls s' = cs_calls s \<and> (\<exists>e. r = Inl e)) \<or>
    (cs_calls s' = cs_calls s @ [completion_call payload headers m t]
     \<and> (case post (completion_call payload headers m t) of UOk b \<Rightarrow> r = Inr (b, m, fb)
        | UStatus c \<Rightarrow> r = Inl (HTTPStatusError c) | UTransport e \<Rightarrow> r = Inl (RequestError e)))"
  by (auto simp: Let_def dest: budget_allows_calls split: prod.splits if_splits upstream_outcome.splits)

lemma primary_refused:
  "circuit_allows (clk (3 * i)) m (cs_breaker s) = (False, cb) \<Longrightarrow> rest \<noteq> [] \<Longrightarrow>
    run_attempts post payload headers clk i ((m, t, fb) # rest) s =
      run_attempts post payload headers clk (i + 1) rest (note_failed m (s\<lparr>cs_breaker := cb\<rparr>))"
  by simp

lemma primary_called:
  assumes "circuit_allows (clk (3 * i)) m (cs_breaker s) = (True, cb)" and "rest \<noteq> []"
    and "c = completion_call payload headers m t" and "s1 = s\<lparr>cs_breaker := cb, cs_calls := cs_calls s @ [c]\<rparr>"
  shows "run_attempts post payload headers clk i ((m, t, False) # rest) s =
    (if retryable (post c)
     then run_attempts post payload headers clk (i + 1) rest (note_failed m (breaker_failure (clk (3 * i + 2)) m s1))
     else case post c of
         UOk body \<Rightarrow> (Inr (body, m, False), breaker_success m s1)
       | UStatus code \<Rightarrow> (Inl (HTTPStatusError code), breaker_failure (clk (3 * i + 2)) m s1)
       | UTransport e \<Rightarrow> (Inl (RequestError e), s1))"
proof -
  have b: "budget_allows n False st = (True, st)" for n st
    by (simp add: budget_allows_def split: option.split)
  show ?thesis
    using assms(2) unfolding run_attempts.simps(2) assms(1) b assms(3) [symmetric] Let_def assms(4)
    by (cases "post c") (simp_all add: retryable_def b assms(3) [symmetric] del: run_attempts.simps)
qed

text \<open>
  Forwarding makes at most one call to each backend and answers with what that call said.
  The calls are a prefix-respecting choice of primary then fallback; the fallback is called only
  if the primary was refused by its circuit or failed in a retryable way (status 500 or more, or
  transport); a success is the body the last called backend returned, flagged as fallback
  exactly when it is; a client error of the primary is returned at once.
\<close>

theorem fallback_only_after_retryable_failure:
  assumes "post_completion_with_fallback post payload headers clk p tp (Some f) (Some tf) cb rb = (r, s)"
    and "c1 = completion_call payload headers p tp" and "c2 = completion_call payload headers f tf"
  shows "cs_calls s \<in> {[], [c1], [c2], [c1, c2]}
    \<and> (cs_calls s = [c1, c2] \<longrightarrow> retryable (post c1))
    \<and> (cs_calls s = [c2] \<and> c2 \<noteq> c1 \<longrightarrow> \<not> fst (circuit_allows (clk 0) p cb))
    \<and> (\<forall>body m fb. r = Inr (body, m, fb) \<longrightarrow>
        (if fb then m = f \<and> last (cs_calls s) = c2 \<and> post c2 = UOk body
         else m = p \<and> cs_calls s = [c1] \<and> post c1 = UOk body))
    \<and> (\<forall>c. post c1 = UStatus c \<and> c < 500 \<and> fst (circuit_allows (clk 0) p cb) \<longrightarrow> r = Inl (HTTPStatusError c))"
proof -
  let ?s0 = "\<lparr>cs_breaker = cb, cs_budget = rb, cs_calls = [], cs_failed = []\<rparr>"
  obtain ok cb' where a: "circuit_allows (clk 0) p cb = (ok, cb')" by fastforce
  then have a0: "circuit_allows (clk (3 * 0)) p (cs_breaker ?s0) = (ok, cb')" by simp
  note run = assms(1) [unfolded post_completion_with_fallback_def attempts_for_def option.case prod.case]
  show ?thesis
  proof (cases ok)
    case False
    with run a0 have "run_attempts post payload headers clk (0 + 1) [(f, tf, True)] (note_failed p (?s0\<lparr>cs_breaker := cb'\<rparr>)) = (r, s)"
      by (subst (asm) primary_refused) simp_all
    from last_attempt [OF this] a False show ?thesis
      by (auto simp: assms(2,3) split: upstream_outcome.splits)
  next
    case True
    let ?s1 = "?s0\<lparr>cs_breaker := cb', cs_calls := [c1]\<rparr>"
    have step: "(r, s) = (if retryable (post c1)
      then run_attempts post payload headers clk (0 + 1) [(f, tf, True)] (note_failed p (breaker_failure (clk (3 * 0 + 2)) p ?s1))
      else case post c1 of
          UOk body \<Rightarrow> (Inr (body, p, False), breaker_success p ?s1)
        | UStatus code \<Rightarrow> (Inl (HTTPStatusError code), breaker_failure (clk (3 * 0 + 2)) p ?s1)
        | UTransport e \<Rightarrow> (Inl (RequestError e), ?s1))"
      unfolding run [symmetric] using a0 True
      by (intro primary_called) (simp_all add: assms(2))
    show ?thesis
    proof (cases "retryable (post c1)")
      case False
      with step a True show ?thesis
        by (auto simp: retryable_def split: upstream_outcome.splits)
    next
      case retry: True
      then have nc: "post c1 \<noteq> UOk b" "c < 500 \<Longrightarrow> post c1 \<noteq> UStatus c" for b c by (auto simp: retryable_def)
      from step retry have "run_attempts post payload headers clk (0 + 1) [(f, tf, True)]
          (note_failed p (breaker_failure (clk (3 * 0 + 2)) p ?s1)) = (r, s)"
        by (simp del: run_attempts.simps)
      from last_attempt [OF this] retry nc a True show ?thesis
        by (auto simp: assms(3) split: upstream_outcome.splits)
    qed
  qed
qed

definition flaky :: upstream where
  "flaky c = (if call_to ''a'' c then UStatus 503 else UOk (Some (JStr ''hello'')))"

theorem fallback_only_after_retryable_failure_witness:
  "\<exists>s. post_completion_with_fallback flaky [] [] (\<lambda>_. 0) ''a'' (snd (demo_targets ! 0)) (Some ''b'') (Some (snd (demo_targets ! 1))) None None
      = (Inr (Some (JStr ''hello''), ''b'', True), s)
    \<and> cs_calls s \<in> {[], [completion_call [] [] ''a'' (snd (demo_targets ! 0))], [completion_call [] [] ''b'' (snd (demo_targets ! 1))],
        [completion_call [] [] ''a'' (snd (demo_targets ! 0)), completion_call [] [] ''b'' (snd (demo_targets ! 1))]}"
proof -
  let ?r = "post_completion_with_fallback flaky [] [] (\<lambda>_. 0) ''a'' (snd (demo_targets ! 0)) (Some ''b'') (Some (snd (demo_targets ! 1))) None None"
  have "fst ?r = Inr (Some (JStr ''hello''), ''b'', True)" by code_simp
  then obtain s where "?r = (Inr (Some (JStr ''hello''), ''b'', True), s)" by (metis prod.collapse)
  from fallback_only_after_retryable_failure [OF this refl refl] this show ?thesis by blast
qed

subsection \<open>Selection and forwarding share one circuit\<close>



text \<open>
  Shadow traffic is marked and never streams. The mirrored request carries the shadow header
  and the shadow model, has streaming off and a token bound (the caller's, or 64), and is
  otherwise the caller's payload.
\<close>

theorem shadow_request_is_marked:
  assumes "k \<notin> {''model'', ''stream'', ''max_tokens''}"
  shows "dict_get (call_headers (shadow_call payload headers m t)) ''x-shadow-traffic'' = Some ''true''
    \<and> dict_get (call_payload (shadow_call payload headers m t)) ''model'' = Some (JStr m)
    \<and> dict_get (call_payload (shadow_call payload headers m t)) ''stream'' = Some (JBool False)
    \<and> dict_get (call_payload (shadow_call payload headers m t)) ''max_tokens''
        = Some (case dict_get payload ''max_tokens'' of Some v \<Rightarrow> v | None \<Rightarrow> JInt 64)
    \<and> dict_get (call_payload (shadow_call payload headers m t)) k = dict_get payload k"
  using assms by (auto simp: shadow_call_def Let_def dict_simps split: option.split)

theorem shadow_request_is_marked_witness:
  "dict_get (call_payload (shadow_call [(''messages'', JArr []), (''stream'', JBool True)] [] ''b'' (snd (demo_targets ! 1)))) ''messages'' = Some (JArr [])"
  using shadow_request_is_marked [of "''messages''" "[(''messages'', JArr []), (''stream'', JBool True)]"] by simp

end
