(* ===== verification/Auth.thy ===== *)
theory Auth imports Errors Config begin

text \<open>
  \<open>app/gateway/jwt_verify.py\<close> and \<open>app/gateway/auth.py\<close>: bearer-token verification and the
  authentication boundary of every non-public route. The JWKS client, \<open>jwt.decode\<close>, base64 and
  the JSON parser are parameters; PyJWT's own exceptions appear as \<open>OtherError ''PyJWTError''\<close>.
  Metrics and the thread the check runs on are not modelled.
\<close>

subsection \<open>Token verification\<close>

record decode_options =
  opt_algorithms :: "string list"
  opt_require :: "string list"
  opt_verify_aud :: bool
  opt_verify_iss :: bool
  opt_audience :: "string option"
  opt_issuer :: "string option"

record jwt_libs =
  signing_key :: "string \<Rightarrow> string \<Rightarrow> py_exc + string"       \<comment> \<open>JWKS URL, token\<close>
  jwt_decode :: "string \<Rightarrow> string \<Rightarrow> decode_options \<Rightarrow> py_exc + json"
  b64decode :: "string \<Rightarrow> py_exc + string"
  jwt_loads :: "string \<Rightarrow> py_exc + json"

text \<open>\<open>JwtConfigurationError(message)\<close>, and the message of one (\<open>str(error)\<close>).\<close>

definition jwt_configuration_error :: "string \<Rightarrow> py_exc" where
  "jwt_configuration_error msg = OtherError (''JwtConfigurationError: '' @ msg)"

fun configuration_message :: "py_exc \<Rightarrow> string option" where
  "configuration_message (OtherError s) =
     (if startswith s ''JwtConfigurationError: '' then Some (removeprefix s ''JwtConfigurationError: '') else None)"
| "configuration_message _ = None"

definition pyjwt_error :: py_exc where
  "pyjwt_error = OtherError ''PyJWTError''"

definition get_jwks_url :: "environ \<Rightarrow> string option" where
  "get_jwks_url env = or_none (strip (getenv env ''OIDC_JWKS_URL'' []))"

definition get_jwt_issuer :: "environ \<Rightarrow> string option" where
  "get_jwt_issuer env = or_none (strip (getenv env ''OIDC_JWT_ISSUER'' []))"

definition get_jwt_audience :: "environ \<Rightarrow> string option" where
  "get_jwt_audience env = or_none (strip (getenv env ''OIDC_JWT_AUDIENCE'' []))"

definition require_issuer_and_audience :: "environ \<Rightarrow> bool" where
  "require_issuer_and_audience env =
     (env_flag (getenv env ''OIDC_JWT_REQUIRE_ISS_AUD'' [])
      \<or> lower (strip (getenv env ''GATEWAY_PROFILE'' ''local'')) = ''production'')"

definition decode_unsigned_payload :: "jwt_libs \<Rightarrow> string \<Rightarrow> py_exc + json" where
  "decode_unsigned_payload lib token =
     (case split_on (CHR ''.'') token of
        [h, p, s] \<Rightarrow>
          bind_exc (b64decode lib (p @ replicate ((4 - length p mod 4) mod 4) (CHR ''=''))) (\<lambda>raw.
          bind_exc (jwt_loads lib raw) (\<lambda>decoded. if is_obj decoded then Inr decoded else Inl TypeError))
      | _ \<Rightarrow> Inl ValueError)"

definition decode_options_for :: "string option \<Rightarrow> string option \<Rightarrow> decode_options" where
  "decode_options_for issuer audience =
     \<lparr>opt_algorithms = [''RS256'', ''RS384'', ''RS512'', ''ES256'', ''ES384'', ''ES512''],
      opt_require = [''exp'', ''iat''],
      opt_verify_aud = (audience \<noteq> None), opt_verify_iss = (issuer \<noteq> None),
      opt_audience = audience, opt_issuer = issuer\<rparr>"

definition verify_bearer_token :: "jwt_libs \<Rightarrow> environ \<Rightarrow> string \<Rightarrow> py_exc + json" where
  "verify_bearer_token lib env token =
     (if \<not> is_jwt_verify_enabled env then decode_unsigned_payload lib token
      else case get_jwks_url env of
          None \<Rightarrow> Inl (jwt_configuration_error ''OIDC_JWT_VERIFY is enabled but OIDC_JWKS_URL is not configured'')
        | Some url \<Rightarrow>
            (let issuer = get_jwt_issuer env; audience = get_jwt_audience env in
             if require_issuer_and_audience env \<and> (issuer = None \<or> audience = None)
             then Inl (jwt_configuration_error
               ''OIDC_JWT_ISSUER and OIDC_JWT_AUDIENCE are required when OIDC_JWT_REQUIRE_ISS_AUD=true'')
             else bind_exc (signing_key lib url token) (\<lambda>key.
                  bind_exc (jwt_decode lib token key (decode_options_for issuer audience)) (\<lambda>decoded.
                    if is_obj decoded then Inr decoded else Inl TypeError))))"

subsection \<open>The boundary\<close>

record Request =
  req_path :: string
  req_headers :: "(string, string) dict"
  req_claims :: "json option"
  req_auth_method :: "string option"

definition header :: "Request \<Rightarrow> string \<Rightarrow> string" where
  "header r name = get_default (req_headers r) name []"

definition PUBLIC_PATHS :: "string list" where
  "PUBLIC_PATHS = [''/health'', ''/healthz'', ''/livez'', ''/readyz'', ''/metrics'', ''/v1/runtime/jwks'']"

definition request_is_authorized :: "Request \<Rightarrow> string list \<Rightarrow> bool" where
  "request_is_authorized r api_keys =
     (let h = header r ''authorization'' in
      (startswith h ''Bearer '' \<and> strip (removeprefix h ''Bearer '') \<in> set api_keys)
      \<or> header r ''x-api-key'' \<in> set api_keys)"

definition bearer_token :: "Request \<Rightarrow> string" where
  "bearer_token r =
     (let h = header r ''authorization'' in if startswith (lower h) ''bearer '' then strip (drop 7 h) else [])"

text \<open>A JSON error response: status and body (\<open>json_error_response\<close>).\<close>

type_synonym response = "int \<times> obj"

definition json_error_response :: "int \<Rightarrow> string \<Rightarrow> string \<Rightarrow> string \<Rightarrow> string option \<Rightarrow> response" where
  "json_error_response status code msg ty rid = (status, error_body code msg ty rid [])"

text \<open>\<open>except (TypeError, ValueError, json.JSONDecodeError, jwt.PyJWTError)\<close>.\<close>

definition is_token_fault :: "py_exc \<Rightarrow> bool" where
  "is_token_fault e = (e \<in> {TypeError, ValueError, pyjwt_error})"

definition authenticated :: "string \<Rightarrow> json \<Rightarrow> Request \<Rightarrow> Request" where
  "authenticated meth claims r = r\<lparr>req_claims := Some claims, req_auth_method := Some meth\<rparr>"

definition authenticate_request ::
  "jwt_libs \<Rightarrow> environ \<Rightarrow> GatewaySettings \<Rightarrow> Request \<Rightarrow> (py_exc + response option) \<times> Request" where
  "authenticate_request lib env settings r =
     (if req_path r \<in> set PUBLIC_PATHS then (Inr None, r)
      else
        let rid = dict_get (req_headers r) ''x-request-id'' in
        if is_jwt_verify_enabled env \<or> jwt_verify_enabled settings then
          (let token = bearer_token r in
           if token = [] then
             (Inr (Some (json_error_response 401 ''missing_bearer_token''
                ''Bearer token required when OIDC_JWT_VERIFY is enabled'' ''authentication_error'' rid)), r)
           else case verify_bearer_token lib env token of
               Inr claims \<Rightarrow> (Inr None, authenticated ''jwt'' claims r)
             | Inl e \<Rightarrow>
                 if configuration_message e \<noteq> None then
                   (Inr (Some (json_error_response 503 ''jwt_misconfigured'' (the (configuration_message e))
                      ''authentication_error'' rid)), r)
                 else if is_token_fault e then
                   (Inr (Some (json_error_response 401 ''invalid_bearer_token'' ''Bearer token failed verification''
                      ''authentication_error'' rid)), r)
                 else (Inl e, r))
        else if settings_api_keys settings \<noteq> [] then
          (if \<not> request_is_authorized r (settings_api_keys settings) then
             (Inr (Some (json_error_response 401 ''invalid_api_key'' ''missing or invalid API key''
                ''authentication_error'' rid)), r)
           else (Inr None, authenticated ''api_key'' (JObj []) r))
        else if require_auth settings then
          (Inr (Some (json_error_response 401 ''authentication_required''
             ''authentication is required for this gateway profile'' ''authentication_error'' rid)), r)
        else (Inr None, authenticated ''none'' (JObj []) r))"

text \<open>The middleware: the request it forwards, or the response it answers itself.\<close>

definition auth_dispatch ::
  "jwt_libs \<Rightarrow> environ \<Rightarrow> GatewaySettings option \<Rightarrow> Request \<Rightarrow> py_exc + response + Request" where
  "auth_dispatch lib env settings r =
     (case settings of
        None \<Rightarrow>
          if req_path r \<in> set PUBLIC_PATHS then Inr (Inr r)
          else Inr (Inl (json_error_response 503 ''gateway_not_ready'' ''gateway settings are not loaded'' ''api_error'' None))
      | Some s \<Rightarrow>
          (case authenticate_request lib env s r of
             (Inl e, r') \<Rightarrow> Inl e
           | (Inr (Some resp), r') \<Rightarrow> Inr (Inl resp)
           | (Inr None, r') \<Rightarrow> Inr (Inr r')))"

subsection \<open>Lemmas\<close>

text \<open>What the library was asked when a token was accepted.\<close>

definition token_verified :: "jwt_libs \<Rightarrow> environ \<Rightarrow> string \<Rightarrow> json \<Rightarrow> bool" where
  "token_verified lib env token claims \<longleftrightarrow> is_obj claims \<and>
     (\<exists>url key. get_jwks_url env = Some url \<and> signing_key lib url token = Inr key
        \<and> jwt_decode lib token key (decode_options_for (get_jwt_issuer env) (get_jwt_audience env)) = Inr claims)"

lemma verify_enabled:
  "is_jwt_verify_enabled env \<Longrightarrow> verify_bearer_token lib env token = Inr claims \<Longrightarrow>
    token_verified lib env token claims
    \<and> (require_issuer_and_audience env \<longrightarrow> get_jwt_issuer env \<noteq> None \<and> get_jwt_audience env \<noteq> None)"
  by (auto simp: verify_bearer_token_def token_verified_def bind_exc_Inr_iff Let_def split: option.splits if_splits)

text \<open>
  C7: the boundary is as closed as it is configured. Of the requests to paths that are not public,
  the middleware forwards with token verification on only those whose non-empty bearer token
  \<open>jwt.decode\<close> accepted under the configured key set, with audience and issuer checked when
  configured, and attaches exactly the claims it returned; with token verification off and API
  keys configured only those that present one of the keys; with neither, none if authentication is
  required and otherwise, as in the default configuration, every one, marked as unauthenticated.
  Before the settings are loaded it forwards none. The settings agree with the environment on
  whether tokens are verified, as they do when they were loaded from it.
\<close>

theorem boundary_is_closed:
  assumes "auth_dispatch lib env settings r = Inr (Inr r')" and "req_path r \<notin> set PUBLIC_PATHS"
    and "\<forall>s. settings = Some s \<longrightarrow> jwt_verify_enabled s = is_jwt_verify_enabled env"
  shows "\<exists>s. settings = Some s \<and>
    (if is_jwt_verify_enabled env then
       \<exists>claims. bearer_token r \<noteq> [] \<and> token_verified lib env (bearer_token r) claims \<and> r' = authenticated ''jwt'' claims r
         \<and> (require_issuer_and_audience env \<longrightarrow>
             opt_verify_iss (decode_options_for (get_jwt_issuer env) (get_jwt_audience env))
             \<and> opt_verify_aud (decode_options_for (get_jwt_issuer env) (get_jwt_audience env)))
     else if settings_api_keys s \<noteq> [] then
       (\<exists>k\<in>set (settings_api_keys s). header r ''x-api-key'' = k \<or>
          startswith (header r ''authorization'') ''Bearer '' \<and> strip (removeprefix (header r ''authorization'') ''Bearer '') = k)
       \<and> r' = authenticated ''api_key'' (JObj []) r
     else \<not> require_auth s \<and> r' = authenticated ''none'' (JObj []) r)"
proof (cases settings)
  case None
  with assms show ?thesis by (simp add: auth_dispatch_def)
next
  case (Some s)
  with assms have a: "authenticate_request lib env s r = (Inr None, r')"
    by (auto simp: auth_dispatch_def split: prod.splits sum.splits option.splits)
  show ?thesis
  proof (cases "is_jwt_verify_enabled env")
    case True
    with a assms(2) obtain claims where "bearer_token r \<noteq> []" "verify_bearer_token lib env (bearer_token r) = Inr claims"
      "r' = authenticated ''jwt'' claims r"
      by (auto simp: authenticate_request_def Let_def split: if_splits sum.splits)
    with verify_enabled [OF True] True Some show ?thesis by (auto simp: decode_options_for_def)
  next
    case False
    with a assms(2,3) Some show ?thesis
      by (auto simp: authenticate_request_def request_is_authorized_def Let_def split: if_splits)
  qed
qed

definition demo_settings :: GatewaySettings where
  "demo_settings = \<lparr>model_targets = [], model_routes = [], timeout_seconds = FDec 120 0,
     health_interval_seconds = FDec 15 0, settings_api_keys = [''k1''], redis_url = None, gateway_replicas = 1,
     require_shared_state = False, gateway_profile = ''local'', jwt_verify_enabled = False,
     jwt_issuer = None, jwt_audience = None, require_jwt_iss_aud = False,
     control_plane_configured = False, require_auth = False, require_control_plane = False\<rparr>"

definition demo_request :: Request where
  "demo_request = \<lparr>req_path = ''/v1/models'', req_headers = [(''authorization'', ''Bearer  k1'')],
     req_claims = None, req_auth_method = None\<rparr>"

definition demo_jwt :: jwt_libs where
  "demo_jwt = \<lparr>signing_key = (\<lambda>u t. Inr ''key''), jwt_decode = (\<lambda>t k opts. Inr (JObj [(''sub'', JStr t)])),
     b64decode = (\<lambda>s. Inr s), jwt_loads = (\<lambda>s. Inr (JObj []))\<rparr>"

theorem boundary_is_closed_witness:
  "auth_dispatch demo_jwt (\<lambda>_. None) (Some demo_settings) demo_request
     = Inr (Inr (authenticated ''api_key'' (JObj []) demo_request))
   \<and> (\<exists>k\<in>set (settings_api_keys demo_settings). header demo_request ''x-api-key'' = k \<or>
          startswith (header demo_request ''authorization'') ''Bearer ''
          \<and> strip (removeprefix (header demo_request ''authorization'') ''Bearer '') = k)"
proof -
  have r: "auth_dispatch demo_jwt (\<lambda>_. None) (Some demo_settings) demo_request
     = Inr (Inr (authenticated ''api_key'' (JObj []) demo_request))" by code_simp
  have off: "\<not> is_jwt_verify_enabled (\<lambda>_. None)" by code_simp
  have "req_path demo_request \<notin> set PUBLIC_PATHS" by code_simp
  moreover have "\<forall>s. Some demo_settings = Some s \<longrightarrow> jwt_verify_enabled s = is_jwt_verify_enabled (\<lambda>_. None)"
    using off by (simp add: demo_settings_def)
  ultimately show ?thesis using boundary_is_closed [OF r] r off by (simp add: demo_settings_def)
qed

text \<open>
  Empty credentials never match. The key set read from the environment holds no empty key,
  so a request without an \<open>authorization\<close> and without an \<open>x-api-key\<close> header is not authorized,
  whatever \<open>GATEWAY_API_KEYS\<close> is.
\<close>

theorem missing_credentials_never_match:
  assumes "dict_get (req_headers r) ''authorization'' = None" and "dict_get (req_headers r) ''x-api-key'' = None"
  shows "\<not> request_is_authorized r (csv raw)"
  using assms by (simp add: request_is_authorized_def header_def get_default_def csv_def startswith_def)

theorem missing_credentials_never_match_witness:
  "\<not> request_is_authorized (demo_request\<lparr>req_headers := []\<rparr>) (csv '' , ,'')"
  by (rule missing_credentials_never_match) simp_all

end
