(* ===== verification/Access.thy ===== *)
theory Access imports Auth begin

text \<open>
  Who the caller is and what it may do: \<open>tenant_context.py\<close> (tenant from verified claims),
  \<open>tenant_policy.py\<close> (per-tenant limits and allowlists), \<open>rbac.py\<close> (coarse roles) and
  \<open>identity.py\<close> (workload identity for governance). \<open>rep\<close> prints floats, lists and dicts; the
  decoding of the tenant policy JSON is a parameter.
\<close>

subsection \<open>Claims\<close>

text \<open>Only a dictionary counts as claims.\<close>

definition claims_of :: "Request \<Rightarrow> obj" where
  "claims_of r = (case req_claims r of Some (JObj d) \<Rightarrow> d | _ \<Rightarrow> [])"

definition stripped_items :: "(json \<Rightarrow> string) \<Rightarrow> json list \<Rightarrow> string list" where
  "stripped_items rep xs = filter (\<lambda>x. x \<noteq> []) (map (\<lambda>x. strip (py_str rep x)) xs)"

definition context_groups :: "(json \<Rightarrow> string) \<Rightarrow> obj \<Rightarrow> string list" where
  "context_groups rep claims =
     (case py_or (py_or (jget claims ''groups'') (jget claims ''roles'')) (JArr []) of
        JStr s \<Rightarrow> csv s
      | JArr xs \<Rightarrow> stripped_items rep xs
      | _ \<Rightarrow> [])"

text \<open>The loop over the three tenant claims: the first with a printable, non-blank value.\<close>

definition tenant_claim :: "(json \<Rightarrow> string) \<Rightarrow> obj \<Rightarrow> string \<Rightarrow> string option" where
  "tenant_claim rep claims key =
     (let v = jget claims key in if v = JNull \<or> v = JStr [] then None else or_none (strip (py_str rep v)))"

fun first_some :: "('a \<Rightarrow> 'b option) \<Rightarrow> 'a list \<Rightarrow> 'b option" where
  "first_some f [] = None"
| "first_some f (x # xs) = (case f x of Some y \<Rightarrow> Some y | None \<Rightarrow> first_some f xs)"

definition resolve_tenant_id :: "(json \<Rightarrow> string) \<Rightarrow> environ \<Rightarrow> Request \<Rightarrow> string" where
  "resolve_tenant_id rep env r =
     (let claims = claims_of r in
      case first_some (tenant_claim rep claims) [''tenant_id'', ''tenant'', ''team''] of
        Some t \<Rightarrow> t
      | None \<Rightarrow>
          if is_jwt_verify_enabled env
          then ''user:'' @ py_str rep (py_or (py_or (jget claims ''sub'') (jget claims ''preferred_username'')) (JStr ''unknown''))
          else ''platform'')"

subsection \<open>Tenant policy\<close>

datatype RedisUnavailablePolicy = fail_closed | degraded | fail_open

definition default_redis_unavailable_policy :: "environ \<Rightarrow> RedisUnavailablePolicy" where
  "default_redis_unavailable_policy env =
     (let raw = lower (strip (getenv env ''ADMISSION_REDIS_UNAVAILABLE_POLICY'' ''fail_closed'')) in
      if raw \<in> {''fail_closed'', ''fail-closed'', ''closed''} then fail_closed
      else if raw \<in> {''degraded'', ''local'', ''fallback''} then degraded
      else if raw \<in> {''fail_open'', ''fail-open'', ''open''} then fail_open
      else fail_closed)"

record TenantRuntimePolicy =
  allowed_models :: "string list"
  allowed_routes :: "string list"
  max_concurrent_requests :: int
  max_queued_requests :: int
  redis_unavailable_policy :: RedisUnavailablePolicy

definition default_tenant_policy :: "environ \<Rightarrow> TenantRuntimePolicy" where
  "default_tenant_policy env =
     \<lparr>allowed_models = [], allowed_routes = [], max_concurrent_requests = 50, max_queued_requests = 100,
      redis_unavailable_policy = default_redis_unavailable_policy env\<rparr>"

record TenantPolicyBundle =
  bundle_tenants :: "(string, TenantRuntimePolicy) dict"
  bundle_default :: TenantRuntimePolicy
  auditor_groups :: "string list"

definition default_bundle :: "environ \<Rightarrow> TenantPolicyBundle" where
  "default_bundle env =
     \<lparr>bundle_tenants = [], bundle_default = default_tenant_policy env,
      auditor_groups = [''ai-auditors'', ''global-auditor'']\<rparr>"

definition for_tenant :: "TenantPolicyBundle \<Rightarrow> string \<Rightarrow> TenantRuntimePolicy" where
  "for_tenant b tenant_id = get_default (bundle_tenants b) tenant_id (bundle_default b)"

definition model_allowed :: "TenantPolicyBundle \<Rightarrow> string \<Rightarrow> string option \<Rightarrow> bool" where
  "model_allowed b tenant_id model =
     (let allowed = allowed_models (for_tenant b tenant_id) in
      allowed = [] \<or> (case model of None \<Rightarrow> [] | Some m \<Rightarrow> m) \<in> set allowed)"

definition route_allowed :: "TenantPolicyBundle \<Rightarrow> string \<Rightarrow> string option \<Rightarrow> bool" where
  "route_allowed b tenant_id route =
     (let allowed = allowed_routes (for_tenant b tenant_id) in
      allowed = [] \<or> (case route of None \<Rightarrow> True | Some x \<Rightarrow> x \<in> set allowed))"

text \<open>
  \<open>load_tenant_policy_bundle\<close>: the compact shape (a dictionary without \<open>tenants\<close>) is read as the
  table of tenants under default limits and auditors. \<open>"tenants" in data\<close> also holds for a list or
  a string that contains it and raises for numbers.
\<close>

definition load_tenant_policy_bundle ::
  "(string \<Rightarrow> py_exc + json) \<Rightarrow> (json \<Rightarrow> py_exc + (string, TenantRuntimePolicy) dict) \<Rightarrow> (json \<Rightarrow> py_exc + TenantPolicyBundle)
   \<Rightarrow> environ \<Rightarrow> py_exc + TenantPolicyBundle" where
  "load_tenant_policy_bundle loads decode_tenants decode_bundle env =
     (let raw = strip (getenv env ''TENANT_RUNTIME_POLICY'' []) in
      if raw = [] then Inr (default_bundle env)
      else bind_exc (loads raw) (\<lambda>data.
        case data of
          JObj d \<Rightarrow>
            if ''tenants'' \<notin> keys d
            then bind_exc (decode_tenants data) (\<lambda>ts. Inr ((default_bundle env)\<lparr>bundle_tenants := ts\<rparr>))
            else decode_bundle data
        | JArr xs \<Rightarrow> decode_bundle data
        | JStr s \<Rightarrow> decode_bundle data
        | _ \<Rightarrow> Inl TypeError))"

definition is_global_auditor :: "(json \<Rightarrow> string) \<Rightarrow> TenantPolicyBundle \<Rightarrow> Request \<Rightarrow> bool" where
  "is_global_auditor rep b r = (set (context_groups rep (claims_of r)) \<inter> set (auditor_groups b) \<noteq> {})"

subsection \<open>Roles\<close>

definition PLATFORM_ADMIN_ROLES :: "string list" where
  "PLATFORM_ADMIN_ROLES = [''platform-admin'', ''ai-platform-admins'']"

definition RUNTIME_SERVICE_ROLES :: "string list" where
  "RUNTIME_SERVICE_ROLES = [''runtime-service'', ''ai-runtime-service'']"

definition AUDITOR_ROLES :: "string list" where
  "AUDITOR_ROLES = [''ai-auditors'', ''global-auditor'', ''auditor'']"

definition STATUS_ROLES :: "string list" where
  "STATUS_ROLES = PLATFORM_ADMIN_ROLES @ RUNTIME_SERVICE_ROLES @ AUDITOR_ROLES"

definition VERIFY_ROLES :: "string list" where
  "VERIFY_ROLES = PLATFORM_ADMIN_ROLES @ RUNTIME_SERVICE_ROLES"

definition MCP_SERVERS_ROLES :: "string list" where
  "MCP_SERVERS_ROLES = PLATFORM_ADMIN_ROLES @ AUDITOR_ROLES"

definition rbac_normalize :: "(json \<Rightarrow> string) \<Rightarrow> json \<Rightarrow> string list" where
  "rbac_normalize rep v =
     (case v of JStr s \<Rightarrow> csv s | JArr xs \<Rightarrow> stripped_items rep xs | _ \<Rightarrow> [])"

definition identity_roles :: "(json \<Rightarrow> string) \<Rightarrow> Request \<Rightarrow> string list" where
  "identity_roles rep r =
     (let claims = claims_of r in
      rbac_normalize rep (jget claims ''groups'') @ rbac_normalize rep (jget claims ''roles'')
      @ (case jget claims ''realm_access'' of JObj realm \<Rightarrow> rbac_normalize rep (jget realm ''roles'') | _ \<Rightarrow> []))"

definition rbac_enforced :: "environ \<Rightarrow> bool" where
  "rbac_enforced env = (env_flag (getenv env ''GATEWAY_ENFORCE_RUNTIME_RBAC'' []) \<or> is_jwt_verify_enabled env)"

definition require_any_role ::
  "(json \<Rightarrow> string) \<Rightarrow> environ \<Rightarrow> Request \<Rightarrow> string list \<Rightarrow> HTTPException + unit" where
  "require_any_role rep env r allowed =
     (if \<not> rbac_enforced env then Inr ()
      else if set (identity_roles rep r) \<inter> set allowed \<noteq> {} then Inr ()
      else Inl \<lparr>he_status = 403,
             he_detail = JObj [(''error'', JObj [(''type'', JStr ''permission_error''),
               (''code'', JStr ''runtime_role_required''), (''message'', JStr ''caller lacks a required runtime role'')])],
             he_headers = []\<rparr>)"

subsection \<open>Workload identity\<close>

record WorkloadIdentity =
  subject :: string
  team :: string
  owner :: string
  groups :: "string list"
  policy_pack :: string
  environment :: string
  namespace :: string
  source :: string
  id_claims :: obj

record identity_defaults =
  default_owner :: string
  default_team :: string
  default_environment :: string
  default_namespace :: string

definition KNOWN_TEAMS :: "string list" where
  "KNOWN_TEAMS = [''platform'', ''finance'', ''search'']"

definition is_trusted_proxy_enabled :: "environ \<Rightarrow> bool" where
  "is_trusted_proxy_enabled env = env_flag (getenv env ''IDENTITY_TRUSTED_PROXY'' [])"

definition identity_groups :: "(json \<Rightarrow> string) \<Rightarrow> json \<Rightarrow> string list" where
  "identity_groups rep v = (case v of JArr xs \<Rightarrow> stripped_items rep xs | JStr s \<Rightarrow> csv s | _ \<Rightarrow> [])"

definition team_from_groups :: "string list \<Rightarrow> string \<Rightarrow> string" where
  "team_from_groups gs fallback = (case filter (\<lambda>g. g \<in> set KNOWN_TEAMS) gs of [] \<Rightarrow> fallback | g # _ \<Rightarrow> g)"

fun claim_bool :: "obj \<Rightarrow> string list \<Rightarrow> bool option" where
  "claim_bool claims [] = None"
| "claim_bool claims (k # ks) =
     (case dict_get claims k of
        None \<Rightarrow> claim_bool claims ks
      | Some (JBool b) \<Rightarrow> Some b
      | Some (JStr s) \<Rightarrow> Some (env_flag s)
      | Some v \<Rightarrow> claim_bool claims ks)"

definition claim_flag :: "WorkloadIdentity \<Rightarrow> string list \<Rightarrow> bool" where
  "claim_flag i ks = (claim_bool (id_claims i) ks = Some True)"

definition auth_http_error :: "int \<Rightarrow> string \<Rightarrow> string \<Rightarrow> HTTPException" where
  "auth_http_error status code msg =
     \<lparr>he_status = status,
      he_detail = JObj [(''error'', JObj [(''type'', JStr ''authentication_error''), (''code'', JStr code), (''message'', JStr msg)])],
      he_headers = []\<rparr>"

text \<open>
  \<open>extract_bearer_claims\<close>: an HTTP error, an exception that is not handled, or the claims. With
  verification off only \<open>TypeError\<close> and \<open>ValueError\<close> are swallowed.
\<close>

definition extract_bearer_claims ::
  "jwt_libs \<Rightarrow> environ \<Rightarrow> string \<Rightarrow> (py_exc + HTTPException) + json" where
  "extract_bearer_claims lib env authorization =
     (let token = (if startswith (lower authorization) ''bearer '' then strip (drop 7 authorization) else []) in
      if is_jwt_verify_enabled env then
        (if token = [] then
           Inl (Inr (auth_http_error 401 ''missing_bearer_token'' ''Bearer token required when OIDC_JWT_VERIFY is enabled''))
         else case verify_bearer_token lib env token of
             Inr claims \<Rightarrow> Inr claims
           | Inl e \<Rightarrow>
               if configuration_message e \<noteq> None
               then Inl (Inr (auth_http_error 503 ''jwt_misconfigured'' (the (configuration_message e))))
               else if is_token_fault e
               then Inl (Inr (auth_http_error 401 ''invalid_bearer_token'' ''Bearer token failed verification''))
               else Inl (Inl e))
      else if token = [] then Inr (JObj [])
      else case decode_unsigned_payload lib token of
          Inr claims \<Rightarrow> Inr claims
        | Inl e \<Rightarrow> if e \<in> {TypeError, ValueError} then Inr (JObj []) else Inl (Inl e))"

definition or_str :: "(json \<Rightarrow> string) \<Rightarrow> json \<Rightarrow> string" where
  "or_str rep v = strip (py_str rep (py_or v (JStr [])))"

fun first_nonempty :: "string list \<Rightarrow> string" where
  "first_nonempty [] = []"
| "first_nonempty [x] = x"
| "first_nonempty (x # xs) = (if x \<noteq> [] then x else first_nonempty xs)"

definition build_identity ::
  "(json \<Rightarrow> string) \<Rightarrow> bool \<Rightarrow> identity_defaults \<Rightarrow> Request \<Rightarrow> obj \<Rightarrow> WorkloadIdentity" where
  "build_identity rep allow_headers defs r claims =
     (let hdr = (\<lambda>name. if allow_headers then strip (header r name) else []);
          header_groups = (if allow_headers then csv (header r ''x-ai-groups'') else []);
          claim_groups = identity_groups rep (jget claims ''groups'');
          gs = (if claim_groups \<noteq> [] then claim_groups else header_groups)
      in \<lparr>subject = first_nonempty
            [or_str rep (py_or (jget claims ''sub'') (jget claims ''email'')), hdr ''x-ai-subject'', default_owner defs],
          team = first_nonempty
            [or_str rep (py_or (jget claims ''team'') (jget claims ''tenant'')), hdr ''x-ai-team'', hdr ''x-ai-tenant'',
             team_from_groups gs (default_team defs)],
          owner = first_nonempty
            [or_str rep (py_or (jget claims ''preferred_username'') (jget claims ''name'')), hdr ''x-ai-owner'', default_owner defs],
          groups = gs,
          policy_pack = first_nonempty [or_str rep (jget claims ''policy_pack''), hdr ''x-ai-policy-pack''],
          environment = first_nonempty
            [or_str rep (jget claims ''environment''), hdr ''x-ai-environment'', default_environment defs],
          namespace = first_nonempty
            [or_str rep (jget claims ''namespace''), hdr ''x-ai-namespace'', default_namespace defs],
          source = (if claims \<noteq> [] then ''jwt''
            else if allow_headers \<and> (\<exists>n\<in>set [''x-ai-subject'', ''x-ai-team'', ''x-ai-tenant'', ''x-ai-groups'']. header r n \<noteq> [])
            then ''headers'' else ''default''),
          id_claims = claims\<rparr>)"

text \<open>Claims the boundary already attached are used as they are; otherwise they are extracted and kept.\<close>

definition resolve_workload_identity ::
  "(json \<Rightarrow> string) \<Rightarrow> jwt_libs \<Rightarrow> environ \<Rightarrow> identity_defaults \<Rightarrow> Request
   \<Rightarrow> (py_exc + HTTPException) + WorkloadIdentity \<times> Request" where
  "resolve_workload_identity rep lib env defs r =
     (let allow_headers = is_trusted_proxy_enabled env \<and> \<not> is_jwt_verify_enabled env in
      case req_claims r of
        Some (JObj claims) \<Rightarrow> Inr (build_identity rep allow_headers defs r claims, r)
      | _ \<Rightarrow>
          bind_exc (extract_bearer_claims lib env (header r ''authorization'')) (\<lambda>claims.
            Inr (build_identity rep allow_headers defs r (obj_of claims), r\<lparr>req_claims := Some claims\<rparr>)))"

subsection \<open>Properties\<close>

lemma first_some_cong: "(\<And>x. x \<in> set xs \<Longrightarrow> f x = g x) \<Longrightarrow> first_some f xs = first_some g xs"
  by (induction xs) (auto split: option.split)

lemma verified_claims_obj:
  "is_jwt_verify_enabled env \<Longrightarrow> verify_bearer_token lib env token = Inr c \<Longrightarrow> is_obj c"
  by (auto dest: verify_enabled simp: token_verified_def)

text \<open>
  With token verification on, a caller cannot talk itself into an identity. Two requests that
  reach the handlers with the same verified claims have the same tenant, roles, auditor standing
  and workload identity, whatever other headers they carry and whether or not the trusted-proxy
  switch is set; and a tenant id is never empty.
\<close>

theorem verified_identity_ignores_headers:
  assumes "is_jwt_verify_enabled env" and "req_claims r1 = Some (JObj claims)" and "req_claims r2 = Some (JObj claims)"
  shows "resolve_tenant_id rep env r1 = resolve_tenant_id rep env r2
    \<and> resolve_tenant_id rep env r1 \<noteq> []
    \<and> require_any_role rep env r1 allowed = require_any_role rep env r2 allowed
    \<and> is_global_auditor rep b r1 = is_global_auditor rep b r2
    \<and> map_sum id fst (resolve_workload_identity rep lib env defs r1) = map_sum id fst (resolve_workload_identity rep lib env defs r2)"
proof -
  have ne: "tenant_claim rep claims k \<noteq> Some []" for k
    by (auto simp: tenant_claim_def or_none_def Let_def split: if_splits)
  have "build_identity rep False defs r1 claims = build_identity rep False defs r2 claims"
    by (simp add: build_identity_def)
  with assms ne show ?thesis
    by (auto simp: resolve_tenant_id_def claims_of_def require_any_role_def identity_roles_def is_global_auditor_def
        resolve_workload_identity_def Let_def split: option.splits)
qed

definition alice_claims :: obj where
  "alice_claims = [(''sub'', JStr ''alice''), (''tenant_id'', JStr '' finance ''), (''groups'', JArr [JStr ''ai-auditors''])]"

definition jwt_env :: environ where
  "jwt_env = map_of [(''OIDC_JWT_VERIFY'', ''true''), (''IDENTITY_TRUSTED_PROXY'', ''true'')]"

theorem verified_identity_ignores_headers_witness:
  "resolve_tenant_id (\<lambda>_. []) jwt_env (demo_request\<lparr>req_claims := Some (JObj alice_claims)\<rparr>) = ''finance''
   \<and> resolve_tenant_id (\<lambda>_. []) jwt_env (demo_request\<lparr>req_claims := Some (JObj alice_claims)\<rparr>) =
     resolve_tenant_id (\<lambda>_. []) jwt_env (demo_request\<lparr>req_claims := Some (JObj alice_claims), req_headers := [(''x-ai-tenant'', ''hr'')]\<rparr>)"
proof -
  have "is_jwt_verify_enabled jwt_env" by code_simp
  moreover have "resolve_tenant_id (\<lambda>_. []) jwt_env (demo_request\<lparr>req_claims := Some (JObj alice_claims)\<rparr>) = ''finance''"
    by code_simp
  ultimately show ?thesis
    using verified_identity_ignores_headers [of jwt_env "demo_request\<lparr>req_claims := Some (JObj alice_claims)\<rparr>" alice_claims
        "demo_request\<lparr>req_claims := Some (JObj alice_claims), req_headers := [(''x-ai-tenant'', ''hr'')]\<rparr>"] by simp
qed

text \<open>
  Extraction of an identity fails closed. With verification on, a request whose claims were
  not attached yields an identity only from a bearer token that \<open>jwt.decode\<close> accepted; a missing,
  malformed or rejected token is an HTTP error (401, or 503 when verification is misconfigured),
  never the default identity.
\<close>

theorem identity_extraction_fails_closed:
  assumes "is_jwt_verify_enabled env" and "req_claims r = None"
  shows "case resolve_workload_identity rep lib env defs r of
      Inr (i, r') \<Rightarrow> (\<exists>token claims. token \<noteq> [] \<and> token_verified lib env token claims
          \<and> id_claims i = obj_of claims \<and> req_claims r' = Some claims)
    | Inl (Inr e) \<Rightarrow> he_status e = 401 \<or> he_status e = 503
    | Inl (Inl e) \<Rightarrow> \<not> is_token_fault e \<and> configuration_message e = None"
proof -
  let ?h = "header r ''authorization''"
  let ?token = "if startswith (lower ?h) ''bearer '' then strip (drop 7 ?h) else []"
  show ?thesis
  proof (cases "?token = []")
    case True
    with assms show ?thesis
      by (auto simp: resolve_workload_identity_def extract_bearer_claims_def Let_def auth_http_error_def split: if_splits)
  next
    case False
    then have tk: "startswith (lower ?h) ''bearer ''" "strip (drop 7 ?h) \<noteq> []" by (auto split: if_splits)
    show ?thesis
    proof (cases "verify_bearer_token lib env (strip (drop 7 ?h))")
      case (Inl e)
      with assms tk show ?thesis
        by (auto simp: resolve_workload_identity_def extract_bearer_claims_def Let_def auth_http_error_def)
    next
      case (Inr claims)
      with verify_enabled [OF assms(1) Inr] assms tk show ?thesis
        by (auto simp: resolve_workload_identity_def extract_bearer_claims_def Let_def build_identity_def)
    qed
  qed
qed

theorem identity_extraction_fails_closed_witness:
  "case resolve_workload_identity (\<lambda>_. []) demo_jwt jwt_env
     \<lparr>default_owner = ''o'', default_team = ''t'', default_environment = ''e'', default_namespace = ''n''\<rparr> (demo_request\<lparr>req_headers := []\<rparr>) of
     Inl (Inr e) \<Rightarrow> he_status e = 401 \<or> he_status e = 503 | _ \<Rightarrow> False"
proof -
  let ?r = "resolve_workload_identity (\<lambda>_. []) demo_jwt jwt_env
     \<lparr>default_owner = ''o'', default_team = ''t'', default_environment = ''e'', default_namespace = ''n''\<rparr> (demo_request\<lparr>req_headers := []\<rparr>)"
  have "is_jwt_verify_enabled jwt_env" by code_simp
  moreover have "(case ?r of Inl (Inr e) \<Rightarrow> True | _ \<Rightarrow> False)" by code_simp
  ultimately show ?thesis
    using identity_extraction_fails_closed [where env = jwt_env and r = "demo_request\<lparr>req_headers := []\<rparr>" and rep = "\<lambda>_. []" and lib = demo_jwt
        and defs = "\<lparr>default_owner = ''o'', default_team = ''t'', default_environment = ''e'', default_namespace = ''n''\<rparr>"]
    by (simp add: demo_request_def split: sum.splits)
qed

end
