(* ===== verification/Digest.thy ===== *)
theory Digest imports Py_Values "HOL-Library.Multiset" "HOL-Library.List_Lexorder" "HOL-Library.Char_ord" begin

text \<open>
  \<open>app/gateway/request_digest.py\<close> and \<open>app/gateway/decision_replay.py\<close>: the canonical digest that
  binds an approval to a request, and the single-use cache of decision tokens (in the process;
  the one in Redis is \<open>Replay_Redis\<close>). Canonical JSON and SHA-256 are parameters.
\<close>

subsection \<open>Request digest\<close>

definition BINDING_FIELDS :: "string list" where
  "BINDING_FIELDS =
     [''subject'', ''groups'', ''policy_pack'', ''team'', ''tenant_id'', ''owner'', ''environment'', ''namespace'',
      ''action'', ''model'', ''provider'', ''input_tokens'', ''output_tokens'', ''cost_per_request_usd'',
      ''cost_per_hour_usd'', ''month_to_date_cost_usd'', ''forecast_monthly_cost_usd'', ''sensitive_data'',
      ''tool_access'', ''write_permission'', ''model_revision'', ''model_artifact_digest'', ''agent'', ''region'']"

text \<open>\<open>for item in (value or [])\<close>: the items of a list, the characters of a string, the keys of a dict.\<close>

fun iter_items :: "json \<Rightarrow> py_exc + json list" where
  "iter_items (JArr xs) = Inr xs"
| "iter_items (JStr s) = Inr (map (\<lambda>c. JStr [c]) s)"
| "iter_items (JObj d) = Inr (map (\<lambda>p. JStr (fst p)) d)"
| "iter_items _ = Inl TypeError"

definition binding_value_of :: "(json \<Rightarrow> string) \<Rightarrow> obj \<Rightarrow> string \<Rightarrow> py_exc + json" where
  "binding_value_of rep request key =
     (let value = jget request key in
      if key = ''groups'' then
        bind_exc (iter_items (py_or value (JArr []))) (\<lambda>items. Inr (JArr (map JStr (sort (map (py_str rep) items)))))
      else if key = ''tenant_id'' then
        Inr (JStr (py_str rep (py_or (py_or value (jget request ''team'')) (JStr []))))
      else (case value of JNull \<Rightarrow> Inr (JStr []) | v \<Rightarrow> Inr v))"

fun binding_fields :: "(json \<Rightarrow> string) \<Rightarrow> obj \<Rightarrow> string list \<Rightarrow> py_exc + obj" where
  "binding_fields rep request [] = Inr []"
| "binding_fields rep request (k # ks) =
     bind_exc (binding_value_of rep request k) (\<lambda>v. bind_exc (binding_fields rep request ks) (\<lambda>d. Inr ((k, v) # d)))"

definition binding_payload :: "(json \<Rightarrow> string) \<Rightarrow> obj \<Rightarrow> py_exc + obj" where
  "binding_payload rep request = binding_fields rep request BINDING_FIELDS"

record digest_env =
  dumps :: "obj \<Rightarrow> string"
  digest_sha :: "string \<Rightarrow> string"
  rep_json :: "json \<Rightarrow> string"

definition compute_request_digest :: "digest_env \<Rightarrow> obj \<Rightarrow> py_exc + string" where
  "compute_request_digest env request =
     bind_exc (binding_payload (rep_json env) request) (\<lambda>p. Inr (digest_sha env (dumps env p)))"

lemma binding_fields_get:
  "binding_fields rep request ks = Inr d \<Longrightarrow> k \<in> set ks \<Longrightarrow>
    \<exists>v. binding_value_of rep request k = Inr v \<and> dict_get d k = Some v"
proof (induction ks arbitrary: d)
  case Nil
  then show ?case by simp
next
  case (Cons x ks)
  then obtain v d' where "binding_value_of rep request x = Inr v" "binding_fields rep request ks = Inr d'" "d = (x, v) # d'"
    by (auto simp: bind_exc_Inr_iff)
  with Cons show ?case by auto
qed

lemma binding_fields_cong:
  "(\<And>k. k \<in> set ks \<Longrightarrow> binding_value_of rep r1 k = binding_value_of rep r2 k) \<Longrightarrow>
    binding_fields rep r1 ks = binding_fields rep r2 ks"
  by (induction ks) auto

lemma binding_fields_agree:
  "binding_payload rep r1 = Inr d \<Longrightarrow> binding_payload rep r2 = Inr d \<Longrightarrow> k \<in> set BINDING_FIELDS \<Longrightarrow>
    binding_value_of rep r1 k = binding_value_of rep r2 k"
  using binding_fields_get unfolding binding_payload_def by (metis option.inject)

definition same_binding :: "obj \<Rightarrow> obj \<Rightarrow> bool" where
  "same_binding r1 r2 \<longleftrightarrow>
     (\<forall>f\<in>set BINDING_FIELDS. f \<noteq> ''groups'' \<longrightarrow> jget r1 f = jget r2 f)
     \<and> (jget r1 ''groups'' = jget r2 ''groups''
        \<or> (\<exists>gs gs'. jget r1 ''groups'' = JArr gs \<and> jget r2 ''groups'' = JArr gs' \<and> mset gs = mset gs'))"

lemma same_binding_payload:
  assumes "same_binding r1 r2"
  shows "binding_payload rep r1 = binding_payload rep r2"
proof -
  have other: "jget r1 f = jget r2 f" if "f \<in> set BINDING_FIELDS" "f \<noteq> ''groups''" for f
    using assms that by (auto simp: same_binding_def)
  have team: "jget r1 ''team'' = jget r2 ''team''" by (rule other) (simp_all add: BINDING_FIELDS_def)
  have groups: "binding_value_of rep r1 ''groups'' = binding_value_of rep r2 ''groups''"
  proof (cases "jget r1 ''groups'' = jget r2 ''groups''")
    case True
    then show ?thesis by (simp add: binding_value_of_def)
  next
    case False
    then obtain gs gs' where gs: "jget r1 ''groups'' = JArr gs" "jget r2 ''groups'' = JArr gs'" "mset gs = mset gs'"
      using assms by (auto simp: same_binding_def)
    have "(gs = []) = (gs' = [])" using gs(3) by (metis mset_zero_iff mset.simps(1))
    moreover have "sort (map (py_str rep) gs) = sort (map (py_str rep) gs')"
      using gs(3) by (intro properties_for_sort) (simp_all add: mset_map)
    ultimately show ?thesis using gs by (simp add: binding_value_of_def py_or_def)
  qed
  have "binding_value_of rep r1 f = binding_value_of rep r2 f" if "f \<in> set BINDING_FIELDS" for f
    using other [OF that] team groups by (cases "f = ''groups''") (simp_all add: binding_value_of_def Let_def)
  then show ?thesis unfolding binding_payload_def by (rule binding_fields_cong)
qed

text \<open>
  The digest binds exactly the approval fields. Two requests whose payloads do not collide
  under the hash and that have the same digest agree on the normalized value of every binding
  field (so an approval of one cannot be spent on a request with another model, tenant, subject,
  token count or cost); and requests that agree on the binding fields, whatever else they carry
  and in whatever order they list their groups, have the same digest.
\<close>

theorem digest_binds_request:
  assumes "\<And>d1 d2. binding_payload (rep_json env) r1 = Inr d1 \<Longrightarrow> binding_payload (rep_json env) r2 = Inr d2 \<Longrightarrow>
      digest_sha env (dumps env d1) = digest_sha env (dumps env d2) \<Longrightarrow> d1 = d2"
  shows "(\<forall>h. compute_request_digest env r1 = Inr h \<and> compute_request_digest env r2 = Inr h \<longrightarrow>
      (\<forall>k\<in>set BINDING_FIELDS. binding_value_of (rep_json env) r1 k = binding_value_of (rep_json env) r2 k))
    \<and> (same_binding r1 r2 \<longrightarrow> compute_request_digest env r1 = compute_request_digest env r2)"
proof (intro conjI allI impI)
  fix h
  assume "compute_request_digest env r1 = Inr h \<and> compute_request_digest env r2 = Inr h"
  then obtain d1 d2 where d: "binding_payload (rep_json env) r1 = Inr d1" "binding_payload (rep_json env) r2 = Inr d2"
    "digest_sha env (dumps env d1) = digest_sha env (dumps env d2)"
    by (auto simp: compute_request_digest_def bind_exc_Inr_iff)
  from assms [OF d] d(1,2) show "\<forall>k\<in>set BINDING_FIELDS. binding_value_of (rep_json env) r1 k = binding_value_of (rep_json env) r2 k"
    using binding_fields_agree by blast
next
  assume "same_binding r1 r2"
  then show "compute_request_digest env r1 = compute_request_digest env r2"
    by (simp add: compute_request_digest_def same_binding_payload)
qed

definition demo_digest :: digest_env where
  "demo_digest = \<lparr>dumps = (\<lambda>d. concat (map (\<lambda>(k, v). k @ (case v of JStr s \<Rightarrow> s | _ \<Rightarrow> [])) d)), digest_sha = rev, rep_json = (\<lambda>_. [])\<rparr>"

theorem digest_binds_request_witness:
  "compute_request_digest demo_digest [(''team'', JStr ''finance''), (''groups'', JArr [JStr ''b'', JStr ''a'']), (''tokens_today'', JInt 5)]
   = compute_request_digest demo_digest [(''team'', JStr ''finance''), (''groups'', JArr [JStr ''a'', JStr ''b''])]"
proof -
  let ?r1 = "[(''team'', JStr ''finance''), (''groups'', JArr [JStr ''b'', JStr ''a'']), (''tokens_today'', JInt 5)]"
  let ?r2 = "[(''team'', JStr ''finance''), (''groups'', JArr [JStr ''a'', JStr ''b''])]"
  have same: "same_binding ?r1 ?r2" by (simp add: same_binding_def BINDING_FIELDS_def jget_def get_default_def)
  then show ?thesis
    using digest_binds_request [of demo_digest ?r1 ?r2] same_binding_payload [OF same] by simp
qed

subsection \<open>Replay cache\<close>

definition replay_protection_enabled :: "(string \<Rightarrow> string option) \<Rightarrow> bool" where
  "replay_protection_enabled env =
     env_flag (case env ''GATEWAY_DECISION_REPLAY_PROTECTION'' of None \<Rightarrow> ''true'' | Some v \<Rightarrow> v)"

definition derive_jti :: "(json \<Rightarrow> string) \<Rightarrow> (string \<Rightarrow> string) \<Rightarrow> obj \<Rightarrow> string \<Rightarrow> string" where
  "derive_jti rep sha claims token =
     (let text = (\<lambda>k. strip (py_str rep (py_or (jget claims k) (JStr []))))
      in if text ''jti'' \<noteq> [] then text ''jti''
         else if text ''decision_id'' \<noteq> [] then text ''decision_id'' else sha token)"

definition binding_value :: "string \<Rightarrow> string \<Rightarrow> string" where
  "binding_value tenant request_digest = tenant @ ''|'' @ request_digest"

text \<open>The cache of the in-memory store: token id to binding and expiry (monotonic seconds).\<close>

type_synonym replay_cache = "(string, string \<times> rat) dict"

definition drop_expired :: "rat \<Rightarrow> replay_cache \<Rightarrow> replay_cache" where
  "drop_expired now cache = filter (\<lambda>(k, b, ex). now < ex) cache"

definition replay_consume ::
  "string \<Rightarrow> string \<Rightarrow> string \<Rightarrow> int \<Rightarrow> rat \<Rightarrow> replay_cache \<Rightarrow> bool \<times> replay_cache" where
  "replay_consume jti tenant request_digest ttl now cache =
     (let cache = drop_expired now cache in
      case dict_get cache jti of
        Some x \<Rightarrow> (False, cache)
      | None \<Rightarrow> (True, dict_set jti (binding_value tenant request_digest, now + of_int (max 1 ttl)) cache))"

definition verify_token_binding :: "string \<Rightarrow> string \<Rightarrow> string \<Rightarrow> string \<Rightarrow> bool" where
  "verify_token_binding token_tenant token_digest expected_tenant expected_digest =
     ((token_tenant = [] \<or> expected_tenant = [] \<or> token_tenant = expected_tenant)
      \<and> (token_digest = [] \<or> expected_digest = [] \<or> token_digest = expected_digest))"

text \<open>
  The interface the signed-decision check relies on: a store that remembers a consumed id until
  its time is over, whatever else is consumed, and refuses it as long as it remembers.
\<close>

locale replay_backend =
  fixes consume :: "string \<Rightarrow> string \<Rightarrow> string \<Rightarrow> int \<Rightarrow> rat \<Rightarrow> 's \<Rightarrow> bool \<times> 's"
    and used_until :: "string \<Rightarrow> rat \<Rightarrow> 's \<Rightarrow> bool"
    and ok :: "'s \<Rightarrow> bool"
  assumes consume_ok: "ok s \<Longrightarrow> ok (snd (consume j t d ttl now s))"
    and accept_marks: "ok s \<Longrightarrow> fst (consume j t d ttl now s) \<Longrightarrow> used_until j (now + of_int (max 1 ttl)) (snd (consume j t d ttl now s))"
    and mark_refuses: "ok s \<Longrightarrow> used_until j e s \<Longrightarrow> now < e \<Longrightarrow> \<not> fst (consume j t d ttl now s)"
    and mark_stays: "ok s \<Longrightarrow> used_until j e s \<Longrightarrow> now < e \<Longrightarrow> used_until j e (snd (consume j' t d ttl now s))"
begin

type_synonym consume_event = "string \<times> string \<times> string \<times> int \<times> rat"

fun consume_run :: "consume_event list \<Rightarrow> 's \<Rightarrow> 's" where
  "consume_run [] s = s"
| "consume_run ((j, t, d, ttl, now) # es) s = consume_run es (snd (consume j t d ttl now s))"

lemma run_keeps_mark:
  "ok s \<Longrightarrow> used_until j e s \<Longrightarrow> \<forall>(j', t, d, ttl, now)\<in>set es. now < e \<Longrightarrow>
    ok (consume_run es s) \<and> used_until j e (consume_run es s)"
proof (induction es arbitrary: s)
  case Nil
  then show ?case by simp
next
  case (Cons x es)
  obtain j' t d ttl now where x: "x = (j', t, d, ttl, now)" by (cases x)
  with Cons.prems have "now < e" by simp
  with Cons.prems have "ok (snd (consume j' t d ttl now s))" "used_until j e (snd (consume j' t d ttl now s))"
    by (simp_all add: consume_ok mark_stays)
  with Cons x show ?case by simp
qed

lemma accepted_once:
  assumes "ok s" and "fst (consume j t d ttl now s)"
    and "\<forall>(j', t', d', ttl', u)\<in>set es. u < now + of_int (max 1 ttl)" and "later < now + of_int (max 1 ttl)"
  shows "\<not> fst (consume j t2 d2 ttl2 later (consume_run es (snd (consume j t d ttl now s))))"
  using run_keeps_mark [OF consume_ok [OF assms(1)] accept_marks [OF assms(1,2)] assms(3)] assms(4)
  by (auto dest: mark_refuses)

end

definition used_until :: "string \<Rightarrow> rat \<Rightarrow> replay_cache \<Rightarrow> bool" where
  "used_until j e cache \<longleftrightarrow> (\<exists>b. dict_get cache j = Some (b, e))"

lemma drop_expired_get:
  "dict_ok cache \<Longrightarrow> dict_get cache j = Some (b, e) \<Longrightarrow> now < e \<Longrightarrow> dict_get (drop_expired now cache) j = Some (b, e)"
  by (auto simp: drop_expired_def map_of_eq_Some_iff distinct_map_filter)

lemma drop_expired_ok: "dict_ok cache \<Longrightarrow> dict_ok (drop_expired now cache)"
  by (simp add: drop_expired_def distinct_map_filter)

interpretation mem_replay: replay_backend replay_consume used_until "\<lambda>cache. dict_ok cache"
proof (unfold_locales, goal_cases)
  case (1 s j t d ttl now)
  then show ?case by (auto simp: replay_consume_def Let_def drop_expired_ok split: option.split)
next
  case (2 s j t d ttl now)
  then show ?case by (auto simp: replay_consume_def Let_def used_until_def dict_simps split: option.splits)
next
  case (3 s j e now t d ttl)
  then show ?case by (auto simp: replay_consume_def Let_def used_until_def drop_expired_get)
next
  case (4 s j e now j' t d ttl)
  then obtain b where "dict_get (drop_expired now s) j = Some (b, e)"
    by (auto simp: used_until_def drop_expired_get)
  then show ?case by (auto simp: replay_consume_def Let_def used_until_def dict_simps split: option.splits)
qed

text \<open>
  A decision token is accepted at most once. After the in-memory cache has accepted an id,
  every later attempt with the same id within its lifetime is refused, whatever tenant or digest
  it names and whatever other tokens were consumed in between.
\<close>

lemma token_accepted_once_lemma:
  assumes "dict_ok cache" and "fst (replay_consume j t d ttl now cache)"
    and "\<forall>(j', t', d', ttl', u)\<in>set es. u < now + of_int (max 1 ttl)" and "later < now + of_int (max 1 ttl)"
  shows "\<not> fst (replay_consume j t2 d2 ttl2 later
    (fold (\<lambda>(j', t', d', ttl', u) c. snd (replay_consume j' t' d' ttl' u c)) es (snd (replay_consume j t d ttl now cache))))"
proof -
  have "fold (\<lambda>(j', t', d', ttl', u) c. snd (replay_consume j' t' d' ttl' u c)) es s = mem_replay.consume_run es s" for s
    by (induction es arbitrary: s) auto
  then show ?thesis using mem_replay.accepted_once [OF assms] by simp
qed

end
