(* ===== verification/Governance.thy ===== *)
theory Governance imports Access Digest begin

text \<open>
  Runtime enforcement of control-plane decisions: \<open>evidence.py\<close> (provenance headers),
  \<open>governance.py\<close> (what is sent to the control plane and what its verdict does) and
  \<open>decision_token.py\<close> (the signed decision that binds the verdict to the request). The control
  plane, the JWKS client and \<open>jwt.decode\<close> are parameters. The replay cache is the in-memory store.
\<close>

subsection \<open>Evidence\<close>

record EnforcementEvidence =
  ev_decision_id :: "string option"
  ev_approval_id :: "string option"
  ev_policy_bundle_id :: "string option"
  ev_policy_digest :: "string option"
  ev_request_digest :: "string option"
  ev_control_plane_version :: "string option"
  ev_runtime_version :: "string option"
  ev_outcome :: "string option"

definition runtime_version :: "environ \<Rightarrow> string option \<Rightarrow> string" where
  "runtime_version env package_version =
     (let override = strip (getenv env ''GATEWAY_RUNTIME_VERSION'' []) in
      if override \<noteq> [] then override else case package_version of Some v \<Rightarrow> v | None \<Rightarrow> ''0.0.0-dev'')"

definition opt_str :: "(json \<Rightarrow> string) \<Rightarrow> json \<Rightarrow> string option" where
  "opt_str rep v = (if py_bool v then Some (py_str rep v) else None)"

definition evidence_from_governance ::
  "(json \<Rightarrow> string) \<Rightarrow> string \<Rightarrow> obj option \<Rightarrow> string \<Rightarrow> EnforcementEvidence" where
  "evidence_from_governance rep version result outcome =
     (case result of
        Some r \<Rightarrow>
          if r = [] then \<lparr>ev_decision_id = None, ev_approval_id = None, ev_policy_bundle_id = None, ev_policy_digest = None,
            ev_request_digest = None, ev_control_plane_version = None, ev_runtime_version = Some version, ev_outcome = Some outcome\<rparr>
          else \<lparr>ev_decision_id = opt_str rep (py_or (jget r ''decision_id'') (jget r ''control_plane_decision_id'')),
            ev_approval_id = opt_str rep (jget r ''approval_id''),
            ev_policy_bundle_id = opt_str rep (jget r ''policy_bundle_id''),
            ev_policy_digest = opt_str rep (jget r ''policy_digest''),
            ev_request_digest = opt_str rep (jget r ''request_digest''),
            ev_control_plane_version = opt_str rep (jget r ''control_plane_version''),
            ev_runtime_version = Some version, ev_outcome = Some outcome\<rparr>
      | None \<Rightarrow> \<lparr>ev_decision_id = None, ev_approval_id = None, ev_policy_bundle_id = None, ev_policy_digest = None,
            ev_request_digest = None, ev_control_plane_version = None, ev_runtime_version = Some version, ev_outcome = Some outcome\<rparr>)"

definition set_opt :: "string \<Rightarrow> string option \<Rightarrow> (string, string) dict \<Rightarrow> (string, string) dict" where
  "set_opt k v headers = (case v of Some x \<Rightarrow> if x \<noteq> [] then dict_set k x headers else headers | None \<Rightarrow> headers)"

definition apply_evidence_headers ::
  "string \<Rightarrow> EnforcementEvidence option \<Rightarrow> (string, string) dict \<Rightarrow> (string, string) dict" where
  "apply_evidence_headers version evidence headers =
     (case evidence of
        None \<Rightarrow> dict_set ''x-ai-runtime-version'' version headers
      | Some e \<Rightarrow>
          set_opt ''x-ai-approval-id'' (ev_approval_id e)
         (set_opt ''x-ai-request-digest'' (ev_request_digest e)
         (set_opt ''x-ai-policy-digest'' (ev_policy_digest e)
         (set_opt ''x-ai-policy-bundle-id'' (ev_policy_bundle_id e)
         (set_opt ''x-ai-decision-id'' (ev_decision_id e)
         (set_opt ''x-ai-control-decision-id'' (ev_decision_id e)
         (dict_set ''x-ai-runtime-version''
            (case ev_runtime_version e of Some v \<Rightarrow> str_or v version | None \<Rightarrow> version) headers)))))))"

subsection \<open>Configuration\<close>

datatype GovernanceMode = enforce_mode | disabled_mode

record GovernanceConfig =
  gc_control_plane_url :: string
  gc_enabled :: bool
  gc_fail_open :: bool
  gc_timeout_seconds :: pyfloat
  gc_defaults :: identity_defaults
  gc_default_provider :: string
  gc_default_action :: string
  gc_cost_per_hour_usd :: pyfloat
  gc_month_to_date_cost_usd :: pyfloat
  gc_forecast_monthly_cost_usd :: pyfloat
  gc_mode :: GovernanceMode

definition misconfigured :: "GovernanceConfig \<Rightarrow> bool" where
  "misconfigured c = (gc_mode c = enforce_mode \<and> gc_control_plane_url c = [])"

definition governance_from_environment ::
  "(string \<Rightarrow> py_exc + pyfloat) \<Rightarrow> environ \<Rightarrow> py_exc + GovernanceConfig" where
  "governance_from_environment parse_float env =
     (let raw_mode = str_or (lower (strip (getenv env ''GOVERNANCE_MODE'' ''enforce''))) ''enforce'' in
      if raw_mode \<notin> {''enforce'', ''disabled''} then Inl ValueError
      else
        bind_exc (parse_float (getenv env ''GOVERNANCE_TIMEOUT_SECONDS'' ''2.0'')) (\<lambda>timeout.
        bind_exc (parse_float (getenv env ''GOVERNANCE_DEFAULT_COST_PER_HOUR_USD'' ''0.18'')) (\<lambda>per_hour.
        bind_exc (parse_float (getenv env ''GOVERNANCE_DEFAULT_MONTH_TO_DATE_COST_USD'' ''100'')) (\<lambda>month.
        bind_exc (parse_float (getenv env ''GOVERNANCE_DEFAULT_FORECAST_MONTHLY_COST_USD'' ''400'')) (\<lambda>forecast.
          Inr \<lparr>gc_control_plane_url = rstrip_char (CHR ''/'') (strip (getenv env ''CONTROL_PLANE_URL'' [])),
               gc_enabled = (if raw_mode = ''disabled'' then False else env_flag (getenv env ''GOVERNANCE_ENFORCEMENT'' ''true'')),
               gc_fail_open = env_flag (getenv env ''GOVERNANCE_FAIL_OPEN'' ''false''),
               gc_timeout_seconds = timeout,
               gc_defaults = \<lparr>default_owner = getenv env ''GOVERNANCE_DEFAULT_OWNER'' ''gateway'',
                 default_team = getenv env ''GOVERNANCE_DEFAULT_TEAM'' ''platform'',
                 default_environment = getenv env ''GOVERNANCE_DEFAULT_ENVIRONMENT'' ''development'',
                 default_namespace = getenv env ''GOVERNANCE_DEFAULT_NAMESPACE'' ''ai-dev''\<rparr>,
               gc_default_provider = getenv env ''GOVERNANCE_DEFAULT_PROVIDER'' ''ollama'',
               gc_default_action = getenv env ''GOVERNANCE_DEFAULT_ACTION'' ''invoke_model'',
               gc_cost_per_hour_usd = per_hour, gc_month_to_date_cost_usd = month,
               gc_forecast_monthly_cost_usd = forecast,
               gc_mode = (if raw_mode = ''disabled'' then disabled_mode else enforce_mode)\<rparr>)))))"

subsection \<open>The request to the control plane\<close>

text \<open>The texts of a message list: string contents and the \<open>text\<close> of content parts.\<close>

definition part_text :: "json \<Rightarrow> string list" where
  "part_text part = (case part of JObj p \<Rightarrow> (case jget p ''text'' of JStr t \<Rightarrow> [t] | _ \<Rightarrow> []) | _ \<Rightarrow> [])"

definition message_texts :: "json \<Rightarrow> string list" where
  "message_texts msg =
     (case msg of
        JObj m \<Rightarrow> (case jget m ''content'' of JStr s \<Rightarrow> [s] | JArr parts \<Rightarrow> concat (map part_text parts) | _ \<Rightarrow> [])
      | _ \<Rightarrow> [])"

definition estimate_tokens :: "obj \<Rightarrow> py_exc + int \<times> int" where
  "estimate_tokens payload =
     (case jget payload ''messages'' of
        JArr messages \<Rightarrow>
          (let prompt_chars = int (length (concat (concat (map message_texts messages))));
               input_tokens = max 1 (prompt_chars div 4)
           in bind_exc (py_int (py_or (jget payload ''max_tokens'') (JInt (min input_tokens 512))))
                (\<lambda>out. Inr (input_tokens, out)))
      | _ \<Rightarrow> bind_exc (py_int (py_or (jget payload ''max_tokens'') (JInt 0))) (\<lambda>out. Inr (0, out)))"

fun join_with :: "char \<Rightarrow> string list \<Rightarrow> string" where
  "join_with c [] = []"
| "join_with c [x] = x"
| "join_with c (x # xs) = x @ c # join_with c xs"

definition extract_prompt_text :: "(json \<Rightarrow> string) \<Rightarrow> obj \<Rightarrow> string" where
  "extract_prompt_text rep payload =
     (case jget payload ''messages'' of
        JArr messages \<Rightarrow> join_with (CHR 0x0A) (concat (map message_texts messages))
      | _ \<Rightarrow> py_str rep (py_or (jget payload ''prompt_text'') (JStr [])))"

definition client_hint :: "Request \<Rightarrow> string \<Rightarrow> string" where
  "client_hint r name = strip (header r name)"

definition header_bool :: "Request \<Rightarrow> string \<Rightarrow> bool" where
  "header_bool r name = env_flag (header r name)"

definition opt_or :: "string option \<Rightarrow> string \<Rightarrow> string" where
  "opt_or x y = (case x of Some s \<Rightarrow> str_or s y | None \<Rightarrow> y)"

definition round_float :: "nat \<Rightarrow> rat \<Rightarrow> pyfloat" where
  "round_float n q = FDec (round_half_even (q * 10 ^ n)) (- int n)"

definition untrusted_context :: "bool \<Rightarrow> Request \<Rightarrow> WorkloadIdentity \<Rightarrow> obj" where
  "untrusted_context trusted r identity =
     [(''team'', JStr (str_or (client_hint r ''x-ai-team'') (client_hint r ''x-ai-tenant''))),
      (''owner'', JStr (client_hint r ''x-ai-owner'')),
      (''subject'', JStr (client_hint r ''x-ai-subject'')),
      (''sensitive_data'', JBool (header_bool r ''x-ai-sensitive-data'')),
      (''tool_access'', JBool (header_bool r ''x-ai-tool-access'')),
      (''write_permission'', JBool (header_bool r ''x-ai-write-permission'')),
      (''cost_per_hour_usd'', JStr (client_hint r ''x-ai-cost-per-hour-usd'')),
      (''month_to_date_cost_usd'', JStr (client_hint r ''x-ai-month-to-date-cost-usd'')),
      (''forecast_monthly_cost_usd'', JStr (client_hint r ''x-ai-forecast-monthly-cost-usd'')),
      (''requests_last_minute'', JStr (client_hint r ''x-ai-requests-last-minute'')),
      (''tokens_today'', JStr (client_hint r ''x-ai-tokens-today'')),
      (''provider'', JStr (client_hint r ''x-ai-provider'')),
      (''model_revision'', JStr (client_hint r ''x-ai-model-revision'')),
      (''model_artifact_digest'', JStr (client_hint r ''x-ai-model-digest'')),
      (''identity_source'', JStr (source identity)),
      (''trusted_proxy'', JBool trusted)]"

record usage_signals =
  sig_requests_last_minute :: "int option"
  sig_tokens_today :: "int option"
  sig_month_to_date :: "pyfloat option"

definition claim_or_hint :: "(json \<Rightarrow> string) \<Rightarrow> bool \<Rightarrow> Request \<Rightarrow> obj \<Rightarrow> string \<Rightarrow> string \<Rightarrow> string" where
  "claim_or_hint rep trusted r claims key hdr =
     (if claims \<noteq> [] then py_str rep (py_or (jget claims key) (JStr []))
      else if trusted then client_hint r hdr else [])"

definition evaluate_body ::
  "(json \<Rightarrow> string) \<Rightarrow> bool \<Rightarrow> GovernanceConfig \<Rightarrow> (string, ModelTarget) dict \<Rightarrow> usage_signals \<Rightarrow> Request \<Rightarrow> obj
   \<Rightarrow> int \<Rightarrow> int \<Rightarrow> WorkloadIdentity \<Rightarrow> obj" where
  "evaluate_body rep trusted config targets sig r payload input_tokens output_tokens identity =
     (let model = py_str rep (py_or (jget payload ''model'') (JStr ''unknown''));
          target = dict_get targets model;
          rate = (\<lambda>f. case target of Some t \<Rightarrow> f t | None \<Rightarrow> 0);
          attr = (\<lambda>f. case target of Some t \<Rightarrow> f t | None \<Rightarrow> None);
          hint = (\<lambda>x name. if trusted then opt_or x (client_hint r name) else opt_or x []);
          flag = (\<lambda>ks. JBool (claim_flag identity ks));
          cost = round_float 6 ((of_int input_tokens * rate mt_input_cost + of_int output_tokens * rate mt_output_cost) / 1000000)
      in [(''subject'', JStr (subject identity)), (''groups'', JArr (map JStr (groups identity))),
          (''policy_pack'', JStr (policy_pack identity)), (''team'', JStr (team identity)),
          (''owner'', JStr (owner identity)), (''environment'', JStr (environment identity)),
          (''namespace'', JStr (namespace identity)), (''action'', JStr (gc_default_action config)),
          (''model'', JStr model), (''provider'', JStr (opt_or (attr mt_provider) (gc_default_provider config))),
          (''input_tokens'', JInt input_tokens), (''output_tokens'', JInt output_tokens),
          (''cost_per_request_usd'', JFloat cost),
          (''cost_per_hour_usd'', JFloat (gc_cost_per_hour_usd config)),
          (''month_to_date_cost_usd'', JFloat (case sig_month_to_date sig of Some x \<Rightarrow> x | None \<Rightarrow> gc_month_to_date_cost_usd config)),
          (''forecast_monthly_cost_usd'', JFloat (gc_forecast_monthly_cost_usd config)),
          (''sensitive_data'', flag [''sensitive_data'', ''ai_sensitive_data'']),
          (''tool_access'', flag [''tool_access'', ''ai_tool_access'']),
          (''write_permission'', flag [''write_permission'', ''ai_write_permission'']),
          (''requests_last_minute'', JInt (case sig_requests_last_minute sig of Some n \<Rightarrow> n | None \<Rightarrow> 0)),
          (''tokens_today'', JInt (case sig_tokens_today sig of Some n \<Rightarrow> n | None \<Rightarrow> 0)),
          (''model_revision'', JStr (hint (attr mt_model_revision) ''x-ai-model-revision'')),
          (''model_artifact_digest'', JStr (hint (attr mt_artifact_digest) ''x-ai-model-digest'')),
          (''prompt_text'', JStr (extract_prompt_text rep payload)),
          (''agent'', JStr (claim_or_hint rep trusted r (id_claims identity) ''agent'' ''x-ai-agent'')),
          (''region'', JStr (claim_or_hint rep trusted r (id_claims identity) ''region'' ''x-ai-region'')),
          (''untrusted_context'', JObj (untrusted_context trusted r identity))])"

definition build_evaluate_payload ::
  "(json \<Rightarrow> string) \<Rightarrow> jwt_libs \<Rightarrow> environ \<Rightarrow> GovernanceConfig \<Rightarrow> (string, ModelTarget) dict \<Rightarrow> usage_signals
   \<Rightarrow> Request \<Rightarrow> obj \<Rightarrow> (py_exc + HTTPException) + obj" where
  "build_evaluate_payload rep lib env config targets sig r payload =
     bind_exc (map_sum Inl id (estimate_tokens payload)) (\<lambda>(input_tokens, output_tokens).
     bind_exc (resolve_workload_identity rep lib env (gc_defaults config) r) (\<lambda>(identity, r').
       Inr (evaluate_body rep (is_trusted_proxy_enabled env) config targets sig r payload input_tokens output_tokens identity)))"

subsection \<open>Denials\<close>

definition governance_detail ::
  "(json \<Rightarrow> string) \<Rightarrow> string \<Rightarrow> string \<Rightarrow> obj \<Rightarrow> string option \<Rightarrow> string option \<Rightarrow> obj" where
  "governance_detail rep code message result control_plane_url rsn =
     (let approval = jget result ''approval_id'';
          detail = [(''error'', JObj [(''type'', JStr ''governance_error''), (''code'', JStr code), (''message'', JStr message)]),
            (''final_verdict'', jget result ''final_verdict''),
            (''reasons'', get_default result ''reasons'' (JArr [])), (''stages'', get_default result ''stages'' (JObj [])),
            (''decision_id'', jget result ''decision_id''), (''approval_id'', approval),
            (''policy_bundle_id'', jget result ''policy_bundle_id''), (''policy_digest'', jget result ''policy_digest''),
            (''request_digest'', jget result ''request_digest''), (''retry'', JNull)];
          detail = (if py_bool approval then dict_set ''retry'' (JObj
              [(''instruction'', JStr ''Approve the request at the control plane, then retry this gateway request with header x-ai-approval-id set to approval_id.''),
               (''approve_path'', JStr (''/approvals/'' @ py_str rep approval @ ''/approve'')),
               (''header'', JStr ''x-ai-approval-id''), (''approval_id'', approval)]) detail else detail);
          detail = (case control_plane_url of Some u \<Rightarrow> dict_set ''control_plane_url'' (JStr u) detail | None \<Rightarrow> detail)
      in case rsn of Some x \<Rightarrow> dict_set ''reason'' (JStr x) detail | None \<Rightarrow> detail)"

definition governance_error ::
  "(json \<Rightarrow> string) \<Rightarrow> int \<Rightarrow> string \<Rightarrow> string \<Rightarrow> obj \<Rightarrow> string option \<Rightarrow> (string, string) dict \<Rightarrow> HTTPException" where
  "governance_error rep status code message result rsn headers =
     \<lparr>he_status = status, he_detail = JObj (governance_detail rep code message result None rsn), he_headers = headers\<rparr>"

subsection \<open>Signed decisions\<close>

definition require_signed_decision :: "environ \<Rightarrow> bool" where
  "require_signed_decision env = env_flag (getenv env ''GATEWAY_REQUIRE_SIGNED_DECISION'' [])"

definition decision_jwks_url :: "environ \<Rightarrow> string option" where
  "decision_jwks_url env =
     (let url = strip (getenv env ''CONTROL_PLANE_DECISION_JWKS_URL'' []) in
      if url \<noteq> [] then Some url else or_none (strip (getenv env ''OIDC_JWKS_URL'' [])))"

definition decision_audience :: "environ \<Rightarrow> string" where
  "decision_audience env = str_or (strip (getenv env ''CONTROL_PLANE_DECISION_AUDIENCE'' ''ai-runtime'')) ''ai-runtime''"

definition normalize_digest :: "string \<Rightarrow> string" where
  "normalize_digest v = (let text = strip v in if startswith text ''sha256:'' then removeprefix text ''sha256:'' else text)"

definition decision_options :: "environ \<Rightarrow> decode_options" where
  "decision_options env =
     \<lparr>opt_algorithms = [''RS256'', ''ES256''], opt_require = [''exp'', ''aud''],
      opt_verify_aud = True, opt_verify_iss = False,
      opt_audience = Some (decision_audience env), opt_issuer = None\<rparr>"

definition verify_decision_token :: "jwt_libs \<Rightarrow> environ \<Rightarrow> string \<Rightarrow> py_exc + json" where
  "verify_decision_token lib env token =
     (case decision_jwks_url env of
        None \<Rightarrow> Inl ValueError
      | Some url \<Rightarrow> bind_exc (signing_key lib url token) (\<lambda>key. jwt_decode lib token key (decision_options env)))"

definition merge_token_claims :: "obj \<Rightarrow> obj \<Rightarrow> obj" where
  "merge_token_claims result claims =
     fold (\<lambda>k m. if py_bool (jget claims k) \<and> \<not> py_bool (jget m k) then dict_set k (jget claims k) m else m)
       [''decision_id'', ''request_digest'', ''policy_digest''] result"

text \<open>Two values conflict when both are present and differ (\<open>hmac.compare_digest\<close> is equality on the
  ASCII texts that digests and ids are).\<close>

definition conflict :: "string \<Rightarrow> string \<Rightarrow> bool" where
  "conflict a b = (a \<noteq> [] \<and> b \<noteq> [] \<and> a \<noteq> b)"

record bind_env =
  be_libs :: jwt_libs
  be_environ :: environ
  be_digest :: digest_env
  be_exc_text :: "py_exc \<Rightarrow> string"

definition claim_text :: "bind_env \<Rightarrow> json \<Rightarrow> string" where
  "claim_text env v = strip (py_str (rep_json (be_digest env)) (py_or v (JStr [])))"

definition claim_digest :: "bind_env \<Rightarrow> obj \<Rightarrow> string \<Rightarrow> string" where
  "claim_digest env d k = normalize_digest (py_str (rep_json (be_digest env)) (py_or (jget d k) (JStr [])))"

definition tenant_text :: "bind_env \<Rightarrow> obj \<Rightarrow> string" where
  "tenant_text env d = claim_text env (py_or (jget d ''tenant'') (jget d ''tenant_id''))"

definition expected_tenant :: "bind_env \<Rightarrow> obj \<Rightarrow> string" where
  "expected_tenant env p = claim_text env (py_or (jget p ''tenant_id'') (jget p ''team''))"

definition mismatch :: "bind_env \<Rightarrow> string \<Rightarrow> string \<Rightarrow> obj \<Rightarrow> HTTPException" where
  "mismatch env code msg result = governance_error (rep_json (be_digest env)) 403 code msg result None []"

text \<open>The comparisons of token, evaluate response and local request, in the code's order.\<close>

definition check_token_result :: "bind_env \<Rightarrow> obj \<Rightarrow> obj \<Rightarrow> HTTPException + unit" where
  "check_token_result env claims result =
     (let rep = rep_json (be_digest env);
          verdict = lower (claim_text env (jget claims ''verdict''));
          result_verdict = lower (claim_text env (jget result ''final_verdict''))
      in if conflict verdict result_verdict
         then Inl (governance_error rep 403 ''signed_decision_mismatch'' ''signed decision verdict does not match evaluate response''
                result (Some (''token='' @ verdict @ '' evaluate='' @ result_verdict)) [])
         else if conflict (claim_text env (jget claims ''decision_id'')) (claim_text env (jget result ''decision_id''))
         then Inl (mismatch env ''signed_decision_mismatch'' ''signed decision id does not match evaluate response'' result)
         else if conflict (claim_digest env claims ''request_digest'') (claim_digest env result ''request_digest'')
         then Inl (mismatch env ''signed_decision_mismatch'' ''signed decision request_digest does not match evaluate response'' result)
         else if conflict (claim_digest env claims ''policy_digest'') (claim_digest env result ''policy_digest'')
         then Inl (mismatch env ''signed_decision_mismatch'' ''signed decision policy_digest does not match evaluate response'' result)
         else Inr ())"

definition check_local_request :: "bind_env \<Rightarrow> obj \<Rightarrow> obj \<Rightarrow> obj \<Rightarrow> (py_exc + HTTPException) + string" where
  "check_local_request env claims result body =
     bind_exc (map_sum Inl id (compute_request_digest (be_digest env) body)) (\<lambda>local_digest.
       let expected = str_or (claim_digest env claims ''request_digest'') (claim_digest env result ''request_digest'') in
       if expected \<noteq> [] \<and> local_digest \<noteq> expected
       then Inl (Inr (mismatch env ''signed_decision_request_mismatch'' ''signed decision request_digest does not match local request'' result))
       else if conflict (tenant_text env claims) (expected_tenant env body)
       then Inl (Inr (mismatch env ''signed_decision_mismatch'' ''signed decision tenant does not match local request'' []))
       else if conflict (claim_text env (jget claims ''subject'')) (claim_text env (jget body ''subject''))
       then Inl (Inr (mismatch env ''signed_decision_mismatch'' ''signed decision subject does not match local request'' []))
       else if conflict (claim_text env (jget claims ''model'')) (claim_text env (jget body ''model''))
       then Inl (Inr (mismatch env ''signed_decision_mismatch'' ''signed decision model does not match local request'' []))
       else Inr local_digest)"

definition token_ttl :: "int \<Rightarrow> json \<Rightarrow> int" where
  "token_ttl wall_now ex =
     (case ex of JNull \<Rightarrow> 300
      | v \<Rightarrow> (case py_int v of Inr n \<Rightarrow> max 1 (n - wall_now) | Inl e \<Rightarrow> 300))"

definition consume_token ::
  "bind_env \<Rightarrow> string \<Rightarrow> int \<Rightarrow> rat \<Rightarrow> obj \<Rightarrow> obj \<Rightarrow> string \<Rightarrow> string \<Rightarrow> replay_cache option
   \<Rightarrow> (HTTPException + unit) \<times> replay_cache option" where
  "consume_token env token wall_now mono_now claims result exp_tenant local_digest store =
     (case store of
        None \<Rightarrow> (Inr (), None)
      | Some cache \<Rightarrow>
          (let jti = derive_jti (rep_json (be_digest env)) (digest_sha (be_digest env)) claims token;
               tenant = str_or (tenant_text env claims) exp_tenant;
               digest = str_or (claim_digest env claims ''request_digest'') local_digest
           in case replay_consume jti tenant digest (token_ttl wall_now (jget claims ''exp'')) mono_now cache of
                (True, cache') \<Rightarrow> (Inr (), Some cache')
              | (False, cache') \<Rightarrow>
                  (Inl (mismatch env ''decision_replayed'' ''signed decision token has already been used'' result), Some cache')))"

definition bind_signed_decision ::
  "bind_env \<Rightarrow> int \<Rightarrow> rat \<Rightarrow> obj \<Rightarrow> obj option \<Rightarrow> replay_cache option
   \<Rightarrow> ((py_exc + HTTPException) + obj) \<times> replay_cache option" where
  "bind_signed_decision env wall_now mono_now result body store =
     (let token = jget result ''decision_token''; rep = rep_json (be_digest env) in
      if \<not> py_bool token then
        (if require_signed_decision (be_environ env)
         then (Inl (Inr (governance_error rep 503 ''signed_decision_required''
                 ''control plane did not return a signed decision token'' result None [])), store)
         else (Inr result, store))
      else case verify_decision_token (be_libs env) (be_environ env) (py_str rep token) of
          Inl e \<Rightarrow> (Inl (Inr (governance_error rep 403 ''signed_decision_invalid''
                     ''signed decision token verification failed'' result (Some (be_exc_text env e)) [])), store)
        | Inr cl \<Rightarrow>
            (let claims = obj_of cl in
             case check_token_result env claims result of
               Inl e \<Rightarrow> (Inl (Inr e), store)
             | Inr _ \<Rightarrow>
                 (case (case body of None \<Rightarrow> Inr [] | Some b \<Rightarrow> check_local_request env claims result b) of
                    Inl e \<Rightarrow> (Inl e, store)
                  | Inr local_digest \<Rightarrow>
                      (case consume_token env (py_str rep token) wall_now mono_now claims result
                              (case body of None \<Rightarrow> [] | Some b \<Rightarrow> expected_tenant env b) local_digest store of
                         (Inl e, store') \<Rightarrow> (Inl (Inr e), store')
                       | (Inr _, store') \<Rightarrow> (Inr (merge_token_claims result claims), store')))))"

subsection \<open>Enforcement\<close>

text \<open>
  The control plane's answer: a JSON body, an \<open>httpx.HTTPError\<close> (transport, timeout or error
  status), or another exception of reading the body, which is not handled here.
\<close>

datatype cp_outcome = CpJson json | CpHttpError string | CpOther py_exc

type_synonym control_plane = "string \<Rightarrow> obj \<Rightarrow> (string, string) dict \<Rightarrow> cp_outcome"

definition add_nonempty :: "string \<Rightarrow> string \<Rightarrow> (string, string) dict \<Rightarrow> (string, string) dict" where
  "add_nonempty k v headers = (if v \<noteq> [] then dict_set k v headers else headers)"

definition evaluate_headers :: "bind_env \<Rightarrow> Request \<Rightarrow> obj \<Rightarrow> (string, string) dict" where
  "evaluate_headers env r body =
     add_nonempty ''x-ai-model-revision'' (claim_text env (jget body ''model_revision''))
    (add_nonempty ''x-ai-model-digest'' (claim_text env (jget body ''model_artifact_digest''))
    (add_nonempty ''x-ai-approval-id'' (strip (header r ''x-ai-approval-id''))
    (add_nonempty ''authorization'' (strip (header r ''authorization''))
    (add_nonempty ''x-request-id'' (header r ''x-request-id'') []))))"

definition final_verdict :: "bind_env \<Rightarrow> obj \<Rightarrow> string" where
  "final_verdict env result =
     py_str (rep_json (be_digest env)) (get_default result ''final_verdict'' (JStr ''unknown''))"

definition apply_verdict :: "bind_env \<Rightarrow> string \<Rightarrow> obj \<Rightarrow> HTTPException + obj option" where
  "apply_verdict env version result =
     (let rep = rep_json (be_digest env);
          evidence = (\<lambda>outcome. apply_evidence_headers version (Some (evidence_from_governance rep version (Some result) outcome)) [])
      in if final_verdict env result = ''block''
         then Inl (governance_error rep 403 ''governance_blocked'' ''governance blocked the request'' result None (evidence ''blocked''))
         else if final_verdict env result = ''approval_required''
         then Inl (governance_error rep 409 ''governance_approval_required'' ''governance approval required'' result None
                (evidence ''approval_required''))
         else Inr (Some result))"

definition enforce_governance ::
  "bind_env \<Rightarrow> string \<Rightarrow> control_plane \<Rightarrow> int \<Rightarrow> rat \<Rightarrow> GovernanceConfig \<Rightarrow> (string, ModelTarget) dict \<Rightarrow> usage_signals
   \<Rightarrow> Request \<Rightarrow> obj \<Rightarrow> replay_cache option \<Rightarrow> ((py_exc + HTTPException) + obj option) \<times> replay_cache option" where
  "enforce_governance env version post wall_now mono_now config targets sig r payload store =
     (let rep = rep_json (be_digest env) in
      if gc_mode config = disabled_mode \<or> \<not> gc_enabled config then (Inr None, store)
      else if misconfigured config then
        (Inl (Inr (governance_error rep 503 ''governance_misconfigured''
           ''GOVERNANCE_MODE=enforce requires CONTROL_PLANE_URL; set GOVERNANCE_MODE=disabled explicitly to skip enforcement''
           [(''final_verdict'', JStr ''misconfigured''), (''reasons'', JArr []), (''stages'', JObj [])] None [])), store)
      else case build_evaluate_payload rep (be_libs env) (be_environ env) config targets sig r payload of
          Inl e \<Rightarrow> (Inl e, store)
        | Inr body \<Rightarrow>
            (case post (gc_control_plane_url config @ ''/governance/evaluate'') body (evaluate_headers env r body) of
               CpHttpError e \<Rightarrow>
                 if gc_fail_open config then (Inr None, store)
                 else (Inl (Inr \<lparr>he_status = 503,
                        he_detail = JObj (governance_detail rep ''control_plane_unavailable'' ''governance control plane unavailable''
                          [(''final_verdict'', JStr ''control_plane_error''), (''reasons'', JArr []), (''stages'', JObj [])]
                          (Some (gc_control_plane_url config)) (Some e)),
                        he_headers = []\<rparr>), store)
             | CpOther e \<Rightarrow> (Inl (Inl e), store)
             | CpJson (JObj result) \<Rightarrow>
                 (case bind_signed_decision env wall_now mono_now result (Some body) store of
                    (Inl e, store') \<Rightarrow> (Inl e, store')
                  | (Inr merged, store') \<Rightarrow> (map_sum Inr id (apply_verdict env version merged), store'))
             | CpJson _ \<Rightarrow> (Inl (Inl (OtherError ''AttributeError'')), store)))"

end
