(* ===== verification/Governance_Properties.thy ===== *)
theory Governance_Properties imports Governance begin

text \<open>
  What enforcement guarantees: it fails closed, client headers do not reach the policy inputs, a
  signed decision is bound to the evaluate response and to the local request, and can be spent once.
\<close>

subsection \<open>Enforcement\<close>


definition demo_bind :: bind_env where
  "demo_bind = \<lparr>be_libs = demo_jwt, be_environ = (\<lambda>_. None), be_digest = demo_digest, be_exc_text = (\<lambda>_. [])\<rparr>"

definition demo_governance :: GovernanceConfig where
  "demo_governance = \<lparr>gc_control_plane_url = ''http://cp'', gc_enabled = True, gc_fail_open = False,
     gc_timeout_seconds = FDec 2 0,
     gc_defaults = \<lparr>default_owner = ''gateway'', default_team = ''platform'', default_environment = ''development'', default_namespace = ''ai-dev''\<rparr>,
     gc_default_provider = ''ollama'', gc_default_action = ''invoke_model'', gc_cost_per_hour_usd = FDec 18 (-2),
     gc_month_to_date_cost_usd = FDec 100 0, gc_forecast_monthly_cost_usd = FDec 400 0, gc_mode = enforce_mode\<rparr>"

definition demo_signals :: usage_signals where
  "demo_signals = \<lparr>sig_requests_last_minute = None, sig_tokens_today = None, sig_month_to_date = None\<rparr>"

definition cp_verdict :: "string \<Rightarrow> control_plane" where
  "cp_verdict v url body headers = CpJson (JObj [(''final_verdict'', JStr v)])"

definition gov_demo :: "control_plane \<Rightarrow> (py_exc + HTTPException) + obj option" where
  "gov_demo post = fst (enforce_governance demo_bind ''v'' post 0 0 demo_governance [] demo_signals
     (demo_request\<lparr>req_claims := Some (JObj [])\<rparr>) [(''model'', JStr ''a'')] None)"

lemma demo_governance_enforces:
  "gc_mode demo_governance = enforce_mode" "gc_enabled demo_governance" "\<not> gc_fail_open demo_governance"
  by (simp_all add: demo_governance_def)


text \<open>
  Only two exact words stop a request. In enforce mode with a reachable control plane, an
  answer whose verdict is \<open>BLOCK\<close>, \<open>blocked\<close>, \<open>deny\<close>, empty or missing altogether lets the request
  proceed, while \<open>block\<close> stops it with 403 and \<open>approval_required\<close> with 409.
\<close>

theorem unknown_verdicts_pass:
  "gov_demo (cp_verdict ''BLOCK'') = Inr (Some [(''final_verdict'', JStr ''BLOCK'')])
   \<and> gov_demo (cp_verdict ''deny'') = Inr (Some [(''final_verdict'', JStr ''deny'')])
   \<and> gov_demo (\<lambda>u b h. CpJson (JObj [])) = Inr (Some [])
   \<and> (case gov_demo (cp_verdict ''block'') of Inl (Inr e) \<Rightarrow> he_status e = 403 | _ \<Rightarrow> False)
   \<and> (case gov_demo (cp_verdict ''approval_required'') of Inl (Inr e) \<Rightarrow> he_status e = 409 | _ \<Rightarrow> False)"
proof (intro conjI)
  show "gov_demo (cp_verdict ''BLOCK'') = Inr (Some [(''final_verdict'', JStr ''BLOCK'')])" by code_simp
  show "gov_demo (cp_verdict ''deny'') = Inr (Some [(''final_verdict'', JStr ''deny'')])" by code_simp
  show "gov_demo (\<lambda>u b h. CpJson (JObj [])) = Inr (Some [])" by code_simp
  show "case gov_demo (cp_verdict ''block'') of Inl (Inr e) \<Rightarrow> he_status e = 403 | _ \<Rightarrow> False" by code_simp
  show "case gov_demo (cp_verdict ''approval_required'') of Inl (Inr e) \<Rightarrow> he_status e = 409 | _ \<Rightarrow> False" by code_simp
qed

subsection \<open>Inputs of the policy\<close>

text \<open>
  C18: client headers do not reach the policy. Without the trusted-proxy switch, two requests with
  the same attached claims and the same body are evaluated on exactly the same inputs: every
  field sent to the control plane is equal except \<open>untrusted_context\<close>, whatever the headers claim
  about team, cost, quota, provider, model revision or permissions.
\<close>

theorem client_headers_do_not_reach_policy:
  assumes "\<not> is_trusted_proxy_enabled env"
    and "req_claims r1 = Some (JObj claims)" and "req_claims r2 = Some (JObj claims)"
    and "build_evaluate_payload rep lib env config targets sig r1 payload = Inr b1"
    and "build_evaluate_payload rep lib env config targets sig r2 payload = Inr b2"
    and "field \<noteq> ''untrusted_context''"
  shows "dict_get b1 field = dict_get b2 field"
proof -
  let ?i = "\<lambda>r. build_identity rep False (gc_defaults config) r claims"
  have same: "?i r1 = ?i r2" by (simp add: build_identity_def)
  have res: "resolve_workload_identity rep lib env (gc_defaults config) r = Inr (?i r, r)"
    if "req_claims r = Some (JObj claims)" for r
    using that assms(1) by (simp add: resolve_workload_identity_def)
  obtain n m where est: "estimate_tokens payload = Inr (n, m)"
    using assms(4) by (cases "estimate_tokens payload") (auto simp: build_evaluate_payload_def)
  have b: "b1 = evaluate_body rep False config targets sig r1 payload n m (?i r1)"
    "b2 = evaluate_body rep False config targets sig r2 payload n m (?i r1)"
    using assms(1,4,5) res [OF assms(2)] res [OF assms(3)] est same by (simp_all add: build_evaluate_payload_def)
  show ?thesis unfolding b using assms(6) by (simp add: evaluate_body_def claim_or_hint_def Let_def)
qed

theorem client_headers_do_not_reach_policy_witness:
  "\<exists>b1 b2. build_evaluate_payload (\<lambda>_. []) demo_jwt (\<lambda>_. None) demo_governance [] demo_signals
        (demo_request\<lparr>req_claims := Some (JObj alice_claims)\<rparr>) [(''model'', JStr ''a'')] = Inr b1
     \<and> build_evaluate_payload (\<lambda>_. []) demo_jwt (\<lambda>_. None) demo_governance [] demo_signals
        (demo_request\<lparr>req_claims := Some (JObj alice_claims), req_headers := [(''x-ai-team'', ''hr'')]\<rparr>) [(''model'', JStr ''a'')] = Inr b2
     \<and> dict_get b1 ''team'' = dict_get b2 ''team''"
proof -
  let ?f = "\<lambda>r. build_evaluate_payload (\<lambda>_. []) demo_jwt (\<lambda>_. None) demo_governance [] demo_signals r [(''model'', JStr ''a'')]"
  let ?r1 = "demo_request\<lparr>req_claims := Some (JObj alice_claims)\<rparr>"
  let ?r2 = "demo_request\<lparr>req_claims := Some (JObj alice_claims), req_headers := [(''x-ai-team'', ''hr'')]\<rparr>"
  have off: "\<not> is_trusted_proxy_enabled (\<lambda>_. None)" by code_simp
  have res: "resolve_workload_identity (\<lambda>_. []) demo_jwt (\<lambda>_. None) d r = Inr (build_identity (\<lambda>_. []) False d r alice_claims, r)"
    if "req_claims r = Some (JObj alice_claims)" for d r
    using off that by (simp add: resolve_workload_identity_def)
  have est: "estimate_tokens [(''model'', JStr ''a'')] = Inr (0, 0)" by (simp add: estimate_tokens_def jget_def get_default_def py_or_def)
  have c: "req_claims ?r1 = Some (JObj alice_claims)" "req_claims ?r2 = Some (JObj alice_claims)" by simp_all
  have "\<exists>b. ?f ?r1 = Inr b" "\<exists>b. ?f ?r2 = Inr b"
    unfolding build_evaluate_payload_def est res [OF c(1)] res [OF c(2)] by simp_all
  then obtain b1 b2 where b1: "?f ?r1 = Inr b1" and b2: "?f ?r2 = Inr b2" by blast
  have "dict_get b1 ''team'' = dict_get b2 ''team''"
    by (rule client_headers_do_not_reach_policy [OF off _ _ b1 b2]) simp_all
  with b1 b2 show ?thesis by blast
qed

subsection \<open>Signed decisions\<close>

lemma bind_success_cases:
  assumes "bind_signed_decision env wall tick result (Some body) store = (Inr merged, store')"
    and "py_bool (jget result ''decision_token'')"
  obtains cl local_digest where
    "verify_decision_token (be_libs env) (be_environ env) (py_str (rep_json (be_digest env)) (jget result ''decision_token'')) = Inr cl"
    and "check_token_result env (obj_of cl) result = Inr ()"
    and "check_local_request env (obj_of cl) result body = Inr local_digest"
    and "consume_token env (py_str (rep_json (be_digest env)) (jget result ''decision_token'')) wall tick (obj_of cl) result
      (expected_tenant env body) local_digest store = (Inr (), store')"
    and "merged = merge_token_claims result (obj_of cl)"
  using assms that
  by (auto simp: bind_signed_decision_def Let_def split: sum.splits prod.splits)

lemma merge_keeps:
  "k \<notin> {''decision_id'', ''request_digest'', ''policy_digest''} \<Longrightarrow> jget (merge_token_claims result claims) k = jget result k"
  by (simp add: merge_token_claims_def jget_set)

text \<open>
  C15: an accepted signed decision is about this request and this verdict. When the control plane
  returned a token and the check accepted it, the token verified with its audience and expiry
  required, under the key which the configured decision key set names for this token. Token and
  response agree on verdict, decision id, request digest and policy digest wherever both carry
  one; a request digest carried by the token or else by the response is the digest of the request
  as evaluated locally; tenant, subject and model agree wherever token and request both carry one.
  Merging the claims leaves the verdict as the control plane sent it.
\<close>

theorem signed_decision_is_bound:
  assumes "bind_signed_decision env wall tick result (Some body) store = (Inr merged, store')"
    and "py_bool (jget result ''decision_token'')"
    and token: "token = py_str (rep_json (be_digest env)) (jget result ''decision_token'')"
  shows "\<exists>url key cl. decision_jwks_url (be_environ env) = Some url
    \<and> signing_key (be_libs env) url token = Inr key
    \<and> jwt_decode (be_libs env) token key (decision_options (be_environ env)) = Inr cl
    \<and> \<not> conflict (lower (claim_text env (jget (obj_of cl) ''verdict''))) (lower (claim_text env (jget result ''final_verdict'')))
    \<and> \<not> conflict (claim_text env (jget (obj_of cl) ''decision_id'')) (claim_text env (jget result ''decision_id''))
    \<and> \<not> conflict (claim_digest env (obj_of cl) ''request_digest'') (claim_digest env result ''request_digest'')
    \<and> \<not> conflict (claim_digest env (obj_of cl) ''policy_digest'') (claim_digest env result ''policy_digest'')
    \<and> (let expected = str_or (claim_digest env (obj_of cl) ''request_digest'') (claim_digest env result ''request_digest'') in
        expected \<noteq> [] \<longrightarrow> compute_request_digest (be_digest env) body = Inr expected)
    \<and> \<not> conflict (tenant_text env (obj_of cl)) (expected_tenant env body)
    \<and> \<not> conflict (claim_text env (jget (obj_of cl) ''subject'')) (claim_text env (jget body ''subject''))
    \<and> \<not> conflict (claim_text env (jget (obj_of cl) ''model'')) (claim_text env (jget body ''model''))
    \<and> jget merged ''final_verdict'' = jget result ''final_verdict''"
proof -
  obtain cl local_digest where v: "verify_decision_token (be_libs env) (be_environ env) token = Inr cl"
    and c: "check_token_result env (obj_of cl) result = Inr ()"
    and l: "check_local_request env (obj_of cl) result body = Inr local_digest"
    and m: "merged = merge_token_claims result (obj_of cl)"
    by (rule bind_success_cases [OF assms(1,2), folded token])
  from v obtain url key where u: "decision_jwks_url (be_environ env) = Some url" "signing_key (be_libs env) url token = Inr key"
    "jwt_decode (be_libs env) token key (decision_options (be_environ env)) = Inr cl"
    by (auto simp: verify_decision_token_def bind_exc_Inr_iff split: option.splits)
  from l have d: "compute_request_digest (be_digest env) body = Inr local_digest"
    by (cases "compute_request_digest (be_digest env) body")
      (auto simp: check_local_request_def Let_def split: if_splits)
  from l have "\<not> conflict (tenant_text env (obj_of cl)) (expected_tenant env body)"
    "\<not> conflict (claim_text env (jget (obj_of cl) ''subject'')) (claim_text env (jget body ''subject''))"
    "\<not> conflict (claim_text env (jget (obj_of cl) ''model'')) (claim_text env (jget body ''model''))"
    "str_or (claim_digest env (obj_of cl) ''request_digest'') (claim_digest env result ''request_digest'') \<noteq> [] \<Longrightarrow>
      local_digest = str_or (claim_digest env (obj_of cl) ''request_digest'') (claim_digest env result ''request_digest'')"
    by (auto simp: check_local_request_def d Let_def split: if_splits)
  moreover from c have "\<not> conflict (lower (claim_text env (jget (obj_of cl) ''verdict''))) (lower (claim_text env (jget result ''final_verdict'')))"
    "\<not> conflict (claim_text env (jget (obj_of cl) ''decision_id'')) (claim_text env (jget result ''decision_id''))"
    "\<not> conflict (claim_digest env (obj_of cl) ''request_digest'') (claim_digest env result ''request_digest'')"
    "\<not> conflict (claim_digest env (obj_of cl) ''policy_digest'') (claim_digest env result ''policy_digest'')"
    by (auto simp: check_token_result_def Let_def split: if_splits)
  moreover have "jget merged ''final_verdict'' = jget result ''final_verdict''" unfolding m by (rule merge_keeps) simp
  ultimately show ?thesis using u d unfolding Let_def by blast
qed

definition token_jwt :: jwt_libs where
  "token_jwt = demo_jwt\<lparr>jwt_decode := (\<lambda>t k opts. Inr (JObj [(''verdict'', JStr ''ALLOW''), (''jti'', JStr t), (''exp'', JInt 1000)]))\<rparr>"

definition token_bind :: bind_env where
  "token_bind = demo_bind\<lparr>be_libs := token_jwt, be_environ := map_of [(''OIDC_JWKS_URL'', ''http://idp'')]\<rparr>"

definition signed_result :: obj where
  "signed_result = [(''final_verdict'', JStr ''allow''), (''decision_token'', JStr ''tok'')]"

lemma signed_result_accepted:
  "fst (bind_signed_decision token_bind 940 5 signed_result (Some []) (Some [])) = Inr signed_result"
  "snd (bind_signed_decision token_bind 940 5 signed_result (Some []) (Some [])) = Some [(''tok'', (''|'' @ rev (concat BINDING_FIELDS), 65))]"
  by code_simp+

theorem signed_decision_is_bound_witness:
  "\<exists>url key cl. decision_jwks_url (be_environ token_bind) = Some url \<and> signing_key token_jwt url ''tok'' = Inr key
     \<and> jwt_decode token_jwt ''tok'' key (decision_options (be_environ token_bind)) = Inr cl"
proof -
  have "bind_signed_decision token_bind 940 5 signed_result (Some []) (Some [])
    = (Inr signed_result, snd (bind_signed_decision token_bind 940 5 signed_result (Some []) (Some [])))"
    using signed_result_accepted(1) by (metis prod.collapse)
  from signed_decision_is_bound [OF this _ refl] show ?thesis
    by (auto simp: signed_result_def jget_def get_default_def token_bind_def)
qed

text \<open>The same check with an optional body, as the tool endpoint calls it without one.\<close>

lemma bind_accepted_cases:
  assumes "bind_signed_decision env wall tick result body store = (Inr merged, store')"
    and "py_bool (jget result ''decision_token'')"
    and "verify_decision_token (be_libs env) (be_environ env) (py_str (rep_json (be_digest env)) (jget result ''decision_token'')) = Inr cl"
  obtains tenant local_digest where
    "consume_token env (py_str (rep_json (be_digest env)) (jget result ''decision_token'')) wall tick (obj_of cl) result
      tenant local_digest store = (Inr (), store')"
  using assms that by (auto simp: bind_signed_decision_def Let_def split: sum.splits prod.splits)

lemma check_token_result_403: "check_token_result env claims result = Inl e \<Longrightarrow> he_status e = 403"
  by (auto simp: check_token_result_def mismatch_def governance_error_def Let_def split: if_splits)

lemma check_local_request_403:
  "check_local_request env claims result body = Inl (Inr e) \<Longrightarrow> he_status e = 403"
  "check_local_request env claims result body = Inl (Inl x) \<Longrightarrow> compute_request_digest (be_digest env) body = Inl x"
  by (cases "compute_request_digest (be_digest env) body";
      auto simp: check_local_request_def mismatch_def governance_error_def Let_def split: if_splits)+

lemma consume_refused_403:
  assumes "\<And>t d n. \<not> fst (replay_consume (derive_jti (rep_json (be_digest env)) (digest_sha (be_digest env)) claims token) t d n now cache)"
    and "consume_token env token wall now claims result tenant local_digest (Some cache) = (res, store')"
  shows "\<exists>e. res = Inl e \<and> he_status e = 403"
proof -
  let ?c = "replay_consume (derive_jti (rep_json (be_digest env)) (digest_sha (be_digest env)) claims token)
    (str_or (tenant_text env claims) tenant) (str_or (claim_digest env claims ''request_digest'') local_digest)
    (token_ttl wall (jget claims ''exp'')) now cache"
  have "\<not> fst ?c" by (rule assms(1))
  then obtain cache' where "?c = (False, cache')" by (cases ?c) simp
  with assms(2) show ?thesis by (auto simp: consume_token_def mismatch_def governance_error_def Let_def)
qed

text \<open>
  C16: a signed decision is spent once. If the check accepted a token with a replay cache, then as
  long as the token's remaining lifetime (at least a second) has not passed on the monotonic
  clock, every further presentation of the token is refused: with another response around it,
  for another request body or without one, at any wall time, and whatever other tokens the
  cache consumed in between. Each refusal is a 403, unless digesting the new body raised. The token
  library may refuse the token by then; if it does not, it reads the same claims.
\<close>

theorem signed_decision_is_single_use:
  assumes "dict_ok cache" and "py_bool (jget result ''decision_token'')"
    and "bind_signed_decision env wall tick result body (Some cache) = (Inr merged, Some cache1)"
    and token: "token = py_str (rep_json (be_digest env)) (jget result ''decision_token'')"
    and "verify_decision_token (be_libs env) (be_environ env) token = Inr cl"
    and "ttl = token_ttl wall (jget (obj_of cl) ''exp'')"
    and "\<forall>(j', t', d', ttl', u)\<in>set others. u < tick + of_int (max 1 ttl)" and "later < tick + of_int (max 1 ttl)"
    and "cache2 = fold (\<lambda>(j', t', d', ttl', u) c. snd (replay_consume j' t' d' ttl' u c)) others cache1"
    and same: "be_digest env2 = be_digest env" "\<forall>c. verify_decision_token (be_libs env2) (be_environ env2) token = Inr c \<longrightarrow> c = cl"
    and again: "py_bool (jget result2 ''decision_token'')" "py_str (rep_json (be_digest env)) (jget result2 ''decision_token'') = token"
    and "bind_signed_decision env2 wall2 later result2 body2 (Some cache2) = (res, store2)"
  shows "case res of
      Inr m \<Rightarrow> False
    | Inl (Inr e) \<Rightarrow> he_status e = 403
    | Inl (Inl x) \<Rightarrow> (\<exists>b. body2 = Some b \<and> compute_request_digest (be_digest env2) b = Inl x)"
proof -
  let ?jti = "derive_jti (rep_json (be_digest env)) (digest_sha (be_digest env)) (obj_of cl) token"
  obtain tenant local_digest where k: "consume_token env token wall tick (obj_of cl) result tenant local_digest (Some cache) = (Inr (), Some cache1)"
    using bind_accepted_cases [OF assms(3,2)] assms(5) unfolding token by metis
  then obtain t d where "replay_consume ?jti t d ttl tick cache = (True, cache1)"
    by (auto simp: consume_token_def Let_def assms(6) split: prod.splits bool.splits)
  then have refused: "\<not> fst (replay_consume ?jti t' d' n later cache2)" for t' d' n
    using token_accepted_once_lemma [OF assms(1) _ assms(7,8), of ?jti t d] unfolding assms(9) by simp
  show ?thesis
  proof (cases "verify_decision_token (be_libs env2) (be_environ env2) token")
    case (Inl e)
    with assms(14) again show ?thesis by (auto simp: bind_signed_decision_def same governance_error_def Let_def)
  next
    case (Inr c)
    with same have v: "verify_decision_token (be_libs env2) (be_environ env2) token = Inr cl" by simp
    show ?thesis
    proof (cases "check_token_result env2 (obj_of cl) result2")
      case (Inl e)
      with v assms(14) again check_token_result_403 [OF Inl] show ?thesis
        by (auto simp: bind_signed_decision_def same Let_def)
    next
      case ok: (Inr u)
      let ?l = "case body2 of None \<Rightarrow> Inr [] | Some b \<Rightarrow> check_local_request env2 (obj_of cl) result2 b"
      show ?thesis
      proof (cases ?l)
        case (Inl e)
        with v ok assms(14) again have "res = Inl e" by (auto simp: bind_signed_decision_def same Let_def)
        with Inl show ?thesis by (auto split: option.splits sum.splits dest: check_local_request_403)
      next
        case (Inr ld)
        obtain r3 store3 where c3: "consume_token env2 token wall2 later (obj_of cl) result2
            (case body2 of None \<Rightarrow> [] | Some b \<Rightarrow> expected_tenant env2 b) ld (Some cache2) = (r3, store3)"
          by fastforce
        have "\<exists>e. r3 = Inl e \<and> he_status e = 403"
          by (rule consume_refused_403 [OF _ c3]) (simp add: same refused)
        with c3 v ok Inr assms(14) again show ?thesis by (auto simp: bind_signed_decision_def same Let_def)
      qed
    qed
  qed
qed

theorem signed_decision_is_single_use_witness:
  "case fst (bind_signed_decision token_bind 999 64 (signed_result @ [(''reasons'', JArr [])]) None
        (snd (bind_signed_decision token_bind 940 5 signed_result (Some []) (Some [])))) of
      Inl (Inr e) \<Rightarrow> he_status e = 403 | _ \<Rightarrow> False"
proof -
  obtain c1 where c1: "snd (bind_signed_decision token_bind 940 5 signed_result (Some []) (Some [])) = Some c1"
    using signed_result_accepted(2) by blast
  then have 1: "bind_signed_decision token_bind 940 5 signed_result (Some []) (Some []) = (Inr signed_result, Some c1)"
    using signed_result_accepted(1) by (metis prod.collapse)
  let ?cl = "JObj [(''verdict'', JStr ''ALLOW''), (''jti'', JStr ''tok''), (''exp'', JInt 1000)]"
  let ?tok = "py_str (rep_json (be_digest token_bind)) (jget signed_result ''decision_token'')"
  let ?r2 = "signed_result @ [(''reasons'', JArr [])]"
  have v: "verify_decision_token (be_libs token_bind) (be_environ token_bind) ?tok = Inr ?cl" by code_simp
  have p: "py_bool (jget signed_result ''decision_token'')" by code_simp
  have t: "60 = token_ttl 940 (jget (obj_of ?cl) ''exp'')" by code_simp
  have q: "py_bool (jget ?r2 ''decision_token'')" "py_str (rep_json (be_digest token_bind)) (jget ?r2 ''decision_token'') = ?tok"
    by code_simp+
  obtain res st where 2: "bind_signed_decision token_bind 999 64 ?r2 None (Some c1) = (res, st)" by fastforce
  have "case res of Inr m \<Rightarrow> False | Inl (Inr e) \<Rightarrow> he_status e = 403
    | Inl (Inl x) \<Rightarrow> (\<exists>b. None = Some b \<and> compute_request_digest (be_digest token_bind) b = Inl x)"
    by (rule signed_decision_is_single_use [OF _ p 1 refl v t _ _ _ refl _ q 2, where others = "[]"]) (simp_all add: v)
  then show ?thesis unfolding c1 2 by (auto split: sum.splits)
qed

end
