(* ===== verification/Decisions.thy ===== *)
theory Decisions imports Access begin

text \<open>
  \<open>app/gateway/decisions.py\<close> and \<open>routers/decisions.py\<close>: routing-decision records, their encoding
  in a Redis hash, the bounded in-memory store and the tenant check of the lookup endpoint.
  Printing and parsing of floats are parameters; the store on Redis is \<open>Decisions_Redis\<close>.
\<close>

subsection \<open>Records\<close>

record DecisionRecord =
  dr_request_id :: string
  dr_requested_model :: string
  dr_selected_backend :: string
  dr_routing_reason :: string
  dr_fallback_used :: bool
  dr_health_score :: "int option"
  dr_duration_ms :: pyfloat
  dr_shadow_backend :: "string option"
  dr_shadow_duration_ms :: "pyfloat option"
  dr_shadow_outcome :: "string option"
  dr_estimated_cost :: "pyfloat option"
  dr_stream_outcome :: "string option"
  dr_stream_ttft_ms :: "pyfloat option"
  dr_control_plane_decision_id :: "string option"
  dr_approval_id :: "string option"
  dr_policy_bundle_id :: "string option"
  dr_policy_digest :: "string option"
  dr_request_digest :: "string option"
  dr_control_plane_version :: "string option"
  dr_runtime_version :: "string option"
  dr_enforcement_outcome :: "string option"
  dr_tenant_id :: "string option"
  dr_recorded_at :: pyfloat

subsection \<open>Redis encoding\<close>

record float_io =
  show_float :: "pyfloat \<Rightarrow> string"
  read_float :: "string \<Rightarrow> py_exc + pyfloat"

definition enc_str :: "string option \<Rightarrow> string" where
  "enc_str v = (case v of None \<Rightarrow> [] | Some s \<Rightarrow> s)"

definition serialize :: "float_io \<Rightarrow> DecisionRecord \<Rightarrow> (string, string) dict" where
  "serialize io r =
     (let fl = (\<lambda>v. case v of None \<Rightarrow> [] | Some x \<Rightarrow> show_float io x) in
      [(''request_id'', dr_request_id r), (''requested_model'', dr_requested_model r),
       (''selected_backend'', dr_selected_backend r), (''routing_reason'', dr_routing_reason r),
       (''fallback_used'', if dr_fallback_used r then ''true'' else ''false''),
       (''health_score'', case dr_health_score r of None \<Rightarrow> [] | Some n \<Rightarrow> show_int n),
       (''duration_ms'', show_float io (dr_duration_ms r)),
       (''shadow_backend'', enc_str (dr_shadow_backend r)),
       (''shadow_duration_ms'', fl (dr_shadow_duration_ms r)),
       (''shadow_outcome'', enc_str (dr_shadow_outcome r)),
       (''estimated_cost'', fl (dr_estimated_cost r)),
       (''stream_outcome'', enc_str (dr_stream_outcome r)),
       (''stream_ttft_ms'', fl (dr_stream_ttft_ms r)),
       (''control_plane_decision_id'', enc_str (dr_control_plane_decision_id r)),
       (''approval_id'', enc_str (dr_approval_id r)),
       (''policy_bundle_id'', enc_str (dr_policy_bundle_id r)),
       (''policy_digest'', enc_str (dr_policy_digest r)),
       (''request_digest'', enc_str (dr_request_digest r)),
       (''control_plane_version'', enc_str (dr_control_plane_version r)),
       (''runtime_version'', enc_str (dr_runtime_version r)),
       (''enforcement_outcome'', enc_str (dr_enforcement_outcome r)),
       (''tenant_id'', enc_str (dr_tenant_id r)),
       (''recorded_at'', show_float io (dr_recorded_at r))])"

definition need :: "(string, string) dict \<Rightarrow> string \<Rightarrow> py_exc + string" where
  "need d k = (case dict_get d k of None \<Rightarrow> Inl KeyError | Some v \<Rightarrow> Inr v)"

definition optional_str :: "(string, string) dict \<Rightarrow> string \<Rightarrow> string option" where
  "optional_str d k = (case dict_get d k of None \<Rightarrow> None | Some v \<Rightarrow> if v \<in> {[], ''None''} then None else Some v)"

definition plain_str :: "(string, string) dict \<Rightarrow> string \<Rightarrow> string option" where
  "plain_str d k = or_none (get_default d k [])"

definition optional_float :: "float_io \<Rightarrow> (string, string) dict \<Rightarrow> string \<Rightarrow> py_exc + pyfloat option" where
  "optional_float io d k =
     (case optional_str d k of None \<Rightarrow> Inr None | Some v \<Rightarrow> map_sum id Some (read_float io v))"

definition float_or_zero :: "float_io \<Rightarrow> (string, string) dict \<Rightarrow> string \<Rightarrow> py_exc + pyfloat" where
  "float_or_zero io d k =
     (case get_default d k [] of [] \<Rightarrow> Inr (FDec 0 0) | v \<Rightarrow> read_float io v)"

definition read_score :: "float_io \<Rightarrow> (string, string) dict \<Rightarrow> py_exc + int option" where
  "read_score io d =
     bind_exc (optional_float io d ''health_score'') (\<lambda>f.
       case f of None \<Rightarrow> Inr None | Some x \<Rightarrow> map_sum id Some (py_int (JFloat x)))"

definition from_mapping :: "float_io \<Rightarrow> (string, string) dict \<Rightarrow> py_exc + DecisionRecord" where
  "from_mapping io d =
     bind_exc (need d ''request_id'') (\<lambda>rid.
     bind_exc (need d ''requested_model'') (\<lambda>model.
     bind_exc (need d ''selected_backend'') (\<lambda>backend.
     bind_exc (need d ''routing_reason'') (\<lambda>reason.
     bind_exc (read_score io d) (\<lambda>score.
     bind_exc (float_or_zero io d ''duration_ms'') (\<lambda>duration.
     bind_exc (optional_float io d ''shadow_duration_ms'') (\<lambda>shadow_ms.
     bind_exc (optional_float io d ''estimated_cost'') (\<lambda>cost.
     bind_exc (optional_float io d ''stream_ttft_ms'') (\<lambda>ttft.
     bind_exc (float_or_zero io d ''recorded_at'') (\<lambda>recorded.
       Inr \<lparr>dr_request_id = rid, dr_requested_model = model, dr_selected_backend = backend, dr_routing_reason = reason,
         dr_fallback_used = lower (get_default d ''fallback_used'' ''false'') \<in> set truthy_words,
         dr_health_score = score, dr_duration_ms = duration,
         dr_shadow_backend = plain_str d ''shadow_backend'', dr_shadow_duration_ms = shadow_ms,
         dr_shadow_outcome = plain_str d ''shadow_outcome'', dr_estimated_cost = cost,
         dr_stream_outcome = plain_str d ''stream_outcome'', dr_stream_ttft_ms = ttft,
         dr_control_plane_decision_id = optional_str d ''control_plane_decision_id'',
         dr_approval_id = optional_str d ''approval_id'', dr_policy_bundle_id = optional_str d ''policy_bundle_id'',
         dr_policy_digest = optional_str d ''policy_digest'', dr_request_digest = optional_str d ''request_digest'',
         dr_control_plane_version = optional_str d ''control_plane_version'',
         dr_runtime_version = optional_str d ''runtime_version'',
         dr_enforcement_outcome = optional_str d ''enforcement_outcome'',
         dr_tenant_id = optional_str d ''tenant_id'', dr_recorded_at = recorded\<rparr>))))))))))"

definition redis_key :: "string \<Rightarrow> string \<Rightarrow> string" where
  "redis_key tenant_id request_id = ''arp:'' @ tenant_id @ '':decision:'' @ request_id"

subsection \<open>The in-memory store\<close>

record InMemoryDecisionStore =
  ds_entries :: "(string, DecisionRecord) dict"
  ds_order :: "string list"
  ds_max_entries :: nat

definition new_decision_store :: "nat \<Rightarrow> InMemoryDecisionStore" where
  "new_decision_store n = \<lparr>ds_entries = [], ds_order = [], ds_max_entries = n\<rparr>"

definition tenant_or_platform :: "string option \<Rightarrow> string" where
  "tenant_or_platform t = (case t of Some x \<Rightarrow> str_or x ''platform'' | None \<Rightarrow> ''platform'')"

definition storage_key :: "DecisionRecord \<Rightarrow> string" where
  "storage_key r = tenant_or_platform (dr_tenant_id r) @ '':'' @ dr_request_id r"

text \<open>\<open>while len(order) > max: entries.pop(order.pop(0), None)\<close>.\<close>

definition evict :: "InMemoryDecisionStore \<Rightarrow> InMemoryDecisionStore" where
  "evict s =
     (let n = length (ds_order s) - ds_max_entries s in
      s\<lparr>ds_order := drop n (ds_order s), ds_entries := fold dict_pop (take n (ds_order s)) (ds_entries s)\<rparr>)"

definition decision_put :: "pyfloat \<Rightarrow> DecisionRecord \<Rightarrow> InMemoryDecisionStore \<Rightarrow> InMemoryDecisionStore" where
  "decision_put now r s =
     (let stamped = r\<lparr>dr_recorded_at := now\<rparr>; key = storage_key stamped in
      evict (s\<lparr>ds_order := (if dict_get (ds_entries s) key = None then ds_order s @ [key] else ds_order s),
               ds_entries := dict_set key stamped (ds_entries s)\<rparr>))"

definition find_by_id :: "string \<Rightarrow> InMemoryDecisionStore \<Rightarrow> (string \<times> DecisionRecord) option" where
  "find_by_id request_id s = find (\<lambda>p. dr_request_id (snd p) = request_id) (ds_entries s)"

definition decision_get ::
  "InMemoryDecisionStore \<Rightarrow> string \<Rightarrow> string option \<Rightarrow> bool \<Rightarrow> DecisionRecord option" where
  "decision_get s request_id tenant_id any_tenant =
     (if any_tenant then map_option snd (find_by_id request_id s)
      else case dict_get (ds_entries s) (tenant_or_platform tenant_id @ '':'' @ request_id) of
          Some r \<Rightarrow> Some r
        | None \<Rightarrow> dict_get (ds_entries s) request_id)"

definition patch_shadow :: "string \<Rightarrow> string \<Rightarrow> pyfloat \<Rightarrow> InMemoryDecisionStore \<Rightarrow> InMemoryDecisionStore" where
  "patch_shadow request_id outcome duration s =
     (case find_by_id request_id s of
        None \<Rightarrow> s
      | Some (key, r) \<Rightarrow>
          s\<lparr>ds_entries := dict_set key (r\<lparr>dr_shadow_outcome := Some outcome, dr_shadow_duration_ms := Some duration\<rparr>) (ds_entries s)\<rparr>)"

subsection \<open>The lookup endpoint\<close>

definition not_found :: HTTPException where
  "not_found = api_error 404 ''decision_not_found'' ''routing decision not found'' ''invalid_request_error'' None [] []"

definition get_decision ::
  "(json \<Rightarrow> string) \<Rightarrow> environ \<Rightarrow> TenantPolicyBundle \<Rightarrow> (string \<Rightarrow> string option \<Rightarrow> bool \<Rightarrow> DecisionRecord option)
   \<Rightarrow> Request \<Rightarrow> string \<Rightarrow> HTTPException + DecisionRecord" where
  "get_decision rep env bundle get r request_id =
     (let tenant_id = resolve_tenant_id rep env r; auditor = is_global_auditor rep bundle r in
      case get request_id (Some tenant_id) auditor of
        None \<Rightarrow> Inl not_found
      | Some d \<Rightarrow>
          if truthy_opt (dr_tenant_id d) \<and> dr_tenant_id d \<noteq> Some tenant_id \<and> \<not> auditor
          then Inl not_found else Inr d)"

subsection \<open>Round trip through Redis\<close>

definition plain_opt :: "string option \<Rightarrow> bool" where
  "plain_opt v \<longleftrightarrow> v \<noteq> Some [] \<and> v \<noteq> Some ''None''"

definition storable :: "DecisionRecord \<Rightarrow> bool" where
  "storable r \<longleftrightarrow> plain_opt (dr_shadow_backend r) \<and> plain_opt (dr_shadow_outcome r) \<and> plain_opt (dr_stream_outcome r)
     \<and> plain_opt (dr_control_plane_decision_id r) \<and> plain_opt (dr_approval_id r) \<and> plain_opt (dr_policy_bundle_id r)
     \<and> plain_opt (dr_policy_digest r) \<and> plain_opt (dr_request_digest r) \<and> plain_opt (dr_control_plane_version r)
     \<and> plain_opt (dr_runtime_version r) \<and> plain_opt (dr_enforcement_outcome r) \<and> plain_opt (dr_tenant_id r)"

definition opt_list :: "'a option \<Rightarrow> 'a list" where
  "opt_list v = (case v of None \<Rightarrow> [] | Some x \<Rightarrow> [x])"

definition record_floats :: "DecisionRecord \<Rightarrow> pyfloat list" where
  "record_floats r = dr_duration_ms r # dr_recorded_at r # opt_list (dr_shadow_duration_ms r)
     @ opt_list (dr_estimated_cost r) @ opt_list (dr_stream_ttft_ms r)"

text \<open>
  What the code relies on for the floats of a record: \<open>float(str(x)) == x\<close>, a float never prints as
  an empty string or as \<open>None\<close>, and \<open>float\<close> reads the printed health score as that integer.
\<close>

definition float_io_ok :: "float_io \<Rightarrow> DecisionRecord \<Rightarrow> bool" where
  "float_io_ok io r \<longleftrightarrow>
     (\<forall>x\<in>set (record_floats r). read_float io (show_float io x) = Inr x \<and> show_float io x \<notin> {[], ''None''})
     \<and> (case dr_health_score r of None \<Rightarrow> True
        | Some n \<Rightarrow> (case read_float io (show_int n) of Inr (FDec c e) \<Rightarrow> dec_val c e = of_int n | _ \<Rightarrow> False))"

lemma show_nat_digit: "show_nat n \<noteq> [] \<and> hd (show_nat n) \<in> char_of ` {48..<58::nat}"
proof (induction n rule: show_nat.induct)
  case (1 n)
  then show ?case by (subst (1 2) show_nat.simps) (auto simp: hd_append)
qed

lemma show_int_not_none: "show_int n \<noteq> [] \<and> show_int n \<noteq> ''None''"
proof -
  have "CHR ''N'' \<notin> char_of ` {48..<58::nat}" by code_simp
  then have "show_nat k \<noteq> [] \<and> show_nat k \<noteq> ''None''" for k using show_nat_digit [of k] by (metis list.sel(1))
  then show ?thesis by (simp add: show_int_def)
qed

lemma trunc_of_int [simp]: "trunc_rat (of_int n) = n"
  by (simp add: trunc_rat_def)

lemma optional_enc: "plain_opt v \<Longrightarrow> (if enc_str v \<in> {[], ''None''} then None else Some (enc_str v)) = v"
  by (cases v) (auto simp: plain_opt_def enc_str_def)

lemma plain_enc: "plain_opt v \<Longrightarrow> or_none (enc_str v) = v"
  by (cases v) (auto simp: plain_opt_def enc_str_def or_none_def)

text \<open>
  A decision survives the Redis hash. Encoding a record and decoding the hash gives the same
  record back, all 23 fields of it, provided its optional texts are neither empty nor the word
  \<open>None\<close> (which the decoder reads as absent) and floats print and parse as Python's do.
\<close>

theorem decision_round_trip:
  assumes io: "float_io_ok io r" and "storable r"
  shows "from_mapping io (serialize io r) = Inr r"
proof -
  let ?d = "serialize io r"
  have fl: "read_float io (show_float io x) = Inr x" "show_float io x \<noteq> []" "show_float io x \<noteq> ''None''"
    if "x \<in> set (record_floats r)" for x
    using io that by (auto simp: float_io_ok_def)
  have opt: "optional_float io ?d k = Inr v" if "dict_get ?d k = Some (case v of None \<Rightarrow> [] | Some x \<Rightarrow> show_float io x)"
      "set (opt_list v) \<subseteq> set (record_floats r)" for k v
    using that fl by (cases v) (simp_all add: optional_float_def optional_str_def opt_list_def)
  have zero: "float_or_zero io ?d k = Inr x" if "dict_get ?d k = Some (show_float io x)" "x \<in> set (record_floats r)" for k x
    using that fl [OF that(2)] by (cases "show_float io x") (simp_all add: float_or_zero_def get_default_def)
  have str: "optional_str ?d k = v" if "dict_get ?d k = Some (enc_str v)" "plain_opt v" for k v
    using that optional_enc [OF that(2)] by (simp add: optional_str_def)
  have pl: "plain_str ?d k = v" if "dict_get ?d k = Some (enc_str v)" "plain_opt v" for k v
    using that by (simp add: plain_str_def get_default_def plain_enc)
  have sc: "read_score io ?d = Inr (dr_health_score r)"
  proof (cases "dr_health_score r")
    case None
    then show ?thesis by (simp add: read_score_def optional_float_def optional_str_def serialize_def Let_def)
  next
    case (Some n)
    then obtain c e where "read_float io (show_int n) = Inr (FDec c e)" "dec_val c e = of_int n"
      using io by (auto simp: float_io_ok_def split: sum.splits pyfloat.splits)
    with Some show_int_not_none [of n] show ?thesis
      by (simp add: read_score_def optional_float_def optional_str_def serialize_def Let_def)
  qed
  have fb: "lower (get_default ?d ''fallback_used'' ''false'') \<in> set truthy_words \<longleftrightarrow> dr_fallback_used r"
  proof -
    have "lower ''true'' \<in> set truthy_words" "lower ''false'' \<notin> set truthy_words" by code_simp+
    then show ?thesis by (simp add: serialize_def get_default_def Let_def)
  qed
  have nd: "need ?d ''request_id'' = Inr (dr_request_id r)" "need ?d ''requested_model'' = Inr (dr_requested_model r)"
    "need ?d ''selected_backend'' = Inr (dr_selected_backend r)" "need ?d ''routing_reason'' = Inr (dr_routing_reason r)"
    by (simp_all add: need_def serialize_def Let_def)
  have floats: "float_or_zero io ?d ''duration_ms'' = Inr (dr_duration_ms r)" "float_or_zero io ?d ''recorded_at'' = Inr (dr_recorded_at r)"
    "optional_float io ?d ''shadow_duration_ms'' = Inr (dr_shadow_duration_ms r)"
    "optional_float io ?d ''estimated_cost'' = Inr (dr_estimated_cost r)"
    "optional_float io ?d ''stream_ttft_ms'' = Inr (dr_stream_ttft_ms r)"
    by (rule zero opt; auto simp: serialize_def record_floats_def Let_def)+
  have strs: "plain_str ?d ''shadow_backend'' = dr_shadow_backend r" "plain_str ?d ''shadow_outcome'' = dr_shadow_outcome r"
    "plain_str ?d ''stream_outcome'' = dr_stream_outcome r"
    "optional_str ?d ''control_plane_decision_id'' = dr_control_plane_decision_id r" "optional_str ?d ''approval_id'' = dr_approval_id r"
    "optional_str ?d ''policy_bundle_id'' = dr_policy_bundle_id r" "optional_str ?d ''policy_digest'' = dr_policy_digest r"
    "optional_str ?d ''request_digest'' = dr_request_digest r" "optional_str ?d ''control_plane_version'' = dr_control_plane_version r"
    "optional_str ?d ''runtime_version'' = dr_runtime_version r" "optional_str ?d ''enforcement_outcome'' = dr_enforcement_outcome r"
    "optional_str ?d ''tenant_id'' = dr_tenant_id r"
    by (rule pl str; simp add: serialize_def Let_def assms(2) [unfolded storable_def])+
  show ?thesis unfolding from_mapping_def nd sc floats strs fb bind_exc.simps by simp
qed

definition demo_decision :: DecisionRecord where
  "demo_decision = \<lparr>dr_request_id = ''r1'', dr_requested_model = ''m'', dr_selected_backend = ''a'', dr_routing_reason = ''primary'',
     dr_fallback_used = True, dr_health_score = Some 97, dr_duration_ms = FDec 125 (-1), dr_shadow_backend = Some ''b'',
     dr_shadow_duration_ms = None, dr_shadow_outcome = None, dr_estimated_cost = None, dr_stream_outcome = None,
     dr_stream_ttft_ms = None, dr_control_plane_decision_id = Some ''d1'', dr_approval_id = None, dr_policy_bundle_id = None,
     dr_policy_digest = None, dr_request_digest = None, dr_control_plane_version = None, dr_runtime_version = Some ''2.0'',
     dr_enforcement_outcome = Some ''allowed'', dr_tenant_id = Some ''finance'', dr_recorded_at = FDec 0 0\<rparr>"

definition demo_io :: float_io where
  "demo_io = \<lparr>show_float = (\<lambda>x. if x = FDec 0 0 then ''0.0'' else ''12.5''),
     read_float = (\<lambda>s. if s = ''0.0'' then Inr (FDec 0 0) else if s = ''97'' then Inr (FDec 97 0) else Inr (FDec 125 (-1)))\<rparr>"

theorem decision_round_trip_witness:
  "from_mapping demo_io (serialize demo_io demo_decision) = Inr demo_decision"
proof (rule decision_round_trip)
  have "show_int 97 = ''97''" by code_simp
  then show "float_io_ok demo_io demo_decision"
    by (simp add: float_io_ok_def demo_io_def demo_decision_def record_floats_def opt_list_def dec_val_def pow10_def)
  show "storable demo_decision" by (simp add: storable_def demo_decision_def plain_opt_def)
qed

subsection \<open>The bounded store\<close>

definition store_ok :: "InMemoryDecisionStore \<Rightarrow> bool" where
  "store_ok s \<longleftrightarrow> distinct (ds_order s) \<and> keys (ds_entries s) = set (ds_order s) \<and> length (ds_order s) \<le> ds_max_entries s
     \<and> (\<forall>k r. dict_get (ds_entries s) k = Some r \<longrightarrow> k = storage_key r)"

lemma keys_pops: "keys (fold dict_pop ks d) = keys d - set ks"
proof (induction ks arbitrary: d)
  case Nil
  then show ?case by simp
next
  case (Cons k ks)
  show ?case unfolding fold_simps Cons.IH keys_pop by auto
qed

lemma get_pops: "dict_get (fold dict_pop ks d) k = (if k \<in> set ks then None else dict_get d k)"
  by (induction ks arbitrary: d) (auto simp: dict_simps)

lemma take_drop_distinct: "distinct xs \<Longrightarrow> set xs - set (take n xs) = set (drop n xs)"
proof -
  assume "distinct xs"
  then have "set (take n xs) \<inter> set (drop n xs) = {}" by (simp add: set_take_disj_set_drop_if_distinct)
  moreover have "set xs = set (take n xs) \<union> set (drop n xs)" by (metis append_take_drop_id set_append)
  ultimately show ?thesis by blast
qed

lemma put_key: "storage_key (r\<lparr>dr_recorded_at := t\<rparr>) = storage_key r"
  by (simp add: storage_key_def)

lemma put_ok:
  assumes "store_ok s" and "0 < ds_max_entries s"
  shows "store_ok (decision_put now r s)"
    and "dict_get (ds_entries (decision_put now r s)) (storage_key r) = Some (r\<lparr>dr_recorded_at := now\<rparr>)"
    and "ds_max_entries (decision_put now r s) = ds_max_entries s"
proof -
  let ?k = "storage_key r" and ?r = "r\<lparr>dr_recorded_at := now\<rparr>"
  let ?new = "dict_get (ds_entries s) ?k = None"
  let ?order = "if ?new then ds_order s @ [?k] else ds_order s"
  let ?n = "length ?order - ds_max_entries s"
  let ?e = "dict_set ?k ?r (ds_entries s)"
  have put: "decision_put now r s = s\<lparr>ds_order := drop ?n ?order, ds_entries := fold dict_pop (take ?n ?order) ?e\<rparr>"
    by (simp add: decision_put_def evict_def put_key Let_def)
  have len: "length (ds_order s) \<le> ds_max_entries s" and kd: "keys (ds_entries s) = set (ds_order s)"
    and dist: "distinct (ds_order s)" using assms(1) by (auto simp: store_ok_def)
  have new: "?new \<longleftrightarrow> ?k \<notin> set (ds_order s)" unfolding get_None_iff kd ..
  have d: "distinct ?order" using new dist by auto
  have ke: "keys ?e = set ?order" unfolding keys_set kd using new by auto
  have small: "?n \<le> 1" "?n = 1 \<Longrightarrow> ?new" using len by (auto split: if_splits)
  have kept: "?k \<notin> set (take ?n ?order)"
  proof (cases ?new)
    case False
    then have o: "?order = ds_order s" by (rule if_not_P)
    have "?n = 0" unfolding o using len by simp
    then show ?thesis by (simp only: take_0) simp
  next
    case True
    have "?n \<le> length (ds_order s)" using True len assms(2) by simp
    with True new show ?thesis by (auto dest: in_set_takeD)
  qed
  have keys: "keys (fold dict_pop (take ?n ?order) ?e) = set (drop ?n ?order)"
    unfolding keys_pops ke by (rule take_drop_distinct [OF d])
  show "dict_get (ds_entries (decision_put now r s)) ?k = Some ?r"
    unfolding put using kept by (simp add: get_pops dict_simps)
  show "ds_max_entries (decision_put now r s) = ds_max_entries s" unfolding put by simp
  have own: "k = storage_key v" if "dict_get (fold dict_pop (take ?n ?order) ?e) k = Some v" for k v
    using that assms(1) by (auto simp: get_pops dict_simps store_ok_def put_key split: if_splits)
  have f: "ds_entries (decision_put now r s) = fold dict_pop (take ?n ?order) ?e" "ds_order (decision_put now r s) = drop ?n ?order"
    "ds_max_entries (decision_put now r s) = ds_max_entries s"
    unfolding put by simp_all
  show "store_ok (decision_put now r s)" unfolding store_ok_def f
  proof (intro conjI allI impI)
    show "distinct (drop ?n ?order)" by (rule distinct_drop [OF d])
    show "length (drop ?n ?order) \<le> ds_max_entries s" unfolding length_drop by linarith
  qed (fact keys, erule own)
qed

lemma find_SomeD: "find P xs = Some x \<Longrightarrow> x \<in> set xs \<and> P x"
  by (induction xs) (auto split: if_splits)

lemma find_by_id_Some:
  "find_by_id rid s = Some (k, r) \<Longrightarrow> (k, r) \<in> set (ds_entries s) \<and> dr_request_id r = rid"
  unfolding find_by_id_def by (drule find_SomeD) simp

datatype decision_event = EPut DecisionRecord pyfloat | EPatch string string pyfloat

fun decision_step :: "decision_event \<Rightarrow> InMemoryDecisionStore \<Rightarrow> InMemoryDecisionStore" where
  "decision_step (EPut r now) s = decision_put now r s"
| "decision_step (EPatch rid outcome ms) s = patch_shadow rid outcome ms s"

definition entries_distinct :: "InMemoryDecisionStore \<Rightarrow> bool" where
  "entries_distinct s = dict_ok (ds_entries s)"

lemma pops_ok: "dict_ok d \<Longrightarrow> dict_ok (fold dict_pop ks d)"
  by (induction ks arbitrary: d) auto

lemma step_ok:
  assumes "store_ok s" and "entries_distinct s" and "0 < ds_max_entries s"
  shows "store_ok (decision_step e s) \<and> entries_distinct (decision_step e s) \<and> ds_max_entries (decision_step e s) = ds_max_entries s"
proof (cases e)
  case (EPut r now)
  then show ?thesis using put_ok [OF assms(1,3)] assms(2)
    by (simp add: entries_distinct_def decision_put_def evict_def Let_def pops_ok)
next
  case (EPatch rid outcome ms)
  show ?thesis
  proof (cases "find_by_id rid s")
    case None
    with EPatch assms show ?thesis by (simp add: patch_shadow_def)
  next
    case (Some kr)
    obtain k r where kr: "kr = (k, r)" by (cases kr)
    with Some have kin: "(k, r) \<in> set (ds_entries s)" by (auto dest: find_by_id_Some)
    with assms(2) have get: "dict_get (ds_entries s) k = Some r" by (simp add: entries_distinct_def)
    have "insert k (keys (ds_entries s)) = keys (ds_entries s)" using kin by (force simp: image_iff)
    with EPatch Some kr assms get show ?thesis
      unfolding store_ok_def by (auto simp del: set_map simp: patch_shadow_def keys_set dict_simps storage_key_def entries_distinct_def)
  qed
qed

text \<open>
  The in-memory store is bounded and never loses the record just written. Any sequence of
  puts and shadow patches on a new store keeps at most the configured number of records, each under
  its own tenant's key; and a record just put is found, stamped, by its own tenant.
\<close>

theorem decision_store_bounded:
  assumes "0 < n" and "s = fold decision_step es (new_decision_store n)"
  shows "card (keys (ds_entries s)) \<le> n
    \<and> (\<forall>k r. dict_get (ds_entries s) k = Some r \<longrightarrow> k = storage_key r)
    \<and> decision_get (decision_put now r s) (dr_request_id r) (dr_tenant_id r) False = Some (r\<lparr>dr_recorded_at := now\<rparr>)"
proof -
  have "store_ok (fold decision_step es s0) \<and> ds_max_entries (fold decision_step es s0) = ds_max_entries s0"
    if "store_ok s0" "entries_distinct s0" "0 < ds_max_entries s0" for s0
    using that
  proof (induction es arbitrary: s0)
    case Nil
    then show ?case by simp
  next
    case (Cons e es)
    from step_ok [OF Cons.prems, of e] Cons.prems(3) Cons.IH [of "decision_step e s0"] show ?case by simp
  qed
  from this [of "new_decision_store n"] assms have s: "store_ok s" "ds_max_entries s = n"
    by (auto simp: store_ok_def new_decision_store_def entries_distinct_def)
  have "card (keys (ds_entries s)) \<le> n"
    using s by (metis store_ok_def distinct_card)
  moreover have "decision_get (decision_put now r s) (dr_request_id r) (dr_tenant_id r) False = Some (r\<lparr>dr_recorded_at := now\<rparr>)"
    using put_ok(2) [OF s(1)] assms(1) s(2) by (simp add: decision_get_def storage_key_def)
  ultimately show ?thesis using s(1) by (simp add: store_ok_def)
qed

theorem decision_store_bounded_witness:
  "card (keys (ds_entries (fold decision_step [EPut demo_decision (FDec 1 0), EPut (demo_decision\<lparr>dr_request_id := ''r2''\<rparr>) (FDec 2 0),
      EPatch ''r2'' ''success'' (FDec 3 0)] (new_decision_store 1)))) \<le> 1"
  using decision_store_bounded [OF zero_less_one refl] by blast

subsection \<open>Tenant isolation of the endpoint\<close>

text \<open>
  C33: the lookup endpoint does not leak another tenant's decision. Whatever the store returns for
  a request id (from either backend, even under colliding keys), a caller that is not an auditor
  receives only records of its own tenant or records without one, and cannot tell a foreign
  record from a missing one.
\<close>

theorem decision_lookup_isolates_tenants:
  assumes "\<not> is_global_auditor rep bundle r"
  shows "(\<forall>d. get_decision rep env bundle get r rid = Inr d \<longrightarrow>
      \<not> truthy_opt (dr_tenant_id d) \<or> dr_tenant_id d = Some (resolve_tenant_id rep env r))
    \<and> (\<forall>d. get rid (Some (resolve_tenant_id rep env r)) False = Some d \<and> truthy_opt (dr_tenant_id d)
        \<and> dr_tenant_id d \<noteq> Some (resolve_tenant_id rep env r) \<longrightarrow>
        get_decision rep env bundle get r rid = get_decision rep env bundle (\<lambda>_ _ _. None) r rid)"
  using assms by (auto simp: get_decision_def Let_def split: option.splits if_splits)

theorem decision_lookup_isolates_tenants_witness:
  "get_decision (\<lambda>_. []) (\<lambda>_. None) (default_bundle (\<lambda>_. None)) (\<lambda>_ _ _. Some demo_decision) demo_request ''r1''
   = get_decision (\<lambda>_. []) (\<lambda>_. None) (default_bundle (\<lambda>_. None)) (\<lambda>_ _ _. None) demo_request ''r1''"
proof -
  have a: "\<not> is_global_auditor (\<lambda>_. []) (default_bundle (\<lambda>_. None)) demo_request" by code_simp
  have t: "resolve_tenant_id (\<lambda>_. []) (\<lambda>_. None) demo_request = ''platform''" by code_simp
  have d: "truthy_opt (dr_tenant_id demo_decision)" "dr_tenant_id demo_decision = Some ''finance''" by (simp_all add: demo_decision_def truthy_opt_def)
  from decision_lookup_isolates_tenants [OF a, where get = "\<lambda>_ _ _. Some demo_decision" and env = "\<lambda>_. None" and rid = "''r1''"] t d
  show ?thesis by simp
qed

text \<open>
  A shadow result can land on another tenant's record. With two tenants using the same request
  id, the outcome reported for the second tenant's request is written into the first tenant's
  record, and the second stays unpatched.
\<close>

theorem shadow_patch_crosses_tenants:
  "\<exists>s. s = fold (\<lambda>r. decision_put (FDec 1 0) r) [demo_decision, demo_decision\<lparr>dr_tenant_id := Some ''search''\<rparr>] (new_decision_store 10)
     \<and> map_option dr_shadow_outcome (decision_get (patch_shadow ''r1'' ''error'' (FDec 1 0) s) ''r1'' (Some ''finance'') False) = Some (Some ''error'')
     \<and> map_option dr_shadow_outcome (decision_get (patch_shadow ''r1'' ''error'' (FDec 1 0) s) ''r1'' (Some ''search'') False) = Some None"
proof (intro exI conjI)
  show "map_option dr_shadow_outcome (decision_get (patch_shadow ''r1'' ''error'' (FDec 1 0)
      (fold (\<lambda>r. decision_put (FDec 1 0) r) [demo_decision, demo_decision\<lparr>dr_tenant_id := Some ''search''\<rparr>] (new_decision_store 10)))
      ''r1'' (Some ''finance'') False) = Some (Some ''error'')" by code_simp
  show "map_option dr_shadow_outcome (decision_get (patch_shadow ''r1'' ''error'' (FDec 1 0)
      (fold (\<lambda>r. decision_put (FDec 1 0) r) [demo_decision, demo_decision\<lparr>dr_tenant_id := Some ''search''\<rparr>] (new_decision_store 10)))
      ''r1'' (Some ''search'') False) = Some None" by code_simp
qed (rule refl)

end
