(* ===== verification/Quota.thy ===== *)
theory Quota imports Py_Values begin

text \<open>
  \<open>app/gateway/tenant.py\<close>, the in-process attribution store: per team a sliding window of
  request times and the token and spend counters of the UTC day, and the table of reservation
  members. A usage object is mutated in place, so an operation writes it back under its team.
  The clock (\<open>time.monotonic\<close>, seconds), the day and the uuid are arguments; the spend, a binary float
  in the code, is an exact number here.
\<close>

subsection \<open>State\<close>

record TenantUsage =
  request_times :: "rat list"
  tokens_today :: int
  spend_usd :: rat
  tokens_day :: string

definition new_usage :: TenantUsage where
  "new_usage = \<lparr>request_times = [], tokens_today = 0, spend_usd = 0, tokens_day = []\<rparr>"

record QuotaReservation =
  qr_team :: string
  qr_member :: string
  reserved_tokens :: int
  reserved_spend :: rat
  requests_last_minute :: nat
  qr_tokens_today :: int
  month_to_date :: rat

record TenantAttributionStore =
  usage_of :: "(string, TenantUsage) dict"
  members :: "(string, rat) dict"

definition new_tenant_store :: TenantAttributionStore where
  "new_tenant_store = \<lparr>usage_of = [], members = []\<rparr>"

definition WINDOW_SECONDS :: rat where
  "WINDOW_SECONDS = 60"

definition attribution_enabled :: "string option \<Rightarrow> bool" where
  "attribution_enabled var = env_flag (case var of None \<Rightarrow> ''false'' | Some s \<Rightarrow> s)"

subsection \<open>Operations\<close>

definition prune_window :: "rat \<Rightarrow> rat list \<Rightarrow> rat list" where
  "prune_window now ts = dropWhile (\<lambda>t. t < now - WINDOW_SECONDS) ts"

definition roll_day :: "string \<Rightarrow> TenantUsage \<Rightarrow> TenantUsage" where
  "roll_day today u =
     (if tokens_day u \<noteq> today then u\<lparr>tokens_day := today, tokens_today := 0, spend_usd := 0\<rparr> else u)"

definition refreshed :: "rat \<Rightarrow> string \<Rightarrow> TenantUsage \<Rightarrow> TenantUsage" where
  "refreshed now today u = roll_day today (u\<lparr>request_times := prune_window now (request_times u)\<rparr>)"

text \<open>\<open>_get\<close>: the usage object, created, pruned and rolled over to today.\<close>

definition tenant_get :: "rat \<Rightarrow> string \<Rightarrow> string \<Rightarrow> TenantAttributionStore \<Rightarrow> TenantUsage \<times> TenantAttributionStore" where
  "tenant_get now today team s =
     (let u = refreshed now today (get_default (usage_of s) team new_usage)
      in (u, s\<lparr>usage_of := dict_set team u (usage_of s)\<rparr>))"

definition put_usage :: "string \<Rightarrow> TenantUsage \<Rightarrow> TenantAttributionStore \<Rightarrow> TenantAttributionStore" where
  "put_usage team u s = s\<lparr>usage_of := dict_set team u (usage_of s)\<rparr>"

definition reserve_request ::
  "rat \<Rightarrow> string \<Rightarrow> string \<Rightarrow> string \<Rightarrow> int \<Rightarrow> int \<Rightarrow> rat \<Rightarrow> string option \<Rightarrow> TenantAttributionStore
    \<Rightarrow> QuotaReservation \<times> TenantAttributionStore" where
  "reserve_request now today uuid team input_tokens output_tokens spend member_id s =
     (case tenant_get now today team s of (u, s) \<Rightarrow>
        let mid = (case member_id of Some m \<Rightarrow> if m \<noteq> [] then m else uuid | None \<Rightarrow> uuid);
            delta = input_tokens + output_tokens;
            u = u\<lparr>request_times := request_times u @ [now],
                  tokens_today := tokens_today u + delta, spend_usd := spend_usd u + spend\<rparr>
        in (\<lparr>qr_team = team, qr_member = mid, reserved_tokens = delta, reserved_spend = spend,
             requests_last_minute = length (request_times u), qr_tokens_today = tokens_today u,
             month_to_date = spend_usd u\<rparr>,
            (put_usage team u s)\<lparr>members := dict_set mid now (members s)\<rparr>))"

definition record_request ::
  "rat \<Rightarrow> string \<Rightarrow> string \<Rightarrow> string \<Rightarrow> int \<Rightarrow> int \<Rightarrow> TenantAttributionStore \<Rightarrow> TenantAttributionStore" where
  "record_request now today uuid team input_tokens output_tokens s =
     snd (reserve_request now today uuid team input_tokens output_tokens 0 None s)"

text \<open>\<open>deque.remove\<close> takes out the first equal element; its \<open>ValueError\<close> is suppressed.\<close>

definition refund_reservation ::
  "rat \<Rightarrow> string \<Rightarrow> QuotaReservation \<Rightarrow> TenantAttributionStore \<Rightarrow> TenantAttributionStore" where
  "refund_reservation now today r s =
     (case tenant_get now today (qr_team r) s of (u, s) \<Rightarrow>
        let (u, s) = (case dict_get (members s) (qr_member r) of
              Some stamp \<Rightarrow> (u\<lparr>request_times := remove1 stamp (request_times u)\<rparr>,
                             s\<lparr>members := dict_pop (qr_member r) (members s)\<rparr>)
            | None \<Rightarrow> (u, s));
            u = u\<lparr>tokens_today := max 0 (tokens_today u - reserved_tokens r),
                  spend_usd := max 0 (spend_usd u - reserved_spend r)\<rparr>
        in put_usage (qr_team r) u s)"

definition reconcile_usage ::
  "rat \<Rightarrow> string \<Rightarrow> QuotaReservation \<Rightarrow> int \<Rightarrow> int \<Rightarrow> rat \<Rightarrow> TenantAttributionStore
    \<Rightarrow> (int \<times> rat) \<times> TenantAttributionStore" where
  "reconcile_usage now today r actual_input actual_output actual_spend s =
     (case tenant_get now today (qr_team r) s of (u, s) \<Rightarrow>
        let token_delta = actual_input + actual_output - reserved_tokens r;
            spend_delta = actual_spend - reserved_spend r;
            u = u\<lparr>tokens_today := max 0 (tokens_today u + token_delta),
                  spend_usd := max 0 (spend_usd u + spend_delta)\<rparr>
        in ((tokens_today u, spend_usd u), put_usage (qr_team r) u s))"

definition usage_snapshot ::
  "rat \<Rightarrow> string \<Rightarrow> string \<Rightarrow> TenantAttributionStore \<Rightarrow> (nat \<times> int) \<times> TenantAttributionStore" where
  "usage_snapshot now today team s =
     (case tenant_get now today team s of (u, s) \<Rightarrow> ((length (request_times u), tokens_today u), s))"

definition spend_snapshot ::
  "rat \<Rightarrow> string \<Rightarrow> string \<Rightarrow> TenantAttributionStore \<Rightarrow> rat \<times> TenantAttributionStore" where
  "spend_snapshot now today team s = (case tenant_get now today team s of (u, s) \<Rightarrow> (spend_usd u, s))"

text \<open>The operations as events: a run of the store on one day.\<close>

datatype quota_event =
    QReserve rat string string int int rat
  | QRefund rat QuotaReservation
  | QReconcile rat QuotaReservation int int rat
  | QLook rat string

fun quota_event_team :: "quota_event \<Rightarrow> string" where
  "quota_event_team (QReserve now uuid team i out spend) = team"
| "quota_event_team (QRefund now r) = qr_team r"
| "quota_event_team (QReconcile now r i out spend) = qr_team r"
| "quota_event_team (QLook now team) = team"

fun quota_apply :: "string \<Rightarrow> quota_event \<Rightarrow> TenantAttributionStore \<Rightarrow> TenantAttributionStore" where
  "quota_apply today (QReserve now uuid team i out spend) s = snd (reserve_request now today uuid team i out spend None s)"
| "quota_apply today (QRefund now r) s = refund_reservation now today r s"
| "quota_apply today (QReconcile now r i out spend) s = snd (reconcile_usage now today r i out spend s)"
| "quota_apply today (QLook now team) s = snd (usage_snapshot now today team s)"

definition quota_run :: "string \<Rightarrow> quota_event list \<Rightarrow> TenantAttributionStore \<Rightarrow> TenantAttributionStore" where
  "quota_run today es s = fold (quota_apply today) es s"

lemmas quota_defs = reserve_request_def refund_reservation_def reconcile_usage_def usage_snapshot_def
  spend_snapshot_def tenant_get_def put_usage_def Let_def refreshed_def

subsection \<open>The ledger the counters stand for\<close>

text \<open>
  What the counters of one day promise: the reservations still open and, per team, the tokens
  and the spend of the reconciled ones. The requests of the gateway reserve, and resolve each
  reservation once, by a refund or by reconciling it; looking changes nothing.
\<close>

record ledger =
  open_reservations :: "QuotaReservation list"
  charged_tokens :: "string \<Rightarrow> int"
  charged_spend :: "string \<Rightarrow> rat"

definition empty_ledger :: ledger where
  "empty_ledger = \<lparr>open_reservations = [], charged_tokens = (\<lambda>_. 0), charged_spend = (\<lambda>_. 0)\<rparr>"

definition open_tokens :: "ledger \<Rightarrow> string \<Rightarrow> int" where
  "open_tokens l team = sum_list (map reserved_tokens (filter (\<lambda>r. qr_team r = team) (open_reservations l)))"

definition open_spend :: "ledger \<Rightarrow> string \<Rightarrow> rat" where
  "open_spend l team = sum_list (map reserved_spend (filter (\<lambda>r. qr_team r = team) (open_reservations l)))"

definition close_reservation :: "QuotaReservation \<Rightarrow> ledger \<Rightarrow> ledger" where
  "close_reservation r l = l\<lparr>open_reservations := remove1 r (open_reservations l)\<rparr>"

definition charge_team :: "string \<Rightarrow> int \<Rightarrow> rat \<Rightarrow> ledger \<Rightarrow> ledger" where
  "charge_team team k x l =
     l\<lparr>charged_tokens := (charged_tokens l)(team := charged_tokens l team + k),
       charged_spend := (charged_spend l)(team := charged_spend l team + x)\<rparr>"

inductive quota_reach :: "string \<Rightarrow> TenantAttributionStore \<Rightarrow> ledger \<Rightarrow> bool" for today where
  start: "quota_reach today new_tenant_store empty_ledger"
| reserve: "quota_reach today s l \<Longrightarrow> 0 \<le> i \<Longrightarrow> 0 \<le> out \<Longrightarrow> 0 \<le> spend \<Longrightarrow>
    reserve_request now today uuid team i out spend mid s = (r, s') \<Longrightarrow>
    quota_reach today s' (l\<lparr>open_reservations := r # open_reservations l\<rparr>)"
| refund: "quota_reach today s l \<Longrightarrow> r \<in> set (open_reservations l) \<Longrightarrow>
    quota_reach today (refund_reservation now today r s) (close_reservation r l)"
| reconcile: "quota_reach today s l \<Longrightarrow> r \<in> set (open_reservations l) \<Longrightarrow> 0 \<le> i \<Longrightarrow> 0 \<le> out \<Longrightarrow> 0 \<le> spend \<Longrightarrow>
    quota_reach today (snd (reconcile_usage now today r i out spend s))
      (charge_team (qr_team r) (i + out) spend (close_reservation r l))"
| look: "quota_reach today s l \<Longrightarrow> quota_reach today (snd (usage_snapshot now today team s)) l"

text \<open>The counters of a team as a look on that day reads them.\<close>

definition day_counters :: "string \<Rightarrow> string \<Rightarrow> TenantAttributionStore \<Rightarrow> int \<times> rat" where
  "day_counters today team s =
     (let u = roll_day today (get_default (usage_of s) team new_usage) in (tokens_today u, spend_usd u))"

definition ledger_ok :: "ledger \<Rightarrow> bool" where
  "ledger_ok l \<longleftrightarrow>
     (\<forall>r\<in>set (open_reservations l). 0 \<le> reserved_tokens r \<and> 0 \<le> reserved_spend r)
     \<and> (\<forall>team. 0 \<le> charged_tokens l team \<and> 0 \<le> charged_spend l team)"

definition matches :: "string \<Rightarrow> TenantAttributionStore \<Rightarrow> ledger \<Rightarrow> bool" where
  "matches today s l \<longleftrightarrow>
     (\<forall>team. day_counters today team s
        = (charged_tokens l team + open_tokens l team, charged_spend l team + open_spend l team))"

lemma roll_day_again [simp]:
  "roll_day today (roll_day today u) = roll_day today u"
  "tokens_day (roll_day today u) = today"
  "tokens_day u = today \<Longrightarrow> roll_day today u = u"
  by (simp_all add: roll_day_def)

lemma roll_day_times [simp]:
  "tokens_today (roll_day today (u\<lparr>request_times := ts\<rparr>)) = tokens_today (roll_day today u)"
  "spend_usd (roll_day today (u\<lparr>request_times := ts\<rparr>)) = spend_usd (roll_day today u)"
  "request_times (roll_day today u) = request_times u"
  by (simp_all add: roll_day_def)

lemma day_counters_get:
  "day_counters today team' (snd (tenant_get now today team s)) = day_counters today team' s"
  by (simp add: day_counters_def tenant_get_def refreshed_def Let_def get_default_set)

lemma day_counters_look: "day_counters today team' (snd (usage_snapshot now today team s)) = day_counters today team' s"
proof -
  have "snd (usage_snapshot now today team s) = snd (tenant_get now today team s)"
    by (simp add: usage_snapshot_def split: prod.split)
  then show ?thesis by (simp add: day_counters_get)
qed

lemma day_counters_reserve:
  assumes "reserve_request now today uuid team i out spend mid s = (r, s')"
  shows "day_counters today team' s' =
      (if team' = team then (fst (day_counters today team' s) + i + out, snd (day_counters today team' s) + spend)
       else day_counters today team' s)"
    and "qr_team r = team" and "reserved_tokens r = i + out" and "reserved_spend r = spend"
  using assms by (auto simp: quota_defs day_counters_def get_default_set)

lemma day_counters_refund:
  "day_counters today team' (refund_reservation now today r s) =
      (if team' = qr_team r
       then (max 0 (fst (day_counters today team' s) - reserved_tokens r),
             max 0 (snd (day_counters today team' s) - reserved_spend r))
       else day_counters today team' s)"
  by (cases "dict_get (members s) (qr_member r)") (simp_all add: quota_defs day_counters_def get_default_set)

lemma day_counters_reconcile:
  "day_counters today team' (snd (reconcile_usage now today r i out spend s)) =
      (if team' = qr_team r
       then (max 0 (fst (day_counters today team' s) + (i + out - reserved_tokens r)),
             max 0 (snd (day_counters today team' s) + (spend - reserved_spend r)))
       else day_counters today team' s)"
  by (simp add: quota_defs day_counters_def get_default_set)

lemma sum_list_remove1:
  "r \<in> set rs \<Longrightarrow> P r \<Longrightarrow>
    sum_list (map f (filter P (remove1 r rs))) = sum_list (map f (filter P rs)) - (f r :: 'b::ab_group_add)"
  by (induction rs) (auto simp: algebra_simps)

lemma filter_remove1_other: "\<not> P r \<Longrightarrow> filter P (remove1 r rs) = filter P rs"
  by (induction rs) auto

subsection \<open>What any store of the counters promises\<close>

text \<open>The moves of a ledger, and the runs of a store \<open>step\<close> from \<open>s0\<close> beside the ledger they write.\<close>

datatype ledger_move =
    Opened QuotaReservation
  | Refunded QuotaReservation
  | Reconciled QuotaReservation int rat
  | Looked

fun moved :: "ledger_move \<Rightarrow> ledger \<Rightarrow> ledger" where
  "moved (Opened r) l = l\<lparr>open_reservations := r # open_reservations l\<rparr>"
| "moved (Refunded r) l = close_reservation r l"
| "moved (Reconciled r k x) l = charge_team (qr_team r) k x (close_reservation r l)"
| "moved Looked l = l"

fun move_ok :: "ledger \<Rightarrow> ledger_move \<Rightarrow> bool" where
  "move_ok l (Opened r) = (0 \<le> reserved_tokens r \<and> 0 \<le> reserved_spend r)"
| "move_ok l (Refunded r) = (r \<in> set (open_reservations l))"
| "move_ok l (Reconciled r k x) = (r \<in> set (open_reservations l) \<and> 0 \<le> k \<and> 0 \<le> x)"
| "move_ok l Looked = True"

inductive ledger_run :: "('s \<Rightarrow> ledger_move \<Rightarrow> 's \<Rightarrow> bool) \<Rightarrow> 's \<Rightarrow> 's \<Rightarrow> ledger \<Rightarrow> bool" for step s0 where
  start: "ledger_run step s0 s0 empty_ledger"
| move: "ledger_run step s0 s l \<Longrightarrow> move_ok l m \<Longrightarrow> step s m s' \<Longrightarrow> ledger_run step s0 s' (moved m l)"

definition open_sum :: "(QuotaReservation \<Rightarrow> 'a::monoid_add) \<Rightarrow> ledger \<Rightarrow> string \<Rightarrow> 'a" where
  "open_sum est l team = sum_list (map est (filter (\<lambda>r. qr_team r = team) (open_reservations l)))"

lemma ledger_ok_moved: "ledger_ok l \<Longrightarrow> move_ok l m \<Longrightarrow> ledger_ok (moved m l)"
  by (cases m) (auto simp: ledger_ok_def close_reservation_def charge_team_def dest: notin_set_remove1 set_remove1_subset [THEN subsetD])

lemma open_sum_moved:
  "open_sum est (moved (Opened r) l) t = open_sum est l t + (if qr_team r = t then est r else (0::'a::ab_group_add))"
  "r \<in> set (open_reservations l) \<Longrightarrow>
    open_sum est (moved (Refunded r) l) t = open_sum est l t - (if qr_team r = t then est r else (0::'a))"
  "r \<in> set (open_reservations l) \<Longrightarrow>
    open_sum est (moved (Reconciled r k x) l) t = open_sum est l t - (if qr_team r = t then est r else (0::'a))"
  by (simp_all add: open_sum_def close_reservation_def charge_team_def sum_list_remove1 filter_remove1_other)

text \<open>
  One counter per team: \<open>amount\<close> reads it, \<open>est\<close> is what a reservation holds of it, \<open>used\<close> what a
  finished request really used, \<open>charged\<close> the ledger's account of it.
\<close>

locale day_counter =
  fixes amount :: "'s \<Rightarrow> string \<Rightarrow> 'a::linordered_idom"
    and est :: "QuotaReservation \<Rightarrow> 'a"
    and used :: "int \<Rightarrow> rat \<Rightarrow> 'a"
    and charged :: "ledger \<Rightarrow> string \<Rightarrow> 'a"
    and step :: "'s \<Rightarrow> ledger_move \<Rightarrow> 's \<Rightarrow> bool"
    and good :: "'s \<Rightarrow> bool"
  assumes opened: "good s \<Longrightarrow> step s (Opened r) s' \<Longrightarrow> move_ok l (Opened r) \<Longrightarrow>
      good s' \<and> amount s' = (amount s)(qr_team r := amount s (qr_team r) + est r)"
    and refunded: "good s \<Longrightarrow> step s (Refunded r) s' \<Longrightarrow> move_ok l (Opened r) \<Longrightarrow>
      good s' \<and> amount s' = (amount s)(qr_team r := max 0 (amount s (qr_team r) - est r))"
    and reconciled: "good s \<Longrightarrow> step s (Reconciled r k x) s' \<Longrightarrow>
      good s' \<and> amount s' = (amount s)(qr_team r := max 0 (amount s (qr_team r) + (used k x - est r)))"
    and looked: "good s \<Longrightarrow> step s Looked s' \<Longrightarrow> good s' \<and> amount s' = amount s"
    and nonneg: "move_ok l (Opened r) \<Longrightarrow> 0 \<le> est r" "0 \<le> k \<Longrightarrow> 0 \<le> x \<Longrightarrow> 0 \<le> used k x"
      "ledger_ok l \<Longrightarrow> 0 \<le> charged l t"
    and account: "charged empty_ledger t = 0" "charged (moved (Opened r) l) = charged l"
      "charged (moved (Refunded r) l) = charged l"
      "charged (moved (Reconciled r k x) l) = (charged l)(qr_team r := charged l (qr_team r) + used k x)"
begin

lemma est_open:
  assumes "ledger_ok l" and "r \<in> set (open_reservations l)"
  shows "est r \<le> open_sum est l (qr_team r)" "0 \<le> open_sum est l t"
proof -
  have "0 \<le> est q" if "q \<in> set (open_reservations l)" for q
    using that assms(1) by (intro nonneg(1) [of l]) (simp add: ledger_ok_def)
  with assms(2) show "est r \<le> open_sum est l (qr_team r)" "0 \<le> open_sum est l t"
    unfolding open_sum_def by (auto intro!: member_le_sum_list sum_list_nonneg)
qed

text \<open>The floors at zero are never reached: the counter is the ledger's account and its open estimates.\<close>

lemma counter_is_exact:
  assumes "ledger_run step s0 s l" and "good s0" and "\<And>t. amount s0 t = 0"
  shows "ledger_ok l \<and> good s \<and> amount s t = charged l t + open_sum est l t"
  using assms(1)
proof (induction arbitrary: t rule: ledger_run.induct)
  case start
  with assms(2,3) show ?case by (simp add: account ledger_ok_def open_sum_def) (simp add: empty_ledger_def)
next
  case (move s l m s')
  then have ok: "ledger_ok l" "good s" and am: "amount s = (\<lambda>t. charged l t + open_sum est l t)" by auto
  have le: "est r \<le> charged l (qr_team r) + open_sum est l (qr_team r)" if "r \<in> set (open_reservations l)" for r
    using est_open [OF ok(1) that] nonneg(3) [OF ok(1), of "qr_team r"] by (simp add: add_increasing)
  have "good s' \<and> amount s' t = charged (moved m l) t + open_sum est (moved m l) t"
  proof (cases m)
    case (Opened r)
    with move.hyps show ?thesis using opened [OF ok(2)] by (fastforce simp: am account open_sum_moved simp del: moved.simps)
  next
    case (Refunded r)
    with move.hyps have "move_ok l (Opened r)" using ok(1) by (simp add: ledger_ok_def)
    with Refunded move.hyps le show ?thesis
      using refunded [OF ok(2), of r s'] by (auto simp: am account open_sum_moved simp del: moved.simps)
  next
    case (Reconciled r k x)
    with move.hyps have "0 \<le> used k x" and r: "r \<in> set (open_reservations l)" by (auto intro: nonneg(2))
    then have "0 \<le> charged l (qr_team r) + open_sum est l (qr_team r) + (used k x - est r)" using le [OF r] by simp
    with Reconciled move.hyps r show ?thesis
      using reconciled [OF ok(2), of r k x s'] by (auto simp: am account open_sum_moved simp del: moved.simps)
  next
    case Looked
    with move.hyps show ?thesis using looked [OF ok(2)] by (simp add: am)
  qed
  with ledger_ok_moved [OF ok(1) move.hyps(2)] show ?case by blast
qed

end

subsection \<open>The in-process store keeps the promise\<close>

fun mem_move :: "string \<Rightarrow> TenantAttributionStore \<Rightarrow> ledger_move \<Rightarrow> TenantAttributionStore \<Rightarrow> bool" where
  "mem_move today s (Opened r) s' =
     (\<exists>now uuid team i out spend mid. reserve_request now today uuid team i out spend mid s = (r, s'))"
| "mem_move today s (Refunded r) s' = (\<exists>now. s' = refund_reservation now today r s)"
| "mem_move today s (Reconciled r k x) s' =
     (\<exists>now i out. k = i + out \<and> s' = snd (reconcile_usage now today r i out x s))"
| "mem_move today s Looked s' = (\<exists>now team. s' = snd (usage_snapshot now today team s))"

lemma mem_opened:
  assumes "mem_move today s (Opened r) s'"
  shows "day_counters today t s' =
      (if t = qr_team r then (fst (day_counters today t s) + reserved_tokens r, snd (day_counters today t s) + reserved_spend r)
       else day_counters today t s)"
proof -
  from assms obtain now uuid team i out spend mid where "reserve_request now today uuid team i out spend mid s = (r, s')"
    by auto
  from day_counters_reserve [OF this] show ?thesis by (simp add: algebra_simps)
qed

declare mem_move.simps(1) [simp del]

interpretation tokens: day_counter "\<lambda>s t. fst (day_counters today t s)" reserved_tokens "\<lambda>k x. k" charged_tokens
    "mem_move today" "\<lambda>_. True" for today
  by unfold_locales
    (auto simp: day_counters_refund day_counters_reconcile day_counters_look close_reservation_def charge_team_def
      empty_ledger_def ledger_ok_def fun_eq_iff mem_opened)

interpretation spend: day_counter "\<lambda>s t. snd (day_counters today t s)" reserved_spend "\<lambda>k x. x" charged_spend
    "mem_move today" "\<lambda>_. True" for today
  by unfold_locales
    (auto simp: day_counters_refund day_counters_reconcile day_counters_look close_reservation_def charge_team_def
      empty_ledger_def ledger_ok_def fun_eq_iff mem_opened)

lemma quota_reach_run: "quota_reach today s l \<Longrightarrow> ledger_run (mem_move today) new_tenant_store s l"
proof (induction rule: quota_reach.induct)
  case (reserve s l i out spend now uuid team mid r s')
  then have "move_ok l (Opened r)" using day_counters_reserve(3,4) [OF reserve.hyps(5)] by simp
  moreover have "mem_move today s (Opened r) s'" unfolding mem_move.simps(1) using reserve.hyps(5) by blast
  ultimately show ?case using reserve.IH ledger_run.move [of "mem_move today" _ s l "Opened r" s'] by simp
next
  case (refund s l r now)
  then show ?case using ledger_run.move [of "mem_move today" _ s l "Refunded r"] by fastforce
next
  case (reconcile s l r i out spend now)
  then show ?case using ledger_run.move [of "mem_move today" _ s l "Reconciled r (i + out) spend"] by fastforce
next
  case (look s l now team)
  then show ?case using ledger_run.move [of "mem_move today" _ s l Looked] by fastforce
qed (rule ledger_run.start)

lemma quota_reach_matches: "quota_reach today s l \<Longrightarrow> ledger_ok l \<and> matches today s l"
proof -
  assume "quota_reach today s l"
  note run = quota_reach_run [OF this]
  have zero: "day_counters today t new_tenant_store = (0, 0)" for t
    by (simp add: day_counters_def new_tenant_store_def get_default_def new_usage_def roll_day_def)
  show ?thesis
    using tokens.counter_is_exact [OF run] spend.counter_is_exact [OF run]
    by (simp add: zero matches_def prod_eq_iff open_tokens_def open_spend_def open_sum_def)
qed

lemma snapshot_counters:
  "snd (fst (usage_snapshot now today team s)) = fst (day_counters today team s)"
  "fst (spend_snapshot now today team s) = snd (day_counters today team s)"
  by (simp_all add: quota_defs day_counters_def)

text \<open>
  C25: Within one UTC day the token counts are exact. Whatever requests of whatever teams
  reserved, refunded and reconciled in between, all on that day, the token count a snapshot of it
  reads for a team is exactly the actual tokens of its reconciled requests plus the estimates of
  its reservations still open: the floor at zero never hides a debit and a refunded request
  leaves no trace. Nothing is claimed of the spend, which the code adds up in binary floats and
  the model in exact numbers.
\<close>

theorem quota_counters_are_exact:
  assumes "quota_reach today s l"
  shows "snd (fst (usage_snapshot now today team s)) = charged_tokens l team + open_tokens l team"
  using quota_reach_matches [OF assms] by (simp add: matches_def snapshot_counters)

definition demo_reservation :: "QuotaReservation \<times> TenantAttributionStore" where
  "demo_reservation = reserve_request 10 ''2026-01-02'' ''u1'' ''sre'' 100 50 (1/4) None new_tenant_store"

lemma demo_reach:
  "quota_reach ''2026-01-02'' (snd demo_reservation) (empty_ledger\<lparr>open_reservations := [fst demo_reservation]\<rparr>)"
proof -
  have "open_reservations empty_ledger = []" by (simp add: empty_ledger_def)
  then show ?thesis
    using quota_reach.reserve [OF quota_reach.start, of 100 50 "1/4" 10 "''2026-01-02''" "''u1''" "''sre''" None
        "fst demo_reservation" "snd demo_reservation"]
    by (simp add: demo_reservation_def)
qed

theorem quota_counters_are_exact_witness:
  "fst (usage_snapshot 12 ''2026-01-02'' ''sre'' (snd demo_reservation)) = (1, 150)
    \<and> snd (fst (usage_snapshot 12 ''2026-01-02'' ''sre'' (snd demo_reservation)))
      = charged_tokens (empty_ledger\<lparr>open_reservations := [fst demo_reservation]\<rparr>) ''sre''
        + open_tokens (empty_ledger\<lparr>open_reservations := [fst demo_reservation]\<rparr>) ''sre''"
  using quota_counters_are_exact [OF demo_reach, of 12 "''sre''"] by simp code_simp

subsection \<open>The request window\<close>

lemma prune_sorted: "sorted ts \<Longrightarrow> prune_window now ts = filter (\<lambda>t. now - WINDOW_SECONDS \<le> t) ts"
  unfolding prune_window_def
proof (induction ts)
  case (Cons t ts)
  show ?case
  proof (cases "t < now - WINDOW_SECONDS")
    case False
    with Cons.prems have "\<forall>x\<in>set (t # ts). now - WINDOW_SECONDS \<le> x" by auto
    with False show ?thesis by (simp add: filter_id_conv)
  qed (use Cons in simp)
qed simp

text \<open>Requests of one team at the given clocks.\<close>

fun requests_at :: "string \<Rightarrow> string \<Rightarrow> rat list \<Rightarrow> TenantAttributionStore \<Rightarrow> TenantAttributionStore" where
  "requests_at today team [] s = s"
| "requests_at today team (t # ts) s = requests_at today team ts (record_request t today (show_nat (length ts)) team 1 1 s)"

definition team_times :: "string \<Rightarrow> TenantAttributionStore \<Rightarrow> rat list" where
  "team_times team s = request_times (get_default (usage_of s) team new_usage)"

lemma team_times_request:
  "team_times team' (record_request now today uuid team i out s) =
     (if team' = team then prune_window now (team_times team s) @ [now] else team_times team' s)"
  by (simp add: record_request_def quota_defs team_times_def get_default_set)

lemma requests_at_times:
  "sorted (ts0 @ ts) \<Longrightarrow> team_times team s = filter (\<lambda>t. c \<le> t) ts0 \<Longrightarrow> (\<forall>t\<in>set ts. c \<le> t - WINDOW_SECONDS) \<Longrightarrow>
    \<exists>c'. (c' = c \<or> c' + WINDOW_SECONDS \<in> set ts) \<and> team_times team (requests_at today team ts s) = filter (\<lambda>t. c' \<le> t) (ts0 @ ts)"
proof (induction ts arbitrary: ts0 s c)
  case Nil
  then show ?case by auto
next
  case (Cons t ts)
  let ?s = "record_request t today (show_nat (length ts)) team 1 1 s" and ?c = "t - WINDOW_SECONDS"
  have "sorted (filter (\<lambda>t. c \<le> t) ts0)" using Cons.prems(1) by (auto simp: sorted_append intro: sorted_filter [where f = id, simplified])
  moreover have "c \<le> ?c" using Cons.prems(3) by simp
  ultimately have "team_times team ?s = filter (\<lambda>t. ?c \<le> t) (ts0 @ [t])"
    by (auto simp: team_times_request Cons.prems(2) prune_sorted WINDOW_SECONDS_def intro!: filter_cong)
  moreover have "\<forall>x\<in>set ts. ?c \<le> x - WINDOW_SECONDS" "sorted ((ts0 @ [t]) @ ts)"
    using Cons.prems(1) by (auto simp: sorted_append WINDOW_SECONDS_def)
  ultimately obtain c' where c': "c' = ?c \<or> c' + WINDOW_SECONDS \<in> set ts"
    and "team_times team (requests_at today team ts ?s) = filter (\<lambda>t. c' \<le> t) ((ts0 @ [t]) @ ts)"
    using Cons.IH [of "ts0 @ [t]" ?s ?c] by blast
  moreover from c' have "c' + WINDOW_SECONDS \<in> set (t # ts)" by auto
  ultimately show ?case by auto
qed

text \<open>
  When the requests of a team come at clocks that never go back, a look at a later clock
  counts exactly the requests of the last sixty seconds, the boundary included: pruning only
  the old end of the window loses none and keeps no other.
\<close>

theorem window_counts_last_minute:
  assumes "sorted (ts @ [now])"
  shows "fst (fst (usage_snapshot now today team (requests_at today team ts new_tenant_store)))
      = length (filter (\<lambda>t. now - 60 \<le> t) ts)"
proof -
  have "\<exists>c. (ts = [] \<longrightarrow> c = 0) \<and> (\<forall>t\<in>set ts. c \<le> t - WINDOW_SECONDS)"
  proof (cases ts)
    case (Cons a as)
    with assms have "\<forall>t\<in>set ts. a - WINDOW_SECONDS \<le> t - WINDOW_SECONDS" by auto
    with Cons show ?thesis by auto
  qed simp
  then obtain c where c: "\<forall>t\<in>set ts. c \<le> t - WINDOW_SECONDS" by auto
  have t0: "team_times team new_tenant_store = filter (\<lambda>t. c \<le> t) []"
    by (simp add: team_times_def new_tenant_store_def get_default_def new_usage_def)
  have so: "sorted ([] @ ts)" using assms by (simp add: sorted_append)
  obtain c' where c': "c' = c \<or> c' + WINDOW_SECONDS \<in> set ts"
    and tt: "team_times team (requests_at today team ts new_tenant_store) = filter (\<lambda>t. c' \<le> t) ts"
    using requests_at_times [OF so t0 c] by auto
  have "\<forall>t\<in>set ts. now - 60 \<le> t \<longrightarrow> c' \<le> t"
  proof (intro ballI impI)
    fix t assume t: "t \<in> set ts" "now - 60 \<le> t"
    show "c' \<le> t"
    proof (cases "c' = c")
      case True
      with c t(1) show ?thesis by (force simp: WINDOW_SECONDS_def)
    next
      case False
      with c' assms have "c' + WINDOW_SECONDS \<le> now" by (auto simp: sorted_append)
      with t(2) show ?thesis by (simp add: WINDOW_SECONDS_def)
    qed
  qed
  then have "filter (\<lambda>t. now - 60 \<le> t) (filter (\<lambda>t. c' \<le> t) ts) = filter (\<lambda>t. now - 60 \<le> t) ts"
    by (auto intro!: filter_cong)
  moreover have "sorted (filter (\<lambda>t. c' \<le> t) ts)"
    using so by (auto intro: sorted_filter [where f = id, simplified])
  ultimately show ?thesis
    by (simp add: usage_snapshot_def tenant_get_def refreshed_def Let_def tt [unfolded team_times_def] prune_sorted WINDOW_SECONDS_def)
qed

theorem window_counts_last_minute_witness:
  "fst (fst (usage_snapshot 70 ''d'' ''sre'' (requests_at ''d'' ''sre'' [1, 10, 30, 65] new_tenant_store))) = 3"
  using window_counts_last_minute [of "[1, 10, 30, 65]" 70 "''d''" "''sre''"] by simp

subsection \<open>Teams, and the end of the day\<close>

lemma quota_apply_other:
  "quota_event_team e \<noteq> team \<Longrightarrow> dict_get (usage_of (quota_apply today e s)) team = dict_get (usage_of s) team"
  by (cases e) (auto simp: quota_defs dict_simps split: option.splits)

text \<open>
  No run of operations of other teams, on whatever days, changes what a snapshot reads for
  a team.
\<close>

theorem quota_isolates_teams:
  assumes "\<forall>e\<in>set es. quota_event_team e \<noteq> team"
  shows "fst (usage_snapshot now today team (quota_run day es s)) = fst (usage_snapshot now today team s)
    \<and> fst (spend_snapshot now today team (quota_run day es s)) = fst (spend_snapshot now today team s)"
proof -
  have "dict_get (usage_of (quota_run day es s)) team = dict_get (usage_of s) team"
    using assms unfolding quota_run_def by (induction es arbitrary: s) (simp_all add: quota_apply_other)
  then show ?thesis
    by (simp_all add: usage_snapshot_def spend_snapshot_def tenant_get_def Let_def get_default_def)
qed

theorem quota_isolates_teams_witness:
  "fst (usage_snapshot 12 ''2026-01-02'' ''sre'' (quota_run ''2026-01-03''
      [QReserve 11 ''u2'' ''ml'' 9 9 1, QReconcile 11 ((fst demo_reservation)\<lparr>qr_team := ''ml''\<rparr>) 5 5 2] (snd demo_reservation)))
    = fst (usage_snapshot 12 ''2026-01-02'' ''sre'' (snd demo_reservation))"
proof -
  have "\<forall>e\<in>set [QReserve 11 ''u2'' ''ml'' 9 9 1, QReconcile 11 ((fst demo_reservation)\<lparr>qr_team := ''ml''\<rparr>) 5 5 2].
      quota_event_team e \<noteq> ''sre''"
    by simp
  from quota_isolates_teams [OF this] show ?thesis by blast
qed

text \<open>
  A reservation made before midnight and refunded after it is taken out of the new day's
  counters, which never held it: requests of the new day disappear from the team's usage.
\<close>

theorem refund_after_midnight_erases_usage:
  "\<exists>r s s' r'. reserve_request 10 ''2026-01-02'' ''u1'' ''sre'' 100 50 1 None new_tenant_store = (r, s)
     \<and> reserve_request 20 ''2026-01-03'' ''u2'' ''sre'' 120 20 1 None s = (r', s')
     \<and> qr_tokens_today r' = 140 \<and> month_to_date r' = 1
     \<and> snd (fst (usage_snapshot 30 ''2026-01-03'' ''sre'' (refund_reservation 25 ''2026-01-03'' r s'))) = 0
     \<and> fst (spend_snapshot 30 ''2026-01-03'' ''sre'' (refund_reservation 25 ''2026-01-03'' r s')) = 0"
proof -
  obtain r s where a: "reserve_request 10 ''2026-01-02'' ''u1'' ''sre'' 100 50 1 None new_tenant_store = (r, s)" by fastforce
  obtain r' s' where b: "reserve_request 20 ''2026-01-03'' ''u2'' ''sre'' 120 20 1 None s = (r', s')" by fastforce
  note u = day_counters_reserve [OF a] day_counters_reserve [OF b]
  have s: "usage_of s = [(''sre'', \<lparr>request_times = [10], tokens_today = 150, spend_usd = 1, tokens_day = ''2026-01-02''\<rparr>)]"
    using a by (auto simp: quota_defs new_tenant_store_def get_default_def new_usage_def roll_day_def prune_window_def)
  then have "day_counters ''2026-01-03'' ''sre'' s = (0, 0)"
    by (simp add: day_counters_def get_default_def roll_day_def)
  moreover from this b have "qr_tokens_today r' = 140" "month_to_date r' = 1"
    by (auto simp: quota_defs day_counters_def get_default_set)
  ultimately show ?thesis
    using a b by (intro exI conjI) (assumption | simp add: snapshot_counters day_counters_refund u)+
qed

end
