(* ===== verification/Redis_Ops.thy ===== *)
theory Redis_Ops imports Py_Values begin

text \<open>
  The Redis commands the gateway's Lua scripts call, as a record of functions over an unknown
  server state, and the behaviour Redis documents for them: sorted sets, hashes and counters
  read after each write, keys that disappear when their time to live runs out, and \<open>EVALSHA\<close>,
  which runs a script at once or raises. Scripts touch each key with one type only. The client
  side of a call, reloading a script after \<open>NOSCRIPT\<close>, is the code's.
\<close>

record 'r redis =
  zscore :: "string \<Rightarrow> string \<Rightarrow> 'r \<Rightarrow> int option"
  zcard :: "string \<Rightarrow> 'r \<Rightarrow> nat"
  zrange_upto :: "string \<Rightarrow> int \<Rightarrow> 'r \<Rightarrow> string list"
  zadd :: "string \<Rightarrow> int \<Rightarrow> string \<Rightarrow> 'r \<Rightarrow> 'r"
  zrem :: "string \<Rightarrow> string \<Rightarrow> 'r \<Rightarrow> 'r"
  zrem_upto :: "string \<Rightarrow> int \<Rightarrow> 'r \<Rightarrow> 'r"
  hget :: "string \<Rightarrow> string \<Rightarrow> 'r \<Rightarrow> string option"
  hset :: "string \<Rightarrow> string \<Rightarrow> string \<Rightarrow> 'r \<Rightarrow> 'r"
  hdel :: "string \<Rightarrow> string \<Rightarrow> 'r \<Rightarrow> 'r"
  counter :: "string \<Rightarrow> 'r \<Rightarrow> int"
  incr :: "string \<Rightarrow> 'r \<Rightarrow> int \<times> 'r"
  pexpire :: "string \<Rightarrow> int \<Rightarrow> 'r \<Rightarrow> 'r"
  key_gone :: "string \<Rightarrow> 'r \<Rightarrow> 'r"

text \<open>All that can be read of a server: members with scores, hash fields, counters.\<close>

definition zsets :: "('r, 'm) redis_scheme \<Rightarrow> 'r \<Rightarrow> string \<Rightarrow> string \<Rightarrow> int option" where
  "zsets ops r = (\<lambda>k m. zscore ops k m r)"

definition hashes :: "('r, 'm) redis_scheme \<Rightarrow> 'r \<Rightarrow> string \<Rightarrow> string \<Rightarrow> string option" where
  "hashes ops r = (\<lambda>k f. hget ops k f r)"

definition counters :: "('r, 'm) redis_scheme \<Rightarrow> 'r \<Rightarrow> string \<Rightarrow> int" where
  "counters ops r = (\<lambda>k. counter ops k r)"

definition drop_upto :: "int \<Rightarrow> (string \<Rightarrow> int option) \<Rightarrow> string \<Rightarrow> int option" where
  "drop_upto x z = (\<lambda>m. case z m of None \<Rightarrow> None | Some s \<Rightarrow> if s \<le> x then None else Some s)"

definition redis_laws :: "('r, 'm) redis_scheme \<Rightarrow> bool" where
  "redis_laws ops \<longleftrightarrow>
     (\<forall>r k. finite (dom (zsets ops r k)) \<and> zcard ops k r = card (dom (zsets ops r k)))
     \<and> (\<forall>r k x. set (zrange_upto ops k x r) = {m. \<exists>s\<le>x. zsets ops r k m = Some s}
          \<and> distinct (zrange_upto ops k x r))
     \<and> (\<forall>r k s m. zsets ops (zadd ops k s m r) = (zsets ops r)(k := (zsets ops r k)(m \<mapsto> s))
          \<and> hashes ops (zadd ops k s m r) = hashes ops r \<and> counters ops (zadd ops k s m r) = counters ops r)
     \<and> (\<forall>r k m. zsets ops (zrem ops k m r) = (zsets ops r)(k := (zsets ops r k)(m := None))
          \<and> hashes ops (zrem ops k m r) = hashes ops r \<and> counters ops (zrem ops k m r) = counters ops r)
     \<and> (\<forall>r k x. zsets ops (zrem_upto ops k x r) = (zsets ops r)(k := drop_upto x (zsets ops r k))
          \<and> hashes ops (zrem_upto ops k x r) = hashes ops r \<and> counters ops (zrem_upto ops k x r) = counters ops r)
     \<and> (\<forall>r k f v. hashes ops (hset ops k f v r) = (hashes ops r)(k := (hashes ops r k)(f \<mapsto> v))
          \<and> zsets ops (hset ops k f v r) = zsets ops r \<and> counters ops (hset ops k f v r) = counters ops r)
     \<and> (\<forall>r k f. hashes ops (hdel ops k f r) = (hashes ops r)(k := (hashes ops r k)(f := None))
          \<and> zsets ops (hdel ops k f r) = zsets ops r \<and> counters ops (hdel ops k f r) = counters ops r)
     \<and> (\<forall>r k. fst (incr ops k r) = counters ops r k + 1
          \<and> counters ops (snd (incr ops k r)) = (counters ops r)(k := counters ops r k + 1)
          \<and> zsets ops (snd (incr ops k r)) = zsets ops r \<and> hashes ops (snd (incr ops k r)) = hashes ops r)
     \<and> (\<forall>r k ms. zsets ops (pexpire ops k ms r) = zsets ops r \<and> hashes ops (pexpire ops k ms r) = hashes ops r
          \<and> counters ops (pexpire ops k ms r) = counters ops r)
     \<and> (\<forall>r k. zsets ops (key_gone ops k r) = (zsets ops r)(k := (\<lambda>_. None))
          \<and> hashes ops (key_gone ops k r) = (hashes ops r)(k := (\<lambda>_. None))
          \<and> counters ops (key_gone ops k r) = (counters ops r)(k := 0))"

lemma redis_rules:
  assumes "redis_laws ops"
  shows "finite (dom (zsets ops r k))" "zcard ops k r = card (dom (zsets ops r k))"
    and "set (zrange_upto ops k x r) = {m. \<exists>s\<le>x. zsets ops r k m = Some s}"
    and "zsets ops (zadd ops k s m r) = (zsets ops r)(k := (zsets ops r k)(m \<mapsto> s))"
    and "hashes ops (zadd ops k s m r) = hashes ops r" "counters ops (zadd ops k s m r) = counters ops r"
    and "zsets ops (zrem ops k m r) = (zsets ops r)(k := (zsets ops r k)(m := None))"
    and "hashes ops (zrem ops k m r) = hashes ops r" "counters ops (zrem ops k m r) = counters ops r"
    and "zsets ops (zrem_upto ops k x r) = (zsets ops r)(k := drop_upto x (zsets ops r k))"
    and "hashes ops (zrem_upto ops k x r) = hashes ops r" "counters ops (zrem_upto ops k x r) = counters ops r"
    and "hashes ops (hset ops k f v r) = (hashes ops r)(k := (hashes ops r k)(f \<mapsto> v))"
    and "zsets ops (hset ops k f v r) = zsets ops r" "counters ops (hset ops k f v r) = counters ops r"
    and "hashes ops (hdel ops k f r) = (hashes ops r)(k := (hashes ops r k)(f := None))"
    and "zsets ops (hdel ops k f r) = zsets ops r" "counters ops (hdel ops k f r) = counters ops r"
    and "fst (incr ops k r) = counters ops r k + 1"
    and "counters ops (snd (incr ops k r)) = (counters ops r)(k := counters ops r k + 1)"
    and "zsets ops (snd (incr ops k r)) = zsets ops r" "hashes ops (snd (incr ops k r)) = hashes ops r"
    and "zsets ops (pexpire ops k ms r) = zsets ops r" "hashes ops (pexpire ops k ms r) = hashes ops r"
    and "counters ops (pexpire ops k ms r) = counters ops r"
    and "zsets ops (key_gone ops k r) = (zsets ops r)(k := (\<lambda>_. None))"
    and "hashes ops (key_gone ops k r) = (hashes ops r)(k := (\<lambda>_. None))"
    and "counters ops (key_gone ops k r) = (counters ops r)(k := 0)"
  using assms by (simp_all add: redis_laws_def)

subsection \<open>Running a script\<close>

type_synonym 'r script = "'r \<Rightarrow> int list \<times> 'r"

text \<open>
  The connection: \<open>EVALSHA\<close> of a script, answering its integers or the text of an exception, and
  \<open>SCRIPT LOAD\<close>, which may raise. The first load of the handles is part of the connection.
\<close>

record 'r connection =
  evalsha :: "'r script \<Rightarrow> 'r \<Rightarrow> (string + int list) \<times> 'r"
  script_load :: "'r \<Rightarrow> string option"

definition upper_char :: "char \<Rightarrow> char" where
  "upper_char c = (let n = cp c in if (97 \<le> n \<and> n \<le> 122) \<or> (224 \<le> n \<and> n \<le> 254 \<and> n \<noteq> 247) then char_of (n - 32) else c)"

definition eval_script :: "('r, 'm) connection_scheme \<Rightarrow> 'r script \<Rightarrow> 'r \<Rightarrow> (string + int list) \<times> 'r" where
  "eval_script conn script r =
     (case evalsha conn script r of
        (Inr v, r') \<Rightarrow> (Inr v, r')
      | (Inl e, r') \<Rightarrow>
          if \<not> contains ''NOSCRIPT'' (map upper_char e) then (Inl e, r')
          else (case script_load conn r' of Some e' \<Rightarrow> (Inl e', r') | None \<Rightarrow> evalsha conn script r'))"

text \<open>A script ran when it answered; after an exception it may have run or not, after \<open>NOSCRIPT\<close> it has not.\<close>

definition connection_laws :: "('r, 'm) connection_scheme \<Rightarrow> bool" where
  "connection_laws conn \<longleftrightarrow>
     (\<forall>script r. case evalsha conn script r of
        (Inr v, r') \<Rightarrow> (v, r') = script r
      | (Inl e, r') \<Rightarrow> r' = r \<or> (r' = snd (script r) \<and> \<not> contains ''NOSCRIPT'' (map upper_char e)))"

lemma eval_script_runs:
  assumes "connection_laws conn" and "eval_script conn script r = (res, r')"
  shows "(\<exists>v. res = Inr v \<and> (v, r') = script r) \<or> (\<exists>e. res = Inl e \<and> (r' = r \<or> r' = snd (script r)))"
proof -
  obtain a r1 where e: "evalsha conn script r = (a, r1)" by fastforce
  have l: "case evalsha conn script q of (Inr v, r') \<Rightarrow> (v, r') = script q
      | (Inl e, r') \<Rightarrow> r' = q \<or> (r' = snd (script q) \<and> \<not> contains ''NOSCRIPT'' (map upper_char e))" for q
    using assms(1) by (simp add: connection_laws_def)
  show ?thesis
  proof (cases a)
    case (Inr v)
    with e l [of r] assms(2) show ?thesis by (auto simp: eval_script_def)
  next
    case (Inl x)
    obtain b r2 where e2: "evalsha conn script r1 = (b, r2)" by fastforce
    show ?thesis
    proof (cases "contains ''NOSCRIPT'' (map upper_char x)")
      case False
      with Inl e l [of r] assms(2) show ?thesis by (auto simp: eval_script_def)
    next
      case True
      with Inl e l [of r] have "r1 = r" by simp
      with True Inl e e2 l [of r] assms(2) show ?thesis
        by (cases b) (auto simp: eval_script_def split: option.splits)
    qed
  qed
qed

subsection \<open>A server for the witnesses\<close>

text \<open>Per kind of value one table, every key with its members; a connection that always works, and one that never does.\<close>

record demo_server =
  d_zsets :: "(string \<times> string, int) dict"
  d_hashes :: "(string \<times> string, string) dict"
  d_counters :: "(string, int) dict"

definition empty_server :: demo_server where
  "empty_server = \<lparr>d_zsets = [], d_hashes = [], d_counters = []\<rparr>"

definition demo_members :: "string \<Rightarrow> (int \<Rightarrow> bool) \<Rightarrow> demo_server \<Rightarrow> string list" where
  "demo_members k P r =
     filter (\<lambda>m. case dict_get (d_zsets r) (k, m) of None \<Rightarrow> False | Some s \<Rightarrow> P s)
       (remdups (map (snd \<circ> fst) (d_zsets r)))"

definition demo_redis :: "demo_server redis" where
  "demo_redis = \<lparr>
     zscore = (\<lambda>k m r. dict_get (d_zsets r) (k, m)),
     zcard = (\<lambda>k r. length (demo_members k (\<lambda>_. True) r)),
     zrange_upto = (\<lambda>k x r. demo_members k (\<lambda>s. s \<le> x) r),
     zadd = (\<lambda>k s m r. r\<lparr>d_zsets := dict_set (k, m) s (d_zsets r)\<rparr>),
     zrem = (\<lambda>k m r. r\<lparr>d_zsets := dict_pop (k, m) (d_zsets r)\<rparr>),
     zrem_upto = (\<lambda>k x r. r\<lparr>d_zsets := fold (\<lambda>m. dict_pop (k, m)) (demo_members k (\<lambda>s. s \<le> x) r) (d_zsets r)\<rparr>),
     hget = (\<lambda>k f r. dict_get (d_hashes r) (k, f)),
     hset = (\<lambda>k f v r. r\<lparr>d_hashes := dict_set (k, f) v (d_hashes r)\<rparr>),
     hdel = (\<lambda>k f r. r\<lparr>d_hashes := dict_pop (k, f) (d_hashes r)\<rparr>),
     counter = (\<lambda>k r. get_default (d_counters r) k 0),
     incr = (\<lambda>k r. let n = get_default (d_counters r) k 0 + 1 in (n, r\<lparr>d_counters := dict_set k n (d_counters r)\<rparr>)),
     pexpire = (\<lambda>k ms r. r),
     key_gone = (\<lambda>k r. \<lparr>d_zsets = filter (\<lambda>p. fst (fst p) \<noteq> k) (d_zsets r),
                       d_hashes = filter (\<lambda>p. fst (fst p) \<noteq> k) (d_hashes r),
                       d_counters = dict_pop k (d_counters r)\<rparr>)\<rparr>"

definition up_connection :: "demo_server connection" where
  "up_connection = \<lparr>evalsha = (\<lambda>script r. case script r of (v, r') \<Rightarrow> (Inr v, r')), script_load = (\<lambda>_. None)\<rparr>"

definition down_connection :: "demo_server connection" where
  "down_connection = \<lparr>evalsha = (\<lambda>script r. (Inl ''Connection refused'', r)), script_load = (\<lambda>_. None)\<rparr>"

lemma up_connection_laws: "connection_laws up_connection"
  by (simp add: connection_laws_def up_connection_def split: prod.split)

lemma dict_get_fold_pop:
  "dict_get (fold (\<lambda>m. dict_pop (k, m)) ms d) (k', m') = (if k' = k \<and> m' \<in> set ms then None else dict_get d (k', m'))"
  by (induction ms arbitrary: d) (auto simp: dict_simps)

lemma dict_get_filter_key:
  "dict_get (filter (\<lambda>p. fst (fst p) \<noteq> k) d) (k', m) = (if k' = k then None else dict_get d (k', m))"
  by (induction d) auto

lemma demo_members_set: "set (demo_members k P r) = {m. \<exists>s. dict_get (d_zsets r) (k, m) = Some s \<and> P s}"
proof -
  have "m \<in> (snd \<circ> fst) ` set (d_zsets r)" if "dict_get (d_zsets r) (k, m) = Some s" for m s
    using map_of_SomeD [OF that] by (force simp: image_iff)
  then show ?thesis by (auto simp: demo_members_def split: option.splits)
qed

lemma demo_redis_laws: "redis_laws demo_redis"
proof -
  have c: "dom (zsets demo_redis r k) = set (demo_members k (\<lambda>_. True) r)" for r k
    by (auto simp: demo_members_set zsets_def demo_redis_def)
  have d: "distinct (demo_members k P r)" for k P r by (simp add: demo_members_def)
  have n: "finite {m. \<exists>s. dict_get (d_zsets r) (k, m) = Some s}"
    "card {m. \<exists>s. dict_get (d_zsets r) (k, m) = Some s} = length (demo_members k (\<lambda>_. True) r)" for r k
    using demo_members_set [of k "\<lambda>_. True" r] distinct_card [OF d, of k "\<lambda>_. True" r]
    by (simp_all, metis List.finite_set)
  show ?thesis
    unfolding redis_laws_def c
    by (auto simp: demo_members_set zsets_def hashes_def counters_def demo_redis_def d n fun_eq_iff
        dict_simps dict_get_fold_pop dict_get_filter_key drop_upto_def get_default_def Let_def split: option.splits)
qed

end
