(* ===== verification/Leases.thy ===== *)
theory Leases imports Redis_Ops begin

text \<open>
  The Lua scripts of \<open>app/gateway/admission.py\<close>: the fleet-wide semaphore of one scope as leases
  in a sorted set (lease id, expiry in milliseconds), their fencing tokens in a hash and the
  token counter. Each script runs at once on the server; its integer results are the lists the
  client reads.
\<close>

subsection \<open>The scripts\<close>

text \<open>\<open>tostring\<close> of a Lua number keeps fourteen digits; beyond that it prints an exponent.\<close>

definition lua_tostring :: "(int \<Rightarrow> string) \<Rightarrow> int \<Rightarrow> string" where
  "lua_tostring exponent_form n = (if \<bar>n\<bar> < 10 ^ 14 then show_int n else exponent_form n)"

definition purge_scope :: "('r, 'm) redis_scheme \<Rightarrow> string \<Rightarrow> string \<Rightarrow> int \<Rightarrow> 'r \<Rightarrow> int \<times> 'r" where
  "purge_scope ops lk tk now r =
     (let expired = zrange_upto ops lk now r
      in (int (length expired),
          if 0 < length expired then zrem_upto ops lk now (fold (hdel ops tk) expired r) else r))"

definition acquire_script ::
  "('r, 'm) redis_scheme \<Rightarrow> (int \<Rightarrow> string) \<Rightarrow> string \<Rightarrow> string \<Rightarrow> string \<Rightarrow> int \<Rightarrow> int \<Rightarrow> int \<Rightarrow> string \<Rightarrow> 'r script" where
  "acquire_script ops xf lk tk fk now ttl limit lease_id r =
     (case purge_scope ops lk tk now r of (expired_count, r) \<Rightarrow>
        let inflight = int (zcard ops lk r) in
        if limit \<le> inflight then ([0, inflight, expired_count], r)
        else (case incr ops fk r of (token, r) \<Rightarrow>
          let r = zadd ops lk (now + ttl) lease_id r;
              r = hset ops tk lease_id (lua_tostring xf token) r;
              r = pexpire ops fk (ttl * 8) (pexpire ops tk (ttl * 4) (pexpire ops lk (ttl * 4) r))
          in ([1, token, inflight + 1, expired_count], r)))"

definition renew_script ::
  "('r, 'm) redis_scheme \<Rightarrow> string \<Rightarrow> string \<Rightarrow> int \<Rightarrow> int \<Rightarrow> string \<Rightarrow> string \<Rightarrow> 'r script" where
  "renew_script ops lk tk now ttl lease_id token r =
     (if hget ops tk lease_id r \<noteq> Some token then ([0], r)
      else if zscore ops lk lease_id r = None then ([0], r)
      else ([1], pexpire ops tk (ttl * 4) (pexpire ops lk (ttl * 4) (zadd ops lk (now + ttl) lease_id r))))"

definition release_script :: "('r, 'm) redis_scheme \<Rightarrow> string \<Rightarrow> string \<Rightarrow> string \<Rightarrow> string \<Rightarrow> 'r script" where
  "release_script ops lk tk lease_id token r =
     (if hget ops tk lease_id r \<noteq> Some token then ([0], r)
      else ([1], hdel ops tk lease_id (zrem ops lk lease_id r)))"

definition purge_script :: "('r, 'm) redis_scheme \<Rightarrow> string \<Rightarrow> string \<Rightarrow> int \<Rightarrow> 'r script" where
  "purge_script ops lk tk now r =
     (case purge_scope ops lk tk now r of (n, r) \<Rightarrow> ([n, int (zcard ops lk r)], r))"

subsection \<open>What the scripts do to the scope\<close>

text \<open>The leases of a scope, the tokens, and the leases not yet expired at a time.\<close>

abbreviation leases :: "('r, 'm) redis_scheme \<Rightarrow> string \<Rightarrow> 'r \<Rightarrow> string \<Rightarrow> int option" where
  "leases ops lk r \<equiv> zsets ops r lk"

abbreviation tokens :: "('r, 'm) redis_scheme \<Rightarrow> string \<Rightarrow> 'r \<Rightarrow> string \<Rightarrow> string option" where
  "tokens ops tk r \<equiv> hashes ops r tk"

definition unexpired :: "('r, 'm) redis_scheme \<Rightarrow> string \<Rightarrow> int \<Rightarrow> 'r \<Rightarrow> string set" where
  "unexpired ops lk now r = {m. \<exists>s>now. leases ops lk r m = Some s}"

lemma dom_drop_upto: "dom (drop_upto x z) = {m. \<exists>s>x. z m = Some s}"
  by (auto simp: drop_upto_def split: option.splits if_splits)

lemma drop_upto_none: "(\<forall>m s. z m = Some s \<longrightarrow> x < s) \<Longrightarrow> drop_upto x z = z"
  by (force simp: drop_upto_def fun_eq_iff split: option.splits)

lemma fold_hdel:
  assumes "redis_laws ops"
  shows "zsets ops (fold (hdel ops tk) ms r) = zsets ops r" "counters ops (fold (hdel ops tk) ms r) = counters ops r"
    "hashes ops (fold (hdel ops tk) ms r) = (hashes ops r)(tk := (\<lambda>f. if f \<in> set ms then None else hashes ops r tk f))"
  by (induction ms arbitrary: r) (auto simp: redis_rules [OF assms] fun_eq_iff)

lemma purge_scope_spec:
  assumes laws: "redis_laws ops" and p: "purge_scope ops lk tk now r = (n, r')"
  shows "zsets ops r' = (zsets ops r)(lk := drop_upto now (leases ops lk r))"
    and "hashes ops r' = (hashes ops r)(tk := (\<lambda>m. if \<exists>s\<le>now. leases ops lk r m = Some s then None else tokens ops tk r m))"
    and "counters ops r' = counters ops r"
proof -
  let ?e = "zrange_upto ops lk now r"
  have set_e: "set ?e = {m. \<exists>s\<le>now. leases ops lk r m = Some s}" by (rule redis_rules [OF laws])
  have r': "r' = (if ?e = [] then r else zrem_upto ops lk now (fold (hdel ops tk) ?e r))"
    using p by (auto simp: purge_scope_def Let_def split: if_splits)
  have none: "?e = [] \<Longrightarrow> m \<noteq> m \<or> leases ops lk r m = Some s \<Longrightarrow> now < s" for m s
    using set_e by (auto simp: not_le [symmetric])
  show "counters ops r' = counters ops r" by (simp add: r' redis_rules [OF laws] fold_hdel [OF laws])
  show "zsets ops r' = (zsets ops r)(lk := drop_upto now (leases ops lk r))"
  proof (cases "?e = []")
    case True
    then have "drop_upto now (leases ops lk r) = leases ops lk r" using none by (intro drop_upto_none) blast
    with True show ?thesis by (simp add: r')
  qed (simp add: r' redis_rules [OF laws] fold_hdel [OF laws])
  show "hashes ops r' = (hashes ops r)(tk := (\<lambda>m. if \<exists>s\<le>now. leases ops lk r m = Some s then None else tokens ops tk r m))"
  proof (cases "?e = []")
    case True
    with set_e have nx: "(\<exists>s\<le>now. leases ops lk r m = Some s) = False" for m by auto
    have "(\<lambda>m. if \<exists>s\<le>now. leases ops lk r m = Some s then None else tokens ops tk r m) = tokens ops tk r"
      by (simp only: nx if_False)
    with True show ?thesis by (simp add: r')
  next
    case False
    then show ?thesis by (simp add: r' redis_rules(1-12) [OF laws] fold_hdel [OF laws] set_e)
  qed
qed

text \<open>Acquiring after the purge: refused when full, otherwise a new lease and a new token.\<close>

lemma acquire_script_spec:
  assumes laws: "redis_laws ops" and a: "acquire_script ops xf lk tk fk now ttl limit i r = (res, r')"
  obtains (full) r1 n where "purge_scope ops lk tk now r = (n, r1)" and "r' = r1"
      and "limit \<le> int (card (unexpired ops lk now r))"
      and "res = [0, int (card (unexpired ops lk now r)), n]"
  | (granted) r1 n where "purge_scope ops lk tk now r = (n, r1)"
      and "int (card (unexpired ops lk now r)) < limit"
      and "res = [1, counters ops r fk + 1, int (card (unexpired ops lk now r)) + 1, n]"
      and "zsets ops r' = (zsets ops r1)(lk := (leases ops lk r1)(i \<mapsto> now + ttl))"
      and "hashes ops r' = (hashes ops r1)(tk := (tokens ops tk r1)(i \<mapsto> lua_tostring xf (counters ops r fk + 1)))"
      and "counters ops r' = (counters ops r)(fk := counters ops r fk + 1)"
proof -
  obtain n r1 where p: "purge_scope ops lk tk now r = (n, r1)" by fastforce
  note ps = purge_scope_spec [OF laws p]
  have card: "int (zcard ops lk r1) = int (card (unexpired ops lk now r))"
    by (simp add: redis_rules(2) [OF laws] ps(1) dom_drop_upto unexpired_def)
  obtain token r2 where i: "incr ops fk r1 = (token, r2)" by fastforce
  then have tok: "token = counters ops r fk + 1"
    using redis_rules(19) [OF laws, of fk r1] ps(3) by simp
  have r2: "r2 = snd (incr ops fk r1)" using i by simp
  show thesis
  proof (cases "limit \<le> int (card (unexpired ops lk now r))")
    case True
    with a p card show thesis by (intro full) (auto simp: acquire_script_def Let_def)
  next
    case False
    then have "\<not> limit \<le> int (zcard ops lk r1)" using card by simp
    with a p i have res: "res = [1, token, int (zcard ops lk r1) + 1, n]"
      and r': "r' = pexpire ops fk (ttl * 8) (pexpire ops tk (ttl * 4) (pexpire ops lk (ttl * 4)
          (hset ops tk i (lua_tostring xf token) (zadd ops lk (now + ttl) i r2))))"
      by (simp_all add: acquire_script_def Let_def)
    show thesis
    proof (rule granted [OF p])
      show "res = [1, counters ops r fk + 1, int (card (unexpired ops lk now r)) + 1, n]"
        using res tok card by simp
      show "zsets ops r' = (zsets ops r1)(lk := (leases ops lk r1)(i \<mapsto> now + ttl))"
        by (simp add: r' redis_rules [OF laws] r2)
      show "hashes ops r' = (hashes ops r1)(tk := (tokens ops tk r1)(i \<mapsto> lua_tostring xf (counters ops r fk + 1)))"
        by (simp add: r' redis_rules [OF laws] r2 tok)
      show "counters ops r' = (counters ops r)(fk := counters ops r fk + 1)"
        by (simp add: r' redis_rules [OF laws] r2 ps(3))
    qed (use False in simp)
  qed
qed

lemma renew_script_spec:
  assumes laws: "redis_laws ops" and a: "renew_script ops lk tk now ttl i token r = (res, r')"
  obtains (refused) "res = [0]" and "r' = r" and "tokens ops tk r i \<noteq> Some token \<or> leases ops lk r i = None"
  | (renewed) "res = [1]" and "tokens ops tk r i = Some token" and "leases ops lk r i \<noteq> None"
      and "zsets ops r' = (zsets ops r)(lk := (leases ops lk r)(i \<mapsto> now + ttl))"
      and "hashes ops r' = hashes ops r" and "counters ops r' = counters ops r"
proof -
  have h: "hget ops tk i r = tokens ops tk r i" "zscore ops lk i r = leases ops lk r i"
    by (simp_all add: hashes_def zsets_def)
  show thesis
  proof (cases "tokens ops tk r i = Some token \<and> leases ops lk r i \<noteq> None")
    case True
    with a show thesis
      by (intro renewed) (auto simp: renew_script_def h redis_rules [OF laws])
  next
    case False
    with a show thesis by (intro refused) (auto simp: renew_script_def h split: if_splits)
  qed
qed

lemma release_script_spec:
  assumes laws: "redis_laws ops" and a: "release_script ops lk tk i token r = (res, r')"
  obtains (refused) "res = [0]" and "r' = r" and "tokens ops tk r i \<noteq> Some token"
  | (released) "res = [1]" and "tokens ops tk r i = Some token"
      and "zsets ops r' = (zsets ops r)(lk := (leases ops lk r)(i := None))"
      and "hashes ops r' = (hashes ops r)(tk := (tokens ops tk r)(i := None))"
      and "counters ops r' = counters ops r"
proof -
  have h: "hget ops tk i r = tokens ops tk r i" by (simp add: hashes_def)
  show thesis
  proof (cases "tokens ops tk r i = Some token")
    case True
    with a show thesis
      by (intro released) (auto simp: release_script_def h redis_rules [OF laws])
  next
    case False
    with a show thesis by (intro refused) (auto simp: release_script_def h split: if_splits)
  qed
qed

lemma purge_script_spec:
  assumes "purge_script ops lk tk now r = (res, r')"
  obtains n where "purge_scope ops lk tk now r = (n, r')" and "res = [n, int (zcard ops lk r')]"
  using assms by (auto simp: purge_script_def split: prod.splits)

subsection \<open>The fleet on one scope\<close>

text \<open>
  The steps any replica takes on a scope, with limits up to \<open>limit\<close>, the loss of the scope's
  keys, whose times to live run out together, the loss of the counter, whose own is longer, and
  whatever happens to other keys.
\<close>

inductive lease_step ::
    "('r, 'm) redis_scheme \<Rightarrow> (int \<Rightarrow> string) \<Rightarrow> string \<Rightarrow> string \<Rightarrow> string \<Rightarrow> int \<Rightarrow> string option \<Rightarrow> 'r \<Rightarrow> 'r \<Rightarrow> bool"
  for ops xf lk tk fk limit where
  acquire: "limit' \<le> limit \<Longrightarrow> lease_step ops xf lk tk fk limit (Some i) r (snd (acquire_script ops xf lk tk fk now ttl limit' i r))"
| renew: "lease_step ops xf lk tk fk limit None r (snd (renew_script ops lk tk now ttl i token r))"
| release: "lease_step ops xf lk tk fk limit None r (snd (release_script ops lk tk i token r))"
| purge: "lease_step ops xf lk tk fk limit None r (snd (purge_script ops lk tk now r))"
| keys_gone: "lease_step ops xf lk tk fk limit None r (key_gone ops tk (key_gone ops lk r))"
| counter_gone: "lease_step ops xf lk tk fk limit None r (key_gone ops fk r)"
| elsewhere: "zsets ops r' lk = zsets ops r lk \<Longrightarrow> hashes ops r' tk = hashes ops r tk \<Longrightarrow>
    lease_step ops xf lk tk fk limit None r r'"

inductive lease_run ::
    "('r, 'm) redis_scheme \<Rightarrow> (int \<Rightarrow> string) \<Rightarrow> string \<Rightarrow> string \<Rightarrow> string \<Rightarrow> int \<Rightarrow> string set \<Rightarrow> 'r \<Rightarrow> 'r \<Rightarrow> bool"
  for ops xf lk tk fk limit where
  stay: "lease_run ops xf lk tk fk limit {} r r"
| more: "lease_run ops xf lk tk fk limit ids r r' \<Longrightarrow> lease_step ops xf lk tk fk limit a r' r'' \<Longrightarrow>
    lease_run ops xf lk tk fk limit (ids \<union> set_option a) r r''"

definition scope_inv :: "('r, 'm) redis_scheme \<Rightarrow> string \<Rightarrow> string \<Rightarrow> int \<Rightarrow> 'r \<Rightarrow> bool" where
  "scope_inv ops lk tk limit r \<longleftrightarrow>
     dom (leases ops lk r) = dom (tokens ops tk r) \<and> int (card (dom (leases ops lk r))) \<le> limit"

lemma purge_keeps:
  assumes laws: "redis_laws ops" and "purge_scope ops lk tk now r = (n, r')" and inv: "scope_inv ops lk tk limit r"
  shows "scope_inv ops lk tk limit r'" and "dom (leases ops lk r') = unexpired ops lk now r"
proof -
  note ps = purge_scope_spec [OF assms(1,2)]
  show d: "dom (leases ops lk r') = unexpired ops lk now r"
    by (simp add: ps(1) dom_drop_upto unexpired_def)
  have "unexpired ops lk now r \<subseteq> dom (leases ops lk r)" by (auto simp: unexpired_def)
  then have "card (unexpired ops lk now r) \<le> card (dom (leases ops lk r))"
    by (intro card_mono redis_rules(1) [OF laws])
  moreover have "dom (tokens ops tk r') = unexpired ops lk now r"
  proof -
    have "m \<in> dom (tokens ops tk r') \<longleftrightarrow> m \<in> dom (leases ops lk r) \<and> \<not> (\<exists>s\<le>now. leases ops lk r m = Some s)" for m
      using inv by (auto simp: ps(2) scope_inv_def split: if_splits)
    moreover have "m \<in> unexpired ops lk now r \<longleftrightarrow> m \<in> dom (leases ops lk r) \<and> \<not> (\<exists>s\<le>now. leases ops lk r m = Some s)" for m
      by (cases "leases ops lk r m") (auto simp: unexpired_def)
    ultimately show ?thesis by blast
  qed
  ultimately show "scope_inv ops lk tk limit r'"
    using inv d unfolding scope_inv_def by (metis of_nat_le_iff order_trans)
qed

lemma acquire_keeps:
  assumes laws: "redis_laws ops" and a: "acquire_script ops xf lk tk fk now ttl limit' i r = (res, r')"
    and "limit' \<le> limit" and inv: "scope_inv ops lk tk limit r"
  shows "scope_inv ops lk tk limit r'"
  using laws a
proof (cases rule: acquire_script_spec)
  case (full r1 n)
  with purge_keeps [OF laws full(1) inv] show ?thesis by simp
next
  case (granted r1 n)
  note pk = purge_keeps [OF laws granted(1) inv]
  have "finite (unexpired ops lk now r)" using redis_rules(1) [OF laws, of r1 lk] pk(2) by simp
  then have "card (insert i (unexpired ops lk now r)) \<le> Suc (card (unexpired ops lk now r))"
    by (simp add: card_insert_if)
  with granted pk assms(3) show ?thesis by (auto simp: scope_inv_def)
qed

lemma lease_step_inv:
  assumes laws: "redis_laws ops" and "lease_step ops xf lk tk fk limit a r r'" and "scope_inv ops lk tk limit r"
    and "fk \<noteq> lk" "fk \<noteq> tk" "0 \<le> limit"
  shows "scope_inv ops lk tk limit r'"
  using assms(2)
proof (cases rule: lease_step.cases)
  case (acquire limit' i now ttl)
  then show ?thesis using acquire_keeps [OF laws prod.collapse [symmetric]] assms(3) by metis
next
  case (renew now ttl i token)
  obtain res where e: "renew_script ops lk tk now ttl i token r = (res, r')" using renew(2) by (metis prod.collapse)
  from laws e show ?thesis
    by (cases rule: renew_script_spec) (use assms(3) in \<open>auto simp: scope_inv_def insert_absorb domIff\<close>)
next
  case (release i token)
  obtain res where e: "release_script ops lk tk i token r = (res, r')" using release(2) by (metis prod.collapse)
  from laws e show ?thesis
  proof (cases rule: release_script_spec)
    case released
    have "card (dom (leases ops lk r) - {i}) \<le> card (dom (leases ops lk r))"
      by (simp add: card_Diff1_le redis_rules(1) [OF laws])
    with released assms(3) show ?thesis by (auto simp: scope_inv_def)
  qed (use assms(3) in simp)
next
  case (purge now)
  obtain res where e: "purge_script ops lk tk now r = (res, r')" using purge(2) by (metis prod.collapse)
  then obtain n where "purge_scope ops lk tk now r = (n, r')" by (rule purge_script_spec)
  with purge_keeps(1) [OF laws _ assms(3)] show ?thesis by blast
next
  case keys_gone
  with assms(6) show ?thesis by (auto simp: scope_inv_def redis_rules [OF laws] dom_def)
next
  case counter_gone
  have "leases ops lk r' = leases ops lk r" "tokens ops tk r' = tokens ops tk r"
    using counter_gone assms(4,5) by (simp_all add: redis_rules(26,27) [OF laws])
  with assms(3) show ?thesis unfolding scope_inv_def by metis
next
  case elsewhere
  with assms(3) show ?thesis unfolding scope_inv_def by metis
qed

lemma lease_run_inv:
  assumes "lease_run ops xf lk tk fk limit ids r r'" and "redis_laws ops" and "scope_inv ops lk tk limit r"
    and "fk \<noteq> lk" "fk \<noteq> tk" "0 \<le> limit"
  shows "scope_inv ops lk tk limit r'"
  using assms by (induction rule: lease_run.induct) (auto intro: lease_step_inv)

text \<open>
  C23: Whatever the replicas of the fleet do on a scope, in any order, and whichever keys Redis
  drops when their time to live is over: starting without leases there are never more leases
  than the limit, and every lease has its fencing token and every token its lease.
\<close>

theorem fleet_limit_holds:
  assumes "redis_laws ops" and "lease_run ops xf lk tk fk limit ids r r'"
    and "zcard ops lk r = 0" and "hashes ops r tk = Map.empty"
    and "fk \<noteq> lk" "fk \<noteq> tk" "0 \<le> limit"
  shows "int (zcard ops lk r') \<le> limit \<and> dom (zsets ops r' lk) = dom (hashes ops r' tk)"
proof -
  have "dom (leases ops lk r) = {}" using assms(3) redis_rules(1,2) [OF assms(1)] by simp
  then have "scope_inv ops lk tk limit r" using assms(4,7) by (simp add: scope_inv_def)
  from lease_run_inv [OF assms(2,1) this assms(5-7)] show ?thesis
    unfolding scope_inv_def redis_rules(2) [OF assms(1)] by blast
qed

definition demo_acquire :: "int \<Rightarrow> string \<Rightarrow> demo_server \<Rightarrow> int list \<times> demo_server" where
  "demo_acquire now i r = acquire_script demo_redis (\<lambda>_. []) ''l'' ''t'' ''f'' now 30000 2 i r"

lemma demo_acquire_run:
  "lease_run demo_redis (\<lambda>_. []) ''l'' ''t'' ''f'' 2 ids r r' \<Longrightarrow>
    lease_run demo_redis (\<lambda>_. []) ''l'' ''t'' ''f'' 2 (ids \<union> {i}) r (snd (demo_acquire now i r'))"
  using lease_run.more [OF _ lease_step.acquire [of 2 2], of demo_redis "\<lambda>_. []" "''l''" "''t''" "''f''" ids r r' i now 30000]
  by (simp add: demo_acquire_def)

theorem fleet_limit_holds_witness:
  "fst (demo_acquire 5 ''c'' (snd (demo_acquire 2 ''b'' (snd (demo_acquire 1 ''a'' empty_server))))) = [0, 2, 0]
    \<and> int (zcard demo_redis ''l'' (snd (demo_acquire 5 ''c'' (snd (demo_acquire 2 ''b'' (snd (demo_acquire 1 ''a'' empty_server))))))) \<le> 2"
proof
  let ?r = "snd (demo_acquire 5 ''c'' (snd (demo_acquire 2 ''b'' (snd (demo_acquire 1 ''a'' empty_server)))))"
  have "lease_run demo_redis (\<lambda>_. []) ''l'' ''t'' ''f'' 2 ({} \<union> {''a''} \<union> {''b''} \<union> {''c''}) empty_server ?r"
    by (intro demo_acquire_run lease_run.stay)
  from fleet_limit_holds [OF demo_redis_laws this]
  show "int (zcard demo_redis ''l'' ?r) \<le> 2"
    by (simp add: demo_redis_def empty_server_def demo_members_def hashes_def)
qed code_simp

lemma lease_granted_iff_free':
  assumes "redis_laws ops" and "acquire_script ops xf lk tk fk now ttl limit i r = (res, r')"
  shows "(res ! 0 = 1) = (int (card (unexpired ops lk now r)) < limit)"
    and "res ! 0 = 1 \<Longrightarrow> zsets ops r' lk i = Some (now + ttl) \<and> res ! 1 = counters ops r fk + 1
      \<and> hashes ops r' tk i = Some (lua_tostring xf (res ! 1))"
    and "j \<noteq> i \<or> res ! 0 \<noteq> 1 \<Longrightarrow> zsets ops r' lk j = (if j \<in> unexpired ops lk now r then zsets ops r lk j else None)"
proof -
  have purged: "zsets ops r1 lk j = (if j \<in> unexpired ops lk now r then zsets ops r lk j else None)"
    if "purge_scope ops lk tk now r = (n, r1)" for r1 n j
    using purge_scope_spec(1) [OF assms(1) that]
    by (auto simp: drop_upto_def unexpired_def split: option.splits)
  have "((res ! 0 = 1) = (int (card (unexpired ops lk now r)) < limit))
    \<and> (res ! 0 = 1 \<longrightarrow> zsets ops r' lk i = Some (now + ttl) \<and> res ! 1 = counters ops r fk + 1
      \<and> hashes ops r' tk i = Some (lua_tostring xf (res ! 1)))
    \<and> (j \<noteq> i \<or> res ! 0 \<noteq> 1 \<longrightarrow> zsets ops r' lk j = (if j \<in> unexpired ops lk now r then zsets ops r lk j else None))"
    using assms by (cases rule: acquire_script_spec) (simp_all add: purged)
  then show "(res ! 0 = 1) = (int (card (unexpired ops lk now r)) < limit)"
    and "res ! 0 = 1 \<Longrightarrow> zsets ops r' lk i = Some (now + ttl) \<and> res ! 1 = counters ops r fk + 1
      \<and> hashes ops r' tk i = Some (lua_tostring xf (res ! 1))"
    and "j \<noteq> i \<or> res ! 0 \<noteq> 1 \<Longrightarrow> zsets ops r' lk j = (if j \<in> unexpired ops lk now r then zsets ops r lk j else None)"
    by blast+
qed

text \<open>
  The semaphore is exact at the time of the call: a lease is granted exactly when fewer than
  the limit are still unexpired, it runs until now plus its time to live, it carries a token one
  above the counter, and granting or refusing drops expired leases and no other.
\<close>

theorem lease_granted_iff_free:
  assumes "redis_laws ops" and "acquire_script ops xf lk tk fk now ttl limit i r = (res, r')"
  shows "(res ! 0 = 1) = (int (card (unexpired ops lk now r)) < limit)
    \<and> (res ! 0 = 1 \<longrightarrow> zsets ops r' lk i = Some (now + ttl) \<and> res ! 1 = counters ops r fk + 1
      \<and> hashes ops r' tk i = Some (lua_tostring xf (res ! 1)))
    \<and> (j \<noteq> i \<or> res ! 0 \<noteq> 1 \<longrightarrow> zsets ops r' lk j = (if j \<in> unexpired ops lk now r then zsets ops r lk j else None))"
  using lease_granted_iff_free' [OF assms] by blast

theorem lease_granted_iff_free_witness:
  "(fst (demo_acquire 1 ''a'' empty_server) ! 0 = 1) = (int (card (unexpired demo_redis ''l'' 1 empty_server)) < 2)"
proof -
  obtain res r' where e: "acquire_script demo_redis (\<lambda>_. []) ''l'' ''t'' ''f'' 1 30000 2 ''a'' empty_server = (res, r')"
    by fastforce
  from lease_granted_iff_free [OF demo_redis_laws e] show ?thesis by (simp add: demo_acquire_def e)
qed

lemma dead_step:
  assumes laws: "redis_laws ops" and "lease_step ops xf lk tk fk limit a r r'" and "tokens ops tk r i = None"
    and "a \<noteq> Some i" and "fk \<noteq> tk"
  shows "tokens ops tk r' i = None"
  using assms(2)
proof (cases rule: lease_step.cases)
  case (acquire limit' j now ttl)
  obtain res where e: "acquire_script ops xf lk tk fk now ttl limit' j r = (res, r')" using acquire(2) by (metis prod.collapse)
  have p: "tokens ops tk r1 i = None" if "purge_scope ops lk tk now r = (n, r1)" for r1 n
    using purge_scope_spec(2) [OF laws that] assms(3) by simp
  from laws e show ?thesis by (cases rule: acquire_script_spec) (use p acquire(1) assms(4) in auto)
next
  case (renew now ttl j token)
  obtain res where e: "renew_script ops lk tk now ttl j token r = (res, r')" using renew(2) by (metis prod.collapse)
  from laws e show ?thesis by (cases rule: renew_script_spec) (use assms(3) in auto)
next
  case (release j token)
  obtain res where e: "release_script ops lk tk j token r = (res, r')" using release(2) by (metis prod.collapse)
  from laws e show ?thesis by (cases rule: release_script_spec) (use assms(3) in auto)
next
  case (purge now)
  obtain res where e: "purge_script ops lk tk now r = (res, r')" using purge(2) by (metis prod.collapse)
  then obtain n where "purge_scope ops lk tk now r = (n, r')" by (rule purge_script_spec)
  from purge_scope_spec(2) [OF laws this] assms(3) show ?thesis by simp
next
  case keys_gone
  then show ?thesis by (simp add: redis_rules(27) [OF laws] assms(3))
next
  case counter_gone
  with assms(3,5) show ?thesis by (simp add: redis_rules(27) [OF laws])
qed (use assms(3) in simp)

text \<open>
  C27: A lease that lapsed stays dead. Once a purge ran at or after its expiry, through any later
  steps of the fleet that do not hand out the same id again, renewing or releasing it with
  whatever token answers 0 and changes nothing: a holder that slept through its expiry can
  neither come back nor free the slot of another.
\<close>

theorem lapsed_lease_stays_dead:
  assumes "redis_laws ops" and "zsets ops r lk i = Some expiry" and "expiry \<le> now"
    and "lease_run ops xf lk tk fk limit ids (snd (purge_script ops lk tk now r)) r'" and "i \<notin> ids" and "fk \<noteq> tk"
  shows "renew_script ops lk tk now' ttl i token r' = ([0], r') \<and> release_script ops lk tk i token r' = ([0], r')"
proof -
  let ?r = "snd (purge_script ops lk tk now r)"
  obtain res n where "purge_scope ops lk tk now r = (n, ?r)"
    using purge_script_spec [of ops lk tk now r _ ?r] by (metis prod.collapse)
  from purge_scope_spec(2) [OF assms(1) this] assms(2,3) have "tokens ops tk ?r i = None" by auto
  with assms(4,5) have "tokens ops tk r' i = None"
    by (induction rule: lease_run.induct) (auto intro: dead_step [OF assms(1) _ _ _ assms(6)])
  then show ?thesis
    by (simp_all add: renew_script_def release_script_def hashes_def)
qed

theorem lapsed_lease_stays_dead_witness:
  "release_script demo_redis ''l'' ''t'' ''a'' ''1''
      (snd (demo_acquire 40003 ''b'' (snd (purge_script demo_redis ''l'' ''t'' 40002 (snd (demo_acquire 1 ''a'' empty_server))))))
    = ([0], snd (demo_acquire 40003 ''b'' (snd (purge_script demo_redis ''l'' ''t'' 40002 (snd (demo_acquire 1 ''a'' empty_server))))))"
proof -
  let ?r = "snd (demo_acquire 1 ''a'' empty_server)"
  have z: "zsets demo_redis ?r ''l'' ''a'' = Some 30001" by code_simp
  have run: "lease_run demo_redis (\<lambda>_. []) ''l'' ''t'' ''f'' 2 ({} \<union> {''b''}) (snd (purge_script demo_redis ''l'' ''t'' 40002 ?r))
      (snd (demo_acquire 40003 ''b'' (snd (purge_script demo_redis ''l'' ''t'' 40002 ?r))))"
    by (intro demo_acquire_run lease_run.stay)
  show ?thesis
    using lapsed_lease_stays_dead [OF demo_redis_laws z _ run] by simp
qed

text \<open>
  Fencing tokens are not unique over the life of a lease: the counter's time to live is set
  by acquisitions only, so a lease that is renewed beyond it sees the counter start over, and
  the next lease gets the token the running one holds.
\<close>

theorem fencing_token_repeats:
  assumes "redis_laws ops" and "acquire_script ops xf lk tk fk now ttl limit i r = ([1, 1, k, n], r1)"
    and "renew_script ops lk tk now1 ttl i (lua_tostring xf 1) r1 = ([1], r2)"
    and "acquire_script ops xf lk tk fk now2 ttl limit j (key_gone ops fk r2) = ([1, token, k', n'], r3)"
    and "now2 < now1 + ttl" and "i \<noteq> j" and "distinct [lk, tk, fk]"
  shows "token = 1 \<and> hashes ops r3 tk i = hashes ops r3 tk j \<and> zsets ops r3 lk i = Some (now1 + ttl)"
proof -
  note laws = assms(1)
  have r2: "tokens ops tk r2 i = Some (lua_tostring xf 1) \<and> leases ops lk r2 i = Some (now1 + ttl)"
    using laws assms(3) by (cases rule: renew_script_spec) auto
  from laws assms(4) show ?thesis
  proof (cases rule: acquire_script_spec)
    case (granted r4 n4)
    note ps = purge_scope_spec [OF laws granted(1)]
    from r2 assms(5,7) have "tokens ops tk r4 i = Some (lua_tostring xf 1) \<and> leases ops lk r4 i = Some (now1 + ttl)"
      by (auto simp: ps redis_rules(26,27) [OF laws] drop_upto_def)
    with granted assms(6) show ?thesis by (simp add: redis_rules(28) [OF laws])
  qed simp
qed

theorem fencing_token_repeats_witness:
  "\<exists>r1 r2 r3. demo_acquire 0 ''a'' empty_server = ([1, 1, 1, 0], r1)
     \<and> renew_script demo_redis ''l'' ''t'' 20000 30000 ''a'' ''1'' r1 = ([1], r2)
     \<and> demo_acquire 40000 ''b'' (key_gone demo_redis ''f'' r2) = ([1, 1, 2, 0], r3)
     \<and> hashes demo_redis r3 ''t'' ''a'' = hashes demo_redis r3 ''t'' ''b''"
proof -
  obtain q1 q2 q3 where q: "q1 = snd (demo_acquire 0 ''a'' empty_server)"
    "q2 = snd (renew_script demo_redis ''l'' ''t'' 20000 30000 ''a'' ''1'' q1)"
    "q3 = snd (demo_acquire 40000 ''b'' (key_gone demo_redis ''f'' q2))" by blast
  have "fst (demo_acquire 0 ''a'' empty_server) = [1, 1, 1, 0]" by code_simp
  then have 1: "demo_acquire 0 ''a'' empty_server = ([1, 1, 1, 0], q1)" by (simp add: q prod_eq_iff)
  have "fst (renew_script demo_redis ''l'' ''t'' 20000 30000 ''a'' ''1'' q1) = [1]" unfolding q by code_simp
  then have 2: "renew_script demo_redis ''l'' ''t'' 20000 30000 ''a'' ''1'' q1 = ([1], q2)" by (simp add: q(2) prod_eq_iff)
  have "fst (demo_acquire 40000 ''b'' (key_gone demo_redis ''f'' q2)) = [1, 1, 2, 0]" unfolding q by code_simp
  then have 3: "demo_acquire 40000 ''b'' (key_gone demo_redis ''f'' q2) = ([1, 1, 2, 0], q3)" by (simp add: q(3) prod_eq_iff)
  have one: "lua_tostring (\<lambda>_. []) 1 = ''1''" by code_simp
  from fencing_token_repeats [OF demo_redis_laws 1 [unfolded demo_acquire_def] _ 3 [unfolded demo_acquire_def], of 20000] 2 one
  have "hashes demo_redis q3 ''t'' ''a'' = hashes demo_redis q3 ''t'' ''b''" by simp
  with 1 2 3 show ?thesis by blast
qed

end
