(* ===== verification/Admission.thy ===== *)
theory Admission imports Access Resilience Leases begin

text \<open>
  \<open>app/gateway/admission.py\<close>: admission under per-tenant, per-model limits. Without Redis every
  scope has an \<open>asyncio.Semaphore\<close>, a queue count and an in-flight count, which is the admission
  gate of \<open>Resilience\<close> kept in three tables; with Redis the limit is the fleet's lease set and
  the policy of the tenant decides what happens when Redis fails. A wait for a fleet slot is the
  list of its polls: what others did to the server before, the clock and the fresh uuid. Lease
  times are finite; metrics are left out; cancelling the renewal task is clearing its flag.
\<close>

subsection \<open>State\<close>

datatype AdmissionMode = Local | Redis | FailOpen | Degraded

record TenantAdmissionController =
  ac_bundle :: TenantPolicyBundle
  redis_configured :: bool
  lease_ttl_seconds :: rat
  renew_interval_seconds :: rat
  semaphores :: "(string, nat \<times> (string \<times> bool) list) dict"
  ac_queued :: "(string, int) dict"
  ac_inflight :: "(string, int) dict"
  redis_ok :: bool
  last_redis_error :: "string option"

record AdmissionLease =
  al_tenant :: string
  al_model :: string
  lease_id :: "string option"
  fencing_token :: "int option"
  al_mode :: AdmissionMode
  al_released :: bool
  renewing :: bool

definition env_float :: "environ \<Rightarrow> (string \<Rightarrow> string + pyfloat) \<Rightarrow> string \<Rightarrow> pyfloat \<Rightarrow> string + pyfloat" where
  "env_float env read_float name dflt =
     (let raw = strip (getenv env name '''') in
      if raw = [] then Inr dflt
      else bind_exc (read_float raw) (\<lambda>x. Inr (if f_gt x (1/10) then x else FDec 1 (-1))))"

definition seconds_or ::
  "environ \<Rightarrow> (string \<Rightarrow> string + pyfloat) \<Rightarrow> string \<Rightarrow> pyfloat \<Rightarrow> rat option \<Rightarrow> string + rat" where
  "seconds_or env read_float name dflt given =
     (case given of
        Some x \<Rightarrow> if x \<noteq> 0 then Inr x else bind_exc (env_float env read_float name dflt) (\<lambda>x. Inr (fval x))
      | None \<Rightarrow> bind_exc (env_float env read_float name dflt) (\<lambda>x. Inr (fval x)))"

definition new_controller ::
  "environ \<Rightarrow> (string \<Rightarrow> string + pyfloat) \<Rightarrow> TenantPolicyBundle \<Rightarrow> bool \<Rightarrow> rat option \<Rightarrow> rat option
    \<Rightarrow> string + TenantAdmissionController" where
  "new_controller env read_float bundle redis ttl interval =
     bind_exc (seconds_or env read_float ''ADMISSION_LEASE_TTL_SECONDS'' (FDec 30 0) ttl) (\<lambda>ttl.
     bind_exc (seconds_or env read_float ''ADMISSION_LEASE_RENEW_INTERVAL_SECONDS'' (FDec 10 0) interval) (\<lambda>interval.
       Inr \<lparr>ac_bundle = bundle, redis_configured = redis, lease_ttl_seconds = ttl, renew_interval_seconds = interval,
            semaphores = [], ac_queued = [], ac_inflight = [], redis_ok = redis, last_redis_error = None\<rparr>))"

definition controller_status ::
  "TenantAdmissionController \<Rightarrow> AdmissionMode \<times> bool \<times> bool option \<times> rat \<times> rat \<times> string option" where
  "controller_status c =
     (if \<not> redis_configured c then Local else if redis_ok c then Redis else Degraded,
      redis_configured c, if redis_configured c then Some (redis_ok c) else None,
      lease_ttl_seconds c, renew_interval_seconds c, last_redis_error c)"

definition scope_key :: "string \<Rightarrow> string \<Rightarrow> string" where
  "scope_key tenant_id model = tenant_id @ '':'' @ model"

definition leases_key :: "string \<Rightarrow> string \<Rightarrow> string" where
  "leases_key tenant_id model = ''arp:'' @ tenant_id @ '':admission:'' @ model @ '':leases''"

definition tokens_key :: "string \<Rightarrow> string \<Rightarrow> string" where
  "tokens_key tenant_id model = ''arp:'' @ tenant_id @ '':admission:'' @ model @ '':tokens''"

definition fence_key :: "string \<Rightarrow> string \<Rightarrow> string" where
  "fence_key tenant_id model = ''arp:'' @ tenant_id @ '':admission:'' @ model @ '':fence''"

definition concurrency_exceeded :: "int \<Rightarrow> HTTPException" where
  "concurrency_exceeded limit =
     plain_error 429 ''rate_limit_error'' ''tenant_concurrency_exceeded'' ''tenant concurrent request limit exceeded''
       [(''Retry-After'', ''1''), (''X-RateLimit-Limit'', show_int limit), (''X-RateLimit-Remaining'', ''0'')]"

definition store_unavailable :: HTTPException where
  "store_unavailable =
     plain_error 503 ''api_error'' ''admission_store_unavailable''
       ''fleet admission store unavailable; tenant policy is fail-closed for Redis outages'' [(''Retry-After'', ''1'')]"

definition new_lease :: "string \<Rightarrow> string \<Rightarrow> (string \<times> int) option \<Rightarrow> AdmissionMode \<Rightarrow> AdmissionLease" where
  "new_lease tenant_id model held mode =
     \<lparr>al_tenant = tenant_id, al_model = model, lease_id = map_option fst held, fencing_token = map_option snd held,
      al_mode = mode, al_released = False, renewing = False\<rparr>"

definition start_renewal :: "AdmissionLease \<Rightarrow> AdmissionLease" where
  "start_renewal al = (if al_mode al \<noteq> Redis \<or> renewing al then al else al\<lparr>renewing := True\<rparr>)"

definition redis_failed :: "string \<Rightarrow> TenantAdmissionController \<Rightarrow> TenantAdmissionController" where
  "redis_failed e c = c\<lparr>redis_ok := False, last_redis_error := Some e\<rparr>"

definition redis_works :: "TenantAdmissionController \<Rightarrow> TenantAdmissionController" where
  "redis_works c = c\<lparr>redis_ok := True, last_redis_error := None\<rparr>"

text \<open>\<open>ping\<close>: what the client raised, if it did.\<close>

definition admission_ping :: "string option \<Rightarrow> TenantAdmissionController \<Rightarrow> bool \<times> TenantAdmissionController" where
  "admission_ping raised c =
     (if \<not> redis_configured c then (True, c)
      else (case raised of None \<Rightarrow> (True, redis_works c) | Some e \<Rightarrow> (False, redis_failed e c)))"

subsection \<open>The local limit\<close>

text \<open>The gate of a scope: its semaphore, created with the tenant's limit, and its two counts.\<close>

definition scope_gate :: "string \<Rightarrow> string \<Rightarrow> TenantAdmissionController \<Rightarrow> AdmissionGate" where
  "scope_gate tenant_id model c =
     (let policy = for_tenant (ac_bundle c) tenant_id; key = scope_key tenant_id model;
          sem = get_default (semaphores c) key (nat (max_concurrent_requests policy), [])
      in \<lparr>max_inflight = max_concurrent_requests policy, max_queued = max_queued_requests policy,
          sem_value = fst sem, sem_waiters = snd sem,
          gate_queued = get_default (ac_queued c) key 0, gate_inflight = get_default (ac_inflight c) key 0\<rparr>)"

definition put_gate :: "string \<Rightarrow> AdmissionGate \<Rightarrow> TenantAdmissionController \<Rightarrow> TenantAdmissionController" where
  "put_gate key g c =
     c\<lparr>semaphores := dict_set key (sem_value g, sem_waiters g) (semaphores c),
       ac_queued := dict_set key (gate_queued g) (ac_queued c),
       ac_inflight := dict_set key (gate_inflight g) (ac_inflight c)\<rparr>"

datatype admission_outcome = Lease AdmissionLease | Refused HTTPException | Pending

text \<open>\<open>_acquire_local\<close> up to its first suspension, and the return of a task that waited.\<close>

definition acquire_local ::
  "AdmissionMode \<Rightarrow> string \<Rightarrow> string \<Rightarrow> string \<Rightarrow> TenantAdmissionController \<Rightarrow> admission_outcome \<times> TenantAdmissionController" where
  "acquire_local mode task tenant_id model c =
     (let g = scope_gate tenant_id model c in
      case gate_acquire task g of
        Inl e \<Rightarrow> (Refused (concurrency_exceeded (max_inflight g)), c)
      | Inr g' \<Rightarrow> (if sem_locked g then Pending else Lease (new_lease tenant_id model None mode),
                   put_gate (scope_key tenant_id model) g' c))"

definition resume_local ::
  "AdmissionMode \<Rightarrow> string \<Rightarrow> string \<Rightarrow> string \<Rightarrow> TenantAdmissionController \<Rightarrow> AdmissionLease \<times> TenantAdmissionController" where
  "resume_local mode task tenant_id model c =
     (new_lease tenant_id model None mode,
      put_gate (scope_key tenant_id model) (gate_resume task (scope_gate tenant_id model c)) c)"

definition cancel_local :: "string \<Rightarrow> string \<Rightarrow> string \<Rightarrow> TenantAdmissionController \<Rightarrow> TenantAdmissionController" where
  "cancel_local task tenant_id model c =
     put_gate (scope_key tenant_id model) (gate_cancel task (scope_gate tenant_id model c)) c"

definition release_local :: "string \<Rightarrow> string \<Rightarrow> TenantAdmissionController \<Rightarrow> TenantAdmissionController" where
  "release_local tenant_id model c =
     put_gate (scope_key tenant_id model) (gate_release (scope_gate tenant_id model c)) c"

subsection \<open>The fleet limit\<close>

definition ttl_ms :: "TenantAdmissionController \<Rightarrow> int" where
  "ttl_ms c = trunc_rat (lease_ttl_seconds c * 1000)"

definition take_ticket :: "string \<Rightarrow> TenantAdmissionController \<Rightarrow> TenantAdmissionController" where
  "take_ticket scope c = c\<lparr>ac_queued := dict_set scope (get_default (ac_queued c) scope 0 + 1) (ac_queued c)\<rparr>"

definition drop_ticket :: "string \<Rightarrow> bool \<Rightarrow> TenantAdmissionController \<Rightarrow> TenantAdmissionController" where
  "drop_ticket scope acquired c =
     c\<lparr>ac_queued := dict_set scope (max 0 (get_default (ac_queued c) scope 1 - 1)) (ac_queued c),
       ac_inflight := (if acquired then dict_set scope (get_default (ac_inflight c) scope 0 + 1) (ac_inflight c)
                       else ac_inflight c)\<rparr>"

datatype poll_result = Granted string int | Full | Fault string | Waiting

fun poll_slot ::
  "('r, 'm) redis_scheme \<Rightarrow> ('r, 'n) connection_scheme \<Rightarrow> (int \<Rightarrow> string) \<Rightarrow> string \<Rightarrow> string \<Rightarrow> TenantRuntimePolicy \<Rightarrow> int
    \<Rightarrow> (('r \<Rightarrow> 'r) \<times> int \<times> string) list \<Rightarrow> 'r \<Rightarrow> poll_result \<times> 'r" where
  "poll_slot ops conn xf tenant_id model policy ttl [] r = (Waiting, r)"
| "poll_slot ops conn xf tenant_id model policy ttl ((elsewhere, now, uuid) # polls) r =
     (case eval_script conn (acquire_script ops xf (leases_key tenant_id model) (tokens_key tenant_id model)
             (fence_key tenant_id model) now ttl (max_concurrent_requests policy) uuid) (elsewhere r) of
        (Inl e, r') \<Rightarrow> (Fault e, r')
      | (Inr res, r') \<Rightarrow>
          if res ! 0 = 1 then (Granted uuid (res ! 1), r')
          else if max_queued_requests policy = 0 then (Full, r')
          else poll_slot ops conn xf tenant_id model policy ttl polls r')"

definition end_wait :: "string \<Rightarrow> poll_result \<Rightarrow> TenantAdmissionController \<Rightarrow> TenantAdmissionController" where
  "end_wait scope res c =
     (case res of
        Granted i token \<Rightarrow> drop_ticket scope True (redis_works c)
      | Waiting \<Rightarrow> c
      | _ \<Rightarrow> drop_ticket scope False c)"

definition acquire_redis ::
  "('r, 'm) redis_scheme \<Rightarrow> ('r, 'n) connection_scheme \<Rightarrow> (int \<Rightarrow> string) \<Rightarrow> int \<Rightarrow> (('r \<Rightarrow> 'r) \<times> int \<times> string) list
    \<Rightarrow> string \<Rightarrow> string \<Rightarrow> TenantAdmissionController \<Rightarrow> 'r \<Rightarrow> poll_result \<times> TenantAdmissionController \<times> 'r" where
  "acquire_redis ops conn xf probe_now polls tenant_id model c r =
     (let policy = for_tenant (ac_bundle c) tenant_id; scope = scope_key tenant_id model;
          queued = get_default (ac_queued c) scope 0 in
      case eval_script conn (purge_script ops (leases_key tenant_id model) (tokens_key tenant_id model) probe_now) r of
        (Inl e, r) \<Rightarrow> (Fault e, c, r)
      | (Inr probe, r) \<Rightarrow>
          if max_concurrent_requests policy \<le> probe ! 1 \<and> max_queued_requests policy \<le> queued then (Full, c, r)
          else let c = take_ticket scope c in
            (case poll_slot ops conn xf tenant_id model policy (ttl_ms c) polls r of
               (res, r) \<Rightarrow> (res, end_wait scope res c, r)))"

definition acquire_unavailable ::
  "string \<Rightarrow> string \<Rightarrow> string \<Rightarrow> TenantAdmissionController \<Rightarrow> admission_outcome \<times> TenantAdmissionController" where
  "acquire_unavailable task tenant_id model c =
     (case redis_unavailable_policy (for_tenant (ac_bundle c) tenant_id) of
        fail_closed \<Rightarrow> (Refused store_unavailable, c)
      | fail_open \<Rightarrow> (Lease (new_lease tenant_id model None FailOpen), c)
      | degraded \<Rightarrow> acquire_local Degraded task tenant_id model c)"

definition acquire_lease ::
  "('r, 'm) redis_scheme \<Rightarrow> ('r, 'n) connection_scheme \<Rightarrow> (int \<Rightarrow> string) \<Rightarrow> int \<Rightarrow> (('r \<Rightarrow> 'r) \<times> int \<times> string) list
    \<Rightarrow> string \<Rightarrow> string \<Rightarrow> string option \<Rightarrow> TenantAdmissionController \<Rightarrow> 'r
    \<Rightarrow> admission_outcome \<times> TenantAdmissionController \<times> 'r" where
  "acquire_lease ops conn xf probe_now polls task tenant_id model c r =
     (let model = (case model of Some m \<Rightarrow> str_or m ''*'' | None \<Rightarrow> ''*'') in
      if redis_configured c then
        (case acquire_redis ops conn xf probe_now polls tenant_id model c r of
           (Granted i token, c, r) \<Rightarrow> (Lease (start_renewal (new_lease tenant_id model (Some (i, token)) Redis)), c, r)
         | (Full, c, r) \<Rightarrow> (Refused (concurrency_exceeded (max_concurrent_requests (for_tenant (ac_bundle c) tenant_id))), c, r)
         | (Waiting, c, r) \<Rightarrow> (Pending, c, r)
         | (Fault e, c, r) \<Rightarrow>
             (case acquire_unavailable task tenant_id model (redis_failed e c) of (res, c) \<Rightarrow> (res, c, r)))
      else (case acquire_local Local task tenant_id model c of (res, c) \<Rightarrow> (res, c, r)))"

definition inflight_count ::
  "('r, 'm) redis_scheme \<Rightarrow> ('r, 'n) connection_scheme \<Rightarrow> int \<Rightarrow> string \<Rightarrow> string \<Rightarrow> TenantAdmissionController \<Rightarrow> 'r
    \<Rightarrow> int \<times> TenantAdmissionController \<times> 'r" where
  "inflight_count ops conn now tenant_id model c r =
     (let counted = get_default (ac_inflight c) (scope_key tenant_id model) 0 in
      if redis_configured c \<and> redis_ok c then
        (case eval_script conn (purge_script ops (leases_key tenant_id model) (tokens_key tenant_id model) now) r of
           (Inr res, r) \<Rightarrow> (res ! 1, c, r)
         | (Inl e, r) \<Rightarrow> (counted, redis_failed e c, r))
      else (counted, c, r))"

definition controller_release ::
  "('r, 'm) redis_scheme \<Rightarrow> ('r, 'n) connection_scheme \<Rightarrow> int \<Rightarrow> AdmissionLease \<Rightarrow> TenantAdmissionController \<Rightarrow> 'r
    \<Rightarrow> TenantAdmissionController \<times> 'r" where
  "controller_release ops conn now al c r =
     (let tenant_id = al_tenant al; model = al_model al; scope = scope_key tenant_id model in
      if al_mode al = Local \<or> al_mode al = Degraded then (release_local tenant_id model c, r)
      else if al_mode al = FailOpen then (c, r)
      else (case (lease_id al, fencing_token al) of
          (Some i, Some token) \<Rightarrow>
            if redis_configured c then
              (case eval_script conn (release_script ops (leases_key tenant_id model) (tokens_key tenant_id model) i (show_int token)) r of
                 (Inl e, r) \<Rightarrow> (redis_failed e c, r)
               | (Inr _, r) \<Rightarrow>
                   let c = c\<lparr>ac_inflight := dict_set scope (max 0 (get_default (ac_inflight c) scope 1 - 1)) (ac_inflight c)\<rparr>
                   in snd (inflight_count ops conn now tenant_id model c r))
            else (c, r)
        | _ \<Rightarrow> (c, r)))"

definition lease_release ::
  "('r, 'm) redis_scheme \<Rightarrow> ('r, 'n) connection_scheme \<Rightarrow> int \<Rightarrow> AdmissionLease \<Rightarrow> TenantAdmissionController \<Rightarrow> 'r
    \<Rightarrow> AdmissionLease \<times> TenantAdmissionController \<times> 'r" where
  "lease_release ops conn now al c r =
     (if al_released al then (al, c, r)
      else let al = al\<lparr>al_released := True, renewing := False\<rparr> in (al, controller_release ops conn now al c r))"

definition renew_lease ::
  "('r, 'm) redis_scheme \<Rightarrow> ('r, 'n) connection_scheme \<Rightarrow> int \<Rightarrow> AdmissionLease \<Rightarrow> TenantAdmissionController \<Rightarrow> 'r
    \<Rightarrow> (string + bool) \<times> 'r" where
  "renew_lease ops conn now al c r =
     (case (lease_id al, fencing_token al) of
        (Some i, Some token) \<Rightarrow>
          if redis_configured c then
            (case eval_script conn (renew_script ops (leases_key (al_tenant al) (al_model al))
                    (tokens_key (al_tenant al) (al_model al)) now (ttl_ms c) i (show_int token)) r of
               (Inl e, r) \<Rightarrow> (Inl e, r)
             | (Inr res, r) \<Rightarrow> (Inr (res ! 0 = 1), r))
          else (Inr False, r)
      | _ \<Rightarrow> (Inr False, r))"

text \<open>
  \<open>_renew_loop\<close> over its wake-ups: whether the lease had been released meanwhile, what others did,
  the clock. The answer says whether the loop is still alive.
\<close>

fun renew_loop ::
  "('r, 'm) redis_scheme \<Rightarrow> ('r, 'n) connection_scheme \<Rightarrow> AdmissionLease \<Rightarrow> (bool \<times> ('r \<Rightarrow> 'r) \<times> int) list
    \<Rightarrow> TenantAdmissionController \<Rightarrow> 'r \<Rightarrow> bool \<times> TenantAdmissionController \<times> 'r" where
  "renew_loop ops conn al [] c r = (True, c, r)"
| "renew_loop ops conn al ((released, elsewhere, now) # ticks) c r =
     (if released then (False, c, elsewhere r)
      else (case renew_lease ops conn now al c (elsewhere r) of
          (Inl e, r) \<Rightarrow> (False, redis_failed e c, r)
        | (Inr ok, r) \<Rightarrow> if ok then renew_loop ops conn al ticks c r else (False, c, r)))"

subsection \<open>Lemmas\<close>

lemma scope_keys_distinct:
  "leases_key t m \<noteq> tokens_key t m" "fence_key t m \<noteq> leases_key t m" "fence_key t m \<noteq> tokens_key t m"
  by (auto simp: leases_key_def tokens_key_def fence_key_def)

lemma poll_granted:
  assumes laws: "connection_laws conn"
  shows "poll_slot ops conn xf t m policy ttl polls r = (Granted i token, r') \<Longrightarrow>
    \<exists>elsewhere now r0 res. (elsewhere, now, i) \<in> set polls \<and> res ! 0 = 1 \<and> res ! 1 = token \<and>
      acquire_script ops xf (leases_key t m) (tokens_key t m) (fence_key t m) now ttl (max_concurrent_requests policy) i r0 = (res, r')"
proof (induction polls arbitrary: r)
  case Nil
  then show ?case by simp
next
  case (Cons p polls)
  obtain elsewhere now u where p: "p = (elsewhere, now, u)" by (cases p) auto
  let ?s = "acquire_script ops xf (leases_key t m) (tokens_key t m) (fence_key t m) now ttl (max_concurrent_requests policy) u"
  obtain a r1 where e: "eval_script conn ?s (elsewhere r) = (a, r1)" by fastforce
  show ?case
  proof (cases a)
    case (Inl x)
    with Cons.prems e p show ?thesis by simp
  next
    case (Inr res)
    with eval_script_runs [OF laws e] have run: "?s (elsewhere r) = (res, r1)" by simp
    show ?thesis
    proof (cases "res ! 0 = 1")
      case True
      with Cons.prems e p Inr have "i = u" "token = res ! 1" "r' = r1" by auto
      with True run p show ?thesis by auto
    next
      case False
      with Cons.prems e p Inr have "poll_slot ops conn xf t m policy ttl polls r1 = (Granted i token, r')"
        by (auto split: if_splits)
      from Cons.IH [OF this] show ?thesis by auto
    qed
  qed
qed

lemma granted_within_limit:
  assumes laws: "redis_laws ops" and a: "acquire_script ops xf lk tk fk now ttl limit i r = (res, r')" and "res ! 0 = 1"
  shows "int (card (unexpired ops lk now r')) \<le> limit"
proof -
  have "unexpired ops lk now r' \<subseteq> insert i (unexpired ops lk now r)"
    using lease_granted_iff_free' [OF laws a] by (auto simp: unexpired_def split: if_splits)
  moreover have fin: "finite (unexpired ops lk now r)"
    by (rule finite_subset [OF _ redis_rules(1) [OF laws, of r lk]]) (auto simp: unexpired_def)
  ultimately have "card (unexpired ops lk now r') \<le> card (insert i (unexpired ops lk now r))"
    by (intro card_mono) simp_all
  also have "\<dots> \<le> Suc (card (unexpired ops lk now r))"
    using fin by (simp add: card_insert_if)
  finally have "card (unexpired ops lk now r') \<le> Suc (card (unexpired ops lk now r))" .
  moreover have "int (card (unexpired ops lk now r)) < limit"
    using lease_granted_iff_free' [OF laws a] assms(3) by blast
  ultimately show ?thesis by linarith
qed

lemma eval_down:
  assumes "\<And>script q. \<exists>e q'. evalsha conn script q = (Inl e, q')"
  shows "\<exists>e q'. eval_script conn script q = (Inl e, q')"
proof -
  obtain e q' where "evalsha conn script q = (Inl e, q')" using assms by blast
  moreover obtain e2 q2 where "evalsha conn script q' = (Inl e2, q2)" using assms by blast
  ultimately show ?thesis by (auto simp: eval_script_def split: option.split)
qed

lemma acquire_redis_cases:
  assumes "acquire_redis ops conn xf now polls t m c r = (res, c', r')"
  obtains (granted) i token r0 where "res = Granted i token"
      and "poll_slot ops conn xf t m (for_tenant (ac_bundle c) t) (ttl_ms c) polls r0 = (Granted i token, r')"
      and "c' = drop_ticket (scope_key t m) True (redis_works (take_ticket (scope_key t m) c))"
  | (other) "\<forall>i token. res \<noteq> Granted i token" and "ac_bundle c' = ac_bundle c"
proof -
  let ?scope = "scope_key t m"
  let ?purge = "purge_script ops (leases_key t m) (tokens_key t m) now"
  let ?p = "for_tenant (ac_bundle c) t"
  obtain a r0 where e: "eval_script conn ?purge r = (a, r0)" by fastforce
  have tt: "ttl_ms (take_ticket ?scope c) = ttl_ms c" by (simp add: ttl_ms_def take_ticket_def)
  obtain b r1 where p: "poll_slot ops conn xf t m ?p (ttl_ms c) polls r0 = (b, r1)" by fastforce
  show thesis
  proof (cases "\<exists>probe. a = Inr probe \<and> \<not> (max_concurrent_requests ?p \<le> probe ! 1
      \<and> max_queued_requests ?p \<le> get_default (ac_queued c) ?scope 0)")
    case False
    with assms e have "(res = Full \<or> (\<exists>x. res = Fault x)) \<and> c' = c"
      by (cases a) (auto simp: acquire_redis_def Let_def split: if_splits)
    then show thesis by (intro other) auto
  next
    case True
    then obtain probe where pr: "a = Inr probe" "\<not> (max_concurrent_requests ?p \<le> probe ! 1
      \<and> max_queued_requests ?p \<le> get_default (ac_queued c) ?scope 0)" by blast
    have step: "res = b" "r' = r1" "c' = end_wait ?scope b (take_ticket ?scope c)"
      using assms e pr p tt by (auto simp: acquire_redis_def Let_def)
    have kept: "ac_bundle c' = ac_bundle c"
      using step(3) by (auto simp: end_wait_def take_ticket_def drop_ticket_def redis_works_def split: poll_result.split)
    show thesis
    proof (cases "\<exists>i token. b = Granted i token")
      case True
      then obtain i token where "b = Granted i token" by blast
      with step p show thesis by (intro granted) (simp_all add: end_wait_def)
    next
      case False
      with step(1) kept show thesis by (intro other) auto
    qed
  qed
qed

definition model_key :: "string option \<Rightarrow> string" where
  "model_key model = (case model of Some m \<Rightarrow> str_or m ''*'' | None \<Rightarrow> ''*'')"

lemma acquire_lease_redis:
  assumes "redis_configured c" and "acquire_redis ops conn xf now polls t (model_key model) c r = (pr, c1, r1)"
  shows "acquire_lease ops conn xf now polls task t model c r =
    (case pr of
       Granted i token \<Rightarrow> (Lease (start_renewal (new_lease t (model_key model) (Some (i, token)) Redis)), c1, r1)
     | Full \<Rightarrow> (Refused (concurrency_exceeded (max_concurrent_requests (for_tenant (ac_bundle c1) t))), c1, r1)
     | Waiting \<Rightarrow> (Pending, c1, r1)
     | Fault e \<Rightarrow> (case acquire_unavailable task t (model_key model) (redis_failed e c1) of (res, c2) \<Rightarrow> (res, c2, r1)))"
  using assms by (simp add: acquire_lease_def model_key_def Let_def split: poll_result.split)

text \<open>What a fleet lease handed to a request is worth at the end of the call.\<close>

definition lease_held ::
  "('r, 'm) redis_scheme \<Rightarrow> (int \<Rightarrow> string) \<Rightarrow> (('r \<Rightarrow> 'r) \<times> int \<times> string) list \<Rightarrow> TenantRuntimePolicy \<Rightarrow> int \<Rightarrow> AdmissionLease \<Rightarrow> 'r \<Rightarrow> bool" where
  "lease_held ops xf polls policy ttl al r \<longleftrightarrow>
     al_mode al = Redis \<and> renewing al \<and>
     (\<exists>i token elsewhere now. lease_id al = Some i \<and> fencing_token al = Some token \<and> (elsewhere, now, i) \<in> set polls
       \<and> zsets ops r (leases_key (al_tenant al) (al_model al)) i = Some (now + ttl)
       \<and> hashes ops r (tokens_key (al_tenant al) (al_model al)) i = Some (lua_tostring xf token)
       \<and> int (card (unexpired ops (leases_key (al_tenant al) (al_model al)) now r)) \<le> max_concurrent_requests policy)"

text \<open>
  C24: Fleet admission of a fail-closed tenant lets nothing through that does not hold a slot.
  Whatever Redis and the other replicas do, the call hands out a lease only when its id is in
  the scope's lease set with a full time to live, its fencing token is stored, and the unexpired
  leases, this one included, stay within the tenant's limit; anything else is a 429, a 503 or
  still waiting. When every call to Redis raises, it is the 503.
\<close>

theorem fail_closed_admission_holds_a_slot:
  assumes "redis_laws ops" and "connection_laws conn" and "redis_configured c"
    and "redis_unavailable_policy (for_tenant (ac_bundle c) t) = fail_closed"
    and "acquire_lease ops conn xf now polls task t model c r = (res, c', r')"
  shows "(case res of Lease al \<Rightarrow> lease_held ops xf polls (for_tenant (ac_bundle c) t) (ttl_ms c) al r' | Pending \<Rightarrow> True
      | Refused e \<Rightarrow> he_status e = 429 \<or> e = store_unavailable)
    \<and> ((\<forall>script q. \<exists>e q'. evalsha conn script q = (Inl e, q')) \<longrightarrow> res = Refused store_unavailable \<and> \<not> redis_ok c')"
proof -
  let ?m = "model_key model"
  obtain pr c1 r1 where a: "acquire_redis ops conn xf now polls t ?m c r = (pr, c1, r1)"
    by (cases "acquire_redis ops conn xf now polls t ?m c r") auto
  note l = acquire_lease_redis [OF assms(3) a, of task]
  have 1: "case res of Lease al \<Rightarrow> lease_held ops xf polls (for_tenant (ac_bundle c) t) (ttl_ms c) al r' | Pending \<Rightarrow> True
      | Refused e \<Rightarrow> he_status e = 429 \<or> e = store_unavailable"
    using a
  proof (cases rule: acquire_redis_cases)
    case (granted i token r0)
    with l assms(5) have res: "res = Lease (start_renewal (new_lease t ?m (Some (i, token)) Redis))" "r' = r1" by simp_all
    from poll_granted [OF assms(2) granted(2)] obtain elsewhere k q v where g: "(elsewhere, k, i) \<in> set polls" "v ! 0 = 1"
      "v ! 1 = token" "acquire_script ops xf (leases_key t ?m) (tokens_key t ?m) (fence_key t ?m) k (ttl_ms c)
        (max_concurrent_requests (for_tenant (ac_bundle c) t)) i q = (v, r1)" by blast
    from lease_granted_iff_free' [OF assms(1) g(4)] g(2,3) granted_within_limit [OF assms(1) g(4,2)] g(1)
    show ?thesis
      by (auto simp: res lease_held_def start_renewal_def new_lease_def)
  next
    case other
    then have "redis_unavailable_policy (for_tenant (ac_bundle (redis_failed e c1)) t) = fail_closed" for e
      using assms(4) by (simp add: redis_failed_def)
    with other(1) l assms(5) show ?thesis
      by (cases pr) (auto simp: acquire_unavailable_def concurrency_exceeded_def plain_error_def)
  qed
  have 2: "res = Refused store_unavailable \<and> \<not> redis_ok c'" if down: "\<forall>script q. \<exists>e q'. evalsha conn script q = (Inl e, q')"
  proof -
    obtain e q' where "eval_script conn (purge_script ops (leases_key t ?m) (tokens_key t ?m) now) r = (Inl e, q')"
    using eval_down [of conn] down by blast
    with a have "pr = Fault e" "c1 = c" by (auto simp: acquire_redis_def Let_def)
    with l assms(4,5) show ?thesis by (auto simp: acquire_unavailable_def redis_failed_def)
  qed
  from 1 2 show ?thesis by blast
qed

definition demo_bundle :: "int \<Rightarrow> RedisUnavailablePolicy \<Rightarrow> TenantPolicyBundle" where
  "demo_bundle limit policy = \<lparr>bundle_tenants = [],
     bundle_default = \<lparr>allowed_models = [], allowed_routes = [], max_concurrent_requests = limit, max_queued_requests = 0,
       redis_unavailable_policy = policy\<rparr>,
     auditor_groups = []\<rparr>"

definition demo_controller :: "bool \<Rightarrow> int \<Rightarrow> RedisUnavailablePolicy \<Rightarrow> TenantAdmissionController" where
  "demo_controller redis limit policy =
     \<lparr>ac_bundle = demo_bundle limit policy, redis_configured = redis, lease_ttl_seconds = 30, renew_interval_seconds = 10,
      semaphores = [], ac_queued = [], ac_inflight = [], redis_ok = redis, last_redis_error = None\<rparr>"

theorem fail_closed_admission_holds_a_slot_witness:
  "(case fst (acquire_lease demo_redis up_connection (\<lambda>_. []) 0 [(\<lambda>r. r, 1, ''u'')] ''t1'' ''finance'' None
        (demo_controller True 1 fail_closed) empty_server) of
      Lease al \<Rightarrow> lease_held demo_redis (\<lambda>_. []) [(\<lambda>r. r, 1, ''u'')] (for_tenant (demo_bundle 1 fail_closed) ''finance'') 30000 al
        (snd (snd (acquire_lease demo_redis up_connection (\<lambda>_. []) 0 [(\<lambda>r. r, 1, ''u'')] ''t1'' ''finance'' None
        (demo_controller True 1 fail_closed) empty_server)))
    | _ \<Rightarrow> False)"
proof -
  let ?c = "demo_controller True 1 fail_closed"
  obtain res c' r' where a: "acquire_lease demo_redis up_connection (\<lambda>_. []) 0 [(\<lambda>r. r, 1, ''u'')] ''t1'' ''finance'' None ?c empty_server = (res, c', r')"
    by (cases "acquire_lease demo_redis up_connection (\<lambda>_. []) 0 [(\<lambda>r. r, 1, ''u'')] ''t1'' ''finance'' None ?c empty_server") auto
  have ok: "redis_configured ?c" "redis_unavailable_policy (for_tenant (ac_bundle ?c) ''finance'') = fail_closed"
    by (simp_all add: demo_controller_def demo_bundle_def for_tenant_def get_default_def)
  have "case fst (acquire_lease demo_redis up_connection (\<lambda>_. []) 0 [(\<lambda>r. r, 1, ''u'')] ''t1'' ''finance'' None ?c empty_server) of
      Lease al \<Rightarrow> True | _ \<Rightarrow> False"
    by code_simp
  then have "case res of Lease al \<Rightarrow> True | _ \<Rightarrow> False" by (simp add: a)
  moreover have "ttl_ms ?c = 30000" "ac_bundle ?c = demo_bundle 1 fail_closed" by code_simp (simp add: demo_controller_def)
  ultimately show ?thesis
    using fail_closed_admission_holds_a_slot [OF demo_redis_laws up_connection_laws ok a]
    by (simp add: a split: admission_outcome.splits)
qed

subsection \<open>The local limit over all scopes\<close>

lemma scope_key_inject:
  assumes "CHR '':'' \<notin> set t" "CHR '':'' \<notin> set t'" "scope_key t m = scope_key t' m'"
  shows "t = t' \<and> m = m'"
proof -
  have "takeWhile (\<lambda>x. x \<noteq> CHR '':'') (scope_key u k) = u" if "CHR '':'' \<notin> set u" for u k
    using that by (simp add: scope_key_def takeWhile_append2 takeWhile_tail) (metis takeWhile_eq_all_conv)
  with assms have "t = t'" by metis
  with assms(3) show ?thesis by (simp add: scope_key_def)
qed

lemma scope_gate_put:
  "scope_gate t' m' (put_gate (scope_key t m) g c) =
    (if scope_key t' m' = scope_key t m
     then g\<lparr>max_inflight := max_concurrent_requests (for_tenant (ac_bundle c) t'),
            max_queued := max_queued_requests (for_tenant (ac_bundle c) t')\<rparr>
     else scope_gate t' m' c)"
  by (simp add: scope_gate_def put_gate_def Let_def get_default_def dict_simps)

text \<open>The steps of the requests of a process on the local limits, tenant names without a colon.\<close>

inductive local_step :: "TenantAdmissionController \<Rightarrow> TenantAdmissionController \<Rightarrow> bool" where
  arrive: "CHR '':'' \<notin> set t \<Longrightarrow> task \<notin> fst ` set (sem_waiters (scope_gate t m c)) \<Longrightarrow>
    acquire_local mode task t m c = (res, c') \<Longrightarrow> local_step c c'"
| resume: "CHR '':'' \<notin> set t \<Longrightarrow> (task, True) \<in> set (sem_waiters (scope_gate t m c)) \<Longrightarrow>
    local_step c (snd (resume_local mode task t m c))"
| cancel: "CHR '':'' \<notin> set t \<Longrightarrow> task \<in> fst ` set (sem_waiters (scope_gate t m c)) \<Longrightarrow>
    local_step c (cancel_local task t m c)"
| release: "CHR '':'' \<notin> set t \<Longrightarrow> 0 < gate_inflight (scope_gate t m c) \<Longrightarrow>
    local_step c (release_local t m c)"

lemma gate_ops_limits:
  "gate_acquire task g = Inr g' \<Longrightarrow> max_inflight g' = max_inflight g \<and> max_queued g' = max_queued g"
  "max_inflight (gate_resume task g) = max_inflight g \<and> max_queued (gate_resume task g) = max_queued g"
  "max_inflight (gate_cancel task g) = max_inflight g \<and> max_queued (gate_cancel task g) = max_queued g"
  "max_inflight (gate_release g) = max_inflight g \<and> max_queued (gate_release g) = max_queued g"
  by (auto simp: gate_acquire_def gate_resume_def gate_cancel_def gate_release_def leave_queue_def acquire_done_def Let_def
      split: if_splits option.splits prod.splits)

text \<open>A step is nothing, or a step of the gate of one scope.\<close>

lemma local_step_gate:
  assumes "local_step c c'"
  obtains (none) "c' = c"
  | (gate) t m g where "CHR '':'' \<notin> set t" and "gate_step (scope_gate t m c) g" and "c' = put_gate (scope_key t m) g c"
      and "max_inflight g = max_inflight (scope_gate t m c)" and "max_queued g = max_queued (scope_gate t m c)"
  using assms
proof (cases rule: local_step.cases)
  case (arrive t task m mode res)
  then show thesis
  proof (cases "gate_acquire task (scope_gate t m c)")
    case (Inr g)
    with arrive show thesis
      using gate_ops_limits(1) [OF Inr] gate_step.arrive [OF arrive(2) Inr]
      by (intro gate [of t m g]) (auto simp: acquire_local_def Let_def)
  qed (auto simp: acquire_local_def Let_def intro: none)
next
  case (resume t task m mode)
  then show thesis
    using gate_step.resume [OF resume(3)] gate_ops_limits(2)
    by (intro gate [of t m "gate_resume task (scope_gate t m c)"]) (simp_all add: resume_local_def)
next
  case (cancel t task m)
  then show thesis
    using gate_step.cancel [OF cancel(3)] gate_ops_limits(3)
    by (intro gate [of t m "gate_cancel task (scope_gate t m c)"]) (simp_all add: cancel_local_def)
next
  case (release t m)
  then show thesis
    using gate_step.release [OF release(3)] gate_ops_limits(4)
    by (intro gate [of t m "gate_release (scope_gate t m c)"]) (simp_all add: release_local_def)
qed

definition scopes_ok :: "TenantPolicyBundle \<Rightarrow> TenantAdmissionController \<Rightarrow> bool" where
  "scopes_ok b c \<longleftrightarrow> ac_bundle c = b \<and>
     (\<forall>t m. CHR '':'' \<notin> set t \<longrightarrow> gate_inv (scope_gate t m c))"

lemma local_step_ok:
  assumes "local_step c c'" and "scopes_ok b c"
  shows "scopes_ok b c'"
  using assms(1)
proof (cases rule: local_step_gate)
  case none
  with assms(2) show ?thesis by simp
next
  case (gate t m g)
  have kept: "ac_bundle c' = b" using assms(2) gate(3) by (simp add: put_gate_def scopes_ok_def)
  have "gate_inv g" using gate_step_inv [OF gate(2)] assms(2) gate(1) by (simp add: scopes_ok_def)
  moreover have "scope_gate t m c' = g"
    using gate(4,5) by (simp add: gate(3) scope_gate_put) (simp add: scope_gate_def Let_def)
  moreover have "scope_gate t' m' c' = scope_gate t' m' c" if "CHR '':'' \<notin> set t'" "(t', m') \<noteq> (t, m)" for t' m'
    using scope_key_inject [OF that(1) gate(1)] that(2) by (auto simp: gate(3) scope_gate_put)
  moreover have "gate_inv (scope_gate t' m' c)" if "CHR '':'' \<notin> set t'" for t' m'
    using assms(2) that by (simp add: scopes_ok_def)
  ultimately have "gate_inv (scope_gate t' m' c')" if "CHR '':'' \<notin> set t'" for t' m'
    using that by (cases "(t', m') = (t, m)") auto
  with kept show ?thesis by (simp add: scopes_ok_def)
qed

text \<open>
  Without Redis the tenants' limits hold side by side. After any interleaving of arrivals,
  wake-ups, cancellations and releases on any scopes, every scope of every tenant whose name has
  no colon runs at most its tenant's limit of requests, counts its queue exactly, and neither
  loses nor invents a slot.
\<close>

theorem tenant_limits_hold_locally:
  assumes "local_step\<^sup>*\<^sup>* c0 c" and "semaphores c0 = []" "ac_queued c0 = []" "ac_inflight c0 = []"
    and "\<And>u. 1 \<le> max_concurrent_requests (for_tenant (ac_bundle c0) u)" and "CHR '':'' \<notin> set t"
  shows "get_default (ac_inflight c) (scope_key t m) 0 \<le> max_concurrent_requests (for_tenant (ac_bundle c0) t)
    \<and> get_default (ac_queued c) (scope_key t m) 0 = int (length (sem_waiters (scope_gate t m c)))
    \<and> int (sem_value (scope_gate t m c)) + int (woken_count (sem_waiters (scope_gate t m c)))
      + get_default (ac_inflight c) (scope_key t m) 0 = max_concurrent_requests (for_tenant (ac_bundle c0) t)"
proof -
  have "scopes_ok (ac_bundle c0) c0"
    using assms(2-5) by (auto simp: scopes_ok_def gate_inv_def scope_gate_def Let_def get_default_def capacity_def woken_count_def)
      (smt (verit) assms(5))
  with assms(1) have ok: "scopes_ok (ac_bundle c0) c"
    by (induction rule: rtranclp_induct) (auto intro: local_step_ok)
  then have inv: "gate_inv (scope_gate t m c)" using assms(6) by (simp add: scopes_ok_def)
  have fields: "gate_inflight (scope_gate t m c) = get_default (ac_inflight c) (scope_key t m) 0"
    "gate_queued (scope_gate t m c) = get_default (ac_queued c) (scope_key t m) 0"
    "capacity (scope_gate t m c) = max_concurrent_requests (for_tenant (ac_bundle c0) t)"
    using ok assms(5) [of t] by (simp_all add: scope_gate_def Let_def capacity_def scopes_ok_def)
  from inv show ?thesis
    by (simp_all add: gate_inv_def fields)
qed

theorem tenant_limits_hold_locally_witness:
  "get_default (ac_inflight (snd (acquire_local Local ''t1'' ''hr'' ''m'' (demo_controller False 1 degraded)))) (scope_key ''hr'' ''m'') 0 \<le> 1"
proof -
  let ?c = "demo_controller False 1 degraded"
  obtain res c' where a: "acquire_local Local ''t1'' ''hr'' ''m'' ?c = (res, c')" by fastforce
  have "sem_waiters (scope_gate ''hr'' ''m'' ?c) = []" by code_simp
  then have "local_step ?c c'" by (intro local_step.arrive [OF _ _ a]) simp_all
  then have run: "local_step\<^sup>*\<^sup>* ?c c'" by simp
  have lim: "max_concurrent_requests (for_tenant (ac_bundle ?c) u) = 1" for u
    by (simp add: demo_controller_def demo_bundle_def for_tenant_def get_default_def)
  have "get_default (ac_inflight c') (scope_key ''hr'' ''m'') 0 \<le> max_concurrent_requests (for_tenant (ac_bundle ?c) ''hr'')"
    using tenant_limits_hold_locally [OF run, of "''hr''" "''m''"] by (simp add: lim) (simp add: demo_controller_def)
  then show ?thesis by (simp add: a lim)
qed

text \<open>
  Scopes are not separated by the scope key. The key joins tenant and model with a colon, so
  a tenant whose name ends in part of another tenant's model name shares its limit: a request of
  tenant \<open>a:b\<close> for model \<open>c\<close> is refused because tenant \<open>a\<close> is running model \<open>b:c\<close>, and
  the two share their Redis lease set as well when the boundary falls the same way.
\<close>

theorem scope_keys_collide:
  "scope_key ''a'' ''b:c'' = scope_key ''a:b'' ''c''
   \<and> fst (acquire_local Local ''t2'' ''a:b'' ''c'' (snd (acquire_local Local ''t1'' ''a'' ''b:c'' (demo_controller False 1 degraded))))
     = Refused (concurrency_exceeded 1)"
  by code_simp

subsection \<open>Redis failing while leases are out\<close>

lemma release_down:
  assumes "\<And>script q. \<exists>e q'. evalsha conn script q = (Inl e, q')" and "al_mode al = Redis"
    and "lease_release ops conn now al c r = (al', c1, r1)"
  shows "c1 = c \<or> (\<exists>e. c1 = redis_failed e c)"
proof -
  obtain e q where "eval_script conn (release_script ops (leases_key (al_tenant al) (al_model al))
      (tokens_key (al_tenant al) (al_model al)) (the (lease_id al)) (show_int (the (fencing_token al)))) r = (Inl e, q)"
    using eval_down [OF assms(1)] by blast
  with assms(2,3) show ?thesis
    by (auto simp: lease_release_def controller_release_def Let_def split: if_splits option.splits)
qed

text \<open>
  A fleet lease whose release fails stays in the local count for ever. With Redis down, the
  degraded policy and no queue, releasing the only request of a scope leaves the count at the
  limit, so every later request of the scope is refused with 429 although the local semaphore
  still has every slot free and no request is running.
\<close>

theorem failed_release_locks_tenant_out:
  assumes "\<And>script q. \<exists>e q'. evalsha conn script q = (Inl e, q')" and "redis_configured c"
    and "redis_unavailable_policy (for_tenant (ac_bundle c) t) = degraded"
    and "max_queued_requests (for_tenant (ac_bundle c) t) \<le> get_default (ac_queued c) (scope_key t (model_key model)) 0"
    and "max_concurrent_requests (for_tenant (ac_bundle c) t) \<le> get_default (ac_inflight c) (scope_key t (model_key model)) 0"
    and "al_mode al = Redis" "al_tenant al = t" "al_model al = model_key model"
    and "lease_release ops conn now al c r = (al', c1, r1)"
    and "acquire_lease ops conn xf now' polls task t model c1 r1 = (res, c2, r2)"
  shows "res = Refused (concurrency_exceeded (max_concurrent_requests (for_tenant (ac_bundle c) t)))
    \<and> ac_inflight c2 = ac_inflight c \<and> semaphores c2 = semaphores c"
proof -
  let ?m = "model_key model"
  from release_down [OF assms(1,6,9)] have same: "ac_bundle c1 = ac_bundle c" "ac_inflight c1 = ac_inflight c" "ac_queued c1 = ac_queued c"
    "semaphores c1 = semaphores c" "redis_configured c1"
    using assms(2) by (auto simp: redis_failed_def)
  obtain e q where "eval_script conn (purge_script ops (leases_key t ?m) (tokens_key t ?m) now') r1 = (Inl e, q)"
    using eval_down [OF assms(1)] by blast
  then have "acquire_redis ops conn xf now' polls t ?m c1 r1 = (Fault e, c1, q)" by (simp add: acquire_redis_def Let_def)
  from acquire_lease_redis [OF same(5) this, of task] assms(3,4,5,10) same(1-4) show ?thesis
    by (auto simp: acquire_unavailable_def redis_failed_def acquire_local_def gate_acquire_def scope_gate_def Let_def split: prod.splits)
qed

theorem failed_release_locks_tenant_out_witness:
  "\<exists>al c r al' c1 r1. acquire_lease demo_redis up_connection (\<lambda>_. []) 0 [(\<lambda>r. r, 1, ''u'')] ''t1'' ''hr'' None
        (demo_controller True 1 degraded) empty_server = (Lease al, c, r)
     \<and> lease_release demo_redis down_connection 2 al c r = (al', c1, r1)
     \<and> fst (acquire_lease demo_redis down_connection (\<lambda>_. []) 3 [(\<lambda>r. r, 4, ''v'')] ''t2'' ''hr'' None c1 r1)
        = Refused (concurrency_exceeded 1)
     \<and> sem_value (scope_gate ''hr'' ''*'' c1) = 1"
proof -
  let ?a = "acquire_lease demo_redis up_connection (\<lambda>_. []) 0 [(\<lambda>r. r, 1, ''u'')] ''t1'' ''hr'' None
        (demo_controller True 1 degraded) empty_server"
  obtain res c r where a: "?a = (res, c, r)" by (cases ?a) auto
  have f: "(case ?a of (Lease al, c, r) \<Rightarrow> al_mode al = Redis \<and> al_tenant al = ''hr'' \<and> al_model al = ''*''
      \<and> redis_configured c \<and> ac_inflight c = [(''hr:*'', 1)] \<and> ac_queued c = [(''hr:*'', 0)] \<and> semaphores c = []
      | _ \<Rightarrow> False) \<and> ac_bundle (fst (snd ?a)) = demo_bundle 1 degraded"
    by (intro conjI; code_simp)
  then obtain al where al: "res = Lease al" "al_mode al = Redis" "al_tenant al = ''hr''" "al_model al = ''*''"
    "redis_configured c" "ac_inflight c = [(''hr:*'', 1)]" "ac_queued c = [(''hr:*'', 0)]" "semaphores c = []"
    "ac_bundle c = demo_bundle 1 degraded"
    by (auto simp: a split: admission_outcome.splits)
  obtain al' c1 r1 where rel: "lease_release demo_redis down_connection 2 al c r = (al', c1, r1)"
    by (cases "lease_release demo_redis down_connection 2 al c r") auto
  obtain res2 c2 r2 where again: "acquire_lease demo_redis down_connection (\<lambda>_. []) 3 [(\<lambda>r. r, 4, ''v'')] ''t2'' ''hr'' None c1 r1 = (res2, c2, r2)"
    by (cases "acquire_lease demo_redis down_connection (\<lambda>_. []) 3 [(\<lambda>r. r, 4, ''v'')] ''t2'' ''hr'' None c1 r1") auto
  have down: "\<exists>e q'. evalsha down_connection script q = (Inl e, q')" for script q by (simp add: down_connection_def)
  have key: "scope_key ''hr'' (model_key None) = ''hr:*''" "model_key None = ''*''" by code_simp+
  have pol: "redis_unavailable_policy (for_tenant (demo_bundle 1 degraded) ''hr'') = degraded"
    "max_queued_requests (for_tenant (demo_bundle 1 degraded) ''hr'') = 0"
    "max_concurrent_requests (for_tenant (demo_bundle 1 degraded) ''hr'') = 1"
    by (simp_all add: demo_bundle_def for_tenant_def get_default_def)
  have "res2 = Refused (concurrency_exceeded 1)"
    using failed_release_locks_tenant_out [OF down al(5) _ _ _ al(2,3) _ rel again] al key pol
    by (simp add: get_default_def)
  moreover have "semaphores c1 = []" "ac_bundle c1 = demo_bundle 1 degraded"
    using release_down [OF down al(2) rel] al by (auto simp: redis_failed_def)
  then have "sem_value (scope_gate ''hr'' ''*'' c1) = 1"
    using pol by (simp add: scope_gate_def Let_def get_default_def)
  ultimately show ?thesis using a al(1) rel again by auto
qed

text \<open>
  Releasing a lease twice is releasing it once: the second call finds the flag and touches
  neither the counts, nor the semaphore, nor Redis.
\<close>

theorem lease_release_idempotent:
  "(case lease_release ops conn now al c r of (al', c', r') \<Rightarrow> lease_release ops conn now' al' c' r' = (al', c', r'))"
  by (auto simp: lease_release_def Let_def)

end
