(* ===== verification/Usage.thy ===== *)
theory Usage imports Config "HOL-Library.Multiset" begin

text \<open>
  \<open>app/gateway/usage_events.py\<close>: usage events, the token counts read from an upstream's usage
  object, the usage object of an SSE chunk, and the emitter: a bounded queue, a worker that
  posts with retries, and shutdown. The Prometheus drop counters are kept as a list of dropped
  events with their reasons, successful posts as the list of delivered ones. The JSON parser,
  UTF-8 decoding and SHA-256 are parameters; span attributes are left out.
\<close>

subsection \<open>Token counts\<close>

definition tokens_from_usage :: "json \<Rightarrow> py_exc + int \<times> int" where
  "tokens_from_usage usage =
     (case usage of
        JObj u \<Rightarrow>
          bind_exc (py_int (py_or (jget u ''prompt_tokens'') (JInt 0))) (\<lambda>i.
          bind_exc (py_int (py_or (jget u ''completion_tokens'') (JInt 0))) (\<lambda>out. Inr (i, out)))
      | _ \<Rightarrow> Inr (0, 0))"

definition estimate_gpu_seconds :: "rat \<Rightarrow> rat" where
  "estimate_gpu_seconds duration_ms = round_to 4 (max 0 duration_ms / 1000)"

subsection \<open>Usage in an SSE chunk\<close>

text \<open>\<open>str.splitlines\<close>: every line boundary ends a line, CR LF is one, none is left at the end.\<close>

definition is_linebreak :: "char \<Rightarrow> bool" where
  "is_linebreak c = (let n = cp c in n = 10 \<or> n = 11 \<or> n = 12 \<or> n = 13 \<or> n = 28 \<or> n = 29 \<or> n = 30 \<or> n = 133)"

fun splitlines_acc :: "string \<Rightarrow> string \<Rightarrow> string list" where
  "splitlines_acc acc [] = (if acc = [] then [] else [rev acc])"
| "splitlines_acc acc (c # cs) =
     (if cp c = 13 then
        (case cs of
           d # ds \<Rightarrow> if cp d = 10 then rev acc # splitlines_acc [] ds else rev acc # splitlines_acc [] cs
         | [] \<Rightarrow> [rev acc])
      else if is_linebreak c then rev acc # splitlines_acc [] cs
      else splitlines_acc (c # acc) cs)"

definition splitlines :: "string \<Rightarrow> string list" where
  "splitlines s = splitlines_acc [] s"

text \<open>\<open>loads\<close> is \<open>None\<close> where \<open>json.loads\<close> raises \<open>JSONDecodeError\<close>.\<close>

definition usage_of_line :: "(string \<Rightarrow> json option) \<Rightarrow> string \<Rightarrow> obj option" where
  "usage_of_line loads line =
     (if \<not> startswith line ''data:'' then None
      else let data = strip (drop 5 line) in
        if data = [] \<or> data = ''[DONE]'' then None
        else (case loads data of
            Some (JObj payload) \<Rightarrow> (case jget payload ''usage'' of JObj u \<Rightarrow> Some u | _ \<Rightarrow> None)
          | _ \<Rightarrow> None))"

fun first_usage :: "(string \<Rightarrow> json option) \<Rightarrow> string list \<Rightarrow> obj option" where
  "first_usage loads [] = None"
| "first_usage loads (l # ls) = (case usage_of_line loads l of Some u \<Rightarrow> Some u | None \<Rightarrow> first_usage loads ls)"

definition extract_usage_from_sse :: "(string \<Rightarrow> string) \<Rightarrow> (string \<Rightarrow> json option) \<Rightarrow> string \<Rightarrow> obj option" where
  "extract_usage_from_sse decode loads chunk = first_usage loads (splitlines (decode chunk))"

subsection \<open>Events and the emitter\<close>

record UsageEvent =
  ue_event_id :: string
  ue_tenant_id :: string
  ue_request_id :: string
  ue_decision_id :: "string option"
  ue_model :: string
  ue_backend :: string
  ue_input_tokens :: int
  ue_output_tokens :: int
  ue_estimated_cost :: "rat option"
  ue_gpu_seconds :: "rat option"
  ue_ttft_ms :: "rat option"
  ue_duration_ms :: rat
  ue_outcome :: string
  ue_enqueued_at :: rat
  ue_attempts :: nat

definition deterministic_event_id :: "(string \<Rightarrow> string) \<Rightarrow> string \<Rightarrow> string \<Rightarrow> string \<Rightarrow> string" where
  "deterministic_event_id sha256_hex request_id outcome backend =
     ''evt_'' @ take 24 (sha256_hex (request_id @ '':'' @ outcome @ '':'' @ backend))"

definition build_event ::
  "(string \<Rightarrow> string) \<Rightarrow> rat \<Rightarrow> string \<Rightarrow> string \<Rightarrow> string option \<Rightarrow> string \<Rightarrow> string \<Rightarrow> int \<Rightarrow> int \<Rightarrow> rat option \<Rightarrow> rat
    \<Rightarrow> string \<Rightarrow> rat option \<Rightarrow> rat option \<Rightarrow> UsageEvent" where
  "build_event sha256_hex now tenant_id request_id decision_id model backend input_tokens output_tokens cost duration_ms
     outcome ttft gpu =
     \<lparr>ue_event_id = deterministic_event_id sha256_hex request_id outcome backend, ue_tenant_id = tenant_id,
      ue_request_id = request_id, ue_decision_id = decision_id, ue_model = model, ue_backend = backend,
      ue_input_tokens = max 0 input_tokens, ue_output_tokens = max 0 output_tokens, ue_estimated_cost = cost,
      ue_gpu_seconds = gpu, ue_ttft_ms = ttft, ue_duration_ms = duration_ms, ue_outcome = outcome,
      ue_enqueued_at = now, ue_attempts = 0\<rparr>"

definition usage_webhook_url :: "environ \<Rightarrow> string option" where
  "usage_webhook_url env = or_none (strip (getenv env ''USAGE_EVENTS_WEBHOOK_URL'' []))"

definition env_at_least_one :: "environ \<Rightarrow> string \<Rightarrow> string \<Rightarrow> py_exc + nat" where
  "env_at_least_one env name dflt =
     (case parse_int (str_or (strip (getenv env name dflt)) dflt) of
        None \<Rightarrow> Inl ValueError | Some n \<Rightarrow> Inr (nat (max 1 n)))"

definition usage_buffer_max :: "environ \<Rightarrow> py_exc + nat" where
  "usage_buffer_max env = env_at_least_one env ''USAGE_EVENTS_BUFFER_MAX'' ''1000''"

definition usage_max_attempts :: "environ \<Rightarrow> py_exc + nat" where
  "usage_max_attempts env = env_at_least_one env ''USAGE_EVENTS_MAX_ATTEMPTS'' ''8''"

record pending =
  pd_event :: UsageEvent
  next_attempt_at :: rat

text \<open>The item the worker took out of the queue and is posting is \<open>posting\<close>.\<close>

record UsageEventEmitter =
  em_pending :: "pending list"
  em_max :: nat
  em_max_attempts :: nat
  accepting :: bool
  posting :: "pending option"
  dropped :: "(string \<times> UsageEvent) list"
  delivered :: "UsageEvent list"

definition new_emitter :: "environ \<Rightarrow> py_exc + UsageEventEmitter" where
  "new_emitter env =
     bind_exc (usage_buffer_max env) (\<lambda>m. bind_exc (usage_max_attempts env) (\<lambda>a.
       Inr \<lparr>em_pending = [], em_max = m, em_max_attempts = a, accepting = True, posting = None,
            dropped = [], delivered = []\<rparr>))"

definition drop_event :: "string \<Rightarrow> UsageEvent \<Rightarrow> UsageEventEmitter \<Rightarrow> UsageEventEmitter" where
  "drop_event why e s = s\<lparr>dropped := dropped s @ [(why, e)]\<rparr>"

text \<open>\<open>if len(pending) >= max: pending.popleft()\<close>, then the append.\<close>

definition enqueue :: "pending \<Rightarrow> UsageEventEmitter \<Rightarrow> UsageEventEmitter" where
  "enqueue p s =
     (let s = (if em_max s \<le> length (em_pending s) then
                 (case em_pending s of [] \<Rightarrow> s
                  | q # qs \<Rightarrow> drop_event ''buffer_overflow'' (pd_event q) (s\<lparr>em_pending := qs\<rparr>))
               else s)
      in s\<lparr>em_pending := em_pending s @ [p]\<rparr>)"

definition emit :: "environ \<Rightarrow> rat \<Rightarrow> UsageEvent \<Rightarrow> UsageEventEmitter \<Rightarrow> UsageEventEmitter" where
  "emit env now e s =
     (if usage_webhook_url env = None then s
      else if \<not> accepting s then drop_event ''not_accepting'' e s
      else enqueue \<lparr>pd_event = e\<lparr>ue_enqueued_at := now, ue_attempts := 0\<rparr>, next_attempt_at = now\<rparr> s)"

text \<open>\<open>_next_ready\<close>: the first item whose time has come leaves the queue.\<close>

fun take_ready :: "rat \<Rightarrow> pending list \<Rightarrow> (pending \<times> pending list) option" where
  "take_ready now [] = None"
| "take_ready now (p # ps) =
     (if next_attempt_at p \<le> now then Some (p, ps)
      else map_option (\<lambda>(q, qs). (q, p # qs)) (take_ready now ps))"

definition next_ready :: "rat \<Rightarrow> UsageEventEmitter \<Rightarrow> UsageEventEmitter" where
  "next_ready now s =
     (case take_ready now (em_pending s) of
        None \<Rightarrow> s
      | Some (p, ps) \<Rightarrow> s\<lparr>em_pending := ps, posting := Some p\<rparr>)"

definition backoff :: "nat \<Rightarrow> rat" where
  "backoff attempts = min 30 (1 / 4 * 2 ^ min attempts 6)"

text \<open>The end of \<open>_deliver\<close>: the post succeeded, or raised.\<close>

definition finish_post :: "rat \<Rightarrow> bool \<Rightarrow> UsageEventEmitter \<Rightarrow> UsageEventEmitter" where
  "finish_post now ok s =
     (case posting s of
        None \<Rightarrow> s
      | Some p \<Rightarrow>
          let s = s\<lparr>posting := None\<rparr> in
          if ok then s\<lparr>delivered := delivered s @ [pd_event p]\<rparr>
          else
            let e = (pd_event p)\<lparr>ue_attempts := ue_attempts (pd_event p) + 1\<rparr> in
            if em_max_attempts s \<le> ue_attempts e then drop_event ''max_attempts'' e s
            else enqueue \<lparr>pd_event = e, next_attempt_at = now + backoff (ue_attempts e)\<rparr> s)"

text \<open>
  \<open>aclose\<close>: no more events are taken; when the drain wait ends, because the queue was seen empty
  or because it timed out, what is queued is dropped and the worker is cancelled, with its post.
\<close>

definition stop_accepting :: "UsageEventEmitter \<Rightarrow> UsageEventEmitter" where
  "stop_accepting s = s\<lparr>accepting := False\<rparr>"

definition drained :: "UsageEventEmitter \<Rightarrow> bool" where
  "drained s = (em_pending s = [])"

definition end_close :: "UsageEventEmitter \<Rightarrow> UsageEventEmitter" where
  "end_close s =
     (let s = (if drained s then s
               else s\<lparr>dropped := dropped s @ map (\<lambda>p. (''shutdown_timeout'', pd_event p)) (em_pending s), em_pending := []\<rparr>)
      in s\<lparr>posting := None\<rparr>)"

subsection \<open>Every event is accounted for\<close>

datatype emitter_event = EmEmit rat UsageEvent | EmTake rat | EmPost rat bool

text \<open>The worker takes an item only when it is not posting one.\<close>

fun emitter_apply :: "environ \<Rightarrow> emitter_event \<Rightarrow> UsageEventEmitter \<Rightarrow> UsageEventEmitter" where
  "emitter_apply env (EmEmit now e) s = emit env now e s"
| "emitter_apply env (EmTake now) s = (if posting s = None then next_ready now s else s)"
| "emitter_apply env (EmPost now ok) s = finish_post now ok s"

definition emitter_run :: "environ \<Rightarrow> emitter_event list \<Rightarrow> UsageEventEmitter \<Rightarrow> UsageEventEmitter" where
  "emitter_run env es s = fold (emitter_apply env) es s"

fun emitted_ids :: "emitter_event list \<Rightarrow> string multiset" where
  "emitted_ids [] = {#}"
| "emitted_ids (EmEmit now e # es) = add_mset (ue_event_id e) (emitted_ids es)"
| "emitted_ids (e # es) = emitted_ids es"

definition held_ids :: "UsageEventEmitter \<Rightarrow> string multiset" where
  "held_ids s =
     mset (map (\<lambda>p. ue_event_id (pd_event p)) (em_pending s))
     + (case posting s of None \<Rightarrow> {#} | Some p \<Rightarrow> {#ue_event_id (pd_event p)#})
     + mset (map (\<lambda>d. ue_event_id (snd d)) (dropped s)) + mset (map ue_event_id (delivered s))"

definition emitter_inv :: "UsageEventEmitter \<Rightarrow> bool" where
  "emitter_inv s \<longleftrightarrow> 0 < em_max s \<and> 0 < em_max_attempts s \<and> length (em_pending s) \<le> em_max s
     \<and> (\<forall>p\<in>set (em_pending s) \<union> set_option (posting s). ue_attempts (pd_event p) < em_max_attempts s)"

lemma take_ready_Some:
  "take_ready now ps = Some (p, qs) \<Longrightarrow>
    p \<in> set ps \<and> set qs \<subseteq> set ps \<and> length ps = Suc (length qs)
    \<and> mset (map f ps) = add_mset (f p) (mset (map f qs)) \<and> next_attempt_at p \<le> now"
  by (induction ps arbitrary: p qs) (auto split: if_splits)

lemma take_ready_None: "take_ready now ps = None \<Longrightarrow> \<forall>p\<in>set ps. now < next_attempt_at p"
  by (induction ps) (auto split: if_splits)

lemma enqueue_facts:
  assumes "emitter_inv s" and "ue_attempts (pd_event p) < em_max_attempts s"
  shows "emitter_inv (enqueue p s)" and "held_ids (enqueue p s) = add_mset (ue_event_id (pd_event p)) (held_ids s)"
    and "em_max_attempts (enqueue p s) = em_max_attempts s" "posting (enqueue p s) = posting s"
    and "accepting (enqueue p s) = accepting s" "delivered (enqueue p s) = delivered s"
  using assms by (cases "em_pending s"; auto simp: enqueue_def drop_event_def emitter_inv_def held_ids_def Let_def)+

lemma finish_post_facts:
  assumes "emitter_inv s"
  shows "emitter_inv (finish_post now ok s) \<and> held_ids (finish_post now ok s) = held_ids s
    \<and> posting (finish_post now ok s) = None \<and> em_max_attempts (finish_post now ok s) = em_max_attempts s"
proof (cases "posting s")
  case None
  with assms show ?thesis by (simp add: finish_post_def)
next
  case (Some p)
  let ?e = "(pd_event p)\<lparr>ue_attempts := ue_attempts (pd_event p) + 1\<rparr>"
  have base: "emitter_inv (s\<lparr>posting := None\<rparr>)" using assms by (auto simp: emitter_inv_def)
  have ids: "held_ids s = add_mset (ue_event_id (pd_event p)) (held_ids (s\<lparr>posting := None\<rparr>))"
    by (simp add: held_ids_def Some)
  show ?thesis
  proof (cases "ok \<or> em_max_attempts s \<le> ue_attempts ?e")
    case True
    with Some base show ?thesis
      by (auto simp: finish_post_def Let_def drop_event_def emitter_inv_def held_ids_def)
  next
    case False
    then have lt: "ue_attempts (pd_event \<lparr>pd_event = ?e, next_attempt_at = t\<rparr>) < em_max_attempts (s\<lparr>posting := None\<rparr>)" for t
      by simp
    from False Some have "finish_post now ok s = enqueue \<lparr>pd_event = ?e, next_attempt_at = now + backoff (ue_attempts ?e)\<rparr> (s\<lparr>posting := None\<rparr>)"
      by (simp add: finish_post_def Let_def)
    with enqueue_facts [OF base lt] ids show ?thesis by simp
  qed
qed

lemma next_ready_facts:
  assumes "emitter_inv s" and "posting s = None"
  shows "emitter_inv (next_ready now s) \<and> held_ids (next_ready now s) = held_ids s
    \<and> em_max_attempts (next_ready now s) = em_max_attempts s"
proof (cases "take_ready now (em_pending s)")
  case None
  with assms show ?thesis by (simp add: next_ready_def)
next
  case (Some r)
  then obtain p qs where r: "take_ready now (em_pending s) = Some (p, qs)" by (cases r) auto
  note t = take_ready_Some [OF r]
  from r assms t [of "\<lambda>p. ue_event_id (pd_event p)"] show ?thesis
    by (auto simp: next_ready_def emitter_inv_def held_ids_def)
qed

lemma emitter_apply_facts:
  assumes "emitter_inv s" and "usage_webhook_url env \<noteq> None"
  shows "emitter_inv (emitter_apply env e s) \<and> held_ids (emitter_apply env e s) = held_ids s + emitted_ids [e]"
proof (cases e)
  case (EmEmit now ev)
  let ?p = "\<lparr>pd_event = ev\<lparr>ue_enqueued_at := now, ue_attempts := 0\<rparr>, next_attempt_at = now\<rparr>"
  have "ue_attempts (pd_event ?p) < em_max_attempts s" using assms(1) by (simp add: emitter_inv_def)
  from enqueue_facts [OF assms(1) this] assms EmEmit show ?thesis
    by (auto simp: emit_def drop_event_def emitter_inv_def held_ids_def)
next
  case (EmTake now)
  with next_ready_facts [OF assms(1)] assms(1) show ?thesis by auto
next
  case (EmPost now ok)
  with finish_post_facts [OF assms(1)] show ?thesis by auto
qed

lemma emitter_run_facts:
  assumes "emitter_inv s" and "usage_webhook_url env \<noteq> None"
  shows "held_ids (emitter_run env es s) = held_ids s + emitted_ids es \<and> emitter_inv (emitter_run env es s)"
  using assms(1) unfolding emitter_run_def
proof (induction es arbitrary: s)
  case (Cons e es)
  note a = emitter_apply_facts [OF Cons.prems assms(2), of e]
  from a Cons.IH [of "emitter_apply env e s"] show ?case
    by (cases e) auto
qed simp

lemma new_emitter_facts: "new_emitter env = Inr s \<Longrightarrow> emitter_inv s \<and> held_ids s = {#}"
  by (auto simp: new_emitter_def bind_exc_Inr_iff usage_buffer_max_def usage_max_attempts_def env_at_least_one_def
      emitter_inv_def held_ids_def split: option.splits)

definition posting_ids :: "UsageEventEmitter \<Rightarrow> string multiset" where
  "posting_ids s = (case posting s of None \<Rightarrow> {#} | Some p \<Rightarrow> {#ue_event_id (pd_event p)#})"

lemma end_close_held: "held_ids (end_close s) + posting_ids s = held_ids s"
  by (simp add: end_close_def drained_def held_ids_def posting_ids_def Let_def multiset.map_comp comp_def split: option.split)

text \<open>
  C35: With a webhook and its client configured, every emitted event is accounted for, and the only
  loss is the post that shutdown cuts off. After any interleaving of emissions, worker pick-ups and
  posts that succeed or fail, every emitted event is exactly once queued, being posted, delivered
  (its post was answered without an error), or dropped with a counted reason; the queue never exceeds
  its limit and no event is posted more often than the limit of attempts. Shutdown begins there, more
  is emitted, picked up and posted meanwhile, and when the close ends every event ever emitted is
  delivered or dropped with a counted reason, except the one being posted at that moment, if there is
  one: it is lost and not counted.
\<close>

theorem usage_events_accounted:
  assumes "new_emitter env = Inr s" and "usage_webhook_url env \<noteq> None"
    and "run = emitter_run env es s" and "last_run = emitter_run env es' (stop_accepting run)"
  shows "held_ids run = emitted_ids es \<and> emitter_inv run
    \<and> held_ids (end_close last_run) + posting_ids last_run = emitted_ids es + emitted_ids es'
    \<and> em_pending (end_close last_run) = [] \<and> posting (end_close last_run) = None"
proof -
  have run: "held_ids run = emitted_ids es" "emitter_inv run"
    using emitter_run_facts [OF _ assms(2)] new_emitter_facts [OF assms(1)] by (simp_all add: assms(3))
  have "held_ids (stop_accepting run) = held_ids run" "emitter_inv (stop_accepting run)"
    using run(2) by (simp_all add: stop_accepting_def held_ids_def emitter_inv_def)
  with emitter_run_facts [OF _ assms(2), of "stop_accepting run" es'] run
  have "held_ids last_run = emitted_ids es + emitted_ids es'" by (simp add: assms(4))
  with run show ?thesis by (simp add: end_close_held) (simp add: end_close_def drained_def Let_def)
qed

definition demo_env :: environ where
  "demo_env k = (if k = ''USAGE_EVENTS_WEBHOOK_URL'' then Some ''http://cp/usage''
     else if k = ''USAGE_EVENTS_BUFFER_MAX'' then Some ''2'' else if k = ''USAGE_EVENTS_MAX_ATTEMPTS'' then Some ''2'' else None)"

definition demo_event :: "string \<Rightarrow> UsageEvent" where
  "demo_event i = build_event (\<lambda>s. s) 0 ''hr'' i None ''m'' ''b'' 1 1 None 5 ''success'' None None"

definition demo_emitter :: UsageEventEmitter where
  "demo_emitter = \<lparr>em_pending = [], em_max = 2, em_max_attempts = 2, accepting = True, posting = None, dropped = [], delivered = []\<rparr>"

definition demo_emissions :: "emitter_event list" where
  "demo_emissions = [EmEmit 0 (demo_event ''a''), EmEmit 1 (demo_event ''b''), EmTake 2, EmEmit 3 (demo_event ''c''), EmPost 4 False]"

theorem usage_events_accounted_witness:
  "held_ids (emitter_run demo_env demo_emissions demo_emitter)
      = {#ue_event_id (demo_event ''a''), ue_event_id (demo_event ''b''), ue_event_id (demo_event ''c'')#}
    \<and> map fst (dropped (emitter_run demo_env demo_emissions demo_emitter)) = [''buffer_overflow'']"
proof -
  have e: "new_emitter demo_env = Inr demo_emitter" by code_simp
  have w: "usage_webhook_url demo_env \<noteq> None" by code_simp
  have d: "map fst (dropped (emitter_run demo_env demo_emissions demo_emitter)) = [''buffer_overflow'']" by code_simp
  from usage_events_accounted [OF e w refl refl, of demo_emissions "[]"] d show ?thesis by (simp add: demo_emissions_def)
qed

subsection \<open>The drain ends\<close>

text \<open>
  One round of the worker, and rounds with arbitrary results of the posts. The code's worker waits for
  its wake-up, at most a second, and looks again; here the looks that find nothing ready are left out and
  the next round comes half a minute later, when the longest wait after a failed post is over.
\<close>

definition worker_round :: "rat \<Rightarrow> bool \<Rightarrow> UsageEventEmitter \<Rightarrow> UsageEventEmitter" where
  "worker_round now ok s = finish_post now ok (next_ready now s)"

fun worker_rounds :: "rat \<Rightarrow> bool list \<Rightarrow> UsageEventEmitter \<Rightarrow> UsageEventEmitter" where
  "worker_rounds now [] s = s"
| "worker_rounds now (ok # oks) s = worker_rounds (now + 30) oks (worker_round now ok s)"

definition posts_left :: "UsageEventEmitter \<Rightarrow> nat" where
  "posts_left s = sum_list (map (\<lambda>p. em_max_attempts s - ue_attempts (pd_event p)) (em_pending s))"

lemma backoff_le: "backoff n \<le> 30"
  by (simp add: backoff_def)

lemma worker_round_facts:
  assumes inv: "emitter_inv s" and idle: "posting s = None" and ready: "\<forall>p\<in>set (em_pending s). next_attempt_at p \<le> now"
  shows "emitter_inv (worker_round now ok s) \<and> posting (worker_round now ok s) = None
    \<and> (\<forall>p\<in>set (em_pending (worker_round now ok s)). next_attempt_at p \<le> now + 30)
    \<and> (em_pending s \<noteq> [] \<longrightarrow> posts_left (worker_round now ok s) < posts_left s)
    \<and> (em_pending s = [] \<longrightarrow> em_pending (worker_round now ok s) = [])
    \<and> held_ids (worker_round now ok s) = held_ids s"
proof -
  note nr = next_ready_facts [OF inv idle, of now]
  note fp = finish_post_facts [OF conjunct1 [OF nr], of now ok]
  show ?thesis
  proof (cases "em_pending s")
    case Nil
    then have "worker_round now ok s = s" using idle by (simp add: worker_round_def next_ready_def finish_post_def)
    with inv idle Nil show ?thesis by simp
  next
    case (Cons q qs)
    with ready take_ready_None [of now "em_pending s"] obtain p ps where r: "take_ready now (em_pending s) = Some (p, ps)"
      by (cases "take_ready now (em_pending s)") (fastforce simp del: take_ready.simps)+
    note t = take_ready_Some [OF r, of "\<lambda>p. em_max_attempts s - ue_attempts (pd_event p)"]
    have left: "posts_left s = (em_max_attempts s - ue_attempts (pd_event p))
        + sum_list (map (\<lambda>p. em_max_attempts s - ue_attempts (pd_event p)) ps)"
      unfolding posts_left_def using t by (metis sum_mset.add_mset sum_mset_sum_list)
    have lt: "ue_attempts (pd_event p) < em_max_attempts s" and len: "length ps < em_max s"
      using inv t by (auto simp: emitter_inv_def)
    have pend: "\<forall>x\<in>set ps. next_attempt_at x \<le> now + 30" using ready t by fastforce
    have "posts_left (worker_round now ok s) < posts_left s
        \<and> (\<forall>x\<in>set (em_pending (worker_round now ok s)). next_attempt_at x \<le> now + 30)"
      using r lt len left pend backoff_le
      by (auto simp: worker_round_def next_ready_def finish_post_def enqueue_def drop_event_def Let_def posts_left_def)
    with nr fp Cons show ?thesis by (simp add: worker_round_def)
  qed
qed

text \<open>
  C36: Draining ends. Once nothing more is emitted, whatever the posts answer, as many rounds of
  the worker as there are posts left (the attempts remaining, summed over the queue) empty the
  queue, and every event that was in it is then delivered or dropped with a counted reason.
\<close>

theorem drain_terminates:
  assumes "emitter_inv s" and "posting s = None" and "\<forall>p\<in>set (em_pending s). next_attempt_at p \<le> now"
    and "posts_left s \<le> length oks"
  shows "em_pending (worker_rounds now oks s) = [] \<and> posting (worker_rounds now oks s) = None
    \<and> held_ids (worker_rounds now oks s) = held_ids s"
  using assms
proof (induction oks arbitrary: now s)
  case Nil
  have "em_pending s = []"
  proof (rule ccontr)
    assume "em_pending s \<noteq> []"
    then obtain p ps where "em_pending s = p # ps" by (cases "em_pending s") auto
    with Nil.prems(1,4) show False by (auto simp: posts_left_def emitter_inv_def)
  qed
  with Nil show ?case by simp
next
  case (Cons ok oks)
  note w = worker_round_facts [OF Cons.prems(1-3), of ok]
  have "posts_left (worker_round now ok s) \<le> length oks"
  proof (cases "em_pending s = []")
    case True
    with w show ?thesis by (simp add: posts_left_def)
  next
    case False
    with w Cons.prems(4) show ?thesis by simp
  qed
  with Cons.IH [of "worker_round now ok s" "now + 30"] w show ?case by simp
qed

theorem drain_terminates_witness:
  "em_pending (worker_rounds 10 [False, True, False, False] (emitter_run demo_env demo_emissions demo_emitter)) = []"
proof -
  let ?s = "emitter_run demo_env demo_emissions demo_emitter"
  have e: "new_emitter demo_env = Inr demo_emitter" by code_simp
  have w: "usage_webhook_url demo_env \<noteq> None" by code_simp
  have "emitter_inv ?s" using emitter_run_facts [OF _ w] new_emitter_facts [OF e] by blast
  moreover have "posting ?s = None" "list_all (\<lambda>p. next_attempt_at p \<le> 10) (em_pending ?s)" "posts_left ?s \<le> 4" by code_simp+
  ultimately show ?thesis
    using drain_terminates [of ?s 10 "[False, True, False, False]"] by (simp add: list_all_iff)
qed

text \<open>
  Shutdown can lose an event without counting it: the drain looks at the queue only, so with
  the queue empty and the last event being posted it ends at once, the worker is cancelled in
  the middle of the post, and the event is neither delivered nor dropped with a reason.
\<close>

theorem shutdown_loses_event_being_posted:
  "\<exists>s. s = emitter_run demo_env [EmEmit 0 (demo_event ''a''), EmTake 1] demo_emitter
     \<and> drained s \<and> held_ids s = {#ue_event_id (demo_event ''a'')#} \<and> held_ids (end_close (stop_accepting s)) = {#}"
proof -
  let ?s = "emitter_run demo_env [EmEmit 0 (demo_event ''a''), EmTake 1] demo_emitter"
  have s: "em_pending ?s = []" "map_option (\<lambda>p. ue_event_id (pd_event p)) (posting ?s) = Some (ue_event_id (demo_event ''a''))"
    "dropped ?s = []" "delivered ?s = []"
    by code_simp+
  then show ?thesis
    by (auto simp: held_ids_def drained_def end_close_def stop_accepting_def Let_def)
qed

end
