(* ===== verification/Streaming.thy ===== *)
theory Streaming imports Usage begin

text \<open>
  \<open>app/gateway/streaming.py\<close>: the wrapper around an upstream stream, which passes every chunk on,
  watches for \<open>[DONE]\<close> and a usage object, classifies how the stream ended and reports it once.
  A stream is its chunks and how it ends: at the end of the body, with an \<open>httpx.HTTPError\<close>, with
  another error, or because the client went away while a chunk was passed on.
\<close>

datatype stream_end = EndOfBody | HttpxFailure string | OtherFailure string | ClientGone

record StreamObservation =
  ob_outcome :: string
  ob_duration_ms :: rat
  ob_ttft_ms :: "rat option"
  ob_bytes_sent :: nat
  ob_saw_done :: bool
  ob_usage :: "obj option"

definition classify_stream_outcome :: "nat \<Rightarrow> bool \<Rightarrow> stream_end \<Rightarrow> string" where
  "classify_stream_outcome bytes_sent saw_done error =
     (case error of
        EndOfBody \<Rightarrow>
          if saw_done then ''success'' else if bytes_sent = 0 then ''empty_stream'' else ''success''
      | ClientGone \<Rightarrow> ''client_disconnected''
      | HttpxFailure e \<Rightarrow> if bytes_sent = 0 then ''upstream_error_before_first_byte'' else ''upstream_interrupted''
      | OtherFailure e \<Rightarrow> if bytes_sent = 0 then ''upstream_error_before_first_byte'' else ''upstream_interrupted'')"

record stream_state =
  first_byte_at :: "rat option"
  bytes_sent :: nat
  saw_done :: bool
  stream_usage :: "obj option"
  yielded :: "string list"

definition stream_start :: stream_state where
  "stream_start = \<lparr>first_byte_at = None, bytes_sent = 0, saw_done = False, stream_usage = None, yielded = []\<rparr>"

text \<open>The body of the loop on one chunk, received at a time.\<close>

definition see_chunk ::
  "(string \<Rightarrow> string) \<Rightarrow> (string \<Rightarrow> json option) \<Rightarrow> rat \<times> string \<Rightarrow> stream_state \<Rightarrow> stream_state" where
  "see_chunk decode loads tc s =
     (case tc of (now, chunk) \<Rightarrow>
        s\<lparr>first_byte_at := (case first_byte_at s of None \<Rightarrow> Some now | Some t \<Rightarrow> Some t),
          bytes_sent := bytes_sent s + length chunk,
          saw_done := (saw_done s \<or> contains ''[DONE]'' chunk),
          stream_usage := (case extract_usage_from_sse decode loads chunk of Some u \<Rightarrow> Some u | None \<Rightarrow> stream_usage s),
          yielded := yielded s @ [chunk]\<rparr>)"

fun see_chunks ::
  "(string \<Rightarrow> string) \<Rightarrow> (string \<Rightarrow> json option) \<Rightarrow> (rat \<times> string) list \<Rightarrow> stream_state \<Rightarrow> stream_state" where
  "see_chunks decode loads [] s = s"
| "see_chunks decode loads (c # cs) s = see_chunks decode loads cs (see_chunk decode loads c s)"

definition observe_end :: "rat \<Rightarrow> rat \<Rightarrow> stream_end \<Rightarrow> stream_state \<Rightarrow> StreamObservation" where
  "observe_end started_at ended_at error s =
     \<lparr>ob_outcome = classify_stream_outcome (bytes_sent s) (saw_done s) error,
      ob_duration_ms = round_to 2 (max 0 (ended_at - started_at) * 1000),
      ob_ttft_ms = (case first_byte_at s of None \<Rightarrow> None | Some t \<Rightarrow> Some (round_to 2 ((t - started_at) * 1000))),
      ob_bytes_sent = bytes_sent s, ob_saw_done = saw_done s, ob_usage = stream_usage s\<rparr>"

text \<open>
  \<open>observe_upstream_stream\<close>: what was passed on, and the observation handed to \<open>on_complete\<close>, of
  a stream that was iterated to its end or closed early.
\<close>

definition observe_upstream_stream ::
  "(string \<Rightarrow> string) \<Rightarrow> (string \<Rightarrow> json option) \<Rightarrow> rat \<Rightarrow> rat \<Rightarrow> (rat \<times> string) list \<Rightarrow> stream_end
    \<Rightarrow> string list \<times> StreamObservation" where
  "observe_upstream_stream decode loads started_at ended_at chunks error =
     (let s = see_chunks decode loads chunks stream_start in (yielded s, observe_end started_at ended_at error s))"

definition stream_headers :: "(string, string) dict \<Rightarrow> string \<Rightarrow> bool \<Rightarrow> (string, string) dict" where
  "stream_headers base selected_backend fallback_used =
     (let h = dict_set ''x-selected-backend'' selected_backend base;
          h = (if fallback_used then dict_set ''x-fallback-used'' ''true'' h else h)
      in dict_set ''x-ai-stream-observed'' ''true'' h)"

subsection \<open>Lines\<close>

definition ends_line :: "string \<Rightarrow> bool" where
  "ends_line s \<longleftrightarrow> s = [] \<or> cp (last s) = 10"

text \<open>
  What is used of UTF-8 decoding with errors ignored: a line feed ends any unfinished sequence, so
  text up to a line feed decodes on its own, into text that ends with the line feed.
\<close>

definition decodes_by_line :: "(string \<Rightarrow> string) \<Rightarrow> bool" where
  "decodes_by_line decode \<longleftrightarrow>
     decode [] = [] \<and> (\<forall>a b. ends_line a \<longrightarrow> decode (a @ b) = decode a @ decode b \<and> ends_line (decode a))"

lemma splitlines_acc_append:
  "xs \<noteq> [] \<Longrightarrow> cp (last xs) = 10 \<Longrightarrow> splitlines_acc acc (xs @ ys) = splitlines_acc acc xs @ splitlines_acc [] ys"
proof (induction acc xs rule: splitlines_acc.induct)
  case (2 acc c cs)
  show ?case
  proof (cases cs)
    case Nil
    with 2 show ?thesis by (simp add: is_linebreak_def)
  next
    case (Cons d ds)
    show ?thesis
    proof (cases "cp c = 13")
      case cr: True
      show ?thesis
      proof (cases "cp d = 10")
        case True
        with 2 cr Cons show ?thesis by (cases ds) auto
      next
        case False
        with 2 cr Cons show ?thesis by auto
      qed
    next
      case False
      with 2 Cons show ?thesis by (cases "is_linebreak c") auto
    qed
  qed
qed simp

lemma splitlines_append: "ends_line a \<Longrightarrow> splitlines (a @ b) = splitlines a @ splitlines b"
  by (cases "a = []") (auto simp: ends_line_def splitlines_def splitlines_acc_append)

lemma first_usage_append:
  "first_usage loads (a @ b) = (case first_usage loads a of Some u \<Rightarrow> Some u | None \<Rightarrow> first_usage loads b)"
  by (induction a) (auto split: option.split)

lemma extract_append:
  assumes "decodes_by_line decode" and "ends_line a"
  shows "extract_usage_from_sse decode loads (a @ b) =
    (case extract_usage_from_sse decode loads a of Some u \<Rightarrow> Some u | None \<Rightarrow> extract_usage_from_sse decode loads b)"
  using assms by (simp add: extract_usage_from_sse_def decodes_by_line_def splitlines_append first_usage_append
      split: option.split)

lemma startswith_line:
  assumes "startswith (a @ b) p" and "a \<noteq> []" and "ends_line a" and "\<forall>c\<in>set p. cp c \<noteq> 10"
  shows "startswith a p"
proof (cases "length p \<le> length a")
  case True
  with assms(1) show ?thesis by (simp add: startswith_def)
next
  case False
  then have "take (length a) p = a"
    using assms(1) by (metis append_eq_conv_conj startswith_def take_take min.absorb1 nat_le_linear)
  then have "last a \<in> set p" using assms(2) by (metis in_set_takeD last_in_set)
  with assms(2-4) show ?thesis by (auto simp: ends_line_def)
qed

lemma contains_append_line:
  "ends_line a \<Longrightarrow> \<forall>c\<in>set p. cp c \<noteq> 10 \<Longrightarrow> p \<noteq> [] \<Longrightarrow> contains p (a @ b) = (contains p a \<or> contains p b)"
proof (induction a)
  case (Cons x xs)
  have "ends_line xs" using Cons.prems(1) by (auto simp: ends_line_def split: if_splits)
  with Cons show ?case
    using startswith_line [of "x # xs" b p] startswith_append [of "x # xs" p b] by auto
qed simp

lemma see_chunks_plain:
  "yielded (see_chunks decode loads cs s) = yielded s @ map snd cs"
  "bytes_sent (see_chunks decode loads cs s) = bytes_sent s + length (concat (map snd cs))"
  by (induction cs arbitrary: s) (auto simp: see_chunk_def split: prod.split)

lemma see_chunks_done:
  "saw_done (see_chunks decode loads cs s) = (saw_done s \<or> (\<exists>c\<in>set (map snd cs). contains ''[DONE]'' c))"
  by (induction cs arbitrary: s) (auto simp: see_chunk_def split: prod.split)

definition usage_lines :: "(string \<Rightarrow> string) \<Rightarrow> (string \<Rightarrow> json option) \<Rightarrow> string \<Rightarrow> obj list" where
  "usage_lines decode loads body = List.map_filter (usage_of_line loads) (splitlines (decode body))"

lemma first_usage_lines:
  "first_usage loads ls = (case List.map_filter (usage_of_line loads) ls of [] \<Rightarrow> None | u # us \<Rightarrow> Some u)"
  by (induction ls) (auto simp: List.map_filter_simps split: option.split)

lemma usage_lines_append:
  "decodes_by_line decode \<Longrightarrow> ends_line a \<Longrightarrow>
    usage_lines decode loads (a @ b) = usage_lines decode loads a @ usage_lines decode loads b"
  by (simp add: usage_lines_def decodes_by_line_def splitlines_append map_filter_def)

lemma extract_lines:
  "extract_usage_from_sse decode loads chunk = (case usage_lines decode loads chunk of [] \<Rightarrow> None | u # us \<Rightarrow> Some u)"
  by (simp add: extract_usage_from_sse_def usage_lines_def first_usage_lines)

lemma see_chunks_usage:
  assumes "decodes_by_line decode"
  shows "\<forall>c\<in>set (map snd cs). ends_line c \<Longrightarrow> length (usage_lines decode loads (concat (map snd cs))) \<le> 1 \<Longrightarrow>
    stream_usage (see_chunks decode loads cs s) =
      (case extract_usage_from_sse decode loads (concat (map snd cs)) of Some u \<Rightarrow> Some u | None \<Rightarrow> stream_usage s)"
proof (induction cs arbitrary: s)
  case Nil
  have "splitlines (decode []) = []" using assms by (simp add: decodes_by_line_def splitlines_def)
  then show ?case by (simp add: extract_usage_from_sse_def)
next
  case (Cons tc cs)
  let ?rest = "concat (map snd cs)"
  have line: "ends_line (snd tc)" using Cons.prems(1) by simp
  have app: "usage_lines decode loads (snd tc @ ?rest) = usage_lines decode loads (snd tc) @ usage_lines decode loads ?rest"
    by (rule usage_lines_append [OF assms line])
  have IH: "stream_usage (see_chunks decode loads cs (see_chunk decode loads tc s)) =
      (case extract_usage_from_sse decode loads ?rest of Some u \<Rightarrow> Some u | None \<Rightarrow> stream_usage (see_chunk decode loads tc s))"
    using Cons.IH Cons.prems app by simp
  have "usage_lines decode loads (snd tc) = [] \<or> usage_lines decode loads ?rest = []"
    using Cons.prems(2) app by (cases "usage_lines decode loads (snd tc)") auto
  then show ?case
    using IH app by (auto simp: extract_lines see_chunk_def split: prod.split list.split option.split)
qed

lemma contains_concat_lines:
  "\<forall>c\<in>set cs. ends_line c \<Longrightarrow> contains ''[DONE]'' (concat cs) = (\<exists>c\<in>set cs. contains ''[DONE]'' c)"
proof (induction cs)
  case (Cons c cs)
  have "\<forall>x\<in>set ''[DONE]''. cp x \<noteq> 10" by code_simp
  with Cons show ?case by (simp add: contains_append_line)
qed simp

text \<open>
  On a stream whose chunks end at line ends, watching the chunks one by one is the same as
  parsing the whole body: every chunk is passed on unchanged and in order, and the observation
  has the body's length, its \<open>[DONE]\<close> marker and the one usage object it holds, whatever the
  chunks and the arrival times are.
\<close>

theorem stream_observed_as_whole:
  assumes "decodes_by_line decode" and "\<forall>c\<in>set (map snd chunks). ends_line c"
    and "length (usage_lines decode loads (concat (map snd chunks))) \<le> 1"
    and "observe_upstream_stream decode loads t0 t1 chunks error = (passed, ob)"
  shows "passed = map snd chunks \<and> ob_bytes_sent ob = length (concat passed)
    \<and> ob_saw_done ob = contains ''[DONE]'' (concat passed)
    \<and> ob_usage ob = extract_usage_from_sse decode loads (concat passed)"
proof -
  have "passed = map snd chunks" and ob: "ob = observe_end t0 t1 error (see_chunks decode loads chunks stream_start)"
    using assms(4) by (auto simp: observe_upstream_stream_def Let_def see_chunks_plain stream_start_def)
  with see_chunks_usage [OF assms(1,2,3), of stream_start] contains_concat_lines [OF assms(2)] show ?thesis
    by (auto simp: ob observe_end_def see_chunks_plain see_chunks_done stream_start_def split: option.split)
qed

definition demo_loads :: "string \<Rightarrow> json option" where
  "demo_loads d = (if d = ''U'' then Some (JObj [(''usage'', JObj [(''prompt_tokens'', JInt 7)])]) else None)"

definition demo_line :: "string \<Rightarrow> string" where
  "demo_line s = ''data: '' @ s @ [CHR 0x0A]"

lemma demo_decodes: "decodes_by_line (\<lambda>s. s)"
  by (simp add: decodes_by_line_def)

theorem stream_observed_as_whole_witness:
  "ob_usage (snd (observe_upstream_stream (\<lambda>s. s) demo_loads 0 9 [(1, demo_line ''x''), (2, demo_line ''U''), (3, demo_line ''[DONE]'')] EndOfBody))
    = Some [(''prompt_tokens'', JInt 7)]"
proof -
  let ?cs = "[(1 :: rat, demo_line ''x''), (2, demo_line ''U''), (3, demo_line ''[DONE]'')]"
  have lines: "\<forall>c\<in>set (map snd ?cs). ends_line c" by code_simp
  have one: "length (usage_lines (\<lambda>s. s) demo_loads (concat (map snd ?cs))) \<le> 1" by code_simp
  obtain ys ob where o: "observe_upstream_stream (\<lambda>s. s) demo_loads 0 9 ?cs EndOfBody = (ys, ob)" by fastforce
  have "extract_usage_from_sse (\<lambda>s. s) demo_loads (concat (map snd ?cs)) = Some [(''prompt_tokens'', JInt 7)]" by code_simp
  with stream_observed_as_whole [OF demo_decodes lines one o] show ?thesis by (simp add: o)
qed

text \<open>
  The outcome of a stream is honest: it is a success exactly when the body ended by itself and
  something was sent, an empty body is reported as empty, a client that left as disconnected,
  and an upstream failure by whether it came before the first byte.
\<close>

theorem stream_outcome_is_honest:
  "(case observe_upstream_stream decode loads t0 t1 chunks error of (passed, ob) \<Rightarrow>
     passed = map snd chunks
     \<and> (ob_outcome ob = ''success'' \<longleftrightarrow> error = EndOfBody \<and> concat passed \<noteq> [])
     \<and> (ob_outcome ob = ''empty_stream'' \<longleftrightarrow> error = EndOfBody \<and> concat passed = [])
     \<and> (ob_outcome ob = ''client_disconnected'' \<longleftrightarrow> error = ClientGone)
     \<and> (ob_outcome ob = ''upstream_error_before_first_byte'' \<longleftrightarrow> error \<notin> {EndOfBody, ClientGone} \<and> concat passed = [])
     \<and> (ob_outcome ob = ''upstream_interrupted'' \<longleftrightarrow> error \<notin> {EndOfBody, ClientGone} \<and> concat passed \<noteq> []))"
proof -
  have d: "\<not> contains ''[DONE]'' []" by simp
  have "concat (map snd chunks) \<noteq> []" if "saw_done (see_chunks decode loads chunks stream_start)"
  proof -
    from that obtain c where c: "c \<in> set (map snd chunks)" "contains ''[DONE]'' c"
      by (auto simp: see_chunks_done stream_start_def)
    with d have "c \<noteq> []" by metis
    with c(1) show ?thesis by auto
  qed
  then show ?thesis
    by (cases error) (auto simp: observe_upstream_stream_def Let_def observe_end_def see_chunks_plain stream_start_def
        classify_stream_outcome_def)
qed

theorem stream_outcome_is_honest_witness:
  "ob_outcome (snd (observe_upstream_stream (\<lambda>s. s) demo_loads 0 9 [(1, ''x'')] ClientGone)) = ''client_disconnected''"
proof -
  have "case observe_upstream_stream (\<lambda>s. s) demo_loads 0 9 [(1, ''x'')] ClientGone of (passed, ob) \<Rightarrow>
      ob_outcome ob = ''client_disconnected'' \<longleftrightarrow> ClientGone = ClientGone"
    using stream_outcome_is_honest [where decode = "\<lambda>s. s" and loads = demo_loads and ?t0.0 = 0 and ?t1.0 = 9
        and chunks = "[(1, ''x'')]" and error = ClientGone] by (auto split: prod.splits)
  then show ?thesis by (simp split: prod.splits)
qed

text \<open>
  The usage of a stream depends on where the network cuts it: the same body, cut inside the
  line that carries the usage object, is observed without usage, so its real cost is replaced
  by the estimate and the quota keeps the reservation.
\<close>

theorem split_usage_line_is_missed:
  "concat [demo_line ''x'', ''data: '', ''U'' @ [CHR 0x0A]] = concat [demo_line ''x'', demo_line ''U'']
   \<and> ob_usage (snd (observe_upstream_stream (\<lambda>s. s) demo_loads 0 9 [(1, demo_line ''x''), (2, demo_line ''U'')] EndOfBody))
      = Some [(''prompt_tokens'', JInt 7)]
   \<and> ob_usage (snd (observe_upstream_stream (\<lambda>s. s) demo_loads 0 9
        [(1, demo_line ''x''), (2, ''data: ''), (3, ''U'' @ [CHR 0x0A])] EndOfBody)) = None"
  by (intro conjI; code_simp)

end
