(* ===== verification/Effects.thy ===== *)
theory Effects imports Main Prelude begin

text \<open>
  Request handlers as computations that change a state and may raise: sequencing, \<open>try\<close> with a
  handler that re-raises, \<open>try/finally\<close>, and Hoare triples with a postcondition for normal and one
  for exceptional ends. A triple whose three conditions are the same property says that the
  property is kept on every path.
\<close>

type_synonym ('e, 's, 'a) comp = "'s \<Rightarrow> ('e + 'a) \<times> 's"

definition give :: "'a \<Rightarrow> ('e, 's, 'a) comp" where
  "give x = (\<lambda>s. (Inr x, s))"

definition throw :: "'e \<Rightarrow> ('e, 's, 'a) comp" where
  "throw e = (\<lambda>s. (Inl e, s))"

definition andthen :: "('e, 's, 'a) comp \<Rightarrow> ('a \<Rightarrow> ('e, 's, 'b) comp) \<Rightarrow> ('e, 's, 'b) comp" where
  "andthen m f = (\<lambda>s. case m s of (Inl e, s') \<Rightarrow> (Inl e, s') | (Inr x, s') \<Rightarrow> f x s')"

definition update :: "('s \<Rightarrow> 's) \<Rightarrow> ('e, 's, unit) comp" where
  "update f = (\<lambda>s. (Inr (), f s))"

definition asking :: "('s \<Rightarrow> 'a) \<Rightarrow> ('e, 's, 'a) comp" where
  "asking f = (\<lambda>s. (Inr (f s), s))"

text \<open>\<open>except\<close> with the exceptions it catches; the handler decides how the block ends.\<close>

definition catching :: "('e \<Rightarrow> bool) \<Rightarrow> ('e, 's, 'a) comp \<Rightarrow> ('e \<Rightarrow> ('e, 's, 'a) comp) \<Rightarrow> ('e, 's, 'a) comp" where
  "catching P m h = (\<lambda>s. case m s of (Inl e, s') \<Rightarrow> if P e then h e s' else (Inl e, s') | (Inr x, s') \<Rightarrow> (Inr x, s'))"

text \<open>\<open>finally\<close>: the cleanup runs on every path; an exception it raises replaces the result.\<close>

definition finally_do :: "('e, 's, 'a) comp \<Rightarrow> ('e, 's, unit) comp \<Rightarrow> ('e, 's, 'a) comp" where
  "finally_do m h = (\<lambda>s. case m s of (r, s') \<Rightarrow> (case h s' of (Inl e, s'') \<Rightarrow> (Inl e, s'') | (Inr _, s'') \<Rightarrow> (r, s'')))"

fun each :: "('a \<Rightarrow> ('e, 's, unit) comp) \<Rightarrow> 'a list \<Rightarrow> ('e, 's, unit) comp" where
  "each f [] = give ()"
| "each f (x # xs) = andthen (f x) (\<lambda>_. each f xs)"

definition when_do :: "bool \<Rightarrow> ('e, 's, unit) comp \<Rightarrow> ('e, 's, unit) comp" where
  "when_do b m = (if b then m else give ())"

subsection \<open>Triples\<close>

definition triple ::
  "('s \<Rightarrow> bool) \<Rightarrow> ('e, 's, 'a) comp \<Rightarrow> ('a \<Rightarrow> 's \<Rightarrow> bool) \<Rightarrow> ('e \<Rightarrow> 's \<Rightarrow> bool) \<Rightarrow> bool" where
  "triple P m Q E \<longleftrightarrow> (\<forall>s. P s \<longrightarrow> (case m s of (Inr x, s') \<Rightarrow> Q x s' | (Inl e, s') \<Rightarrow> E e s'))"

named_theorems triples "triples of the operations and rules to compose them"

lemma tripleD:
  "triple P m Q E \<Longrightarrow> P s \<Longrightarrow> m s = (r, s') \<Longrightarrow> (case r of Inr x \<Rightarrow> Q x s' | Inl e \<Rightarrow> E e s')"
  by (fastforce simp: triple_def split: sum.splits)

lemma triple_weaken:
  "triple P m Q E \<Longrightarrow> (\<And>s. P' s \<Longrightarrow> P s) \<Longrightarrow> (\<And>x s. Q x s \<Longrightarrow> Q' x s) \<Longrightarrow> (\<And>e s. E e s \<Longrightarrow> E' e s) \<Longrightarrow> triple P' m Q' E'"
  by (fastforce simp: triple_def split: sum.splits prod.splits)

lemma triple_give: "(\<And>s. P s \<Longrightarrow> Q x s) \<Longrightarrow> triple P (give x) Q E"
  by (simp add: triple_def give_def)

lemma triple_throw: "(\<And>s. P s \<Longrightarrow> E e s) \<Longrightarrow> triple P (throw e) Q E"
  by (simp add: triple_def throw_def)

lemma triple_update: "(\<And>s. P s \<Longrightarrow> Q () (f s)) \<Longrightarrow> triple P (update f) Q E"
  by (simp add: triple_def update_def)

lemma triple_asking: "(\<And>s. P s \<Longrightarrow> Q (f s) s) \<Longrightarrow> triple P (asking f) Q E"
  by (simp add: triple_def asking_def)

lemma triple_andthen:
  "triple P m R E \<Longrightarrow> (\<And>x. triple (R x) (f x) Q E) \<Longrightarrow> triple P (andthen m f) Q E"
  by (fastforce simp: triple_def andthen_def split: sum.splits prod.splits)

lemma triple_catching:
  "triple P m Q R \<Longrightarrow> (\<And>e. C e \<Longrightarrow> triple (R e) (h e) Q E) \<Longrightarrow> (\<And>e s. \<not> C e \<Longrightarrow> R e s \<Longrightarrow> E e s) \<Longrightarrow>
    triple P (catching C m h) Q E"
  by (fastforce simp: triple_def catching_def split: sum.splits prod.splits)

lemma triple_finally:
  assumes "triple P m R F" and "\<And>x. triple (R x) h (\<lambda>_. Q x) E" and "\<And>e. triple (F e) h (\<lambda>_. E e) E"
  shows "triple P (finally_do m h) Q E"
  unfolding triple_def
proof (intro allI impI)
  fix s assume P: "P s"
  obtain r s1 where m: "m s = (r, s1)" by fastforce
  obtain q s2 where h: "h s1 = (q, s2)" by fastforce
  show "case finally_do m h s of (Inr x, s') \<Rightarrow> Q x s' | (Inl e, s') \<Rightarrow> E e s'"
  proof (cases r)
    case (Inl e)
    with tripleD [OF assms(1) P m] have "F e s1" by simp
    from tripleD [OF assms(3) this h] Inl show ?thesis by (cases q) (simp_all add: finally_do_def m h)
  next
    case (Inr x)
    with tripleD [OF assms(1) P m] have "R x s1" by simp
    from tripleD [OF assms(2) this h] Inr show ?thesis by (cases q) (simp_all add: finally_do_def m h)
  qed
qed

lemma triple_if: "(b \<Longrightarrow> triple P m Q E) \<Longrightarrow> (\<not> b \<Longrightarrow> triple P n Q E) \<Longrightarrow> triple P (if b then m else n) Q E"
  by simp

lemma triple_option:
  "triple P m Q E \<Longrightarrow> (\<And>x. triple P (f x) Q E) \<Longrightarrow> triple P (case o' of None \<Rightarrow> m | Some x \<Rightarrow> f x) Q E"
  by (cases o') simp_all

lemma triple_same: "(\<And>s. P s \<Longrightarrow> R (snd (m s))) \<Longrightarrow> triple P m (\<lambda>_. R) (\<lambda>_. R)"
  by (auto simp: triple_def split: sum.splits prod.splits) (metis snd_conv)+

text \<open>A property kept on every path.\<close>

definition keeps :: "('s \<Rightarrow> bool) \<Rightarrow> ('e, 's, 'a) comp \<Rightarrow> bool" where
  "keeps P m \<longleftrightarrow> triple P m (\<lambda>_. P) (\<lambda>_. P)"

lemma keeps_iff: "keeps P m \<longleftrightarrow> (\<forall>s. P s \<longrightarrow> P (snd (m s)))"
  by (auto simp: keeps_def triple_def split: sum.splits prod.splits) (metis prod.collapse)

lemma keeps_give [triples]: "keeps P (give x)"
  by (simp add: keeps_iff give_def)

lemma keeps_throw [triples]: "keeps P (throw e)"
  by (simp add: keeps_iff throw_def)

lemma keeps_asking [triples]: "keeps P (asking f)"
  by (simp add: keeps_iff asking_def)

lemma keeps_andthen [triples]: "keeps P m \<Longrightarrow> (\<And>x. keeps P (f x)) \<Longrightarrow> keeps P (andthen m f)"
  unfolding keeps_def by (rule triple_andthen)

lemma keeps_catching [triples]: "keeps P m \<Longrightarrow> (\<And>e. keeps P (h e)) \<Longrightarrow> keeps P (catching C m h)"
  unfolding keeps_def by (rule triple_catching) auto

lemma keeps_finally [triples]: "keeps P m \<Longrightarrow> keeps P h \<Longrightarrow> keeps P (finally_do m h)"
  unfolding keeps_def by (rule triple_finally)

lemma keeps_each [triples]: "(\<And>x. keeps P (f x)) \<Longrightarrow> keeps P (each f xs)"
  by (induction xs) (simp_all add: keeps_give keeps_andthen)

lemma keeps_when [triples]: "keeps P m \<Longrightarrow> keeps P (when_do b m)"
  by (simp add: when_do_def keeps_give)

lemma keeps_if [triples]: "(b \<Longrightarrow> keeps P m) \<Longrightarrow> (\<not> b \<Longrightarrow> keeps P n) \<Longrightarrow> keeps P (if b then m else n)"
  by simp

lemma keeps_option [triples]:
  "keeps P m \<Longrightarrow> (\<And>x. keeps P (f x)) \<Longrightarrow> keeps P (case o' of None \<Rightarrow> m | Some x \<Rightarrow> f x)"
  by (cases o') simp_all

lemma keeps_prod [triples]: "(\<And>x y. keeps P (f x y)) \<Longrightarrow> keeps P (case p of (x, y) \<Rightarrow> f x y)"
  by (cases p) simp

lemma keeps_sum [triples]: "(\<And>x. keeps P (f x)) \<Longrightarrow> (\<And>y. keeps P (g y)) \<Longrightarrow> keeps P (case r of Inl x \<Rightarrow> f x | Inr y \<Rightarrow> g y)"
  by (cases r) simp_all

lemma keeps_let [triples]: "keeps P (f v) \<Longrightarrow> keeps P (let x = v in f x)"
  by simp

lemma triple_keeps: "keeps P m \<Longrightarrow> (\<And>s. P' s \<Longrightarrow> P s) \<Longrightarrow> (\<And>x s. P s \<Longrightarrow> Q x s) \<Longrightarrow> (\<And>e s. P s \<Longrightarrow> E e s) \<Longrightarrow> triple P' m Q E"
  unfolding keeps_def by (rule triple_weaken)

text \<open>What a computation returns when it returns.\<close>

definition yields :: "('a \<Rightarrow> bool) \<Rightarrow> ('e, 's, 'a) comp \<Rightarrow> bool" where
  "yields K m \<longleftrightarrow> (\<forall>c x c'. m c = (Inr x, c') \<longrightarrow> K x)"

lemma yields_andthen [triples]: "(\<And>x. yields K (f x)) \<Longrightarrow> yields K (andthen m f)"
  by (fastforce simp: yields_def andthen_def split: sum.splits prod.splits)

lemma yields_simple [triples]: "K x \<Longrightarrow> yields K (give x)" "yields K (throw e)"
  by (simp_all add: yields_def give_def throw_def)

lemma yields_cases [triples]:
  "yields K m \<Longrightarrow> (\<And>x. yields K (f x)) \<Longrightarrow> yields K (case o' of None \<Rightarrow> m | Some x \<Rightarrow> f x)"
  "(b \<Longrightarrow> yields K m) \<Longrightarrow> (\<not> b \<Longrightarrow> yields K n) \<Longrightarrow> yields K (if b then m else n)"
  "(\<And>x y. yields K (h x y)) \<Longrightarrow> yields K (case p of (x, y) \<Rightarrow> h x y)"
  by (cases o'; simp) (simp, cases p, simp)

lemma triple_yields: "triple P m Q E \<Longrightarrow> yields K m \<Longrightarrow> (\<And>x s. Q x s \<Longrightarrow> K x \<Longrightarrow> Q' x s) \<Longrightarrow> triple P m Q' E"
  unfolding triple_def yields_def by (fastforce split: sum.splits prod.splits)

text \<open>An exception that is never raised.\<close>

definition avoids :: "'e \<Rightarrow> ('e, 's, 'a) comp \<Rightarrow> bool" where
  "avoids x m \<longleftrightarrow> (\<forall>s s'. m s \<noteq> (Inl x, s'))"

lemma avoids_simple [triples]: "avoids x (give v)" "avoids x (asking f)" "avoids x (update h)" "e \<noteq> x \<Longrightarrow> avoids x (throw e)"
  by (simp_all add: avoids_def give_def asking_def update_def throw_def)

lemma avoids_return [triples]: "avoids x (\<lambda>s. (Inr (g s), k s))"
  by (simp add: avoids_def)

lemma avoids_andthen [triples]: "avoids x m \<Longrightarrow> (\<And>v. avoids x (f v)) \<Longrightarrow> avoids x (andthen m f)"
  unfolding avoids_def andthen_def by (auto split: prod.splits sum.splits)

lemma avoids_catching [triples]:
  assumes "avoids x m" and "\<And>e. e \<noteq> x \<Longrightarrow> avoids x (h e)"
  shows "avoids x (catching C m h)"
proof -
  have "h e s \<noteq> (Inl x, s')" if "m s0 = (Inl e, s)" for e s0 s s'
    using assms that by (cases "e = x") (auto simp: avoids_def)
  with assms(1) show ?thesis unfolding avoids_def catching_def by (auto split: prod.splits sum.splits if_splits)
qed

lemma avoids_finally [triples]: "avoids x m \<Longrightarrow> avoids x h \<Longrightarrow> avoids x (finally_do m h)"
  unfolding avoids_def finally_do_def by (auto split: prod.splits sum.splits)

lemma avoids_cases [triples]:
  "avoids x m \<Longrightarrow> (\<And>v. avoids x (f v)) \<Longrightarrow> avoids x (case o' of None \<Rightarrow> m | Some v \<Rightarrow> f v)"
  "(b \<Longrightarrow> avoids x m) \<Longrightarrow> (\<not> b \<Longrightarrow> avoids x n) \<Longrightarrow> avoids x (if b then m else n)"
  "(\<And>v w. avoids x (h v w)) \<Longrightarrow> avoids x (case p of (v, w) \<Rightarrow> h v w)"
  "(\<And>v. avoids x (k v)) \<Longrightarrow> (\<And>w. avoids x (l w)) \<Longrightarrow> avoids x (case r of Inl v \<Rightarrow> k v | Inr w \<Rightarrow> l w)"
  by (cases o'; simp) (simp, cases p, simp, cases r, simp_all)

lemma avoids_let [triples]: "avoids x (f v) \<Longrightarrow> avoids x (let y = v in f y)"
  by simp

lemma avoids_each [triples]: "(\<And>v. avoids x (f v)) \<Longrightarrow> avoids x (each f vs)"
  by (induction vs) (simp_all add: avoids_simple avoids_andthen)

lemma avoids_when [triples]: "avoids x m \<Longrightarrow> avoids x (when_do b m)"
  by (simp add: when_do_def avoids_simple)

lemma keeps_avoids: "keeps P m \<Longrightarrow> avoids x m \<Longrightarrow> triple P m (\<lambda>_. P) (\<lambda>e s. P s \<and> e \<noteq> x)"
  unfolding keeps_def triple_def avoids_def by (auto split: prod.splits sum.splits)

end
