(* ===== verification/Evaluations.thy ===== *)
theory Evaluations imports Governance begin

text \<open>
  \<open>app/gateway/evaluations.py\<close>: what is sent to the control plane about a finished response. The
  payload is built before the background task starts, so an exception there is the request's.
\<close>

definition response_evaluation_enabled :: "environ \<Rightarrow> bool" where
  "response_evaluation_enabled env = env_flag (getenv env ''GOVERNANCE_EVALUATE_RESPONSE'' ''false'')"

text \<open>\<open>choices[0].get("message", {})\<close> raises \<open>AttributeError\<close> on a choice that is no dictionary.\<close>

definition response_text :: "obj \<Rightarrow> py_exc + string" where
  "response_text completion =
     (case jget completion ''choices'' of
        JArr (c # cs) \<Rightarrow>
          (case c of
             JObj choice \<Rightarrow>
               (case get_default choice ''message'' (JObj []) of
                  JObj m \<Rightarrow> (case jget m ''content'' of JStr s \<Rightarrow> Inr s | _ \<Rightarrow> Inr [])
                | _ \<Rightarrow> Inr [])
           | _ \<Rightarrow> Inl (OtherError ''AttributeError''))
      | _ \<Rightarrow> Inr [])"

definition build_evaluation_payload ::
  "(json \<Rightarrow> string) \<Rightarrow> string \<Rightarrow> string \<Rightarrow> string \<Rightarrow> obj \<Rightarrow> obj \<Rightarrow> rat \<Rightarrow> pyfloat option \<Rightarrow> py_exc + obj" where
  "build_evaluation_payload rep tm model request_id chat_payload completion latency_ms cost =
     bind_exc (response_text completion) (\<lambda>text.
       Inr [(''team'', JStr tm), (''model'', JStr model), (''request_id'', JStr request_id),
            (''prompt_text'', JStr (extract_prompt_text rep chat_payload)), (''response_text'', JStr text),
            (''latency_ms'', JFloat (round_float 2 latency_ms)),
            (''cost_usd'', JFloat (case cost of None \<Rightarrow> FDec 0 0 | Some x \<Rightarrow> x))])"

text \<open>\<open>submit_response_evaluation\<close> swallows every \<open>httpx.HTTPError\<close>.\<close>

datatype post_outcome = Posted | PostHttpError string | PostRaised py_exc

definition submit_response_evaluation ::
  "(string \<Rightarrow> obj \<Rightarrow> post_outcome) \<Rightarrow> GovernanceConfig \<Rightarrow> obj \<Rightarrow> py_exc + unit" where
  "submit_response_evaluation post config payload =
     (case post (gc_control_plane_url config @ ''/governance/evaluate-response'') payload of
        PostRaised e \<Rightarrow> Inl e | _ \<Rightarrow> Inr ())"

end
