(* ===== verification/Chat.thy ===== *)
theory Chat imports Effects Budget_Guard Admission Quota Completions Evaluations Decisions Streaming begin

text \<open>
  \<open>app/gateway/routers/chat.py\<close>: the chat-completions endpoint, which composes the other parts of
  the gateway. The handler is a computation on a request context: the shared state of the
  process (any type; between two steps other requests may have changed it arbitrarily), the
  request's own variables (\<open>global_held\<close>, the lease, the budget reservation), and the trace of
  what it did. The parts it awaits are a record of services on the shared state; the budget
  reservation, routing, forwarding and cost computations are the definitions of their theories.
  An exception is one of the classes the handler tells apart; \<open>CancelledError\<close> is not an
  \<open>Exception\<close>. Metrics and span attributes are left out.
\<close>

subsection \<open>Exceptions, effects, services\<close>

datatype httpx_error = ConnectFailure | StatusFailure int | OtherHttpx string

datatype chat_exc = ChatHttp HTTPException | ChatHttpx httpx_error | ChatRaised py_exc | Cancelled

datatype effect =
    GateTaken | GateFreed | LeaseTaken | LeaseFreed | BudgetTaken int | BudgetSettled int
  | QuotaTaken | QuotaRefunded | QuotaReconciled int int rat
  | GovernanceAsked | ModelCalled string | HealthNoted string bool
  | DecisionStored string | UsageSent string

record 's chat_ctx =
  shared :: 's
  effects :: "effect list"
  gate_held :: bool
  held_lease :: "AdmissionLease option"
  held_budget :: "BudgetReservation option"

type_synonym ('s, 'a) chat = "(chat_exc, 's chat_ctx, 'a) comp"

type_synonym ('s, 'a) service = "'s \<Rightarrow> (chat_exc + 'a) \<times> 's"

record ('s, 'r) chat_services =
  has_guard :: "'s \<Rightarrow> bool"
  guard_of :: "'s \<Rightarrow> 'r InferenceBudgetGuard"
  put_guard :: "'r InferenceBudgetGuard \<Rightarrow> 's \<Rightarrow> 's"
  budget_policy_error :: "'s \<Rightarrow> string option"
  load_budget_policy :: "'s \<Rightarrow> string + InferenceBudgetPolicy option"
  budget_hash :: hash_env
  budget_eval :: "'r evaluator"
  fresh_id :: "'s \<Rightarrow> string"
  clock_ms :: "'s \<Rightarrow> int"
  clocks :: "'s \<Rightarrow> nat \<Rightarrow> rat"
  since_start_ms :: "'s \<Rightarrow> rat"
  draining_error :: "'s \<Rightarrow> HTTPException option"
  has_gate :: bool
  take_gate :: "('s, unit) service"
  free_gate :: "'s \<Rightarrow> 's"
  has_admission :: bool
  take_lease :: "string \<Rightarrow> string \<Rightarrow> ('s, AdmissionLease) service"
  free_lease :: "AdmissionLease \<Rightarrow> 's \<Rightarrow> AdmissionLease \<times> 's"
  has_tenants :: bool
  quota_reserve :: "string \<Rightarrow> int \<Rightarrow> int \<Rightarrow> rat \<Rightarrow> ('s, QuotaReservation) service"
  quota_refund :: "QuotaReservation \<Rightarrow> ('s, unit) service"
  quota_reconcile :: "QuotaReservation \<Rightarrow> int \<Rightarrow> int \<Rightarrow> rat \<Rightarrow> ('s, unit) service"
  governance_config :: "GovernanceConfig option"
  ask_governance :: "obj \<Rightarrow> usage_signals \<Rightarrow> ('s, obj option) service"
  observe_policy :: "EnforcementEvidence \<Rightarrow> 's \<Rightarrow> 's"
  sha256_of :: "string \<Rightarrow> nat"
  health_of :: "'s \<Rightarrow> string \<Rightarrow> BackendHealth"
  read_health :: "string \<Rightarrow> ('s, BackendHealth) service"
  note_health :: "string \<Rightarrow> bool \<Rightarrow> bool \<Rightarrow> ('s, unit) service"
  breaker_of :: "'s \<Rightarrow> CircuitBreaker option"
  put_breaker :: "CircuitBreaker option \<Rightarrow> 's \<Rightarrow> 's"
  retries_of :: "'s \<Rightarrow> RetryBudget option"
  put_retries :: "RetryBudget option \<Rightarrow> 's \<Rightarrow> 's"
  upstream_of :: "'s \<Rightarrow> upstream"
  elapse :: "('s, unit) service"
  open_stream :: "upstream_call \<Rightarrow> ('s, int) service"
  spawn_shadow :: "string \<Rightarrow> 's \<Rightarrow> 's"
  put_decision :: "DecisionRecord \<Rightarrow> ('s, unit) service"
  has_usage_events :: bool
  send_usage :: "UsageEvent \<Rightarrow> ('s, unit) service"
  rep_of :: "json \<Rightarrow> string"
  gateway_version :: string
  embed_metadata :: bool
  evaluate_responses :: bool
  spawn_evaluation :: "obj \<Rightarrow> 's \<Rightarrow> 's"

definition log_effect :: "effect \<Rightarrow> ('s, unit) chat" where
  "log_effect e = update (\<lambda>c. c\<lparr>effects := effects c @ [e]\<rparr>)"

definition call_service :: "('s, 'a) service \<Rightarrow> ('s, 'a) chat" where
  "call_service f = (\<lambda>c. case f (shared c) of (r, s) \<Rightarrow> (r, c\<lparr>shared := s\<rparr>))"

definition change_shared :: "('s \<Rightarrow> 's) \<Rightarrow> ('s, unit) chat" where
  "change_shared f = update (\<lambda>c. c\<lparr>shared := f (shared c)\<rparr>)"

definition is_exception :: "chat_exc \<Rightarrow> bool" where
  "is_exception e = (e \<noteq> Cancelled)"

definition is_httpx :: "chat_exc \<Rightarrow> bool" where
  "is_httpx e = (case e of ChatHttpx x \<Rightarrow> True | _ \<Rightarrow> False)"

text \<open>\<open>except Exception: cleanup; raise\<close>.\<close>

definition on_exception :: "('s, 'a) chat \<Rightarrow> ('s, unit) chat \<Rightarrow> ('s, 'a) chat" where
  "on_exception m cleanup = catching is_exception m (\<lambda>e. andthen cleanup (\<lambda>_. throw e))"

definition raise_http :: "HTTPException \<Rightarrow> ('s, 'a) chat" where
  "raise_http e = throw (ChatHttp e)"

definition lift_py :: "py_exc + 'a \<Rightarrow> ('s, 'a) chat" where
  "lift_py r = (case r of Inl e \<Rightarrow> throw (ChatRaised e) | Inr x \<Rightarrow> give x)"

subsection \<open>Estimates\<close>

fun first_positive :: "json list \<Rightarrow> int \<Rightarrow> int" where
  "first_positive [] dflt = dflt"
| "first_positive (raw # rest) dflt =
     (case raw of
        JNull \<Rightarrow> first_positive rest dflt
      | JBool b \<Rightarrow> first_positive rest dflt
      | _ \<Rightarrow> (case py_int raw of
            Inl e \<Rightarrow> first_positive rest dflt
          | Inr v \<Rightarrow> if 0 < v then v else first_positive rest dflt))"

definition requested_output_tokens :: "obj \<Rightarrow> int \<Rightarrow> int" where
  "requested_output_tokens payload dflt =
     first_positive [jget payload ''max_completion_tokens'', jget payload ''max_tokens''] dflt"

definition message_tokens :: "json \<Rightarrow> int" where
  "message_tokens message =
     (case message of
        JObj m \<Rightarrow> (case jget m ''content'' of JStr s \<Rightarrow> max 1 (int (length s) div 4) | _ \<Rightarrow> 0)
      | _ \<Rightarrow> 0)"

definition estimated_tokens :: "obj \<Rightarrow> int \<times> int" where
  "estimated_tokens payload =
     (let n = (case jget payload ''messages'' of JArr ms \<Rightarrow> sum_list (map message_tokens ms) | _ \<Rightarrow> 0);
          n = (if n = 0 then 1 else n)
      in (n, requested_output_tokens payload (min n 512)))"

definition estimated_spend :: "GatewaySettings \<Rightarrow> string \<Rightarrow> int \<times> int \<Rightarrow> rat" where
  "estimated_spend settings model t =
     (case dict_get (model_targets settings) model of
        None \<Rightarrow> 0
      | Some target \<Rightarrow>
          round_to 8 ((of_int (fst t) * mt_input_cost target + of_int (snd t) * mt_output_cost target) / 1000000))"

subsection \<open>The budget reservation of the request\<close>

fun finish_amount :: "finish \<Rightarrow> BudgetReservation \<Rightarrow> int" where
  "finish_amount (Settle usd) r = actual_charge r usd"
| "finish_amount Release r = 0"
| "finish_amount Abandon r = (if executed r then actual_charge r None else 0)"

text \<open>\<open>if budget_reservation is not None: await budget_reservation.<op>()\<close>.\<close>

definition finish_budget :: "('s, 'r) chat_services \<Rightarrow> finish \<Rightarrow> ('s, unit) chat" where
  "finish_budget svc f = update (\<lambda>c.
     case held_budget c of
       None \<Rightarrow> c
     | Some r \<Rightarrow>
         (case finish_op (budget_eval svc) f (clock_ms svc (shared c)) (r, guard_of svc (shared c)) of
            (r', g') \<Rightarrow> c\<lparr>held_budget := Some r', shared := put_guard svc g' (shared c),
              effects := (if settled r then effects c else effects c @ [BudgetSettled (finish_amount f r)])\<rparr>))"

definition mark_budget_executed :: "('s, unit) chat" where
  "mark_budget_executed = update (\<lambda>c. c\<lparr>held_budget := map_option mark_executed (held_budget c)\<rparr>)"

definition policy_invalid :: "string \<Rightarrow> HTTPException" where
  "policy_invalid why =
     api_error 503 ''budget_policy_invalid'' (''inference budget policy is malformed; fail-closed: '' @ why) ''api_error'' None
       [(''Retry-After'', ''1''), (''X-AI-Budget-Decision'', ''DENY''), (''X-AI-Budget-Reason'', ''malformed_policy'')] []"

definition api_key_of :: "Request \<Rightarrow> string option" where
  "api_key_of r =
     (case dict_get (req_headers r) ''x-api-key'' of
        Some k \<Rightarrow> if k \<noteq> [] then Some k else dict_get (req_headers r) ''x-ai-api-key''
      | None \<Rightarrow> dict_get (req_headers r) ''x-ai-api-key'')"

text \<open>The guard of the process, created from the environment's policy when there is none yet.\<close>

definition current_guard :: "('s, 'r) chat_services \<Rightarrow> ('s, 'r InferenceBudgetGuard option) chat" where
  "current_guard svc =
     andthen (asking shared) (\<lambda>s.
     if truthy_opt (budget_policy_error svc s) then raise_http (policy_invalid (the (budget_policy_error svc s)))
     else if has_guard svc s then give (Some (guard_of svc s))
     else (case load_budget_policy svc s of
             Inl e \<Rightarrow> raise_http (policy_invalid e)
           | Inr None \<Rightarrow> give None
           | Inr (Some policy) \<Rightarrow>
               (let g = init_guard (Some policy) None in
                andthen (change_shared (put_guard svc g)) (\<lambda>_. give (Some g)))))"

definition take_budget ::
  "('s, 'r) chat_services \<Rightarrow> Request \<Rightarrow> string \<Rightarrow> string \<Rightarrow> int \<times> int \<Rightarrow> 'r InferenceBudgetGuard \<Rightarrow> ('s, unit) chat" where
  "take_budget svc request tenant_id model t g = (\<lambda>c.
     case guard_reserve (budget_hash svc) (budget_eval svc) tenant_id model (fst t) (snd t) (api_key_of request)
            None (fresh_id svc (shared c)) (clock_ms svc (shared c)) g of
       ((d, res), g') \<Rightarrow>
         (let c = c\<lparr>shared := put_guard svc g' (shared c)\<rparr> in
          if decision d = DENY then (Inl (ChatHttp (decision_to_http_exception d)), c)
          else (Inr (), c\<lparr>held_budget := res,
                 effects := (case res of None \<Rightarrow> effects c | Some r \<Rightarrow> effects c @ [BudgetTaken (res_micros r)])\<rparr>)))"

definition reserve_inference_budget ::
  "('s, 'r) chat_services \<Rightarrow> Request \<Rightarrow> string \<Rightarrow> string \<Rightarrow> int \<times> int \<Rightarrow> ('s, unit) chat" where
  "reserve_inference_budget svc request tenant_id model t =
     andthen (current_guard svc) (\<lambda>guard.
     case guard of
       None \<Rightarrow> give ()
     | Some g \<Rightarrow> if \<not> guard_enabled g then give () else take_budget svc request tenant_id model t g)"

subsection \<open>Before the model is called: budget, quota, governance, routing\<close>

definition rat_float :: "rat \<Rightarrow> pyfloat" where
  "rat_float q = round_float 8 q"

definition signals_of :: "QuotaReservation option \<Rightarrow> usage_signals" where
  "signals_of q =
     \<lparr>sig_requests_last_minute = map_option (int \<circ> requests_last_minute) q,
      sig_tokens_today = map_option qr_tokens_today q,
      sig_month_to_date = map_option (rat_float \<circ> month_to_date) q\<rparr>"

definition reserve_quota ::
  "('s, 'r) chat_services \<Rightarrow> string \<Rightarrow> int \<times> int \<Rightarrow> rat \<Rightarrow> ('s, QuotaReservation option) chat" where
  "reserve_quota svc tm t spend =
     (if \<not> has_tenants svc then give None
      else andthen (call_service (quota_reserve svc tm (fst t) (snd t) spend)) (\<lambda>q.
           andthen (log_effect QuotaTaken) (\<lambda>_. give (Some q))))"

definition refund_quota :: "('s, 'r) chat_services \<Rightarrow> QuotaReservation option \<Rightarrow> ('s, unit) chat" where
  "refund_quota svc q =
     (case q of
        Some r \<Rightarrow> if has_tenants svc then andthen (call_service (quota_refund svc r)) (\<lambda>_. log_effect QuotaRefunded) else give ()
      | None \<Rightarrow> give ())"

definition governance_active :: "('s, 'r) chat_services \<Rightarrow> bool" where
  "governance_active svc =
     (case governance_config svc of None \<Rightarrow> False | Some g \<Rightarrow> gc_mode g = enforce_mode \<and> gc_enabled g)"

definition govern ::
  "('s, 'r) chat_services \<Rightarrow> obj \<Rightarrow> QuotaReservation option \<Rightarrow> ('s, EnforcementEvidence) chat" where
  "govern svc payload q =
     (if governance_active svc then
        andthen (log_effect GovernanceAsked) (\<lambda>_.
        andthen (on_exception (call_service (ask_governance svc payload (signals_of q))) (refund_quota svc q)) (\<lambda>result.
        (let ev = evidence_from_governance (rep_of svc) (gateway_version svc) result ''executed'' in
         andthen (change_shared (observe_policy svc ev)) (\<lambda>_. give ev))))
      else give (evidence_from_governance (rep_of svc) (gateway_version svc) None ''executed''))"

record routing_choice =
  rc_model :: string
  rc_fallback :: "string option"
  rc_cost_rerouted :: bool
  rc_health_rerouted :: bool

definition no_backend_error :: HTTPException where
  "no_backend_error = api_error 503 ''no_healthy_backend'' ''no healthy backend for route'' ''api_error'' None [] []"

definition routing_error :: "py_exc \<Rightarrow> chat_exc" where
  "routing_error e = (if e = no_healthy_backend then ChatHttp no_backend_error else ChatRaised e)"

definition choose_backend ::
  "('s, 'r) chat_services \<Rightarrow> GatewaySettings \<Rightarrow> ModelRoute option \<Rightarrow> string \<Rightarrow> string \<Rightarrow> ('s, routing_choice) chat" where
  "choose_backend svc settings route request_id requested =
     andthen (lift_py (resolve_route (sha256_of svc) route request_id requested)) (\<lambda>(model, fallback).
     if (case route of None \<Rightarrow> False | Some r \<Rightarrow> route_routing_policy r \<noteq> None) then
       andthen (asking (\<lambda>c. select_cost_aware_backend route model fallback (health_of svc (shared c)) (model_targets settings))) (\<lambda>res.
       case res of
         Inl e \<Rightarrow> throw (routing_error e)
       | Inr (m, rerouted) \<Rightarrow> give \<lparr>rc_model = m, rc_fallback = (if rerouted then None else fallback),
           rc_cost_rerouted = rerouted, rc_health_rerouted = False\<rparr>)
     else
       andthen (\<lambda>c. case select_health_aware_backend route model fallback (health_of svc (shared c)) (clocks svc (shared c))
                        (breaker_of svc (shared c)) of
           (res, cb) \<Rightarrow> (Inr res, c\<lparr>shared := put_breaker svc cb (shared c)\<rparr>)) (\<lambda>res.
       case res of
         Inl e \<Rightarrow> throw (routing_error e)
       | Inr (m, rerouted) \<Rightarrow> give \<lparr>rc_model = m, rc_fallback = (if rerouted then None else fallback),
           rc_cost_rerouted = False, rc_health_rerouted = rerouted\<rparr>))"

definition not_found_error :: "string \<Rightarrow> string \<Rightarrow> HTTPException" where
  "not_found_error requested request_id =
     api_error 404 ''model_not_found'' (''unknown model or route: '' @ requested) ''invalid_request_error'' (Some request_id) [] []"

record admitted_request =
  ar_quota :: "QuotaReservation option"
  ar_evidence :: EnforcementEvidence
  ar_choice :: routing_choice
  ar_target :: ModelTarget

definition prepare_request ::
  "('s, 'r) chat_services \<Rightarrow> GatewaySettings \<Rightarrow> Request \<Rightarrow> obj \<Rightarrow> string \<Rightarrow> string \<Rightarrow> string \<Rightarrow> string \<Rightarrow> ('s, admitted_request) chat" where
  "prepare_request svc settings request payload request_id tenant_id requested name =
     (let t = estimated_tokens payload; spend = estimated_spend settings name t;
          route = dict_get (model_routes settings) requested in
      andthen (reserve_inference_budget svc request tenant_id name t) (\<lambda>_.
      andthen (reserve_quota svc tenant_id t spend) (\<lambda>q.
      andthen (on_exception
                (andthen (govern svc payload q) (\<lambda>ev.
                 andthen (choose_backend svc settings route request_id requested) (\<lambda>rc. give (ev, rc))))
                (finish_budget svc Release)) (\<lambda>(ev, rc).
      case dict_get (model_targets settings) (rc_model rc) of
        None \<Rightarrow> andthen (finish_budget svc Release) (\<lambda>_. raise_http (not_found_error requested request_id))
      | Some target \<Rightarrow> give \<lparr>ar_quota = q, ar_evidence = ev, ar_choice = rc, ar_target = target\<rparr>))))"

subsection \<open>Usage and cost of a response\<close>

fun json_number :: "json \<Rightarrow> py_exc + rat" where
  "json_number (JInt i) = Inr (of_int i)"
| "json_number (JBool b) = Inr (if b then 1 else 0)"
| "json_number (JFloat x) = (if isfinite x then Inr (fval x) else Inl (OtherError ''not finite''))"
| "json_number _ = Inl TypeError"

text \<open>
  \<open>request_cost\<close> on the decoded usage: a value that is not a number raises \<open>TypeError\<close>, a usage
  that is not a dictionary \<open>AttributeError\<close>; a number that is not finite gives a cost that is not.
\<close>

definition usage_cost :: "json \<Rightarrow> ModelTarget \<Rightarrow> py_exc + pyfloat option" where
  "usage_cost usage t =
     (case usage of
        JNull \<Rightarrow> Inr None
      | JObj u \<Rightarrow>
          (case (json_number (get_default u ''prompt_tokens'' (JInt 0)), json_number (get_default u ''completion_tokens'' (JInt 0))) of
             (Inr i, Inr out) \<Rightarrow> Inr (Some (round_float 8 ((i * mt_input_cost t + out * mt_output_cost t) / 1000000)))
           | (Inl e, r) \<Rightarrow> if e = TypeError \<or> r = Inl TypeError then Inl TypeError else Inr (Some FNan)
           | (r, Inl e) \<Rightarrow> if e = TypeError then Inl TypeError else Inr (Some FNan))
      | _ \<Rightarrow> Inl (OtherError ''AttributeError''))"

definition reconcile_quota ::
  "('s, 'r) chat_services \<Rightarrow> QuotaReservation option \<Rightarrow> json \<Rightarrow> pyfloat option \<Rightarrow> ('s, unit) chat" where
  "reconcile_quota svc q usage spend =
     (case (if has_tenants svc then q else None, usage) of
        (Some r, JObj u) \<Rightarrow>
          if ''prompt_tokens'' \<notin> keys u \<and> ''completion_tokens'' \<notin> keys u then give ()
          else andthen (lift_py (tokens_from_usage usage)) (\<lambda>(i, out).
               let x = (case spend of None \<Rightarrow> 0 | Some f \<Rightarrow> fval f) in
               andthen (call_service (quota_reconcile svc r i out x)) (\<lambda>_. log_effect (QuotaReconciled i out x)))
      | _ \<Rightarrow> give ())"

text \<open>\<open>_settle_budget\<close>.\<close>

definition settle_budget :: "('s, 'r) chat_services \<Rightarrow> pyfloat option \<Rightarrow> ('s, unit) chat" where
  "settle_budget svc spend = finish_budget svc (Settle spend)"

subsection \<open>Forwarding\<close>

definition httpx_of :: "completion_error \<Rightarrow> chat_exc" where
  "httpx_of e =
     (case e of
        HTTPStatusError n \<Rightarrow> ChatHttpx (StatusFailure n)
      | RequestError x \<Rightarrow> ChatHttpx (if x \<in> {''ConnectError'', ''ConnectTimeout''} then ConnectFailure else OtherHttpx x)
      | NoAttempt \<Rightarrow> ChatRaised (OtherError ''RuntimeError''))"

text \<open>The awaited call: other requests run meanwhile, and the task may be cancelled.\<close>

definition forward ::
  "('s, 'r) chat_services \<Rightarrow> obj \<Rightarrow> (string, string) dict \<Rightarrow> string \<Rightarrow> ModelTarget \<Rightarrow> string option \<Rightarrow> ModelTarget option
    \<Rightarrow> ('s, json option \<times> string \<times> bool \<times> string list) chat" where
  "forward svc payload headers model target fb fbt =
     andthen (\<lambda>c. case post_completion_with_fallback (upstream_of svc (shared c)) payload headers (clocks svc (shared c))
                       model target fb fbt (breaker_of svc (shared c)) (retries_of svc (shared c)) of
         (res, st) \<Rightarrow> (Inr (res, cs_failed st), c\<lparr>shared := put_retries svc (cs_budget st) (put_breaker svc (cs_breaker st) (shared c)),
           effects := effects c @ map (ModelCalled \<circ> call_url) (cs_calls st)\<rparr>)) (\<lambda>(res, failed).
     andthen (call_service (elapse svc)) (\<lambda>_.
     case res of
       Inl e \<Rightarrow> throw (httpx_of e)
     | Inr (body, m, fbu) \<Rightarrow> give (body, m, fbu, failed)))"

definition record_health :: "('s, 'r) chat_services \<Rightarrow> string \<Rightarrow> bool \<Rightarrow> bool \<Rightarrow> ('s, unit) chat" where
  "record_health svc model success fb =
     andthen (call_service (note_health svc model success fb)) (\<lambda>_. log_effect (HealthNoted model success))"

text \<open>\<open>(await health_store.routing_signal(model))[0]\<close>; the store may raise.\<close>

definition backend_score :: "('s, 'r) chat_services \<Rightarrow> string \<Rightarrow> ('s, int) chat" where
  "backend_score svc model = andthen (call_service (read_health svc model)) (\<lambda>h. give (case routing_signal h of (s, l, a) \<Rightarrow> s))"

record decision_note =
  dn_selected :: string
  dn_reason :: string
  dn_fallback :: bool
  dn_duration_ms :: pyfloat
  dn_shadow :: "string option"
  dn_cost :: "pyfloat option"
  dn_stream_outcome :: "string option"
  dn_stream_ttft :: "pyfloat option"
  dn_outcome :: string

definition decision_of ::
  "EnforcementEvidence \<Rightarrow> string \<Rightarrow> string \<Rightarrow> string \<Rightarrow> string \<Rightarrow> int \<Rightarrow> pyfloat \<Rightarrow> decision_note \<Rightarrow> DecisionRecord" where
  "decision_of ev version request_id requested tenant_id health at_time n =
     \<lparr>dr_request_id = request_id, dr_requested_model = str_or requested ''unknown'', dr_selected_backend = dn_selected n,
      dr_routing_reason = dn_reason n, dr_fallback_used = dn_fallback n, dr_health_score = Some health,
      dr_duration_ms = dn_duration_ms n, dr_shadow_backend = dn_shadow n, dr_shadow_duration_ms = None,
      dr_shadow_outcome = None, dr_estimated_cost = dn_cost n, dr_stream_outcome = dn_stream_outcome n,
      dr_stream_ttft_ms = dn_stream_ttft n, dr_control_plane_decision_id = ev_decision_id ev,
      dr_approval_id = ev_approval_id ev, dr_policy_bundle_id = ev_policy_bundle_id ev, dr_policy_digest = ev_policy_digest ev,
      dr_request_digest = ev_request_digest ev, dr_control_plane_version = ev_control_plane_version ev,
      dr_runtime_version = Some (case ev_runtime_version ev of Some v \<Rightarrow> str_or v version | None \<Rightarrow> version),
      dr_enforcement_outcome = Some (dn_outcome n), dr_tenant_id = Some tenant_id, dr_recorded_at = at_time\<rparr>"

text \<open>What a request carries through its last steps.\<close>

record request_info =
  ri_request :: Request
  ri_request_id :: string
  ri_requested :: string
  ri_name :: string
  ri_tenant :: string
  ri_payload :: obj

definition store_decision ::
  "('s, 'r) chat_services \<Rightarrow> request_info \<Rightarrow> EnforcementEvidence \<Rightarrow> int \<Rightarrow> decision_note \<Rightarrow> ('s, unit) chat" where
  "store_decision svc ri ev health n =
     andthen (asking (\<lambda>c. decision_of ev (gateway_version svc) (ri_request_id ri) (ri_name ri) (ri_tenant ri)
        health (FDec (clock_ms svc (shared c)) (-3)) n)) (\<lambda>d.
     andthen (call_service (put_decision svc d)) (\<lambda>_. log_effect (DecisionStored (dn_outcome n))))"

definition shadow_for :: "GatewaySettings \<Rightarrow> string option \<Rightarrow> string option" where
  "shadow_for settings shadow =
     (case shadow of
        None \<Rightarrow> None
      | Some m \<Rightarrow> if m \<noteq> [] \<and> m \<in> keys (model_targets settings) then Some m else None)"

definition elapsed_ms :: "('s, 'r) chat_services \<Rightarrow> 's \<Rightarrow> pyfloat" where
  "elapsed_ms svc s = round_float 2 (since_start_ms svc s)"

definition bad_gateway :: "string \<Rightarrow> HTTPException" where
  "bad_gateway request_id =
     api_error 502 ''upstream_unavailable'' ''model backend unavailable'' ''api_error'' (Some request_id) [] []"

text \<open>The \<open>except httpx.HTTPError\<close> of both modes; \<open>model\<close> is the variable's value at that time.\<close>

definition upstream_failed ::
  "('s, 'r) chat_services \<Rightarrow> request_info \<Rightarrow> admitted_request \<Rightarrow> string \<Rightarrow> chat_exc \<Rightarrow> ('s, 'a) chat" where
  "upstream_failed svc ri ar model e =
     andthen (record_health svc model False False) (\<lambda>_.
     andthen (finish_budget svc (case e of
                ChatHttpx ConnectFailure \<Rightarrow> Release | ChatHttpx (StatusFailure n) \<Rightarrow> Release | _ \<Rightarrow> Settle None)) (\<lambda>_.
     andthen (backend_score svc model) (\<lambda>health.
     andthen (asking (elapsed_ms svc \<circ> shared)) (\<lambda>ms.
     andthen (store_decision svc ri (ar_evidence ar) health
                \<lparr>dn_selected = model,
                 dn_reason = routing_reason (rc_cost_rerouted (ar_choice ar)) (rc_health_rerouted (ar_choice ar)) False,
                 dn_fallback = False, dn_duration_ms = ms, dn_shadow = None, dn_cost = None, dn_stream_outcome = None,
                 dn_stream_ttft = None, dn_outcome = ''upstream_error''\<rparr>) (\<lambda>_.
     raise_http (bad_gateway (ri_request_id ri)))))))"

subsection \<open>Giving resources back\<close>

definition release_lease :: "('s, 'r) chat_services \<Rightarrow> ('s, unit) chat" where
  "release_lease svc = update (\<lambda>c.
     case held_lease c of
       None \<Rightarrow> c
     | Some al \<Rightarrow>
         (case free_lease svc al (shared c) of
            (al', s) \<Rightarrow> c\<lparr>held_lease := Some al', shared := s,
              effects := (if al_released al then effects c else effects c @ [LeaseFreed])\<rparr>))"

definition release_gate :: "('s, 'r) chat_services \<Rightarrow> ('s, unit) chat" where
  "release_gate svc = update (\<lambda>c.
     if gate_held c then c\<lparr>shared := free_gate svc (shared c), effects := effects c @ [GateFreed]\<rparr> else c)"

subsection \<open>The response that is not streamed\<close>

fun renderable :: "json \<Rightarrow> bool" where
  "renderable (JFloat x) = isfinite x"
| "renderable (JArr xs) = list_all renderable xs"
| "renderable (JObj d) = list_all (\<lambda>p. renderable (snd p)) d"
| "renderable _ = True"

definition response_headers ::
  "('s, 'r) chat_services \<Rightarrow> (string, string) dict \<Rightarrow> EnforcementEvidence \<Rightarrow> string \<Rightarrow> string \<Rightarrow> bool \<Rightarrow> int
    \<Rightarrow> pyfloat option \<Rightarrow> (string, string) dict" where
  "response_headers svc headers ev model rsn fb health cost =
     (let h = dict_set ''x-selected-backend'' model headers;
          h = dict_set ''x-routing-reason'' rsn h;
          h = dict_set ''x-fallback-used'' (if fb then ''true'' else ''false'') h;
          h = dict_set ''x-ai-health-score'' (show_int health) h;
          h = apply_evidence_headers (gateway_version svc) (Some ev) h
      in case cost of None \<Rightarrow> h | Some x \<Rightarrow> dict_set ''x-ai-estimated-cost-usd'' (rep_of svc (JFloat x)) h)"

definition embed_routing :: "obj \<Rightarrow> string \<Rightarrow> bool \<Rightarrow> string \<Rightarrow> int \<Rightarrow> pyfloat option \<Rightarrow> obj" where
  "embed_routing response model fb rsn health cost =
     (let r = dict_set ''health_score'' (JInt health) (dict_set ''routing_reason'' (JStr rsn)
            (dict_set ''fallback_used'' (JBool fb) (dict_set ''selected_backend'' (JStr model) response)))
      in case cost of
           None \<Rightarrow> r
         | Some x \<Rightarrow> dict_set ''runtime_cost'' (JObj [(''currency'', JStr ''USD''), (''estimated'', JFloat x)])
                       (dict_set ''estimated_cost'' (JFloat x) r))"

record stream_plan =
  sp_model :: string
  sp_fallback_used :: bool
  sp_reason :: string
  sp_quota :: "QuotaReservation option"
  sp_evidence :: EnforcementEvidence
  sp_shadow :: "string option"

datatype chat_response =
    JsonResponse obj "(string, string) dict"
  | StreamResponse stream_plan "(string, string) dict"

definition send_usage_event ::
  "('s, 'r) chat_services \<Rightarrow> request_info \<Rightarrow> EnforcementEvidence \<Rightarrow> string \<Rightarrow> json \<Rightarrow> pyfloat option \<Rightarrow> rat \<Rightarrow> rat option
    \<Rightarrow> string \<Rightarrow> ('s, unit) chat" where
  "send_usage_event svc ri ev model usage cost duration_ms ttft outcome =
     when_do (has_usage_events svc)
       (andthen (lift_py (tokens_from_usage usage)) (\<lambda>(i, out).
        andthen (asking (\<lambda>c. build_event (sha256_hex (budget_hash svc)) (of_int (clock_ms svc (shared c)) / 1000)
          (ri_tenant ri) (ri_request_id ri) (ev_decision_id ev) (str_or (ri_name ri) model) model i out
          (map_option fval cost) duration_ms outcome ttft (Some (estimate_gpu_seconds duration_ms)))) (\<lambda>e.
        andthen (call_service (send_usage svc e)) (\<lambda>_. log_effect (UsageSent outcome)))))"

text \<open>The evaluation of a response, sent when governance is configured and the feature is on.\<close>

definition evaluate_response ::
  "('s, 'r) chat_services \<Rightarrow> request_info \<Rightarrow> string \<Rightarrow> obj \<Rightarrow> pyfloat option \<Rightarrow> ('s, unit) chat" where
  "evaluate_response svc ri model response cost =
     (case governance_config svc of
        None \<Rightarrow> give ()
      | Some g \<Rightarrow>
          when_do (evaluate_responses svc)
            (andthen (asking (since_start_ms svc \<circ> shared)) (\<lambda>ms.
             andthen (lift_py (build_evaluation_payload (rep_of svc)
                (get_default (req_headers (ri_request ri)) ''x-ai-team'' (default_team (gc_defaults g)))
                (str_or (ri_name ri) model) (ri_request_id ri) (ri_payload ri) response (round_to 2 ms) cost)) (\<lambda>p.
             change_shared (spawn_evaluation svc p)))))"

definition finish_response ::
  "('s, 'r) chat_services \<Rightarrow> GatewaySettings \<Rightarrow> request_info \<Rightarrow> admitted_request \<Rightarrow> (string, string) dict \<Rightarrow> string option
    \<Rightarrow> json option \<times> string \<times> bool \<Rightarrow> ('s, chat_response) chat" where
  "finish_response svc settings ri ar headers shadow res =
     (case res of (body, model, fb) \<Rightarrow>
        case body of
          None \<Rightarrow> throw (ChatRaised ValueError)
        | Some (JObj response) \<Rightarrow>
            (let usage = jget response ''usage''; rc = ar_choice ar;
                 rsn = routing_reason (rc_cost_rerouted rc) (rc_health_rerouted rc) fb;
                 flag = (fb \<or> rc_health_rerouted rc \<or> rc_cost_rerouted rc) in
             andthen (backend_score svc model) (\<lambda>health.
             andthen (case dict_get (model_targets settings) model of
                        None \<Rightarrow> throw (ChatRaised KeyError) | Some t \<Rightarrow> lift_py (usage_cost usage t)) (\<lambda>cost.
             andthen (reconcile_quota svc (ar_quota ar) usage cost) (\<lambda>_.
             andthen (settle_budget svc cost) (\<lambda>_.
             (let h = response_headers svc headers (ar_evidence ar) model rsn flag health cost;
                  response = (if embed_metadata svc then embed_routing response model flag rsn health cost else response);
                  h = (case shadow_for settings shadow of None \<Rightarrow> h | Some m \<Rightarrow> dict_set ''x-shadow-backend'' m h) in
              andthen (case shadow_for settings shadow of None \<Rightarrow> give () | Some m \<Rightarrow> change_shared (spawn_shadow svc m)) (\<lambda>_.
              andthen (asking (elapsed_ms svc \<circ> shared)) (\<lambda>ms.
              andthen (store_decision svc ri (ar_evidence ar) health
                         \<lparr>dn_selected = model, dn_reason = rsn, dn_fallback = flag, dn_duration_ms = ms, dn_shadow = shadow,
                          dn_cost = cost, dn_stream_outcome = None, dn_stream_ttft = None, dn_outcome = ''executed''\<rparr>) (\<lambda>_.
              andthen (evaluate_response svc ri model response cost) (\<lambda>_.
              andthen (andthen (asking (round_to 2 \<circ> since_start_ms svc \<circ> shared)) (\<lambda>ms.
                         send_usage_event svc ri (ar_evidence ar) model usage cost ms None ''success'')) (\<lambda>_.
              andthen (release_lease svc) (\<lambda>_.
              andthen (release_gate svc) (\<lambda>_.
              if renderable (JObj response) then give (JsonResponse response h)
              else throw (ChatRaised ValueError))))))))))))))
        | _ \<Rightarrow> throw (ChatRaised (OtherError ''AttributeError'')))"

definition respond_json ::
  "('s, 'r) chat_services \<Rightarrow> GatewaySettings \<Rightarrow> request_info \<Rightarrow> admitted_request \<Rightarrow> (string, string) dict \<Rightarrow> string option
    \<Rightarrow> ModelTarget option \<Rightarrow> ('s, chat_response) chat" where
  "respond_json svc settings ri ar headers shadow fbt =
     (let rc = ar_choice ar; model = rc_model rc in
      andthen mark_budget_executed (\<lambda>_.
      andthen (catching is_httpx
        (andthen (forward svc (ri_payload ri) headers model (ar_target ar) (rc_fallback rc) fbt) (\<lambda>(body, m, fb, failed).
         andthen (each (\<lambda>f. record_health svc f False False) failed) (\<lambda>_.
         andthen (record_health svc m True (fb \<or> rc_health_rerouted rc \<or> rc_cost_rerouted rc)) (\<lambda>_.
         give (body, m, fb)))))
        (upstream_failed svc ri ar model)) (\<lambda>res.
      finish_response svc settings ri ar headers shadow res)))"

subsection \<open>The streamed response\<close>

definition send_stream :: "('s, 'r) chat_services \<Rightarrow> upstream_call \<Rightarrow> ('s, int) chat" where
  "send_stream svc call = andthen (log_effect (ModelCalled (call_url call))) (\<lambda>_. call_service (open_stream svc call))"

definition raise_for_status :: "int \<Rightarrow> ('s, unit) chat" where
  "raise_for_status status =
     (if 200 \<le> status \<and> status < 300 then give () else throw (ChatHttpx (StatusFailure status)))"

definition respond_stream ::
  "('s, 'r) chat_services \<Rightarrow> GatewaySettings \<Rightarrow> request_info \<Rightarrow> admitted_request \<Rightarrow> (string, string) dict \<Rightarrow> string option
    \<Rightarrow> ModelTarget option \<Rightarrow> ('s, chat_response) chat" where
  "respond_stream svc settings ri ar headers shadow fbt =
     (let rc = ar_choice ar; model = rc_model rc; payload = ri_payload ri;
          opened = (\<lambda>m used h.
            (let sh = stream_headers h m (used \<or> rc_health_rerouted rc \<or> rc_cost_rerouted rc);
                 sh = apply_evidence_headers (gateway_version svc) (Some (ar_evidence ar)) sh;
                 sh = (case shadow_for settings shadow of None \<Rightarrow> sh | Some x \<Rightarrow> dict_set ''x-shadow-backend'' x sh) in
             andthen (case shadow_for settings shadow of None \<Rightarrow> give () | Some x \<Rightarrow> change_shared (spawn_shadow svc x)) (\<lambda>_.
             give (StreamResponse
               \<lparr>sp_model = m, sp_fallback_used = (used \<or> rc_health_rerouted rc \<or> rc_cost_rerouted rc),
                sp_reason = routing_reason (rc_cost_rerouted rc) (rc_health_rerouted rc) used,
                sp_quota = ar_quota ar, sp_evidence = ar_evidence ar, sp_shadow = shadow\<rparr> sh)))) in
      andthen mark_budget_executed (\<lambda>_.
      andthen (catching is_httpx (send_stream svc (completion_call payload headers model (ar_target ar)))
                (upstream_failed svc ri ar model)) (\<lambda>status.
      case (rc_fallback rc, fbt) of
        (Some fb, Some t) \<Rightarrow>
          if 500 \<le> status then
            andthen (record_health svc model False False) (\<lambda>_.
            andthen (catching is_httpx
                      (andthen (send_stream svc (completion_call payload headers fb t)) raise_for_status)
                      (upstream_failed svc ri ar fb)) (\<lambda>_.
            opened fb True (dict_set ''x-fallback-used'' ''true'' headers)))
          else andthen (catching is_httpx (raise_for_status status) (upstream_failed svc ri ar model)) (\<lambda>_.
               opened model False headers)
      | _ \<Rightarrow> andthen (catching is_httpx (raise_for_status status) (upstream_failed svc ri ar model)) (\<lambda>_.
             opened model False headers))))"

text \<open>\<open>_finalize_stream\<close>, run when the stream has ended.\<close>

definition finalize_stream ::
  "('s, 'r) chat_services \<Rightarrow> GatewaySettings \<Rightarrow> request_info \<Rightarrow> stream_plan \<Rightarrow> StreamObservation \<Rightarrow> ('s, unit) chat" where
  "finalize_stream svc settings ri sp ob =
     (let ok = (ob_outcome ob = ''success''); model = sp_model sp;
          usage = (case ob_usage ob of None \<Rightarrow> JNull | Some u \<Rightarrow> JObj u) in
      finally_do
        (andthen (record_health svc model ok (sp_fallback_used sp)) (\<lambda>_.
         andthen (case (ob_usage ob, dict_get (model_targets settings) model) of
                    (Some u, Some t) \<Rightarrow> lift_py (usage_cost usage t) | _ \<Rightarrow> give None) (\<lambda>cost.
         andthen (reconcile_quota svc (sp_quota sp) usage cost) (\<lambda>_.
         andthen (settle_budget svc cost) (\<lambda>_.
         andthen (backend_score svc model) (\<lambda>health.
         andthen (store_decision svc ri (sp_evidence sp) health
                    \<lparr>dn_selected = model, dn_reason = sp_reason sp, dn_fallback = sp_fallback_used sp,
                     dn_duration_ms = round_float 2 (ob_duration_ms ob), dn_shadow = sp_shadow sp, dn_cost = None,
                     dn_stream_outcome = Some (ob_outcome ob), dn_stream_ttft = map_option (round_float 2) (ob_ttft_ms ob),
                     dn_outcome = (if ok then ''executed'' else ''stream_'' @ ob_outcome ob)\<rparr>) (\<lambda>_.
         send_usage_event svc ri (sp_evidence sp) model usage cost (ob_duration_ms ob) (ob_ttft_ms ob) (ob_outcome ob))))))))
        (andthen (settle_budget svc None) (\<lambda>_. andthen (release_lease svc) (\<lambda>_. release_gate svc))))"

subsection \<open>The endpoint\<close>

definition budget_headers :: "BudgetReservation option \<Rightarrow> string \<Rightarrow> (string, string) dict" where
  "budget_headers res request_id =
     (let h = [(''x-request-id'', request_id)] in
      case res of
        None \<Rightarrow> h
      | Some r \<Rightarrow>
          (let h = dict_set ''X-AI-Budget-Decision'' ''ALLOW'' h in
           if res_soft_warning r then dict_set ''X-AI-Budget-Warning'' ''soft_threshold'' h else h))"

definition chat_completions_admitted ::
  "('s, 'r) chat_services \<Rightarrow> GatewaySettings \<Rightarrow> request_info \<Rightarrow> ('s, chat_response) chat" where
  "chat_completions_admitted svc settings ri =
     andthen (prepare_request svc settings (ri_request ri) (ri_payload ri) (ri_request_id ri) (ri_tenant ri) (ri_requested ri) (ri_name ri)) (\<lambda>ar.
     andthen (asking (\<lambda>c. budget_headers (held_budget c) (ri_request_id ri))) (\<lambda>headers.
     (let route = dict_get (model_routes settings) (ri_requested ri);
          shadow = resolve_shadow_backend route (rc_model (ar_choice ar));
          fbt = (case rc_fallback (ar_choice ar) of None \<Rightarrow> None | Some m \<Rightarrow> dict_get (model_targets settings) m) in
      if py_bool (jget (ri_payload ri) ''stream'') then respond_stream svc settings ri ar headers shadow fbt
      else respond_json svc settings ri ar headers shadow fbt)))"

definition invalid_request :: "string \<Rightarrow> Request \<Rightarrow> HTTPException" where
  "invalid_request message request =
     api_error 422 ''invalid_request'' message ''invalid_request_error'' (dict_get (req_headers request) ''x-request-id'') [] []"

definition tenant_denied :: "string \<Rightarrow> string \<Rightarrow> string \<Rightarrow> HTTPException" where
  "tenant_denied code message request_id = api_error 403 code message ''permission_error'' (Some request_id) [] []"

text \<open>
  The requested model as a key: a list or dictionary raises \<open>TypeError\<close>, a value that is no string
  matches no entry of the tables.
\<close>

definition settings_for :: "json \<Rightarrow> GatewaySettings \<Rightarrow> py_exc + GatewaySettings" where
  "settings_for requested settings =
     (case requested of
        JStr s \<Rightarrow> Inr settings
      | JArr xs \<Rightarrow> Inl TypeError
      | JObj d \<Rightarrow> Inl TypeError
      | _ \<Rightarrow> Inr (settings\<lparr>model_routes := [], model_targets := []\<rparr>))"

definition request_info_of :: "(json \<Rightarrow> string) \<Rightarrow> environ \<Rightarrow> Request \<Rightarrow> string \<Rightarrow> obj \<Rightarrow> request_info" where
  "request_info_of rep env request uuid payload =
     \<lparr>ri_request = request, ri_request_id = get_default (req_headers request) ''x-request-id'' uuid,
      ri_requested = py_str rep (jget payload ''model''),
      ri_name = py_str rep (py_or (jget payload ''model'') (JStr [])),
      ri_tenant = resolve_tenant_id rep env request, ri_payload = payload\<rparr>"

text \<open>The handler's variables at its start: it holds nothing yet.\<close>

definition new_request :: "'s \<Rightarrow> 's chat_ctx" where
  "new_request s = \<lparr>shared = s, effects = [], gate_held = False, held_lease = None, held_budget = None\<rparr>"

text \<open>The slot of the process, the tenant's lease, the admitted request, and \<open>except Exception\<close>.\<close>

definition with_admission ::
  "('s, 'r) chat_services \<Rightarrow> GatewaySettings \<Rightarrow> request_info \<Rightarrow> string \<Rightarrow> ('s, chat_response) chat" where
  "with_admission svc settings ri model =
     andthen (if has_gate svc then
                andthen (call_service (take_gate svc)) (\<lambda>_.
                update (\<lambda>c. c\<lparr>gate_held := True, effects := effects c @ [GateTaken]\<rparr>))
              else give ()) (\<lambda>_.
     andthen (if has_admission svc then
                andthen (on_exception (call_service (take_lease svc (ri_tenant ri) model)) (release_gate svc)) (\<lambda>al.
                update (\<lambda>c. c\<lparr>held_lease := Some al, effects := effects c @ [LeaseTaken]\<rparr>))
              else give ()) (\<lambda>_.
     on_exception (chat_completions_admitted svc settings ri)
       (andthen (finish_budget svc Abandon) (\<lambda>_. andthen (release_lease svc) (\<lambda>_. release_gate svc)))))"

definition chat_completions ::
  "('s, 'r) chat_services \<Rightarrow> environ \<Rightarrow> TenantPolicyBundle \<Rightarrow> GatewaySettings \<Rightarrow> Request \<Rightarrow> string \<Rightarrow> json option
    \<Rightarrow> ('s, chat_response) chat" where
  "chat_completions svc env tenants settings0 request uuid body =
     (case body of
        None \<Rightarrow> raise_http (invalid_request ''request validation failed'' request)
      | Some (JObj payload) \<Rightarrow>
          (let requested = jget payload ''model''; ri = request_info_of (rep_of svc) env request uuid payload;
               tenant_id = ri_tenant ri; request_id = ri_request_id ri; key = ri_requested ri; name = ri_name ri in
           andthen (lift_py (settings_for requested settings0)) (\<lambda>settings.
           let is_route = (key \<in> keys (model_routes settings)) in
           if is_route \<and> \<not> route_allowed tenants tenant_id (Some key)
           then raise_http (tenant_denied ''tenant_route_denied'' ''tenant is not allowed to use this route'' request_id)
           else if \<not> is_route \<and> \<not> model_allowed tenants tenant_id (Some name)
           then raise_http (tenant_denied ''tenant_model_denied'' ''tenant is not allowed to use this model'' request_id)
           else
             andthen (asking (draining_error svc \<circ> shared)) (\<lambda>drain.
             case drain of
               Some e \<Rightarrow> raise_http e
             | None \<Rightarrow>
                 with_admission svc settings ri (py_str (rep_of svc) (py_or requested (JStr ''*''))))))
      | Some _ \<Rightarrow> raise_http (invalid_request ''request body must be a JSON object'' request))"

end
