(* ===== verification/Signing.thy ===== *)
theory Signing imports Config Errors begin

text \<open>
  \<open>app/gateway/verify_signing.py\<close>: the key the runtime signs verification answers with, its public
  half as a JWKS, and the signed token. Reading a file, \<open>b64decode\<close> and UTF-8 decoding, the PEM
  parser, the public numbers of a key and \<open>jwt.encode\<close> are parameters; base64url of the public
  numbers is written out. The process caches the loaded key; neither environment nor key file
  change here, so the cache is left out.
\<close>

record 'k signing_env =
  sg_environ :: environ
  sg_read_file :: "string \<Rightarrow> py_exc + string"
  sg_b64decode :: "string \<Rightarrow> py_exc + string"
  sg_load_pem :: "string \<Rightarrow> py_exc + 'k option"
  sg_public :: "'k \<Rightarrow> nat \<times> nat"
  sg_encode :: "obj \<Rightarrow> 'k \<Rightarrow> obj \<Rightarrow> py_exc + string"

subsection \<open>Configuration\<close>

definition private_key_material :: "'k signing_env \<Rightarrow> py_exc + string" where
  "private_key_material e =
     (let path = strip (getenv (sg_environ e) ''RUNTIME_VERIFY_PRIVATE_KEY_FILE'' []);
          b64 = strip (getenv (sg_environ e) ''RUNTIME_VERIFY_PRIVATE_KEY_B64'' []) in
      if path \<noteq> [] then sg_read_file e path
      else if b64 \<noteq> [] then sg_b64decode e b64
      else Inr (strip (getenv (sg_environ e) ''RUNTIME_VERIFY_PRIVATE_KEY'' [])))"

definition verify_signing_enabled :: "'k signing_env \<Rightarrow> py_exc + bool" where
  "verify_signing_enabled e = bind_exc (private_key_material e) (\<lambda>raw. Inr (raw \<noteq> []))"

definition require_signed_verify :: "environ \<Rightarrow> bool" where
  "require_signed_verify env = env_flag (getenv env ''GATEWAY_REQUIRE_SIGNED_VERIFY'' [])"

definition verify_issuer :: "environ \<Rightarrow> string" where
  "verify_issuer env = str_or (strip (getenv env ''RUNTIME_VERIFY_ISSUER'' ''ai-runtime'')) ''ai-runtime''"

definition verify_audience :: "environ \<Rightarrow> string" where
  "verify_audience env = str_or (strip (getenv env ''RUNTIME_VERIFY_AUDIENCE'' ''ai-control-plane'')) ''ai-control-plane''"

definition verify_kid :: "environ \<Rightarrow> string" where
  "verify_kid env = str_or (strip (getenv env ''RUNTIME_VERIFY_KID'' ''runtime-verify-1'')) ''runtime-verify-1''"

definition verify_ttl_seconds :: "environ \<Rightarrow> int" where
  "verify_ttl_seconds env =
     (case parse_int (str_or (strip (getenv env ''RUNTIME_VERIFY_TTL_SECONDS'' ''300'')) ''300'') of
        None \<Rightarrow> 300
      | Some v \<Rightarrow> max 30 (min v 3600))"

subsection \<open>Keys\<close>

text \<open>A key given in one line has its line breaks written as a backslash and an \<open>n\<close>.\<close>

fun unescape_newlines :: "string \<Rightarrow> string" where
  "unescape_newlines [] = []"
| "unescape_newlines [c] = [c]"
| "unescape_newlines (c # d # cs) =
     (if c = CHR 0x5C \<and> d = CHR ''n'' then CHR 0x0A # unescape_newlines cs else c # unescape_newlines (d # cs))"

definition normalize_pem :: "string \<Rightarrow> string" where
  "normalize_pem raw =
     (let t = strip raw in
      if contains [CHR 0x5C, CHR ''n''] t \<and> CHR 0x0A \<notin> set t then unescape_newlines t else t)"

text \<open>\<open>sg_load_pem\<close> answers \<open>None\<close> for a key that is no RSA key.\<close>

definition load_private_key :: "'k signing_env \<Rightarrow> py_exc + 'k option" where
  "load_private_key e =
     bind_exc (private_key_material e) (\<lambda>raw.
     if raw = [] then Inr None
     else bind_exc (sg_load_pem e (normalize_pem raw)) (\<lambda>k.
       case k of None \<Rightarrow> Inl TypeError | Some k \<Rightarrow> Inr (Some k)))"

subsection \<open>Public numbers\<close>

fun bit_length :: "nat \<Rightarrow> nat" where
  "bit_length n = (if n = 0 then 0 else Suc (bit_length (n div 2)))"

declare bit_length.simps [simp del]

text \<open>\<open>n.to_bytes(k, "big")\<close> for \<open>n\<close> below \<open>256 ^ k\<close>.\<close>

fun to_bytes :: "nat \<Rightarrow> nat \<Rightarrow> nat list" where
  "to_bytes 0 n = []"
| "to_bytes (Suc k) n = to_bytes k (n div 256) @ [n mod 256]"

definition b64_alphabet :: string where
  "b64_alphabet = ''ABCDEFGHIJKLMNOPQRSTUVWXYZabcdefghijklmnopqrstuvwxyz0123456789-_''"

definition b64_char :: "nat \<Rightarrow> char" where
  "b64_char n = b64_alphabet ! n"

text \<open>\<open>urlsafe_b64encode\<close> without the padding.\<close>

fun b64url :: "nat list \<Rightarrow> string" where
  "b64url [] = []"
| "b64url [a] = map b64_char [a div 4, (a mod 4) * 16]"
| "b64url [a, b] = map b64_char [a div 4, (a mod 4) * 16 + b div 16, (b mod 16) * 4]"
| "b64url (a # b # c # bs) =
     map b64_char [a div 4, (a mod 4) * 16 + b div 16, (b mod 16) * 4 + c div 64, c mod 64] @ b64url bs"

definition b64url_uint :: "nat \<Rightarrow> string" where
  "b64url_uint value = b64url (to_bytes ((bit_length value + 7) div 8) value)"

definition public_jwks :: "'k signing_env \<Rightarrow> py_exc + obj" where
  "public_jwks e =
     bind_exc (load_private_key e) (\<lambda>key.
     case key of
       None \<Rightarrow> Inr [(''keys'', JArr [])]
     | Some k \<Rightarrow>
         (case sg_public e k of (n, x) \<Rightarrow>
            Inr [(''keys'', JArr [JObj
              [(''kty'', JStr ''RSA''), (''kid'', JStr (verify_kid (sg_environ e))), (''use'', JStr ''sig''), (''alg'', JStr ''RS256''),
               (''n'', JStr (b64url_uint n)), (''e'', JStr (b64url_uint x))]])]))"

subsection \<open>The token\<close>

definition token_claims :: "environ \<Rightarrow> int \<Rightarrow> obj \<Rightarrow> obj" where
  "token_claims env now payload =
     dict_merge [(''iss'', JStr (verify_issuer env)), (''aud'', JStr (verify_audience env)), (''iat'', JInt now),
        (''exp'', JInt (now + verify_ttl_seconds env)), (''typ'', JStr ''runtime_verify'')] payload"

definition sign_verification_token :: "'k signing_env \<Rightarrow> int \<Rightarrow> obj \<Rightarrow> py_exc + string option" where
  "sign_verification_token e now payload =
     bind_exc (load_private_key e) (\<lambda>key.
     case key of
       None \<Rightarrow> Inr None
     | Some k \<Rightarrow>
         bind_exc (sg_encode e (token_claims (sg_environ e) now payload) k
             [(''kid'', JStr (verify_kid (sg_environ e))), (''typ'', JStr ''JWT'')]) (\<lambda>t. Inr (Some t)))"

end
