(* ===== verification/Runtime.thy ===== *)
theory Runtime imports Health Governance Admission Budget_Guard Signing begin

text \<open>
  What a running gateway tells the control plane about itself: \<open>app/gateway/runtime_config.py\<close> (the
  snapshot of the loaded configuration, its digests, the observed policy and the comparison with
  an expected state) and \<open>app/gateway/routers/runtime.py\<close> (status, key set and verification). The
  canonical JSON, SHA-256, the JSON form of a unit price and the text form of a time are
  parameters.
\<close>

record runtime_env =
  re_environ :: environ
  re_package_version :: "string option"
  re_number :: "rat \<Rightarrow> json"
  re_sorted_dumps :: "json \<Rightarrow> string"
  re_sha256_hex :: "string \<Rightarrow> string"
  re_time_text :: "rat \<Rightarrow> string"
  re_rep :: "json \<Rightarrow> string"
  re_exc_text :: "py_exc \<Rightarrow> string"

subsection \<open>Digests of the configuration\<close>

text \<open>\<open>model_dump(mode="json")\<close> of the two tables' entries.\<close>

definition dump_target :: "(rat \<Rightarrow> json) \<Rightarrow> ModelTarget \<Rightarrow> json" where
  "dump_target num t =
     JObj [(''url'', JStr (mt_url t)), (''input_cost_per_million'', num (mt_input_cost t)),
       (''output_cost_per_million'', num (mt_output_cost t)), (''backend_name'', jstr_opt (mt_backend_name t)),
       (''health_path'', JStr (mt_health_path t)), (''provider'', jstr_opt (mt_provider t)),
       (''model_revision'', jstr_opt (mt_model_revision t)), (''model_artifact_digest'', jstr_opt (mt_artifact_digest t))]"

definition dump_weighted :: "RouteTarget \<Rightarrow> json" where
  "dump_weighted t = JObj [(''model'', JStr (rt_model t)), (''weight'', JInt (rt_weight t))]"

definition dump_policy :: "(rat \<Rightarrow> json) \<Rightarrow> RoutingPolicy \<Rightarrow> json" where
  "dump_policy num p =
     JObj [(''strategy'', JStr (rp_strategy p)),
       (''weights'', JObj [(''health'', num (w_health (rp_weights p))), (''latency'', num (w_latency (rp_weights p))),
          (''cost'', num (w_cost (rp_weights p)))])]"

definition dump_route :: "(rat \<Rightarrow> json) \<Rightarrow> ModelRoute \<Rightarrow> json" where
  "dump_route num r =
     JObj [(''targets'', JArr (map dump_weighted (route_targets r))), (''primary'', jstr_opt (route_primary r)),
       (''fallback'', jstr_opt (route_fallback r)),
       (''min_health_score'', case route_min_health_score r of None \<Rightarrow> JNull | Some n \<Rightarrow> JInt n),
       (''unhealthy_action'', JStr (route_unhealthy_action r)),
       (''routing_policy'', case route_routing_policy r of None \<Rightarrow> JNull | Some p \<Rightarrow> dump_policy num p),
       (''shadow'', jstr_opt (route_shadow r))]"

definition dump_table :: "('a \<Rightarrow> json) \<Rightarrow> (string, 'a) dict \<Rightarrow> json" where
  "dump_table f d = JObj (map (\<lambda>(name, x). (name, f x)) (sort_key fst d))"

definition canonical_config_payload :: "(rat \<Rightarrow> json) \<Rightarrow> GatewaySettings \<Rightarrow> json" where
  "canonical_config_payload num s =
     JObj [(''model_targets'', dump_table (dump_target num) (model_targets s)),
       (''model_routes'', dump_table (dump_route num) (model_routes s)),
       (''timeout_seconds'', JFloat (timeout_seconds s)), (''health_interval_seconds'', JFloat (health_interval_seconds s)),
       (''profile'', JStr (gateway_profile s)), (''gateway_replicas'', JInt (gateway_replicas s)),
       (''require_shared_state'', JBool (require_shared_state s)),
       (''control_plane_configured'', JBool (control_plane_configured s)),
       (''jwt_verify_enabled'', JBool (jwt_verify_enabled s)), (''jwt_issuer'', jstr_opt (jwt_issuer s)),
       (''jwt_audience'', jstr_opt (jwt_audience s))]"

definition sha_tagged :: "runtime_env \<Rightarrow> json \<Rightarrow> string" where
  "sha_tagged e j = ''sha256:'' @ re_sha256_hex e (re_sorted_dumps e j)"

definition compute_config_digest :: "runtime_env \<Rightarrow> GatewaySettings \<Rightarrow> string" where
  "compute_config_digest e s = sha_tagged e (canonical_config_payload (re_number e) s)"

definition sorted_models :: "GatewaySettings \<Rightarrow> string list" where
  "sorted_models s = sort (map fst (model_targets s))"

definition compute_routes_digest :: "runtime_env \<Rightarrow> GatewaySettings \<Rightarrow> string" where
  "compute_routes_digest e s =
     sha_tagged e (JObj [(''routes'', dump_table (dump_route (re_number e)) (model_routes s)),
       (''models'', JArr (map JStr (sorted_models s)))])"

subsection \<open>The state of the process\<close>

record PolicyObservation =
  last_seen_bundle_id :: "string option"
  last_seen_digest :: "string option"
  po_updated_at :: "rat option"

definition observe :: "rat \<Rightarrow> string option \<Rightarrow> string option \<Rightarrow> PolicyObservation \<Rightarrow> PolicyObservation" where
  "observe now bundle digest p =
     (let p = (if truthy_opt bundle then p\<lparr>last_seen_bundle_id := bundle\<rparr> else p);
          p = (if truthy_opt digest then p\<lparr>last_seen_digest := digest\<rparr> else p)
      in if truthy_opt bundle \<or> truthy_opt digest then p\<lparr>po_updated_at := Some now\<rparr> else p)"

record RuntimeConfigSnapshot =
  sn_digest :: string
  sn_generation :: int
  sn_loaded_at :: rat
  sn_profile :: string
  sn_models :: "string list"
  sn_routes_digest :: string
  sn_status :: string

definition as_dict :: "runtime_env \<Rightarrow> RuntimeConfigSnapshot \<Rightarrow> obj" where
  "as_dict e x =
     [(''observed_digest'', JStr (sn_digest x)), (''generation'', JInt (sn_generation x)),
      (''loaded_at'', JStr (re_time_text e (sn_loaded_at x))), (''profile'', JStr (sn_profile x)),
      (''models'', JArr (map JStr (sn_models x))), (''routes_digest'', JStr (sn_routes_digest x)),
      (''status'', JStr (sn_status x))]"

record RuntimeConfigState =
  rt_active :: RuntimeConfigSnapshot
  rt_last_known_good :: RuntimeConfigSnapshot
  rt_rejected :: "RuntimeConfigSnapshot option"
  rt_policy :: PolicyObservation
  rt_instance_id :: string

definition instance_id_of :: "environ \<Rightarrow> string" where
  "instance_id_of env = str_or (str_or (getenv env ''GATEWAY_INSTANCE_ID'' []) (getenv env ''HOSTNAME'' [])) ''gateway''"

definition from_settings :: "runtime_env \<Rightarrow> rat \<Rightarrow> GatewaySettings \<Rightarrow> py_exc + RuntimeConfigState" where
  "from_settings e now s =
     (case parse_int (str_or (getenv (re_environ e) ''GATEWAY_CONFIG_GENERATION'' ''1'') ''1'') of
        None \<Rightarrow> Inl ValueError
      | Some generation \<Rightarrow>
          (let snapshot = \<lparr>sn_digest = compute_config_digest e s, sn_generation = generation, sn_loaded_at = now,
                 sn_profile = gateway_profile s, sn_models = sorted_models s, sn_routes_digest = compute_routes_digest e s,
                 sn_status = ''active''\<rparr> in
           Inr \<lparr>rt_active = snapshot, rt_last_known_good = snapshot, rt_rejected = None,
             rt_policy = \<lparr>last_seen_bundle_id = None, last_seen_digest = None, po_updated_at = None\<rparr>,
             rt_instance_id = instance_id_of (re_environ e)\<rparr>))"

definition this_version :: "runtime_env \<Rightarrow> string" where
  "this_version e = runtime_version (re_environ e) (re_package_version e)"

definition status_payload :: "runtime_env \<Rightarrow> RuntimeConfigState \<Rightarrow> nat \<Rightarrow> nat \<Rightarrow> nat \<Rightarrow> obj" where
  "status_payload e st healthy unhealthy unknown =
     [(''runtime_version'', JStr (this_version e)), (''instance_id'', JStr (rt_instance_id st)),
      (''configuration'', JObj (as_dict e (rt_active st))),
      (''last_known_good'', JObj [(''observed_digest'', JStr (sn_digest (rt_last_known_good st))),
         (''generation'', JInt (sn_generation (rt_last_known_good st)))]),
      (''rejected'', case rt_rejected st of None \<Rightarrow> JNull
         | Some x \<Rightarrow> JObj [(''observed_digest'', JStr (sn_digest x)), (''generation'', JInt (sn_generation x)),
             (''status'', JStr ''rejected'')]),
      (''policy'', JObj [(''last_seen_bundle_id'', jstr_opt (last_seen_bundle_id (rt_policy st))),
         (''last_seen_digest'', jstr_opt (last_seen_digest (rt_policy st)))]),
      (''routes'', JObj [(''digest'', JStr (sn_routes_digest (rt_active st))),
         (''models'', JArr (map JStr (sn_models (rt_active st))))]),
      (''backends'', JObj [(''healthy'', JInt (int healthy)), (''unhealthy'', JInt (int unhealthy)),
         (''unknown'', JInt (int unknown))])]"

definition observed_snapshot :: "runtime_env \<Rightarrow> RuntimeConfigState \<Rightarrow> obj" where
  "observed_snapshot e st =
     [(''config_digest'', JStr (sn_digest (rt_active st))), (''generation'', JInt (sn_generation (rt_active st))),
      (''policy_digest'', jstr_opt (last_seen_digest (rt_policy st))),
      (''policy_bundle_id'', jstr_opt (last_seen_bundle_id (rt_policy st))),
      (''routes_digest'', JStr (sn_routes_digest (rt_active st))), (''models'', JArr (map JStr (sn_models (rt_active st)))),
      (''runtime_version'', JStr (this_version e)), (''instance_id'', JStr (rt_instance_id st)),
      (''profile'', JStr (sn_profile (rt_active st))), (''status'', JStr (sn_status (rt_active st)))]"

subsection \<open>Verification\<close>

text \<open>
  \<open>want == actual\<close> where \<open>actual\<close> is a string, an integer or \<open>None\<close>: numbers and truth values are
  compared by their number.
\<close>

fun number_of :: "json \<Rightarrow> rat option" where
  "number_of (JInt i) = Some (of_int i)"
| "number_of (JBool b) = Some (if b then 1 else 0)"
| "number_of (JFloat (FDec c x)) = Some (dec_val c x)"
| "number_of _ = None"

definition py_same :: "json \<Rightarrow> json \<Rightarrow> bool" where
  "py_same want actual =
     (case number_of want of
        Some q \<Rightarrow> number_of actual = Some q
      | None \<Rightarrow> want = actual)"

definition unstated :: "json \<Rightarrow> bool" where
  "unstated want = (want = JNull \<or> want = JStr [])"

definition field_difference :: "obj \<Rightarrow> obj \<Rightarrow> string \<Rightarrow> json list" where
  "field_difference expected observed name =
     (if unstated (jget expected name) \<or> py_same (jget expected name) (jget observed name) then []
      else [JObj [(''field'', JStr name), (''expected'', jget expected name), (''actual'', jget observed name)]])"

definition CHECKED_FIELDS :: "string list" where
  "CHECKED_FIELDS = [''config_digest'', ''generation'', ''policy_digest'', ''routes_digest'']"

definition models_difference :: "(json \<Rightarrow> string) \<Rightarrow> obj \<Rightarrow> string list \<Rightarrow> json list" where
  "models_difference rep expected actual =
     (case jget expected ''models'' of
        JArr ms \<Rightarrow>
          if sort (map (py_str rep) ms) \<noteq> actual
          then [JObj [(''field'', JStr ''models''), (''expected'', JArr ms), (''actual'', JArr (map JStr actual))]] else []
      | _ \<Rightarrow> [])"

definition differences :: "runtime_env \<Rightarrow> RuntimeConfigState \<Rightarrow> obj \<Rightarrow> json list" where
  "differences e st expected =
     concat (map (field_difference expected (observed_snapshot e st)) CHECKED_FIELDS)
     @ models_difference (re_rep e) expected (sn_models (rt_active st))"

definition verify :: "runtime_env \<Rightarrow> RuntimeConfigState \<Rightarrow> obj \<Rightarrow> obj" where
  "verify e st expected =
     (let diffs = differences e st expected; observed = observed_snapshot e st in
      [(''verified'', JBool (diffs = [])), (''differences'', JArr diffs), (''observed'', JObj observed),
       (''expected'', JObj expected),
       (''correlation'', JObj
          [(''config_generation'', jget observed ''generation''), (''config_digest'', jget observed ''config_digest''),
           (''policy_bundle_id'', jget observed ''policy_bundle_id''), (''policy_digest'', jget observed ''policy_digest''),
           (''routes_digest'', jget observed ''routes_digest''), (''instance_id'', jget observed ''instance_id''),
           (''runtime_version'', jget observed ''runtime_version'')])])"

subsection \<open>The endpoints\<close>

text \<open>The status of the admission controller and of the budget guard, as the endpoints show them.\<close>

definition admission_status :: "runtime_env \<Rightarrow> TenantAdmissionController \<Rightarrow> obj" where
  "admission_status e c =
     (case controller_status c of (mode, configured, ok, ttl, renew, err) \<Rightarrow>
        [(''mode'', JStr (case mode of Local \<Rightarrow> ''local'' | Redis \<Rightarrow> ''redis'' | _ \<Rightarrow> ''degraded'')),
         (''redis_configured'', JBool configured), (''redis_ok'', case ok of None \<Rightarrow> JNull | Some b \<Rightarrow> JBool b),
         (''lease_ttl_seconds'', re_number e ttl), (''renew_interval_seconds'', re_number e renew),
         (''last_redis_error'', jstr_opt err)])"

definition guard_status :: "runtime_env \<Rightarrow> hash_env \<Rightarrow> pyfloat \<Rightarrow> 'r InferenceBudgetGuard \<Rightarrow> obj" where
  "guard_status e h store_timeout g =
     [(''enabled'', JBool (guard_enabled g)), (''backend'', JStr (if guard_redis g \<noteq> None then ''redis'' else ''memory'')),
      (''redis_configured'', JBool (guard_redis g \<noteq> None)),
      (''redis_ok'', if guard_redis g \<noteq> None then JBool (guard_redis_ok g) else JNull),
      (''store_timeout_seconds'', JFloat store_timeout),
      (''policy_version'', jstr_opt (map_option policy_version (guard_policy g))),
      (''policy_sha256'', jstr_opt (map_option (policy_sha256 (sha256_hex h) (canonical_bytes h)) (guard_policy g))),
      (''last_error'', jstr_opt (map_option (re_exc_text e) (guard_last_error g)))]"

definition backend_counts :: "health_row list \<Rightarrow> nat \<times> nat \<times> nat" where
  "backend_counts rows =
     (length (filter (\<lambda>r. row_status r = ''healthy'') rows), length (filter (\<lambda>r. row_status r = ''unhealthy'') rows),
      length (filter (\<lambda>r. row_status r = ''unknown'') rows))"

definition with_role :: "runtime_env \<Rightarrow> Request \<Rightarrow> string list \<Rightarrow> (unit \<Rightarrow> (py_exc + HTTPException) + 'a) \<Rightarrow> (py_exc + HTTPException) + 'a" where
  "with_role e r allowed k = bind_exc (map_sum Inr id (require_any_role (re_rep e) (re_environ e) r allowed)) k"

text \<open>
  The health rows arrive as \<open>snapshot()\<close> of the store returned them. \<open>guard_part\<close> is the budget
  guard with its store timeout, \<open>policy_error\<close> the start-up error of its policy.
\<close>

definition runtime_status ::
  "runtime_env \<Rightarrow> hash_env \<Rightarrow> Request \<Rightarrow> RuntimeConfigState \<Rightarrow> py_exc + health_row list
   \<Rightarrow> TenantAdmissionController option \<Rightarrow> ('r InferenceBudgetGuard \<times> pyfloat) option \<Rightarrow> string option
   \<Rightarrow> (py_exc + HTTPException) + obj" where
  "runtime_status e h r st rows admission guard_part policy_error =
     with_role e r STATUS_ROLES (\<lambda>_.
     bind_exc (map_sum Inl id rows) (\<lambda>rows.
     (case backend_counts rows of (healthy, unhealthy, unknown) \<Rightarrow>
        let payload = status_payload e st healthy unhealthy unknown;
            payload = (case admission of None \<Rightarrow> payload
              | Some a \<Rightarrow> dict_set ''admission'' (JObj (admission_status e a)) payload)
        in Inr (case guard_part of
              Some (g, t) \<Rightarrow> dict_set ''budget_guard'' (JObj (guard_status e h t g)) payload
            | None \<Rightarrow>
                if truthy_opt policy_error
                then dict_set ''budget_guard'' (JObj [(''enabled'', JBool True), (''ok'', JBool False),
                       (''error'', jstr_opt policy_error)]) payload
                else payload))))"

definition runtime_jwks :: "'k signing_env \<Rightarrow> py_exc + obj" where
  "runtime_jwks g = public_jwks g"

record RuntimeVerifyRequest =
  rv_expected :: obj
  rv_remediation_id :: "string option"
  rv_correlation_id :: "string option"

definition signing_unavailable :: "bool \<Rightarrow> HTTPException" where
  "signing_unavailable enabled =
     \<lparr>he_status = 503,
      he_detail = JObj [(''error'', JObj [(''type'', JStr ''api_error''), (''code'', JStr ''signed_verify_unavailable''),
        (''message'', JStr (if \<not> enabled then ''signed verify required but RUNTIME_VERIFY_PRIVATE_KEY is not set''
                          else ''failed to produce signed verification token''))])],
      he_headers = []\<rparr>"

definition token_payload :: "obj \<Rightarrow> RuntimeVerifyRequest \<Rightarrow> obj" where
  "token_payload result body =
     [(''verified'', jget result ''verified''), (''differences'', jget result ''differences''),
      (''observed'', jget result ''observed''), (''correlation'', jget result ''correlation''),
      (''remediation_id'', jstr_opt (rv_remediation_id body)), (''correlation_id'', jstr_opt (rv_correlation_id body))]"

definition set_truthy :: "string \<Rightarrow> string option \<Rightarrow> obj \<Rightarrow> obj" where
  "set_truthy k v d = (if truthy_opt v then dict_set k (jstr_opt v) d else d)"

definition runtime_verify ::
  "runtime_env \<Rightarrow> 'k signing_env \<Rightarrow> int \<Rightarrow> Request \<Rightarrow> RuntimeConfigState \<Rightarrow> RuntimeVerifyRequest
   \<Rightarrow> (py_exc + HTTPException) + obj" where
  "runtime_verify e g now r st body =
     with_role e r VERIFY_ROLES (\<lambda>_.
     (let result = set_truthy ''correlation_id'' (rv_correlation_id body)
            (set_truthy ''remediation_id'' (rv_remediation_id body) (verify e st (rv_expected body))) in
      bind_exc (map_sum Inl id (sign_verification_token g now (token_payload result body))) (\<lambda>token.
      case token of
        Some t \<Rightarrow> Inr (dict_set ''verification_token'' (JStr t) result)
      | None \<Rightarrow>
          if require_signed_verify (re_environ e)
          then bind_exc (map_sum Inl id (verify_signing_enabled g)) (\<lambda>enabled. Inl (Inr (signing_unavailable enabled)))
          else Inr result)))"

end
