(* ===== verification/Gateway.thy ===== *)
theory Gateway imports Chat Runtime begin

text \<open>
  \<open>app/gateway/main.py\<close>: the process. \<open>lifespan\<close> builds the parts, without \<open>REDIS_URL\<close> (one replica,
  everything in the process), and the chat endpoint works on them: the record of services of
  \<open>Chat\<close> filled with the definitions of the other theories. The world outside the process
  (models, control plane, clock, ids, hashes) is a parameter. Requests are served one after the
  other here; interleavings are the subject of the theories of the parts.
\<close>

subsection \<open>Start-up\<close>

text \<open>\<open>_env_int\<close> and \<open>_env_float\<close> of \<open>resilience.py\<close>.\<close>

definition env_int_or :: "environ \<Rightarrow> string \<Rightarrow> int \<Rightarrow> py_exc + int" where
  "env_int_or env name dflt =
     (let raw = strip (getenv env name []) in
      if raw = [] then Inr dflt else (case parse_int raw of None \<Rightarrow> Inl ValueError | Some n \<Rightarrow> Inr (max 0 n)))"

text \<open>The recovery time is taken to be finite.\<close>

definition env_float_or :: "environ \<Rightarrow> (string \<Rightarrow> string + pyfloat) \<Rightarrow> string \<Rightarrow> rat \<Rightarrow> py_exc + rat" where
  "env_float_or env read name dflt =
     (let raw = strip (getenv env name []) in
      if raw = [] then Inr dflt else (case read raw of Inl e \<Rightarrow> Inl ValueError | Inr x \<Rightarrow> Inr (max 0 (fval x))))"

definition global_admission :: "environ \<Rightarrow> py_exc + AdmissionGate" where
  "global_admission env =
     bind_exc (env_int_or env ''GATEWAY_MAX_INFLIGHT'' 256) (\<lambda>i.
     bind_exc (env_int_or env ''GATEWAY_MAX_QUEUED'' 256) (\<lambda>q. Inr (new_gate i q)))"

record gateway =
  gw_runtime :: RuntimeConfigState
  gw_draining :: DrainState
  gw_gate :: AdmissionGate
  gw_admission :: TenantAdmissionController
  gw_guard :: "unit InferenceBudgetGuard option"
  gw_policy_error :: "string option"
  gw_breaker :: CircuitBreaker
  gw_retries :: RetryBudget
  gw_events :: UsageEventEmitter
  gw_health :: health_table
  gw_decisions :: InMemoryDecisionStore
  gw_quota :: "TenantAttributionStore option"
  gw_replay :: "replay_cache option"
  gw_tasks :: "string list"
  gw_now :: rat
  gw_serial :: nat

text \<open>What the process was configured with and what it talks to.\<close>

record world =
  wd_environ :: environ
  wd_runtime :: runtime_env
  wd_settings :: GatewaySettings
  wd_tenants :: TenantPolicyBundle
  wd_governance :: GovernanceConfig
  wd_budget :: "string + InferenceBudgetPolicy option"
  wd_models :: upstream
  wd_streams :: "upstream_call \<Rightarrow> httpx_error + int"
  wd_plane :: control_plane
  wd_bind :: bind_env
  wd_hash :: hash_env
  wd_sha256 :: "string \<Rightarrow> nat"
  wd_rep :: "json \<Rightarrow> string"
  wd_uuid :: "nat \<Rightarrow> string"
  wd_today :: string
  wd_latency :: rat
  wd_read_float :: "string \<Rightarrow> string + pyfloat"

text \<open>
  \<open>lifespan\<close> up to its \<open>yield\<close>. The budget policy's outcome is \<open>Inl\<close> for a \<open>BudgetPolicyError\<close>,
  which is kept for the requests; every other error ends the start.
\<close>

definition lifespan :: "world \<Rightarrow> rat \<Rightarrow> py_exc + gateway" where
  "lifespan w now =
     (let env = wd_environ w in
      bind_exc (from_settings (wd_runtime w) now (wd_settings w)) (\<lambda>runtime.
      bind_exc (map_sum (\<lambda>_. ValueError) id (new_controller env (wd_read_float w) (wd_tenants w) False None None)) (\<lambda>admission.
      bind_exc (global_admission env) (\<lambda>gate.
      bind_exc (env_int_or env ''GATEWAY_CIRCUIT_FAILURE_THRESHOLD'' 5) (\<lambda>threshold.
      bind_exc (env_float_or env (wd_read_float w) ''GATEWAY_CIRCUIT_RECOVERY_SECONDS'' 30) (\<lambda>recovery.
      bind_exc (env_int_or env ''GATEWAY_CIRCUIT_HALF_OPEN_PROBES'' 1) (\<lambda>probes.
      bind_exc (env_int_or env ''GATEWAY_RETRY_BUDGET_PER_MINUTE'' 60) (\<lambda>retries.
      bind_exc (new_emitter env) (\<lambda>events.
        Inr \<lparr>gw_runtime = runtime, gw_draining = \<lparr>draining = False, started_at = None\<rparr>, gw_gate = gate, gw_admission = admission,
             gw_guard = (case wd_budget w of Inr (Some p) \<Rightarrow> Some (init_guard (Some p) None) | _ \<Rightarrow> None),
             gw_policy_error = (case wd_budget w of Inl e \<Rightarrow> Some e | _ \<Rightarrow> None),
             gw_breaker = new_breaker threshold recovery (max 1 probes),
             gw_retries = \<lparr>max_retries_per_minute = retries, retry_window_start = now, retry_used = 0\<rparr>,
             gw_events = events, gw_health = new_health_table (model_targets (wd_settings w)),
             gw_decisions = new_decision_store 1000,
             gw_quota = (if attribution_enabled (env ''TENANT_ATTRIBUTION_ENABLED'') then Some new_tenant_store else None),
             gw_replay = (if replay_protection_enabled env then Some [] else None), gw_tasks = [], gw_now = now, gw_serial = 0\<rparr>)))))))))"

subsection \<open>The services of the chat endpoint\<close>

definition no_redis :: "unit evaluator" where
  "no_redis script ks args r = (Inl ConnectionError, r)"

definition clock_reading :: "gateway \<Rightarrow> int" where
  "clock_reading s = \<lfloor>gw_now s * 1000\<rfloor>"

text \<open>
  A request that would have to wait for a slot gives up here: with one request at a time nobody
  is there to free one.
\<close>

definition enter_gate :: "(gateway, unit) service" where
  "enter_gate s =
     (case gate_acquire ''request'' (gw_gate s) of
        Inl e \<Rightarrow> (Inl (ChatHttp e), s)
      | Inr g \<Rightarrow>
          if sem_locked (gw_gate s) then (Inl Cancelled, s\<lparr>gw_gate := gate_cancel ''request'' g\<rparr>)
          else (Inr (), s\<lparr>gw_gate := g, gw_serial := gw_serial s + 1\<rparr>))"

definition enter_tenant :: "string \<Rightarrow> string \<Rightarrow> (gateway, AdmissionLease) service" where
  "enter_tenant t m s =
     (case acquire_local Local ''request'' t (model_key (Some m)) (gw_admission s) of
        (Lease al, a) \<Rightarrow> (Inr al, s\<lparr>gw_admission := a\<rparr>)
      | (Refused e, a) \<Rightarrow> (Inl (ChatHttp e), s\<lparr>gw_admission := a\<rparr>)
      | (Pending, a) \<Rightarrow> (Inl Cancelled, s\<lparr>gw_admission := cancel_local ''request'' t (model_key (Some m)) a\<rparr>))"

definition leave_tenant :: "AdmissionLease \<Rightarrow> gateway \<Rightarrow> AdmissionLease \<times> gateway" where
  "leave_tenant al s =
     (if al_released al then (al, s)
      else (al\<lparr>al_released := True, renewing := False\<rparr>,
            s\<lparr>gw_admission := release_local (al_tenant al) (al_model al) (gw_admission s)\<rparr>))"

definition quota_service ::
  "(TenantAttributionStore \<Rightarrow> 'a \<times> TenantAttributionStore) \<Rightarrow> (gateway, 'a) service" where
  "quota_service f s =
     (case f (case gw_quota s of Some q \<Rightarrow> q | None \<Rightarrow> new_tenant_store) of (x, q) \<Rightarrow> (Inr x, s\<lparr>gw_quota := Some q\<rparr>))"

definition gateway_version_of :: "world \<Rightarrow> string" where
  "gateway_version_of w = runtime_version (wd_environ w) (re_package_version (wd_runtime w))"

definition note_policy :: "EnforcementEvidence \<Rightarrow> gateway \<Rightarrow> gateway" where
  "note_policy ev s =
     s\<lparr>gw_runtime := (gw_runtime s)\<lparr>rt_policy :=
        observe (gw_now s) (ev_policy_bundle_id ev) (ev_policy_digest ev) (rt_policy (gw_runtime s))\<rparr>\<rparr>"

definition ask_control_plane :: "world \<Rightarrow> Request \<Rightarrow> obj \<Rightarrow> usage_signals \<Rightarrow> (gateway, obj option) service" where
  "ask_control_plane w request payload sig s =
     (case enforce_governance (wd_bind w) (gateway_version_of w) (wd_plane w) \<lfloor>gw_now s\<rfloor> (gw_now s)
             (wd_governance w) (model_targets (wd_settings w)) sig request payload (gw_replay s) of
        (r, store) \<Rightarrow>
          (case r of Inl (Inl e) \<Rightarrow> Inl (ChatRaised e) | Inl (Inr e) \<Rightarrow> Inl (ChatHttp e) | Inr x \<Rightarrow> Inr x,
           s\<lparr>gw_replay := store\<rparr>))"

definition note_backend :: "string \<Rightarrow> bool \<Rightarrow> bool \<Rightarrow> (gateway, unit) service" where
  "note_backend m ok fb s =
     (case mem_record_request (gw_now s) m ok fb (gw_health s) of
        Inl e \<Rightarrow> (Inl (ChatRaised e), s) | Inr table \<Rightarrow> (Inr (), s\<lparr>gw_health := table\<rparr>))"

definition pass_time :: "world \<Rightarrow> (gateway, unit) service" where
  "pass_time w s = (Inr (), s\<lparr>gw_now := gw_now s + wd_latency w\<rparr>)"

definition stream_from :: "world \<Rightarrow> upstream_call \<Rightarrow> (gateway, int) service" where
  "stream_from w call s = (map_sum ChatHttpx id (wd_streams w call), snd (pass_time w s))"

definition gateway_services :: "world \<Rightarrow> Request \<Rightarrow> rat \<Rightarrow> bool \<Rightarrow> (gateway, unit) chat_services" where
  "gateway_services w request started quota =
     \<lparr>has_guard = (\<lambda>s. gw_guard s \<noteq> None), guard_of = the \<circ> gw_guard,
      put_guard = (\<lambda>g s. s\<lparr>gw_guard := Some g\<rparr>), budget_policy_error = gw_policy_error,
      load_budget_policy = (\<lambda>s. wd_budget w), budget_hash = wd_hash w, budget_eval = no_redis,
      fresh_id = (\<lambda>s. wd_uuid w (gw_serial s)), clock_ms = clock_reading, clocks = (\<lambda>s i. gw_now s),
      since_start_ms = (\<lambda>s. (gw_now s - started) * 1000),
      draining_error = (\<lambda>s. case reject_if_draining (gw_draining s) of Inl e \<Rightarrow> Some e | Inr u \<Rightarrow> None),
      has_gate = True, take_gate = enter_gate, free_gate = (\<lambda>s. s\<lparr>gw_gate := gate_release (gw_gate s)\<rparr>),
      has_admission = True, take_lease = enter_tenant, free_lease = leave_tenant,
      has_tenants = quota,
      quota_reserve = (\<lambda>t i out x s. quota_service
        (reserve_request (gw_now s) (wd_today w) (wd_uuid w (gw_serial s)) t i out x None) s),
      quota_refund = (\<lambda>r s. quota_service (\<lambda>q. ((), refund_reservation (gw_now s) (wd_today w) r q)) s),
      quota_reconcile = (\<lambda>r i out x s. quota_service
        (\<lambda>q. ((), snd (reconcile_usage (gw_now s) (wd_today w) r i out x q))) s),
      governance_config = Some (wd_governance w), ask_governance = ask_control_plane w request,
      observe_policy = note_policy, sha256_of = wd_sha256 w,
      health_of = (\<lambda>s m. proj new_health (mem_load (gw_health s) m)),
      read_health = (\<lambda>m s. (case mem_load (gw_health s) m of Inl e \<Rightarrow> Inl (ChatRaised e) | Inr h \<Rightarrow> Inr h, s)), note_health = note_backend,
      breaker_of = Some \<circ> gw_breaker,
      put_breaker = (\<lambda>b s. case b of None \<Rightarrow> s | Some b \<Rightarrow> s\<lparr>gw_breaker := b\<rparr>),
      retries_of = Some \<circ> gw_retries,
      put_retries = (\<lambda>b s. case b of None \<Rightarrow> s | Some b \<Rightarrow> s\<lparr>gw_retries := b\<rparr>),
      upstream_of = (\<lambda>s. wd_models w), elapse = pass_time w, open_stream = stream_from w,
      spawn_shadow = (\<lambda>m s. s\<lparr>gw_tasks := gw_tasks s @ [m]\<rparr>),
      put_decision = (\<lambda>d s. (Inr (), s\<lparr>gw_decisions := decision_put (FDec (clock_reading s) (- 3)) d (gw_decisions s)\<rparr>)),
      has_usage_events = True,
      send_usage = (\<lambda>e s. (Inr (), s\<lparr>gw_events := emit (wd_environ w) (gw_now s) e (gw_events s)\<rparr>)),
      rep_of = wd_rep w, gateway_version = gateway_version_of w,
      embed_metadata = env_flag (getenv (wd_environ w) ''GATEWAY_EMBED_ROUTING_METADATA'' []),
      evaluate_responses = response_evaluation_enabled (wd_environ w),
      spawn_evaluation = (\<lambda>p s. s\<lparr>gw_tasks := gw_tasks s @ [''evaluation'']\<rparr>)\<rparr>"

text \<open>A request from its arrival to its end: a streamed response is sent to the client as \<open>ob\<close> tells.\<close>

definition serve :: "world \<Rightarrow> Request \<Rightarrow> json option \<Rightarrow> StreamObservation \<Rightarrow> gateway \<Rightarrow> (chat_exc + chat_response) \<times> gateway" where
  "serve w request body ob s =
     (let svc = gateway_services w request (gw_now s) (gw_quota s \<noteq> None) in
      case chat_completions svc (wd_environ w) (wd_tenants w) (wd_settings w) request (wd_uuid w (gw_serial s)) body
             (new_request s) of
        (Inr (StreamResponse sp h), c) \<Rightarrow>
          (case body of
             Some (JObj payload) \<Rightarrow>
               (Inr (StreamResponse sp h),
                shared (snd (finalize_stream svc (wd_settings w)
                  (request_info_of (wd_rep w) (wd_environ w) request (wd_uuid w (gw_serial s)) payload) sp ob c)))
           | _ \<Rightarrow> (Inr (StreamResponse sp h), shared c))
      | (r, c) \<Rightarrow> (r, shared c))"

end
