(* ===== verification/Chat_Properties.thy ===== *)
theory Chat_Properties imports Chat begin

text \<open>
  What the chat endpoint does with the resources it takes, on every path: the process-wide slot,
  the tenant's lease and the budget reservation are given back exactly as often as they were
  taken, the model is called only after every check, and where the code departs from that.
\<close>

subsection \<open>Balances\<close>

fun gate_delta :: "effect \<Rightarrow> int" where
  "gate_delta GateTaken = 1"
| "gate_delta GateFreed = - 1"
| "gate_delta _ = 0"

fun lease_delta :: "effect \<Rightarrow> int" where
  "lease_delta LeaseTaken = 1"
| "lease_delta LeaseFreed = - 1"
| "lease_delta _ = 0"

fun budget_delta :: "effect \<Rightarrow> int" where
  "budget_delta (BudgetTaken n) = 1"
| "budget_delta (BudgetSettled n) = - 1"
| "budget_delta _ = 0"

definition balance :: "(effect \<Rightarrow> int) \<Rightarrow> 's chat_ctx \<Rightarrow> int" where
  "balance d c = sum_list (map d (effects c))"

definition lease_open :: "'s chat_ctx \<Rightarrow> bool" where
  "lease_open c = (case held_lease c of None \<Rightarrow> False | Some al \<Rightarrow> \<not> al_released al)"

definition budget_open :: "'s chat_ctx \<Rightarrow> bool" where
  "budget_open c = (case held_budget c of None \<Rightarrow> False | Some r \<Rightarrow> \<not> settled r)"

text \<open>The trace agrees with what the request holds; \<open>d\<close> says that its budget is finished.\<close>

definition accounts :: "int \<Rightarrow> bool \<Rightarrow> bool \<Rightarrow> 's chat_ctx \<Rightarrow> bool" where
  "accounts k g d c \<longleftrightarrow>
     balance gate_delta c = k \<and> gate_held c = g \<and> balance lease_delta c = of_bool (lease_open c)
     \<and> balance budget_delta c = of_bool (budget_open c) \<and> (d \<longrightarrow> \<not> budget_open c)"

definition all_given_back :: "'s chat_ctx \<Rightarrow> bool" where
  "all_given_back c \<longleftrightarrow> balance gate_delta c = 0 \<and> balance lease_delta c = 0 \<and> balance budget_delta c = 0
     \<and> \<not> lease_open c \<and> \<not> budget_open c"

text \<open>What is relied on of the lease service: a lease is handed out unreleased and releasing marks it.\<close>

definition lease_laws :: "('s, 'r) chat_services \<Rightarrow> bool" where
  "lease_laws svc \<longleftrightarrow>
     (\<forall>al s. al_released (fst (free_lease svc al s)))
     \<and> (\<forall>t m s al s'. take_lease svc t m s = (Inr al, s') \<longrightarrow> \<not> al_released al)"

lemma keeps_log [triples]:
  "gate_delta e = 0 \<Longrightarrow> lease_delta e = 0 \<Longrightarrow> budget_delta e = 0 \<Longrightarrow> keeps (accounts k g d) (log_effect e)"
  by (auto simp: keeps_iff log_effect_def update_def accounts_def balance_def lease_open_def budget_open_def)

lemma keeps_call [triples]: "keeps (accounts k g d) (call_service f)"
  by (auto simp: keeps_iff call_service_def accounts_def balance_def lease_open_def budget_open_def split: prod.split)

lemma keeps_shared [triples]: "keeps (accounts k g d) (change_shared f)"
  by (auto simp: keeps_iff change_shared_def update_def accounts_def balance_def lease_open_def budget_open_def)

lemma keeps_raise [triples]: "keeps P (raise_http e)" "keeps P (lift_py r)"
  by (auto simp: raise_http_def lift_py_def intro: triples split: sum.split)

lemma finish_budget_triple:
  "triple (accounts k g d) (finish_budget svc f) (\<lambda>_. accounts k g True) (\<lambda>_. accounts k g True)"
proof -
  have "accounts k g True (snd (finish_budget svc f c))" if a: "accounts k g d c" for c
  proof (cases "held_budget c")
    case None
    with a show ?thesis by (simp add: finish_budget_def update_def accounts_def budget_open_def)
  next
    case (Some r)
    obtain r' g' where f: "finish_op (budget_eval svc) f (clock_ms svc (shared c)) (r, guard_of svc (shared c)) = (r', g')"
      by fastforce
    then have "settled r'" using finish_settled [of "budget_eval svc" f "clock_ms svc (shared c)" "(r, guard_of svc (shared c))"] by simp
    with a Some f show ?thesis
      by (auto simp: finish_budget_def update_def accounts_def balance_def budget_open_def lease_open_def)
  qed
  then show ?thesis by (simp add: triple_def finish_budget_def update_def)
qed

lemma accounts_weaken: "accounts k g True c \<Longrightarrow> accounts k g d c"
  by (simp add: accounts_def)

lemma keeps_finish [triples]: "keeps (accounts k g d) (finish_budget svc f)"
  unfolding keeps_def by (rule triple_weaken [OF finish_budget_triple]) (auto intro: accounts_weaken)

lemma keeps_settle [triples]: "keeps (accounts k g d) (settle_budget svc x)"
  unfolding settle_budget_def by (rule keeps_finish)

lemma keeps_mark [triples]: "keeps (accounts k g d) mark_budget_executed"
  by (auto simp: keeps_iff mark_budget_executed_def update_def accounts_def balance_def lease_open_def budget_open_def
      mark_executed_def split: option.split)

lemma keeps_on_exception [triples]:
  "keeps P m \<Longrightarrow> keeps P h \<Longrightarrow> keeps P (on_exception m h)"
  unfolding on_exception_def by (intro triples)

lemma release_lease_triple:
  assumes "lease_laws svc"
  shows "triple (accounts k g d) (release_lease svc) (\<lambda>_ c. accounts k g d c \<and> \<not> lease_open c) (\<lambda>_. accounts k g d)"
proof -
  have "accounts k g d (snd (release_lease svc c)) \<and> \<not> lease_open (snd (release_lease svc c))" if a: "accounts k g d c" for c
  proof (cases "held_lease c")
    case None
    with a show ?thesis by (simp add: release_lease_def update_def lease_open_def)
  next
    case (Some al)
    obtain al' s where f: "free_lease svc al (shared c) = (al', s)" by fastforce
    with assms have "al_released al'" by (auto simp: lease_laws_def) (metis fst_conv)
    with a Some f show ?thesis
      by (auto simp: release_lease_def update_def accounts_def balance_def budget_open_def lease_open_def)
  qed
  then show ?thesis by (simp add: triple_def release_lease_def update_def)
qed

definition after_gate :: "int \<Rightarrow> bool \<Rightarrow> int" where
  "after_gate k g = (if g then k - 1 else k)"

lemma release_gate_triple:
  "triple (\<lambda>c. accounts k g d c \<and> R (lease_open c)) (release_gate svc)
     (\<lambda>_ c. accounts (after_gate k g) g d c \<and> R (lease_open c)) E"
  by (auto simp: triple_def release_gate_def update_def accounts_def balance_def lease_open_def budget_open_def after_gate_def)

lemma finished_given_back:
  "accounts 0 g True c \<Longrightarrow> \<not> lease_open c \<Longrightarrow> all_given_back c"
  by (simp add: accounts_def all_given_back_def)

text \<open>The clean-up of \<open>except Exception\<close> and of the stream's \<open>finally\<close>.\<close>

lemma cleanup_triple:
  assumes "lease_laws svc"
  shows "triple (accounts k g d)
     (andthen (finish_budget svc f) (\<lambda>_. andthen (release_lease svc) (\<lambda>_. release_gate svc)))
     (\<lambda>_ c. accounts (after_gate k g) g True c \<and> \<not> lease_open c) (\<lambda>_ c. False)"
proof (rule triple_andthen)
  show "triple (accounts k g d) (finish_budget svc f) (\<lambda>_. accounts k g True) (\<lambda>_ c. False)"
    using finish_budget_triple [of k g d svc f] by (auto simp: triple_def finish_budget_def update_def)
next
  show "triple (accounts k g True) (andthen (release_lease svc) (\<lambda>_. release_gate svc))
     (\<lambda>_ c. accounts (after_gate k g) g True c \<and> \<not> lease_open c) (\<lambda>_ c. False)"
  proof (rule triple_andthen)
    show "triple (accounts k g True) (release_lease svc) (\<lambda>_ c. accounts k g True c \<and> \<not> lease_open c) (\<lambda>_ c. False)"
      using release_lease_triple [OF assms, of k g True] by (auto simp: triple_def release_lease_def update_def)
  next
    show "triple (\<lambda>c. accounts k g True c \<and> \<not> lease_open c) (release_gate svc)
       (\<lambda>_ c. accounts (after_gate k g) g True c \<and> \<not> lease_open c) (\<lambda>_ c. False)"
      by (rule release_gate_triple)
  qed
qed

subsection \<open>The phases keep the accounts\<close>

lemma interpret_fresh:
  "interpret_reserve_result env result sc b est p rid = Inr (d, Some r) \<Longrightarrow> \<not> settled r"
  by (auto simp: interpret_reserve_result_def bind_exc_Inr_iff split: sum.splits prod.splits if_splits)

lemma guard_reserve_fresh:
  assumes "guard_reserve env ev tenant model i out key usd rid now g = ((d, Some r), g')"
  shows "\<not> settled r"
proof (cases "guard_policy g")
  case None
  with assms show ?thesis by (simp add: guard_reserve_def)
next
  case (Some policy)
  obtain sc b where sc: "scope_for (sha256_hex env) policy tenant key = (sc, b)" by fastforce
  obtain est eo where eo: "estimate_of policy model i out usd = (est, eo)" by fastforce
  have nofault: "reserve_fault env e sc b x policy h \<noteq> ((d, Some r), g')" for e x h
    by (simp add: reserve_fault_def)
  show ?thesis
  proof (cases eo)
    case (Inl e)
    with assms Some sc eo nofault show ?thesis by (simp add: guard_reserve_def)
  next
    case (Inr n)
    then have "(case (if guard_redis g \<noteq> None then reserve_redis env ev sc b est policy rid now g
                      else reserve_memory env sc b est policy rid now g) of
          (Inl e, h) \<Rightarrow> reserve_fault env e sc b est policy h | (Inr result, h) \<Rightarrow> (result, h)) = ((d, Some r), g')"
      using assms Some sc eo by (simp add: guard_reserve_def)
    then consider "reserve_redis env ev sc b est policy rid now g = (Inr (d, Some r), g')"
      | "reserve_memory env sc b est policy rid now g = (Inr (d, Some r), g')"
      using nofault by (auto split: prod.splits sum.splits if_splits)
    then show ?thesis
      by cases (auto simp: reserve_redis_def reserve_memory_def Let_def dest: interpret_fresh
          split: sum.splits prod.splits if_splits)
  qed
qed

definition no_budget :: "'s chat_ctx \<Rightarrow> bool" where
  "no_budget c \<longleftrightarrow> held_budget c = None"

lemma keeps_current_guard:
  "keeps (\<lambda>c. accounts k g d c \<and> no_budget c) (current_guard svc)"
proof -
  have "keeps (\<lambda>c. accounts k g d c \<and> no_budget c) (change_shared f)" for f
    by (auto simp: keeps_iff change_shared_def update_def accounts_def balance_def lease_open_def budget_open_def no_budget_def)
  then show ?thesis
    unfolding current_guard_def by (intro triples)
qed

lemma take_budget_accounts:
  assumes "accounts k g False c" and "no_budget c"
  shows "accounts k g False (snd (take_budget svc request t m n g0 c))"
proof -
  obtain d res g' where q: "guard_reserve (budget_hash svc) (budget_eval svc) t m (fst n) (snd n) (api_key_of request)
      None (fresh_id svc (shared c)) (clock_ms svc (shared c)) g0 = ((d, res), g')" by (metis prod.collapse)
  show ?thesis
  proof (cases res)
    case None
    with assms q show ?thesis
      by (auto simp: take_budget_def Let_def accounts_def balance_def lease_open_def budget_open_def no_budget_def)
  next
    case (Some r)
    with q guard_reserve_fresh have "\<not> settled r" by metis
    with assms q Some show ?thesis
      by (auto simp: take_budget_def Let_def accounts_def balance_def lease_open_def budget_open_def no_budget_def)
  qed
qed

lemma reserve_budget_triple:
  "triple (\<lambda>c. accounts k g False c \<and> no_budget c) (reserve_inference_budget svc request t m n)
     (\<lambda>_. accounts k g False) (\<lambda>_. accounts k g False)"
  unfolding reserve_inference_budget_def
proof (rule triple_andthen)
  show "triple (\<lambda>c. accounts k g False c \<and> no_budget c) (current_guard svc)
      (\<lambda>_ c. accounts k g False c \<and> no_budget c) (\<lambda>_. accounts k g False)"
    by (rule triple_keeps [OF keeps_current_guard]) auto
next
  fix guard :: "'b InferenceBudgetGuard option"
  show "triple (\<lambda>c. accounts k g False c \<and> no_budget c)
     (case guard of None \<Rightarrow> give () | Some g \<Rightarrow> if \<not> guard_enabled g then give () else take_budget svc request t m n g)
     (\<lambda>_. accounts k g False) (\<lambda>_. accounts k g False)"
  proof (cases guard)
    case None
    then show ?thesis by (simp, intro triple_give, simp)
  next
    case (Some g)
    have "triple (\<lambda>c. accounts k g False c \<and> no_budget c) (take_budget svc request t m n x)
       (\<lambda>_. accounts k g False) (\<lambda>_. accounts k g False)" for g x
      by (rule triple_same) (simp add: take_budget_accounts)
    with Some show ?thesis by (auto intro: triple_give)
  qed
qed

lemma keeps_json [triples]:
  "(\<And>u. keeps P (f u)) \<Longrightarrow> keeps P m \<Longrightarrow> keeps P (case j of JObj u \<Rightarrow> f u | _ \<Rightarrow> m)"
  by (cases j) simp_all

lemma keeps_quota [triples]:
  "keeps (accounts k g d) (reserve_quota svc t n x)" "keeps (accounts k g d) (refund_quota svc q)"
  "keeps (accounts k g d) (reconcile_quota svc q u y)"
  unfolding reserve_quota_def refund_quota_def reconcile_quota_def
  by (intro triples; simp)+

lemma keeps_govern [triples]: "keeps (accounts k g d) (govern svc payload q)"
  unfolding govern_def by (intro triples; simp)

lemma keeps_choose [triples]: "keeps (accounts k g d) (choose_backend svc settings route rid requested)"
proof -
  have "keeps (accounts k g d) (\<lambda>c. case select_health_aware_backend route model fallback (health_of svc (shared c))
          (clocks svc (shared c)) (breaker_of svc (shared c)) of
           (res, cb) \<Rightarrow> (Inr res, c\<lparr>shared := put_breaker svc cb (shared c)\<rparr>))" for model fallback
    by (auto simp: keeps_iff accounts_def balance_def lease_open_def budget_open_def split: prod.split)
  then show ?thesis unfolding choose_backend_def by (intro triples)
qed

lemma keeps_forward [triples]: "keeps (accounts k g d) (forward svc payload headers model target fb fbt)"
proof -
  have z: "sum_list (map (gate_delta \<circ> (ModelCalled \<circ> f)) xs) = 0" "sum_list (map (lease_delta \<circ> (ModelCalled \<circ> f)) xs) = 0"
    "sum_list (map (budget_delta \<circ> (ModelCalled \<circ> f)) xs) = 0" for f :: "upstream_call \<Rightarrow> string" and xs
    by (induction xs) simp_all
  have "keeps (accounts k g d) (\<lambda>c. case post_completion_with_fallback (upstream_of svc (shared c)) payload headers (clocks svc (shared c))
                       model target fb fbt (breaker_of svc (shared c)) (retries_of svc (shared c)) of
         (res, st) \<Rightarrow> (Inr (res, cs_failed st), c\<lparr>shared := put_retries svc (cs_budget st) (put_breaker svc (cs_breaker st) (shared c)),
           effects := effects c @ map (ModelCalled \<circ> call_url) (cs_calls st)\<rparr>))"
    by (auto simp: keeps_iff accounts_def balance_def lease_open_def budget_open_def z split: prod.split)
  then show ?thesis unfolding forward_def by (intro triples)
qed

lemma keeps_health [triples]: "keeps (accounts k g d) (record_health svc m ok fb)"
  unfolding record_health_def by (intro triples; simp)

lemma keeps_score [triples]: "keeps (accounts k g d) (backend_score svc m)"
  unfolding backend_score_def by (intro triples; simp)

lemma keeps_store [triples]: "keeps (accounts k g d) (store_decision svc ri ev h n)"
  unfolding store_decision_def by (intro triples; simp)

lemma keeps_usage [triples]: "keeps (accounts k g d) (send_usage_event svc ri ev m u x ms t out)"
  unfolding send_usage_event_def by (intro triples; simp)

lemma keeps_evaluate [triples]: "keeps (accounts k g d) (evaluate_response svc ri m b x)"
  unfolding evaluate_response_def by (intro triples)

lemma keeps_failed [triples]: "keeps (accounts k g d) (upstream_failed svc ri ar m e)"
  unfolding upstream_failed_def by (intro triples)

lemma keeps_send [triples]: "keeps (accounts k g d) (send_stream svc call)" "keeps (accounts k g d) (raise_for_status n)"
  unfolding send_stream_def raise_for_status_def by (intro triples; simp)+

lemma prepare_triple:
  "triple (\<lambda>c. accounts k g False c \<and> no_budget c) (prepare_request svc settings request payload rid t requested name)
     (\<lambda>_. accounts k g False) (\<lambda>_. accounts k g False)"
  unfolding prepare_request_def Let_def
  by (rule triple_andthen [OF reserve_budget_triple], rule keeps_def [THEN iffD1]) (intro triples)

lemma keeps_stream [triples]: "keeps (accounts k g d) (respond_stream svc settings ri ar headers shadow fbt)"
  unfolding respond_stream_def Let_def by (intro triples)

subsection \<open>The end of a request\<close>

lemma triple_pure: "(\<phi> \<Longrightarrow> triple P m Q E) \<Longrightarrow> triple (\<lambda>s. P s \<and> \<phi>) m Q E"
  by (auto simp: triple_def)

lemma triple_or: "triple P m Q E \<Longrightarrow> (b \<Longrightarrow> triple P' m Q E) \<Longrightarrow> triple (\<lambda>s. P s \<or> b \<and> P' s) m Q E"
  by (auto simp: triple_def)

lemma triple_step:
  "keeps P m \<Longrightarrow> (\<And>e s. P s \<Longrightarrow> E e s) \<Longrightarrow> (\<And>x. triple P (f x) Q E) \<Longrightarrow> triple P (andthen m f) Q E"
  by (rule triple_andthen [where R = "\<lambda>_. P"], rule triple_keeps)

lemma triple_lift: "(\<And>x s. r = Inr x \<Longrightarrow> P s \<Longrightarrow> Q x s) \<Longrightarrow> (\<And>e s. P s \<Longrightarrow> E e s) \<Longrightarrow> triple P (lift_py r) Q E"
  by (cases r) (auto simp: lift_py_def intro!: triple_throw triple_give)

abbreviation renderable_obj :: "obj \<Rightarrow> bool" where
  "renderable_obj d \<equiv> list_all (\<lambda>p. renderable (snd p)) d"

lemma renderable_set: "renderable_obj d \<Longrightarrow> renderable v \<Longrightarrow> renderable_obj (dict_set k v d)"
  by (induction d) auto

lemma renderable_get: "renderable_obj d \<Longrightarrow> dict_get d k = Some v \<Longrightarrow> renderable v"
  by (induction d) (auto split: if_splits)

lemma renderable_default: "renderable_obj d \<Longrightarrow> renderable v \<Longrightarrow> renderable (get_default d k v)"
  by (auto simp: get_default_def intro: renderable_get split: option.split)

lemma renderable_jget: "renderable_obj d \<Longrightarrow> renderable (jget d k)"
  by (auto simp: jget_def get_default_def intro: renderable_get split: option.split)

lemma renderable_number: "renderable j \<Longrightarrow> json_number j = Inl e \<Longrightarrow> e = TypeError"
  by (cases j) (auto split: if_splits)

definition finite_cost :: "pyfloat option \<Rightarrow> bool" where
  "finite_cost x \<longleftrightarrow> (\<forall>f. x = Some f \<longrightarrow> isfinite f)"

lemma usage_cost_finite:
  assumes "renderable usage" and "usage_cost usage t = Inr x"
  shows "finite_cost x"
proof (cases usage)
  case (JObj u)
  let ?i = "json_number (get_default u ''prompt_tokens'' (JInt 0))"
  let ?o = "json_number (get_default u ''completion_tokens'' (JInt 0))"
  have "?i = Inl e \<Longrightarrow> e = TypeError" "?o = Inl e \<Longrightarrow> e = TypeError" for e
    using assms(1) JObj by (auto intro!: renderable_number renderable_default)
  with assms(2) JObj show ?thesis
    by (auto simp: usage_cost_def finite_cost_def round_float_def split: sum.splits if_splits)
qed (use assms(2) in \<open>auto simp: usage_cost_def finite_cost_def\<close>)

lemma renderable_embedded:
  "renderable_obj d \<Longrightarrow> finite_cost cost \<Longrightarrow> renderable_obj (embed_routing d m fb rsn h cost)"
  by (cases cost) (auto simp: embed_routing_def Let_def finite_cost_def intro!: renderable_set)

lemma run_body:
  "run_attempts post payload headers clk i as s = (Inr (b, m, fb), s') \<Longrightarrow> \<exists>c. post c = UOk b"
proof (induction "as" arbitrary: i s)
  case (Cons a rest)
  obtain m0 t fb0 where a: "a = (m0, t, fb0)" by (cases a)
  obtain ok cb where c: "circuit_allows (clk (3 * i)) m0 (cs_breaker s) = (ok, cb)" by fastforce
  obtain ok' s1 where q: "budget_allows (clk (3 * i + 1)) fb0 (s\<lparr>cs_breaker := cb\<rparr>) = (ok', s1)" by fastforce
  let ?call = "completion_call payload headers m0 t"
  note run = Cons.prems [unfolded a run_attempts.simps(2) Let_def c prod.case q]
  show ?case
  proof (cases "ok \<and> ok'")
    case False
    with run Cons.IH show ?thesis by (auto split: if_splits)
  next
    case True
    show ?thesis
    proof (cases "post ?call")
      case (UOk body)
      with run True show ?thesis by auto
    next
      case (UStatus code)
      with run True show ?thesis by (auto split: if_splits intro: Cons.IH)
    next
      case (UTransport e)
      with run True show ?thesis by (auto split: if_splits intro: Cons.IH)
    qed
  qed
qed simp

definition renderable_body :: "json option \<Rightarrow> bool" where
  "renderable_body b = (case b of None \<Rightarrow> True | Some j \<Rightarrow> renderable j)"

definition honest_upstream :: "('s, 'r) chat_services \<Rightarrow> bool" where
  "honest_upstream svc \<longleftrightarrow> (\<forall>s call body. upstream_of svc s call = UOk (Some body) \<longrightarrow> renderable body)"

lemma forward_triple:
  "triple (accounts k g d) (forward svc payload headers m t fb fbt)
     (\<lambda>res c. accounts k g d c \<and> (honest_upstream svc \<longrightarrow> renderable_body (fst res))) (\<lambda>_. accounts k g d)"
  unfolding triple_def
proof (intro allI impI)
  fix c :: "'a chat_ctx" assume a: "accounts k g d c"
  let ?f = "forward svc payload headers m t fb fbt"
  have kept: "accounts k g d (snd (?f c))"
    using keeps_forward [of k g d svc payload headers m t fb fbt] a by (simp add: keeps_iff)
  have body: "renderable_body (fst res)" if "fst (?f c) = Inr res" and "honest_upstream svc" for res
  proof -
    obtain r st where p: "post_completion_with_fallback (upstream_of svc (shared c)) payload headers (clocks svc (shared c))
        m t fb fbt (breaker_of svc (shared c)) (retries_of svc (shared c)) = (r, st)" by fastforce
    with that obtain b m' fbu where r: "r = Inr (b, m', fbu)" and b: "fst res = b"
      by (auto simp: forward_def andthen_def call_service_def throw_def give_def split: sum.splits prod.splits)
    from p r obtain call where "upstream_of svc (shared c) call = UOk b"
      unfolding post_completion_with_fallback_def by (auto dest: run_body)
    with that b show ?thesis by (auto simp: honest_upstream_def renderable_body_def split: option.split)
  qed
  show "case ?f c of (Inl e, s') \<Rightarrow> accounts k g d s'
      | (Inr x, s') \<Rightarrow> accounts k g d s' \<and> (honest_upstream svc \<longrightarrow> renderable_body (fst x))"
    using kept body by (auto split: prod.split sum.split)
qed

definition returned :: "int \<Rightarrow> bool \<Rightarrow> 's chat_ctx \<Rightarrow> bool" where
  "returned k g c \<longleftrightarrow> accounts (after_gate k g) g True c \<and> \<not> lease_open c"

text \<open>
  How the admitted part fails: with everything it took still accounted for, or, when a model's JSON
  cannot be rendered as a response, after it gave everything back.
\<close>

definition failed_with :: "('s, 'r) chat_services \<Rightarrow> int \<Rightarrow> bool \<Rightarrow> bool \<Rightarrow> chat_exc \<Rightarrow> 's chat_ctx \<Rightarrow> bool" where
  "failed_with svc k g d e c \<longleftrightarrow>
     accounts k g d c \<or> \<not> honest_upstream svc \<and> e = ChatRaised ValueError \<and> returned k g c"

lemma failedI: "accounts k g d c \<Longrightarrow> failed_with svc k g d e c"
  by (simp add: failed_with_def)

lemma failed_weaken: "failed_with svc k g True e c \<Longrightarrow> failed_with svc k g d e c"
  by (auto simp: failed_with_def intro: accounts_weaken)

lemma give_back_triple:
  assumes "lease_laws svc" and "honest_upstream svc \<longrightarrow> renderable_obj response"
  shows "triple (accounts k g True)
     (andthen (release_lease svc) (\<lambda>_. andthen (release_gate svc) (\<lambda>_.
       if renderable (JObj response) then give (JsonResponse response h) else throw (ChatRaised ValueError))))
     (\<lambda>_. returned k g) (failed_with svc k g True)"
proof (rule triple_andthen)
  show "triple (accounts k g True) (release_lease svc) (\<lambda>_ c. accounts k g True c \<and> \<not> lease_open c) (failed_with svc k g True)"
    by (rule triple_weaken [OF release_lease_triple [OF assms(1)]]) (auto intro: failedI)
  show "triple (\<lambda>c. accounts k g True c \<and> \<not> lease_open c) (andthen (release_gate svc) (\<lambda>_.
       if renderable (JObj response) then give (JsonResponse response h) else throw (ChatRaised ValueError)))
     (\<lambda>_. returned k g) (failed_with svc k g True)"
    by (rule triple_andthen [OF release_gate_triple])
      (use assms(2) in \<open>auto simp: returned_def failed_with_def intro!: triple_give triple_throw\<close>)
qed

lemma settle_then:
  assumes "\<And>x. triple (accounts k g True) (f x) Q (failed_with svc k g True)"
  shows "triple (accounts k g False) (andthen (settle_budget svc cost) f) Q (failed_with svc k g False)"
proof (rule triple_andthen)
  show "triple (accounts k g False) (settle_budget svc cost) (\<lambda>_. accounts k g True) (failed_with svc k g False)"
    unfolding settle_budget_def by (rule triple_weaken [OF finish_budget_triple]) (assumption | rule failedI | erule accounts_weaken)+
  show "triple (accounts k g True) (f x) Q (failed_with svc k g False)" for x
    by (rule triple_weaken [OF assms]) (assumption | erule failed_weaken)+
qed

lemma keeps_spawn [triples]:
  "keeps (accounts k g d) (case launched of None \<Rightarrow> give () | Some m \<Rightarrow> change_shared (spawn_shadow svc m))"
  by (intro triples)

lemma cost_step:
  assumes "h \<longrightarrow> renderable_obj response"
    and "\<And>cost. (h \<longrightarrow> finite_cost cost) \<Longrightarrow> triple (accounts k g False) (f cost) Q (failed_with svc k g False)"
  shows "triple (accounts k g False)
    (andthen (case target of None \<Rightarrow> throw (ChatRaised KeyError) | Some t \<Rightarrow> lift_py (usage_cost (jget response ''usage'') t)) f)
    Q (failed_with svc k g False)"
proof (rule triple_andthen [where R = "\<lambda>cost c. accounts k g False c \<and> (h \<longrightarrow> finite_cost cost)"])
  show "triple (accounts k g False)
      (case target of None \<Rightarrow> throw (ChatRaised KeyError) | Some t \<Rightarrow> lift_py (usage_cost (jget response ''usage'') t))
      (\<lambda>cost c. accounts k g False c \<and> (h \<longrightarrow> finite_cost cost)) (failed_with svc k g False)"
    using usage_cost_finite [OF renderable_jget] assms(1)
    by (auto intro!: triple_throw triple_lift failedI split: option.split)
  show "triple (\<lambda>c. accounts k g False c \<and> (h \<longrightarrow> finite_cost cost)) (f cost) Q (failed_with svc k g False)" for cost
    by (rule triple_pure) (rule assms(2))
qed

lemma tail_triple:
  assumes "keeps (accounts k g True) m1" "keeps (accounts k g True) m2" "\<And>ms. keeps (accounts k g True) (m3 ms)"
      "keeps (accounts k g True) m4" "keeps (accounts k g True) m5" and laws: "lease_laws svc"
      and x: "honest_upstream svc \<longrightarrow> renderable_obj x"
  shows "triple (accounts k g True)
      (andthen m1 (\<lambda>_. andthen m2 (\<lambda>ms. andthen (m3 ms) (\<lambda>_. andthen m4 (\<lambda>_. andthen m5 (\<lambda>_.
       andthen (release_lease svc) (\<lambda>_. andthen (release_gate svc) (\<lambda>_.
       if renderable (JObj x) then give (JsonResponse x h) else throw (ChatRaised ValueError)))))))))
      (\<lambda>_. returned k g) (failed_with svc k g True)"
  by (intro triple_step assms(1-5) give_back_triple [OF laws x] failedI)

lemma finish_response_triple:
  assumes laws: "lease_laws svc" and body: "honest_upstream svc \<longrightarrow> renderable_body body"
  shows "triple (accounts k g False) (finish_response svc settings ri ar headers shadow (body, m, fb))
     (\<lambda>_. returned k g) (failed_with svc k g False)"
proof (cases "\<exists>response. body = Some (JObj response)")
  case True
  then obtain response where resp: "body = Some (JObj response)" by blast
  with body have r: "honest_upstream svc \<longrightarrow> renderable_obj response" by (simp add: renderable_body_def)
  show ?thesis
    unfolding finish_response_def Let_def prod.case resp option.case json.case
    by (intro triple_step [OF keeps_score] triple_step [OF keeps_asking] cost_step [OF r] triple_step [OF keeps_quota(3)] settle_then tail_triple laws)
      (assumption | erule failedI | intro triples keeps_spawn | simp add: r renderable_embedded)+
qed (auto simp: finish_response_def intro!: triple_throw failedI split: option.split json.split)

lemma keeps_each_health [triples]: "keeps (accounts k g d) (each (\<lambda>f. record_health svc f False False) failed)"
  by (intro triples)

lemma upstream_failed_raises: "yields (\<lambda>x. False) (upstream_failed svc ri ar m e)"
  unfolding upstream_failed_def raise_http_def by (intro triples)

lemma called_triple:
  "triple (accounts k g d)
     (andthen (forward svc payload headers model t fb fbt) (\<lambda>(body, m, fbu, failed).
         andthen (each (\<lambda>f. record_health svc f False False) failed) (\<lambda>_.
         andthen (record_health svc m True (fbu \<or> x \<or> y)) (\<lambda>_. give (body, m, fbu)))))
     (\<lambda>res c. accounts k g d c \<and> (honest_upstream svc \<longrightarrow> renderable_body (fst res))) (\<lambda>_. accounts k g d)"
proof (rule triple_andthen [OF forward_triple])
  fix res :: "json option \<times> string \<times> bool \<times> string list"
  obtain body m fbu failed where res: "res = (body, m, fbu, failed)" by (cases res)
  have "triple (accounts k g d) (andthen (each (\<lambda>f. record_health svc f False False) failed) (\<lambda>_.
         andthen (record_health svc m True (fbu \<or> x \<or> y)) (\<lambda>_. give (body, m, fbu))))
       (\<lambda>res c. accounts k g d c \<and> (honest_upstream svc \<longrightarrow> renderable_body (fst res))) (\<lambda>_. accounts k g d)"
    if "honest_upstream svc \<longrightarrow> renderable_body body"
    by (intro triple_step keeps_each_health keeps_health triple_give) (simp_all add: that)
  then show "triple (\<lambda>c. accounts k g d c \<and> (honest_upstream svc \<longrightarrow> renderable_body (fst res)))
     (case res of (body, m, fbu, failed) \<Rightarrow> andthen (each (\<lambda>f. record_health svc f False False) failed) (\<lambda>_.
         andthen (record_health svc m True (fbu \<or> x \<or> y)) (\<lambda>_. give (body, m, fbu))))
     (\<lambda>res c. accounts k g d c \<and> (honest_upstream svc \<longrightarrow> renderable_body (fst res))) (\<lambda>_. accounts k g d)"
    unfolding res by (intro triple_pure) simp
qed

lemma respond_json_triple:
  assumes laws: "lease_laws svc"
  shows "triple (accounts k g False) (respond_json svc settings ri ar headers shadow fbt)
     (\<lambda>_. returned k g) (failed_with svc k g False)"
proof -
  let ?R = "\<lambda>res c. accounts k g False c \<and> (honest_upstream svc \<longrightarrow> renderable_body (fst res))"
  let ?call = "catching is_httpx
        (andthen (forward svc (ri_payload ri) headers (rc_model (ar_choice ar)) (ar_target ar) (rc_fallback (ar_choice ar)) fbt)
          (\<lambda>(body, m, fb, failed).
         andthen (each (\<lambda>f. record_health svc f False False) failed) (\<lambda>_.
         andthen (record_health svc m True (fb \<or> rc_health_rerouted (ar_choice ar) \<or> rc_cost_rerouted (ar_choice ar))) (\<lambda>_.
         give (body, m, fb)))))
        (upstream_failed svc ri ar (rc_model (ar_choice ar)))"
  have "triple (accounts k g False) ?call ?R (\<lambda>_. accounts k g False)"
  proof (rule triple_catching [OF called_triple])
    fix e
    show "triple (accounts k g False) (upstream_failed svc ri ar (rc_model (ar_choice ar)) e) ?R (\<lambda>_. accounts k g False)"
      by (rule triple_yields [OF keeps_failed [unfolded keeps_def] upstream_failed_raises]) simp
  qed
  then have call: "triple (accounts k g False) ?call ?R (failed_with svc k g False)"
    by (rule triple_weaken) (auto intro: failedI)
  have finish: "triple (?R res) (finish_response svc settings ri ar headers shadow res) (\<lambda>_. returned k g) (failed_with svc k g False)" for res
    by (cases res) (auto intro!: triple_pure finish_response_triple [OF laws])
  show ?thesis
    unfolding respond_json_def Let_def by (intro triple_step [OF keeps_mark] triple_andthen [OF call finish] failedI)
qed

text \<open>What is owed when the admitted part of the handler ends.\<close>

definition owed :: "int \<Rightarrow> bool \<Rightarrow> chat_response \<Rightarrow> 's chat_ctx \<Rightarrow> bool" where
  "owed k g res c =
     (case res of JsonResponse b h \<Rightarrow> returned k g c | StreamResponse sp h \<Rightarrow> accounts k g False c)"

lemma finish_response_kind:
  "yields (\<lambda>x. \<exists>b h. x = JsonResponse b h) (finish_response svc settings ri ar headers shadow res)"
proof (cases res)
  case (fields body m fb)
  then show ?thesis
    unfolding finish_response_def Let_def fields prod.case
    by (cases body; cases "the body") (simp_all add: triples)
qed

lemma respond_json_owed:
  assumes "lease_laws svc"
  shows "triple (accounts k g False) (respond_json svc settings ri ar headers shadow fbt)
     (owed k g) (failed_with svc k g False)"
proof (rule triple_yields [OF respond_json_triple [OF assms]])
  show "yields (\<lambda>x. \<exists>b h. x = JsonResponse b h) (respond_json svc settings ri ar headers shadow fbt)"
    unfolding respond_json_def Let_def by (intro yields_andthen finish_response_kind)
qed (auto simp: owed_def)

lemma respond_stream_owed:
  "triple (accounts k g False) (respond_stream svc settings ri ar headers shadow fbt) (owed k g) (failed_with svc k g False)"
proof (rule triple_yields)
  show "triple (accounts k g False) (respond_stream svc settings ri ar headers shadow fbt) (\<lambda>_. accounts k g False) (failed_with svc k g False)"
    by (rule triple_keeps [OF keeps_stream]) (auto intro: failedI)
  show "yields (\<lambda>x. \<exists>sp h. x = StreamResponse sp h) (respond_stream svc settings ri ar headers shadow fbt)"
    unfolding respond_stream_def Let_def
    by (auto intro!: yields_andthen yields_simple split: option.split)
qed (auto simp: owed_def)

lemma admitted_owed:
  assumes "lease_laws svc"
  shows "triple (\<lambda>c. accounts k g False c \<and> no_budget c) (chat_completions_admitted svc settings ri)
     (owed k g) (failed_with svc k g False)"
proof -
  have prepare: "triple (\<lambda>c. accounts k g False c \<and> no_budget c) (prepare_request svc settings request payload rid t requested name)
     (\<lambda>_. accounts k g False) (failed_with svc k g False)" for request payload rid t requested name
    by (rule triple_weaken [OF prepare_triple]) (auto intro: failedI)
  show ?thesis
    unfolding chat_completions_admitted_def Let_def
    by (intro triple_andthen [OF prepare] triple_step [OF keeps_asking])
      (auto intro: respond_stream_owed respond_json_owed [OF assms] failedI)
qed

subsection \<open>The whole request\<close>

definition fresh_request :: "'s chat_ctx \<Rightarrow> bool" where
  "fresh_request c \<longleftrightarrow> effects c = [] \<and> \<not> gate_held c \<and> held_lease c = None \<and> held_budget c = None"

definition holding :: "bool \<Rightarrow> 's chat_ctx \<Rightarrow> bool" where
  "holding g c \<longleftrightarrow> accounts (of_bool g) g False c \<and> no_budget c"

lemma new_request_fresh: "fresh_request (new_request s)"
  by (simp add: fresh_request_def new_request_def)

lemma returned_all: "returned (of_bool g) g c \<Longrightarrow> all_given_back c"
  by (cases g) (auto simp: returned_def after_gate_def finished_given_back accounts_def all_given_back_def)

text \<open>
  How a request ends that raises: everything is given back, except that the slot of the process
  is freed a second time when a model's JSON could not be rendered.
\<close>

definition slot_freed_twice :: "'s chat_ctx \<Rightarrow> bool" where
  "slot_freed_twice c \<longleftrightarrow> balance gate_delta c = - 1 \<and> balance lease_delta c = 0 \<and> balance budget_delta c = 0
     \<and> \<not> lease_open c \<and> \<not> budget_open c"

definition ends_raising :: "('s, 'r) chat_services \<Rightarrow> chat_exc \<Rightarrow> 's chat_ctx \<Rightarrow> bool" where
  "ends_raising svc e c \<longleftrightarrow> e = Cancelled \<or> all_given_back c
     \<or> \<not> honest_upstream svc \<and> e = ChatRaised ValueError \<and> has_gate svc \<and> slot_freed_twice c"

text \<open>\<open>except Exception\<close> around the admitted part, and around taking the lease.\<close>

lemma on_exception_triple:
  assumes "triple P m Q F" and "\<And>e. is_exception e \<Longrightarrow> triple (F e) h (\<lambda>_. G e) (\<lambda>_ _. False)" and "\<And>c. G Cancelled c"
  shows "triple P (on_exception m h) Q G"
  unfolding on_exception_def
proof (rule triple_catching [OF assms(1)])
  fix e assume "is_exception e"
  from assms(2) [OF this] show "triple (F e) (andthen h (\<lambda>_. throw e)) Q G"
    by (intro triple_andthen [where R = "\<lambda>_. G e"], elim triple_weaken) (auto intro!: triple_throw)
qed (simp add: is_exception_def assms(3))

lemma twice_freed: "accounts (after_gate (after_gate (of_bool g) g) g) g True c \<Longrightarrow> \<not> lease_open c \<Longrightarrow>
    (if g then slot_freed_twice c else all_given_back c)"
  by (cases g) (auto simp: after_gate_def accounts_def slot_freed_twice_def all_given_back_def)

lemma admitted_ends:
  assumes "lease_laws svc" and g: "g = has_gate svc"
  shows "triple (holding g)
     (on_exception (chat_completions_admitted svc settings ri)
        (andthen (finish_budget svc Abandon) (\<lambda>_. andthen (release_lease svc) (\<lambda>_. release_gate svc))))
     (owed (of_bool g) g) (ends_raising svc)"
proof (rule on_exception_triple)
  show "triple (holding g) (chat_completions_admitted svc settings ri) (owed (of_bool g) g) (failed_with svc (of_bool g) g False)"
    using admitted_owed [OF assms(1), of "of_bool g" g settings ri] by (simp add: holding_def [abs_def])
  fix e
  let ?clean = "andthen (finish_budget svc Abandon) (\<lambda>_. andthen (release_lease svc) (\<lambda>_. release_gate svc))"
  have 1: "triple (accounts (of_bool g) g False) ?clean (\<lambda>_. ends_raising svc e) (\<lambda>_ _. False)"
    by (rule triple_weaken [OF cleanup_triple [OF assms(1)]]) (auto intro: returned_all simp: returned_def ends_raising_def)
  have 2: "triple (accounts (after_gate (of_bool g) g) g True) ?clean (\<lambda>_. ends_raising svc e) (\<lambda>_ _. False)"
    if "\<not> honest_upstream svc" "e = ChatRaised ValueError"
    by (rule triple_weaken [OF cleanup_triple [OF assms(1)]])
      (use that g in \<open>auto simp: ends_raising_def dest!: twice_freed split: if_splits\<close>)
  have "triple (\<lambda>c. accounts (of_bool g) g False c \<or> (\<not> honest_upstream svc \<and> e = ChatRaised ValueError) \<and> accounts (after_gate (of_bool g) g) g True c)
      ?clean (\<lambda>_. ends_raising svc e) (\<lambda>_ _. False)"
    using 1 2 by (intro triple_or) auto
  then show "triple (failed_with svc (of_bool g) g False e) ?clean (\<lambda>_. ends_raising svc e) (\<lambda>_ _. False)"
    by (rule triple_weaken) (auto simp: failed_with_def returned_def)
qed (simp add: ends_raising_def)

lemma take_lease_triple:
  assumes "lease_laws svc"
  shows "triple (\<lambda>c. holding g c \<and> held_lease c = None)
     (if has_admission svc then
        andthen (on_exception (call_service (take_lease svc t m)) (release_gate svc)) (\<lambda>al.
        update (\<lambda>c. c\<lparr>held_lease := Some al, effects := effects c @ [LeaseTaken]\<rparr>))
      else give ())
     (\<lambda>_. holding g) (ends_raising svc)"
proof -
  let ?P = "\<lambda>c. holding g c \<and> held_lease c = None"
  have taken_open: "take_lease svc t m s = (Inr al, s') \<Longrightarrow> \<not> al_released al" for s al s'
    using assms unfolding lease_laws_def by blast
  have taken: "triple ?P (on_exception (call_service (take_lease svc t m)) (release_gate svc))
     (\<lambda>al c. ?P c \<and> \<not> al_released al) (ends_raising svc)"
  proof (rule on_exception_triple [where F = "\<lambda>_. ?P"])
    show "triple ?P (call_service (take_lease svc t m)) (\<lambda>al c. ?P c \<and> \<not> al_released al) (\<lambda>_. ?P)"
      using taken_open
      by (auto simp: triple_def call_service_def holding_def accounts_def balance_def lease_open_def
          budget_open_def no_budget_def split: prod.split sum.split)
    show "triple ?P (release_gate svc) (\<lambda>_. ends_raising svc e) (\<lambda>_ _. False)" for e
      by (auto simp: triple_def release_gate_def update_def holding_def accounts_def balance_def lease_open_def
          budget_open_def no_budget_def all_given_back_def ends_raising_def)
  qed (simp add: ends_raising_def)
  have noted: "triple (\<lambda>c. ?P c \<and> \<not> al_released al)
      (update (\<lambda>c. c\<lparr>held_lease := Some al, effects := effects c @ [LeaseTaken]\<rparr>)) (\<lambda>_. holding g)
      (ends_raising svc)" for al
    by (rule triple_update) (auto simp: holding_def accounts_def balance_def lease_open_def budget_open_def no_budget_def)
  show ?thesis
    using triple_andthen [OF taken noted] by (auto intro: triple_give)
qed

lemma take_gate_triple:
  "triple fresh_request
     (if has_gate svc then andthen (call_service (take_gate svc)) (\<lambda>_.
        update (\<lambda>c. c\<lparr>gate_held := True, effects := effects c @ [GateTaken]\<rparr>)) else give ())
     (\<lambda>_ c. holding (has_gate svc) c \<and> held_lease c = None) (ends_raising svc)"
proof (cases "has_gate svc")
  case True
  have "triple fresh_request (call_service (take_gate svc)) (\<lambda>_. fresh_request) (ends_raising svc)"
    by (auto simp: triple_def call_service_def fresh_request_def all_given_back_def balance_def lease_open_def budget_open_def
        ends_raising_def split: prod.split sum.split)
  with True show ?thesis
    by (auto intro!: triple_andthen triple_update
        simp: fresh_request_def holding_def accounts_def balance_def lease_open_def budget_open_def no_budget_def)
next
  case False
  then show ?thesis
    by (auto intro!: triple_give
        simp: fresh_request_def holding_def accounts_def balance_def lease_open_def budget_open_def no_budget_def)
qed

lemma with_admission_triple:
  assumes "lease_laws svc"
  shows "triple fresh_request (with_admission svc settings ri model)
     (owed (of_bool (has_gate svc)) (has_gate svc)) (ends_raising svc)"
  unfolding with_admission_def
  by (rule triple_andthen [OF take_gate_triple triple_andthen [OF take_lease_triple [OF assms] admitted_ends [OF assms refl]]])

text \<open>The checks before anything is taken: they only raise.\<close>

lemma front_triple:
  fixes svc :: "('s, 'r) chat_services"
  assumes early: "\<And>c e. P c \<Longrightarrow> e \<noteq> Cancelled \<Longrightarrow> E e c" and main: "\<And>st ri m. triple P (with_admission svc st ri m) Q E"
  shows "triple P (chat_completions svc env tenants settings request uuid body) Q E"
proof -
  have gated: "triple P (if key \<and> \<not> r then throw (ChatHttp e1) else if \<not> key \<and> \<not> m then throw (ChatHttp e2)
        else andthen (asking f) (\<lambda>d. case d of None \<Rightarrow> go | Some e \<Rightarrow> throw (ChatHttp e))) Q E"
    if "triple P go Q E" for key r m e1 e2 f and go :: "('s, chat_response) chat"
    by (intro triple_if triple_throw triple_andthen [where R = "\<lambda>_. P"] triple_asking triple_option that early) auto
  have obj: "triple P (chat_completions svc env tenants settings request uuid (Some (JObj payload))) Q E" for payload
    unfolding chat_completions_def Let_def raise_http_def option.case json.case
  proof (rule triple_andthen [where R = "\<lambda>_. P"])
    show "triple P (lift_py (settings_for (jget payload ''model'') settings) :: ('s, GatewaySettings) chat) (\<lambda>_. P) E"
      by (auto simp: lift_py_def intro!: triple_throw triple_give early split: sum.split)
  qed (rule gated [OF main])
  show ?thesis
  proof (cases body)
    case None
    then show ?thesis by (auto simp: chat_completions_def raise_http_def intro!: triple_throw early)
  next
    case (Some j)
    with obj show ?thesis
      by (cases j) (auto simp: chat_completions_def raise_http_def intro!: triple_throw early)
  qed
qed

lemma chat_triple:
  assumes "lease_laws svc"
  shows "triple fresh_request (chat_completions svc env tenants settings request uuid body)
     (owed (of_bool (has_gate svc)) (has_gate svc)) (ends_raising svc)"
  by (rule front_triple [OF _ with_admission_triple [OF assms]])
    (simp add: fresh_request_def all_given_back_def balance_def lease_open_def budget_open_def ends_raising_def)

lemma finalize_triple:
  assumes "lease_laws svc"
  shows "triple (accounts (of_bool g) g False) (finalize_stream svc settings ri sp ob)
    (\<lambda>_. all_given_back) (\<lambda>_. all_given_back)"
  unfolding finalize_stream_def Let_def
proof (rule triple_finally)
  have cost: "keeps (accounts (of_bool g) g False)
      (case (ob_usage ob, dict_get (model_targets settings) (sp_model sp)) of
         (Some u, Some t) \<Rightarrow> lift_py (usage_cost (h u) t) | _ \<Rightarrow> give None)" for h
    by (auto intro: triples split: option.split)
  show "triple (accounts (of_bool g) g False)
     (andthen (record_health svc (sp_model sp) (ob_outcome ob = ''success'') (sp_fallback_used sp)) (\<lambda>_.
      andthen (case (ob_usage ob, dict_get (model_targets settings) (sp_model sp)) of
                 (Some u, Some t) \<Rightarrow> lift_py (usage_cost (case ob_usage ob of None \<Rightarrow> JNull | Some u \<Rightarrow> JObj u) t) | _ \<Rightarrow> give None) (\<lambda>cost.
      andthen (reconcile_quota svc (sp_quota sp) (case ob_usage ob of None \<Rightarrow> JNull | Some u \<Rightarrow> JObj u) cost) (\<lambda>_.
      andthen (settle_budget svc cost) (\<lambda>_.
      andthen (backend_score svc (sp_model sp)) (\<lambda>health.
      andthen (store_decision svc ri (sp_evidence sp) health
         \<lparr>dn_selected = sp_model sp, dn_reason = sp_reason sp, dn_fallback = sp_fallback_used sp,
          dn_duration_ms = round_float 2 (ob_duration_ms ob), dn_shadow = sp_shadow sp, dn_cost = None,
          dn_stream_outcome = Some (ob_outcome ob), dn_stream_ttft = map_option (round_float 2) (ob_ttft_ms ob),
          dn_outcome = (if ob_outcome ob = ''success'' then ''executed'' else ''stream_'' @ ob_outcome ob)\<rparr>) (\<lambda>_.
      send_usage_event svc ri (sp_evidence sp) (sp_model sp) (case ob_usage ob of None \<Rightarrow> JNull | Some u \<Rightarrow> JObj u) cost
        (ob_duration_ms ob) (ob_ttft_ms ob) (ob_outcome ob))))))))
     (\<lambda>_. accounts (of_bool g) g False) (\<lambda>_. accounts (of_bool g) g False)"
    unfolding keeps_def [symmetric] by (intro triples cost)
  show "triple (accounts (of_bool g) g False)
     (andthen (settle_budget svc None) (\<lambda>_. andthen (release_lease svc) (\<lambda>_. release_gate svc))) (\<lambda>_. all_given_back) E" for E
    unfolding settle_budget_def
    by (rule triple_weaken [OF cleanup_triple [OF assms]]) (auto intro: returned_all simp: returned_def)
  then show "triple (accounts (of_bool g) g False)
     (andthen (settle_budget svc None) (\<lambda>_. andthen (release_lease svc) (\<lambda>_. release_gate svc))) (\<lambda>_. all_given_back) E" for E .
qed

lemma accounts_shared: "accounts k g d (c\<lparr>shared := s\<rparr>) = accounts k g d c"
  by (simp add: accounts_def balance_def lease_open_def budget_open_def)


end
