(* ===== verification/Runtime_Properties.thy ===== *)
theory Runtime_Properties imports Runtime begin

text \<open>
  What the answers of the runtime endpoints mean: a verified configuration is the expected one, a
  required signature is on every answer and covers what the answer says, and the published key is
  the key that signs.
\<close>

subsection \<open>The published key\<close>

definition b64_value :: "char \<Rightarrow> nat" where
  "b64_value c = length (takeWhile (\<lambda>x. x \<noteq> c) b64_alphabet)"

text \<open>How a reader of the key set decodes a number: base64url without padding, big-endian.\<close>

fun b64url_decode :: "nat list \<Rightarrow> nat list" where
  "b64url_decode (w # x # y # z # vs) =
     [w * 4 + x div 16, (x mod 16) * 16 + y div 4, (y mod 4) * 64 + z] @ b64url_decode vs"
| "b64url_decode [w, x, y] = [w * 4 + x div 16, (x mod 16) * 16 + y div 4]"
| "b64url_decode [w, x] = [w * 4 + x div 16]"
| "b64url_decode vs = []"

definition from_bytes :: "nat list \<Rightarrow> nat" where
  "from_bytes bs = foldl (\<lambda>n b. n * 256 + b) 0 bs"

definition read_uint :: "string \<Rightarrow> nat" where
  "read_uint s = from_bytes (b64url_decode (map b64_value s))"

lemma b64_value_char [simp]: "n < 64 \<Longrightarrow> b64_value (b64_char n) = n"
proof -
  have "list_all (\<lambda>n. b64_value (b64_char n) = n) [0..<64]" by code_simp
  then show "n < 64 \<Longrightarrow> b64_value (b64_char n) = n" by (simp add: list_all_iff)
qed

lemma split_byte: "(a::nat) div d * d + a mod d = a"
  by simp

lemma sextets_back:
  fixes a b c :: nat
  shows "a < 256 \<Longrightarrow> b < 256 \<Longrightarrow> a div 4 * 4 + ((a mod 4) * 16 + b div 16) div 16 = a"
    and "b < 256 \<Longrightarrow> c < 256 \<Longrightarrow>
      ((a mod 4) * 16 + b div 16) mod 16 * 16 + ((b mod 16) * 4 + c div 64) div 4 = b"
    and "c < 256 \<Longrightarrow> ((b mod 16) * 4 + c div 64) mod 4 * 64 + c mod 64 = c"
proof -
  show "a div 4 * 4 + ((a mod 4) * 16 + b div 16) div 16 = a" if "b < 256"
  proof -
    from that have "b div 16 < 16" by simp
    then have "((a mod 4) * 16 + b div 16) div 16 = a mod 4" by simp
    then show ?thesis by simp
  qed
  show "((a mod 4) * 16 + b div 16) mod 16 * 16 + ((b mod 16) * 4 + c div 64) div 4 = b" if "b < 256" "c < 256"
  proof -
    from that have "b div 16 < 16" "c div 64 < 4" by simp_all
    then have "((a mod 4) * 16 + b div 16) mod 16 = b div 16" "((b mod 16) * 4 + c div 64) div 4 = b mod 16" by simp_all
    then show ?thesis by simp
  qed
  show "((b mod 16) * 4 + c div 64) mod 4 * 64 + c mod 64 = c" if "c < 256"
  proof -
    from that have "c div 64 < 4" by simp
    then have "((b mod 16) * 4 + c div 64) mod 4 = c div 64" by simp
    then show ?thesis by simp
  qed
qed

lemma sextet_bounds:
  fixes a b :: nat
  shows "a < 256 \<Longrightarrow> a div 4 < 64" and "b < 256 \<Longrightarrow> (a mod 4) * 16 + b div 16 < 64"
    and "b < 256 \<Longrightarrow> (a mod 16) * 4 + b div 64 < 64" and "(a mod 4) * 16 < 64" and "(a mod 16) * 4 < 64"
    and "a mod 64 < 64"
proof -
  have "a mod 4 < 4" "a mod 16 < 16" by simp_all
  then show "(a mod 4) * 16 < 64" "(a mod 16) * 4 < 64" by linarith+
  show "b < 256 \<Longrightarrow> (a mod 4) * 16 + b div 16 < 64" using \<open>a mod 4 < 4\<close> by linarith
  show "b < 256 \<Longrightarrow> (a mod 16) * 4 + b div 64 < 64" using \<open>a mod 16 < 16\<close> by linarith
qed simp_all

lemma decode_encode: "list_all (\<lambda>b. b < 256) bs \<Longrightarrow> b64url_decode (map b64_value (b64url bs)) = bs"
proof (induction bs rule: b64url.induct)
  case (2 a)
  then show ?case using sextets_back(1) [of a 0] by (simp add: sextet_bounds)
next
  case (3 a b)
  then show ?case using sextets_back(1) [of a b] sextets_back(2) [of b 0 a] by (simp add: sextet_bounds)
next
  case (4 a b c bs)
  then show ?case
    using sextets_back(1) [of a b] sextets_back(2) [of b c a] sextets_back(3) [of c b] by (simp add: sextet_bounds)
qed simp

lemma from_bytes_snoc: "from_bytes (bs @ [b]) = from_bytes bs * 256 + b"
  by (simp add: from_bytes_def)

lemma to_bytes_back: "from_bytes (to_bytes k n) = n mod 256 ^ k" "list_all (\<lambda>b. b < 256) (to_bytes k n)"
proof (induction k arbitrary: n)
  case (Suc k)
  { case 1
    have "n mod (256 * 256 ^ k) = 256 * (n div 256 mod 256 ^ k) + n mod 256" by (rule mod_mult2_eq)
    then show ?case by (simp add: from_bytes_snoc Suc) }
  { case 2 then show ?case by (simp add: Suc) }
qed (simp_all add: from_bytes_def)

lemma below_bit_length: "n < 2 ^ bit_length n"
proof (induction n rule: bit_length.induct)
  case (1 n)
  show ?case
  proof (cases "n = 0")
    case False
    with 1 have "n div 2 < 2 ^ bit_length (n div 2)" by simp
    then have "n < 2 ^ Suc (bit_length (n div 2))" by simp
    with False show ?thesis by (simp add: bit_length.simps [of n])
  qed simp
qed

lemma bytes_enough: "n < 256 ^ ((bit_length n + 7) div 8)"
proof -
  have "bit_length n \<le> 8 * ((bit_length n + 7) div 8)" by simp
  then have "(2::nat) ^ bit_length n \<le> 2 ^ (8 * ((bit_length n + 7) div 8))" by (intro power_increasing) simp_all
  also have "\<dots> = 256 ^ ((bit_length n + 7) div 8)" by (simp add: power_mult)
  finally show ?thesis using below_bit_length [of n] by simp
qed

lemma read_published: "read_uint (b64url_uint n) = n"
  by (simp add: read_uint_def b64url_uint_def decode_encode to_bytes_back bytes_enough)

text \<open>What the key set publishes of a key.\<close>

definition published_numbers :: "obj \<Rightarrow> (nat \<times> nat) list" where
  "published_numbers jwks =
     (case jget jwks ''keys'' of
        JArr ks \<Rightarrow> map (\<lambda>k. case (jget (obj_of k) ''n'', jget (obj_of k) ''e'') of
           (JStr n, JStr x) \<Rightarrow> (read_uint n, read_uint x) | _ \<Rightarrow> (0, 0)) ks
      | _ \<Rightarrow> [])"

text \<open>
  The key set is the public half of the signing key. Decoded as a reader decodes it (base64url
  without padding, big-endian bytes), the answer of the key endpoint holds exactly the public
  numbers of the key the process signs with, whatever their size, and no key when none is
  configured.
\<close>

theorem published_key_reads_back:
  "bind_exc (public_jwks g) (\<lambda>d. Inr (published_numbers d))
   = bind_exc (load_private_key g) (\<lambda>k. Inr (case k of None \<Rightarrow> [] | Some k \<Rightarrow> [sg_public g k]))"
  by (cases "load_private_key g")
    (auto simp: public_jwks_def published_numbers_def jget_def get_default_def read_published split: option.split prod.split)

subsection \<open>Verified means equal in the digested fields\<close>

text \<open>Two configurations equal in every field the digest covers; the tables of models and routes equal as tables.\<close>

definition same_digested_config :: "GatewaySettings \<Rightarrow> GatewaySettings \<Rightarrow> bool" where
  "same_digested_config a b \<longleftrightarrow>
     dict_get (model_targets a) = dict_get (model_targets b) \<and> dict_get (model_routes a) = dict_get (model_routes b)
     \<and> timeout_seconds a = timeout_seconds b \<and> health_interval_seconds a = health_interval_seconds b
     \<and> gateway_profile a = gateway_profile b \<and> gateway_replicas a = gateway_replicas b
     \<and> require_shared_state a = require_shared_state b \<and> control_plane_configured a = control_plane_configured b
     \<and> jwt_verify_enabled a = jwt_verify_enabled b \<and> jwt_issuer a = jwt_issuer b \<and> jwt_audience a = jwt_audience b"

lemma jstr_opt_eq [simp]: "jstr_opt a = jstr_opt b \<longleftrightarrow> a = b"
  by (auto simp: jstr_opt_def split: option.splits)

lemma dump_target_inj: "inj num \<Longrightarrow> inj (dump_target num)"
  by (rule injI) (simp add: dump_target_def inj_eq)

lemma dump_weighted_inj: "inj dump_weighted"
  by (rule injI) (simp add: dump_weighted_def)

lemma dump_policy_inj: "inj num \<Longrightarrow> inj (dump_policy num)"
  by (rule injI) (simp add: dump_policy_def inj_eq)

lemma dump_policy_not_null: "dump_policy num p \<noteq> JNull"
  by (simp add: dump_policy_def)

lemma dump_route_inj:
  assumes "inj num"
  shows "inj (dump_route num)"
proof (rule injI)
  fix a b assume "dump_route num a = dump_route num b"
  then show "a = b"
    by (auto simp: dump_route_def inj_map_eq_map [OF dump_weighted_inj] inj_eq [OF dump_policy_inj [OF assms]]
        dump_policy_not_null dump_policy_not_null [symmetric] split: option.splits)
qed

lemma sort_key_same:
  assumes "dict_ok a" and "dict_ok b"
  shows "sort_key fst a = sort_key fst b \<longleftrightarrow> dict_get a = dict_get (b :: (string, 'v) dict)"
proof
  assume "sort_key fst a = sort_key fst b"
  then have "set a = set b" by (metis set_sort)
  with assms show "dict_get a = dict_get b" by (simp add: map_of_inject_set)
next
  assume "dict_get a = dict_get b"
  with assms have s: "set a = set b" by (simp add: map_of_inject_set)
  have i: "inj_on fst (set a)" using assms(1) by (simp add: distinct_map)
  have d: "distinct (map fst (sort_key fst d))" if "dict_ok d" for d :: "(string, 'v) dict"
    using that by (simp add: distinct_map)
  show "sort_key fst a = sort_key fst b"
    using s i assms by (intro map_sorted_distinct_set_unique [of fst]) (simp_all add: d)
qed

lemma dump_table_same:
  assumes "inj f" and "dict_ok a" and "dict_ok b"
  shows "dump_table f a = dump_table f b \<longleftrightarrow> dict_get a = dict_get b"
proof -
  have "inj (\<lambda>(name, x). (name, f x))"
    using assms(1) by (auto intro!: injI dest: injD)
  note rows = inj_map_eq_map [OF this]
  show ?thesis by (simp add: dump_table_def rows sort_key_same [OF assms(2,3)])
qed

lemma canonical_same:
  assumes "inj num" and "dict_ok (model_targets a)" and "dict_ok (model_targets b)"
    and "dict_ok (model_routes a)" and "dict_ok (model_routes b)"
  shows "canonical_config_payload num a = canonical_config_payload num b \<longleftrightarrow> same_digested_config a b"
  by (simp add: canonical_config_payload_def same_digested_config_def assms dump_table_same dump_target_inj dump_route_inj)

lemma jget_verify:
  "jget (verify e st x) ''verified'' = JBool (differences e st x = [])"
  "jget (verify e st x) ''differences'' = JArr (differences e st x)"
  "jget (verify e st x) ''observed'' = JObj (observed_snapshot e st)"
  by (simp_all add: verify_def Let_def jget_def get_default_def)

lemma digest_alone:
  "d \<noteq> [] \<Longrightarrow> differences e (st\<lparr>rt_policy := p\<rparr>) [(''config_digest'', JStr d)] = [] \<longleftrightarrow> d = sn_digest (rt_active st)"
  by (simp add: differences_def CHECKED_FIELDS_def field_difference_def models_difference_def unstated_def py_same_def
      observed_snapshot_def jget_def get_default_def)

text \<open>
  C38: Verified means equal in every digested field. When the control plane states only the digest of
  the configuration it wants, the runtime answers verified exactly if the configuration it loaded agrees
  with that one on the fields \<open>canonical_config_payload\<close> digests: the same models and routes with the same
  fields (in whatever order the tables were written), timeouts, profile, replicas, shared-state and token
  settings; whatever policies it has observed since. The digest leaves out whether authentication, the
  control plane and the token's issuer and audience are required, the address of Redis and the API keys,
  so configurations that differ in those are verified alike. Distinct unit prices are taken to print
  differently, and the two canonical texts not to collide under SHA-256.
\<close>

theorem verified_iff_same_digested_config:
  assumes "from_settings e now loaded = Inr st" and "inj (re_number e)"
    and "dict_ok (model_targets wanted)" and "dict_ok (model_targets loaded)"
    and "dict_ok (model_routes wanted)" and "dict_ok (model_routes loaded)"
    and "compute_config_digest e wanted = compute_config_digest e loaded
      \<Longrightarrow> canonical_config_payload (re_number e) wanted = canonical_config_payload (re_number e) loaded"
  shows "jget (verify e (st\<lparr>rt_policy := p\<rparr>) [(''config_digest'', JStr (compute_config_digest e wanted))]) ''verified''
     = JBool (same_digested_config wanted loaded)"
proof -
  have digest: "sn_digest (rt_active st) = compute_config_digest e loaded"
    using assms(1) by (auto simp: from_settings_def Let_def split: option.splits)
  have "compute_config_digest e wanted = compute_config_digest e loaded \<longleftrightarrow> same_digested_config wanted loaded"
    using canonical_same [OF assms(2-6)] assms(7) by (auto simp: compute_config_digest_def)
  then show ?thesis using digest by (simp add: jget_verify digest_alone compute_config_digest_def sha_tagged_def)
qed

definition demo_runtime :: runtime_env where
  "demo_runtime =
     \<lparr>re_environ = (\<lambda>_. None), re_package_version = None,
      re_number = (\<lambda>q. case quotient_of q of (a, b) \<Rightarrow> JArr [JInt a, JInt b]),
      re_sorted_dumps = (\<lambda>j. case jget (obj_of j) ''profile'' of JStr p \<Rightarrow> p | _ \<Rightarrow> []), re_sha256_hex = (\<lambda>s. s),
      re_time_text = (\<lambda>_. []), re_rep = (\<lambda>_. []), re_exc_text = (\<lambda>_. [])\<rparr>"

definition demo_loaded :: GatewaySettings where
  "demo_loaded =
     \<lparr>model_targets = [(''m'', \<lparr>mt_url = ''http://m'', mt_input_cost = 1, mt_output_cost = 2, mt_backend_name = None,
        mt_health_path = ''/health'', mt_provider = None, mt_model_revision = None, mt_artifact_digest = None\<rparr>)],
      model_routes = [], timeout_seconds = FDec 120 0, health_interval_seconds = FDec 15 0, settings_api_keys = [],
      redis_url = None, gateway_replicas = 1, require_shared_state = False, gateway_profile = ''local'',
      jwt_verify_enabled = False, jwt_issuer = None, jwt_audience = None, require_jwt_iss_aud = False,
      control_plane_configured = False, require_auth = False, require_control_plane = False\<rparr>"

lemma demo_number_inj: "inj (re_number demo_runtime)"
  by (rule injI) (auto simp: demo_runtime_def quotient_of_inject_eq [symmetric] split: prod.splits)

theorem verified_iff_same_digested_config_witness:
  "\<exists>st. from_settings demo_runtime 0 demo_loaded = Inr st
    \<and> jget (verify demo_runtime (st\<lparr>rt_policy := rt_policy st\<rparr>)
         [(''config_digest'', JStr (compute_config_digest demo_runtime (demo_loaded\<lparr>gateway_profile := ''internal''\<rparr>)))]) ''verified''
       = JBool (same_digested_config (demo_loaded\<lparr>gateway_profile := ''internal''\<rparr>) demo_loaded)"
proof -
  have start: "isl (from_settings demo_runtime 0 demo_loaded) = False" by code_simp
  then obtain st where st: "from_settings demo_runtime 0 demo_loaded = Inr st"
    by (cases "from_settings demo_runtime 0 demo_loaded") simp_all
  have "compute_config_digest demo_runtime (demo_loaded\<lparr>gateway_profile := ''internal''\<rparr>)
      \<noteq> compute_config_digest demo_runtime demo_loaded"
    by code_simp
  with st show ?thesis
    using verified_iff_same_digested_config [OF st demo_number_inj, of "demo_loaded\<lparr>gateway_profile := ''internal''\<rparr>" "rt_policy st"]
    by (auto simp: demo_loaded_def)
qed

subsection \<open>Signed answers\<close>

lemma jget_set_truthy: "k \<noteq> x \<Longrightarrow> jget (set_truthy k v d) x = jget d x"
  by (simp add: set_truthy_def jget_def dict_simps)

lemma merge_get:
  "dict_ok b \<Longrightarrow> dict_get (dict_merge a b) k = (case dict_get b k of Some v \<Rightarrow> Some v | None \<Rightarrow> dict_get a k)"
proof (induction b arbitrary: a)
  case (Cons p b)
  obtain x v where p: "p = (x, v)" by fastforce
  have "dict_get (dict_merge a (p # b)) k = dict_get (dict_merge (dict_set x v a) b) k"
    by (simp add: dict_merge_def p)
  also have "\<dots> = (case dict_get b k of Some v \<Rightarrow> Some v | None \<Rightarrow> dict_get (dict_set x v a) k)"
    using Cons by simp
  also have "\<dots> = (case dict_get (p # b) k of Some v \<Rightarrow> Some v | None \<Rightarrow> dict_get a k)"
  proof (cases "k = x")
    case True
    with Cons.prems p have "dict_get b k = None" by (simp add: get_None_iff)
    with True p show ?thesis by (simp add: dict_simps)
  qed (simp add: p dict_simps split: option.split)
  finally show ?case .
qed (simp add: dict_merge_def)

lemma map_sum_Inr [simp]: "map_sum f id r = Inr x \<longleftrightarrow> r = Inr x"
  by (cases r) simp_all

text \<open>
  C39: A required signature covers the answer. Where signed verification is required, every answer
  of the verification endpoint was given to a caller with a verifying role and carries a token
  that is \<open>jwt.encode\<close> under the configured key of claims that say what the answer says: the
  verdict, the differences and the observed state, with an expiry between 30 seconds and an hour
  from now.
\<close>

theorem required_signature_covers_answer:
  assumes "require_signed_verify (re_environ e)" and "runtime_verify e g now r st body = Inr result"
  shows "require_any_role (re_rep e) (re_environ e) r VERIFY_ROLES = Inr ()
    \<and> (\<exists>key token claims hdr exp.
        load_private_key g = Inr (Some key) \<and> sg_encode g claims key hdr = Inr token
        \<and> jget result ''verification_token'' = JStr token
        \<and> jget result ''verified'' = JBool (differences e st (rv_expected body) = [])
        \<and> jget claims ''verified'' = jget result ''verified'' \<and> jget claims ''differences'' = jget result ''differences''
        \<and> jget claims ''observed'' = JObj (observed_snapshot e st) \<and> jget claims ''typ'' = JStr ''runtime_verify''
        \<and> jget claims ''exp'' = JInt exp \<and> now + 30 \<le> exp \<and> exp \<le> now + 3600)"
proof -
  define answer where "answer = set_truthy ''correlation_id'' (rv_correlation_id body)
      (set_truthy ''remediation_id'' (rv_remediation_id body) (verify e st (rv_expected body)))"
  let ?payload = "token_payload answer body"
  let ?claims = "token_claims (sg_environ g) now ?payload"
  have role: "require_any_role (re_rep e) (re_environ e) r VERIFY_ROLES = Inr ()"
    using assms(2) by (cases "require_any_role (re_rep e) (re_environ e) r VERIFY_ROLES")
      (simp_all add: runtime_verify_def with_role_def)
  obtain token where token: "sign_verification_token g now ?payload = Inr (Some token)"
    and result: "result = dict_set ''verification_token'' (JStr token) answer"
    using assms role unfolding runtime_verify_def with_role_def Let_def answer_def [symmetric]
    by (auto simp: bind_exc_Inr_iff split: option.splits)
  obtain key hdr where key: "load_private_key g = Inr (Some key)" "sg_encode g ?claims key hdr = Inr token"
    using token by (auto simp: sign_verification_token_def bind_exc_Inr_iff split: option.splits)
  have ok: "dict_ok ?payload" by (simp add: token_payload_def)
  have answered: "jget result k = jget (verify e st (rv_expected body)) k"
    if "k \<noteq> ''verification_token''" "k \<noteq> ''correlation_id''" "k \<noteq> ''remediation_id''" for k
    using that by (simp add: result answer_def jget_def dict_simps) (metis jget_def jget_set_truthy)
  have claims: "jget ?claims k = (case dict_get ?payload k of Some v \<Rightarrow> v | None \<Rightarrow> jget (token_claims (sg_environ g) now []) k)" for k
    unfolding token_claims_def jget_def get_default_def merge_get [OF ok] by (simp add: dict_merge_def split: option.split)
  have said: "jget ?claims k = jget answer k" if "k \<in> {''verified'', ''differences'', ''observed''}" for k
    unfolding claims using that by (auto simp: token_payload_def)
  have stamped: "jget ?claims ''typ'' = JStr ''runtime_verify''" "jget ?claims ''exp'' = JInt (now + verify_ttl_seconds (sg_environ g))"
    unfolding claims by (simp_all add: token_payload_def token_claims_def dict_merge_def jget_def get_default_def)
  have shown: "jget answer ''verified'' = JBool (differences e st (rv_expected body) = [])"
    "jget answer ''differences'' = JArr (differences e st (rv_expected body))"
    "jget answer ''observed'' = JObj (observed_snapshot e st)"
    by (simp_all add: answer_def jget_set_truthy jget_verify)
  have ttl: "30 \<le> verify_ttl_seconds (sg_environ g)" "verify_ttl_seconds (sg_environ g) \<le> 3600"
    by (auto simp: verify_ttl_seconds_def split: option.split)
  have token_shown: "jget result ''verification_token'' = JStr token" by (simp add: result jget_def dict_simps)
  show ?thesis
    using role key stamped ttl token_shown
    by (intro conjI exI [of _ key] exI [of _ token] exI [of _ ?claims] exI [of _ hdr]
        exI [of _ "now + verify_ttl_seconds (sg_environ g)"])
      (simp_all add: said answered shown jget_verify)
qed

definition demo_signer :: "unit signing_env" where
  "demo_signer =
     \<lparr>sg_environ = (\<lambda>k. if k = ''RUNTIME_VERIFY_PRIVATE_KEY'' then Some ''pem'' else None), sg_read_file = (\<lambda>_. Inl ValueError),
      sg_b64decode = (\<lambda>_. Inl ValueError), sg_load_pem = (\<lambda>_. Inr (Some ())), sg_public = (\<lambda>_. (3233, 17)),
      sg_encode = (\<lambda>c k h. Inr ''signed'')\<rparr>"

definition signing_runtime :: runtime_env where
  "signing_runtime = demo_runtime\<lparr>re_environ := (\<lambda>k. if k = ''GATEWAY_REQUIRE_SIGNED_VERIFY'' then Some ''true'' else None)\<rparr>"

definition verify_request :: RuntimeVerifyRequest where
  "verify_request = \<lparr>rv_expected = [(''generation'', JInt 2)], rv_remediation_id = None, rv_correlation_id = None\<rparr>"

definition caller :: Request where
  "caller = \<lparr>req_path = ''/v1/runtime/verify'', req_headers = [], req_claims = None, req_auth_method = None\<rparr>"

theorem required_signature_covers_answer_witness:
  "\<exists>st result. from_settings signing_runtime 0 demo_loaded = Inr st
     \<and> runtime_verify signing_runtime demo_signer 100 caller st verify_request = Inr result
     \<and> jget result ''verification_token'' = JStr ''signed''
     \<and> jget result ''verified'' = JBool (differences signing_runtime st [(''generation'', JInt 2)] = [])"
proof -
  have "(case from_settings signing_runtime 0 demo_loaded of Inl e \<Rightarrow> False
    | Inr st \<Rightarrow> (case runtime_verify signing_runtime demo_signer 100 caller st verify_request of Inl e \<Rightarrow> False | Inr d \<Rightarrow> True))"
    by code_simp
  then obtain st result where run: "from_settings signing_runtime 0 demo_loaded = Inr st"
    "runtime_verify signing_runtime demo_signer 100 caller st verify_request = Inr result"
    by (auto split: sum.splits)
  have needed: "require_signed_verify (re_environ signing_runtime)" by code_simp
  have "sg_encode demo_signer c k h = Inr ''signed''" for c k h by (simp add: demo_signer_def)
  with required_signature_covers_answer [OF needed run(2)] run show ?thesis by (auto simp: verify_request_def)
qed

text \<open>
  An expectation that states nothing the endpoint knows, an empty one or one with misspelt fields,
  is verified, and signed like any other: the signed claims do not hold the expectation.
\<close>

theorem empty_expectation_is_verified:
  "(\<forall>f\<in>set (''models'' # CHECKED_FIELDS). jget expected f = JNull) \<Longrightarrow>
    jget (verify e st expected) ''verified'' = JBool True
    \<and> token_payload (verify e st expected) body = token_payload (verify e st []) body"
  by (simp add: jget_verify differences_def CHECKED_FIELDS_def field_difference_def models_difference_def unstated_def token_payload_def
      jget_def get_default_def verify_def Let_def split: option.splits)

end
