(* ===== verification/Gateway_Properties.thy ===== *)
theory Gateway_Properties imports Gateway Chat_Properties Governance_Properties Runtime_Properties begin

text \<open>
  The parts composed: the process serves requests one after the other and is at rest again after
  each of them, and the laws the endpoint relies on are theorems of this composition.
\<close>

subsection \<open>What the trace says is what the parts hold\<close>

definition gate_tracks :: "gateway chat_ctx \<Rightarrow> bool" where
  "gate_tracks c \<longleftrightarrow>
     sem_waiters (gw_gate (shared c)) = [] \<and> gate_inflight (gw_gate (shared c)) = max 0 (balance gate_delta c)
     \<and> (0 \<le> balance gate_delta c \<longrightarrow> gate_inv (gw_gate (shared c)))"

definition lease_scope :: "AdmissionLease \<Rightarrow> string" where
  "lease_scope al = scope_key (al_tenant al) (al_model al)"

definition held_in :: "gateway chat_ctx \<Rightarrow> string \<Rightarrow> int" where
  "held_in c key = of_bool (lease_open c \<and> (\<exists>al. held_lease c = Some al \<and> key = lease_scope al))"

text \<open>The counts of every scope, as one function of the controller.\<close>

definition scope_state :: "TenantAdmissionController \<Rightarrow> string \<Rightarrow> int \<times> int \<times> (string \<times> bool) list" where
  "scope_state a key =
     (get_default (ac_inflight a) key 0, get_default (ac_queued a) key 0,
      case dict_get (semaphores a) key of None \<Rightarrow> [] | Some p \<Rightarrow> snd p)"

text \<open>Every scope, touched or not, has a slot when nothing runs in it.\<close>

definition roomy :: "TenantAdmissionController \<Rightarrow> bool" where
  "roomy a \<longleftrightarrow> (\<forall>t. 1 \<le> max_concurrent_requests (for_tenant (ac_bundle a) t))
     \<and> (\<forall>key v ws. dict_get (semaphores a) key = Some (v, ws) \<longrightarrow> 1 \<le> int v + get_default (ac_inflight a) key 0)"

definition tenants_track :: "gateway chat_ctx \<Rightarrow> bool" where
  "tenants_track c \<longleftrightarrow> roomy (gw_admission (shared c))
     \<and> (\<forall>key. scope_state (gw_admission (shared c)) key = (held_in c key, 0, []))"

definition tracks :: "gateway chat_ctx \<Rightarrow> bool" where
  "tracks c \<longleftrightarrow> gate_tracks c \<and> tenants_track c"

lemmas tracks_defs = tracks_def gate_tracks_def tenants_track_def held_in_def lease_open_def

definition inert :: "(gateway \<Rightarrow> gateway) \<Rightarrow> bool" where
  "inert h \<longleftrightarrow> (\<forall>s. gw_gate (h s) = gw_gate s \<and> gw_admission (h s) = gw_admission s)"

lemma keeps_inert:
  assumes "\<And>c. gw_gate (shared (snd (m c))) = gw_gate (shared c)" "\<And>c. gw_admission (shared (snd (m c))) = gw_admission (shared c)"
    "\<And>c. balance gate_delta (snd (m c)) = balance gate_delta c" "\<And>c. held_lease (snd (m c)) = held_lease c"
  shows "keeps tracks m"
  by (auto simp: keeps_iff tracks_defs assms)

lemma tracks_log [triples]: "gate_delta e = 0 \<Longrightarrow> keeps tracks (log_effect e)"
  by (rule keeps_inert) (simp_all add: log_effect_def update_def balance_def)

lemma tracks_call: "inert (snd \<circ> f) \<Longrightarrow> keeps tracks (call_service f)"
  by (rule keeps_inert) (simp_all add: call_service_def inert_def balance_def split_beta)

lemma tracks_shared: "inert f \<Longrightarrow> keeps tracks (change_shared f)"
  by (rule keeps_inert) (simp_all add: change_shared_def update_def inert_def balance_def)

lemma tracks_finish [triples]: "keeps tracks (finish_budget (gateway_services w request t0 q) f)"
  by (rule keeps_inert) (auto simp: finish_budget_def update_def gateway_services_def balance_def split: option.split prod.split)

lemma tracks_settle [triples]: "keeps tracks (settle_budget (gateway_services w request t0 q) x)"
  unfolding settle_budget_def by (rule tracks_finish)

lemma tracks_mark [triples]: "keeps tracks mark_budget_executed"
  by (rule keeps_inert) (simp_all add: mark_budget_executed_def update_def balance_def)

lemma tracks_take [triples]: "keeps tracks (take_budget (gateway_services w request t0 q) r t m n g)"
  by (rule keeps_inert) (auto simp: take_budget_def Let_def gateway_services_def balance_def split: option.split prod.split)

lemma gate_release_tracks:
  assumes "sem_waiters g = []" and "gate_inflight g = max 0 b" and "0 \<le> b \<longrightarrow> gate_inv g"
  shows "sem_waiters (gate_release g) = [] \<and> gate_inflight (gate_release g) = max 0 (b - 1)
    \<and> (0 \<le> b - 1 \<longrightarrow> gate_inv (gate_release g))"
proof -
  have "gate_inv (gate_release g)" if "1 \<le> b"
    using gate_step_inv [OF gate_step.release, of g] assms that by simp
  with assms show ?thesis by (auto simp: gate_release_def Let_def)
qed

lemma tracks_release_gate [triples]: "keeps tracks (release_gate (gateway_services w request t0 q))"
proof -
  have "tracks (snd (release_gate (gateway_services w request t0 q) c))" if a: "tracks c" for c
  proof (cases "gate_held c")
    case True
    let ?c = "c\<lparr>shared := (shared c)\<lparr>gw_gate := gate_release (gw_gate (shared c))\<rparr>, effects := effects c @ [GateFreed]\<rparr>"
    have r: "snd (release_gate (gateway_services w request t0 q) c) = ?c"
      using True by (simp add: release_gate_def update_def gateway_services_def)
    have "gate_tracks ?c"
      using a gate_release_tracks [of "gw_gate (shared c)" "balance gate_delta c"]
      by (simp add: tracks_def gate_tracks_def balance_def)
    moreover have "tenants_track ?c" using a by (simp add: tracks_def tenants_track_def held_in_def lease_open_def)
    ultimately show ?thesis unfolding r by (simp add: tracks_def)
  qed (use a in \<open>simp add: release_gate_def update_def\<close>)
  then show ?thesis by (simp add: keeps_iff)
qed

subsection \<open>The tenants' limits\<close>

lemma gate_idle_acquire:
  assumes "sem_waiters g = []" and "gate_acquire t g = Inr g'" and "\<not> sem_locked g" and "gate_queued g = 0"
  shows "sem_waiters g' = [] \<and> gate_inflight g' = gate_inflight g + 1 \<and> gate_queued g' = 0"
  using assms by (auto simp: gate_acquire_def acquire_done_def sem_locked_def Let_def split: if_splits)

lemma scope_gate_state:
  "sem_waiters (scope_gate t m a) = snd (snd (scope_state a (scope_key t m)))"
  "gate_inflight (scope_gate t m a) = fst (scope_state a (scope_key t m))"
  "gate_queued (scope_gate t m a) = fst (snd (scope_state a (scope_key t m)))"
  by (simp_all add: scope_gate_def scope_state_def Let_def get_default_def split: option.split)

lemma put_gate_state:
  "scope_state (put_gate key g a) = (scope_state a)(key := (gate_inflight g, gate_queued g, sem_waiters g))"
  by (rule ext) (auto simp: scope_state_def put_gate_def dict_simps)

lemma roomy_put: "roomy a \<Longrightarrow> 1 \<le> int (sem_value g) + gate_inflight g \<Longrightarrow> roomy (put_gate key g a)"
  by (auto simp: roomy_def put_gate_def dict_simps split: if_splits)

lemma roomy_scope:
  assumes "roomy a" and "gate_inflight (scope_gate t m a) = 0"
  shows "1 \<le> sem_value (scope_gate t m a)"
proof (cases "dict_get (semaphores a) (scope_key t m)")
  case None
  have "1 \<le> max_concurrent_requests (for_tenant (ac_bundle a) t)" using assms(1) by (simp add: roomy_def)
  with None show ?thesis by (simp add: scope_gate_def Let_def get_default_def)
next
  case (Some p)
  obtain v ws where p: "p = (v, ws)" by (cases p)
  with Some assms(1) have "1 \<le> int v + get_default (ac_inflight a) (scope_key t m) 0" by (auto simp: roomy_def)
  with Some p assms(2) show ?thesis by (simp add: scope_gate_def Let_def get_default_def)
qed

lemma release_local_state:
  assumes "scope_state a (scope_key t m) = (n, 0, [])"
  shows "scope_state (release_local t m a) = (scope_state a)(scope_key t m := (max 0 (n - 1), 0, []))"
  using assms by (simp add: release_local_def put_gate_state gate_release_def Let_def scope_gate_state)

lemma release_local_roomy:
  assumes "roomy a" and "scope_state a (scope_key t m) = (1, 0, [])"
  shows "roomy (release_local t m a)"
  unfolding release_local_def
  by (rule roomy_put [OF assms(1)]) (simp add: gate_release_def Let_def scope_gate_state assms(2))

lemma tracks_release_lease [triples]: "keeps tracks (release_lease (gateway_services w request t0 q))"
proof -
  let ?svc = "gateway_services w request t0 q"
  have "tracks (snd (release_lease ?svc c))" if a: "tracks c" for c
  proof (cases "held_lease c")
    case None
    with a show ?thesis by (simp add: release_lease_def update_def)
  next
    case (Some al)
    show ?thesis
    proof (cases "al_released al")
      case True
      with Some have "snd (release_lease ?svc c) = c"
        by (simp add: release_lease_def update_def gateway_services_def leave_tenant_def)
      with a show ?thesis by simp
    next
      case False
      define c' where "c' = snd (release_lease ?svc c)"
      have c': "c' = c\<lparr>held_lease := Some (al\<lparr>al_released := True, renewing := False\<rparr>),
          shared := (shared c)\<lparr>gw_admission := release_local (al_tenant al) (al_model al) (gw_admission (shared c))\<rparr>,
          effects := effects c @ [LeaseFreed]\<rparr>"
        using Some False by (simp add: c'_def release_lease_def update_def gateway_services_def leave_tenant_def)
      have gt: "gate_tracks c'" using a by (simp add: c' tracks_def gate_tracks_def balance_def)
      have st: "scope_state (gw_admission (shared c)) key = (of_bool (key = lease_scope al), 0, [])" for key
        using a Some False by (simp add: tracks_def tenants_track_def held_in_def lease_open_def)
      moreover have "scope_state (gw_admission (shared c)) (scope_key (al_tenant al) (al_model al)) = (1, 0, [])"
        using st by (simp add: lease_scope_def)
      moreover have "roomy (gw_admission (shared c))" using a by (simp add: tracks_def tenants_track_def)
      ultimately have "tenants_track c'"
        using release_local_state release_local_roomy st
        by (simp add: c' tenants_track_def held_in_def lease_open_def lease_scope_def)
      with gt show ?thesis by (simp add: c'_def tracks_def)
    qed
  qed
  then show ?thesis by (simp add: keeps_iff)
qed

subsection \<open>The handler keeps track\<close>

lemma inert_services:
  fixes w request t0 q
  defines "svc \<equiv> gateway_services w request t0 q"
  shows "inert (snd \<circ> quota_reserve svc t i out x)" "inert (snd \<circ> quota_refund svc r)"
    "inert (snd \<circ> quota_reconcile svc r i out x)" "inert (snd \<circ> ask_governance svc payload sig)"
    "inert (snd \<circ> note_health svc m ok fb)" "inert (snd \<circ> read_health svc m)" "inert (snd \<circ> elapse svc)" "inert (snd \<circ> open_stream svc call)"
    "inert (snd \<circ> put_decision svc d)" "inert (snd \<circ> send_usage svc e)"
  by (simp_all add: svc_def gateway_services_def inert_def quota_service_def ask_control_plane_def note_backend_def
      pass_time_def stream_from_def split: prod.split sum.split)

lemma inert_changes:
  fixes w request t0 q
  defines "svc \<equiv> gateway_services w request t0 q"
  shows "inert (observe_policy svc ev)"
    "inert (spawn_shadow svc m)" "inert (spawn_evaluation svc p)" "inert (put_guard svc g)" "inert (put_breaker svc b)"
    "inert (put_retries svc rb)"
  by (simp_all add: svc_def gateway_services_def inert_def note_policy_def split: option.split)

lemmas tracks_services [triples] = inert_services [THEN tracks_call] inert_changes [THEN tracks_shared]

lemma tracks_choose [triples]: "keeps tracks (choose_backend (gateway_services w request t0 q) settings route rid requested)"
proof -
  have "keeps tracks (\<lambda>c. case select_health_aware_backend route model fallback (health_of (gateway_services w request t0 q) (shared c))
          (clocks (gateway_services w request t0 q) (shared c)) (breaker_of (gateway_services w request t0 q) (shared c)) of
           (res, cb) \<Rightarrow> (Inr res, c\<lparr>shared := put_breaker (gateway_services w request t0 q) cb (shared c)\<rparr>))" for model fallback
    by (rule keeps_inert) (simp_all add: split_beta inert_changes [unfolded inert_def] balance_def)
  then show ?thesis unfolding choose_backend_def by (intro triples)
qed

lemma tracks_forward [triples]: "keeps tracks (forward (gateway_services w request t0 q) payload headers model target fb fbt)"
proof -
  have z: "sum_list (map (gate_delta \<circ> (ModelCalled \<circ> f)) xs) = 0" for f :: "upstream_call \<Rightarrow> string" and xs
    by (induction xs) simp_all
  have "keeps tracks (\<lambda>c. case post_completion_with_fallback (upstream_of svc (shared c)) payload headers (clocks svc (shared c))
                       model target fb fbt (breaker_of svc (shared c)) (retries_of svc (shared c)) of
         (res, st) \<Rightarrow> (Inr (res, cs_failed st), c\<lparr>shared := put_retries svc (cs_budget st) (put_breaker svc (cs_breaker st) (shared c)),
           effects := effects c @ map (ModelCalled \<circ> call_url) (cs_calls st)\<rparr>))"
    if svc: "svc = gateway_services w request t0 q" for svc
    by (rule keeps_inert) (simp_all add: svc split_beta inert_changes [unfolded inert_def] balance_def z)
  then show ?thesis unfolding forward_def by (intro triples) simp
qed

lemma tracks_phases [triples]:
  fixes w request t0 q
  defines "svc \<equiv> gateway_services w request t0 q"
  shows "keeps tracks (reserve_inference_budget svc r t m n)" "keeps tracks (reserve_quota svc t n x)"
    "keeps tracks (refund_quota svc qr)" "keeps tracks (reconcile_quota svc qr u y)" "keeps tracks (govern svc payload qr)"
    "keeps tracks (record_health svc m ok fb)" "keeps tracks (backend_score svc m)" "keeps tracks (store_decision svc ri ev hs dn)"
    "keeps tracks (send_usage_event svc ri ev m u y ms tt out)" "keeps tracks (evaluate_response svc ri m b y)"
    "keeps tracks (send_stream svc call)" "keeps tracks (raise_for_status k)"
  unfolding svc_def reserve_inference_budget_def current_guard_def reserve_quota_def refund_quota_def reconcile_quota_def
    govern_def record_health_def backend_score_def store_decision_def send_usage_event_def evaluate_response_def send_stream_def
    raise_for_status_def
  by (intro triples keeps_json; simp)+

lemma tracks_failed [triples]: "keeps tracks (upstream_failed (gateway_services w request t0 q) ri ar m e)"
  unfolding upstream_failed_def by (intro triples)

lemma tracks_prepare [triples]:
  "keeps tracks (prepare_request (gateway_services w request t0 q) settings r payload rid t requested name)"
  unfolding prepare_request_def Let_def by (intro triples)

lemma tracks_finish_response [triples]:
  "keeps tracks (finish_response (gateway_services w request t0 q) settings ri ar headers shadow res)"
  unfolding finish_response_def Let_def by (intro triples keeps_json)

lemma tracks_respond [triples]:
  "keeps tracks (respond_json (gateway_services w request t0 q) settings ri ar headers shadow fbt)"
  "keeps tracks (respond_stream (gateway_services w request t0 q) settings ri ar headers shadow fbt)"
  unfolding respond_json_def respond_stream_def Let_def by (intro triples)+

lemma tracks_admitted [triples]:
  "keeps tracks (chat_completions_admitted (gateway_services w request t0 q) settings ri)"
  unfolding chat_completions_admitted_def Let_def by (intro triples)

lemma tracks_finalize:
  "keeps tracks (finalize_stream (gateway_services w request t0 q) settings ri sp ob)"
  unfolding finalize_stream_def Let_def by (intro triples)

subsection \<open>Nothing but waiting is cancelled\<close>

lemma avoids_chat [triples]:
  "avoids Cancelled (log_effect e)" "avoids Cancelled (change_shared h)" "avoids Cancelled (raise_http x)"
  "avoids Cancelled (lift_py r)" "avoids Cancelled (finish_budget svc f)" "avoids Cancelled (settle_budget svc y)"
  "avoids Cancelled mark_budget_executed" "avoids Cancelled (release_gate svc)" "avoids Cancelled (release_lease svc)"
  unfolding log_effect_def change_shared_def raise_http_def lift_py_def settle_budget_def finish_budget_def
    mark_budget_executed_def release_gate_def release_lease_def
  by (intro triples; simp)+

lemma avoids_on_exception [triples]:
  "avoids Cancelled m \<Longrightarrow> avoids Cancelled h \<Longrightarrow> avoids Cancelled (on_exception m h)"
  unfolding on_exception_def by (intro triples)

lemma avoids_json [triples]:
  "(\<And>u. avoids x (f u)) \<Longrightarrow> avoids x m \<Longrightarrow> avoids x (case j of JObj u \<Rightarrow> f u | _ \<Rightarrow> m)"
  by (cases j) simp_all

lemma avoids_call: "(\<And>s. fst (f s) \<noteq> Inl Cancelled) \<Longrightarrow> avoids Cancelled (call_service f)"
  by (simp add: avoids_def call_service_def split_beta)

lemma services_avoid [triples]:
  fixes w request t0 q
  defines "svc \<equiv> gateway_services w request t0 q"
  shows "avoids Cancelled (call_service (quota_reserve svc t i out x))" "avoids Cancelled (call_service (quota_refund svc r))"
    "avoids Cancelled (call_service (quota_reconcile svc r i out x))"
    "avoids Cancelled (call_service (ask_governance svc payload sig))"
    "avoids Cancelled (call_service (note_health svc m ok fb))" "avoids Cancelled (call_service (read_health svc m))"
    "avoids Cancelled (call_service (elapse svc))"
    "avoids Cancelled (call_service (open_stream svc call))"
    "avoids Cancelled (call_service (put_decision svc d))" "avoids Cancelled (call_service (send_usage svc e))"
  by (auto intro!: avoids_call simp: svc_def gateway_services_def quota_service_def ask_control_plane_def note_backend_def
      pass_time_def stream_from_def split: prod.splits sum.splits)
    (auto simp: map_sum_def split: sum.splits)

lemma avoids_forward [triples]: "avoids Cancelled (forward (gateway_services w request t0 q) payload headers m t fb fbt)"
proof -
  have "httpx_of e \<noteq> Cancelled" for e by (simp add: httpx_of_def split: completion_error.split)
  then show ?thesis unfolding forward_def split_beta by (intro triples)
qed

lemma avoids_choose [triples]: "avoids Cancelled (choose_backend svc settings route rid requested)"
proof -
  have "routing_error e \<noteq> Cancelled" for e by (simp add: routing_error_def)
  then show ?thesis unfolding choose_backend_def split_beta by (intro triples)
qed

lemma avoids_take [triples]: "avoids Cancelled (take_budget svc r t m n g)"
  by (auto simp: avoids_def take_budget_def Let_def split: prod.splits if_splits)

lemma phases_avoid [triples]:
  fixes w request t0 q
  defines "svc \<equiv> gateway_services w request t0 q"
  shows "avoids Cancelled (reserve_inference_budget svc r t m n)" "avoids Cancelled (reserve_quota svc t n x)"
    "avoids Cancelled (refund_quota svc qr)" "avoids Cancelled (reconcile_quota svc qr u y)" "avoids Cancelled (govern svc payload qr)"
    "avoids Cancelled (record_health svc m ok fb)" "avoids Cancelled (backend_score svc m)" "avoids Cancelled (store_decision svc ri ev hs dn)"
    "avoids Cancelled (send_usage_event svc ri ev m u y ms tt out)" "avoids Cancelled (evaluate_response svc ri m b y)"
    "avoids Cancelled (send_stream svc call)" "avoids Cancelled (raise_for_status k)"
  unfolding svc_def reserve_inference_budget_def current_guard_def reserve_quota_def refund_quota_def reconcile_quota_def
    govern_def record_health_def backend_score_def store_decision_def send_usage_event_def evaluate_response_def send_stream_def
    raise_for_status_def
  by (intro triples; simp)+

lemma handler_avoids [triples]:
  fixes w request t0 q
  defines "svc \<equiv> gateway_services w request t0 q"
  shows "avoids Cancelled (chat_completions_admitted svc settings ri)"
proof -
  have failed: "avoids Cancelled (upstream_failed svc ri ar m e)" for ri ar m e
    unfolding svc_def upstream_failed_def by (intro triples)
  have finish: "avoids Cancelled (finish_response svc settings ri ar headers shadow res)" for ri ar headers shadow res
    unfolding svc_def finish_response_def Let_def by (intro triples; simp)
  have prepare: "avoids Cancelled (prepare_request svc settings r payload rid t requested name)" for r payload rid t requested name
    unfolding svc_def prepare_request_def Let_def by (intro triples)
  have json: "avoids Cancelled (respond_json svc settings ri ar headers shadow fbt)" for ri ar headers shadow fbt
    unfolding respond_json_def Let_def svc_def by (intro triples failed [unfolded svc_def] finish [unfolded svc_def])
  have stream: "avoids Cancelled (respond_stream svc settings ri ar headers shadow fbt)" for ri ar headers shadow fbt
    unfolding respond_stream_def Let_def svc_def by (intro triples failed [unfolded svc_def]; simp)
  show ?thesis unfolding chat_completions_admitted_def Let_def by (intro triples prepare json stream)
qed

subsection \<open>A request from rest to rest\<close>

definition at_rest :: "gateway \<Rightarrow> bool" where
  "at_rest s \<longleftrightarrow> gate_inv (gw_gate s) \<and> sem_waiters (gw_gate s) = [] \<and> gate_inflight (gw_gate s) = 0
     \<and> roomy (gw_admission s) \<and> (\<forall>key. scope_state (gw_admission s) key = (0, 0, []))"

lemma at_rest_slots: "at_rest s \<Longrightarrow> int (sem_value (gw_gate s)) = capacity (gw_gate s)"
  by (auto simp: at_rest_def gate_inv_def woken_count_def)

lemma fresh_tracks: "fresh_request c \<Longrightarrow> tracks c \<longleftrightarrow> at_rest (shared c)"
  by (auto simp: fresh_request_def tracks_defs at_rest_def balance_def)

lemma given_back_rest: "all_given_back c \<Longrightarrow> tracks c \<Longrightarrow> \<not> lease_open c \<Longrightarrow> at_rest (shared c)"
  by (auto simp: all_given_back_def tracks_defs at_rest_def)

lemma idle_not_locked: "gate_inv g \<Longrightarrow> sem_waiters g = [] \<Longrightarrow> gate_inflight g = 0 \<Longrightarrow> \<not> sem_locked g"
  by (auto simp: gate_inv_def sem_locked_def capacity_def woken_count_def)

lemma tracks_enter_gate:
  "triple (\<lambda>c. fresh_request c \<and> tracks c)
     (andthen (call_service (take_gate (gateway_services w request t0 q))) (\<lambda>_.
        update (\<lambda>c. c\<lparr>gate_held := True, effects := effects c @ [GateTaken]\<rparr>)))
     (\<lambda>_ c. tracks c \<and> held_lease c = None) (\<lambda>e c. tracks c \<and> e \<noteq> Cancelled)"
proof -
  let ?m = "andthen (call_service (take_gate (gateway_services w request t0 q))) (\<lambda>_.
        update (\<lambda>c. c\<lparr>gate_held := True, effects := effects c @ [GateTaken]\<rparr>))"
  have "case ?m c of (Inr x, c') \<Rightarrow> tracks c' \<and> held_lease c' = None | (Inl e, c') \<Rightarrow> tracks c' \<and> e \<noteq> Cancelled"
    if f: "fresh_request c" and tr: "tracks c" for c
  proof -
    let ?g = "gw_gate (shared c)"
    from f tr have rest: "gate_inv ?g" "sem_waiters ?g = []" "gate_inflight ?g = 0" "gate_queued ?g = 0"
      by (auto simp: fresh_tracks at_rest_def) (simp add: gate_inv_def)
    have b: "balance gate_delta c = 0" "held_lease c = None" using f by (simp_all add: fresh_request_def balance_def)
    show ?thesis
    proof (cases "gate_acquire ''request'' ?g")
      case (Inl e)
      with tr show ?thesis by (simp add: andthen_def call_service_def gateway_services_def enter_gate_def)
    next
      case (Inr g)
      then have inv: "gate_inv g" using gate_acquire_inv [OF rest(1) _ Inr] rest(2) by simp
      have free: "\<not> sem_locked ?g" using rest by (intro idle_not_locked)
      from gate_idle_acquire [OF rest(2) Inr free rest(4)] Inr free tr b inv rest(3) show ?thesis
        by (simp add: andthen_def call_service_def gateway_services_def enter_gate_def update_def tracks_defs balance_def)
    qed
  qed
  then show ?thesis by (simp add: triple_def)
qed

lemma acquire_local_state:
  assumes "scope_state a (scope_key t m) = (0, 0, [])" and "roomy a" and "acquire_local mode task t m a = (res, a')"
  shows "case res of
      Lease al \<Rightarrow> al_tenant al = t \<and> al_model al = m \<and> \<not> al_released al \<and> roomy a'
        \<and> scope_state a' = (scope_state a)(scope_key t m := (1, 0, []))
    | Refused e \<Rightarrow> a' = a
    | Pending \<Rightarrow> False"
proof -
  let ?g = "scope_gate t m a"
  have idle: "sem_waiters ?g = []" "gate_inflight ?g = 0" "gate_queued ?g = 0" by (simp_all add: scope_gate_state assms(1))
  have free: "\<not> sem_locked ?g" using roomy_scope [OF assms(2) idle(2)] by (simp add: sem_locked_def idle(1))
  show ?thesis
  proof (cases "gate_acquire task ?g")
    case (Inl e)
    with assms(3) show ?thesis by (auto simp: acquire_local_def Let_def)
  next
    case (Inr g)
    from gate_idle_acquire [OF idle(1) Inr free idle(3)] have g: "sem_waiters g = []" "gate_inflight g = 1" "gate_queued g = 0"
      by (simp_all add: idle(2))
    have "res = Lease (new_lease t m None mode)" "a' = put_gate (scope_key t m) g a"
      using assms(3) Inr free by (auto simp: acquire_local_def Let_def)
    with g assms(2) show ?thesis by (simp add: new_lease_def put_gate_state roomy_put)
  qed
qed

lemma tracks_enter_tenant:
  "triple (\<lambda>c. tracks c \<and> held_lease c = None)
     (andthen (on_exception (call_service (take_lease (gateway_services w request t0 q) t m))
                 (release_gate (gateway_services w request t0 q))) (\<lambda>al.
      update (\<lambda>c. c\<lparr>held_lease := Some al, effects := effects c @ [LeaseTaken]\<rparr>)))
     (\<lambda>_. tracks) (\<lambda>e c. tracks c \<and> e \<noteq> Cancelled)"
proof (rule triple_andthen)
  let ?svc = "gateway_services w request t0 q"
  let ?R = "\<lambda>al c. gate_tracks c \<and> roomy (gw_admission (shared c)) \<and> \<not> al_released al
      \<and> (\<forall>key. scope_state (gw_admission (shared c)) key = (of_bool (key = lease_scope al), 0, []))"
  have "case call_service (take_lease ?svc t m) c of (Inr al, c') \<Rightarrow> ?R al c' | (Inl e, c') \<Rightarrow> tracks c' \<and> e \<noteq> Cancelled"
    if tr: "tracks c" "held_lease c = None" for c
  proof -
    let ?a = "gw_admission (shared c)" and ?m = "model_key (Some m)"
    have idle: "scope_state ?a key = (0, 0, [])" "roomy ?a" for key using tr by (simp_all add: tracks_defs)
    obtain res a' where acq: "acquire_local Local ''request'' t ?m ?a = (res, a')" by fastforce
    from acquire_local_state [OF idle(1,2) acq] acq tr idle show ?thesis
      by (auto simp: call_service_def gateway_services_def enter_tenant_def tracks_defs balance_def lease_scope_def
          split: admission_outcome.splits)
  qed
  then have "triple (\<lambda>c. tracks c \<and> held_lease c = None) (call_service (take_lease ?svc t m)) ?R (\<lambda>e c. tracks c \<and> e \<noteq> Cancelled)"
    by (simp add: triple_def)
  then show "triple (\<lambda>c. tracks c \<and> held_lease c = None)
     (on_exception (call_service (take_lease ?svc t m)) (release_gate ?svc)) ?R (\<lambda>e c. tracks c \<and> e \<noteq> Cancelled)"
    unfolding on_exception_def
  proof (rule triple_catching)
    fix e
    have "triple tracks (andthen (release_gate ?svc) (\<lambda>_. throw e)) ?R (\<lambda>e c. tracks c \<and> e \<noteq> Cancelled)" if "e \<noteq> Cancelled"
      by (rule triple_andthen [OF keeps_avoids [OF tracks_release_gate, where x = Cancelled]]) (auto simp: that intro!: triple_throw triples)
    then show "triple (\<lambda>c. tracks c \<and> e \<noteq> Cancelled) (andthen (release_gate ?svc) (\<lambda>_. throw e)) ?R (\<lambda>e c. tracks c \<and> e \<noteq> Cancelled)"
      by (rule triple_pure)
  qed simp
  show "triple (?R al) (update (\<lambda>c. c\<lparr>held_lease := Some al, effects := effects c @ [LeaseTaken]\<rparr>)) (\<lambda>_. tracks)
     (\<lambda>e c. tracks c \<and> e \<noteq> Cancelled)" for al
    by (rule triple_update) (simp add: tracks_defs balance_def)
qed

lemma tracks_chat:
  "triple (\<lambda>c. fresh_request c \<and> tracks c)
     (chat_completions (gateway_services w request t0 q) env tenants settings r uuid body) (\<lambda>_. tracks)
     (\<lambda>e c. tracks c \<and> e \<noteq> Cancelled)"
proof -
  let ?svc = "gateway_services w request t0 q" and ?E = "\<lambda>e c. tracks c \<and> e \<noteq> Cancelled"
  have sel: "has_gate ?svc = True" "has_admission ?svc = True" by (simp_all add: gateway_services_def)
  have admitted: "triple tracks (on_exception (chat_completions_admitted ?svc st ri)
       (andthen (finish_budget ?svc Abandon) (\<lambda>_. andthen (release_lease ?svc) (\<lambda>_. release_gate ?svc)))) (\<lambda>_. tracks) ?E" for st ri
    by (intro keeps_avoids keeps_on_exception triples)
  have held: "triple (\<lambda>c. fresh_request c \<and> tracks c) (with_admission ?svc st ri m) (\<lambda>_. tracks) ?E" for st ri m
    unfolding with_admission_def sel if_True
    by (rule triple_andthen [OF tracks_enter_gate triple_andthen [OF tracks_enter_tenant admitted]])
  show ?thesis by (rule front_triple [OF _ held]) simp
qed

subsection \<open>The laws hold of the composition\<close>

lemma gateway_lease_laws: "lease_laws (gateway_services w request t0 q)"
proof -
  have "\<not> al_released al" if "enter_tenant t m s = (Inr al, s')" for t m s al s'
    using that by (auto simp: enter_tenant_def acquire_local_def new_lease_def Let_def
        split: admission_outcome.splits prod.splits sum.splits if_splits)
  then show ?thesis
    by (auto simp: lease_laws_def gateway_services_def leave_tenant_def)
qed

lemma gateway_honest:
  assumes "\<And>call body. wd_models w call = UOk (Some body) \<Longrightarrow> renderable body"
  shows "honest_upstream (gateway_services w request t0 q)"
  using assms by (simp add: honest_upstream_def gateway_services_def)

lemma arrival_fresh: "fresh_request (new_request s)" "tracks (new_request s) = at_rest s"
  by (auto simp: new_request_def fresh_request_def tracks_defs at_rest_def balance_def)

lemma serve_rests:
  assumes "at_rest s" and "\<And>call body. wd_models w call = UOk (Some body) \<Longrightarrow> renderable body"
    and "serve w request body ob s = (r, s')"
  shows "at_rest s' \<and> r \<noteq> Inl Cancelled"
proof -
  let ?svc = "gateway_services w request (gw_now s) (gw_quota s \<noteq> None)" and ?g = "has_gate (gateway_services w request (gw_now s) (gw_quota s \<noteq> None))"
  obtain q c where run: "chat_completions ?svc (wd_environ w) (wd_tenants w) (wd_settings w) request (wd_uuid w (gw_serial s)) body (new_request s) = (q, c)"
    by fastforce
  have tr: "tracks c"
    using tripleD [OF tracks_chat _ run] assms(1) arrival_fresh by (auto split: sum.splits)
  have nc: "q \<noteq> Inl Cancelled"
    using tripleD [OF tracks_chat _ run] assms(1) arrival_fresh by (auto split: sum.splits)
  have ends: "case q of Inl e \<Rightarrow> e \<noteq> Cancelled \<longrightarrow> all_given_back c | Inr x \<Rightarrow> owed (of_bool ?g) ?g x c"
    using tripleD [OF chat_triple [OF gateway_lease_laws] arrival_fresh(1) run] gateway_honest [OF assms(2)]
    by (auto simp: ends_raising_def split: sum.splits)
  have rest: "at_rest (shared c')" if "all_given_back c'" "tracks c'" for c'
    using that given_back_rest by (auto simp: all_given_back_def)
  show ?thesis
  proof (cases q)
    case (Inl e)
    with nc assms(3) run ends tr show ?thesis by (auto simp: serve_def Let_def new_request_def intro: rest)
  next
    case (Inr x)
    show ?thesis
    proof (cases x)
      case (JsonResponse b h)
      with Inr assms(3) run ends tr show ?thesis
        by (auto simp: serve_def Let_def new_request_def owed_def intro: rest returned_all)
    next
      case (StreamResponse sp h)
      show ?thesis
      proof (cases "\<exists>payload. body = Some (JObj payload)")
        case True
        then obtain payload where body: "body = Some (JObj payload)" by blast
        let ?ri = "request_info_of (wd_rep w) (wd_environ w) request (wd_uuid w (gw_serial s)) payload"
        obtain z c' where fin: "finalize_stream ?svc (wd_settings w) ?ri sp ob c = (z, c')" by fastforce
        have "all_given_back c'"
          using tripleD [OF finalize_triple [OF gateway_lease_laws] _ fin, of ?g] ends Inr StreamResponse by (simp add: owed_def split: sum.splits)
        moreover have "tracks c'" using tracks_finalize tr fin by (metis keeps_iff snd_conv)
        moreover have "s' = shared c' \<and> r \<noteq> Inl Cancelled"
          using Inr StreamResponse assms(3) run body fin by (auto simp: serve_def Let_def new_request_def)
        ultimately show ?thesis by (simp add: rest)
      next
        case False
        then have "fst (chat_completions ?svc (wd_environ w) (wd_tenants w) (wd_settings w) request (wd_uuid w (gw_serial s)) body (new_request s)) \<noteq> Inr x"
          by (cases body; cases "the body") (auto simp: chat_completions_def raise_http_def throw_def)
        with run Inr show ?thesis by simp
      qed
    qed
  qed
qed

lemma map_error: "map_sum f id r = Inr x \<longleftrightarrow> r = Inr x"
  by (cases r) simp_all

lemma new_controller_idle:
  "new_controller env rd b redis ttl i = Inr a \<Longrightarrow> scope_state a key = (0, 0, [])"
  "new_controller env rd b redis ttl i = Inr a \<Longrightarrow> \<forall>t. 1 \<le> max_concurrent_requests (for_tenant b t) \<Longrightarrow> roomy a"
  by (auto simp: new_controller_def bind_exc_Inr_iff scope_state_def get_default_def roomy_def)

lemma lifespan_rests:
  "lifespan w now = Inr s \<Longrightarrow> \<forall>t. 1 \<le> max_concurrent_requests (for_tenant (wd_tenants w) t) \<Longrightarrow> at_rest s"
  by (auto simp: lifespan_def global_admission_def Let_def bind_exc_Inr_iff at_rest_def new_gate_inv map_error
      new_controller_idle) (simp_all add: new_gate_def)

fun serve_all :: "world \<Rightarrow> (Request \<times> json option \<times> StreamObservation) list \<Rightarrow> gateway \<Rightarrow> (chat_exc + chat_response) list \<times> gateway" where
  "serve_all w [] s = ([], s)"
| "serve_all w ((request, body, ob) # rest) s =
     (case serve w request body ob s of (r, s) \<Rightarrow> (case serve_all w rest s of (rs, s) \<Rightarrow> (r # rs, s)))"


definition demo_world :: world where
  "demo_world = \<lparr>wd_environ = (\<lambda>k. if k = ''TENANT_ATTRIBUTION_ENABLED'' then Some ''1'' else None),
     wd_runtime = demo_runtime, wd_settings = demo_settings\<lparr>model_targets := demo_targets\<rparr>,
     wd_tenants = demo_bundle 1 fail_closed, wd_governance = demo_governance, wd_budget = Inr (Some demo_policy),
     wd_models = (\<lambda>call. UOk (Some (JObj [(''usage'', JObj [(''prompt_tokens'', JInt 10), (''completion_tokens'', JInt 20)])]))),
     wd_streams = (\<lambda>call. Inr 200), wd_plane = cp_verdict ''allow'', wd_bind = demo_bind,
     wd_hash = \<lparr>sha256_hex = (\<lambda>_. replicate 64 (CHR ''a'')), canonical_bytes = policy_version\<rparr>,
     wd_sha256 = length, wd_rep = (\<lambda>j. ''?''), wd_uuid = (\<lambda>n. ''id'' @ show_nat n), wd_today = ''2026-01-02'',
     wd_latency = 1 / 2, wd_read_float = (\<lambda>s. Inl s)\<rparr>"

definition demo_exchange :: "string \<Rightarrow> bool \<Rightarrow> Request \<times> json option \<times> StreamObservation" where
  "demo_exchange model streamed =
     (demo_request\<lparr>req_claims := Some (JObj [])\<rparr>, Some (JObj [(''model'', JStr model), (''stream'', JBool streamed)]),
      \<lparr>ob_outcome = ''success'', ob_duration_ms = 5, ob_ttft_ms = Some 1, ob_bytes_sent = 10, ob_saw_done = True, ob_usage = None\<rparr>)"

lemma demo_starts: "case lifespan demo_world 0 of Inl e \<Rightarrow> False | Inr s0 \<Rightarrow> True"
  by code_simp



end
