(* ===== verification/Chat_Order.thy ===== *)
theory Chat_Order imports Chat_Properties Budget_Guard_Properties begin

text \<open>
  The order of a request's effects: a model is called only while everything that admits the
  request is held.
\<close>

subsection \<open>Computations that only add harmless effects\<close>

definition emits :: "(effect \<Rightarrow> bool) \<Rightarrow> ('s, 'a) chat \<Rightarrow> bool" where
  "emits \<phi> m \<longleftrightarrow> (\<forall>c. \<exists>es. effects (snd (m c)) = effects c @ es \<and> list_all \<phi> es)"

lemma emits_none: "(\<And>c. effects (snd (m c)) = effects c) \<Longrightarrow> emits \<phi> m"
  by (simp add: emits_def)

lemma emits_simple [triples]:
  "emits \<phi> (give x)" "emits \<phi> (throw e)" "emits \<phi> (asking f)" "emits \<phi> (change_shared h)" "emits \<phi> mark_budget_executed"
  "emits \<phi> (call_service k)"
  by (rule emits_none; simp add: give_def throw_def asking_def change_shared_def mark_budget_executed_def update_def
      call_service_def split_beta)+

lemma emits_raise [triples]: "emits \<phi> (raise_http e)" "emits \<phi> (lift_py r)"
  by (auto simp: raise_http_def lift_py_def intro: triples split: sum.split)

lemma emits_log [triples]: "\<phi> e \<Longrightarrow> emits \<phi> (log_effect e)"
  by (simp add: emits_def log_effect_def update_def)

lemma emits_compose:
  assumes "emits \<phi> m" and "\<And>x. emits \<phi> (f x)" and "\<And>e. emits \<phi> (g e)"
  shows "emits \<phi> (\<lambda>c. case m c of (Inl e, c') \<Rightarrow> g e c' | (Inr x, c') \<Rightarrow> f x c')"
  unfolding emits_def
proof
  fix c
  obtain r c' where m: "m c = (r, c')" by fastforce
  with assms(1) obtain es where 1: "effects c' = effects c @ es" "list_all \<phi> es" by (metis emits_def snd_conv)
  have "\<exists>es. effects (snd (k c')) = effects c' @ es \<and> list_all \<phi> es" if "emits \<phi> k" for k :: "('a, 'c) chat"
    using that by (simp add: emits_def)
  with 1 assms(2,3) m show "\<exists>es. effects (snd (case m c of (Inl e, c') \<Rightarrow> g e c' | (Inr x, c') \<Rightarrow> f x c')) = effects c @ es \<and> list_all \<phi> es"
    by (cases r) fastforce+
qed

lemma emits_andthen [triples]: "emits \<phi> m \<Longrightarrow> (\<And>x. emits \<phi> (f x)) \<Longrightarrow> emits \<phi> (andthen m f)"
  unfolding andthen_def by (rule emits_compose) (assumption | rule emits_none, simp)+

lemma emits_catching [triples]: "emits \<phi> m \<Longrightarrow> (\<And>e. emits \<phi> (h e)) \<Longrightarrow> emits \<phi> (catching C m h)"
proof -
  assume m: "emits \<phi> m" and h: "\<And>e. emits \<phi> (h e)"
  have "emits \<phi> (\<lambda>c. if C e then h e c else (Inl e, c))" for e
    using h [of e] by (cases "C e") (simp_all add: emits_none)
  with m show ?thesis unfolding catching_def by (intro emits_compose) (simp_all add: emits_none)
qed

lemma emits_on_exception [triples]: "emits \<phi> m \<Longrightarrow> emits \<phi> h \<Longrightarrow> emits \<phi> (on_exception m h)"
  unfolding on_exception_def by (intro triples)

lemma emits_cases [triples]:
  "emits \<phi> m \<Longrightarrow> (\<And>v. emits \<phi> (f v)) \<Longrightarrow> emits \<phi> (case o' of None \<Rightarrow> m | Some v \<Rightarrow> f v)"
  "(b \<Longrightarrow> emits \<phi> m) \<Longrightarrow> (\<not> b \<Longrightarrow> emits \<phi> n) \<Longrightarrow> emits \<phi> (if b then m else n)"
  "(\<And>v w. emits \<phi> (h v w)) \<Longrightarrow> emits \<phi> (case p of (v, w) \<Rightarrow> h v w)"
  "(\<And>v. emits \<phi> (k v)) \<Longrightarrow> (\<And>w. emits \<phi> (l w)) \<Longrightarrow> emits \<phi> (case r of Inl v \<Rightarrow> k v | Inr w \<Rightarrow> l w)"
  "(\<And>u. emits \<phi> (j u)) \<Longrightarrow> emits \<phi> n' \<Longrightarrow> emits \<phi> (case js of JObj u \<Rightarrow> j u | _ \<Rightarrow> n')"
  by (cases o'; simp) (simp, cases p, simp, cases r, simp_all, cases js, simp_all)

lemma emits_let [triples]: "emits \<phi> (f v) \<Longrightarrow> emits \<phi> (let y = v in f y)"
  by simp

lemma emits_each [triples]: "(\<And>v. emits \<phi> (f v)) \<Longrightarrow> emits \<phi> (each f vs)"
  by (induction vs) (simp_all add: emits_simple emits_andthen)

lemma emits_when [triples]: "emits \<phi> m \<Longrightarrow> emits \<phi> (when_do b m)"
  by (simp add: when_do_def emits_simple)

lemma emits_return [triples]: "(\<And>c. effects (k c) = effects c) \<Longrightarrow> emits \<phi> (\<lambda>c. (Inr (g c), k c))"
  by (simp add: emits_none)

subsection \<open>What has been done before a model is called\<close>

fun is_call :: "effect \<Rightarrow> bool" where
  "is_call (ModelCalled u) = True"
| "is_call _ = False"

fun gives_back :: "effect \<Rightarrow> bool" where
  "gives_back GateFreed = True"
| "gives_back LeaseFreed = True"
| "gives_back (BudgetSettled n) = True"
| "gives_back QuotaRefunded = True"
| "gives_back _ = False"

definition budget_enforced :: "('s, 'r) chat_services \<Rightarrow> bool" where
  "budget_enforced svc \<longleftrightarrow> (\<forall>s. has_guard svc s \<and> guard_enabled (guard_of svc s))"

definition entered :: "('s, 'r) chat_services \<Rightarrow> effect list \<Rightarrow> bool" where
  "entered svc es \<longleftrightarrow> list_all (\<lambda>e. \<not> gives_back e) es \<and> (has_gate svc \<longrightarrow> GateTaken \<in> set es)
     \<and> (has_admission svc \<longrightarrow> LeaseTaken \<in> set es)"

definition reserved_for :: "('s, 'r) chat_services \<Rightarrow> effect list \<Rightarrow> bool" where
  "reserved_for svc es \<longleftrightarrow> entered svc es \<and> (budget_enforced svc \<longrightarrow> (\<exists>n. BudgetTaken n \<in> set es))"

definition quota_for :: "('s, 'r) chat_services \<Rightarrow> effect list \<Rightarrow> bool" where
  "quota_for svc es \<longleftrightarrow> reserved_for svc es \<and> (has_tenants svc \<longrightarrow> QuotaTaken \<in> set es)"

definition cleared :: "('s, 'r) chat_services \<Rightarrow> effect list \<Rightarrow> bool" where
  "cleared svc es \<longleftrightarrow> quota_for svc es \<and> (governance_active svc \<longrightarrow> GovernanceAsked \<in> set es)"

fun calls_cleared :: "('s, 'r) chat_services \<Rightarrow> effect list \<Rightarrow> effect list \<Rightarrow> bool" where
  "calls_cleared svc seen [] = True"
| "calls_cleared svc seen (e # es) = ((is_call e \<longrightarrow> cleared svc seen) \<and> calls_cleared svc (seen @ [e]) es)"

lemmas clearance = cleared_def quota_for_def reserved_for_def entered_def

text \<open>Every call of a model comes after everything that admits the request, with nothing given back.\<close>

definition checked :: "('s, 'r) chat_services \<Rightarrow> effect list \<Rightarrow> bool" where
  "checked svc es \<longleftrightarrow> (\<forall>pre u post. es = pre @ ModelCalled u # post \<longrightarrow> cleared svc pre)"

lemma split_append:
  "es @ fs = pre @ x # post \<Longrightarrow> (\<exists>rest. es = pre @ x # rest) \<or> (\<exists>mid. pre = es @ mid \<and> fs = mid @ x # post)"
  by (auto simp: append_eq_append_conv2 Cons_eq_append_conv append_eq_Cons_conv)

lemma checked_quiet: "checked svc es \<Longrightarrow> list_all (\<lambda>e. \<not> is_call e) fs \<Longrightarrow> checked svc (es @ fs)"
  unfolding checked_def by (fastforce dest: split_append)

lemma cleared_more: "cleared svc es \<Longrightarrow> list_all (\<lambda>e. \<not> gives_back e) fs \<Longrightarrow> cleared svc (es @ fs)"
  by (auto simp: clearance)

lemma checked_calls:
  "checked svc es \<Longrightarrow> cleared svc es \<Longrightarrow> list_all (\<lambda>e. \<not> gives_back e) fs \<Longrightarrow> checked svc (es @ fs)"
  unfolding checked_def
proof (intro allI impI)
  fix pre u post
  assume 1: "\<forall>pre u post. es = pre @ ModelCalled u # post \<longrightarrow> cleared svc pre" and 2: "cleared svc es"
    and 3: "list_all (\<lambda>e. \<not> gives_back e) fs" and eq: "es @ fs = pre @ ModelCalled u # post"
  from split_append [OF eq] show "cleared svc pre"
  proof
    assume "\<exists>mid. pre = es @ mid \<and> fs = mid @ ModelCalled u # post"
    then obtain mid where "pre = es @ mid" "fs = mid @ ModelCalled u # post" by blast
    with 2 3 show ?thesis by (simp add: cleared_more)
  qed (use 1 in blast)
qed

text \<open>Effects without a call of a model keep the order right.\<close>

abbreviation orderly :: "('s, 'r) chat_services \<Rightarrow> 's chat_ctx \<Rightarrow> bool" where
  "orderly svc c \<equiv> checked svc (effects c)"

abbreviation go_ahead :: "('s, 'r) chat_services \<Rightarrow> 's chat_ctx \<Rightarrow> bool" where
  "go_ahead svc c \<equiv> checked svc (effects c) \<and> cleared svc (effects c)"

lemma emits_orderly: "emits (\<lambda>e. \<not> is_call e) m \<Longrightarrow> keeps (orderly svc) m"
  unfolding keeps_iff emits_def by (metis checked_quiet)

lemma emits_go_ahead: "emits (\<lambda>e. \<not> gives_back e) m \<Longrightarrow> keeps (go_ahead svc) m"
  unfolding keeps_iff emits_def by (metis checked_calls cleared_more)

subsection \<open>The phases\<close>

text \<open>What the phases emit: \<open>\<phi>\<close> must allow their effects.\<close>

lemma emits_back [triples]:
  "(\<And>n. \<phi> (BudgetSettled n)) \<Longrightarrow> emits \<phi> (finish_budget svc f)"
  "\<phi> LeaseFreed \<Longrightarrow> emits \<phi> (release_lease svc)" "\<phi> GateFreed \<Longrightarrow> emits \<phi> (release_gate svc)"
  by (auto simp: emits_def finish_budget_def release_lease_def release_gate_def update_def split: option.split prod.split)

lemma emits_phases [triples]:
  "(\<And>b. \<phi> (HealthNoted m b)) \<Longrightarrow> emits \<phi> (record_health svc m ok fb)"
  "(\<And>s. \<phi> (DecisionStored s)) \<Longrightarrow> emits \<phi> (store_decision svc ri ev h n)"
  "emits \<phi> (backend_score svc m)"
  "(\<And>s. \<phi> (UsageSent s)) \<Longrightarrow> emits \<phi> (send_usage_event svc ri ev m u x ms t out)"
  "emits \<phi> (evaluate_response svc ri m b x)"
  "\<phi> QuotaRefunded \<Longrightarrow> emits \<phi> (refund_quota svc q)"
  "(\<And>i o' x. \<phi> (QuotaReconciled i o' x)) \<Longrightarrow> emits \<phi> (reconcile_quota svc q u y)"
  "(\<And>n. \<phi> (BudgetSettled n)) \<Longrightarrow> emits \<phi> (settle_budget svc y)"
  "\<phi> QuotaTaken \<Longrightarrow> emits \<phi> (reserve_quota svc tm tok z)"
  "emits \<phi> (raise_for_status st)"
  "emits \<phi> (current_guard svc)"
  "\<phi> (ModelCalled (call_url call)) \<Longrightarrow> emits \<phi> (send_stream svc call)"
  unfolding record_health_def store_decision_def backend_score_def send_usage_event_def evaluate_response_def refund_quota_def
    reconcile_quota_def settle_budget_def reserve_quota_def raise_for_status_def current_guard_def send_stream_def
  by (intro triples; simp)+

lemma emits_govern [triples]: "\<phi> GovernanceAsked \<Longrightarrow> \<phi> QuotaRefunded \<Longrightarrow> emits \<phi> (govern svc payload q)"
  unfolding govern_def by (intro triples; simp)

lemma emits_take [triples]: "(\<And>n. \<phi> (BudgetTaken n)) \<Longrightarrow> emits \<phi> (take_budget svc r t m n g)"
  by (auto simp: emits_def take_budget_def Let_def split: prod.split option.split)

lemma emits_reserve [triples]: "(\<And>n. \<phi> (BudgetTaken n)) \<Longrightarrow> emits \<phi> (reserve_inference_budget svc r t m n)"
  unfolding reserve_inference_budget_def by (intro triples; simp)

lemma emits_choose [triples]: "emits \<phi> (choose_backend svc settings route rid requested)"
  unfolding choose_backend_def split_beta by (intro triples; simp)

lemma emits_forward [triples]:
  assumes "\<And>u. \<phi> (ModelCalled u)"
  shows "emits \<phi> (forward svc payload headers model t fb fbt)"
proof -
  have "emits \<phi> (\<lambda>c. case post_completion_with_fallback (upstream_of svc (shared c)) payload headers (clocks svc (shared c))
                       model t fb fbt (breaker_of svc (shared c)) (retries_of svc (shared c)) of
         (res, st) \<Rightarrow> (Inr (res, cs_failed st), c\<lparr>shared := put_retries svc (cs_budget st) (put_breaker svc (cs_breaker st) (shared c)),
           effects := effects c @ map (ModelCalled \<circ> call_url) (cs_calls st)\<rparr>))"
    using assms by (auto simp: emits_def list_all_iff split: prod.split)
  then show ?thesis unfolding forward_def by (intro triples; simp)
qed

lemma emits_failed [triples]:
  "(\<And>m b. \<phi> (HealthNoted m b)) \<Longrightarrow> (\<And>n. \<phi> (BudgetSettled n)) \<Longrightarrow> (\<And>s. \<phi> (DecisionStored s)) \<Longrightarrow>
    emits \<phi> (upstream_failed svc ri ar m e)"
  unfolding upstream_failed_def by (intro triples; simp)

lemma quiet_prepare [triples]: "emits (\<lambda>e. \<not> is_call e) (prepare_request svc settings r payload rid t requested name)"
  unfolding prepare_request_def Let_def by (intro triples; simp)

lemma quiet_finish [triples]: "emits (\<lambda>e. \<not> is_call e) (finish_response svc settings ri ar headers shadow res)"
  unfolding finish_response_def Let_def by (intro triples; simp)

text \<open>A quiet step keeps what has been achieved.\<close>

abbreviation stage :: "(effect list \<Rightarrow> bool) \<Rightarrow> ('s, 'r) chat_services \<Rightarrow> 's chat_ctx \<Rightarrow> bool" where
  "stage K svc c \<equiv> checked svc (effects c) \<and> K (effects c)"

definition lasting :: "(effect list \<Rightarrow> bool) \<Rightarrow> bool" where
  "lasting K \<longleftrightarrow> (\<forall>es fs. K es \<and> list_all (\<lambda>e. \<not> gives_back e) fs \<longrightarrow> K (es @ fs))"

lemma stages_last: "lasting (entered svc)" "lasting (reserved_for svc)" "lasting (quota_for svc)" "lasting (cleared svc)"
  by (auto simp: lasting_def clearance)

lemma emits_stage:
  assumes "emits (\<lambda>e. \<not> is_call e \<and> \<not> gives_back e) m" and "lasting K"
  shows "keeps (stage K svc) m"
proof -
  have "stage K svc (snd (m c))" if k: "stage K svc c" for c
  proof -
    obtain es where es: "effects (snd (m c)) = effects c @ es" "list_all (\<lambda>e. \<not> is_call e \<and> \<not> gives_back e) es"
      using assms(1) unfolding emits_def by blast
    then have "list_all (\<lambda>e. \<not> is_call e) es" "list_all (\<lambda>e. \<not> gives_back e) es" by (auto simp: list_all_iff)
    with es(1) k assms(2) show ?thesis by (auto simp: lasting_def intro: checked_quiet)
  qed
  then show ?thesis by (simp add: keeps_iff)
qed

text \<open>A phase that reaches the next stage when it ends normally.\<close>

lemma stage_triple:
  assumes "keeps (orderly svc) m" and "\<And>c x c'. K (effects c) \<Longrightarrow> m c = (Inr x, c') \<Longrightarrow> K' (effects c')"
  shows "triple (stage K svc) m (\<lambda>_. stage K' svc) (\<lambda>_. orderly svc)"
  unfolding triple_def
proof (intro allI impI)
  fix c assume "stage K svc c"
  with assms show "case m c of (Inl e, s') \<Rightarrow> orderly svc s' | (Inr x, s') \<Rightarrow> stage K' svc s'"
    by (cases "m c"; cases "fst (m c)") (auto simp: keeps_iff dest: spec [of _ c])
qed

lemma take_budget_takes:
  assumes "guard_enabled g" and "take_budget svc r t m n g c = (Inr x, c')"
  shows "\<exists>k. effects c' = effects c @ [BudgetTaken k]"
proof -
  obtain policy where p: "guard_policy g = Some policy" using assms(1) by (auto simp: guard_enabled_def split: option.splits)
  obtain d res g' where q: "guard_reserve (budget_hash svc) (budget_eval svc) t m (fst n) (snd n) (api_key_of r)
      None (fresh_id svc (shared c)) (clock_ms svc (shared c)) g = ((d, res), g')" by (metis prod.collapse)
  have "decision d \<noteq> DENY" using assms(2) q by (auto simp: take_budget_def Let_def)
  with guard_reserve_decides [OF p q] obtain b where "res = Some b" by (auto simp: denial_ok_def admission_ok_def)
  with assms(2) q show ?thesis by (auto simp: take_budget_def Let_def split: if_splits)
qed

lemma reserve_reaches:
  "triple (stage (entered svc) svc) (reserve_inference_budget svc r t m n) (\<lambda>_. stage (reserved_for svc) svc) (\<lambda>_. orderly svc)"
proof (rule stage_triple)
  show "keeps (orderly svc) (reserve_inference_budget svc r t m n)" by (intro emits_orderly triples) simp
  fix c x c' assume k: "entered svc (effects c)" and run: "reserve_inference_budget svc r t m n c = (Inr x, c')"
  have "emits (\<lambda>e. \<exists>k. e = BudgetTaken k) (reserve_inference_budget svc r t m n)" by (intro triples) simp
  then obtain es where es: "effects c' = effects c @ es" "list_all (\<lambda>e. \<exists>k. e = BudgetTaken k) es"
    using run unfolding emits_def by (metis snd_conv)
  then have en: "entered svc (effects c')" using k by (auto simp: entered_def list_all_iff)
  have "\<exists>k. BudgetTaken k \<in> set (effects c')" if b: "budget_enforced svc"
  proof -
    from run b obtain c1 where "take_budget svc r t m n (guard_of svc (shared c)) c1 = (Inr x, c')"
      by (auto simp: reserve_inference_budget_def current_guard_def andthen_def asking_def raise_http_def throw_def give_def
          budget_enforced_def split: if_splits)
    from take_budget_takes [OF _ this] b show ?thesis by (auto simp: budget_enforced_def)
  qed
  with en show "reserved_for svc (effects c')" by (simp add: reserved_for_def)
qed

lemma quota_reaches:
  "triple (stage (reserved_for svc) svc) (reserve_quota svc t n x) (\<lambda>_. stage (quota_for svc) svc) (\<lambda>_. orderly svc)"
proof (rule stage_triple)
  show "keeps (orderly svc) (reserve_quota svc t n x)" by (intro emits_orderly triples) simp
  fix c v c' assume k: "reserved_for svc (effects c)" and run: "reserve_quota svc t n x c = (Inr v, c')"
  have "effects c' = effects c @ (if has_tenants svc then [QuotaTaken] else [])"
    using run by (auto simp: reserve_quota_def andthen_def give_def call_service_def log_effect_def update_def
        split: if_splits prod.splits sum.splits)
  with k show "quota_for svc (effects c')" by (auto simp: clearance)
qed

lemma govern_reaches:
  "triple (stage (quota_for svc) svc) (govern svc payload q) (\<lambda>_. stage (cleared svc) svc) (\<lambda>_. orderly svc)"
proof (rule stage_triple)
  show "keeps (orderly svc) (govern svc payload q)" by (intro emits_orderly triples) simp_all
  fix c v c' assume k: "quota_for svc (effects c)" and run: "govern svc payload q c = (Inr v, c')"
  have "effects c' = effects c @ (if governance_active svc then [GovernanceAsked] else [])"
    using run by (auto simp: govern_def andthen_def give_def call_service_def log_effect_def update_def on_exception_def
        catching_def throw_def change_shared_def Let_def split: if_splits prod.splits sum.splits)
  with k show "cleared svc (effects c')" by (auto simp: clearance)
qed

lemma stage_orderly: "stage K svc c \<Longrightarrow> orderly svc c"
  by simp

lemma triple_then: "triple P m (\<lambda>_. R) E \<Longrightarrow> (\<And>x. triple R (f x) Q E) \<Longrightarrow> triple P (andthen m f) Q E"
  by (rule triple_andthen)

lemma prepare_reaches:
  "triple (stage (entered svc) svc) (prepare_request svc settings r payload rid t requested name)
     (\<lambda>_. go_ahead svc) (\<lambda>_. orderly svc)"
proof -
  have choose: "keeps (stage (cleared svc) svc) (choose_backend svc settings route rid requested)" for route
    by (rule emits_stage [OF _ stages_last(4)]) (intro triples)
  have governed: "triple (stage (quota_for svc) svc)
      (andthen (govern svc payload q) (\<lambda>ev. andthen (choose_backend svc settings route rid requested) (\<lambda>rc. give (ev, rc))))
      (\<lambda>_. go_ahead svc) (\<lambda>_. orderly svc)" for q route
    by (rule triple_then [OF govern_reaches], rule triple_then [where R = "go_ahead svc"], rule triple_keeps [OF choose])
      (auto intro!: triple_give)
  have cleanup: "triple (orderly svc) (andthen (finish_budget svc f) (\<lambda>_. throw e)) Q (\<lambda>_. orderly svc)" for f e Q
    by (rule triple_then [where R = "orderly svc"], rule triple_keeps [OF emits_orderly])
      (auto intro!: triples triple_throw)
  have guarded: "triple (stage (quota_for svc) svc)
      (on_exception (andthen (govern svc payload q) (\<lambda>ev. andthen (choose_backend svc settings route rid requested) (\<lambda>rc. give (ev, rc))))
        (finish_budget svc Release)) (\<lambda>_. go_ahead svc) (\<lambda>_. orderly svc)" for q route
    unfolding on_exception_def
    by (rule triple_catching [OF governed cleanup]) simp
  have target: "triple (go_ahead svc)
      (case res of (ev, rc) \<Rightarrow> case dict_get (model_targets settings) (rc_model rc) of
        None \<Rightarrow> andthen (finish_budget svc Release) (\<lambda>_. raise_http (not_found_error requested rid))
      | Some target \<Rightarrow> give \<lparr>ar_quota = q, ar_evidence = ev, ar_choice = rc, ar_target = target\<rparr>)
      (\<lambda>_. go_ahead svc) (\<lambda>_. orderly svc)" for res q
    unfolding raise_http_def
    by (cases res) (auto intro!: triple_give triple_weaken [OF cleanup [of _ _ "\<lambda>_. go_ahead svc"]] split: option.split)
  show ?thesis
    unfolding prepare_request_def Let_def
    by (rule triple_andthen [OF reserve_reaches triple_andthen [OF quota_reaches triple_andthen [OF guarded target]]])
qed

lemma orderly_failed: "keeps (orderly svc) (upstream_failed svc ri ar m e)"
  by (intro emits_orderly triples) simp_all

text \<open>A step before or at a call of a model, and its \<open>except httpx.HTTPError\<close>.\<close>

lemma called_step:
  assumes "emits (\<lambda>e. \<not> gives_back e) m" and "\<And>x. triple (go_ahead svc) (f x) Q (\<lambda>_. orderly svc)"
  shows "triple (go_ahead svc) (andthen m f) Q (\<lambda>_. orderly svc)"
proof (rule triple_then [where R = "go_ahead svc"])
  show "triple (go_ahead svc) m (\<lambda>_. go_ahead svc) (\<lambda>_. orderly svc)"
    by (rule triple_keeps [OF emits_go_ahead [OF assms(1), of svc]]) simp_all
qed (rule assms(2))

lemma upstream_step:
  assumes "emits (\<lambda>e. \<not> gives_back e) m"
  shows "triple (go_ahead svc) (catching is_httpx m (upstream_failed svc ri ar b)) (\<lambda>_. go_ahead svc) (\<lambda>_. orderly svc)"
proof (rule triple_catching [where R = "\<lambda>_. go_ahead svc"])
  show "triple (go_ahead svc) m (\<lambda>_. go_ahead svc) (\<lambda>_. go_ahead svc)"
    using emits_go_ahead [OF assms] by (simp add: keeps_def)
  fix e
  show "triple (go_ahead svc) (upstream_failed svc ri ar b e) (\<lambda>_. go_ahead svc) (\<lambda>_. orderly svc)"
    by (rule triple_yields [OF triple_keeps [OF orderly_failed] upstream_failed_raises]) simp_all
qed simp

lemma respond_json_orderly:
  "triple (go_ahead svc) (respond_json svc settings ri ar headers shadow fbt) (\<lambda>_. orderly svc) (\<lambda>_. orderly svc)"
proof -
  have finish: "triple (go_ahead svc) (finish_response svc settings ri ar headers shadow res) (\<lambda>_. orderly svc) (\<lambda>_. orderly svc)" for res
    by (rule triple_keeps [OF emits_orderly [OF quiet_finish]]) simp_all
  show ?thesis
    unfolding respond_json_def Let_def
    by (intro called_step [OF emits_simple(5)] triple_then [OF upstream_step finish] triples; simp)
qed

lemma respond_stream_orderly:
  "triple (go_ahead svc) (respond_stream svc settings ri ar headers shadow fbt) (\<lambda>_. orderly svc) (\<lambda>_. orderly svc)"
proof -
  have opened: "triple (go_ahead svc) (andthen (case launched of None \<Rightarrow> give () | Some x \<Rightarrow> change_shared (h x)) (\<lambda>_. give y))
     (\<lambda>_. orderly svc) (\<lambda>_. orderly svc)" for launched h y
    by (rule called_step) (auto intro!: triples triple_give split: option.split)
  have first: "emits (\<lambda>e. \<not> gives_back e) (send_stream svc call)" for call by (intro triples) simp
  have status: "emits (\<lambda>e. \<not> gives_back e) (raise_for_status n)" for n by (intro triples)
  have second: "emits (\<lambda>e. \<not> gives_back e) (andthen (send_stream svc call) raise_for_status)" for call by (intro triples first status)
  have health: "emits (\<lambda>e. \<not> gives_back e) (record_health svc m ok fb)" for m ok fb by (intro triples) simp
  note steps = called_step [OF emits_simple(5)] called_step [OF health] triple_then [OF upstream_step [OF first]]
    triple_then [OF upstream_step [OF status]] triple_then [OF upstream_step [OF second]] opened triple_if
  show ?thesis
  proof (cases "rc_fallback (ar_choice ar)")
    case None
    then show ?thesis unfolding respond_stream_def Let_def None option.case prod.case by (intro steps)
  next
    case (Some fb)
    then show ?thesis
    proof (cases fbt)
      case None
      then show ?thesis unfolding respond_stream_def Let_def Some None option.case prod.case by (intro steps)
    next
      case t: (Some t)
      show ?thesis unfolding respond_stream_def Let_def Some t option.case prod.case by (intro steps)
    qed
  qed
qed

lemma admitted_orderly:
  "triple (stage (entered svc) svc) (chat_completions_admitted svc settings ri) (\<lambda>_. orderly svc) (\<lambda>_. orderly svc)"
  unfolding chat_completions_admitted_def Let_def
  by (rule triple_andthen [OF prepare_reaches], rule called_step [OF emits_simple(3)])
    (auto intro: respond_stream_orderly respond_json_orderly)

lemma front_orderly:
  "triple fresh_request (chat_completions svc env tenants settings request uuid body) (\<lambda>_. orderly svc) (\<lambda>_. orderly svc)"
proof (rule front_triple)
  have fresh: "fresh_request c \<Longrightarrow> orderly svc c" for c by (simp add: fresh_request_def checked_def)
  then show "fresh_request c \<Longrightarrow> orderly svc c" for c .
  show "triple fresh_request (with_admission svc st ri m) (\<lambda>_. orderly svc) (\<lambda>_. orderly svc)" for st ri m
    unfolding with_admission_def
  proof (rule triple_then)
    let ?G = "\<lambda>c. effects c = (if has_gate svc then [GateTaken] else [])"
    show "triple fresh_request (if has_gate svc then andthen (call_service (take_gate svc)) (\<lambda>_.
        update (\<lambda>c. c\<lparr>gate_held := True, effects := effects c @ [GateTaken]\<rparr>)) else give ()) (\<lambda>_. ?G) (\<lambda>_. orderly svc)"
      by (auto simp: triple_def give_def andthen_def call_service_def update_def fresh_request_def checked_def split: prod.split sum.split)
    show "triple ?G (andthen (if has_admission svc then
           andthen (on_exception (call_service (take_lease svc (ri_tenant ri) m)) (release_gate svc)) (\<lambda>al.
           update (\<lambda>c. c\<lparr>held_lease := Some al, effects := effects c @ [LeaseTaken]\<rparr>)) else give ())
        (\<lambda>_. on_exception (chat_completions_admitted svc st ri)
           (andthen (finish_budget svc Abandon) (\<lambda>_. andthen (release_lease svc) (\<lambda>_. release_gate svc)))))
      (\<lambda>_. orderly svc) (\<lambda>_. orderly svc)"
    proof (rule triple_then)
      show "triple ?G (if has_admission svc then
           andthen (on_exception (call_service (take_lease svc (ri_tenant ri) m)) (release_gate svc)) (\<lambda>al.
           update (\<lambda>c. c\<lparr>held_lease := Some al, effects := effects c @ [LeaseTaken]\<rparr>)) else give ())
         (\<lambda>_. stage (entered svc) svc) (\<lambda>_. orderly svc)"
        by (auto simp: triple_def give_def andthen_def call_service_def update_def on_exception_def catching_def throw_def
            release_gate_def checked_def entered_def Cons_eq_append_conv split: prod.split sum.split)
      have tidy: "keeps (orderly svc) (andthen (finish_budget svc Abandon) (\<lambda>_. andthen (release_lease svc) (\<lambda>_. release_gate svc)))"
        by (intro emits_orderly triples) simp_all
      then show "triple (stage (entered svc) svc) (on_exception (chat_completions_admitted svc st ri)
           (andthen (finish_budget svc Abandon) (\<lambda>_. andthen (release_lease svc) (\<lambda>_. release_gate svc))))
         (\<lambda>_. orderly svc) (\<lambda>_. orderly svc)"
        unfolding on_exception_def
        by (intro triple_catching [OF admitted_orderly]) (auto intro!: triples simp: keeps_def [symmetric])
    qed
  qed
qed

lemma checked_cleared: "checked svc (seen @ es) \<Longrightarrow> calls_cleared svc seen es"
proof (induction es arbitrary: seen)
  case (Cons e es)
  then have "calls_cleared svc (seen @ [e]) es" by simp
  moreover have "is_call e \<longrightarrow> cleared svc seen" using Cons.prems by (cases e) (auto simp: checked_def)
  ultimately show ?case by simp
qed simp

text \<open>
  C11: A model is called only while the request is admitted. Before every call the handler makes
  to a model server, the first one and the fallback, streamed or not, it holds the slot of the
  process and the tenant's lease, has the budget reservation and the quota reservation, and has
  asked the control plane, each where it is configured; and none of them has been given back. The
  mirrored call of shadow traffic is made by a task of its own after the response was settled; it is
  not in the trace of the handler and not claimed of.
\<close>

theorem model_called_only_when_admitted:
  "calls_cleared svc [] (effects (snd (chat_completions svc env tenants settings request uuid body (new_request s))))"
proof -
  obtain r c where run: "chat_completions svc env tenants settings request uuid body (new_request s) = (r, c)"
    by fastforce
  have "orderly svc c" using tripleD [OF front_orderly new_request_fresh run] by (simp split: sum.splits)
  then show ?thesis using checked_cleared [of svc "[]"] run by simp
qed

end
