(* ===== verification/Mcp_Transport.thy ===== *)
theory Mcp_Transport imports Effects Governance Streaming begin

text \<open>
  \<open>app/gateway/mcp_transport.py\<close>: the transport to MCP tool servers, Streamable HTTP with sessions,
  JSON or SSE answers, credentials by reference and pinned capability digests. The operations are
  computations on the process-wide session store, the outside world (of any type) and the trace
  of the HTTP calls made. The HTTP client, the JSON library, UTF-8 decoding, SHA-256 and
  \<open>uuid4\<close> are parameters; timeouts are passed to the client and left out. \<open>json.dumps\<close> writes ASCII,
  so its bytes are its characters. A session's creation time, which nothing reads, is left out.
\<close>

subsection \<open>Servers and sessions\<close>

record McpServerConfig =
  ms_url :: string
  ms_transport :: string
  ms_credential_ref :: "string option"
  ms_timeout_seconds :: pyfloat
  ms_max_result_bytes :: nat
  ms_session_mode :: string
  ms_capability_digest :: "string option"

type_synonym McpServerRegistry = "(string, McpServerConfig) dict"

record McpSession =
  se_server_name :: string
  se_session_id :: string
  se_protocol_version :: string
  se_capabilities :: obj
  se_capability_digest :: string

text \<open>\<open>"servers" in data\<close> also holds for lists and strings, which no registry is validated from.\<close>

definition load_mcp_registry ::
  "(string \<Rightarrow> py_exc + json) \<Rightarrow> (json \<Rightarrow> py_exc + McpServerRegistry) \<Rightarrow> environ \<Rightarrow> py_exc + McpServerRegistry" where
  "load_mcp_registry loads decode env =
     (let raw = strip (getenv env ''MCP_SERVER_REGISTRY'' []) in
      if raw = [] then Inr []
      else bind_exc (loads raw) (\<lambda>data.
        case data of
          JObj d \<Rightarrow> if ''servers'' \<in> keys d then decode (jget d ''servers'') else decode data
        | JArr xs \<Rightarrow> Inl ValueError
        | JStr s \<Rightarrow> Inl ValueError
        | _ \<Rightarrow> Inl TypeError))"

text \<open>A \<open>ValueError\<close> is carried as its message.\<close>

definition resolve_credential :: "environ \<Rightarrow> string option \<Rightarrow> string + string option" where
  "resolve_credential env ref =
     (case ref of
        None \<Rightarrow> Inr None
      | Some r \<Rightarrow>
          if r = [] then Inr None
          else if startswith r ''env:'' then
            (let name = strip (removeprefix r ''env:'') in
             if name = [] then Inl ''empty credential env name''
             else let value = strip (getenv env name []) in
               if value = [] then Inl (''credential env '' @ name @ '' is empty'') else Inr (Some value))
          else if startswith r ''vault://'' then Inl ''vault credential refs require a sidecar injector; use env:NAME''
          else Inl ''unsupported credential ref; use env:NAME'')"

subsection \<open>The outside world\<close>

record mcp_call =
  mc_method :: string
  mc_url :: string
  mc_headers :: "(string, string) dict"
  mc_body :: "obj option"

text \<open>
  \<open>me_loads\<close> is \<open>json.loads\<close> on text and \<open>me_json\<close> a response's \<open>json()\<close>, \<open>None\<close> where they raise a
  \<open>ValueError\<close>.
\<close>

text \<open>
  An answer, an \<open>httpx.HTTPError\<close> with its text, or another exception of the client. The names of
  an answer's headers are in lower case (\<open>httpx\<close> looks them up in any case).
\<close>

datatype mcp_reply = McpTransportError string | McpOtherError py_exc | McpReply int "(string, string) dict" string

record 'w mcp_env =
  me_environ :: environ
  me_package_version :: "string option"
  me_uuid :: "nat \<Rightarrow> string"
  me_loads :: "string \<Rightarrow> json option"
  me_json :: "string \<Rightarrow> json option"
  me_decode :: "string \<Rightarrow> string"
  me_dumps :: "json \<Rightarrow> string"
  me_sorted_dumps :: "json \<Rightarrow> string"
  me_sha256_hex :: "string \<Rightarrow> string"
  me_rep :: "json \<Rightarrow> string"
  me_status_text :: "int \<Rightarrow> string"
  me_post :: "mcp_call \<Rightarrow> 'w \<Rightarrow> mcp_reply \<times> 'w"

record 'w mcp_state =
  mcp_sessions :: "(string, McpSession) dict"
  mcp_world :: 'w
  mcp_calls :: "mcp_call list"
  mcp_serial :: nat

text \<open>The exceptions the handlers tell apart: \<open>HTTPException\<close>, \<open>httpx.HTTPError\<close>, \<open>ValueError\<close>.\<close>

datatype mcp_exc = McpHttp HTTPException | McpHttpx string | McpValue string | McpRaised py_exc

type_synonym ('w, 'a) mcp = "(mcp_exc, 'w mcp_state, 'a) comp"

definition new_id :: "'w mcp_env \<Rightarrow> ('w, string) mcp" where
  "new_id env = (\<lambda>s. (Inr (me_uuid env (mcp_serial s)), s\<lparr>mcp_serial := mcp_serial s + 1\<rparr>))"

definition send :: "'w mcp_env \<Rightarrow> mcp_call \<Rightarrow> ('w, mcp_reply) mcp" where
  "send env call = (\<lambda>s. case me_post env call (mcp_world s) of
     (r, w) \<Rightarrow> (Inr r, s\<lparr>mcp_world := w, mcp_calls := mcp_calls s @ [call]\<rparr>))"

definition put_session :: "McpSession \<Rightarrow> ('w, unit) mcp" where
  "put_session session = update (\<lambda>s. s\<lparr>mcp_sessions := dict_set (se_server_name session) session (mcp_sessions s)\<rparr>)"

definition get_session :: "string \<Rightarrow> ('w, McpSession option) mcp" where
  "get_session name = asking (\<lambda>s. dict_get (mcp_sessions s) name)"

subsection \<open>Results and digests\<close>

definition compute_capability_digest :: "'w mcp_env \<Rightarrow> obj \<Rightarrow> string" where
  "compute_capability_digest env capabilities = ''sha256:'' @ me_sha256_hex env (me_sorted_dumps env (JObj capabilities))"

definition truncate_result :: "'w mcp_env \<Rightarrow> json \<Rightarrow> nat \<Rightarrow> json \<times> bool" where
  "truncate_result env payload max_bytes =
     (let encoded = me_dumps env payload in
      if length encoded \<le> max_bytes then (payload, False)
      else (JObj [(''truncated'', JBool True), (''message'', JStr ''MCP tool result exceeded max_result_bytes''),
              (''max_result_bytes'', JInt (int max_bytes)), (''preview'', JStr (take (min 512 max_bytes) encoded))], True))"

subsection \<open>Reading an answer\<close>

definition newline :: char where
  "newline = CHR 0x0A"

text \<open>The JSON-RPC message in the data lines of one event, if they hold one.\<close>

definition event_message :: "(string \<Rightarrow> json option) \<Rightarrow> string list \<Rightarrow> obj option" where
  "event_message loads data_lines =
     (let blob = strip (join_with newline data_lines) in
      if blob = [] \<or> blob = ''[DONE]'' then None
      else (case loads blob of Some (JObj d) \<Rightarrow> Some d | _ \<Rightarrow> None))"

definition later :: "'a option \<Rightarrow> 'a option \<Rightarrow> 'a option" where
  "later new old = (case new of Some x \<Rightarrow> Some x | None \<Rightarrow> old)"

definition sse_line :: "(string \<Rightarrow> json option) \<Rightarrow> string \<Rightarrow> obj option \<times> string list \<Rightarrow> obj option \<times> string list" where
  "sse_line loads raw_line = (\<lambda>(last_seen, data_lines).
     let line = rstrip_char (CHR 0x0D) raw_line in
     if startswith line ''data:'' then (last_seen, data_lines @ [lstrip (drop 5 line)])
     else if line = [] \<and> data_lines \<noteq> [] then (later (event_message loads data_lines) last_seen, [])
     else (last_seen, data_lines))"

definition parse_sse_jsonrpc :: "(string \<Rightarrow> json option) \<Rightarrow> string \<Rightarrow> string + obj" where
  "parse_sse_jsonrpc loads text =
     (case fold (sse_line loads) (splitlines text) (None, []) of
        (last_seen, data_lines) \<Rightarrow>
          (case (if data_lines \<noteq> [] then later (event_message loads data_lines) last_seen else last_seen) of
             None \<Rightarrow> Inl ''MCP SSE stream contained no JSON-RPC message''
           | Some d \<Rightarrow> Inr d))"

definition parse_mcp_response_body :: "'w mcp_env \<Rightarrow> string \<Rightarrow> string \<Rightarrow> string + obj" where
  "parse_mcp_response_body env content_type body =
     (let ctype = lower content_type; text = strip (me_decode env body) in
      if contains ''text/event-stream'' ctype \<or> startswith text ''event:'' \<or> startswith text ''data:''
      then parse_sse_jsonrpc (me_loads env) text
      else (case me_loads env text of
              None \<Rightarrow> Inl ''MCP server returned non-JSON body''
            | Some (JObj d) \<Rightarrow> Inr d
            | Some _ \<Rightarrow> Inl ''MCP server returned non-object JSON''))"

subsection \<open>Calls\<close>

definition auth_headers :: "string option \<Rightarrow> (string, string) dict" where
  "auth_headers token =
     (let h = [(''Content-Type'', ''application/json''), (''Accept'', ''application/json, text/event-stream'')] in
      case token of Some t \<Rightarrow> if t \<noteq> [] then dict_set ''Authorization'' (''Bearer '' @ t) h else h | None \<Rightarrow> h)"

definition server_url :: "McpServerConfig \<Rightarrow> string" where
  "server_url server = rstrip_char (CHR ''/'') (ms_url server)"

definition post_call :: "string \<Rightarrow> (string, string) dict \<Rightarrow> obj \<Rightarrow> mcp_call" where
  "post_call url headers body = \<lparr>mc_method = ''POST'', mc_url = url, mc_headers = headers, mc_body = Some body\<rparr>"

text \<open>\<open>_post_rpc\<close>: \<open>raise_for_status\<close> accepts the codes of success only.\<close>

definition post_rpc :: "'w mcp_env \<Rightarrow> string \<Rightarrow> (string, string) dict \<Rightarrow> obj \<Rightarrow> ('w, (string, string) dict \<times> obj) mcp" where
  "post_rpc env url headers body =
     andthen (send env (post_call url headers body)) (\<lambda>reply.
     case reply of
       McpTransportError e \<Rightarrow> throw (McpHttpx e)
     | McpOtherError e \<Rightarrow> throw (McpRaised e)
     | McpReply status h content \<Rightarrow>
         if \<not> (200 \<le> status \<and> status < 300) then throw (McpHttpx (me_status_text env status))
         else (case parse_mcp_response_body env (get_default h ''content-type'' []) content of
                 Inl e \<Rightarrow> throw (McpValue e)
               | Inr payload \<Rightarrow> give (h, payload)))"

definition mcp_error :: "int \<Rightarrow> string \<Rightarrow> string \<Rightarrow> obj \<Rightarrow> obj \<Rightarrow> mcp_exc" where
  "mcp_error status code message info extra =
     McpHttp \<lparr>he_status = status,
       he_detail = JObj ((''error'', JObj ([(''type'', JStr ''api_error''), (''code'', JStr code), (''message'', JStr message)] @ info)) # extra),
       he_headers = []\<rparr>"

definition server_not_found :: "string \<Rightarrow> mcp_exc" where
  "server_not_found name = mcp_error 404 ''mcp_server_not_found'' (''MCP server '' @ [CHR 0x27] @ name @ [CHR 0x27] @ '' is not registered'') [] []"

text \<open>\<open>except httpx.HTTPError\<close> and \<open>except ValueError\<close> around a call.\<close>

definition rpc_failure :: "mcp_exc \<Rightarrow> bool" where
  "rpc_failure e = (case e of McpHttpx x \<Rightarrow> True | McpValue x \<Rightarrow> True | _ \<Rightarrow> False)"

definition rpc_failed :: "string \<Rightarrow> obj \<Rightarrow> mcp_exc \<Rightarrow> ('w, 'a) mcp" where
  "rpc_failed message extra e =
     throw (case e of
              McpHttpx x \<Rightarrow> mcp_error 502 ''mcp_upstream_unavailable'' message [] ((''reason'', JStr x) # extra)
            | McpValue x \<Rightarrow> mcp_error 502 ''mcp_invalid_response'' x [] extra
            | _ \<Rightarrow> e)"

definition credential_of :: "'w mcp_env \<Rightarrow> McpServerConfig \<Rightarrow> ('w, string option) mcp" where
  "credential_of env server =
     (case resolve_credential (me_environ env) (ms_credential_ref server) of
        Inl e \<Rightarrow> throw (mcp_error 503 ''mcp_credential_unavailable'' e [] [])
      | Inr token \<Rightarrow> give token)"

subsection \<open>Sessions\<close>

definition init_body :: "'w mcp_env \<Rightarrow> string \<Rightarrow> obj" where
  "init_body env rpc_id =
     [(''jsonrpc'', JStr ''2.0''), (''id'', JStr rpc_id), (''method'', JStr ''initialize''),
      (''params'', JObj [(''protocolVersion'', JStr ''2024-11-05''), (''capabilities'', JObj [(''tools'', JObj [])]),
         (''clientInfo'', JObj [(''name'', JStr ''ai-runtime-platform''), (''version'', JStr (runtime_version (me_environ env) (me_package_version env)))])])]"

definition notify_body :: obj where
  "notify_body = [(''jsonrpc'', JStr ''2.0''), (''method'', JStr ''notifications/initialized''), (''params'', JObj [])]"

definition digest_mismatch :: "McpServerConfig \<Rightarrow> string \<Rightarrow> bool" where
  "digest_mismatch server digest =
     (case ms_capability_digest server of None \<Rightarrow> False | Some d \<Rightarrow> d \<noteq> [] \<and> d \<noteq> digest)"

text \<open>The best-effort notification: only an \<open>httpx.HTTPError\<close> of it is suppressed.\<close>

definition notify_initialized :: "'w mcp_env \<Rightarrow> McpServerConfig \<Rightarrow> (string, string) dict \<Rightarrow> ('w, unit) mcp" where
  "notify_initialized env server headers =
     andthen (send env (post_call (server_url server) headers notify_body)) (\<lambda>reply.
     case reply of McpOtherError e \<Rightarrow> throw (McpRaised e) | _ \<Rightarrow> give ())"

definition open_session :: "'w mcp_env \<Rightarrow> string \<Rightarrow> McpServerConfig \<Rightarrow> ('w, McpSession) mcp" where
  "open_session env name server =
     andthen (credential_of env server) (\<lambda>token.
     andthen (new_id env) (\<lambda>rpc_id.
     andthen (catching rpc_failure (post_rpc env (server_url server) (auth_headers token) (init_body env rpc_id))
                (rpc_failed ''MCP initialize failed'' [])) (\<lambda>(h, payload).
     case dict_get payload ''error'' of
       Some e \<Rightarrow> throw (mcp_error 502 ''mcp_initialize_error'' (py_str (me_rep env) e) [] [])
     | None \<Rightarrow>
         (let result = obj_of (jget payload ''result''); capabilities = obj_of (jget result ''capabilities'');
              digest = compute_capability_digest env capabilities in
          if digest_mismatch server digest
          then throw (mcp_error 409 ''mcp_capability_digest_mismatch'' ''MCP server capabilities do not match configured digest''
                 [(''expected'', JStr (case ms_capability_digest server of Some d \<Rightarrow> d | None \<Rightarrow> [])), (''actual'', JStr digest)] [])
          else
            andthen (if get_default h ''mcp-session-id'' [] \<noteq> [] then give (get_default h ''mcp-session-id'' [])
                     else if py_bool (jget result ''sessionId'') then give (py_str (me_rep env) (jget result ''sessionId''))
                     else new_id env) (\<lambda>session_id.
            (let session = \<lparr>se_server_name = name, se_session_id = session_id,
                   se_protocol_version = py_str (me_rep env) (py_or (jget result ''protocolVersion'') (JStr ''2024-11-05'')),
                   se_capabilities = capabilities, se_capability_digest = digest\<rparr> in
             andthen (put_session session) (\<lambda>_.
             andthen (notify_initialized env server (dict_set ''Mcp-Session-Id'' session_id (auth_headers token))) (\<lambda>_.
             give session))))))))"

definition initialize_mcp_session ::
  "'w mcp_env \<Rightarrow> McpServerRegistry \<Rightarrow> string \<Rightarrow> bool \<Rightarrow> ('w, McpSession) mcp" where
  "initialize_mcp_session env registry name force =
     (case dict_get registry name of
        None \<Rightarrow> throw (server_not_found name)
      | Some server \<Rightarrow>
          andthen (get_session name) (\<lambda>existing.
          case existing of
            Some session \<Rightarrow> if force then open_session env name server else give session
          | None \<Rightarrow> open_session env name server))"

subsection \<open>Cancelling and executing\<close>

definition cancel_mcp_request ::
  "'w mcp_env \<Rightarrow> McpServerRegistry \<Rightarrow> string \<Rightarrow> string \<Rightarrow> ('w, obj) mcp" where
  "cancel_mcp_request env registry name request_id =
     (case dict_get registry name of
        None \<Rightarrow> throw (server_not_found name)
      | Some server \<Rightarrow>
          andthen (credential_of env server) (\<lambda>token.
          andthen (get_session name) (\<lambda>session.
          (let headers = (case session of None \<Rightarrow> auth_headers token
                            | Some x \<Rightarrow> dict_set ''Mcp-Session-Id'' (se_session_id x) (auth_headers token));
               body = [(''jsonrpc'', JStr ''2.0''), (''method'', JStr ''notifications/cancelled''),
                  (''params'', JObj [(''requestId'', JStr request_id), (''reason'', JStr ''client cancelled'')])];
               failed = (\<lambda>e. throw (mcp_error 502 ''mcp_cancel_failed'' ''MCP cancellation failed'' [] [(''reason'', JStr e)]));
               answer = give [(''server'', JStr name), (''request_id'', JStr request_id), (''cancelled'', JBool True)] in
           andthen (send env (post_call (server_url server) headers body)) (\<lambda>reply.
           case reply of
             McpTransportError e \<Rightarrow> failed e
           | McpOtherError e \<Rightarrow> throw (McpRaised e)
           | McpReply status h content \<Rightarrow>
               if 400 \<le> status \<and> session \<noteq> None then
                 andthen (send env \<lparr>mc_method = ''DELETE'', mc_url = server_url server, mc_headers = headers, mc_body = None\<rparr>) (\<lambda>deleted.
                 case deleted of
                   McpTransportError e \<Rightarrow> failed e | McpOtherError e \<Rightarrow> throw (McpRaised e) | McpReply _ _ _ \<Rightarrow> answer)
               else answer)))))"

definition wants_session :: "McpServerConfig \<Rightarrow> bool" where
  "wants_session server =
     (let mode = lower (str_or (ms_session_mode server) ''auto'') in
      if mode = ''always'' then True
      else if mode = ''never'' then False
      else ms_transport server \<in> {''streamable-http'', ''sse''})"

definition call_body :: "string \<Rightarrow> string \<Rightarrow> obj \<Rightarrow> string option \<Rightarrow> obj" where
  "call_body rpc_id tool arguments progress_token =
     (let params = [(''name'', JStr tool), (''arguments'', JObj arguments)];
          params = (case progress_token of
              Some t \<Rightarrow> if t \<noteq> [] then dict_set ''_meta'' (JObj [(''progressToken'', JStr t)]) params else params
            | None \<Rightarrow> params)
      in [(''jsonrpc'', JStr ''2.0''), (''id'', JStr rpc_id), (''method'', JStr ''tools/call''), (''params'', JObj params)])"

text \<open>A server that answers with a new session id moves the session to it.\<close>

definition rotate_session :: "(string, string) dict \<Rightarrow> McpSession option \<Rightarrow> ('w, McpSession option) mcp" where
  "rotate_session h session =
     (case session of
        None \<Rightarrow> give None
      | Some x \<Rightarrow>
          if get_default h ''mcp-session-id'' [] = [] then give session
          else let x = x\<lparr>se_session_id := get_default h ''mcp-session-id'' []\<rparr> in
            andthen (put_session x) (\<lambda>_. give (Some x)))"

definition tool_result ::
  "'w mcp_env \<Rightarrow> string \<Rightarrow> McpServerConfig \<Rightarrow> string \<Rightarrow> string \<Rightarrow> McpSession option \<Rightarrow> (string, string) dict \<Rightarrow> obj \<Rightarrow> obj" where
  "tool_result env name server tool rpc_id session h payload =
     (case truncate_result env (get_default payload ''result'' (JObj payload)) (ms_max_result_bytes server) of
        (filtered, truncated) \<Rightarrow>
          [(''server'', JStr name), (''tool'', JStr tool), (''transport'', JStr (ms_transport server)), (''result'', filtered),
           (''truncated'', JBool truncated), (''credential_ref'', jstr_opt (ms_credential_ref server)),
           (''mcp_request_id'', JStr rpc_id), (''session_id'', jstr_opt (map_option se_session_id session)),
           (''capability_digest'', jstr_opt (map_option se_capability_digest session)),
           (''response_content_type'', jstr_opt (dict_get h ''content-type''))])"

definition execute_mcp_tool ::
  "'w mcp_env \<Rightarrow> McpServerRegistry \<Rightarrow> string \<Rightarrow> string \<Rightarrow> obj \<Rightarrow> string option \<Rightarrow> ('w, obj) mcp" where
  "execute_mcp_tool env registry name tool arguments progress_token =
     (case dict_get registry name of
        None \<Rightarrow> throw (server_not_found name)
      | Some server \<Rightarrow>
          if ms_transport server \<notin> {''http'', ''streamable-http'', ''sse''}
          then throw (mcp_error 501 ''mcp_transport_unsupported''
                 (''MCP transport '' @ [CHR 0x27] @ ms_transport server @ [CHR 0x27] @ '' is not supported'') [] [])
          else
            andthen (credential_of env server) (\<lambda>token.
            andthen (if wants_session server
                     then andthen (initialize_mcp_session env registry name False) (\<lambda>x. give (Some x))
                     else give None) (\<lambda>session.
            andthen (new_id env) (\<lambda>rpc_id.
            (let headers = (case session of None \<Rightarrow> auth_headers token
                              | Some x \<Rightarrow> dict_set ''Mcp-Session-Id'' (se_session_id x) (auth_headers token)) in
             andthen (catching rpc_failure
                        (post_rpc env (server_url server) headers (call_body rpc_id tool arguments progress_token))
                        (rpc_failed ''MCP server unavailable'' [(''mcp_request_id'', JStr rpc_id)])) (\<lambda>(h, payload).
             andthen (rotate_session h session) (\<lambda>session.
             case dict_get payload ''error'' of
               Some e \<Rightarrow> throw (mcp_error 502 ''mcp_tool_error'' (py_str (me_rep env) e) [] [(''mcp_request_id'', JStr rpc_id)])
             | None \<Rightarrow> give (tool_result env name server tool rpc_id session h payload))))))))"

end
