(* ===== verification/Mcp.thy ===== *)
theory Mcp imports Mcp_Transport begin

text \<open>
  Governed tool calls: \<open>app/gateway/mcp.py\<close> (what is asked of the control plane about a tool call
  and what its verdict does), \<open>app/gateway/intent.py\<close> (the intent proxy) and
  \<open>app/gateway/routers/mcp.py\<close> (the endpoints). The handlers run on the transport's state: the
  control plane is called with the same HTTP client, so its calls are in the same trace. Request
  bodies arrive as decoded JSON, \<open>None\<close> for a body that is not JSON. Metrics are left out.
\<close>

record 'w mcp_app =
  ma_env :: "'w mcp_env"
  ma_libs :: jwt_libs
  ma_governance :: "GovernanceConfig option"
  ma_registry :: "py_exc + McpServerRegistry"

definition lift_exc :: "(py_exc + HTTPException) + 'a \<Rightarrow> ('w, 'a) mcp" where
  "lift_exc r = (case r of Inl (Inl e) \<Rightarrow> throw (McpRaised e) | Inl (Inr e) \<Rightarrow> throw (McpHttp e) | Inr x \<Rightarrow> give x)"

definition raise_detail :: "int \<Rightarrow> obj \<Rightarrow> ('w, 'a) mcp" where
  "raise_detail status detail = throw (McpHttp \<lparr>he_status = status, he_detail = JObj detail, he_headers = []\<rparr>)"

subsection \<open>Asking the control plane\<close>

text \<open>\<open>str(v).lower() in {"1", "true", "yes"}\<close>, without stripping.\<close>

definition says_yes :: "(json \<Rightarrow> string) \<Rightarrow> json \<Rightarrow> bool" where
  "says_yes rep v = (lower (py_str rep v) \<in> set truthy_words)"

definition build_tool_evaluate_payload ::
  "(json \<Rightarrow> string) \<Rightarrow> jwt_libs \<Rightarrow> environ \<Rightarrow> GovernanceConfig \<Rightarrow> Request \<Rightarrow> string \<Rightarrow> obj \<Rightarrow> (py_exc + HTTPException) + obj" where
  "build_tool_evaluate_payload rep lib env config r tool payload =
     bind_exc (resolve_workload_identity rep lib env (gc_defaults config) r) (\<lambda>(identity, r').
       Inr [(''subject'', JStr (subject identity)), (''groups'', JArr (map JStr (groups identity))),
            (''policy_pack'', JStr (policy_pack identity)), (''team'', JStr (team identity)), (''owner'', JStr (owner identity)),
            (''environment'', JStr (environment identity)), (''namespace'', JStr (namespace identity)),
            (''agent'', JStr (claim_or_hint rep (is_trusted_proxy_enabled env) r (id_claims identity) ''agent'' ''x-ai-agent'')),
            (''tool'', JStr tool), (''action'', JStr (py_str rep (py_or (jget payload ''action'') (JStr ''invoke'')))),
            (''mcp_server'', JStr (py_str rep (py_or (jget payload ''mcp_server'') (JStr [])))),
            (''write_permission'', JBool (claim_flag identity [''write_permission'', ''ai_write_permission''])),
            (''untrusted_context'', JObj
               [(''write_permission'', JBool (says_yes rep (get_default payload ''write_permission'' (JStr []))
                   \<or> header_bool r ''x-ai-write-permission'')),
                (''identity_source'', JStr (source identity))])])"

definition tool_headers :: "(json \<Rightarrow> string) \<Rightarrow> Request \<Rightarrow> obj \<Rightarrow> (string, string) dict" where
  "tool_headers rep r body =
     add_nonempty ''x-ai-agent'' (py_str rep (py_or (jget body ''agent'') (JStr [])))
    (add_nonempty ''x-ai-approval-id'' (strip (header r ''x-ai-approval-id''))
    (add_nonempty ''authorization'' (strip (header r ''authorization''))
    (add_nonempty ''x-request-id'' (header r ''x-request-id'') [])))"

text \<open>The answer to a call of the control plane, read as JSON: an \<open>httpx.HTTPError\<close> is \<open>Inl\<close> with its text.\<close>

definition plane_answer :: "'w mcp_env \<Rightarrow> mcp_reply \<Rightarrow> string + (py_exc + json)" where
  "plane_answer env reply =
     (case reply of
        McpTransportError e \<Rightarrow> Inl e
      | McpOtherError e \<Rightarrow> Inr (Inl e)
      | McpReply status h content \<Rightarrow>
          if \<not> (200 \<le> status \<and> status < 300) then Inl (me_status_text env status)
          else (case me_json env content of None \<Rightarrow> Inr (Inl ValueError) | Some j \<Rightarrow> Inr (Inr j)))"

definition tool_verdict :: "'w mcp_env \<Rightarrow> obj \<Rightarrow> string" where
  "tool_verdict env result = py_str (me_rep env) (get_default result ''final_verdict'' (JStr ''unknown''))"

definition apply_tool_verdict :: "'w mcp_env \<Rightarrow> obj \<Rightarrow> ('w, obj option) mcp" where
  "apply_tool_verdict env result =
     (let rep = me_rep env in
      if tool_verdict env result = ''block'' then
        throw (McpHttp (governance_error rep 403 ''tool_governance_blocked'' ''tool governance blocked the request'' result None []))
      else if tool_verdict env result = ''approval_required'' then
        throw (McpHttp (governance_error rep 409 ''tool_governance_approval_required'' ''tool governance approval required'' result None
          ((if py_bool (jget result ''approval_id'') then [(''x-ai-approval-id'', py_str rep (jget result ''approval_id''))] else [])
           @ (if py_bool (jget result ''decision_id'') then [(''x-ai-decision-id'', py_str rep (jget result ''decision_id''))] else []))))
      else give (Some result))"

definition evaluate_tool_call :: "'w mcp_env \<Rightarrow> GovernanceConfig \<Rightarrow> Request \<Rightarrow> obj \<Rightarrow> mcp_call" where
  "evaluate_tool_call env config r body =
     post_call (gc_control_plane_url config @ ''/governance/evaluate-tool'') (tool_headers (me_rep env) r body) body"

definition enforce_tool_governance ::
  "'w mcp_env \<Rightarrow> jwt_libs \<Rightarrow> GovernanceConfig \<Rightarrow> Request \<Rightarrow> string \<Rightarrow> obj \<Rightarrow> ('w, obj option) mcp" where
  "enforce_tool_governance env lib config r tool payload =
     (let rep = me_rep env in
      if gc_mode config = disabled_mode \<or> \<not> gc_enabled config then give None
      else if misconfigured config then
        throw (McpHttp (governance_error rep 503 ''governance_misconfigured''
          ''GOVERNANCE_MODE=enforce requires CONTROL_PLANE_URL; set GOVERNANCE_MODE=disabled explicitly to skip enforcement''
          [(''final_verdict'', JStr ''misconfigured''), (''reasons'', JArr []), (''stages'', JObj [])] None []))
      else
        andthen (lift_exc (build_tool_evaluate_payload rep lib (me_environ env) config r tool payload)) (\<lambda>body.
        andthen (send env (evaluate_tool_call env config r body)) (\<lambda>reply.
        case plane_answer env reply of
          Inl e \<Rightarrow>
            if gc_fail_open config then give None
            else throw (McpHttp \<lparr>he_status = 503,
                he_detail = JObj (governance_detail rep ''tool_control_plane_unavailable'' ''tool governance control plane unavailable''
                  [(''final_verdict'', JStr ''control_plane_error''), (''reasons'', JArr []), (''stages'', JObj [])]
                  (Some (gc_control_plane_url config)) (Some e)),
                he_headers = []\<rparr>)
        | Inr (Inl e) \<Rightarrow> throw (McpRaised e)
        | Inr (Inr (JObj result)) \<Rightarrow> apply_tool_verdict env result
        | Inr (Inr _) \<Rightarrow> throw (McpRaised (OtherError ''AttributeError'')))))"

definition governed_tool_response :: "string \<Rightarrow> obj \<Rightarrow> obj option \<Rightarrow> obj option \<Rightarrow> obj" where
  "governed_tool_response tool payload governance_result execution =
     (let action = get_default payload ''action'' (JStr ''invoke''); arguments = get_default payload ''arguments'' (JObj []);
          governance = (case governance_result of
              Some g \<Rightarrow> if g \<noteq> [] then JObj g else JObj [(''final_verdict'', JStr ''skipped'')]
            | None \<Rightarrow> JObj [(''final_verdict'', JStr ''skipped'')])
      in case execution of
           Some x \<Rightarrow> [(''tool'', JStr tool), (''action'', action), (''status'', JStr ''executed''), (''arguments'', arguments),
             (''governance'', governance), (''execution'', JObj x)]
         | None \<Rightarrow> [(''tool'', JStr tool), (''action'', action), (''status'', JStr ''governed_allowed''),
             (''message'', JStr ''Tool call allowed by control plane, but no MCP server was registered for execution (set MCP_SERVER_REGISTRY).''),
             (''arguments'', arguments), (''governance'', governance)])"

subsection \<open>The endpoints\<close>

definition allow_ungoverned_mcp :: "environ \<Rightarrow> bool" where
  "allow_ungoverned_mcp env = env_flag (getenv env ''MCP_ALLOW_UNGOVERNED'' [])"

text \<open>A control plane the proxies can use: configured, and governance not disabled.\<close>

definition plane_for :: "'w mcp_app \<Rightarrow> GovernanceConfig option" where
  "plane_for app =
     (case ma_governance app of
        None \<Rightarrow> None
      | Some g \<Rightarrow> if gc_mode g = disabled_mode \<or> gc_control_plane_url g = [] then None else Some g)"

definition read_body :: "json option \<Rightarrow> ('w, json) mcp" where
  "read_body body = (case body of None \<Rightarrow> throw (McpRaised ValueError) | Some j \<Rightarrow> give j)"

definition need_role :: "'w mcp_app \<Rightarrow> Request \<Rightarrow> string list \<Rightarrow> ('w, unit) mcp" where
  "need_role app r allowed =
     lift_exc (map_sum Inr id (require_any_role (me_rep (ma_env app)) (me_environ (ma_env app)) r allowed))"

definition the_registry :: "'w mcp_app \<Rightarrow> ('w, McpServerRegistry) mcp" where
  "the_registry app = lift_exc (map_sum Inl id (ma_registry app))"

definition mcp_tools :: "'w mcp_app \<Rightarrow> ('w, json) mcp" where
  "mcp_tools app =
     (case plane_for app of
        None \<Rightarrow> raise_detail 503 [(''error'', JStr ''CONTROL_PLANE_URL is required for MCP tool catalog'')]
      | Some g \<Rightarrow>
          andthen (send (ma_env app) \<lparr>mc_method = ''GET'', mc_url = gc_control_plane_url g @ ''/registry/tools'', mc_headers = [],
                     mc_body = None\<rparr>) (\<lambda>reply.
          case plane_answer (ma_env app) reply of
            Inl e \<Rightarrow> throw (McpHttpx e) | Inr (Inl e) \<Rightarrow> throw (McpRaised e) | Inr (Inr j) \<Rightarrow> give j))"

definition server_row :: "(string, McpSession) dict \<Rightarrow> string \<times> McpServerConfig \<Rightarrow> string \<times> json" where
  "server_row sessions = (\<lambda>(name, cfg).
     (name, JObj [(''url'', JStr (ms_url cfg)), (''transport'', JStr (ms_transport cfg)),
        (''credential_ref'', jstr_opt (ms_credential_ref cfg)), (''timeout_seconds'', JFloat (ms_timeout_seconds cfg)),
        (''max_result_bytes'', JInt (int (ms_max_result_bytes cfg))), (''session_mode'', JStr (ms_session_mode cfg)),
        (''capability_digest'', jstr_opt (ms_capability_digest cfg)),
        (''active_session_id'', jstr_opt (map_option se_session_id (dict_get sessions name)))]))"

definition mcp_servers :: "'w mcp_app \<Rightarrow> Request \<Rightarrow> ('w, obj) mcp" where
  "mcp_servers app r =
     andthen (need_role app r MCP_SERVERS_ROLES) (\<lambda>_.
     andthen (the_registry app) (\<lambda>registry.
     andthen (asking mcp_sessions) (\<lambda>sessions.
     give [(''servers'', JObj (map (server_row sessions) registry))])))"

definition mcp_server_initialize :: "'w mcp_app \<Rightarrow> Request \<Rightarrow> string \<Rightarrow> ('w, obj) mcp" where
  "mcp_server_initialize app r name =
     andthen (need_role app r MCP_SERVERS_ROLES) (\<lambda>_.
     andthen (the_registry app) (\<lambda>registry.
     andthen (initialize_mcp_session (ma_env app) registry name True) (\<lambda>session.
     give [(''server'', JStr name), (''session_id'', JStr (se_session_id session)),
           (''protocol_version'', JStr (se_protocol_version session)),
           (''capability_digest'', JStr (se_capability_digest session)), (''capabilities'', JObj (se_capabilities session))])))"

definition mcp_server_cancel :: "'w mcp_app \<Rightarrow> Request \<Rightarrow> string \<Rightarrow> json option \<Rightarrow> ('w, obj) mcp" where
  "mcp_server_cancel app r name body =
     andthen (need_role app r MCP_SERVERS_ROLES) (\<lambda>_.
     andthen (read_body body) (\<lambda>payload.
     if py_bool (jget (obj_of payload) ''request_id'') then
       andthen (the_registry app) (\<lambda>registry.
       cancel_mcp_request (ma_env app) registry name (py_str (me_rep (ma_env app)) (jget (obj_of payload) ''request_id'')))
     else raise_detail 422 [(''error'', JObj [(''type'', JStr ''invalid_request_error''), (''code'', JStr ''mcp_request_id_required''),
       (''message'', JStr ''body.request_id is required'')])]))"

text \<open>The name of the server a call is for, from the body.\<close>

definition named_server :: "(json \<Rightarrow> string) \<Rightarrow> obj \<Rightarrow> string" where
  "named_server rep payload =
     strip (py_str rep (py_or (py_or (jget payload ''mcp_server'') (jget payload ''server'')) (JStr [])))"

definition governance_usable :: "'w mcp_app \<Rightarrow> bool" where
  "governance_usable app =
     (case ma_governance app of None \<Rightarrow> False | Some g \<Rightarrow> gc_mode g = enforce_mode \<and> gc_control_plane_url g \<noteq> [])"

definition audit_call :: "GovernanceConfig \<Rightarrow> string \<Rightarrow> string \<Rightarrow> obj option \<Rightarrow> obj \<Rightarrow> mcp_call" where
  "audit_call g tool server governance_result execution =
     (let verdict = (case governance_result of None \<Rightarrow> [] | Some x \<Rightarrow> x) in
      post_call (gc_control_plane_url g @ ''/governance/audit-tool'') []
        [(''tool'', JStr tool), (''server'', JStr server), (''verdict'', get_default verdict ''final_verdict'' (JStr ''allow'')),
         (''truncated'', get_default execution ''truncated'' (JBool False)), (''decision_id'', jget verdict ''decision_id''),
         (''policy_digest'', jget verdict ''policy_digest''), (''request_digest'', jget verdict ''request_digest''),
         (''mcp_request_id'', jget execution ''mcp_request_id''), (''session_id'', jget execution ''session_id''),
         (''capability_digest'', jget execution ''capability_digest''), (''credential_ref'', jget execution ''credential_ref''),
         (''transport'', jget execution ''transport'')])"

text \<open>The call itself and its audit record; every exception of the audit call is suppressed.\<close>

definition run_tool :: "'w mcp_app \<Rightarrow> string \<Rightarrow> string \<Rightarrow> obj \<Rightarrow> obj option \<Rightarrow> ('w, obj) mcp" where
  "run_tool app name tool payload governance_result =
     andthen (the_registry app) (\<lambda>registry.
     andthen (execute_mcp_tool (ma_env app) registry name tool (obj_of (jget payload ''arguments'')) None) (\<lambda>execution.
     andthen (case ma_governance app of
                None \<Rightarrow> give ()
              | Some g \<Rightarrow> andthen (send (ma_env app) (audit_call g tool name governance_result execution)) (\<lambda>_. give ())) (\<lambda>_.
     give execution)))"

definition mcp_tool_call :: "'w mcp_app \<Rightarrow> Request \<Rightarrow> string \<Rightarrow> json option \<Rightarrow> ('w, obj) mcp" where
  "mcp_tool_call app r tool body =
     andthen (read_body body) (\<lambda>j.
     case j of
       JObj payload \<Rightarrow>
         (let name = named_server (me_rep (ma_env app)) payload in
          if name \<noteq> [] \<and> \<not> governance_usable app \<and> \<not> allow_ungoverned_mcp (me_environ (ma_env app))
          then throw (mcp_error 503 ''mcp_governance_required''
            ''MCP execution requires CONTROL_PLANE_URL; set MCP_ALLOW_UNGOVERNED=true only for local demos'' [] [])
          else
            andthen (case ma_governance app of
                       None \<Rightarrow> give None
                     | Some g \<Rightarrow>
                         if gc_mode g = enforce_mode then enforce_tool_governance (ma_env app) (ma_libs app) g r tool payload
                         else give None) (\<lambda>governance_result.
            andthen (if name \<noteq> [] then andthen (run_tool app name tool payload governance_result) (\<lambda>x. give (Some x)) else give None)
              (\<lambda>execution.
            give (governed_tool_response tool payload governance_result execution))))
     | _ \<Rightarrow> raise_detail 422 [(''error'', JStr ''request body must be an object'')])"

subsection \<open>The intent proxy\<close>

definition build_intent_payload ::
  "(json \<Rightarrow> string) \<Rightarrow> jwt_libs \<Rightarrow> environ \<Rightarrow> GovernanceConfig \<Rightarrow> Request \<Rightarrow> json \<Rightarrow> (py_exc + HTTPException) + obj" where
  "build_intent_payload rep lib env config r payload =
     bind_exc (resolve_workload_identity rep lib env (gc_defaults config) r) (\<lambda>(identity, r').
     case payload of
       JObj p \<Rightarrow>
         Inr [(''message'', JStr (strip (py_str rep (get_default p ''message'' (JStr []))))),
              (''subject'', JStr (subject identity)), (''groups'', JArr (map JStr (groups identity))),
              (''policy_pack'', JStr (policy_pack identity)), (''team'', JStr (team identity)), (''owner'', JStr (owner identity)),
              (''environment'', JStr (environment identity)), (''namespace'', JStr (namespace identity)),
              (''region'', JStr (strip (header r ''x-ai-region''))),
              (''run_governance'', JBool (py_bool (get_default p ''run_governance'' (JBool True))))]
     | _ \<Rightarrow> Inl (Inl (OtherError ''AttributeError'')))"

definition resolve_intent :: "'w mcp_env \<Rightarrow> jwt_libs \<Rightarrow> GovernanceConfig \<Rightarrow> Request \<Rightarrow> json \<Rightarrow> ('w, json) mcp" where
  "resolve_intent env lib config r payload =
     andthen (lift_exc (build_intent_payload (me_rep env) lib (me_environ env) config r payload)) (\<lambda>body.
     if jget body ''message'' = JStr [] then raise_detail 400 [(''error'', JStr ''message is required'')]
     else
       andthen (send env (post_call (gc_control_plane_url config @ ''/intent/resolve'')
                  (add_nonempty ''x-ai-team'' (strip (header r ''x-ai-team''))
                  (add_nonempty ''x-ai-region'' (strip (header r ''x-ai-region''))
                  (add_nonempty ''authorization'' (strip (header r ''authorization'')) []))) body)) (\<lambda>reply.
       case plane_answer env reply of
         Inl e \<Rightarrow> raise_detail 503 [(''error'', JStr ''intent control plane unavailable''),
             (''control_plane_url'', JStr (gc_control_plane_url config)), (''reason'', JStr e)]
       | Inr (Inl e) \<Rightarrow> throw (McpRaised e)
       | Inr (Inr j) \<Rightarrow> give j))"

definition intent_resolve :: "'w mcp_app \<Rightarrow> Request \<Rightarrow> json option \<Rightarrow> ('w, json) mcp" where
  "intent_resolve app r body =
     andthen (read_body body) (\<lambda>payload.
     case plane_for app of
       None \<Rightarrow> raise_detail 503 [(''error'', JStr ''CONTROL_PLANE_URL is required for intent resolution'')]
     | Some g \<Rightarrow> resolve_intent (ma_env app) (ma_libs app) g r payload)"

end
