(* ===== verification/Mcp_Transport_Properties.thy ===== *)
theory Mcp_Transport_Properties imports Mcp_Transport begin

text \<open>
  Laws of the MCP transport: capability pins hold for every session, a credential is sent to its
  own server only, results are bounded, event streams are read to their last message, and a
  session the server has forgotten is never opened again.
\<close>

subsection \<open>Sessions and calls\<close>

text \<open>
  The payload a server answered to a call, and the capabilities it announced in its answer to an
  \<open>initialize\<close> sent to its address.
\<close>

definition rpc_answer :: "'w mcp_env \<Rightarrow> mcp_call \<Rightarrow> obj \<Rightarrow> bool" where
  "rpc_answer env call payload \<longleftrightarrow>
     (\<exists>w status h content. fst (me_post env call w) = McpReply status h content
        \<and> parse_mcp_response_body env (get_default h ''content-type'' []) content = Inr payload)"

definition announced :: "'w mcp_env \<Rightarrow> McpServerConfig \<Rightarrow> obj \<Rightarrow> bool" where
  "announced env server capabilities \<longleftrightarrow>
     (\<exists>h rpc_id payload. rpc_answer env (post_call (server_url server) h (init_body env rpc_id)) payload
        \<and> capabilities = obj_of (jget (obj_of (jget payload ''result'')) ''capabilities''))"

text \<open>
  A session stored under its server's name, with capabilities the server announced, their digest
  as its digest, and that digest the pinned one where the server has a pin.
\<close>

definition session_ok :: "'w mcp_env \<Rightarrow> McpServerRegistry \<Rightarrow> string \<Rightarrow> McpSession \<Rightarrow> bool" where
  "session_ok env registry name x \<longleftrightarrow>
     se_server_name x = name \<and> se_capability_digest x = compute_capability_digest env (se_capabilities x)
     \<and> (case dict_get registry name of
          None \<Rightarrow> False
        | Some server \<Rightarrow> announced env server (se_capabilities x)
            \<and> (case ms_capability_digest server of None \<Rightarrow> True | Some pin \<Rightarrow> pin = [] \<or> se_capability_digest x = pin))"

definition sessions_ok :: "'w mcp_env \<Rightarrow> McpServerRegistry \<Rightarrow> 'w mcp_state \<Rightarrow> bool" where
  "sessions_ok env registry s \<longleftrightarrow> (\<forall>(name, x)\<in>set (mcp_sessions s). session_ok env registry name x)"

text \<open>A call that goes to the server, with no credential but the server's own.\<close>

definition goes_to :: "'w mcp_env \<Rightarrow> McpServerConfig \<Rightarrow> mcp_call \<Rightarrow> bool" where
  "goes_to env server c =
     (mc_url c = server_url server
      \<and> (case dict_get (mc_headers c) ''Authorization'' of
           None \<Rightarrow> True
         | Some a \<Rightarrow> resolve_credential (me_environ env) (ms_credential_ref server) = Inr (Some (drop 7 a)) \<and> take 7 a = ''Bearer ''))"

text \<open>Since the trace \<open>cs\<close> only calls to the server of that name were made.\<close>

definition calls_to :: "'w mcp_env \<Rightarrow> McpServerRegistry \<Rightarrow> string \<Rightarrow> mcp_call list \<Rightarrow> 'w mcp_state \<Rightarrow> bool" where
  "calls_to env registry name cs s \<longleftrightarrow>
     (\<exists>new. mcp_calls s = cs @ new \<and> (\<forall>c\<in>set new. \<exists>server. dict_get registry name = Some server \<and> goes_to env server c))"

definition transport_ok :: "'w mcp_env \<Rightarrow> McpServerRegistry \<Rightarrow> string \<Rightarrow> mcp_call list \<Rightarrow> 'w mcp_state \<Rightarrow> bool" where
  "transport_ok env registry name cs s \<longleftrightarrow> sessions_ok env registry s \<and> calls_to env registry name cs s"

lemma keeps_new_id [triples]: "keeps (transport_ok env registry name cs) (new_id e)"
  by (simp add: keeps_iff new_id_def transport_ok_def sessions_ok_def calls_to_def)

lemma keeps_get_session [triples]: "keeps (transport_ok env registry name cs) (get_session name)"
  unfolding get_session_def by (rule keeps_asking)

lemma keeps_put_session:
  assumes "session_ok env registry (se_server_name x) x"
  shows "keeps (transport_ok env registry name cs) (put_session x)"
proof -
  have "sessions_ok env registry (s\<lparr>mcp_sessions := dict_set (se_server_name x) x (mcp_sessions s)\<rparr>)"
    if "sessions_ok env registry s" for s :: "'a mcp_state"
    using that assms set_dict_set [of "se_server_name x" x "mcp_sessions s"] by (auto simp: sessions_ok_def)
  then show ?thesis by (auto simp: keeps_iff put_session_def update_def transport_ok_def calls_to_def)
qed

lemma keeps_mcp_send:
  assumes "dict_get registry name = Some server" and "goes_to env server call"
  shows "keeps (transport_ok env registry name cs) (send env call)"
proof -
  have "calls_to env registry name cs (s\<lparr>mcp_world := w, mcp_calls := mcp_calls s @ [call]\<rparr>)" if "calls_to env registry name cs s" for s w
    using that assms by (fastforce simp: calls_to_def)
  then show ?thesis
    by (auto simp: keeps_iff send_def transport_ok_def sessions_ok_def split: prod.split)
qed

text \<open>The headers the transport builds carry only the token they were built from.\<close>

definition carries :: "string option \<Rightarrow> (string, string) dict \<Rightarrow> bool" where
  "carries token h =
     (case dict_get h ''Authorization'' of None \<Rightarrow> True | Some a \<Rightarrow> token = Some (drop 7 a) \<and> take 7 a = ''Bearer '')"

lemma auth_headers_carry: "carries token (auth_headers token)"
  by (auto simp: carries_def auth_headers_def Let_def dict_simps split: option.split)

lemma session_header_carries:
  "carries token h \<Longrightarrow> carries token (dict_set ''Mcp-Session-Id'' x h)"
  by (simp add: carries_def dict_simps)

lemmas headers_carry = auth_headers_carry session_header_carries [OF auth_headers_carry]

lemma goes_there:
  "resolve_credential (me_environ env) (ms_credential_ref server) = Inr token \<Longrightarrow> carries token h \<Longrightarrow>
    goes_to env server \<lparr>mc_method = m, mc_url = server_url server, mc_headers = h, mc_body = b\<rparr>"
  by (auto simp: goes_to_def carries_def split: option.splits)

lemma post_rpc_triple:
  assumes "dict_get registry name = Some server"
    and "resolve_credential (me_environ env) (ms_credential_ref server) = Inr token" and "carries token h"
  shows "triple (transport_ok env registry name cs) (post_rpc env (server_url server) h body)
    (\<lambda>(g, payload) s. transport_ok env registry name cs s \<and> rpc_answer env (post_call (server_url server) h body) payload)
    (\<lambda>_. transport_ok env registry name cs)"
  unfolding post_rpc_def
proof (rule triple_andthen)
  let ?P = "transport_ok env registry name cs" and ?call = "post_call (server_url server) h body"
  have "keeps ?P (send env ?call)"
    by (rule keeps_mcp_send [OF assms(1)]) (simp add: post_call_def goes_there [OF assms(2,3)])
  moreover have "yields (\<lambda>reply. \<exists>w. fst (me_post env ?call w) = reply) (send env ?call)"
    by (auto simp: yields_def send_def split: prod.splits) (metis fst_conv)
  ultimately show "triple ?P (send env ?call) (\<lambda>reply s. ?P s \<and> (\<exists>w. fst (me_post env ?call w) = reply)) (\<lambda>_. ?P)"
    unfolding keeps_def by (rule triple_yields) simp
  show "triple (\<lambda>s. ?P s \<and> (\<exists>w. fst (me_post env ?call w) = reply)) (case reply of
       McpTransportError e \<Rightarrow> throw (McpHttpx e) | McpOtherError e \<Rightarrow> throw (McpRaised e)
     | McpReply status g content \<Rightarrow>
         if \<not> (200 \<le> status \<and> status < 300) then throw (McpHttpx (me_status_text env status))
         else (case parse_mcp_response_body env (get_default g ''content-type'' []) content of
                 Inl e \<Rightarrow> throw (McpValue e) | Inr payload \<Rightarrow> give (g, payload)))
     (\<lambda>(g, payload) s. ?P s \<and> rpc_answer env ?call payload) (\<lambda>_. ?P)" for reply
    by (cases reply) (auto simp: rpc_answer_def intro!: triple_throw triple_give split: sum.split)
qed

lemma keeps_post_rpc:
  assumes "dict_get registry name = Some server"
    and "resolve_credential (me_environ env) (ms_credential_ref server) = Inr token" and "carries token h"
  shows "keeps (transport_ok env registry name cs) (post_rpc env (server_url server) h body)"
  unfolding keeps_def by (rule triple_weaken [OF post_rpc_triple [OF assms]]) auto

text \<open>A step that needs the resolved credential.\<close>

lemma with_credential:
  assumes "\<And>token. resolve_credential (me_environ env) (ms_credential_ref server) = Inr token \<Longrightarrow> triple P (f token) Q (\<lambda>_. P)"
  shows "triple P (andthen (credential_of env server) f) Q (\<lambda>_. P)"
proof (cases "resolve_credential (me_environ env) (ms_credential_ref server)")
  case (Inl e)
  then show ?thesis by (simp add: triple_def andthen_def credential_of_def throw_def)
next
  case (Inr token)
  with assms [OF this] show ?thesis by (simp add: triple_def andthen_def credential_of_def give_def)
qed

lemma triple_then_keeps: "keeps P m \<Longrightarrow> (\<And>x. triple P (f x) Q (\<lambda>_. P)) \<Longrightarrow> triple P (andthen m f) Q (\<lambda>_. P)"
  unfolding keeps_def by (rule triple_andthen)

lemma keeps_notify:
  assumes "dict_get registry name = Some server"
    and "resolve_credential (me_environ env) (ms_credential_ref server) = Inr token" and "carries token h"
  shows "keeps (transport_ok env registry name cs) (notify_initialized env server h)"
  unfolding notify_initialized_def
proof (intro keeps_andthen)
  show "keeps (transport_ok env registry name cs) (send env (post_call (server_url server) h notify_body))"
    by (rule keeps_mcp_send [OF assms(1)]) (simp add: post_call_def goes_there [OF assms(2,3)])
  show "keeps (transport_ok env registry name cs) (case reply of McpOtherError e \<Rightarrow> throw (McpRaised e) | _ \<Rightarrow> give ())" for reply
    by (cases reply) (simp_all add: triples)
qed

lemma keeps_rpc_failed [triples]: "keeps P (rpc_failed message extra e)"
  unfolding rpc_failed_def by (rule keeps_throw)

definition session_result :: "'w mcp_env \<Rightarrow> McpServerRegistry \<Rightarrow> string \<Rightarrow> mcp_call list \<Rightarrow> McpSession \<Rightarrow> 'w mcp_state \<Rightarrow> bool" where
  "session_result env registry name cs x s = (transport_ok env registry name cs s \<and> session_ok env registry name x)"

lemma open_session_triple:
  assumes server: "dict_get registry name = Some server"
  shows "triple (transport_ok env registry name cs) (open_session env name server) (session_result env registry name cs)
     (\<lambda>_. transport_ok env registry name cs)"
  unfolding open_session_def
proof (rule with_credential)
  let ?P = "transport_ok env registry name cs"
  fix token assume token: "resolve_credential (me_environ env) (ms_credential_ref server) = Inr token"
  have stored: "triple ?P (let session = \<lparr>se_server_name = name, se_session_id = sid, se_protocol_version = v,
            se_capabilities = c, se_capability_digest = compute_capability_digest env c\<rparr> in
      andthen (put_session session) (\<lambda>_. andthen (notify_initialized env server (dict_set ''Mcp-Session-Id'' sid (auth_headers token)))
        (\<lambda>_. give session))) (session_result env registry name cs) (\<lambda>_. ?P)"
    if "\<not> digest_mismatch server (compute_capability_digest env c)" "announced env server c" for sid v c
    unfolding Let_def
    by (intro triple_then_keeps keeps_put_session keeps_notify [OF server token headers_carry(2)] triple_give)
      (use that in \<open>auto simp: session_ok_def session_result_def server digest_mismatch_def split: option.splits\<close>)
  have rpc: "triple ?P (catching rpc_failure (post_rpc env (server_url server) (auth_headers token) (init_body env rpc_id))
        (rpc_failed ''MCP initialize failed'' []))
      (\<lambda>(h, payload) s. ?P s \<and> rpc_answer env (post_call (server_url server) (auth_headers token) (init_body env rpc_id)) payload)
      (\<lambda>_. ?P)" for rpc_id
    by (rule triple_catching [OF post_rpc_triple [OF server token auth_headers_carry]])
      (auto simp: rpc_failed_def intro!: triple_throw)
  let ?opened = "\<lambda>(h, payload).
     case dict_get payload ''error'' of
       Some e \<Rightarrow> throw (mcp_error 502 ''mcp_initialize_error'' (py_str (me_rep env) e) [] [])
     | None \<Rightarrow>
         (let result = obj_of (jget payload ''result''); capabilities = obj_of (jget result ''capabilities'');
              digest = compute_capability_digest env capabilities in
          if digest_mismatch server digest
          then throw (mcp_error 409 ''mcp_capability_digest_mismatch'' ''MCP server capabilities do not match configured digest''
                 [(''expected'', JStr (case ms_capability_digest server of Some d \<Rightarrow> d | None \<Rightarrow> [])), (''actual'', JStr digest)] [])
          else
            andthen (if get_default h ''mcp-session-id'' [] \<noteq> [] then give (get_default h ''mcp-session-id'' [])
                     else if py_bool (jget result ''sessionId'') then give (py_str (me_rep env) (jget result ''sessionId''))
                     else new_id env) (\<lambda>session_id.
            (let session = \<lparr>se_server_name = name, se_session_id = session_id,
                   se_protocol_version = py_str (me_rep env) (py_or (jget result ''protocolVersion'') (JStr ''2024-11-05'')),
                   se_capabilities = capabilities, se_capability_digest = digest\<rparr> in
             andthen (put_session session) (\<lambda>_.
             andthen (notify_initialized env server (dict_set ''Mcp-Session-Id'' session_id (auth_headers token))) (\<lambda>_.
             give session)))))"
  have opened: "triple ?P (?opened (h, payload)) (session_result env registry name cs) (\<lambda>_. ?P)"
    if "rpc_answer env (post_call (server_url server) (auth_headers token) (init_body env rpc_id)) payload" for h payload rpc_id
  proof -
    have "announced env server (obj_of (jget (obj_of (jget payload ''result'')) ''capabilities''))"
      using that unfolding announced_def by blast
    note stored = stored [unfolded Let_def, OF _ this]
    show ?thesis
      by (auto simp: Let_def simp del: if_False split: option.split
          intro!: triple_throw triple_if triple_then_keeps triples stored)
  qed
  have answered: "triple (\<lambda>s. case x of (h, payload) \<Rightarrow> ?P s
       \<and> rpc_answer env (post_call (server_url server) (auth_headers token) (init_body env rpc_id)) payload) (?opened x)
      (session_result env registry name cs) (\<lambda>_. ?P)" for x rpc_id
    using opened [of rpc_id "snd x" "fst x"]
    by (cases x; cases "rpc_answer env (post_call (server_url server) (auth_headers token) (init_body env rpc_id)) (snd x)")
      (simp_all add: triple_def)
  show "triple ?P (andthen (new_id env) (\<lambda>rpc_id.
     andthen (catching rpc_failure (post_rpc env (server_url server) (auth_headers token) (init_body env rpc_id))
                (rpc_failed ''MCP initialize failed'' [])) ?opened)) (session_result env registry name cs) (\<lambda>_. ?P)"
    by (rule triple_then_keeps [OF keeps_new_id], rule triple_andthen [OF rpc], use answered in \<open>simp add: split_beta\<close>)
qed

lemma initialize_triple:
  "triple (transport_ok env registry name cs) (initialize_mcp_session env registry name force) (session_result env registry name cs)
     (\<lambda>_. transport_ok env registry name cs)"
proof (cases "dict_get registry name")
  case None
  then show ?thesis by (simp add: initialize_mcp_session_def triple_throw)
next
  case (Some server)
  have stored: "session_ok env registry name x" if "transport_ok env registry name cs s" "dict_get (mcp_sessions s) name = Some x" for s :: "'a mcp_state" and x
    using that map_of_SomeD [OF that(2)] by (auto simp: transport_ok_def sessions_ok_def)
  show ?thesis
    unfolding initialize_mcp_session_def Some option.case
  proof (rule triple_andthen [where R = "\<lambda>x s. transport_ok env registry name cs s \<and> (\<forall>y. x = Some y \<longrightarrow> session_ok env registry name y)"])
    show "triple (transport_ok env registry name cs) (get_session name)
       (\<lambda>x s. transport_ok env registry name cs s \<and> (\<forall>y. x = Some y \<longrightarrow> session_ok env registry name y)) (\<lambda>_. transport_ok env registry name cs)"
      unfolding get_session_def by (rule triple_asking) (use stored in blast)
    show "triple (\<lambda>s. transport_ok env registry name cs s \<and> (\<forall>y. x = Some y \<longrightarrow> session_ok env registry name y))
       (case x of Some session \<Rightarrow> if force then open_session env name server else give session | None \<Rightarrow> open_session env name server)
       (session_result env registry name cs) (\<lambda>_. transport_ok env registry name cs)" for x
    proof (cases x)
      case None
      then show ?thesis using triple_weaken [OF open_session_triple [OF Some]] by simp
    next
      case (Some y)
      show ?thesis
        unfolding Some option.case
        by (intro triple_if triple_weaken [OF open_session_triple [OF \<open>dict_get registry name = Some server\<close>]] triple_give)
          (simp_all add: session_result_def)
    qed
  qed
qed

lemma rotate_triple:
  "triple (\<lambda>s. transport_ok env registry name cs s \<and> (\<forall>x. session = Some x \<longrightarrow> session_ok env registry name x)) (rotate_session h session)
     (\<lambda>_. transport_ok env registry name cs) (\<lambda>_. transport_ok env registry name cs)"
proof (cases session)
  case None
  then show ?thesis by (simp add: rotate_session_def triple_give)
next
  case (Some x)
  show ?thesis
  proof (cases "session_ok env registry name x")
    case True
    then have "session_ok env registry (se_server_name x) (x\<lparr>se_session_id := i\<rparr>)" for i
      by (auto simp: session_ok_def split: option.splits)
    then have "keeps (transport_ok env registry name cs) (rotate_session h session)"
      unfolding rotate_session_def Some option.case Let_def by (intro triples keeps_put_session) simp
    then show ?thesis by (rule triple_keeps) simp_all
  qed (simp add: Some triple_def)
qed

lemma keeps_cancel: "keeps (transport_ok env registry name cs) (cancel_mcp_request env registry name request_id)"
proof (cases "dict_get registry name")
  case (Some server)
  show ?thesis
    unfolding cancel_mcp_request_def Some option.case keeps_def
  proof (rule with_credential)
    fix token assume "resolve_credential (me_environ env) (ms_credential_ref server) = Inr token"
    note there = keeps_mcp_send [OF Some goes_there [OF this]]
    note sends = there [OF headers_carry(1)] there [OF headers_carry(2)]
    have answer: "keeps (transport_ok env registry name cs) (case r of McpTransportError e \<Rightarrow> throw (f e) | McpOtherError e \<Rightarrow> throw (g e)
        | McpReply _ _ _ \<Rightarrow> give v)" for r f g v
      by (cases r) (simp_all add: triples)
    have rest: "keeps (transport_ok env registry name cs) (case r of McpTransportError e \<Rightarrow> throw (f e) | McpOtherError e \<Rightarrow> throw (g e)
        | McpReply status h content \<Rightarrow> if b status then m else give v)" if "keeps (transport_ok env registry name cs) m" for r f g b m v
      using that by (cases r) (simp_all add: triples)
    show "triple (transport_ok env registry name cs) (andthen (get_session name) (\<lambda>session.
          (let headers = (case session of None \<Rightarrow> auth_headers token
                            | Some x \<Rightarrow> dict_set ''Mcp-Session-Id'' (se_session_id x) (auth_headers token));
               body = [(''jsonrpc'', JStr ''2.0''), (''method'', JStr ''notifications/cancelled''),
                  (''params'', JObj [(''requestId'', JStr request_id), (''reason'', JStr ''client cancelled'')])];
               failed = (\<lambda>e. throw (mcp_error 502 ''mcp_cancel_failed'' ''MCP cancellation failed'' [] [(''reason'', JStr e)]));
               answer = give [(''server'', JStr name), (''request_id'', JStr request_id), (''cancelled'', JBool True)] in
           andthen (send env (post_call (server_url server) headers body)) (\<lambda>reply.
           case reply of
             McpTransportError e \<Rightarrow> failed e
           | McpOtherError e \<Rightarrow> throw (McpRaised e)
           | McpReply status h content \<Rightarrow>
               if 400 \<le> status \<and> session \<noteq> None then
                 andthen (send env \<lparr>mc_method = ''DELETE'', mc_url = server_url server, mc_headers = headers, mc_body = None\<rparr>) (\<lambda>deleted.
                 case deleted of
                   McpTransportError e \<Rightarrow> failed e | McpOtherError e \<Rightarrow> throw (McpRaised e) | McpReply _ _ _ \<Rightarrow> answer)
               else answer)))) (\<lambda>_. transport_ok env registry name cs) (\<lambda>_. transport_ok env registry name cs)"
      unfolding Let_def post_call_def keeps_def [symmetric]
      by (intro keeps_andthen keeps_get_session rest answer) (simp_all add: sends split: option.split)
  qed
qed (simp add: cancel_mcp_request_def keeps_throw)

lemma keeps_execute: "keeps (transport_ok env registry name cs) (execute_mcp_tool env registry name tool arguments progress_token)"
proof (cases "dict_get registry name")
  case (Some server)
  let ?P = "transport_ok env registry name cs"
  have run: "triple ?P (andthen (if wants_session server then andthen (initialize_mcp_session env registry name False) (\<lambda>x. give (Some x))
       else give None) f) (\<lambda>_. ?P) (\<lambda>_. ?P)"
    if "\<And>session. triple (\<lambda>s. ?P s \<and> (\<forall>x. session = Some x \<longrightarrow> session_ok env registry name x)) (f session) (\<lambda>_. ?P) (\<lambda>_. ?P)"
    for f :: "McpSession option \<Rightarrow> ('a, obj) mcp"
  proof (rule triple_andthen [OF _ that])
    show "triple ?P (if wants_session server then andthen (initialize_mcp_session env registry name False) (\<lambda>x. give (Some x)) else give None)
       (\<lambda>session s. ?P s \<and> (\<forall>x. session = Some x \<longrightarrow> session_ok env registry name x)) (\<lambda>_. ?P)"
      by (intro triple_if triple_andthen [OF initialize_triple] triple_give) (simp_all add: session_result_def)
  qed
  have pure: "triple (\<lambda>s. ?P s \<and> K) m Q (\<lambda>_. ?P)" if "K \<Longrightarrow> triple ?P m Q (\<lambda>_. ?P)" for K m and Q :: "obj \<Rightarrow> 'a mcp_state \<Rightarrow> bool"
    using that by (cases K) (simp_all add: triple_def)
  show ?thesis
    unfolding execute_mcp_tool_def Some option.case keeps_def
  proof (intro triple_if with_credential run pure triple_throw)
    fix token session
    assume token: "resolve_credential (me_environ env) (ms_credential_ref server) = Inr token"
      and session: "\<forall>x. session = Some x \<longrightarrow> session_ok env registry name x"
    have h: "carries token (case session of None \<Rightarrow> auth_headers token
        | Some x \<Rightarrow> dict_set ''Mcp-Session-Id'' (se_session_id x) (auth_headers token))"
      using headers_carry by (simp split: option.split)
    have rotate: "keeps ?P (rotate_session g session)" for g
      unfolding keeps_def by (rule triple_weaken [OF rotate_triple [where name = name]]) (simp_all add: session)
    show "triple ?P (andthen (new_id env) (\<lambda>rpc_id.
            (let headers = (case session of None \<Rightarrow> auth_headers token
                              | Some x \<Rightarrow> dict_set ''Mcp-Session-Id'' (se_session_id x) (auth_headers token)) in
             andthen (catching rpc_failure
                        (post_rpc env (server_url server) headers (call_body rpc_id tool arguments progress_token))
                        (rpc_failed ''MCP server unavailable'' [(''mcp_request_id'', JStr rpc_id)])) (\<lambda>(h, payload).
             andthen (rotate_session h session) (\<lambda>session.
             case dict_get payload ''error'' of
               Some e \<Rightarrow> throw (mcp_error 502 ''mcp_tool_error'' (py_str (me_rep env) e) [] [(''mcp_request_id'', JStr rpc_id)])
             | None \<Rightarrow> give (tool_result env name server tool rpc_id session h payload)))))) (\<lambda>_. ?P) (\<lambda>_. ?P)"
      unfolding Let_def keeps_def [symmetric] by (intro triples keeps_post_rpc [OF Some token h] rotate)
  qed simp_all
qed (simp add: execute_mcp_tool_def keeps_throw)

subsection \<open>Runs of the transport\<close>

datatype mcp_op = Initialize string bool | Cancel string string | Execute string string obj "string option"

fun mcp_step :: "'w mcp_env \<Rightarrow> McpServerRegistry \<Rightarrow> mcp_op \<Rightarrow> 'w mcp_state \<Rightarrow> 'w mcp_state" where
  "mcp_step env registry (Initialize name force) s = snd (initialize_mcp_session env registry name force s)"
| "mcp_step env registry (Cancel name request_id) s = snd (cancel_mcp_request env registry name request_id s)"
| "mcp_step env registry (Execute name tool arguments token) s = snd (execute_mcp_tool env registry name tool arguments token s)"

definition mcp_run :: "'w mcp_env \<Rightarrow> McpServerRegistry \<Rightarrow> mcp_op list \<Rightarrow> 'w mcp_state \<Rightarrow> 'w mcp_state" where
  "mcp_run env registry ops s = fold (mcp_step env registry) ops s"

definition new_transport :: "'w \<Rightarrow> 'w mcp_state" where
  "new_transport w = \<lparr>mcp_sessions = [], mcp_world = w, mcp_calls = [], mcp_serial = 0\<rparr>"

fun op_server :: "mcp_op \<Rightarrow> string" where
  "op_server (Initialize name force) = name"
| "op_server (Cancel name request_id) = name"
| "op_server (Execute name tool arguments token) = name"

lemma step_keeps:
  assumes "sessions_ok env registry s"
  shows "transport_ok env registry (op_server op) (mcp_calls s) (mcp_step env registry op s)"
proof -
  let ?P = "transport_ok env registry (op_server op) (mcp_calls s)"
  have start: "?P s" using assms by (simp add: transport_ok_def calls_to_def)
  show ?thesis
  proof (cases op)
    case (Initialize name force)
    have "keeps ?P (initialize_mcp_session env registry name force)"
      unfolding keeps_def Initialize op_server.simps by (rule triple_weaken [OF initialize_triple]) (simp_all add: session_result_def)
    with start Initialize show ?thesis by (simp add: keeps_iff)
  next
    case (Cancel name request_id)
    with start keeps_cancel [of env registry name "mcp_calls s" request_id] show ?thesis by (simp add: keeps_iff)
  next
    case (Execute name tool arguments token)
    with start keeps_execute [of env registry name "mcp_calls s" tool arguments token] show ?thesis by (simp add: keeps_iff)
  qed
qed

lemma run_keeps: "sessions_ok env registry (mcp_run env registry ops (new_transport w))"
proof -
  have run: "sessions_ok env registry (mcp_run env registry ops s)" if "sessions_ok env registry s" for s
    using that
  proof (induction ops arbitrary: s)
    case (Cons op ops)
    have "sessions_ok env registry (mcp_step env registry op s)"
      using step_keeps [OF Cons.prems, of op] by (simp add: transport_ok_def)
    with Cons.IH show ?case by (simp add: mcp_run_def)
  qed (simp add: mcp_run_def)
  show ?thesis by (rule run) (simp add: new_transport_def sessions_ok_def)
qed

text \<open>
  C20: A pinned server keeps its pin. Whatever operations run and whatever the servers answer,
  every stored MCP session belongs to a registered server and is stored under that server's name;
  its capabilities are ones that server announced in an answer to an \<open>initialize\<close> sent to its
  address, its digest is the digest of these capabilities, and where the configuration pins a
  digest it is the pinned one.
\<close>

theorem capability_pins_hold:
  "list_all (\<lambda>(name, x). case dict_get registry name of
       None \<Rightarrow> False
     | Some server \<Rightarrow> se_server_name x = name \<and> announced env server (se_capabilities x)
         \<and> se_capability_digest x = compute_capability_digest env (se_capabilities x)
         \<and> ms_capability_digest server \<in> {None, Some [], Some (compute_capability_digest env (se_capabilities x))})
     (mcp_sessions (mcp_run env registry ops (new_transport w)))"
  using run_keeps [of env registry ops w]
  by (fastforce simp: sessions_ok_def session_ok_def list_all_iff split: option.splits)

text \<open>
  C21: A credential goes to its own server only. Whatever ran before and whatever the servers
  answer, every HTTP call an operation makes, opening, notifying, calling, cancelling or deleting,
  is to the address of the registered server the operation names, and a bearer token in it is
  the one that this server's credential reference resolves to.
\<close>

theorem credentials_stay_with_their_server:
  "\<exists>new. mcp_calls (mcp_step env registry op (mcp_run env registry ops (new_transport w)))
       = mcp_calls (mcp_run env registry ops (new_transport w)) @ new
    \<and> list_all (\<lambda>c. \<exists>server. dict_get registry (op_server op) = Some server \<and> goes_to env server c) new"
  using step_keeps [OF run_keeps [of env registry ops w], of op]
  by (auto simp: transport_ok_def calls_to_def list_all_iff)

subsection \<open>Event streams\<close>

definition one_line :: "string \<Rightarrow> bool" where
  "one_line s = list_all (\<lambda>c. \<not> is_linebreak c) s"

text \<open>A message as a server writes it: one line without surrounding blanks, and not the end marker.\<close>

definition message_text :: "string \<Rightarrow> bool" where
  "message_text b = (one_line b \<and> b \<noteq> [] \<and> strip b = b \<and> b \<noteq> ''[DONE]'')"

definition sse_frame :: "string \<times> string \<Rightarrow> string" where
  "sse_frame f = ''event: '' @ fst f @ [newline] @ ''data: '' @ snd f @ [newline, newline]"

lemma newline_facts: "cp newline = 10" "is_linebreak newline" "is_space newline" "cp newline \<noteq> 13"
  by (simp_all add: newline_def is_linebreak_def is_space_def cp_def)

lemma split_line: "one_line a \<Longrightarrow> splitlines_acc acc (a @ newline # rest) = (rev acc @ a) # splitlines_acc [] rest"
proof (induction a arbitrary: acc)
  case (Cons c a)
  then have "\<not> is_linebreak c" "cp c \<noteq> 13" by (auto simp: one_line_def is_linebreak_def Let_def)
  with Cons show ?case by (simp add: one_line_def)
qed (simp add: newline_facts)

lemma split_last_line: "one_line a \<Longrightarrow> a \<noteq> [] \<or> acc \<noteq> [] \<Longrightarrow> splitlines_acc acc a = [rev acc @ a]"
proof (induction a arbitrary: acc)
  case (Cons c a)
  then have "\<not> is_linebreak c" "cp c \<noteq> 13" by (auto simp: one_line_def is_linebreak_def Let_def)
  with Cons show ?case by (simp add: one_line_def)
qed simp

lemma one_line_append [simp]: "one_line (a @ b) = (one_line a \<and> one_line b)"
  by (simp add: one_line_def)

lemma field_names: "one_line ''event: ''" "one_line ''data: ''" "one_line []"
  by (simp_all add: one_line_def is_linebreak_def cp_def)

definition frame_lines :: "string \<times> string \<Rightarrow> string list" where
  "frame_lines f = [''event: '' @ fst f, ''data: '' @ snd f]"

lemma split_two_lines:
  "one_line l \<Longrightarrow> one_line k \<Longrightarrow> splitlines_acc [] (l @ newline # k @ newline # newline # rest) = [l, k, []] @ splitlines_acc [] rest"
  using split_line [of "[]" "[]" rest] by (simp add: split_line one_line_def)

lemma frame_lines_one:
  "one_line (fst f) \<Longrightarrow> one_line (snd f) \<Longrightarrow> one_line (''event: '' @ fst f) \<and> one_line (''data: '' @ snd f)"
  using field_names by (simp only: one_line_append simp_thms)

lemma split_frames:
  "\<forall>f\<in>set fs. one_line (fst f) \<and> one_line (snd f) \<Longrightarrow>
    splitlines (concat (map sse_frame fs) @ rest) = concat (map (\<lambda>f. frame_lines f @ [[]]) fs) @ splitlines rest"
proof (induction fs)
  case (Cons f fs)
  have one: "one_line (''event: '' @ fst f) \<and> one_line (''data: '' @ snd f)"
    by (rule frame_lines_one) (use Cons.prems in auto)
  have "sse_frame f @ more = (''event: '' @ fst f) @ newline # (''data: '' @ snd f) @ newline # newline # more" for more
    by (simp only: sse_frame_def append_assoc append_Cons append_Nil)
  then have "splitlines_acc [] (sse_frame f @ more) = (frame_lines f @ [[]]) @ splitlines_acc [] more" for more
    using split_two_lines [OF conjunct1 [OF one] conjunct2 [OF one]] by (simp only: frame_lines_def append_Cons append_Nil)
  with Cons show ?case by (simp add: splitlines_def)
qed (simp add: splitlines_def)

lemma split_last_frame:
  assumes "one_line (fst f)" and "one_line (snd f)"
  shows "splitlines (''event: '' @ fst f @ [newline] @ ''data: '' @ snd f) = frame_lines f"
proof -
  have "splitlines_acc [] (l @ newline # k) = [l, k]" if "one_line l" "one_line k" "k \<noteq> []" for l k
    using that by (simp add: split_line split_last_line)
  from this [OF conjunct1 [OF frame_lines_one [OF assms]] conjunct2 [OF frame_lines_one [OF assms]]]
  show ?thesis by (simp only: splitlines_def frame_lines_def append_assoc append_Cons append_Nil) simp
qed

lemma no_return: "one_line s \<Longrightarrow> rstrip_char (CHR 0x0D) s = s"
proof -
  assume one: "one_line s"
  have "is_linebreak (CHR 0x0D)" by (simp add: is_linebreak_def cp_def)
  with one have "CHR 0x0D \<notin> set s" unfolding one_line_def list_all_iff by blast
  then have "\<not> (s \<noteq> [] \<and> last s = CHR 0x0D)" using last_in_set by metis
  then have "dropWhile (\<lambda>x. x = CHR 0x0D) (rev s) = rev s" by (auto simp: dropWhile_eq_self_iff hd_rev)
  then show ?thesis by (simp add: rstrip_char_def)
qed

lemma message_edges:
  assumes "message_text b"
  shows "lstrip b = b" and "\<not> is_space (last b)" and "strip (CHR 0x20 # b) = b"
proof -
  have b: "strip b = b" "b \<noteq> []" using assms by (simp_all add: message_text_def)
  have "\<exists>zs. lstrip b = b @ zs"
    by (metis b(1) strip_def rstrip_def rev_rev_ident rev_append takeWhile_dropWhile_id)
  then obtain zs where "lstrip b = b @ zs" ..
  then have "\<not> is_space (hd b)"
    using b(2) hd_dropWhile_not [of is_space b] by (simp add: lstrip_def)
  then have l: "lstrip b = b" using b(2) by (simp add: lstrip_def dropWhile_eq_self_iff)
  then show "lstrip b = b" .
  have "rstrip b = b" using b(1) l by (simp add: strip_def)
  then have "dropWhile is_space (rev b) = rev b" by (metis rstrip_def rev_rev_ident)
  with b(2) show "\<not> is_space (last b)" by (metis dropWhile_eq_self_iff hd_rev rev_is_Nil_conv)
  have "is_space (CHR 0x20)" by (simp add: is_space_def cp_def)
  then show "strip (CHR 0x20 # b) = b" using b(1) l by (simp add: strip_def lstrip_def)
qed

lemma strip_newlines:
  assumes "x \<noteq> []" and "\<not> is_space (hd x)" and "\<not> is_space (last x)"
  shows "strip (x @ [newline, newline]) = x"
proof -
  have l: "lstrip (x @ ys) = x @ ys" for ys
    using assms(1,2) by (cases x) (simp_all add: lstrip_def)
  have "dropWhile is_space (newline # newline # rev x) = rev x"
    using assms(1,3) by (simp add: newline_facts dropWhile_eq_self_iff hd_rev)
  then have "rstrip (x @ [newline, newline]) = x" by (simp add: rstrip_def)
  then show ?thesis by (simp add: strip_def l)
qed

lemma line_steps:
  assumes "one_line (fst f)" and "message_text (snd f)" and "loads (snd f) = Some (JObj d)"
  shows "fold (sse_line loads) (frame_lines f) (l, []) = (l, [snd f])"
    and "sse_line loads [] (l, [snd f]) = (Some d, [])"
    and "later (event_message loads [snd f]) l = Some d"
proof -
  have one: "one_line (snd f)" using assms(2) by (simp add: message_text_def)
  have msg: "event_message loads [snd f] = Some d"
    using assms(2,3) by (simp add: event_message_def message_text_def)
  then show later: "later (event_message loads [snd f]) l = Some d" by (simp add: later_def)
  then show "sse_line loads [] (l, [snd f]) = (Some d, [])" by (simp add: sse_line_def rstrip_char_def startswith_def)
  have ev: "sse_line loads (''event: '' @ fst f) (l, []) = (l, [])"
    using no_return [OF conjunct1 [OF frame_lines_one [OF assms(1) one]]]
    by (simp add: sse_line_def Let_def startswith_def)
  have sp: "is_space (CHR 0x20)" by (simp add: is_space_def cp_def)
  have "lstrip (CHR 0x20 # snd f) = snd f" using message_edges(1) [OF assms(2)] sp by (simp add: lstrip_def)
  then have "sse_line loads (''data: '' @ snd f) (l, []) = (l, [snd f])"
    using no_return [OF conjunct2 [OF frame_lines_one [OF assms(1) one]]]
    by (simp add: sse_line_def Let_def startswith_def)
  with ev show "fold (sse_line loads) (frame_lines f) (l, []) = (l, [snd f])" by (simp add: frame_lines_def)
qed

lemma fold_frames:
  "\<forall>f\<in>set fs. one_line (fst f) \<and> message_text (snd f) \<Longrightarrow> map (loads \<circ> snd) fs = map (Some \<circ> JObj) ds \<Longrightarrow>
    \<exists>l'. fold (sse_line loads) (concat (map (\<lambda>f. frame_lines f @ [[]]) fs)) (l, []) = (l', [])"
proof (induction fs arbitrary: ds l)
  case (Cons f fs)
  then obtain d ds' where ds: "ds = d # ds'" "loads (snd f) = Some (JObj d)" "map (loads \<circ> snd) fs = map (Some \<circ> JObj) ds'"
    by (cases ds) (auto simp: comp_def)
  with Cons.prems line_steps [of f loads d] have "fold (sse_line loads) (frame_lines f @ [[]]) (l, []) = (Some d, [])" by simp
  with Cons.IH [OF _ ds(3)] Cons.prems(1) show ?case by simp
qed simp

text \<open>
  The client reads what the server wrote last. An answer that is a stream of events, each an
  event line and one data line, decodes to the message of its last event, whatever content type
  the server declared, whatever the names of the events and however many messages come before.
\<close>

theorem last_message_is_read:
  assumes "\<forall>f\<in>set (frames @ [f]). one_line (fst f) \<and> message_text (snd f)"
    and "map (me_loads env \<circ> snd) (frames @ [f]) = map (Some \<circ> JObj) (ds @ [d])"
    and "me_decode env body = concat (map sse_frame (frames @ [f]))"
  shows "parse_mcp_response_body env content_type body = Inr d"
proof -
  let ?rest = "''event: '' @ fst f @ [newline] @ ''data: '' @ snd f" and ?loads = "me_loads env"
  have f: "one_line (fst f)" "message_text (snd f)" "?loads (snd f) = Some (JObj d)"
    and before: "map (?loads \<circ> snd) frames = map (Some \<circ> JObj) ds"
    using assms(1,2) by auto
  define content where "content = concat (map sse_frame frames) @ ?rest"
  have "me_decode env body = content @ [newline, newline]"
    using assms(3) by (simp add: content_def sse_frame_def)
  moreover have start: "\<exists>zs. content = ''event: '' @ zs" by (cases frames) (simp_all add: content_def sse_frame_def)
  moreover have "last content = last (snd f)" "snd f \<noteq> []" using f(2) by (simp_all add: content_def message_text_def)
  moreover have "\<not> is_space (CHR ''e'')" by (simp add: is_space_def cp_def)
  ultimately have stripped: "strip (me_decode env body) = content"
    using message_edges(2) [OF f(2)] by (auto intro!: strip_newlines)
  have "startswith content ''event:''" using start by (auto simp: startswith_def)
  with stripped have "parse_mcp_response_body env content_type body = parse_sse_jsonrpc ?loads content"
    by (simp add: parse_mcp_response_body_def Let_def)
  moreover obtain l where "fold (sse_line ?loads) (splitlines content) (None, []) = (l, [snd f])"
  proof -
    have "splitlines content = concat (map (\<lambda>f. frame_lines f @ [[]]) frames) @ frame_lines f"
      using split_frames [of frames ?rest] split_last_frame [of f] assms(1) f(1,2) by (simp add: content_def message_text_def)
    moreover obtain l' where "fold (sse_line ?loads) (concat (map (\<lambda>f. frame_lines f @ [[]]) frames)) (None, []) = (l', [])"
      using fold_frames [OF _ before] assms(1) by auto
    ultimately show ?thesis using that line_steps(1) [of f ?loads d] f by simp
  qed
  ultimately show ?thesis by (simp add: parse_sse_jsonrpc_def line_steps(3) [of f ?loads d] f)
qed

text \<open>A server that answers \<open>initialize\<close>, with the request's id as the session's, and echoes a call's text.\<close>

definition demo_mcp_env :: "nat mcp_env" where
  "demo_mcp_env =
     \<lparr>me_environ = (\<lambda>k. if k = ''TOKEN'' then Some ''secret'' else None), me_package_version = None,
      me_uuid = (\<lambda>n. ''id'' @ show_nat n), me_loads = (\<lambda>b. Some (JObj [(''result'', JObj [(''text'', JStr b)])])),
      me_json = (\<lambda>b. Some (JObj [(''final_verdict'', JStr b)])),
      me_decode = (\<lambda>b. b), me_dumps = (\<lambda>j. ''{}''), me_sorted_dumps = (\<lambda>j. ''{}''), me_sha256_hex = (\<lambda>s. ''00''),
      me_rep = (\<lambda>j. ''?''), me_status_text = (\<lambda>n. show_int n),
      me_post = (\<lambda>call n. (if dict_get (mc_headers call) ''Mcp-Session-Id'' = Some ''old'' then McpReply 404 [] []
         else McpReply 200 [(''content-type'', ''application/json'')] ''x'', n + 1))\<rparr>"

theorem last_message_is_read_witness:
  "parse_mcp_response_body demo_mcp_env ''text/plain'' (sse_frame (''message'', ''1'') @ sse_frame (''message'', ''22''))
     = Inr [(''result'', JObj [(''text'', JStr ''22'')])]"
proof -
  have one: "list_all (\<lambda>f. one_line (fst f) \<and> message_text (snd f)) ([(''message'', ''1'')] @ [(''message'', ''22'')])"
    by code_simp
  show ?thesis
    by (rule last_message_is_read [where frames = "[(''message'', ''1'')]" and f = "(''message'', ''22'')"
        and ds = "[[(''result'', JObj [(''text'', JStr ''1'')])]]"])
      (use one in \<open>simp_all add: list_all_iff demo_mcp_env_def\<close>)
qed

subsection \<open>A session the server has forgotten\<close>

fun execute_all ::
  "'w mcp_env \<Rightarrow> McpServerRegistry \<Rightarrow> string \<Rightarrow> (string \<times> obj) list \<Rightarrow> 'w mcp_state \<Rightarrow> (mcp_exc + obj) list \<times> 'w mcp_state" where
  "execute_all env registry name [] s = ([], s)"
| "execute_all env registry name ((tool, arguments) # rest) s =
     (case execute_mcp_tool env registry name tool arguments None s of
        (r, s) \<Rightarrow> (case execute_all env registry name rest s of (rs, s) \<Rightarrow> (r # rs, s)))"

definition bad_gateway_result :: "mcp_exc + 'a \<Rightarrow> bool" where
  "bad_gateway_result r = (case r of Inl (McpHttp e) \<Rightarrow> he_status e = 502 | _ \<Rightarrow> False)"

definition forgotten :: "'w mcp_env \<Rightarrow> string \<Rightarrow> bool" where
  "forgotten env session_id \<longleftrightarrow>
     (\<forall>call w. dict_get (mc_headers call) ''Mcp-Session-Id'' = Some session_id \<longrightarrow>
        (\<exists>status h b. fst (me_post env call w) = McpReply status h b \<and> 400 \<le> status))"

text \<open>
  A forgotten session is never renewed. Once a server answers the stored session's calls with
  an error status, as a restarted server does, every later tool call on that server ends with
  502 and the session stays in the store, for good: only a forced initialisation replaces it, no
  tool call does, and nothing drops a session.
\<close>

theorem forgotten_session_locks_server:
  assumes "dict_get registry name = Some server" and "ms_transport server \<in> {''http'', ''streamable-http'', ''sse''}"
    and "wants_session server" and "resolve_credential (me_environ env) (ms_credential_ref server) = Inr token"
    and "dict_get (mcp_sessions s) name = Some x" and "forgotten env (se_session_id x)"
  shows "case execute_all env registry name requests s of
    (rs, s') \<Rightarrow> list_all bad_gateway_result rs \<and> dict_get (mcp_sessions s') name = Some x"
proof -
  have step: "bad_gateway_result (fst (execute_mcp_tool env registry name tool arguments None s1))
      \<and> dict_get (mcp_sessions (snd (execute_mcp_tool env registry name tool arguments None s1))) name = Some x"
    if "dict_get (mcp_sessions s1) name = Some x" for tool arguments s1
  proof -
    define call where "call = post_call (server_url server) (dict_set ''Mcp-Session-Id'' (se_session_id x) (auth_headers token))
        (call_body (me_uuid env (mcp_serial s1)) tool arguments None)"
    have "dict_get (mc_headers call) ''Mcp-Session-Id'' = Some (se_session_id x)" by (simp add: call_def post_call_def dict_simps)
    with assms(6) obtain status h b w where reply: "me_post env call (mcp_world s1) = (McpReply status h b, w)" "400 \<le> status"
      unfolding forgotten_def by (metis prod.collapse)
    then show ?thesis
      using assms(1-4) that
      by (simp add: execute_mcp_tool_def initialize_mcp_session_def get_session_def credential_of_def andthen_def asking_def give_def
          new_id_def catching_def post_rpc_def send_def call_def [symmetric] throw_def rpc_failed_def rpc_failure_def Let_def
          mcp_error_def bad_gateway_result_def)
  qed
  have "list_all bad_gateway_result rs \<and> dict_get (mcp_sessions s') name = Some x"
    if "dict_get (mcp_sessions s1) name = Some x" "execute_all env registry name requests s1 = (rs, s')" for s1 rs s'
    using that
  proof (induction requests arbitrary: s1 rs)
    case (Cons q rest)
    obtain tool arguments where q: "q = (tool, arguments)" by (cases q)
    obtain r s2 where r: "execute_mcp_tool env registry name tool arguments None s1 = (r, s2)" by fastforce
    obtain rs2 s3 where rest: "execute_all env registry name rest s2 = (rs2, s3)" by fastforce
    with Cons.prems(2) q r have eq: "rs = r # rs2" "s3 = s'" by simp_all
    with step [OF Cons.prems(1), of tool arguments] r Cons.IH [of s2 rs2] rest show ?case by simp
  qed simp
  with assms(5) show ?thesis by (auto split: prod.split)
qed

definition demo_server :: McpServerConfig where
  "demo_server = \<lparr>ms_url = ''http://tools/'', ms_transport = ''streamable-http'', ms_credential_ref = Some ''env:TOKEN'',
     ms_timeout_seconds = FDec 30 0, ms_max_result_bytes = 1000, ms_session_mode = ''auto'', ms_capability_digest = None\<rparr>"

definition demo_session :: "string \<Rightarrow> McpSession" where
  "demo_session sid = \<lparr>se_server_name = ''tools'', se_session_id = sid, se_protocol_version = [], se_capabilities = [],
     se_capability_digest = []\<rparr>"

theorem forgotten_session_locks_server_witness:
  "list_all bad_gateway_result
     (fst (execute_all demo_mcp_env [(''tools'', demo_server)] ''tools'' [(''a'', []), (''b'', [])]
       ((new_transport 0)\<lparr>mcp_sessions := [(''tools'', demo_session ''old'')]\<rparr>)))"
proof -
  have mode: "wants_session demo_server" by code_simp
  have token: "resolve_credential (me_environ demo_mcp_env) (ms_credential_ref demo_server) = Inr (Some ''secret'')" by code_simp
  have gone: "forgotten demo_mcp_env (se_session_id (demo_session ''old''))"
    by (auto simp: forgotten_def demo_mcp_env_def demo_session_def)
  show ?thesis
    using forgotten_session_locks_server [OF _ _ mode token _ gone, of "[(''tools'', demo_server)]" "''tools''"
        "(new_transport 0)\<lparr>mcp_sessions := [(''tools'', demo_session ''old'')]\<rparr>" "[(''a'', []), (''b'', [])]"]
    by (simp add: demo_server_def del: execute_all.simps split: prod.splits)
qed

text \<open>
  The id of an answer is not looked at: an answer to another request, with another JSON-RPC
  id, is handed out as the result of the call.
\<close>

theorem foreign_answer_is_accepted:
  "\<exists>env. (case execute_mcp_tool env [(''tools'', demo_server\<lparr>ms_transport := ''http''\<rparr>)] ''tools'' ''t'' [] None (new_transport ()) of
       (Inr r, s) \<Rightarrow> jget r ''result'' = JStr ''not yours'' \<and> jget r ''mcp_request_id'' = JStr ''mine''
     | (Inl e, s) \<Rightarrow> False)
     \<and> me_loads env ''x'' = Some (JObj [(''id'', JStr ''another''), (''result'', JStr ''not yours'')])"
proof -
  let ?env = "\<lparr>me_environ = (\<lambda>k. Some ''secret''), me_package_version = None, me_uuid = (\<lambda>n. ''mine''),
      me_loads = (\<lambda>b. Some (JObj [(''id'', JStr ''another''), (''result'', JStr ''not yours'')])),
      me_json = (\<lambda>b. None), me_decode = (\<lambda>b. b), me_dumps = (\<lambda>j. ''{}''), me_sorted_dumps = (\<lambda>j. ''{}''), me_sha256_hex = (\<lambda>s. ''00''),
      me_rep = (\<lambda>j. ''?''), me_status_text = (\<lambda>n. []), me_post = (\<lambda>call u. (McpReply 200 [] ''x'', ()))\<rparr>"
  have "case execute_mcp_tool ?env [(''tools'', demo_server\<lparr>ms_transport := ''http''\<rparr>)] ''tools'' ''t'' [] None (new_transport ()) of
       (Inr r, s) \<Rightarrow> jget r ''result'' = JStr ''not yours'' \<and> jget r ''mcp_request_id'' = JStr ''mine''
     | (Inl e, s) \<Rightarrow> False"
    by code_simp
  then show ?thesis by (intro exI [of _ ?env]) simp
qed

end
