(* ===== verification/Mcp_Properties.thy ===== *)
theory Mcp_Properties imports Mcp Mcp_Transport_Properties Governance_Properties begin

text \<open>
  What the tool endpoint guarantees: no tool runs that governance did not let through, and the
  policy is asked on inputs the caller's headers and body cannot forge.
\<close>

subsection \<open>Handlers only add calls\<close>

definition grown :: "mcp_call list \<Rightarrow> 'w mcp_state \<Rightarrow> bool" where
  "grown base s \<longleftrightarrow> (\<exists>more_calls. mcp_calls s = base @ more_calls)"

lemma grown_steps [triples]:
  "keeps (grown base) (send env call)" "keeps (grown base) (new_id env)" "keeps (grown base) (put_session x)"
  "keeps (grown base) (get_session name)" "keeps (grown base) (credential_of env server)" "keeps (grown base) (lift_exc r)"
  "keeps (grown base) (raise_detail status detail)"
  by (auto simp: keeps_iff send_def new_id_def put_session_def update_def get_session_def asking_def grown_def credential_of_def
      throw_def give_def lift_exc_def raise_detail_def split: prod.split sum.split)

lemma keeps_reply [triples]:
  "(\<And>e. keeps P (f e)) \<Longrightarrow> (\<And>e. keeps P (g e)) \<Longrightarrow> (\<And>x h b. keeps P (k x h b)) \<Longrightarrow>
    keeps P (case r of McpTransportError e \<Rightarrow> f e | McpOtherError e \<Rightarrow> g e | McpReply x h b \<Rightarrow> k x h b)"
  by (cases r) simp_all

lemma grown_rpc [triples]:
  "keeps (grown base) (post_rpc env url h body)" "keeps (grown base) (notify_initialized env server h)"
  "keeps (grown base) (rotate_session h session)"
  unfolding post_rpc_def notify_initialized_def rotate_session_def Let_def by (intro triples)+

lemma grown_open [triples]: "keeps (grown base) (open_session env name server)"
  unfolding open_session_def Let_def by (intro triples)

lemma grown_initialize [triples]: "keeps (grown base) (initialize_mcp_session env registry name force)"
  unfolding initialize_mcp_session_def by (intro triples)

lemma grown_execute [triples]: "keeps (grown base) (execute_mcp_tool env registry name tool arguments token)"
  unfolding execute_mcp_tool_def Let_def by (intro triples)

lemma grown_run [triples]: "keeps (grown base) (run_tool app name tool payload result)"
  unfolding run_tool_def the_registry_def by (intro triples)

subsection \<open>Governance of tool calls\<close>

definition tool_calls :: "mcp_call list \<Rightarrow> mcp_call list" where
  "tool_calls calls =
     filter (\<lambda>c. case mc_body c of Some b \<Rightarrow> jget b ''method'' = JStr ''tools/call'' | None \<Rightarrow> False) calls"

definition verdict_allows :: "'w mcp_env \<Rightarrow> mcp_reply \<Rightarrow> bool" where
  "verdict_allows env reply =
     (case plane_answer env reply of
        Inr (Inr (JObj result)) \<Rightarrow> tool_verdict env result \<notin> {''block'', ''approval_required''} | _ \<Rightarrow> False)"

definition plane_down :: "'w mcp_env \<Rightarrow> mcp_reply \<Rightarrow> bool" where
  "plane_down env reply = (case plane_answer env reply of Inl e \<Rightarrow> True | Inr x \<Rightarrow> False)"

text \<open>The control plane was asked about this call first, and let it through (or failed open).\<close>

definition asked_and_allowed :: "'w mcp_app \<Rightarrow> GovernanceConfig \<Rightarrow> Request \<Rightarrow> string \<Rightarrow> obj \<Rightarrow> 'w mcp_state \<Rightarrow> mcp_call list \<Rightarrow> bool" where
  "asked_and_allowed app g r tool payload s calls =
     (let env = ma_env app in
      case build_tool_evaluate_payload (me_rep env) (ma_libs app) (me_environ env) g r tool payload of
        Inl e \<Rightarrow> False
      | Inr body \<Rightarrow>
          (let question = evaluate_tool_call env g r body; reply = fst (me_post env question (mcp_world s)) in
           take 1 calls = [question] \<and> (verdict_allows env reply \<or> gc_fail_open g \<and> plane_down env reply)))"

definition tool_permitted :: "'w mcp_app \<Rightarrow> Request \<Rightarrow> string \<Rightarrow> obj \<Rightarrow> 'w mcp_state \<Rightarrow> mcp_call list \<Rightarrow> bool" where
  "tool_permitted app r tool payload s calls =
     (case ma_governance app of
        None \<Rightarrow> allow_ungoverned_mcp (me_environ (ma_env app))
      | Some g \<Rightarrow>
          if gc_mode g = disabled_mode then allow_ungoverned_mcp (me_environ (ma_env app))
          else if \<not> gc_enabled g then gc_control_plane_url g \<noteq> [] \<or> allow_ungoverned_mcp (me_environ (ma_env app))
          else asked_and_allowed app g r tool payload s calls)"

lemma question_is_no_tool_call:
  "build_tool_evaluate_payload rep lib environ g r tool payload = Inr body \<Longrightarrow> tool_calls [evaluate_tool_call env g r body] = []"
  by (auto simp: build_tool_evaluate_payload_def bind_exc_Inr_iff evaluate_tool_call_def post_call_def tool_calls_def
      jget_def get_default_def)

lemma tool_calls_append [simp]: "tool_calls (a @ b) = tool_calls a @ tool_calls b" "tool_calls [] = []"
  by (simp_all add: tool_calls_def)

text \<open>Enforcement either makes no call, or asks its question.\<close>

lemma enforce_outcomes:
  assumes "enforce_tool_governance (ma_env app) (ma_libs app) g r tool payload s = (res, s1)" and "gc_mode g = enforce_mode"
  shows "(\<exists>calls. mcp_calls s1 = mcp_calls s @ calls \<and> tool_calls calls = []
     \<and> (case res of Inl e \<Rightarrow> True
         | Inr x \<Rightarrow> \<not> gc_enabled g \<or> (\<forall>rest. asked_and_allowed app g r tool payload s (calls @ rest))))"
proof (cases "gc_enabled g \<and> \<not> misconfigured g")
  case False
  with assms show ?thesis
    by (auto simp: enforce_tool_governance_def Let_def give_def throw_def split: if_splits)
next
  case True
  let ?env = "ma_env app"
  show ?thesis
  proof (cases "build_tool_evaluate_payload (me_rep ?env) (ma_libs app) (me_environ ?env) g r tool payload")
    case (Inl e)
    with True assms show ?thesis
      by (auto simp: enforce_tool_governance_def Let_def andthen_def lift_exc_def throw_def split: sum.splits prod.splits)
  next
    case (Inr body)
    let ?q = "evaluate_tool_call ?env g r body"
    obtain reply w where post: "me_post ?env ?q (mcp_world s) = (reply, w)" by fastforce
    have run: "(case plane_answer ?env reply of
          Inl e \<Rightarrow> if gc_fail_open g then give None
            else throw (McpHttp \<lparr>he_status = 503,
                he_detail = JObj (governance_detail (me_rep ?env) ''tool_control_plane_unavailable'' ''tool governance control plane unavailable''
                  [(''final_verdict'', JStr ''control_plane_error''), (''reasons'', JArr []), (''stages'', JObj [])]
                  (Some (gc_control_plane_url g)) (Some e)), he_headers = []\<rparr>)
        | Inr (Inl e) \<Rightarrow> throw (McpRaised e)
        | Inr (Inr (JObj result)) \<Rightarrow> apply_tool_verdict ?env result
        | Inr (Inr _) \<Rightarrow> throw (McpRaised (OtherError ''AttributeError'')))
        (s\<lparr>mcp_world := w, mcp_calls := mcp_calls s @ [?q]\<rparr>) = (res, s1)"
      using assms True Inr post by (simp add: enforce_tool_governance_def Let_def andthen_def lift_exc_def give_def send_def)
    have "mcp_calls s1 = mcp_calls s @ [?q]"
      using run by (auto simp: give_def throw_def apply_tool_verdict_def Let_def split: sum.splits json.splits if_splits)
    moreover have "verdict_allows ?env reply \<or> gc_fail_open g \<and> plane_down ?env reply" if "res = Inr x" for x
      using run that
      by (auto simp: give_def throw_def apply_tool_verdict_def Let_def verdict_allows_def plane_down_def
          split: sum.splits json.splits if_splits)
    ultimately show ?thesis
      using question_is_no_tool_call [OF Inr, of ?env] Inr post by (auto simp: asked_and_allowed_def Let_def split: sum.split)
  qed
qed

lemma give_andthen: "andthen (give x) f = f x"
  by (simp add: andthen_def give_def)


text \<open>
  With governance mode \<open>enforce\<close>, a control plane configured and enforcement switched off by
  \<open>GOVERNANCE_ENFORCEMENT=false\<close>, a tool is executed without the control plane being asked, although
  \<open>MCP_ALLOW_UNGOVERNED\<close> is not set.
\<close>

definition switched_off_app :: "nat mcp_app" where
  "switched_off_app =
     \<lparr>ma_env = demo_mcp_env, ma_libs = demo_jwt,
      ma_governance = Some (demo_governance\<lparr>gc_enabled := False, gc_control_plane_url := ''http://cp''\<rparr>),
      ma_registry = Inr [(''tools'', demo_server)]\<rparr>"

theorem enforcement_switch_opens_tools:
  "\<not> allow_ungoverned_mcp (me_environ (ma_env switched_off_app))
   \<and> (case mcp_tool_call switched_off_app demo_request ''rm'' (Some (JObj [(''mcp_server'', JStr ''tools'')])) (new_transport 0) of
        (Inr x, s) \<Rightarrow> length (tool_calls (mcp_calls s)) = 1 \<and> list_all (\<lambda>c. mc_url c \<noteq> ''http://cp/governance/evaluate-tool'') (mcp_calls s)
      | (Inl e, s) \<Rightarrow> False)"
  by (intro conjI; code_simp)

subsection \<open>Inputs and roles\<close>

text \<open>
  The policy of a tool call is asked on inputs the caller cannot forge: with the same attached
  claims, and the same action and server named in the body, every field but \<open>untrusted_context\<close> is
  the same, whatever headers and body say about write permission, team or agent.
\<close>

theorem tool_policy_inputs_are_trusted:
  assumes "\<not> is_trusted_proxy_enabled env"
    and "req_claims r1 = Some (JObj claims)" and "req_claims r2 = Some (JObj claims)"
    and "jget p1 ''action'' = jget p2 ''action''" and "jget p1 ''mcp_server'' = jget p2 ''mcp_server''"
    and "build_tool_evaluate_payload rep lib env config r1 tool p1 = Inr b1"
    and "build_tool_evaluate_payload rep lib env config r2 tool p2 = Inr b2"
    and "field \<noteq> ''untrusted_context''"
  shows "dict_get b1 field = dict_get b2 field"
proof -
  have same: "build_identity rep False (gc_defaults config) r1 claims = build_identity rep False (gc_defaults config) r2 claims"
    by (simp add: build_identity_def)
  have res: "resolve_workload_identity rep lib env (gc_defaults config) r = Inr (build_identity rep False (gc_defaults config) r claims, r)"
    if "req_claims r = Some (JObj claims)" for r
    using that assms(1) by (simp add: resolve_workload_identity_def)
  show ?thesis
    using assms(1,4-8) same
    by (auto simp: build_tool_evaluate_payload_def res [OF assms(2)] res [OF assms(3)] claim_or_hint_def)
qed

definition forbidden :: "mcp_exc + 'a \<Rightarrow> bool" where
  "forbidden res = (case res of Inl (McpHttp e) \<Rightarrow> he_status e = 403 | _ \<Rightarrow> False)"

text \<open>Without one of the administrative roles the server endpoints do nothing at all.\<close>

lemma role_refused:
  assumes "rbac_enforced (me_environ (ma_env app))" and "set (identity_roles (me_rep (ma_env app)) r) \<inter> set allowed = {}"
  shows "forbidden (fst (andthen (need_role app r allowed) f s)) \<and> snd (andthen (need_role app r allowed) f s) = s"
  using assms by (simp add: need_role_def require_any_role_def lift_exc_def andthen_def throw_def forbidden_def)

theorem server_endpoints_need_a_role:
  assumes "rbac_enforced (me_environ (ma_env app))" and "set (identity_roles (me_rep (ma_env app)) r) \<inter> set MCP_SERVERS_ROLES = {}"
  shows "(forbidden (fst (mcp_servers app r s)) \<and> snd (mcp_servers app r s) = s)
    \<and> (forbidden (fst (mcp_server_initialize app r name s)) \<and> snd (mcp_server_initialize app r name s) = s)
    \<and> (forbidden (fst (mcp_server_cancel app r name body s)) \<and> snd (mcp_server_cancel app r name body s) = s)"
  unfolding mcp_servers_def mcp_server_initialize_def mcp_server_cancel_def
  by (intro conjI [OF role_refused [OF assms] conjI [OF role_refused [OF assms] role_refused [OF assms]]])

end
