(* ===== verification/Readiness.thy ===== *)
theory Readiness imports Runtime Resilience begin

text \<open>
  \<open>app/gateway/readiness.py\<close>, \<open>routers/health.py\<close> and \<open>routers/models.py\<close>: the readiness report and
  the endpoints that show stored state. The application has been started, so every part \<open>lifespan\<close>
  sets is there, and only the budget guard and the admission controller may be missing. What the
  stores and the control plane answer is given: a raised exception is its text. The admission
  controller's \<open>ping\<close> catches every exception itself, so the handler around it is not modelled.
\<close>

record 'r app_state =
  ap_settings :: GatewaySettings
  ap_decision_ping :: "string + bool"
  ap_health_ping :: "string + bool"
  ap_snapshot :: "string + health_row list"
  ap_admission :: "TenantAdmissionController option"
  ap_admission_ping :: "string option"
  ap_guard :: "('r InferenceBudgetGuard \<times> pyfloat) option"
  ap_policy_error :: "string option"
  ap_governance :: GovernanceConfig
  ap_control_plane :: "string \<Rightarrow> string + int"
  ap_drain :: DrainState

definition row_json :: "(rat \<Rightarrow> json) \<Rightarrow> health_row \<Rightarrow> json" where
  "row_json num r =
     JObj [(''name'', JStr (row_name r)), (''model'', JStr (row_model r)), (''status'', JStr (row_status r)),
       (''score'', JInt (row_score r)), (''latency_ms'', case row_latency_ms r of None \<Rightarrow> JNull | Some x \<Rightarrow> num x),
       (''error_rate'', num (row_error_rate r)), (''fallback_rate'', num (row_fallback_rate r))]"

subsection \<open>Redis\<close>

definition redis_configured_in :: "'r app_state \<Rightarrow> bool" where
  "redis_configured_in app = truthy_opt (redis_url (ap_settings app))"

text \<open>The first look: whether the stores answer, and the text of an exception.\<close>

definition stores_answer :: "'r app_state \<Rightarrow> bool \<times> string option" where
  "stores_answer app =
     (if redis_configured_in app then
        (case ap_decision_ping app of
           Inl e \<Rightarrow> (False, Some e)
         | Inr False \<Rightarrow> (False, None)
         | Inr True \<Rightarrow> (case ap_health_ping app of Inl e \<Rightarrow> (False, Some e) | Inr ok \<Rightarrow> (ok, None)))
      else (\<not> require_shared_state (ap_settings app), None))"

definition redis_check :: "'r app_state \<Rightarrow> bool \<Rightarrow> json" where
  "redis_check app ok =
     JObj [(''ok'', JBool ok), (''required'', JBool (require_shared_state (ap_settings app))),
       (''configured'', JBool (redis_configured_in app))]"

definition with_text :: "string \<Rightarrow> string option \<Rightarrow> obj \<Rightarrow> obj" where
  "with_text k e checks = (case e of None \<Rightarrow> checks | Some x \<Rightarrow> dict_set k (JStr x) checks)"

text \<open>The admission controller is pinged when it uses Redis; the status shown is the one before.\<close>

definition admission_check :: "runtime_env \<Rightarrow> 'r app_state \<Rightarrow> bool \<Rightarrow> obj \<times> bool \<times> TenantAdmissionController option" where
  "admission_check e app fine =
     (case ap_admission app of
        None \<Rightarrow> ([(''ok'', JBool True), (''configured'', JBool False)], fine, None)
      | Some c \<Rightarrow>
          (let status = dict_merge [(''ok'', JBool True), (''configured'', JBool True)] (admission_status e c) in
           if redis_configured c then
             (case admission_ping (ap_admission_ping app) c of (ok, c') \<Rightarrow>
                (dict_set ''redis_ok'' (JBool ok) status, if redis_configured_in app then fine \<and> ok else fine, Some c'))
           else (status, fine, Some c)))"

definition budget_check :: "runtime_env \<Rightarrow> hash_env \<Rightarrow> 'r app_state \<Rightarrow> bool \<Rightarrow> obj \<times> bool" where
  "budget_check e h app fine =
     (let status = [(''ok'', JBool (ap_policy_error app = None)),
            (''configured'', JBool (ap_guard app \<noteq> None \<or> truthy_opt (ap_policy_error app)))] in
      if truthy_opt (ap_policy_error app)
      then (dict_set ''error'' (jstr_opt (ap_policy_error app)) (dict_set ''ok'' (JBool False) status), fine)
      else (case ap_guard app of
              None \<Rightarrow> (status, fine)
            | Some (g, t) \<Rightarrow>
                (let status = dict_merge status (guard_status e h t g) in
                 if guard_enabled g \<and> guard_redis g \<noteq> None
                 then (dict_set ''redis_ok'' (JBool (guard_redis_ok g)) status,
                       if redis_configured_in app \<and> \<not> guard_redis_ok g then False else fine)
                 else (status, fine))))"

subsection \<open>Control plane and backends\<close>

definition success_status :: "int \<Rightarrow> bool" where
  "success_status s = (200 \<le> s \<and> s < 300)"

text \<open>\<open>ok\<close>, \<open>required\<close> and the text of an error. \<open>/healthz\<close> is asked when \<open>/readyz\<close> is not found.\<close>

definition control_plane_check :: "'r app_state \<Rightarrow> bool \<times> bool \<times> string option" where
  "control_plane_check app =
     (let g = ap_governance app in
      if gc_mode g \<noteq> enforce_mode then (True, False, None)
      else if misconfigured g
      then (False, True, Some ''CONTROL_PLANE_URL is required when GOVERNANCE_MODE=enforce'')
      else if \<not> (gc_enabled g \<and> \<not> gc_fail_open g) then (True, False, None)
      else (case ap_control_plane app (gc_control_plane_url g @ ''/readyz'') of
              Inl e \<Rightarrow> (False, True, Some e)
            | Inr status \<Rightarrow>
                if status = 404 then
                  (case ap_control_plane app (gc_control_plane_url g @ ''/healthz'') of
                     Inl e \<Rightarrow> (False, True, Some e) | Inr s \<Rightarrow> (success_status s, True, None))
                else (success_status status, True, None)))"

definition governance_mode_text :: "GovernanceConfig \<Rightarrow> string" where
  "governance_mode_text g = (case gc_mode g of enforce_mode \<Rightarrow> ''enforce'' | disabled_mode \<Rightarrow> ''disabled'')"

definition rows_of :: "'r app_state \<Rightarrow> health_row list" where
  "rows_of app = (case ap_snapshot app of Inl e \<Rightarrow> [] | Inr rows \<Rightarrow> rows)"

definition available_routes :: "'r app_state \<Rightarrow> nat" where
  "available_routes app = length (filter (\<lambda>r. row_status r \<noteq> ''unhealthy'') (rows_of app))"

definition snapshot_error :: "'r app_state \<Rightarrow> string option" where
  "snapshot_error app = (case ap_snapshot app of Inl e \<Rightarrow> Some e | Inr rows \<Rightarrow> None)"

subsection \<open>The report\<close>

definition build_readiness_report ::
  "runtime_env \<Rightarrow> hash_env \<Rightarrow> 'r app_state \<Rightarrow> (bool \<times> obj) \<times> 'r app_state" where
  "build_readiness_report e h app =
     (let s = ap_settings app; route_ok = (model_targets s \<noteq> []);
          checks = [(''route_registry'', JObj [(''ok'', JBool route_ok), (''models'', JInt (int (length (model_targets s))))])];
          (fine, redis_error) = stores_answer app;
          checks = with_text ''redis_error'' redis_error checks;
          (admission, fine, controller) = admission_check e app fine;
          (budget, fine) = budget_check e h app fine;
          (plane_ok, plane_required, plane_error) = control_plane_check app;
          fine = (if snapshot_error app \<noteq> None \<and> (redis_configured_in app \<or> require_shared_state s) then False else fine);
          checks = dict_set ''redis'' (redis_check app fine) checks;
          checks = dict_set ''admission'' (JObj admission) checks;
          checks = dict_set ''budget_guard'' (JObj budget) checks;
          checks = with_text ''control_plane_error'' plane_error checks;
          checks = dict_set ''control_plane'' (JObj [(''ok'', JBool plane_ok), (''required'', JBool plane_required),
             (''url'', if gc_control_plane_url (ap_governance app) \<noteq> [] then JStr (gc_control_plane_url (ap_governance app)) else JNull),
             (''mode'', JStr (governance_mode_text (ap_governance app)))]) checks;
          checks = with_text ''backends_error'' (snapshot_error app) checks;
          rows = rows_of app; available = available_routes app;
          checks = dict_set ''backends'' (JObj [(''available_routes'', JInt (int available)), (''total'', JInt (int (length rows))),
             (''items'', JArr (map (row_json (re_number e)) rows))]) checks;
          now_draining = draining (ap_drain app);
          checks = dict_set ''drain'' (JObj [(''ok'', JBool (\<not> now_draining)), (''draining'', JBool now_draining)]) checks;
          ready = (route_ok \<and> fine \<and> plane_ok \<and> \<not> now_draining \<and> (0 < available \<or> rows = []));
          status = (if now_draining then ''draining''
                    else if ready \<and> rows \<noteq> [] \<and> available < length rows then ''degraded''
                    else if ready then ''ready'' else ''not_ready'')
      in ((ready, [(''status'', JStr status), (''checks'', JObj checks)]), app\<lparr>ap_admission := controller\<rparr>))"

subsection \<open>Endpoints\<close>

definition livez :: obj where
  "livez = [(''status'', JStr ''ok'')]"

definition healthz :: "'r app_state \<Rightarrow> obj" where
  "healthz app = [(''status'', JStr ''ok''), (''governance_mode'', JStr (governance_mode_text (ap_governance app)))]"

text \<open>Status code and body.\<close>

definition readyz :: "runtime_env \<Rightarrow> hash_env \<Rightarrow> 'r app_state \<Rightarrow> (int \<times> obj) \<times> 'r app_state" where
  "readyz e h app =
     (case build_readiness_report e h app of ((ready, report), app') \<Rightarrow>
        ((if ready then 200 else 503,
          dict_set ''governance_mode'' (JStr (governance_mode_text (ap_governance app))) report), app'))"

definition list_models :: "GatewaySettings \<Rightarrow> obj" where
  "list_models s =
     [(''object'', JStr ''list''),
      (''data'', JArr (map (\<lambda>m. JObj [(''id'', JStr m), (''object'', JStr ''model'')])
         (map fst (model_targets s) @ map fst (model_routes s))))]"

definition route_row :: "(rat \<Rightarrow> json) \<Rightarrow> string \<times> ModelRoute \<Rightarrow> json" where
  "route_row num = (\<lambda>(name, r).
     JObj [(''id'', JStr name), (''object'', JStr ''model.route''),
       (''policy'', JStr (if route_primary r \<noteq> None then ''failover'' else ''weighted'')),
       (''min_health_score'', case route_min_health_score r of None \<Rightarrow> JNull | Some n \<Rightarrow> JInt n),
       (''unhealthy_action'', if route_min_health_score r \<noteq> None then JStr (route_unhealthy_action r) else JNull),
       (''routing_policy'', case route_routing_policy r of None \<Rightarrow> JNull | Some p \<Rightarrow> dump_policy num p),
       (''shadow'', jstr_opt (route_shadow r)),
       (''targets'', JArr (if route_primary r = None then map dump_weighted (route_targets r)
          else [JObj [(''model'', jstr_opt (route_primary r)), (''role'', JStr ''primary'')],
                JObj [(''model'', jstr_opt (route_fallback r)), (''role'', JStr ''fallback'')]]))])"

definition list_routes :: "(rat \<Rightarrow> json) \<Rightarrow> GatewaySettings \<Rightarrow> obj" where
  "list_routes num s = [(''data'', JArr (map (route_row num) (model_routes s)))]"

definition backend_health :: "(rat \<Rightarrow> json) \<Rightarrow> py_exc + health_row list \<Rightarrow> py_exc + obj" where
  "backend_health num rows = bind_exc rows (\<lambda>rows. Inr [(''backends'', JArr (map (row_json num) rows))])"

end
