(* ===== verification/Readiness_Properties.thy ===== *)
theory Readiness_Properties imports Readiness Runtime_Properties Governance_Properties Budget_Guard_Properties begin

text \<open>
  What readiness means: the exact condition of a 200, and a failure of the budget store that no
  probe ever clears.
\<close>

subsection \<open>Ready\<close>

text \<open>What the checks ask of Redis, of the guard's flag and of the control plane.\<close>

definition uses_redis :: "TenantAdmissionController option \<Rightarrow> bool" where
  "uses_redis c = (case c of None \<Rightarrow> False | Some c \<Rightarrow> redis_configured c)"

definition guard_on_redis :: "'r app_state \<Rightarrow> bool" where
  "guard_on_redis app =
     (\<not> truthy_opt (ap_policy_error app)
      \<and> (case ap_guard app of None \<Rightarrow> False | Some (g, t) \<Rightarrow> guard_enabled g \<and> guard_redis g \<noteq> None))"

definition guard_store_ok :: "'r app_state \<Rightarrow> bool" where
  "guard_store_ok app = (case ap_guard app of None \<Rightarrow> True | Some (g, t) \<Rightarrow> guard_redis_ok g)"

definition redis_checks_pass :: "'r app_state \<Rightarrow> bool" where
  "redis_checks_pass app =
     (if redis_configured_in app then
        ap_decision_ping app = Inr True \<and> ap_health_ping app = Inr True
        \<and> (uses_redis (ap_admission app) \<longrightarrow> ap_admission_ping app = None)
        \<and> (guard_on_redis app \<longrightarrow> guard_store_ok app)
        \<and> snapshot_error app = None
      else \<not> require_shared_state (ap_settings app))"

definition answers :: "'r app_state \<Rightarrow> string \<Rightarrow> bool" where
  "answers app path =
     (case ap_control_plane app (gc_control_plane_url (ap_governance app) @ path) of Inl e \<Rightarrow> False | Inr s \<Rightarrow> success_status s)"

definition plane_missing :: "'r app_state \<Rightarrow> string \<Rightarrow> bool" where
  "plane_missing app path = (ap_control_plane app (gc_control_plane_url (ap_governance app) @ path) = Inr 404)"

definition plane_serves :: "'r app_state \<Rightarrow> bool" where
  "plane_serves app =
     (let g = ap_governance app in
      gc_mode g = enforce_mode \<longrightarrow>
        gc_control_plane_url g \<noteq> []
        \<and> (gc_enabled g \<and> \<not> gc_fail_open g \<longrightarrow>
             answers app ''/readyz'' \<or> plane_missing app ''/readyz'' \<and> answers app ''/healthz''))"

definition a_backend_serves :: "'r app_state \<Rightarrow> bool" where
  "a_backend_serves app = (rows_of app = [] \<or> list_ex (\<lambda>r. row_status r \<noteq> ''unhealthy'') (rows_of app))"

lemma available_iff: "0 < available_routes app \<or> rows_of app = [] \<longleftrightarrow> a_backend_serves app"
  by (auto simp: available_routes_def a_backend_serves_def list_ex_iff filter_empty_conv)

lemma stores_answer_iff:
  "fst (stores_answer app) \<longleftrightarrow>
    (if redis_configured_in app then ap_decision_ping app = Inr True \<and> ap_health_ping app = Inr True
     else \<not> require_shared_state (ap_settings app))"
  by (auto simp: stores_answer_def split: sum.split bool.splits)

lemma admission_check_iff:
  "fst (snd (admission_check e app fine)) \<longleftrightarrow>
    fine \<and> (redis_configured_in app \<longrightarrow> uses_redis (ap_admission app) \<longrightarrow> ap_admission_ping app = None)"
  by (auto simp: admission_check_def uses_redis_def admission_ping_def Let_def split: option.split)

lemma budget_check_iff:
  "snd (budget_check e h app fine) \<longleftrightarrow>
    fine \<and> (redis_configured_in app \<longrightarrow> guard_on_redis app \<longrightarrow> guard_store_ok app)"
  by (auto simp: budget_check_def guard_on_redis_def guard_store_ok_def Let_def split: option.split)

lemma control_plane_iff: "fst (control_plane_check app) \<longleftrightarrow> plane_serves app"
  by (auto simp: control_plane_check_def plane_serves_def answers_def plane_missing_def misconfigured_def success_status_def Let_def
      split: sum.split)

lemma ready_flag:
  "fst (fst (build_readiness_report e h app)) \<longleftrightarrow>
    (let fine = fst (stores_answer app); fine = fst (snd (admission_check e app fine)); fine = snd (budget_check e h app fine) in
     model_targets (ap_settings app) \<noteq> []
     \<and> (if snapshot_error app \<noteq> None \<and> (redis_configured_in app \<or> require_shared_state (ap_settings app)) then False else fine)
     \<and> fst (control_plane_check app) \<and> \<not> draining (ap_drain app) \<and> (0 < available_routes app \<or> rows_of app = []))"
  unfolding build_readiness_report_def Let_def case_prod_beta fst_conv snd_conv by (rule refl)

lemma ready_iff:
  "fst (fst (build_readiness_report e h app)) \<longleftrightarrow>
    model_targets (ap_settings app) \<noteq> [] \<and> redis_checks_pass app \<and> plane_serves app \<and> \<not> draining (ap_drain app) \<and> a_backend_serves app"
  unfolding ready_flag Let_def control_plane_iff available_iff budget_check_iff admission_check_iff stores_answer_iff redis_checks_pass_def
  by auto

lemma readyz_code: "fst (fst (readyz e h app)) = (if fst (fst (build_readiness_report e h app)) then 200 else 503)"
  unfolding readyz_def case_prod_beta by simp

text \<open>
  C37: The readiness endpoint answers 200 if and only if every check it makes passes, and 503 otherwise:
  models are configured; the gateway is not draining; of the health rows it read, if there are any, one
  is not marked unhealthy (with no rows it is ready without a usable backend); where Redis is configured,
  the decision and health stores and the admission store answered their pings, the snapshot was read, and
  the last call the budget guard made of its Redis store did not fail (a flag: the probe does not ask that
  store); where Redis is not configured, no shared state is required; and where enforcement depends on the
  control plane, it has an address and answers.
\<close>

theorem readyz_exact:
  "fst (fst (readyz e h app)) =
    (if model_targets (ap_settings app) \<noteq> [] \<and> redis_checks_pass app \<and> plane_serves app \<and> \<not> draining (ap_drain app) \<and> a_backend_serves app
     then 200 else 503)"
  unfolding readyz_code ready_iff by (rule refl)

subsection \<open>A budget store that failed once\<close>

text \<open>What a probe finds outside the process.\<close>

record outside =
  out_decision_ping :: "string + bool"
  out_health_ping :: "string + bool"
  out_snapshot :: "string + health_row list"
  out_admission_ping :: "string option"
  out_control_plane :: "string \<Rightarrow> string + int"

definition seen_from :: "outside \<Rightarrow> 'r app_state \<Rightarrow> 'r app_state" where
  "seen_from w app =
     app\<lparr>ap_decision_ping := out_decision_ping w, ap_health_ping := out_health_ping w, ap_snapshot := out_snapshot w,
         ap_admission_ping := out_admission_ping w, ap_control_plane := out_control_plane w\<rparr>"

fun probe_codes :: "runtime_env \<Rightarrow> hash_env \<Rightarrow> outside list \<Rightarrow> 'r app_state \<Rightarrow> int list" where
  "probe_codes e h [] app = []"
| "probe_codes e h (w # ws) app =
     (case readyz e h (seen_from w app) of ((code, body), app') \<Rightarrow> code # probe_codes e h ws app')"

definition store_failed :: "'r app_state \<Rightarrow> bool" where
  "store_failed app = (redis_configured_in app \<and> guard_on_redis app \<and> \<not> guard_store_ok app)"

lemma store_failed_seen: "store_failed app \<Longrightarrow> store_failed (seen_from w app)"
  by (simp add: store_failed_def redis_configured_in_def guard_on_redis_def guard_store_ok_def seen_from_def)

lemma store_failed_probed: "store_failed app \<Longrightarrow> store_failed (snd (readyz e h app))"
  by (auto simp: store_failed_def redis_configured_in_def guard_on_redis_def guard_store_ok_def readyz_def
      build_readiness_report_def Let_def split: prod.splits)

text \<open>
  One failed call of the budget store keeps the gateway out of service. Once the guard has
  marked its Redis store as failed, every later readiness probe answers 503, whatever Redis, the
  control plane and the backends answer from then on: a probe reads the flag and never asks the
  store again, and a gateway that is not ready is sent no request that would.
\<close>

theorem failed_budget_store_sticks:
  assumes "store_failed app"
  shows "set (probe_codes e h ws app) \<subseteq> {503}"
  using assms
proof (induction ws arbitrary: app)
  case (Cons w ws)
  let ?app = "seen_from w app"
  have failed: "store_failed ?app" using Cons.prems by (rule store_failed_seen)
  then have "\<not> redis_checks_pass ?app" by (simp add: redis_checks_pass_def store_failed_def)
  then have "fst (fst (readyz e h ?app)) = 503"
    by (simp add: readyz_code ready_iff)
  then show ?case
    using Cons.IH [OF store_failed_probed [OF failed, of e h]] by (simp add: case_prod_beta)
qed simp

text \<open>A world in which everything answers, and a guard whose store failed before.\<close>

definition all_well :: outside where
  "all_well =
     \<lparr>out_decision_ping = Inr True, out_health_ping = Inr True, out_snapshot = Inr [], out_admission_ping = None,
      out_control_plane = (\<lambda>url. Inr 200)\<rparr>"

definition demo_app :: "bool \<Rightarrow> unit app_state" where
  "demo_app ok =
     \<lparr>ap_settings = demo_loaded\<lparr>redis_url := Some ''redis://r''\<rparr>, ap_decision_ping = Inr True, ap_health_ping = Inr True,
      ap_snapshot = Inr [], ap_admission = None, ap_admission_ping = None,
      ap_guard = Some ((init_guard (Some demo_policy) (Some ()))\<lparr>guard_redis_ok := ok\<rparr>, FDec 1 0), ap_policy_error = None,
      ap_governance = demo_governance, ap_control_plane = (\<lambda>url. Inr 200),
      ap_drain = \<lparr>draining = False, started_at = None\<rparr>\<rparr>"

theorem failed_budget_store_sticks_witness:
  "probe_codes demo_runtime demo_env [all_well, all_well] (demo_app True) = [200, 200]
   \<and> set (probe_codes demo_runtime demo_env [all_well, all_well] (demo_app False)) \<subseteq> {503}"
proof
  show "probe_codes demo_runtime demo_env [all_well, all_well] (demo_app True) = [200, 200]" by code_simp
  have "store_failed (demo_app False)" by code_simp
  then show "set (probe_codes demo_runtime demo_env [all_well, all_well] (demo_app False)) \<subseteq> {503}"
    by (rule failed_budget_store_sticks)
qed

text \<open>
  A malformed budget policy, for which every chat request is refused, has no influence on
  readiness.
\<close>

theorem policy_error_is_ready:
  "ap_guard app = None \<Longrightarrow>
    fst (fst (readyz e h (app\<lparr>ap_policy_error := Some msg\<rparr>))) = fst (fst (readyz e h (app\<lparr>ap_policy_error := None\<rparr>)))"
  by (simp add: readyz_code ready_iff redis_checks_pass_def redis_configured_in_def guard_on_redis_def snapshot_error_def
      plane_serves_def answers_def plane_missing_def a_backend_serves_def rows_of_def)

end
