(* ===== verification/Budget_Lua.thy ===== *)
theory Budget_Lua imports Budget_Store Redis_Ops begin

text \<open>
  The Lua scripts of \<open>app/gateway/budget_guard.py\<close>: the window of one scope shared by the fleet, as
  a hash with the running totals, a sorted set of reservations (id, expiry) and a hash of their
  amounts, in which an expired reservation stays as a tombstone \<open>x<micros>\<close>. Each script runs at
  once on the server. \<open>tonumber\<close> is a parameter, documented to read back what
  \<open>string.format('%d')\<close> prints; numbers are integers (Lua's are exact up to 2^53, nine billion
  dollars in micros). The client passes integers, so an argument is never \<open>nil\<close>.
\<close>

subsection \<open>The shared functions\<close>

definition lua_num :: "(string \<Rightarrow> int option) \<Rightarrow> string option \<Rightarrow> int option" where
  "lua_num tn v = (case v of None \<Rightarrow> Some 0 | Some t \<Rightarrow> tn t)"

definition load_window :: "('r, 'm) redis_scheme \<Rightarrow> (string \<Rightarrow> int option) \<Rightarrow> string \<Rightarrow> 'r \<Rightarrow> (int \<times> int \<times> int) option" where
  "load_window ops tn wk r =
     (case (lua_num tn (hget ops wk ''committed_micros'' r), lua_num tn (hget ops wk ''reserved_micros'' r),
            lua_num tn (hget ops wk ''window_start'' r)) of
        (Some committed, Some reserved, Some window_start) \<Rightarrow> Some (committed, reserved, window_start)
      | _ \<Rightarrow> None)"

definition tombstone_text :: "int \<Rightarrow> string" where
  "tombstone_text a = CHR ''x'' # show_int a"

text \<open>The first loop of \<open>expire\<close>: the amounts of the expired ids, \<open>None\<close> when one is corrupt.\<close>

fun expired_amounts :: "('r, 'm) redis_scheme \<Rightarrow> (string \<Rightarrow> int option) \<Rightarrow> string \<Rightarrow> 'r \<Rightarrow> string list \<Rightarrow> int list option" where
  "expired_amounts ops tn ak r [] = Some []"
| "expired_amounts ops tn ak r (i # ids) =
     (case lua_num tn (hget ops ak i r) of
        None \<Rightarrow> None
      | Some a \<Rightarrow> map_option ((#) a) (expired_amounts ops tn ak r ids))"

text \<open>Reserved micros left, number and micros of the expired reservations.\<close>

definition lua_expire ::
  "('r, 'm) redis_scheme \<Rightarrow> (string \<Rightarrow> int option) \<Rightarrow> string \<Rightarrow> string \<Rightarrow> int \<Rightarrow> int \<Rightarrow> 'r \<Rightarrow> (int \<times> int \<times> int) option \<times> 'r" where
  "lua_expire ops tn zk ak now reserved r =
     (let expired = zrange_upto ops zk now r in
      case expired_amounts ops tn ak r expired of
        None \<Rightarrow> (None, r)
      | Some amounts \<Rightarrow>
          (let r = fold (\<lambda>(i, a). hset ops ak i (tombstone_text a)) (zip expired amounts) r;
               r = (if 0 < length expired then zrem_upto ops zk now r else r)
           in (Some (max 0 (reserved - sum_list amounts), int (length expired), sum_list amounts), r)))"

text \<open>
  \<open>PEXPIRE\<close> of the three keys. The laws of the commands fix no time, so a deadline does nothing here;
  \<open>Budget_Agreement\<close> runs the scripts on a server that drops the keys when the deadline has passed, and
  the fleet's theorems that start from an unknown scope cover what follows.
\<close>

definition touch :: "('r, 'm) redis_scheme \<Rightarrow> string \<Rightarrow> string \<Rightarrow> string \<Rightarrow> int \<Rightarrow> 'r \<Rightarrow> 'r" where
  "touch ops wk zk ak ttl r = pexpire ops ak ttl (pexpire ops zk ttl (pexpire ops wk ttl r))"

definition write_window :: "('r, 'm) redis_scheme \<Rightarrow> string \<Rightarrow> int \<Rightarrow> int \<Rightarrow> int \<Rightarrow> 'r \<Rightarrow> 'r" where
  "write_window ops wk window_start committed reserved r =
     hset ops wk ''reserved_micros'' (show_int reserved)
       (hset ops wk ''committed_micros'' (show_int committed)
         (hset ops wk ''window_start'' (show_int window_start) r))"

text \<open>The rollover of the window: its start and the committed micros.\<close>

definition lua_roll :: "int \<Rightarrow> int \<Rightarrow> int \<Rightarrow> int \<Rightarrow> int \<times> int" where
  "lua_roll now window window_start committed =
     (if window_start = 0 \<or> window \<le> now - window_start then (now, 0) else (window_start, committed))"

subsection \<open>The scripts\<close>

definition reserve_lua ::
  "('r, 'm) redis_scheme \<Rightarrow> (string \<Rightarrow> int option) \<Rightarrow> string \<Rightarrow> string \<Rightarrow> string
   \<Rightarrow> int \<Rightarrow> int \<Rightarrow> int \<Rightarrow> int \<Rightarrow> string \<Rightarrow> int \<Rightarrow> 'r script" where
  "reserve_lua ops tn wk zk ak now window budget estimate res_id ttl r =
     (if estimate < 0 \<or> budget \<le> 0 \<or> window \<le> 0 \<or> ttl \<le> 0 then ([-1, 0, 0, 0, 0], r)
      else (case load_window ops tn wk r of
          None \<Rightarrow> ([-2, 0, 0, 0, 0], r)
        | Some (committed, reserved, window_start) \<Rightarrow>
            (case lua_expire ops tn zk ak now reserved r of
               (None, r) \<Rightarrow> ([-2, 0, 0, 0, 0], r)
             | (Some (reserved, expired_count, released), r) \<Rightarrow>
                 (case lua_roll now window window_start committed of (window_start, committed) \<Rightarrow>
                    if budget < committed + reserved + estimate then
                      ([0, committed, reserved, committed + reserved, expired_count],
                       touch ops wk zk ak (max window ttl * 4) (write_window ops wk window_start committed reserved r))
                    else
                      (let reserved = reserved + estimate;
                           r = write_window ops wk window_start committed reserved r;
                           r = hset ops ak res_id (show_int estimate) (zadd ops zk (now + ttl) res_id r)
                       in ([1, committed, reserved, committed + reserved, expired_count],
                           touch ops wk zk ak (max window ttl * 4) r))))))"

text \<open>A stored amount: whether it is a tombstone, and its number.\<close>

definition read_amount :: "(string \<Rightarrow> int option) \<Rightarrow> string \<Rightarrow> bool \<times> int option" where
  "read_amount tn raw = (if take 1 raw = ''x'' then (True, tn (drop 1 raw)) else (False, tn raw))"

definition settle_lua ::
  "('r, 'm) redis_scheme \<Rightarrow> (string \<Rightarrow> int option) \<Rightarrow> string \<Rightarrow> string \<Rightarrow> string \<Rightarrow> string \<Rightarrow> int \<Rightarrow> int \<Rightarrow> int \<Rightarrow> 'r script" where
  "settle_lua ops tn wk zk ak res_id actual now window r =
     (if actual < 0 \<or> window \<le> 0 then ([-1, 0, 0, 0], r)
      else (case hget ops ak res_id r of
          None \<Rightarrow> ([0, 0, 0, 0], r)
        | Some raw \<Rightarrow>
            (case (read_amount tn raw, load_window ops tn wk r) of
               ((tombstone, Some amt), Some (committed, reserved, window_start)) \<Rightarrow>
                 (case lua_roll now window window_start committed of (window_start, committed) \<Rightarrow>
                    let r = zrem ops zk res_id (hdel ops ak res_id r);
                        reserved = (if tombstone then reserved else max 0 (reserved - amt));
                        committed = committed + actual
                    in ([if tombstone then 2 else 1, committed, reserved, amt],
                        write_window ops wk window_start committed reserved r))
             | _ \<Rightarrow> ([-2, 0, 0, 0], r))))"

definition purge_lua :: "('r, 'm) redis_scheme \<Rightarrow> (string \<Rightarrow> int option) \<Rightarrow> string \<Rightarrow> string \<Rightarrow> string \<Rightarrow> int \<Rightarrow> 'r script" where
  "purge_lua ops tn wk zk ak now r =
     (case load_window ops tn wk r of
        None \<Rightarrow> ([-2, 0, 0, 0], r)
      | Some (committed, reserved, window_start) \<Rightarrow>
          (case lua_expire ops tn zk ak now reserved r of
             (None, r) \<Rightarrow> ([-2, 0, 0, 0], r)
           | (Some (reserved, expired_count, released), r) \<Rightarrow>
               ([expired_count, released, committed, reserved],
                if 0 < expired_count then hset ops wk ''reserved_micros'' (show_int reserved) r else r)))"

subsection \<open>What a scope holds\<close>

definition amount_of :: "(string \<Rightarrow> int option) \<Rightarrow> string option \<Rightarrow> int" where
  "amount_of tn v = (case v of None \<Rightarrow> 0 | Some t \<Rightarrow> (case tn t of None \<Rightarrow> 0 | Some a \<Rightarrow> a))"

text \<open>The sum of the amounts of the reservations in the sorted set.\<close>

definition held :: "(string \<Rightarrow> int option) \<Rightarrow> (string \<Rightarrow> int option) \<Rightarrow> (string \<Rightarrow> string option) \<Rightarrow> int" where
  "held tn z a = (\<Sum>i\<in>dom z. amount_of tn (a i))"

text \<open>Live reservations have their amount, expired ones their tombstone, and nothing else is stored.\<close>

definition entries_ok :: "(string \<Rightarrow> int option) \<Rightarrow> (string \<Rightarrow> string option) \<Rightarrow> bool" where
  "entries_ok z a \<longleftrightarrow>
     (\<forall>i. case a i of
        None \<Rightarrow> z i = None
      | Some t \<Rightarrow> if z i = None then \<exists>n. t = tombstone_text n else \<exists>n\<ge>0. t = show_int n)"

definition lua_inv :: "('r, 'm) redis_scheme \<Rightarrow> (string \<Rightarrow> int option) \<Rightarrow> string \<Rightarrow> string \<Rightarrow> string \<Rightarrow> int \<Rightarrow> 'r \<Rightarrow> bool" where
  "lua_inv ops tn wk zk ak w r \<longleftrightarrow>
     redis_laws ops \<and> (\<forall>n. tn (show_int n) = Some n) \<and> wk \<noteq> ak \<and> 0 < w
     \<and> entries_ok (zsets ops r zk) (hashes ops r ak)
     \<and> (\<exists>c ws. load_window ops tn wk r = Some (c, held tn (zsets ops r zk) (hashes ops r ak), ws) \<and> 0 \<le> c)"

definition lua_live :: "('r, 'm) redis_scheme \<Rightarrow> (string \<Rightarrow> int option) \<Rightarrow> string \<Rightarrow> string \<Rightarrow> 'r \<Rightarrow> string \<Rightarrow> int option" where
  "lua_live ops tn zk ak r i =
     (case zsets ops r zk i of None \<Rightarrow> None | Some e \<Rightarrow> Some (amount_of tn (hashes ops r ak i)))"

definition lua_late :: "('r, 'm) redis_scheme \<Rightarrow> (string \<Rightarrow> int option) \<Rightarrow> string \<Rightarrow> string \<Rightarrow> 'r \<Rightarrow> string \<Rightarrow> int option" where
  "lua_late ops tn zk ak r i =
     (case zsets ops r zk i of Some e \<Rightarrow> None | None \<Rightarrow> map_option (\<lambda>t. amount_of tn (Some (drop 1 t))) (hashes ops r ak i))"

definition lua_exposure :: "('r, 'm) redis_scheme \<Rightarrow> (string \<Rightarrow> int option) \<Rightarrow> string \<Rightarrow> 'r \<Rightarrow> int" where
  "lua_exposure ops tn wk r = (case load_window ops tn wk r of None \<Rightarrow> 0 | Some (c, v, ws) \<Rightarrow> c + v)"

subsection \<open>The scripts as steps of a budget store\<close>

lemma show_int_no_tombstone: "take 1 (show_int n) \<noteq> ''x''"
proof -
  have "hd (show_nat k) \<noteq> CHR ''x'' \<and> show_nat k \<noteq> []" for k
  proof (induction k rule: show_nat.induct)
    case (1 n)
    have "list_all (\<lambda>n. char_of (48 + n :: nat) \<noteq> CHR ''x'') [0..<10]" by code_simp
    then have "char_of (48 + n) \<noteq> CHR ''x''" if "n < 10" using that by (simp add: list_all_iff)
    with 1 show ?case by (subst (1 2) show_nat.simps) auto
  qed
  from this [of "nat n"] show ?thesis by (cases "show_nat (nat n)") (auto simp: show_int_def)
qed

lemma read_amount_simps [simp]:
  "read_amount tn (tombstone_text n) = (True, tn (show_int n))"
  "read_amount tn (show_int n) = (False, tn (show_int n))"
  using show_int_no_tombstone [of n] by (simp_all add: read_amount_def tombstone_text_def)

lemma lua_inv_facts:
  assumes "lua_inv ops tn wk zk ak w r"
  shows "redis_laws ops" "tn (show_int n) = Some n" "wk \<noteq> ak" "0 < w" "entries_ok (zsets ops r zk) (hashes ops r ak)"
  using assms by (simp_all add: lua_inv_def)

lemma lua_invE:
  assumes "lua_inv ops tn wk zk ak w r"
  obtains c ws where "load_window ops tn wk r = Some (c, held tn (zsets ops r zk) (hashes ops r ak), ws)" and "0 \<le> c"
  using assms by (auto simp: lua_inv_def)

lemma load_window_of: "load_window ops tn wk r =
   (case (lua_num tn (hashes ops r wk ''committed_micros''), lua_num tn (hashes ops r wk ''reserved_micros''),
          lua_num tn (hashes ops r wk ''window_start'')) of
      (Some committed, Some reserved, Some window_start) \<Rightarrow> Some (committed, reserved, window_start) | _ \<Rightarrow> None)"
  by (simp add: load_window_def hashes_def)

lemma load_cong: "hashes ops r' wk = hashes ops r wk \<Longrightarrow> load_window ops tn wk r' = load_window ops tn wk r"
  by (simp add: load_window_of)

text \<open>Amounts that are there are not negative.\<close>

lemma entries_okD:
  "entries_ok z a \<Longrightarrow> case a i of None \<Rightarrow> z i = None
     | Some t \<Rightarrow> if z i = None then \<exists>n. t = tombstone_text n else \<exists>n\<ge>0. t = show_int n"
  unfolding entries_ok_def by (rule spec)

lemma live_entry:
  assumes "entries_ok z a" and "z i = Some e"
  obtains n where "0 \<le> n" and "a i = Some (show_int n)"
  using entries_okD [OF assms(1), of i] assms(2) by (cases "a i") auto

lemma amount_nonneg:
  assumes "entries_ok z a" and "\<And>n. tn (show_int n) = Some n" and "i \<in> dom z"
  shows "0 \<le> amount_of tn (a i)"
  using assms by (auto simp: amount_of_def elim: live_entry)

subsubsection \<open>Expiry\<close>

definition expired_map :: "(string \<Rightarrow> int option) \<Rightarrow> int \<Rightarrow> (string \<Rightarrow> int option) \<Rightarrow> (string \<Rightarrow> string option) \<Rightarrow> string \<Rightarrow> string option" where
  "expired_map tn now z a i = (if \<exists>s\<le>now. z i = Some s then Some (tombstone_text (amount_of tn (a i))) else a i)"

lemma expired_amounts_live:
  assumes "entries_ok (zsets ops r zk) (hashes ops r ak)" and "\<And>n. tn (show_int n) = Some n"
    and "set ids \<subseteq> dom (zsets ops r zk)"
  shows "expired_amounts ops tn ak r ids = Some (map (\<lambda>i. amount_of tn (hashes ops r ak i)) ids)"
  using assms(3)
proof (induction ids)
  case (Cons i ids)
  then obtain e where e: "zsets ops r zk i = Some e" by auto
  obtain n where n: "hashes ops r ak i = Some (show_int n)" using live_entry [OF assms(1) e] by blast
  then have "hget ops ak i r = Some (show_int n)" by (simp add: hashes_def)
  with Cons n assms(2) show ?case by (simp add: lua_num_def amount_of_def)
qed simp

lemma fold_tombstones:
  assumes "redis_laws ops" and "distinct ids"
  shows "zsets ops (fold (\<lambda>(i, a). hset ops ak i (tombstone_text a)) (zip ids (map f ids)) r) = zsets ops r"
    and "hashes ops (fold (\<lambda>(i, a). hset ops ak i (tombstone_text a)) (zip ids (map f ids)) r) =
       (hashes ops r)(ak := (\<lambda>i. if i \<in> set ids then Some (tombstone_text (f i)) else hashes ops r ak i))"
  using assms(2) by (induction ids arbitrary: r) (auto simp: redis_rules [OF assms(1)] fun_eq_iff)

lemma held_drop:
  assumes "finite (dom z)" and "distinct ids" and "set ids = {i. \<exists>s\<le>now. z i = Some s}"
  shows "held tn z a - sum_list (map (\<lambda>i. amount_of tn (a i)) ids) = held tn (drop_upto now z) (expired_map tn now z a)"
proof -
  have split: "dom z = dom (drop_upto now z) \<union> set ids" "dom (drop_upto now z) \<inter> set ids = {}"
    using assms(3) by (auto simp: drop_upto_def split: option.splits if_splits)
  have fin: "finite (dom (drop_upto now z))" using assms(1) split(1) by simp
  have "held tn z a = (\<Sum>i\<in>dom (drop_upto now z). amount_of tn (a i)) + (\<Sum>i\<in>set ids. amount_of tn (a i))"
    unfolding held_def split(1) using fin split(2) by (intro sum.union_disjoint) simp_all
  moreover have "(\<Sum>i\<in>set ids. amount_of tn (a i)) = sum_list (map (\<lambda>i. amount_of tn (a i)) ids)"
    using assms(2) by (simp add: sum_list_distinct_conv_sum_set)
  moreover have "(\<Sum>i\<in>dom (drop_upto now z). amount_of tn (a i)) = held tn (drop_upto now z) (expired_map tn now z a)"
    unfolding held_def by (rule sum.cong) (auto simp: drop_upto_def expired_map_def split: option.splits if_splits)
  ultimately show ?thesis by simp
qed

lemma entries_expired:
  assumes "entries_ok z a"
  shows "entries_ok (drop_upto now z) (expired_map tn now z a)"
  unfolding entries_ok_def
proof
  fix i
  show "case expired_map tn now z a i of None \<Rightarrow> drop_upto now z i = None
     | Some t \<Rightarrow> if drop_upto now z i = None then \<exists>n. t = tombstone_text n else \<exists>n\<ge>0. t = show_int n"
    using entries_okD [OF assms, of i]
    by (cases "z i"; cases "a i") (auto simp: drop_upto_def expired_map_def)
qed

lemma held_nonneg:
  assumes "entries_ok z a" and "\<And>n. tn (show_int n) = Some n"
  shows "0 \<le> held tn z a"
  unfolding held_def using amount_nonneg [OF assms] by (rule sum_nonneg)

lemma lua_expire_spec:
  fixes ops :: "('r, 'm) redis_scheme" and now :: int
  assumes "lua_inv ops tn wk zk ak w r"
  defines "z \<equiv> drop_upto now (zsets ops r zk)" and "a \<equiv> expired_map tn now (zsets ops r zk) (hashes ops r ak)"
  obtains n rel r' where "lua_expire ops tn zk ak now (held tn (zsets ops r zk) (hashes ops r ak)) r = (Some (held tn z a, n, rel), r')"
    and "zsets ops r' = (zsets ops r)(zk := z)" and "hashes ops r' = (hashes ops r)(ak := a)"
    and "entries_ok z a" and "held tn z a \<le> held tn (zsets ops r zk) (hashes ops r ak)"
    and "n = 0 \<Longrightarrow> held tn z a = held tn (zsets ops r zk) (hashes ops r ak)"
proof -
  note f = lua_inv_facts [OF assms(1)]
  let ?ids = "zrange_upto ops zk now r" and ?f = "\<lambda>i. amount_of tn (hashes ops r ak i)"
  have ids: "set ?ids = {i. \<exists>s\<le>now. zsets ops r zk i = Some s}" "distinct ?ids"
    using f(1) by (simp_all add: redis_laws_def)
  have fin: "finite (dom (zsets ops r zk))" by (rule redis_rules [OF f(1)])
  have amounts: "expired_amounts ops tn ak r ?ids = Some (map ?f ?ids)"
    using ids(1) by (intro expired_amounts_live [OF f(5) f(2)]) auto
  note sum = held_drop [OF fin ids(2) ids(1), of tn "hashes ops r ak", folded z_def a_def]
  let ?r1 = "fold (\<lambda>(i, a). hset ops ak i (tombstone_text a)) (zip ?ids (map ?f ?ids)) r"
  let ?r2 = "if 0 < length ?ids then zrem_upto ops zk now ?r1 else ?r1"
  have ok: "entries_ok z a" unfolding z_def a_def by (rule entries_expired [OF f(5)])
  have pos: "0 \<le> held tn z a" by (rule held_nonneg [OF ok f(2)])
  have "0 \<le> sum_list (map ?f ?ids)"
    using amount_nonneg [OF f(5) f(2)] ids(1) by (intro sum_list_nonneg) auto
  with sum have le: "held tn z a \<le> held tn (zsets ops r zk) (hashes ops r ak)" by simp
  have res: "lua_expire ops tn zk ak now (held tn (zsets ops r zk) (hashes ops r ak)) r
      = (Some (held tn z a, int (length ?ids), sum_list (map ?f ?ids)), ?r2)"
    using sum pos by (simp add: lua_expire_def Let_def amounts)
  have zs: "zsets ops ?r2 = (zsets ops r)(zk := z)"
  proof (cases "?ids = []")
    case True
    then have "drop_upto now (zsets ops r zk) = zsets ops r zk"
      using ids(1) by (intro ext) (force simp: drop_upto_def split: option.splits)
    with True show ?thesis by (simp add: z_def)
  qed (simp add: z_def redis_rules [OF f(1)] fold_tombstones [OF f(1) ids(2)])
  have hs: "hashes ops ?r2 = (hashes ops r)(ak := a)"
  proof -
    have "hashes ops ?r2 = hashes ops ?r1" by (simp add: redis_rules [OF f(1)])
    also have "\<dots> = (hashes ops r)(ak := a)"
      using ids(1) by (simp add: fold_tombstones [OF f(1) ids(2)] a_def expired_map_def fun_eq_iff)
    finally show ?thesis .
  qed
  show thesis by (rule that [OF res zs hs ok le]) (use sum in simp)
qed

subsubsection \<open>Writes\<close>

lemma write_window_facts:
  assumes "redis_laws ops" and "\<And>n. tn (show_int n) = Some n"
  shows "load_window ops tn wk (write_window ops wk ws c v r) = Some (c, v, ws)"
    and "zsets ops (write_window ops wk ws c v r) = zsets ops r"
    and "k \<noteq> wk \<Longrightarrow> hashes ops (write_window ops wk ws c v r) k = hashes ops r k"
  by (simp_all add: write_window_def load_window_of redis_rules [OF assms(1)] lua_num_def assms(2))

lemma touch_facts:
  assumes "redis_laws ops"
  shows "zsets ops (touch ops wk zk ak t r) = zsets ops r" "hashes ops (touch ops wk zk ak t r) = hashes ops r"
  by (simp_all add: touch_def redis_rules [OF assms])

lemma lua_roll_bounds: "0 \<le> c \<Longrightarrow> lua_roll now w ws c = (ws', c') \<Longrightarrow> 0 \<le> c' \<and> c' \<le> c"
  by (auto simp: lua_roll_def split: if_splits)

text \<open>What a reservation does to the scope.\<close>

lemma reserve_lua_cases:
  fixes ops :: "('r, 'm) redis_scheme" and now :: int
  assumes inv: "lua_inv ops tn wk zk ak w r"
  defines "z \<equiv> drop_upto now (zsets ops r zk)" and "a \<equiv> expired_map tn now (zsets ops r zk) (hashes ops r ak)"
  obtains (refused) res where "reserve_lua ops tn wk zk ak now w cap est i ttl r = (res, r)" and "hd res \<noteq> 1"
  | (denied) res r' c ws where "reserve_lua ops tn wk zk ak now w cap est i ttl r = (res, r')" and "hd res \<noteq> 1"
      and "zsets ops r' zk = z" and "hashes ops r' ak = a" and "load_window ops tn wk r' = Some (c, held tn z a, ws)"
      and "0 \<le> c" and "c + held tn z a \<le> lua_exposure ops tn wk r"
  | (allowed) res r' c ws where "reserve_lua ops tn wk zk ak now w cap est i ttl r = (res, r')" and "hd res = 1"
      and "zsets ops r' zk = z(i \<mapsto> now + ttl)" and "hashes ops r' ak = a(i \<mapsto> show_int est)"
      and "load_window ops tn wk r' = Some (c, held tn z a + est, ws)" and "0 \<le> c" and "c + held tn z a + est \<le> cap"
proof -
  note f = lua_inv_facts [OF inv]
  obtain c ws where load: "load_window ops tn wk r = Some (c, held tn (zsets ops r zk) (hashes ops r ak), ws)" and c: "0 \<le> c"
    by (rule lua_invE [OF inv])
  obtain n rel r1 where e: "lua_expire ops tn zk ak now (held tn (zsets ops r zk) (hashes ops r ak)) r = (Some (held tn z a, n, rel), r1)"
      and r1: "zsets ops r1 = (zsets ops r)(zk := z)" "hashes ops r1 = (hashes ops r)(ak := a)"
      and le: "held tn z a \<le> held tn (zsets ops r zk) (hashes ops r ak)"
    by (rule lua_expire_spec [OF inv, of now, folded z_def a_def])
  obtain ws' c' where roll: "lua_roll now w ws c = (ws', c')" by fastforce
  have c': "0 \<le> c'" "c' \<le> c" using lua_roll_bounds [OF c roll] by simp_all
  have sum: "c' + held tn z a \<le> c + held tn (zsets ops r zk) (hashes ops r ak)" using c' le by linarith
  note w = write_window_facts [OF f(1) f(2)]
  note simps = reserve_lua_def load e roll Let_def touch_facts [OF f(1)] w r1
  show thesis
  proof (cases "est < 0 \<or> cap \<le> 0 \<or> w \<le> 0 \<or> ttl \<le> 0")
    case True
    then have "reserve_lua ops tn wk zk ak now w cap est i ttl r = ([-1, 0, 0, 0, 0], r)" by (simp add: reserve_lua_def)
    then show thesis by (rule refused) simp
  next
    case ok: False
    show thesis
    proof (cases "cap < c' + held tn z a + est")
      case True
      let ?r' = "touch ops wk zk ak (max w ttl * 4) (write_window ops wk ws' c' (held tn z a) r1)"
      have "reserve_lua ops tn wk zk ak now w cap est i ttl r = ([0, c', held tn z a, c' + held tn z a, n], ?r')"
        using ok True by (simp add: simps)
      then show thesis
        by (rule denied) (use c' sum load f(3) in \<open>simp_all add: simps load_cong [OF fun_cong [OF touch_facts(2) [OF f(1)]]] lua_exposure_def\<close>)
    next
      case False
      then have fits: "c' + held tn z a + est \<le> cap" by simp
      let ?r2 = "write_window ops wk ws' c' (held tn z a + est) r1"
      let ?r3 = "hset ops ak i (show_int est) (zadd ops zk (now + ttl) i ?r2)"
      have r3: "zsets ops ?r3 zk = z(i \<mapsto> now + ttl)" "hashes ops ?r3 ak = a(i \<mapsto> show_int est)" "hashes ops ?r3 wk = hashes ops ?r2 wk"
        using f(3) by (simp_all add: redis_rules [OF f(1)] w r1)
      have "reserve_lua ops tn wk zk ak now w cap est i ttl r
          = ([1, c', held tn z a + est, c' + (held tn z a + est), n], touch ops wk zk ak (max w ttl * 4) ?r3)"
        using ok False by (simp add: simps)
      then show thesis
        by (rule allowed)
          (use c' fits r3 in \<open>simp_all add: touch_facts [OF f(1)] load_cong [OF fun_cong [OF touch_facts(2) [OF f(1)]]] load_cong [OF r3(3)] w\<close>)
    qed
  qed
qed

subsubsection \<open>Sums\<close>

lemma held_insert:
  assumes "finite (dom z)" and "z i = None"
  shows "held tn (z(i \<mapsto> e)) (a(i \<mapsto> t)) = held tn z a + amount_of tn (Some t)"
proof -
  have "(\<Sum>j\<in>dom z. amount_of tn ((a(i \<mapsto> t)) j)) = held tn z a"
    unfolding held_def using assms(2) by (intro sum.cong) auto
  moreover have "i \<notin> dom z" using assms(2) by auto
  ultimately show ?thesis using assms(1) by (simp add: held_def)
qed

lemma held_remove:
  assumes "finite (dom z)" and "z i = Some e"
  shows "held tn (z(i := None)) (a(i := None)) = held tn z a - amount_of tn (a i)"
proof -
  have "(\<Sum>j\<in>dom z - {i}. amount_of tn ((a(i := None)) j)) = (\<Sum>j\<in>dom z - {i}. amount_of tn (a j))"
    by (intro sum.cong) auto
  moreover have "i \<in> dom z" using assms(2) by auto
  ultimately show ?thesis using assms(1) by (simp add: held_def sum_diff1)
qed

lemma held_forget: "z i = None \<Longrightarrow> held tn (z(i := None)) (a(i := None)) = held tn z a"
  unfolding held_def by (intro sum.cong) (auto split: if_splits)

lemma entries_insert:
  assumes "entries_ok z a" and "0 \<le> n"
  shows "entries_ok (z(i \<mapsto> e)) (a(i \<mapsto> show_int n))"
  unfolding entries_ok_def
proof
  fix j
  show "case (a(i \<mapsto> show_int n)) j of None \<Rightarrow> (z(i \<mapsto> e)) j = None
     | Some t \<Rightarrow> if (z(i \<mapsto> e)) j = None then \<exists>n. t = tombstone_text n else \<exists>n\<ge>0. t = show_int n"
    using entries_okD [OF assms(1), of j] assms(2) by (cases "j = i"; cases "a j") auto
qed

lemma entries_remove:
  assumes "entries_ok z a"
  shows "entries_ok (z(i := None)) (a(i := None))"
  unfolding entries_ok_def
proof
  fix j
  show "case (a(i := None)) j of None \<Rightarrow> (z(i := None)) j = None
     | Some t \<Rightarrow> if (z(i := None)) j = None then \<exists>n. t = tombstone_text n else \<exists>n\<ge>0. t = show_int n"
    using entries_okD [OF assms, of j] by (cases "j = i"; cases "a j") auto
qed

lemma amount_le_held:
  assumes "finite (dom z)" and "entries_ok z a" and "\<And>n. tn (show_int n) = Some n" and "z i = Some e"
  shows "amount_of tn (a i) \<le> held tn z a"
  unfolding held_def using amount_nonneg [OF assms(2,3)] assms(1,4) by (intro member_le_sum) auto

text \<open>What a settlement does to the scope.\<close>

lemma settle_lua_cases:
  fixes ops :: "('r, 'm) redis_scheme"
  assumes inv: "lua_inv ops tn wk zk ak w r" and "0 \<le> actual"
  defines "z \<equiv> zsets ops r zk" and "a \<equiv> hashes ops r ak"
  obtains (unknown) "a i = None" and "snd (settle_lua ops tn wk zk ak i actual now w r) = r"
  | (known) r' c ws where "a i \<noteq> None" and "snd (settle_lua ops tn wk zk ak i actual now w r) = r'"
      and "zsets ops r' zk = z(i := None)" and "hashes ops r' ak = a(i := None)"
      and "load_window ops tn wk r' = Some (c + actual, held tn (z(i := None)) (a(i := None)), ws)"
      and "0 \<le> c" and "c + held tn z a \<le> lua_exposure ops tn wk r"
proof (cases "a i")
  case None
  then have "hget ops ak i r = None" by (simp add: a_def hashes_def)
  with None show thesis by (intro unknown) (simp_all add: settle_lua_def)
next
  case (Some t)
  note f = lua_inv_facts [OF inv]
  have raw: "hget ops ak i r = Some t" using Some by (simp add: a_def hashes_def)
  obtain c ws where load: "load_window ops tn wk r = Some (c, held tn z a, ws)" and c: "0 \<le> c"
    unfolding z_def a_def by (rule lua_invE [OF inv])
  obtain ws' c' where roll: "lua_roll now w ws c = (ws', c')" by fastforce
  have c': "0 \<le> c'" "c' \<le> c" using lua_roll_bounds [OF c roll] by simp_all
  have fin: "finite (dom z)" unfolding z_def by (rule redis_rules [OF f(1)])
  note ok = f(5) [folded z_def a_def]
  let ?r1 = "zrem ops zk i (hdel ops ak i r)" and ?h = "held tn (z(i := None)) (a(i := None))"
  have r1: "zsets ops ?r1 zk = z(i := None)" "hashes ops ?r1 ak = a(i := None)"
    by (simp_all add: redis_rules [OF f(1)] z_def a_def)
  have run: "\<exists>code amt. settle_lua ops tn wk zk ak i actual now w r = ([code, c' + actual, ?h, amt], write_window ops wk ws' (c' + actual) ?h ?r1)"
  proof (cases "z i")
    case None
    then obtain n where n: "t = tombstone_text n" using entries_okD [OF ok, of i] Some by auto
    show ?thesis
      using assms(2) f(2,4) load roll held_forget [of z i tn a, OF None]
      by (simp add: settle_lua_def raw n Let_def)
  next
    case e: (Some e)
    then obtain n where n: "t = show_int n" using entries_okD [OF ok, of i] Some by auto
    have am: "amount_of tn (a i) = n" using Some n f(2) by (simp add: amount_of_def)
    have "max 0 (held tn z a - n) = ?h"
      using held_remove [OF fin e, of tn a] amount_le_held [OF fin ok f(2) e] am by simp
    then show ?thesis
      using assms(2) f(2,4) load roll by (simp add: settle_lua_def raw n Let_def)
  qed
  show thesis
  proof (rule known)
    show "snd (settle_lua ops tn wk zk ak i actual now w r) = write_window ops wk ws' (c' + actual) ?h ?r1"
      using run by auto
    show "c' + held tn z a \<le> lua_exposure ops tn wk r" using c'(2) load by (simp add: lua_exposure_def)
  qed (use Some c' f(3) r1 in \<open>simp_all add: write_window_facts [OF f(1) f(2)]\<close>)
qed

text \<open>What a purge does to the scope.\<close>

lemma purge_lua_spec:
  fixes ops :: "('r, 'm) redis_scheme" and now :: int
  assumes inv: "lua_inv ops tn wk zk ak w r"
  defines "z \<equiv> drop_upto now (zsets ops r zk)" and "a \<equiv> expired_map tn now (zsets ops r zk) (hashes ops r ak)"
  obtains r' c ws where "snd (purge_lua ops tn wk zk ak now r) = r'"
      and "zsets ops r' zk = z" and "hashes ops r' ak = a" and "load_window ops tn wk r' = Some (c, held tn z a, ws)"
      and "0 \<le> c" and "c + held tn z a \<le> lua_exposure ops tn wk r"
      and "load_window ops tn wk r = Some (c, held tn (zsets ops r zk) (hashes ops r ak), ws)"
proof -
  note f = lua_inv_facts [OF inv]
  obtain c ws where load: "load_window ops tn wk r = Some (c, held tn (zsets ops r zk) (hashes ops r ak), ws)" and c: "0 \<le> c"
    by (rule lua_invE [OF inv])
  obtain n rel r1 where e: "lua_expire ops tn zk ak now (held tn (zsets ops r zk) (hashes ops r ak)) r = (Some (held tn z a, n, rel), r1)"
      and r1: "zsets ops r1 = (zsets ops r)(zk := z)" "hashes ops r1 = (hashes ops r)(ak := a)"
      and le: "held tn z a \<le> held tn (zsets ops r zk) (hashes ops r ak)"
      and same: "n = 0 \<Longrightarrow> held tn z a = held tn (zsets ops r zk) (hashes ops r ak)"
    using lua_expire_spec [OF inv, of now, folded z_def a_def] by blast
  have n: "0 \<le> n" using e by (auto simp: lua_expire_def Let_def split: option.splits)
  let ?r2 = "if 0 < n then hset ops wk ''reserved_micros'' (show_int (held tn z a)) r1 else r1"
  have run: "snd (purge_lua ops tn wk zk ak now r) = ?r2"
    using load e by (simp add: purge_lua_def)
  have w: "hashes ops r1 wk = hashes ops r wk" using f(3) r1 by simp
  have l: "load_window ops tn wk ?r2 = Some (c, held tn z a, ws)"
  proof (cases "0 < n")
    case True
    then show ?thesis
      using load w f(2) by (auto simp: load_window_of redis_rules [OF f(1)] lua_num_def split: option.splits)
  next
    case False
    with n same load load_cong [OF w, of tn] show ?thesis by simp
  qed
  show thesis
    by (rule that [OF run _ _ l c]) (use f(3) r1 le load in \<open>simp_all add: redis_rules [OF f(1)] lua_exposure_def\<close>)
qed

subsection \<open>The Redis window is a budget store\<close>

definition lua_reserve ::
  "('r, 'm) redis_scheme \<Rightarrow> (string \<Rightarrow> int option) \<Rightarrow> string \<Rightarrow> string \<Rightarrow> string \<Rightarrow> int \<Rightarrow> int \<Rightarrow> int \<Rightarrow> int \<Rightarrow> int \<Rightarrow> string \<Rightarrow> 'r \<Rightarrow> bool \<times> 'r" where
  "lua_reserve ops tn wk zk ak w ttl now cap est i r =
     (case reserve_lua ops tn wk zk ak now w cap est i ttl r of (res, r') \<Rightarrow> (hd res = 1, r'))"

definition lua_settle ::
  "('r, 'm) redis_scheme \<Rightarrow> (string \<Rightarrow> int option) \<Rightarrow> string \<Rightarrow> string \<Rightarrow> string \<Rightarrow> int \<Rightarrow> int \<Rightarrow> string \<Rightarrow> int \<Rightarrow> 'r \<Rightarrow> 'r" where
  "lua_settle ops tn wk zk ak w now i actual r = snd (settle_lua ops tn wk zk ak i actual now w r)"

definition lua_purge :: "('r, 'm) redis_scheme \<Rightarrow> (string \<Rightarrow> int option) \<Rightarrow> string \<Rightarrow> string \<Rightarrow> string \<Rightarrow> int \<Rightarrow> 'r \<Rightarrow> 'r" where
  "lua_purge ops tn wk zk ak now r = snd (purge_lua ops tn wk zk ak now r)"

lemma exposure_of: "load_window ops tn wk r = Some (c, v, ws) \<Longrightarrow> lua_exposure ops tn wk r = c + v"
  by (simp add: lua_exposure_def)

lemma unknown_iff:
  "lua_live ops tn zk ak r i = None \<and> lua_late ops tn zk ak r i = None \<longleftrightarrow> zsets ops r zk i = None \<and> hashes ops r ak i = None"
  by (auto simp: lua_live_def lua_late_def split: option.splits)

lemma expired_unknown: "z i = None \<Longrightarrow> a i = None \<Longrightarrow> drop_upto now z i = None \<and> expired_map tn now z a i = None"
  by (simp add: drop_upto_def expired_map_def)

text \<open>A state reached from a good one by writes the scripts make is good.\<close>

lemma lua_inv_next:
  assumes "lua_inv ops tn wk zk ak w r" and "entries_ok (zsets ops r' zk) (hashes ops r' ak)"
    and "load_window ops tn wk r' = Some (c, held tn (zsets ops r' zk) (hashes ops r' ak), ws)" and "0 \<le> c"
  shows "lua_inv ops tn wk zk ak w r'"
  using assms unfolding lua_inv_def by blast

lemma reserve_inv_lua:
  assumes inv: "lua_inv ops tn wk zk ak w r" and "0 \<le> est"
    and "lua_live ops tn zk ak r i = None" and "lua_late ops tn zk ak r i = None"
  shows "lua_inv ops tn wk zk ak w (snd (lua_reserve ops tn wk zk ak w ttl now cap est i r))"
proof -
  let ?z = "drop_upto now (zsets ops r zk)" and ?a = "expired_map tn now (zsets ops r zk) (hashes ops r ak)"
  note f = lua_inv_facts [OF inv]
  have none: "?z i = None" "?a i = None" using assms(3,4) expired_unknown unknown_iff by metis+
  have ok: "entries_ok ?z ?a" by (rule entries_expired [OF f(5)])
  have "finite (dom (zsets ops r zk))" by (rule redis_rules [OF f(1)])
  then have fin: "finite (dom ?z)" by (rule finite_subset [rotated]) (auto simp: drop_upto_def split: option.splits)
  show ?thesis
  proof (cases rule: reserve_lua_cases [OF inv, of now cap est i ttl, case_names refused denied allowed])
    case (refused res)
    with inv show ?thesis by (simp add: lua_reserve_def)
  next
    case (denied res r' c ws)
    have "lua_inv ops tn wk zk ak w r'" by (rule lua_inv_next [OF inv]) (use denied ok in simp_all)
    with denied(1) show ?thesis by (simp add: lua_reserve_def)
  next
    case (allowed res r' c ws)
    have "held tn ?z ?a + est = held tn (?z(i \<mapsto> now + ttl)) (?a(i \<mapsto> show_int est))"
      using held_insert [OF fin none(1)] f(2) by (simp add: amount_of_def)
    then have "lua_inv ops tn wk zk ak w r'"
      by (intro lua_inv_next [OF inv, where c = c and ws = ws]) (use allowed entries_insert [OF ok assms(2)] in simp_all)
    with allowed(1) show ?thesis by (simp add: lua_reserve_def)
  qed
qed

lemma reserve_exposure_lua:
  assumes inv: "lua_inv ops tn wk zk ak w r"
  shows "fst (lua_reserve ops tn wk zk ak w ttl now cap est i r)
      \<Longrightarrow> lua_exposure ops tn wk (snd (lua_reserve ops tn wk zk ak w ttl now cap est i r)) \<le> cap"
    and "\<not> fst (lua_reserve ops tn wk zk ak w ttl now cap est i r)
      \<Longrightarrow> lua_exposure ops tn wk (snd (lua_reserve ops tn wk zk ak w ttl now cap est i r)) \<le> lua_exposure ops tn wk r"
  by (cases rule: reserve_lua_cases [OF inv, of now cap est i ttl]; simp add: lua_reserve_def lua_exposure_def)+

lemma reserve_frame_lua:
  assumes inv: "lua_inv ops tn wk zk ak w r" and "j \<noteq> i"
    and "lua_live ops tn zk ak r j = None" and "lua_late ops tn zk ak r j = None"
  shows "lua_live ops tn zk ak (snd (lua_reserve ops tn wk zk ak w ttl now cap est i r)) j = None
    \<and> lua_late ops tn zk ak (snd (lua_reserve ops tn wk zk ak w ttl now cap est i r)) j = None"
proof -
  have none: "zsets ops r zk j = None" "hashes ops r ak j = None" using assms(3,4) unknown_iff by metis+
  note gone = expired_unknown [of "zsets ops r zk" j "hashes ops r ak" now tn, OF none]
  show ?thesis
    unfolding unknown_iff
    by (cases rule: reserve_lua_cases [OF inv, of now cap est i ttl]) (use none gone assms(2) in \<open>simp_all add: lua_reserve_def\<close>)
qed

lemma settle_inv_lua:
  assumes inv: "lua_inv ops tn wk zk ak w r" and "0 \<le> actual"
  shows "lua_inv ops tn wk zk ak w (lua_settle ops tn wk zk ak w now i actual r)"
proof (cases rule: settle_lua_cases [OF assms, of i now, case_names unknown known])
  case unknown
  with inv show ?thesis by (simp add: lua_settle_def)
next
  case (known r' c ws)
  have "lua_inv ops tn wk zk ak w r'"
    by (rule lua_inv_next [OF inv, where c = "c + actual" and ws = ws])
      (use known assms(2) entries_remove [OF lua_inv_facts(5) [OF inv], of i] in simp_all)
  with known(2) show ?thesis by (simp add: lua_settle_def)
qed

lemma settle_exposure_lua:
  assumes inv: "lua_inv ops tn wk zk ak w r" and "0 \<le> actual"
  shows "lua_live ops tn zk ak r i = Some x
      \<Longrightarrow> lua_exposure ops tn wk (lua_settle ops tn wk zk ak w now i actual r) \<le> lua_exposure ops tn wk r - x + actual"
    and "lua_live ops tn zk ak r i = None
      \<Longrightarrow> lua_exposure ops tn wk (lua_settle ops tn wk zk ak w now i actual r) \<le> lua_exposure ops tn wk r + actual"
proof -
  let ?z = "zsets ops r zk" and ?a = "hashes ops r ak"
  have fin: "finite (dom ?z)" by (rule redis_rules [OF lua_inv_facts(1) [OF inv]])
  { assume l: "lua_live ops tn zk ak r i = Some x"
    then obtain e where e: "?z i = Some e" and x: "x = amount_of tn (?a i)"
      by (auto simp: lua_live_def split: option.splits)
    note h = held_remove [OF fin e, of tn ?a]
    have "?a i \<noteq> None" using live_entry [OF lua_inv_facts(5) [OF inv] e] by auto
    then show "lua_exposure ops tn wk (lua_settle ops tn wk zk ak w now i actual r) \<le> lua_exposure ops tn wk r - x + actual"
      by (cases rule: settle_lua_cases [OF assms, of i now])
        (use h x in \<open>simp_all add: lua_settle_def exposure_of\<close>) }
  { assume "lua_live ops tn zk ak r i = None"
    then have z: "?z i = None" by (simp add: lua_live_def split: option.splits)
    note h = held_forget [of ?z i tn ?a, OF z]
    show "lua_exposure ops tn wk (lua_settle ops tn wk zk ak w now i actual r) \<le> lua_exposure ops tn wk r + actual"
      by (cases rule: settle_lua_cases [OF assms, of i now])
        (use h assms(2) in \<open>simp_all add: lua_settle_def exposure_of\<close>) }
qed

lemma settle_gone_lua:
  assumes inv: "lua_inv ops tn wk zk ak w r" and "0 \<le> actual"
  shows "lua_live ops tn zk ak (lua_settle ops tn wk zk ak w now i actual r) i = None
    \<and> lua_late ops tn zk ak (lua_settle ops tn wk zk ak w now i actual r) i = None"
  unfolding unknown_iff
proof (cases rule: settle_lua_cases [OF assms, of i now, case_names unknown known])
  case unknown
  then show "zsets ops (lua_settle ops tn wk zk ak w now i actual r) zk i = None
    \<and> hashes ops (lua_settle ops tn wk zk ak w now i actual r) ak i = None"
    using entries_okD [OF lua_inv_facts(5) [OF inv], of i] by (simp add: lua_settle_def)
next
  case (known r' c ws)
  then show "zsets ops (lua_settle ops tn wk zk ak w now i actual r) zk i = None
    \<and> hashes ops (lua_settle ops tn wk zk ak w now i actual r) ak i = None" by (simp add: lua_settle_def)
qed

lemma settle_nothing_lua:
  "actual < 0 \<or> hashes ops r ak i = None \<Longrightarrow> lua_settle ops tn wk zk ak w now i actual r = r"
  by (auto simp: lua_settle_def settle_lua_def hashes_def)

lemma settle_frame_lua:
  assumes inv: "lua_inv ops tn wk zk ak w r" and "lua_live ops tn zk ak r j = None" and "lua_late ops tn zk ak r j = None"
  shows "lua_live ops tn zk ak (lua_settle ops tn wk zk ak w now i actual r) j = None
    \<and> lua_late ops tn zk ak (lua_settle ops tn wk zk ak w now i actual r) j = None"
proof (cases "actual < 0")
  case True
  with assms show ?thesis by (simp add: settle_nothing_lua)
next
  case False
  then have actual: "0 \<le> actual" by simp
  have none: "zsets ops r zk j = None" "hashes ops r ak j = None" using assms(2,3) unknown_iff by metis+
  show ?thesis
    unfolding unknown_iff
    by (cases rule: settle_lua_cases [OF inv actual, of i now]) (use none in \<open>simp_all add: lua_settle_def\<close>)
qed

lemma purge_laws_lua:
  assumes inv: "lua_inv ops tn wk zk ak w r"
  shows "lua_inv ops tn wk zk ak w (lua_purge ops tn wk zk ak now r)"
    and "lua_exposure ops tn wk (lua_purge ops tn wk zk ak now r) \<le> lua_exposure ops tn wk r"
    and "lua_live ops tn zk ak r j = None \<Longrightarrow> lua_late ops tn zk ak r j = None \<Longrightarrow>
      lua_live ops tn zk ak (lua_purge ops tn wk zk ak now r) j = None
      \<and> lua_late ops tn zk ak (lua_purge ops tn wk zk ak now r) j = None"
proof -
  let ?z = "drop_upto now (zsets ops r zk)" and ?a = "expired_map tn now (zsets ops r zk) (hashes ops r ak)"
  obtain r' c ws where p: "lua_purge ops tn wk zk ak now r = r'" and r': "zsets ops r' zk = ?z" "hashes ops r' ak = ?a"
      and l: "load_window ops tn wk r' = Some (c, held tn ?z ?a, ws)" and c: "0 \<le> c" "c + held tn ?z ?a \<le> lua_exposure ops tn wk r"
    using purge_lua_spec [OF inv, of now, folded lua_purge_def] by blast
  show "lua_inv ops tn wk zk ak w (lua_purge ops tn wk zk ak now r)"
    unfolding p by (rule lua_inv_next [OF inv]) (use r' l c entries_expired [OF lua_inv_facts(5) [OF inv]] in simp_all)
  show "lua_exposure ops tn wk (lua_purge ops tn wk zk ak now r) \<le> lua_exposure ops tn wk r"
    using l c by (simp add: p exposure_of)
  show "lua_live ops tn zk ak (lua_purge ops tn wk zk ak now r) j = None
      \<and> lua_late ops tn zk ak (lua_purge ops tn wk zk ak now r) j = None"
    if "lua_live ops tn zk ak r j = None" "lua_late ops tn zk ak r j = None"
    using that expired_unknown [of "zsets ops r zk" j "hashes ops r ak" now tn] r' unfolding p unknown_iff
    by (metis unknown_iff)
qed

interpretation lua: budget_store "lua_inv ops tn wk zk ak w" "lua_exposure ops tn wk" "lua_live ops tn zk ak" "lua_late ops tn zk ak"
  "lua_reserve ops tn wk zk ak w ttl" "lua_settle ops tn wk zk ak w" "lua_purge ops tn wk zk ak"
  for ops :: "'r redis" and tn :: "string \<Rightarrow> int option" and wk zk ak :: string and w ttl :: int
proof (unfold_locales, goal_cases)
  case 1
  then show ?case by (rule reserve_inv_lua)
next
  case 2
  then show ?case by (rule reserve_exposure_lua)
next
  case 3
  then show ?case by (rule reserve_exposure_lua)
next
  case 4
  then show ?case by (rule reserve_frame_lua)
next
  case 5
  then show ?case by (rule settle_inv_lua)
next
  case 6
  then show ?case by (rule settle_exposure_lua)
next
  case (7 s actual i a now)
  from 7(1,2,3) show ?case by (rule settle_exposure_lua(2))
next
  case (8 s i now actual)
  then show ?case using unknown_iff by (metis settle_nothing_lua)
next
  case 9
  then show ?case by (rule settle_gone_lua)
next
  case 10
  then show ?case by (rule settle_frame_lua)
next
  case 11
  then show ?case by (rule purge_laws_lua)
next
  case 12
  then show ?case by (rule purge_laws_lua)
next
  case 13
  then show ?case by (rule purge_laws_lua)
qed

end
