(* ===== verification/Budget_Lua_Properties.thy ===== *)
theory Budget_Lua_Properties imports Budget_Lua Budget_Memory Decisions Leases begin

text \<open>
  The budget window shared through Redis: the cap over every interleaving of the fleet's script
  calls, settlement exactly once, and agreement with the in-process window.
\<close>

subsection \<open>Runs of one scope\<close>

text \<open>The keys of a scope, with what the server and Lua provide.\<close>

record 'r lua_scope =
  ls_redis :: "'r redis"
  ls_tonumber :: "string \<Rightarrow> int option"
  ls_window :: string
  ls_zset :: string
  ls_amounts :: string

text \<open>Script calls of any gateways on the scope, in the order the server runs them.\<close>

fun scope_step :: "'r lua_scope \<Rightarrow> int \<Rightarrow> int \<Rightarrow> int \<Rightarrow> budget_event \<Rightarrow> 'r \<Rightarrow> 'r" where
  "scope_step k w ttl cap (EReserve i now est) r =
     snd (reserve_lua (ls_redis k) (ls_tonumber k) (ls_window k) (ls_zset k) (ls_amounts k) now w cap est i ttl r)"
| "scope_step k w ttl cap (ESettle i now actual) r =
     snd (settle_lua (ls_redis k) (ls_tonumber k) (ls_window k) (ls_zset k) (ls_amounts k) i actual now w r)"
| "scope_step k w ttl cap (EPurge now) r =
     snd (purge_lua (ls_redis k) (ls_tonumber k) (ls_window k) (ls_zset k) (ls_amounts k) now r)"

definition scope_knows :: "'r lua_scope \<Rightarrow> 'r \<Rightarrow> string \<Rightarrow> bool" where
  "scope_knows k r i = (hget (ls_redis k) (ls_amounts k) i r \<noteq> None)"

text \<open>What a settlement adds beyond what its reservation holds: all of it after the expiry.\<close>

fun scope_excess :: "'r lua_scope \<Rightarrow> 'r \<Rightarrow> budget_event \<Rightarrow> int" where
  "scope_excess k r (ESettle i now actual) =
     (case hget (ls_redis k) (ls_amounts k) i r of
        None \<Rightarrow> 0
      | Some t \<Rightarrow> if zscore (ls_redis k) (ls_zset k) i r = None then actual else max 0 (actual - amount_of (ls_tonumber k) (Some t)))"
| "scope_excess k r _ = 0"

fun scope_event :: "'r lua_scope \<Rightarrow> 'r \<Rightarrow> budget_event \<Rightarrow> bool" where
  "scope_event k r (EReserve i now est) = (0 \<le> est \<and> \<not> scope_knows k r i)"
| "scope_event k r (ESettle i now actual) = (0 \<le> actual)"
| "scope_event k r (EPurge now) = True"

fun scope_run :: "'r lua_scope \<Rightarrow> int \<Rightarrow> int \<Rightarrow> int \<Rightarrow> budget_event list \<Rightarrow> 'r \<Rightarrow> 'r" where
  "scope_run k w ttl cap [] r = r"
| "scope_run k w ttl cap (e # es) r = scope_run k w ttl cap es (scope_step k w ttl cap e r)"

fun scope_events :: "'r lua_scope \<Rightarrow> int \<Rightarrow> int \<Rightarrow> int \<Rightarrow> budget_event list \<Rightarrow> 'r \<Rightarrow> bool" where
  "scope_events k w ttl cap [] r = True"
| "scope_events k w ttl cap (e # es) r = (scope_event k r e \<and> scope_events k w ttl cap es (scope_step k w ttl cap e r))"

fun scope_run_excess :: "'r lua_scope \<Rightarrow> int \<Rightarrow> int \<Rightarrow> int \<Rightarrow> budget_event list \<Rightarrow> 'r \<Rightarrow> int" where
  "scope_run_excess k w ttl cap [] r = 0"
| "scope_run_excess k w ttl cap (e # es) r = scope_excess k r e + scope_run_excess k w ttl cap es (scope_step k w ttl cap e r)"

text \<open>A server as documented and a scope nothing is stored for.\<close>

definition fresh_scope :: "'r lua_scope \<Rightarrow> 'r \<Rightarrow> bool" where
  "fresh_scope k r \<longleftrightarrow>
     redis_laws (ls_redis k) \<and> (\<forall>n. ls_tonumber k (show_int n) = Some n) \<and> ls_window k \<noteq> ls_amounts k
     \<and> zsets (ls_redis k) r (ls_zset k) = Map.empty \<and> hashes (ls_redis k) r (ls_window k) = Map.empty
     \<and> hashes (ls_redis k) r (ls_amounts k) = Map.empty"

abbreviation scope_inv :: "'r lua_scope \<Rightarrow> int \<Rightarrow> 'r \<Rightarrow> bool" where
  "scope_inv k w r \<equiv> lua_inv (ls_redis k) (ls_tonumber k) (ls_window k) (ls_zset k) (ls_amounts k) w r"

lemma fresh_inv: "fresh_scope k r \<Longrightarrow> 0 < w \<Longrightarrow> scope_inv k w r"
  by (auto simp: fresh_scope_def lua_inv_def entries_ok_def held_def load_window_of lua_num_def)

lemma scope_step_eq:
  "scope_step k w ttl cap e r = lua.apply_event (ls_redis k) (ls_tonumber k) (ls_window k) (ls_zset k) (ls_amounts k) w ttl cap e r"
  by (cases e) (simp_all add: lua_reserve_def lua_settle_def lua_purge_def case_prod_beta)

lemma scope_run_eq:
  "scope_run k w ttl cap es r = lua.run (ls_redis k) (ls_tonumber k) (ls_window k) (ls_zset k) (ls_amounts k) w ttl cap es r"
  by (induction es arbitrary: r) (simp_all add: scope_step_eq)

lemma scope_unknown:
  assumes "scope_inv k w r"
  shows "lua.unknown (ls_redis k) (ls_tonumber k) (ls_zset k) (ls_amounts k) r i \<longleftrightarrow> \<not> scope_knows k r i"
  using entries_okD [OF lua_inv_facts(5) [OF assms], of i]
  by (auto simp: lua.unknown_def unknown_iff scope_knows_def hashes_def)

lemma scope_event_eq:
  assumes "scope_inv k w r"
  shows "scope_event k r e \<longleftrightarrow> lua.legal (ls_redis k) (ls_tonumber k) (ls_zset k) (ls_amounts k) r e"
  using scope_unknown [OF assms] by (cases e) simp_all

lemma scope_excess_eq:
  assumes "scope_inv k w r"
  shows "scope_excess k r e = lua.overshoot (ls_redis k) (ls_tonumber k) (ls_zset k) (ls_amounts k) r e"
proof (cases e)
  case (ESettle i now actual)
  show ?thesis
    using entries_okD [OF lua_inv_facts(5) [OF assms], of i] ESettle
    by (auto simp: lua_live_def lua_late_def zsets_def hashes_def split: option.splits)
qed simp_all

lemma scope_run_good:
  assumes "scope_inv k w r" and "scope_events k w ttl cap es r"
  shows "lua.legal_run (ls_redis k) (ls_tonumber k) (ls_zset k) (ls_amounts k) (ls_window k) w ttl cap es r
    \<and> scope_run_excess k w ttl cap es r
       = lua.total_overshoot (ls_redis k) (ls_tonumber k) (ls_zset k) (ls_amounts k) (ls_window k) w ttl cap es r"
  using assms
proof (induction es arbitrary: r)
  case (Cons e es)
  have legal: "lua.legal (ls_redis k) (ls_tonumber k) (ls_zset k) (ls_amounts k) r e"
    using Cons.prems scope_event_eq [OF Cons.prems(1)] by simp
  have "scope_inv k w (scope_step k w ttl cap e r)"
    unfolding scope_step_eq by (rule lua.apply_event_inv [OF Cons.prems(1) legal])
  from Cons.IH [OF this] Cons.prems legal show ?case
    by (simp add: scope_step_eq scope_excess_eq [OF Cons.prems(1)])
qed simp

subsection \<open>The cap of the fleet\<close>

text \<open>
  C4: the cap holds for the whole fleet. Start from a scope Redis knows nothing of and let any
  number of gateways run the reserve, settle and purge scripts on it, in any order and at any
  clock readings (fresh reservation ids, no negative estimate or charge): the committed and
  reserved micros stored in Redis never exceed the cap by more than what settlements above their
  estimate or after their expiry brought in, and the stored total of reserved micros is the sum
  of the live reservations.
\<close>

theorem fleet_budget_never_overspent:
  assumes "fresh_scope k r" and "0 < w" and "0 \<le> cap" and "scope_events k w ttl cap es r"
  shows "case load_window (ls_redis k) (ls_tonumber k) (ls_window k) (scope_run k w ttl cap es r) of
     None \<Rightarrow> False
   | Some (committed, reserved, start) \<Rightarrow>
       committed + reserved \<le> cap + scope_run_excess k w ttl cap es r
       \<and> reserved = held (ls_tonumber k) (zsets (ls_redis k) (scope_run k w ttl cap es r) (ls_zset k))
           (hashes (ls_redis k) (scope_run k w ttl cap es r) (ls_amounts k))
       \<and> 0 \<le> reserved \<and> 0 \<le> committed"
proof -
  let ?r = "scope_run k w ttl cap es r"
  note start = fresh_inv [OF assms(1,2)]
  have zero: "lua_exposure (ls_redis k) (ls_tonumber k) (ls_window k) r = 0"
    using assms(1) by (simp add: fresh_scope_def lua_exposure_def load_window_of lua_num_def)
  have inv: "scope_inv k w ?r"
    and le: "lua_exposure (ls_redis k) (ls_tonumber k) (ls_window k) ?r \<le> cap + 0 + scope_run_excess k w ttl cap es r"
    using lua.run_exposure [OF start conjunct1 [OF scope_run_good [OF start assms(4)]], of 0] zero assms(3)
      scope_run_good [OF start assms(4)] by (simp_all add: scope_run_eq)
  obtain c ws where load: "load_window (ls_redis k) (ls_tonumber k) (ls_window k) ?r
      = Some (c, held (ls_tonumber k) (zsets (ls_redis k) ?r (ls_zset k)) (hashes (ls_redis k) ?r (ls_amounts k)), ws)" and "0 \<le> c"
    by (rule lua_invE [OF inv])
  with le held_nonneg [OF lua_inv_facts(5,2) [OF inv]] show ?thesis by (simp add: exposure_of [OF load])
qed

definition demo_scope :: "demo_server lua_scope" where
  "demo_scope = \<lparr>ls_redis = demo_redis, ls_tonumber = parse_int, ls_window = ''w'', ls_zset = ''z'', ls_amounts = ''a''\<rparr>"

lemma demo_fresh: "fresh_scope demo_scope empty_server"
  by (simp add: fresh_scope_def demo_scope_def empty_server_def demo_redis_laws parse_show_int zsets_def hashes_def fun_eq_iff)
    (simp add: demo_redis_def)

text \<open>A denial, a settlement below the estimate, a reservation that fits then, and a late settlement.\<close>

definition demo_calls :: "budget_event list" where
  "demo_calls = [EReserve ''a'' 1000 70, EReserve ''b'' 1001 40, ESettle ''a'' 1002 50, EReserve ''c'' 1003 50,
     EPurge 20000, ESettle ''c'' 20001 5]"

theorem fleet_budget_never_overspent_witness:
  "scope_run_excess demo_scope 60000 10000 100 demo_calls empty_server = 5
   \<and> (case load_window demo_redis parse_int ''w'' (scope_run demo_scope 60000 10000 100 demo_calls empty_server) of
        None \<Rightarrow> False | Some (committed, reserved, start) \<Rightarrow> committed + reserved \<le> 105)"
proof -
  have events: "scope_events demo_scope 60000 10000 100 demo_calls empty_server" by code_simp
  have excess: "scope_run_excess demo_scope 60000 10000 100 demo_calls empty_server = 5" by code_simp
  have names: "ls_redis demo_scope = demo_redis" "ls_tonumber demo_scope = parse_int" "ls_window demo_scope = ''w''"
    by (simp_all add: demo_scope_def)
  show ?thesis
    using fleet_budget_never_overspent [OF demo_fresh _ _ events] excess unfolding names by (auto split: option.splits)
qed

text \<open>
  C14: spend is committed once. After the settlement of a reservation, and any further script calls
  that do not reserve the id again, a second settlement of the id changes nothing in Redis.
\<close>

theorem fleet_settles_exactly_once:
  assumes "fresh_scope k r" and "0 < w" and "scope_events k w ttl cap (es @ ESettle i now actual # es') r"
    and "\<forall>e\<in>set es'. case e of EReserve j t est \<Rightarrow> j \<noteq> i | _ \<Rightarrow> True"
  shows "scope_run k w ttl cap (es @ ESettle i now actual # es' @ [ESettle i now' actual']) r
    = scope_run k w ttl cap (es @ ESettle i now actual # es') r"
proof -
  let ?r = "scope_run k w ttl cap es r" and ?s = "scope_run k w ttl cap (es @ ESettle i now actual # es') r"
  have append: "scope_run k w ttl cap (xs @ ys) q = scope_run k w ttl cap ys (scope_run k w ttl cap xs q)"
    and events: "scope_events k w ttl cap (xs @ ys) q \<longleftrightarrow> scope_events k w ttl cap xs q \<and> scope_events k w ttl cap ys (scope_run k w ttl cap xs q)"
    for xs ys q by (induction xs arbitrary: q) simp_all
  have good: "scope_inv k w (scope_run k w ttl cap xs q)" if "scope_inv k w q" "scope_events k w ttl cap xs q" for xs q
    using that
  proof (induction xs arbitrary: q)
    case (Cons e xs)
    then have "scope_inv k w (scope_step k w ttl cap e q)"
      unfolding scope_step_eq by (intro lua.apply_event_inv) (simp_all add: scope_event_eq)
    with Cons show ?case by simp
  qed simp
  have r: "scope_inv k w ?r" "0 \<le> actual" "scope_events k w ttl cap es' (scope_step k w ttl cap (ESettle i now actual) ?r)"
    using good [OF fresh_inv [OF assms(1,2)]] assms(3) by (auto simp: events)
  let ?q = "scope_step k w ttl cap (ESettle i now actual) ?r"
  have q: "scope_inv k w ?q"
    unfolding scope_step_eq by (rule lua.apply_event_inv [OF r(1)]) (simp add: r(2))
  have legal: "lua.legal_run (ls_redis k) (ls_tonumber k) (ls_zset k) (ls_amounts k) (ls_window k) w ttl cap es' ?q"
    using scope_run_good [OF q r(3)] by simp
  have "\<not> lua.reserves i e" if "e \<in> set es'" for e
    using assms(4) that by (cases e) fastforce+
  then have "scope_step k w ttl cap (ESettle i now' actual') (scope_run k w ttl cap es' ?q) = scope_run k w ttl cap es' ?q"
    using lua.settled_once [OF r(1,2)] legal unfolding scope_step_eq scope_run_eq by simp
  then show ?thesis by (simp add: append)
qed

theorem fleet_settles_exactly_once_witness:
  "scope_run demo_scope 60000 10000 100 ([EReserve ''a'' 1000 70] @ ESettle ''a'' 1002 50 # [EPurge 20000] @ [ESettle ''a'' 20001 50]) empty_server
   = scope_run demo_scope 60000 10000 100 ([EReserve ''a'' 1000 70] @ ESettle ''a'' 1002 50 # [EPurge 20000]) empty_server"
proof -
  have "scope_events demo_scope 60000 10000 100 ([EReserve ''a'' 1000 70] @ ESettle ''a'' 1002 50 # [EPurge 20000]) empty_server" by code_simp
  from fleet_settles_exactly_once [OF demo_fresh _ this, of 20001 50] show ?thesis by simp
qed

end
