(* ===== verification/Budget_Agreement.thy ===== *)
theory Budget_Agreement imports Budget_Lua_Properties Budget_Properties begin

text \<open>
  The two backends of the budget guard are one: on the same calls the window in Redis and the
  window in the process admit the same requests and hold the same micros, as long as the process
  remembers every expired reservation it is asked about (it forgets one after four windows, Redis
  when the keys of the scope have expired).
\<close>

subsection \<open>The relation\<close>

definition entry_text :: "MemoryWindow \<Rightarrow> string \<Rightarrow> string option" where
  "entry_text st i =
     (case dict_get (reservations st) i of
        Some p \<Rightarrow> Some (show_int (snd p))
      | None \<Rightarrow> map_option (\<lambda>t. tombstone_text (snd t)) (dict_get (tombstones st) i))"

definition same_entries :: "(string \<Rightarrow> int option) \<Rightarrow> (string \<Rightarrow> string option) \<Rightarrow> MemoryWindow \<Rightarrow> bool" where
  "same_entries z a st \<longleftrightarrow> (\<forall>i. z i = map_option fst (dict_get (reservations st) i) \<and> a i = entry_text st i)"

definition same_window :: "'r lua_scope \<Rightarrow> MemoryWindow \<Rightarrow> 'r \<Rightarrow> bool" where
  "same_window k st r \<longleftrightarrow>
     redis_laws (ls_redis k) \<and> (\<forall>n. ls_tonumber k (show_int n) = Some n) \<and> ls_window k \<noteq> ls_amounts k \<and> mem_inv st
     \<and> load_window (ls_redis k) (ls_tonumber k) (ls_window k) r = Some (committed_micros st, reserved_micros st, window_start_ms st)
     \<and> same_entries (zsets (ls_redis k) r (ls_zset k)) (hashes (ls_redis k) r (ls_amounts k)) st"

text \<open>No expired reservation is forgotten at this clock reading.\<close>

definition remembers :: "int \<Rightarrow> MemoryWindow \<Rightarrow> bool" where
  "remembers now st = list_all (\<lambda>(i, forget, a). now < forget) (tombstones st)"

lemma same_entries_ok: "same_entries z a st \<Longrightarrow> mem_inv st \<Longrightarrow> entries_ok z a"
  unfolding entries_ok_def
proof
  fix i assume same: "same_entries z a st" and inv: "mem_inv st"
  have z: "z i = map_option fst (dict_get (reservations st) i)" and a: "a i = entry_text st i"
    using same by (simp_all add: same_entries_def)
  show "case a i of None \<Rightarrow> z i = None
     | Some t \<Rightarrow> if z i = None then \<exists>n. t = tombstone_text n else \<exists>n\<ge>0. t = show_int n"
    using mem_inv_entry [OF inv, of i]
    by (cases "dict_get (reservations st) i"; cases "dict_get (tombstones st) i") (auto simp: z a entry_text_def)
qed

lemma dict_sum_keys: "dict_ok d \<Longrightarrow> dict_sum f d = (\<Sum>i\<in>keys d. f (the (dict_get d i)))"
proof (induction d)
  case (Cons p d)
  obtain i v where p: "p = (i, v)" by fastforce
  have "(\<Sum>j\<in>keys d. f (the (dict_get (p # d) j))) = (\<Sum>j\<in>keys d. f (the (dict_get d j)))"
    using Cons.prems p by (intro sum.cong) auto
  with Cons p show ?case by simp
qed simp

lemma same_held:
  assumes "same_entries z a st" and "mem_inv st" and "\<And>n. tn (show_int n) = Some n"
  shows "held tn z a = reserved_micros st"
proof -
  have dom: "dom z = keys (reservations st)"
    using assms(1) get_None_iff [of "reservations st"] by (intro set_eqI) (simp add: same_entries_def domIff)
  have "held tn z a = (\<Sum>i\<in>keys (reservations st). snd (the (dict_get (reservations st) i)))"
    unfolding held_def dom
  proof (rule sum.cong [OF refl])
    fix i assume "i \<in> keys (reservations st)"
    then obtain p where "dict_get (reservations st) i = Some p" by (metis get_None_iff option.exhaust)
    then show "amount_of tn (a i) = snd (the (dict_get (reservations st) i))"
      using assms(1,3) by (simp add: same_entries_def entry_text_def amount_of_def)
  qed
  then show ?thesis using assms(2) by (simp add: dict_sum_keys mem_inv_def)
qed

lemma same_inv:
  assumes "same_window k st r" and "0 < w"
  shows "scope_inv k w r"
  using assms same_entries_ok same_held [of _ _ st "ls_tonumber k"]
  by (fastforce simp: same_window_def lua_inv_def mem_inv_def)

subsection \<open>Expiry\<close>

lemma expire_each_tombstones:
  "dict_get (tombstones (expire_each now ttl ids st)) i =
    (case dict_get (reservations st) i of
       Some p \<Rightarrow> if i \<in> set ids then Some (now + ttl, snd p) else dict_get (tombstones st) i
     | None \<Rightarrow> dict_get (tombstones st) i)"
proof (induction ids arbitrary: st)
  case (Cons j ids)
  show ?case
  proof (cases "dict_get (reservations st) j")
    case None
    with Cons show ?thesis by (auto split: option.split)
  next
    case (Some p)
    then show ?thesis
      using Cons.IH by (cases p; cases "i = j") (auto simp: dict_simps split: option.split)
  qed
qed (simp split: option.split)

lemma kept_tombstones:
  assumes "mem_inv st" and "remembers now st" and "0 < ttl"
  shows "tombstones (fst (expire_memory st now ttl)) = tombstones (expire_each now ttl (expired_ids st now) st)"
proof -
  let ?s = "expire_each now ttl (expired_ids st now) st"
  have ok: "dict_ok (tombstones ?s)" using expire_each_inv [OF assms(1)] by (simp add: mem_inv_def)
  have "now < fst t" if "(i, t) \<in> set (tombstones ?s)" for i t
  proof -
    from that ok have t: "dict_get (tombstones ?s) i = Some t" by simp
    have old: ?thesis if "dict_get (tombstones st) i = Some t"
      using map_of_SomeD [OF that] assms(2) by (auto simp: remembers_def list_all_iff)
    show ?thesis
    proof (cases "dict_get (reservations st) i")
      case None
      with t show ?thesis by (intro old) (simp add: expire_each_tombstones)
    next
      case (Some p)
      with t assms(3) old show ?thesis by (auto simp: expire_each_tombstones split: if_splits)
    qed
  qed
  then have "filter (\<lambda>(rid, forget, a). \<not> forget \<le> now) (tombstones ?s) = tombstones ?s"
    by (intro filter_True) fastforce
  then show ?thesis by (simp add: expire_memory_def Let_def drop_stale_def)
qed

lemma expired_iff:
  assumes "mem_inv st" and "dict_get (reservations st) i = Some p"
  shows "i \<in> set (expired_ids st now) \<longleftrightarrow> fst p \<le> now"
proof -
  have ok: "dict_ok (reservations st)" using assms(1) by (simp add: mem_inv_def)
  have uniq: "(i, q) \<in> set (reservations st) \<longleftrightarrow> q = p" for q
    using assms(2) ok by (metis map_of_SomeD map_of_is_SomeI option.inject)
  show ?thesis by (cases p) (force simp: expired_ids_def uniq)
qed

lemma expire_same:
  assumes same: "same_entries z a st" and inv: "mem_inv st" and "remembers now st" and "0 < ttl"
    and tn: "\<And>n. tn (show_int n) = Some n"
  shows "same_entries (drop_upto now z) (expired_map tn now z a) (fst (expire_memory st now ttl))"
  unfolding same_entries_def
proof
  fix i
  let ?s = "fst (expire_memory st now ttl)"
  have z: "z i = map_option fst (dict_get (reservations st) i)" and a: "a i = entry_text st i"
    using same by (simp_all add: same_entries_def)
  have ok: "dict_ok (reservations st)" using inv by (simp add: mem_inv_def)
  have res: "dict_get (reservations ?s) i = (case dict_get (reservations st) i of
      None \<Rightarrow> None | Some p \<Rightarrow> if now < fst p then Some p else None)"
  proof (cases "dict_get (reservations st) i")
    case None
    then have "i \<notin> keys (reservations ?s)"
      by (auto simp: expire_memory_reservations [OF inv] get_None_iff)
    then have "dict_get (reservations ?s) i = None" unfolding get_None_iff .
    then show ?thesis by (simp only: None option.case)
  next
    case (Some p)
    then have "(i, p) \<in> set (reservations st)" by (rule map_of_SomeD)
    moreover have "dict_ok (reservations ?s)" using expire_memory_inv [OF inv] by (simp add: mem_inv_def)
    moreover have "(i, q) \<in> set (reservations st) \<longleftrightarrow> q = p" for q
      using Some ok by (metis map_of_SomeD map_of_is_SomeI option.inject)
    ultimately show ?thesis
      using Some by (cases p) (auto simp: expire_memory_reservations [OF inv] get_None_iff
          intro!: map_of_is_SomeI)
  qed
  have tomb: "dict_get (tombstones ?s) i = (case dict_get (reservations st) i of
      Some p \<Rightarrow> if fst p \<le> now then Some (now + ttl, snd p) else dict_get (tombstones st) i
    | None \<Rightarrow> dict_get (tombstones st) i)"
    using expired_iff [OF inv] by (simp add: kept_tombstones [OF inv assms(3,4)] expire_each_tombstones split: option.split)
  show "drop_upto now z i = map_option fst (dict_get (reservations ?s) i) \<and> expired_map tn now z a i = entry_text ?s i"
    using tn by (cases "dict_get (reservations st) i")
      (auto simp: drop_upto_def expired_map_def z a res tomb entry_text_def amount_of_def not_le)
qed

subsection \<open>One call\<close>

lemma same_windowD:
  assumes "same_window k st r"
  shows "redis_laws (ls_redis k)" "ls_tonumber k (show_int n) = Some n" "ls_window k \<noteq> ls_amounts k" "mem_inv st"
    and "load_window (ls_redis k) (ls_tonumber k) (ls_window k) r = Some (committed_micros st, reserved_micros st, window_start_ms st)"
    and "same_entries (zsets (ls_redis k) r (ls_zset k)) (hashes (ls_redis k) r (ls_amounts k)) st"
  using assms by (simp_all add: same_window_def)

lemma roll_agrees:
  "lua_roll now w (window_start_ms st) (committed_micros st) = (window_start_ms (roll_window st now w), committed_micros (roll_window st now w))"
  by (simp add: lua_roll_def roll_window_def)

lemma entries_set:
  assumes "same_entries z a st"
  shows "same_entries (z(i \<mapsto> e)) (a(i \<mapsto> show_int n)) (st\<lparr>reserved_micros := v, reservations := dict_set i (e, n) (reservations st)\<rparr>)"
  using assms by (auto simp: same_entries_def entry_text_def dict_simps cong: option.case_cong)

lemma reserve_agrees:
  fixes k :: "'r lua_scope"
  assumes same: "same_window k st r" and "remembers now st" and "0 < w" and "0 < ttl" and "0 < cap" and "0 \<le> est"
    and unknown: "mem_live st i = None" "mem_late st i = None"
  defines "call \<equiv> reserve_lua (ls_redis k) (ls_tonumber k) (ls_window k) (ls_zset k) (ls_amounts k) now w cap est i ttl r"
  shows "(hd (fst call) = 1) = fst (mem_reserve w ttl now cap est i st)
    \<and> same_window k (snd (mem_reserve w ttl now cap est i st)) (snd call)"
proof -
  note s = same_windowD [OF same]
  let ?ops = "ls_redis k" and ?tn = "ls_tonumber k" and ?wk = "ls_window k" and ?zk = "ls_zset k" and ?ak = "ls_amounts k"
  define z where "z = drop_upto now (zsets ?ops r ?zk)"
  define a where "a = expired_map ?tn now (zsets ?ops r ?zk) (hashes ?ops r ?ak)"
  define s1 where "s1 = fst (expire_memory st now (max w ttl * 4))"
  define s2 where "s2 = reserve_prepare now w ttl st"
  have s12: "s2 = roll_window s1 now w" by (simp add: s2_def s1_def reserve_prepare_def)
  have inv2: "mem_inv s2" unfolding s2_def by (rule prepare_facts(1) [OF s(4)])
  have "0 < max w ttl * 4" using assms(3) by simp
  then have e1: "same_entries z a s1"
    unfolding z_def a_def s1_def by (rule expire_same [OF s(6,4) assms(2) _ s(2)])
  then have e2: "same_entries z a s2" by (simp add: s12 same_entries_def entry_text_def cong: option.case_cong)
  have held: "held ?tn (zsets ?ops r ?zk) (hashes ?ops r ?ak) = reserved_micros st" by (rule same_held [OF s(6,4,2)])
  have held2: "held ?tn z a = reserved_micros s2" by (rule same_held [OF e2 inv2 s(2)])
  obtain n rel r1 where e: "lua_expire ?ops ?tn ?zk ?ak now (reserved_micros st) r = (Some (reserved_micros s2, n, rel), r1)"
      and r1: "zsets ?ops r1 = (zsets ?ops r)(?zk := z)" "hashes ?ops r1 = (hashes ?ops r)(?ak := a)"
    using lua_expire_spec [OF same_inv [OF same assms(3)], of now, folded z_def a_def] unfolding held held2 by blast
  have roll: "lua_roll now w (window_start_ms st) (committed_micros st) = (window_start_ms s2, committed_micros s2)"
    using roll_agrees [of now w s1] by (simp add: s12 s1_def)
  note w = write_window_facts [OF s(1,2)] and t = touch_facts [OF s(1)]
  have args: "\<not> (est < 0 \<or> cap \<le> 0 \<or> w \<le> 0 \<or> ttl \<le> 0)" using assms by simp
  note run = reserve_lua_def [of ?ops ?tn ?wk ?zk ?ak now w cap est i ttl r, folded call_def] s(5) e roll
  show ?thesis
  proof (cases "cap < committed_micros s2 + reserved_micros s2 + est")
    case True
    have call: "call = ([0, committed_micros s2, reserved_micros s2, committed_micros s2 + reserved_micros s2, n],
        touch ?ops ?wk ?zk ?ak (max w ttl * 4) (write_window ?ops ?wk (window_start_ms s2) (committed_micros s2) (reserved_micros s2) r1))"
      using args True by (simp add: run)
    have mem: "mem_reserve w ttl now cap est i st = (False, s2)"
      using True by (simp add: mem_reserve_def s2_def [symmetric] reserve_decide_def)
    show ?thesis
      unfolding call mem same_window_def
      using s(1-3) inv2 e2 by (simp add: t w r1 load_cong [OF fun_cong [OF t(2)]])
  next
    case False
    let ?r2 = "write_window ?ops ?wk (window_start_ms s2) (committed_micros s2) (reserved_micros s2 + est) r1"
    let ?r3 = "hset ?ops ?ak i (show_int est) (zadd ?ops ?zk (now + ttl) i ?r2)"
    let ?s3 = "s2\<lparr>reserved_micros := reserved_micros s2 + est, reservations := dict_set i (now + ttl, est) (reservations s2)\<rparr>"
    have call: "call = ([1, committed_micros s2, reserved_micros s2 + est, committed_micros s2 + (reserved_micros s2 + est), n],
        touch ?ops ?wk ?zk ?ak (max w ttl * 4) ?r3)"
      using args False by (simp add: run Let_def)
    have mem: "mem_reserve w ttl now cap est i st = (True, ?s3)"
      using False by (simp add: mem_reserve_def s2_def [symmetric] reserve_decide_def)
    have "mem_inv ?s3"
      using decide_inv [OF inv2 assms(6), of i now ttl cap] prepare_unknown [OF unknown, of now w ttl] False
      by (simp add: reserve_decide_def s2_def [symmetric])
    moreover have "zsets ?ops ?r3 ?zk = z(i \<mapsto> now + ttl)" "hashes ?ops ?r3 ?ak = a(i \<mapsto> show_int est)" "hashes ?ops ?r3 ?wk = hashes ?ops ?r2 ?wk"
      using s(3) by (simp_all add: redis_rules [OF s(1)] w r1)
    ultimately show ?thesis
      unfolding call mem same_window_def
      using s(1-3) entries_set [OF e2] by (simp add: t load_cong [OF fun_cong [OF t(2)]] load_cong [of ?ops ?r3 ?wk ?r2] w)
  qed
qed

lemma entries_gone:
  assumes "same_entries z a st" and "mem_inv st"
    and "reservations st' = dict_pop i (reservations st)" and "tombstones st' = dict_pop i (tombstones st)"
  shows "same_entries (z(i := None)) (a(i := None)) st'"
  using assms(1) by (auto simp: same_entries_def entry_text_def dict_simps assms(3,4) cong: option.case_cong)

lemma commit_rolled:
  assumes "lua_roll now w (window_start_ms st) (committed_micros st) = (ws, c)"
  shows "window_start_ms (commit_spend w now x st) = ws" "committed_micros (commit_spend w now x st) = c + x"
  using assms roll_agrees [of now w st] by (simp_all add: commit_spend_def Let_def)

lemma settle_agrees:
  fixes k :: "'r lua_scope"
  assumes same: "same_window k st r" and "0 < w" and "0 \<le> actual"
  shows "same_window k (mem_settle w now i actual st)
    (snd (settle_lua (ls_redis k) (ls_tonumber k) (ls_window k) (ls_zset k) (ls_amounts k) i actual now w r))"
proof -
  note s = same_windowD [OF same]
  let ?ops = "ls_redis k" and ?tn = "ls_tonumber k" and ?wk = "ls_window k" and ?zk = "ls_zset k" and ?ak = "ls_amounts k"
  let ?call = "settle_lua ?ops ?tn ?wk ?zk ?ak i actual now w r"
  have stored: "hget ?ops ?ak i r = entry_text st i" using s(6) by (simp add: same_entries_def hashes_def)
  obtain ws c where roll: "lua_roll now w (window_start_ms st) (committed_micros st) = (ws, c)" by fastforce
  have args: "\<not> (actual < 0 \<or> w \<le> 0)" using assms(2,3) by simp
  note wf = write_window_facts [OF s(1,2)]
  have after: "same_window k st' (write_window ?ops ?wk ws (c + actual) v (zrem ?ops ?zk i (hdel ?ops ?ak i r)))"
    if "mem_inv st'" "reservations st' = dict_pop i (reservations st)" "tombstones st' = dict_pop i (tombstones st)"
      "window_start_ms st' = ws" "committed_micros st' = c + actual" "reserved_micros st' = v" for st' v
    unfolding same_window_def
    using that s(1-3) entries_gone [OF s(6,4) that(2,3)] by (simp add: wf redis_rules [OF s(1)])
  have inv: "mem_inv (mem_settle w now i actual st)" by (rule settle_inv_mem [OF s(4) assms(3)])
  show ?thesis
  proof (cases rule: settle_cases [of st i])
    case (live e a)
    have "i \<in> keys (reservations st)" using live by (metis get_None_iff option.discI)
    then have "i \<notin> keys (tombstones st)" using s(4) by (auto simp: mem_inv_def)
    then have gone: "dict_pop i (tombstones st) = tombstones st" by (rule dict_pop_absent)
    have "snd ?call = write_window ?ops ?wk ws (c + actual) (max 0 (reserved_micros st - a)) (zrem ?ops ?zk i (hdel ?ops ?ak i r))"
      using args live s(2,5) roll stored by (simp add: settle_lua_def entry_text_def Let_def)
    moreover have "mem_settle w now i actual st = commit_spend w now actual
        (st\<lparr>reservations := dict_pop i (reservations st), reserved_micros := max 0 (reserved_micros st - a)\<rparr>)"
      using live by (simp add: mem_settle_def)
    ultimately show ?thesis
      using after inv gone roll by (simp add: commit_rolled)
  next
    case (late f a)
    then have "i \<notin> keys (reservations st)" by (metis get_None_iff)
    then have gone: "dict_pop i (reservations st) = reservations st" by (rule dict_pop_absent)
    have "snd ?call = write_window ?ops ?wk ws (c + actual) (reserved_micros st) (zrem ?ops ?zk i (hdel ?ops ?ak i r))"
      using args late s(2,5) roll stored by (simp add: settle_lua_def entry_text_def Let_def)
    moreover have "mem_settle w now i actual st = commit_spend w now actual (st\<lparr>tombstones := dict_pop i (tombstones st)\<rparr>)"
      using late by (simp add: mem_settle_def)
    ultimately show ?thesis
      using after inv gone roll by (simp add: commit_rolled)
  next
    case unknown
    then have "snd ?call = r" using args stored by (simp add: settle_lua_def entry_text_def)
    moreover have "mem_settle w now i actual st = st" using unknown by (simp add: mem_settle_def)
    ultimately show ?thesis using same by simp
  qed
qed

lemma purge_agrees:
  fixes k :: "'r lua_scope"
  assumes same: "same_window k st r" and "remembers now st"
  shows "same_window k (mem_purge now st) (snd (purge_lua (ls_redis k) (ls_tonumber k) (ls_window k) (ls_zset k) (ls_amounts k) now r))"
proof -
  note s = same_windowD [OF same]
  let ?ops = "ls_redis k" and ?tn = "ls_tonumber k" and ?wk = "ls_window k" and ?zk = "ls_zset k" and ?ak = "ls_amounts k"
  define z where "z = drop_upto now (zsets ?ops r ?zk)"
  define a where "a = expired_map ?tn now (zsets ?ops r ?zk) (hashes ?ops r ?ak)"
  obtain r' c ws where p: "snd (purge_lua ?ops ?tn ?wk ?zk ?ak now r) = r'"
      and r': "zsets ?ops r' ?zk = z" "hashes ?ops r' ?ak = a" and l: "load_window ?ops ?tn ?wk r' = Some (c, held ?tn z a, ws)"
      and before: "load_window ?ops ?tn ?wk r = Some (c, held ?tn (zsets ?ops r ?zk) (hashes ?ops r ?ak), ws)"
    using purge_lua_spec [OF same_inv [OF same zero_less_one], of now] unfolding z_def a_def by blast
  let ?s = "fst (expire_memory st now (4 * 3600000))"
  have inv: "mem_inv ?s" by (rule expire_memory_inv [OF s(4)])
  have e: "same_entries z a ?s"
    unfolding z_def a_def by (rule expire_same [OF s(6,4) assms(2) _ s(2)]) simp
  have "held ?tn z a = reserved_micros ?s" by (rule same_held [OF e inv s(2)])
  then show ?thesis
    unfolding p same_window_def mem_purge_def using s(1-3,5) inv e r' l before by simp
qed

subsection \<open>Whole runs\<close>

text \<open>The answers to the reservations of a run, from either backend.\<close>

fun window_answers :: "int \<Rightarrow> int \<Rightarrow> int \<Rightarrow> budget_event list \<Rightarrow> MemoryWindow \<Rightarrow> bool list" where
  "window_answers w ttl cap [] st = []"
| "window_answers w ttl cap (EReserve i now est # es) st =
     fst (mem_reserve w ttl now cap est i st) # window_answers w ttl cap es (window_step w ttl cap (EReserve i now est) st)"
| "window_answers w ttl cap (e # es) st = window_answers w ttl cap es (window_step w ttl cap e st)"

fun scope_answers :: "'r lua_scope \<Rightarrow> int \<Rightarrow> int \<Rightarrow> int \<Rightarrow> budget_event list \<Rightarrow> 'r \<Rightarrow> bool list" where
  "scope_answers k w ttl cap [] r = []"
| "scope_answers k w ttl cap (EReserve i now est # es) r =
     (hd (fst (reserve_lua (ls_redis k) (ls_tonumber k) (ls_window k) (ls_zset k) (ls_amounts k) now w cap est i ttl r)) = 1)
     # scope_answers k w ttl cap es (scope_step k w ttl cap (EReserve i now est) r)"
| "scope_answers k w ttl cap (e # es) r = scope_answers k w ttl cap es (scope_step k w ttl cap e r)"

fun event_clock :: "budget_event \<Rightarrow> int" where
  "event_clock (EReserve i now est) = now"
| "event_clock (ESettle i now actual) = now"
| "event_clock (EPurge now) = now"

fun never_forgets :: "int \<Rightarrow> int \<Rightarrow> int \<Rightarrow> budget_event list \<Rightarrow> MemoryWindow \<Rightarrow> bool" where
  "never_forgets w ttl cap [] st = True"
| "never_forgets w ttl cap (e # es) st =
     (remembers (event_clock e) st \<and> never_forgets w ttl cap es (window_step w ttl cap e st))"

lemma step_agrees:
  assumes "same_window k st r" and "guard_event st e" and "remembers (event_clock e) st" and "0 < w" and "0 < ttl" and "0 < cap"
  shows "same_window k (window_step w ttl cap e st) (scope_step k w ttl cap e r)"
proof (cases e)
  case (EReserve i now est)
  then have "mem_live st i = None" "mem_late st i = None" "0 \<le> est" "remembers now st"
    using assms(2,3) by (simp_all add: mem_defs get_None_iff)
  with reserve_agrees [OF assms(1) _ assms(4-6)] EReserve show ?thesis by simp
next
  case (ESettle i now actual)
  with assms(2) settle_agrees [OF assms(1,4)] show ?thesis by simp
next
  case (EPurge now)
  with assms(3) purge_agrees [OF assms(1)] show ?thesis by simp
qed

lemma runs_agree:
  assumes "same_window k st r" and "guard_run w ttl cap es st" and "never_forgets w ttl cap es st"
    and "0 < w" and "0 < ttl" and "0 < cap"
  shows "scope_answers k w ttl cap es r = window_answers w ttl cap es st
    \<and> same_window k (window_run w ttl cap es st) (scope_run k w ttl cap es r)"
  using assms(1-3)
proof (induction es arbitrary: st r)
  case (Cons e es)
  have next_same: "same_window k (window_step w ttl cap e st) (scope_step k w ttl cap e r)"
    by (rule step_agrees) (use Cons.prems assms(4-6) in simp_all)
  from Cons.IH [OF this] Cons.prems
  have rest: "scope_answers k w ttl cap es (scope_step k w ttl cap e r) = window_answers w ttl cap es (window_step w ttl cap e st)"
      "same_window k (window_run w ttl cap (e # es) st) (scope_run k w ttl cap (e # es) r)" by simp_all
  show ?case
  proof (cases e)
    case (EReserve i now est)
    then have "mem_live st i = None" "mem_late st i = None" "0 \<le> est" "remembers now st"
      using Cons.prems by (simp_all add: mem_defs get_None_iff)
    with reserve_agrees [OF Cons.prems(1) _ assms(4-6)] EReserve rest show ?thesis by simp
  qed (use rest in simp_all)
qed simp

lemma fresh_same: "fresh_scope k r \<Longrightarrow> same_window k new_window r"
  by (simp add: fresh_scope_def same_window_def load_window_of lua_num_def new_window_def same_entries_def entry_text_def mem_inv_def)

subsection \<open>The keys of a scope expire\<close>

text \<open>
  A script call at a reading of the server's clock, which decides when keys expire; the clock of the
  event is the caller's. \<open>touch\<close> sets one deadline for the three keys of the scope, and only a reservation
  that got past its checks calls it; at the deadline the server drops all three.
\<close>

type_synonym timed_event = "int \<times> budget_event"

definition scope_gone :: "'r lua_scope \<Rightarrow> 'r \<Rightarrow> 'r" where
  "scope_gone k r = key_gone (ls_redis k) (ls_window k) (key_gone (ls_redis k) (ls_zset k) (key_gone (ls_redis k) (ls_amounts k) r))"

definition server_at :: "'r lua_scope \<Rightarrow> int \<Rightarrow> int option \<times> 'r \<Rightarrow> int option \<times> 'r" where
  "server_at k t s = (case s of (Some d, r) \<Rightarrow> if d \<le> t then (None, scope_gone k r) else s | (None, r) \<Rightarrow> s)"

fun timed_step :: "'r lua_scope \<Rightarrow> int \<Rightarrow> int \<Rightarrow> int \<Rightarrow> timed_event \<Rightarrow> int option \<times> 'r \<Rightarrow> bool list \<times> int option \<times> 'r" where
  "timed_step k w ttl cap (t, EReserve i now est) s =
     (case server_at k t s of (d, r) \<Rightarrow>
        case reserve_lua (ls_redis k) (ls_tonumber k) (ls_window k) (ls_zset k) (ls_amounts k) now w cap est i ttl r of
          (reply, r) \<Rightarrow> ([hd reply = 1], if hd reply \<in> {0, 1} then Some (t + max w ttl * 4) else d, r))"
| "timed_step k w ttl cap (t, e) s = (case server_at k t s of (d, r) \<Rightarrow> ([], d, scope_step k w ttl cap e r))"

fun timed_run :: "'r lua_scope \<Rightarrow> int \<Rightarrow> int \<Rightarrow> int \<Rightarrow> timed_event list \<Rightarrow> int option \<times> 'r \<Rightarrow> bool list \<times> int option \<times> 'r" where
  "timed_run k w ttl cap [] s = ([], s)"
| "timed_run k w ttl cap (e # es) s =
     (case timed_step k w ttl cap e s of (xs, s) \<Rightarrow> case timed_run k w ttl cap es s of (ys, s) \<Rightarrow> (xs @ ys, s))"

text \<open>Every call reaches the server before the deadline set by the last reservation.\<close>

fun keys_last :: "int \<Rightarrow> int option \<Rightarrow> timed_event list \<Rightarrow> bool" where
  "keys_last life d [] = True"
| "keys_last life d ((t, e) # es) =
     ((case d of None \<Rightarrow> True | Some d \<Rightarrow> t < d)
      \<and> keys_last life (case e of EReserve i now est \<Rightarrow> Some (t + life) | _ \<Rightarrow> d) es)"

lemma reserve_touches:
  assumes "same_window k st r" and "0 < w" and "0 < ttl" and "0 < cap" and "0 \<le> est"
  shows "hd (fst (reserve_lua (ls_redis k) (ls_tonumber k) (ls_window k) (ls_zset k) (ls_amounts k) now w cap est i ttl r)) \<in> {0, 1}"
proof -
  note s = same_windowD [OF assms(1)]
  have held: "held (ls_tonumber k) (zsets (ls_redis k) r (ls_zset k)) (hashes (ls_redis k) r (ls_amounts k)) = reserved_micros st"
    by (rule same_held [OF s(6,4,2)])
  let ?z = "zsets (ls_redis k) r (ls_zset k)" and ?a = "hashes (ls_redis k) r (ls_amounts k)" and ?tn = "ls_tonumber k"
  obtain n rel r1 where "lua_expire (ls_redis k) ?tn (ls_zset k) (ls_amounts k) now (held ?tn ?z ?a) r
      = (Some (held ?tn (drop_upto now ?z) (expired_map ?tn now ?z ?a), n, rel), r1)"
    by (rule lua_expire_spec [OF same_inv [OF assms(1,2)], of now])
  note this [unfolded held]
  moreover obtain ws c where "lua_roll now w (window_start_ms st) (committed_micros st) = (ws, c)" by fastforce
  ultimately show ?thesis using assms(2-5) by (simp add: reserve_lua_def s(5) Let_def)
qed

lemma timed_runs_agree:
  assumes "same_window k st r" and "guard_run w ttl cap (map snd es) st" and "never_forgets w ttl cap (map snd es) st"
    and "keys_last (max w ttl * 4) d es" and pos: "0 < w" "0 < ttl" "0 < cap"
  shows "fst (timed_run k w ttl cap es (d, r)) = window_answers w ttl cap (map snd es) st
    \<and> same_window k (window_run w ttl cap (map snd es) st) (snd (snd (timed_run k w ttl cap es (d, r))))"
  using assms(1-4)
proof (induction es arbitrary: st r d)
  case (Cons te es)
  obtain t e where te: "te = (t, e)" by fastforce
  have now: "server_at k t (d, r) = (d, r)" using Cons.prems(4) te by (auto simp: server_at_def split: option.splits)
  have step: "same_window k (window_step w ttl cap e st) (scope_step k w ttl cap e r)"
    by (rule step_agrees) (use Cons.prems te pos in simp_all)
  note IH = Cons.IH [OF step]
  show ?case
  proof (cases e)
    case (EReserve i now est)
    then have e: "mem_live st i = None" "mem_late st i = None" "0 \<le> est" "remembers now st"
      using Cons.prems(2,3) te by (simp_all add: mem_defs get_None_iff)
    let ?call = "reserve_lua (ls_redis k) (ls_tonumber k) (ls_window k) (ls_zset k) (ls_amounts k) now w cap est i ttl r"
    obtain reply r' where call: "?call = (reply, r')" by fastforce
    have "hd reply \<in> {0, 1}" using reserve_touches [OF Cons.prems(1) pos e(3), of now i] call by simp
    moreover have "(hd reply = 1) = fst (mem_reserve w ttl now cap est i st)"
      using reserve_agrees [OF Cons.prems(1) e(4) pos e(3) e(1,2)] call by simp
    ultimately show ?thesis
      using IH [of "Some (t + max w ttl * 4)"] Cons.prems te EReserve now call by (auto simp: split_beta)
  qed (use IH [of d] Cons.prems te now in \<open>auto simp: split_beta\<close>)
qed simp

text \<open>
  C13: Redis and memory decide alike while both remember. Take any sequence of reservations
  (fresh ids, no negative estimate), settlements and purges, such that every call reaches Redis
  before the keys of the scope expire, four times the longer of window and reservation lifetime
  after the last reservation, and at clock readings at which the in-process window has not yet
  forgotten an expired reservation. It gets the same admissions and denials from the Lua
  scripts on a scope Redis knows nothing of as from a fresh in-process window, and both end with the
  same committed micros, reserved micros and window start.
\<close>

theorem backends_agree:
  assumes "fresh_scope k r" and "0 < w" and "0 < ttl" and "0 < cap" and "es = map snd timed"
    and "guard_run w ttl cap es new_window" and "never_forgets w ttl cap es new_window"
    and "keys_last (max w ttl * 4) None timed" and "timed_run k w ttl cap timed (None, r) = (answers, d, r')"
  shows "(answers, load_window (ls_redis k) (ls_tonumber k) (ls_window k) r')
    = (window_answers w ttl cap es new_window,
       let st = window_run w ttl cap es new_window in Some (committed_micros st, reserved_micros st, window_start_ms st))"
  using timed_runs_agree [OF fresh_same [OF assms(1)], of w ttl cap timed None] assms(2-9) by (simp add: same_window_def Let_def)

definition on_time :: "budget_event list \<Rightarrow> timed_event list" where
  "on_time es = map (\<lambda>e. (event_clock e, e)) es"

theorem backends_agree_witness:
  "(case timed_run demo_scope 60000 10000 100 (on_time demo_calls) (None, empty_server) of
     (answers, d, r') \<Rightarrow> answers = [True, False, True] \<and> load_window demo_redis parse_int ''w'' r' = Some (55, 0, 1000))"
proof -
  have names: "ls_redis demo_scope = demo_redis" "ls_tonumber demo_scope = parse_int" "ls_window demo_scope = ''w''"
    by (simp_all add: demo_scope_def)
  have run: "guard_run 60000 10000 100 demo_calls new_window" "never_forgets 60000 10000 100 demo_calls new_window"
    "window_answers 60000 10000 100 demo_calls new_window = [True, False, True]"
    "(let st = window_run 60000 10000 100 demo_calls new_window in
      Some (committed_micros st, reserved_micros st, window_start_ms st)) = Some (55, 0, 1000)"
    "keys_last (max 60000 10000 * 4) None (on_time demo_calls)"
    by code_simp+
  have snds: "demo_calls = map snd (on_time demo_calls)" by (simp add: on_time_def comp_def)
  obtain answers d r' where t: "timed_run demo_scope 60000 10000 100 (on_time demo_calls) (None, empty_server) = (answers, d, r')"
    by (metis surj_pair)
  show ?thesis
    using backends_agree [OF demo_fresh _ _ _ snds run(1,2,5) t] unfolding names run(3,4) t by simp
qed

text \<open>
  Beyond the deadline they differ. A scope whose keys expired is a scope Redis knows nothing of,
  and a settlement does not touch the keys: spend it commits just before they expire is gone
  right after, though its window has only begun, and Redis admits a request that the in-process
  window denies.
\<close>

lemma gone_fresh: "fresh_scope k r0 \<Longrightarrow> fresh_scope k (scope_gone k r)"
  by (auto simp: fresh_scope_def scope_gone_def redis_rules fun_eq_iff)

lemma first_reservation:
  assumes "fresh_scope k r" and "0 < w" and "0 < ttl" and "0 < cap" and "0 \<le> est" and "est \<le> cap"
  shows "hd (fst (reserve_lua (ls_redis k) (ls_tonumber k) (ls_window k) (ls_zset k) (ls_amounts k) now w cap est i ttl r)) = 1"
proof -
  have "fst (mem_reserve w ttl now cap est i new_window)"
    using assms(6) by (simp add: mem_reserve_def reserve_prepare_def expire_memory_def expired_ids_def drop_stale_def
        reserve_decide_def roll_window_def new_window_def)
  moreover have "mem_live new_window i = None" "mem_late new_window i = None" "remembers now new_window"
    by (simp_all add: mem_defs new_window_def remembers_def)
  ultimately show ?thesis using reserve_agrees [OF fresh_same [OF assms(1)] _ assms(2-5)] by blast
qed

lemma expired_scope_admits:
  assumes "fresh_scope k r0" and "0 < w" and "0 < ttl" and "0 < cap" and "0 \<le> est" and "est \<le> cap" and "d \<le> t"
  shows "fst (timed_step k w ttl cap (t, EReserve i now est) (Some d, r)) = [True]"
  using first_reservation [OF gone_fresh [OF assms(1)] assms(2-6), of now i r] assms(7)
  by (simp add: server_at_def split_beta)

definition late_settlement :: "budget_event list" where
  "late_settlement = [EReserve ''a'' 1 60, ESettle ''a'' 239999 60, EReserve ''b'' 240001 60]"

theorem late_settlement_vanishes:
  assumes "fresh_scope k r"
  shows "fst (timed_run k 60000 10000 100 (on_time late_settlement) (None, r)) = [True, True]
   \<and> window_answers 60000 10000 100 late_settlement new_window = [True, False]
   \<and> guard_run 60000 10000 100 late_settlement new_window \<and> never_forgets 60000 10000 100 late_settlement new_window"
proof (intro conjI)
  show "window_answers 60000 10000 100 late_settlement new_window = [True, False]" by code_simp
  show "guard_run 60000 10000 100 late_settlement new_window" by code_simp
  show "never_forgets 60000 10000 100 late_settlement new_window" by code_simp
  obtain reply r1 where call: "reserve_lua (ls_redis k) (ls_tonumber k) (ls_window k) (ls_zset k) (ls_amounts k) 1 60000 100 60 ''a'' 10000 r = (reply, r1)"
    by fastforce
  then have "hd reply = 1" using first_reservation [OF assms, of 60000 10000 100 60 1 "''a''"] by simp
  with call have 1: "timed_step k 60000 10000 100 (1, EReserve ''a'' 1 60) (None, r) = ([True], Some 240001, r1)"
    by (simp add: server_at_def)
  obtain r2 where 2: "timed_step k 60000 10000 100 (239999, ESettle ''a'' 239999 60) (Some 240001, r1) = ([], Some 240001, r2)"
    by (simp add: server_at_def)
  have "fst (timed_step k 60000 10000 100 (240001, EReserve ''b'' 240001 60) (Some 240001, r2)) = [True]"
    by (rule expired_scope_admits [OF assms]) simp_all
  then obtain s3 where 3: "timed_step k 60000 10000 100 (240001, EReserve ''b'' 240001 60) (Some 240001, r2) = ([True], s3)"
    by (metis prod.collapse)
  show "fst (timed_run k 60000 10000 100 (on_time late_settlement) (None, r)) = [True, True]"
    by (simp add: late_settlement_def on_time_def 1 2 3 del: timed_step.simps)
qed

end
