(* ===== verification/Quota_Redis.thy ===== *)
theory Quota_Redis imports Quota Redis_Ops begin

text \<open>
  \<open>app/gateway/tenant.py\<close>, the attribution store of the fleet: the three Lua scripts on a sorted set of
  request members (scores are client clocks in seconds) and a usage hash per team, and the client
  that runs them. Redis, Lua's \<open>tonumber\<close> and \<open>tostring\<close> and Python's \<open>float\<close> are parameters; numbers are
  exact, so what is proved of text read back holds below \<open>10^14\<close>, where \<open>tostring\<close> prints integers.
\<close>

subsection \<open>Redis and Lua\<close>

record 'r quota_redis =
  q_score :: "string \<Rightarrow> string \<Rightarrow> 'r \<Rightarrow> rat option"
  q_card :: "string \<Rightarrow> 'r \<Rightarrow> nat"
  q_zadd :: "string \<Rightarrow> rat \<Rightarrow> string \<Rightarrow> 'r \<Rightarrow> 'r"
  q_zrem :: "string \<Rightarrow> string \<Rightarrow> 'r \<Rightarrow> 'r"
  q_zrem_upto :: "string \<Rightarrow> rat \<Rightarrow> 'r \<Rightarrow> 'r"
  q_hget :: "string \<Rightarrow> string \<Rightarrow> 'r \<Rightarrow> string option"
  q_hset :: "string \<Rightarrow> string \<Rightarrow> string \<Rightarrow> 'r \<Rightarrow> 'r"
  q_hgetall :: "string \<Rightarrow> 'r \<Rightarrow> (string, string) dict"
  q_hincrby :: "string \<Rightarrow> string \<Rightarrow> int \<Rightarrow> 'r \<Rightarrow> int option \<times> 'r"
  q_hincrbyfloat :: "string \<Rightarrow> string \<Rightarrow> rat \<Rightarrow> 'r \<Rightarrow> string option \<times> 'r"
  q_pexpire :: "string \<Rightarrow> rat \<Rightarrow> 'r \<Rightarrow> 'r"
  q_expire :: "string \<Rightarrow> int \<Rightarrow> 'r \<Rightarrow> 'r"
  lua_tonumber :: "string \<Rightarrow> rat option"
  lua_tostring :: "rat \<Rightarrow> string"
  float_text :: "string \<Rightarrow> rat option"

text \<open>A script answers a list of integers and texts, or is aborted by an error, keeping what it wrote.\<close>

datatype reply = RInt int | RText string

type_synonym 'r quota_script = "'r \<Rightarrow> (string + reply list) \<times> 'r"

subsection \<open>The scripts\<close>

definition new_day :: "('r, 'm) quota_redis_scheme \<Rightarrow> string \<Rightarrow> string \<Rightarrow> 'r \<Rightarrow> 'r" where
  "new_day ops uk today r =
     (if q_hget ops uk ''day'' r \<noteq> Some today then
        q_hset ops uk ''spend_usd'' ''0'' (q_hset ops uk ''tokens'' ''0'' (q_hset ops uk ''day'' today r))
      else r)"

definition quota_reserve_lua ::
  "('r, 'm) quota_redis_scheme \<Rightarrow> string \<Rightarrow> string \<Rightarrow> rat \<Rightarrow> rat \<Rightarrow> string \<Rightarrow> int \<Rightarrow> string \<Rightarrow> rat \<Rightarrow> 'r quota_script" where
  "quota_reserve_lua ops zk uk now window member token_delta today spend_delta r =
     (let r = q_zrem_upto ops zk (now - window) r;
          r = q_zadd ops zk now member r;
          r = q_pexpire ops zk ((window + 1) * 1000) r;
          rpm = q_card ops zk r;
          r = new_day ops uk today r
      in case q_hincrby ops uk ''tokens'' token_delta r of
           (None, r) \<Rightarrow> (Inl ''ERR'', r)
         | (Some tokens, r) \<Rightarrow>
             (case q_hincrbyfloat ops uk ''spend_usd'' spend_delta r of
                (None, r) \<Rightarrow> (Inl ''ERR'', r)
              | (Some spend, r) \<Rightarrow> (Inr [RInt (int rpm), RInt tokens, RText spend], q_expire ops uk 172800 r)))"

text \<open>A missing counter counts as zero; arithmetic on a text that is no number aborts the script.\<close>

definition counter_or_zero :: "('r, 'm) quota_redis_scheme \<Rightarrow> string \<Rightarrow> string \<Rightarrow> 'r \<Rightarrow> rat option" where
  "counter_or_zero ops uk f r = lua_tonumber ops (case q_hget ops uk f r of Some v \<Rightarrow> v | None \<Rightarrow> ''0'')"

definition quota_refund_lua ::
  "('r, 'm) quota_redis_scheme \<Rightarrow> string \<Rightarrow> string \<Rightarrow> string \<Rightarrow> int \<Rightarrow> string \<Rightarrow> rat \<Rightarrow> 'r quota_script" where
  "quota_refund_lua ops zk uk member token_delta today spend_delta r =
     (let r = q_zrem ops zk member r
      in if q_hget ops uk ''day'' r = Some today then
           (case counter_or_zero ops uk ''tokens'' r of
              None \<Rightarrow> (Inl ''ERR'', r)
            | Some tokens \<Rightarrow>
                (let r = q_hset ops uk ''tokens'' (lua_tostring ops (max 0 (tokens - of_int token_delta))) r
                 in case counter_or_zero ops uk ''spend_usd'' r of
                      None \<Rightarrow> (Inl ''ERR'', r)
                    | Some spend \<Rightarrow>
                        (Inr [RInt 1], q_hset ops uk ''spend_usd'' (lua_tostring ops (max 0 (spend - spend_delta))) r)))
         else (Inr [RInt 1], r))"

definition quota_reconcile_lua ::
  "('r, 'm) quota_redis_scheme \<Rightarrow> string \<Rightarrow> int \<Rightarrow> string \<Rightarrow> rat \<Rightarrow> 'r quota_script" where
  "quota_reconcile_lua ops uk token_delta today spend_delta r =
     (case q_hincrby ops uk ''tokens'' token_delta (new_day ops uk today r) of
        (None, r) \<Rightarrow> (Inl ''ERR'', r)
      | (Some tokens, r) \<Rightarrow>
          (let r = (if tokens < 0 then q_hset ops uk ''tokens'' ''0'' r else r);
               tokens = max 0 tokens
           in case q_hincrbyfloat ops uk ''spend_usd'' spend_delta r of
                (None, r) \<Rightarrow> (Inl ''ERR'', r)
              | (Some spend, r) \<Rightarrow>
                  (case lua_tonumber ops spend of
                     None \<Rightarrow> (Inl ''ERR'', r)
                   | Some x \<Rightarrow>
                       (let r = (if x < 0 then q_hset ops uk ''spend_usd'' ''0'' r else r)
                        in (Inr [RInt tokens, RText (if x < 0 then ''0'' else spend)], q_expire ops uk 172800 r)))))"

subsection \<open>The client\<close>

text \<open>The handles of loaded scripts, and the connection: what it raises is a text.\<close>

datatype sha_attr = ReserveSha | RefundSha | ReconcileSha

type_synonym handles = "sha_attr \<Rightarrow> string option"

record 'r quota_connection =
  qc_load :: "sha_attr \<Rightarrow> 'r \<Rightarrow> string + string"
  qc_evalsha :: "string \<Rightarrow> 'r quota_script \<Rightarrow> 'r \<Rightarrow> (string + reply list) \<times> 'r"
  qc_send :: "('r \<Rightarrow> 'r) \<Rightarrow> 'r \<Rightarrow> string option \<times> 'r"

definition ensure_one :: "('r, 'm) quota_connection_scheme \<Rightarrow> 'r \<Rightarrow> sha_attr \<Rightarrow> handles \<Rightarrow> string option \<times> handles" where
  "ensure_one c r a h =
     (case h a of
        Some sha \<Rightarrow> (None, h)
      | None \<Rightarrow> (case qc_load c a r of Inl e \<Rightarrow> (Some e, h) | Inr sha \<Rightarrow> (None, h(a := Some sha))))"

fun ensure_scripts :: "('r, 'm) quota_connection_scheme \<Rightarrow> 'r \<Rightarrow> sha_attr list \<Rightarrow> handles \<Rightarrow> string option \<times> handles" where
  "ensure_scripts c r [] h = (None, h)"
| "ensure_scripts c r (a # as) h =
     (case ensure_one c r a h of (Some e, h) \<Rightarrow> (Some e, h) | (None, h) \<Rightarrow> ensure_scripts c r as h)"

definition quota_eval ::
  "('r, 'm) quota_connection_scheme \<Rightarrow> sha_attr \<Rightarrow> 'r quota_script \<Rightarrow> handles \<times> 'r \<Rightarrow> (string + reply list) \<times> handles \<times> 'r" where
  "quota_eval c a script st =
     (case st of (h, r) \<Rightarrow>
        case ensure_scripts c r [ReserveSha, RefundSha, ReconcileSha] h of
          (Some e, h) \<Rightarrow> (Inl e, h, r)
        | (None, h) \<Rightarrow>
            (case qc_evalsha c (case h a of Some sha \<Rightarrow> sha | None \<Rightarrow> []) script r of
               (Inr v, r) \<Rightarrow> (Inr v, h, r)
             | (Inl e, r) \<Rightarrow>
                 if \<not> contains ''NOSCRIPT'' (map upper_char e) then (Inl e, h, r)
                 else (case qc_load c a r of
                         Inl e \<Rightarrow> (Inl e, h, r)
                       | Inr sha \<Rightarrow> (case qc_evalsha c sha script r of (v, r) \<Rightarrow> (v, h(a := Some sha), r)))))"

text \<open>\<open>int(...)\<close> and \<open>float(...)\<close> of an element of the answer.\<close>

fun reply_int :: "reply \<Rightarrow> int option" where
  "reply_int (RInt n) = Some n"
| "reply_int (RText t) = parse_int t"

fun reply_float :: "('r, 'm) quota_redis_scheme \<Rightarrow> reply \<Rightarrow> rat option" where
  "reply_float ops (RInt n) = Some (of_int n)"
| "reply_float ops (RText t) = float_text ops t"

definition rpm_key :: "string \<Rightarrow> string" where
  "rpm_key team = ''arp:'' @ team @ '':rpm''"

definition usage_key :: "string \<Rightarrow> string" where
  "usage_key team = ''arp:'' @ team @ '':usage''"

definition redis_reserve ::
  "('r, 'm) quota_redis_scheme \<Rightarrow> ('r, 'c) quota_connection_scheme \<Rightarrow> rat \<Rightarrow> string \<Rightarrow> string \<Rightarrow> string \<Rightarrow> int \<Rightarrow> int \<Rightarrow> rat
   \<Rightarrow> string option \<Rightarrow> handles \<times> 'r \<Rightarrow> (string + QuotaReservation) \<times> handles \<times> 'r" where
  "redis_reserve ops c now today uuid team input_tokens output_tokens cost member_id st =
     (let mid = (case member_id of Some m \<Rightarrow> if m \<noteq> [] then m else uuid | None \<Rightarrow> uuid);
          token_delta = input_tokens + output_tokens
      in case quota_eval c ReserveSha
             (quota_reserve_lua ops (rpm_key team) (usage_key team) now WINDOW_SECONDS mid token_delta today cost) st of
           (Inl e, st) \<Rightarrow> (Inl e, st)
         | (Inr (a # b # d # rest), st) \<Rightarrow>
             (case (reply_int a, reply_int b, reply_float ops d) of
                (Some rpm, Some tokens, Some spend) \<Rightarrow>
                  (Inr \<lparr>qr_team = team, qr_member = mid, reserved_tokens = token_delta, reserved_spend = cost,
                        requests_last_minute = nat rpm, qr_tokens_today = tokens, month_to_date = spend\<rparr>, st)
              | _ \<Rightarrow> (Inl ''ValueError'', st))
         | (Inr _, st) \<Rightarrow> (Inl ''IndexError'', st))"

definition redis_record_request ::
  "('r, 'm) quota_redis_scheme \<Rightarrow> ('r, 'c) quota_connection_scheme \<Rightarrow> rat \<Rightarrow> string \<Rightarrow> string \<Rightarrow> string \<Rightarrow> int \<Rightarrow> int
   \<Rightarrow> handles \<times> 'r \<Rightarrow> string option \<times> handles \<times> 'r" where
  "redis_record_request ops c now today uuid team input_tokens output_tokens st =
     (case redis_reserve ops c now today uuid team input_tokens output_tokens 0 None st of
        (Inl e, st) \<Rightarrow> (Some e, st) | (Inr _, st) \<Rightarrow> (None, st))"

definition redis_refund ::
  "('r, 'm) quota_redis_scheme \<Rightarrow> ('r, 'c) quota_connection_scheme \<Rightarrow> string \<Rightarrow> QuotaReservation \<Rightarrow> handles \<times> 'r
   \<Rightarrow> string option \<times> handles \<times> 'r" where
  "redis_refund ops c today q st =
     (case quota_eval c RefundSha
         (quota_refund_lua ops (rpm_key (qr_team q)) (usage_key (qr_team q)) (qr_member q) (reserved_tokens q) today (reserved_spend q)) st of
        (Inl e, st) \<Rightarrow> (Some e, st) | (Inr _, st) \<Rightarrow> (None, st))"

definition redis_reconcile ::
  "('r, 'm) quota_redis_scheme \<Rightarrow> ('r, 'c) quota_connection_scheme \<Rightarrow> string \<Rightarrow> QuotaReservation \<Rightarrow> int \<Rightarrow> int \<Rightarrow> rat
   \<Rightarrow> handles \<times> 'r \<Rightarrow> (string + int \<times> rat) \<times> handles \<times> 'r" where
  "redis_reconcile ops c today q actual_input actual_output actual_spend st =
     (let actual_tokens = actual_input + actual_output;
          token_delta = actual_tokens - reserved_tokens q;
          spend_delta = actual_spend - reserved_spend q
      in case quota_eval c ReconcileSha (quota_reconcile_lua ops (usage_key (qr_team q)) token_delta today spend_delta) st of
           (Inl e, st) \<Rightarrow> (Inl e, st)
         | (Inr (a # b # rest), st) \<Rightarrow>
             (case (reply_int a, reply_float ops b) of
                (Some tokens, Some spend) \<Rightarrow> (Inr (tokens, spend), st)
              | _ \<Rightarrow> (Inl ''ValueError'', st))
         | (Inr _, st) \<Rightarrow> (Inl ''IndexError'', st))"

text \<open>\<open>state.get(key, 0) or 0\<close> of the hash a snapshot reads, by the given reader.\<close>

definition number_of :: "(string \<Rightarrow> 'n option) \<Rightarrow> 'n \<Rightarrow> (string, string) dict \<Rightarrow> string \<Rightarrow> 'n option" where
  "number_of read zero state key =
     (case dict_get state key of None \<Rightarrow> Some zero | Some t \<Rightarrow> if t = [] then Some zero else read t)"

definition day_of :: "(string, string) dict \<Rightarrow> string" where
  "day_of state = (case dict_get state ''day'' of None \<Rightarrow> [] | Some d \<Rightarrow> d)"

definition redis_usage_snapshot ::
  "('r, 'm) quota_redis_scheme \<Rightarrow> ('r, 'c) quota_connection_scheme \<Rightarrow> rat \<Rightarrow> string \<Rightarrow> string \<Rightarrow> 'r
   \<Rightarrow> (string + nat \<times> int) \<times> 'r" where
  "redis_usage_snapshot ops c now today team r =
     (case qc_send c (q_zrem_upto ops (rpm_key team) (now - WINDOW_SECONDS)) r of
        (Some e, r) \<Rightarrow> (Inl e, r)
      | (None, r) \<Rightarrow>
          (case qc_send c (\<lambda>r. r) r of
             (Some e, r) \<Rightarrow> (Inl e, r)
           | (None, r) \<Rightarrow>
               (let rpm = q_card ops (rpm_key team) r
                in case qc_send c (\<lambda>r. r) r of
                     (Some e, r) \<Rightarrow> (Inl e, r)
                   | (None, r) \<Rightarrow>
                       (let state = q_hgetall ops (usage_key team) r
                        in if state = [] then (Inr (rpm, 0), r)
                           else (case number_of parse_int 0 state ''tokens'' of
                                   None \<Rightarrow> (Inl ''ValueError'', r)
                                 | Some tokens \<Rightarrow> (Inr (rpm, if day_of state \<noteq> today then 0 else tokens), r))))))"

definition redis_spend_snapshot ::
  "('r, 'm) quota_redis_scheme \<Rightarrow> ('r, 'c) quota_connection_scheme \<Rightarrow> string \<Rightarrow> string \<Rightarrow> 'r \<Rightarrow> (string + rat) \<times> 'r" where
  "redis_spend_snapshot ops c today team r =
     (case qc_send c (\<lambda>r. r) r of
        (Some e, r) \<Rightarrow> (Inl e, r)
      | (None, r) \<Rightarrow>
          (let state = q_hgetall ops (usage_key team) r
           in if state = [] \<or> day_of state \<noteq> today then (Inr 0, r)
              else (case number_of (float_text ops) 0 state ''spend_usd'' of
                      None \<Rightarrow> (Inl ''ValueError'', r) | Some spend \<Rightarrow> (Inr spend, r))))"

datatype tenant_backend = RedisTenantStore | MemoryTenantStore

definition create_tenant_store :: "string option \<Rightarrow> string option \<Rightarrow> tenant_backend option" where
  "create_tenant_store enabled redis_url =
     (if \<not> attribution_enabled enabled then None
      else if redis_url \<noteq> None \<and> redis_url \<noteq> Some [] then Some RedisTenantStore
      else Some MemoryTenantStore)"

end
