(* ===== verification/Quota_Redis_Properties.thy ===== *)
theory Quota_Redis_Properties imports Quota_Redis begin

text \<open>
  The fleet's day counters: what Redis documents of the commands the attribution store uses, the
  effect of its scripts on the token counter of a day, the second interpretation of the locale of
  day counters, and what the scripts do after midnight.
\<close>

subsection \<open>Documented behaviour\<close>

definition q_scores :: "('r, 'm) quota_redis_scheme \<Rightarrow> 'r \<Rightarrow> string \<Rightarrow> string \<Rightarrow> rat option" where
  "q_scores ops r = (\<lambda>k m. q_score ops k m r)"

definition q_fields :: "('r, 'm) quota_redis_scheme \<Rightarrow> 'r \<Rightarrow> string \<Rightarrow> string \<Rightarrow> string option" where
  "q_fields ops r = (\<lambda>k f. q_hget ops k f r)"

definition int64 :: "int \<Rightarrow> bool" where
  "int64 n \<longleftrightarrow> - (2 ^ 63) \<le> n \<and> n < 2 ^ 63"

definition lua_exact :: int where
  "lua_exact = 10 ^ 14"

definition drop_old :: "rat \<Rightarrow> (string \<Rightarrow> rat option) \<Rightarrow> string \<Rightarrow> rat option" where
  "drop_old x z = (\<lambda>m. case z m of None \<Rightarrow> None | Some s \<Rightarrow> if s \<le> x then None else Some s)"

definition quota_redis_laws :: "('r, 'm) quota_redis_scheme \<Rightarrow> bool" where
  "quota_redis_laws ops \<longleftrightarrow>
     (\<forall>r k. finite (dom (q_scores ops r k)) \<and> q_card ops k r = card (dom (q_scores ops r k)))
     \<and> (\<forall>r k s m. q_scores ops (q_zadd ops k s m r) = (q_scores ops r)(k := (q_scores ops r k)(m \<mapsto> s))
          \<and> q_fields ops (q_zadd ops k s m r) = q_fields ops r)
     \<and> (\<forall>r k m. q_scores ops (q_zrem ops k m r) = (q_scores ops r)(k := (q_scores ops r k)(m := None))
          \<and> q_fields ops (q_zrem ops k m r) = q_fields ops r)
     \<and> (\<forall>r k x. q_scores ops (q_zrem_upto ops k x r) = (q_scores ops r)(k := drop_old x (q_scores ops r k))
          \<and> q_fields ops (q_zrem_upto ops k x r) = q_fields ops r)
     \<and> (\<forall>r k f v. q_fields ops (q_hset ops k f v r) = (q_fields ops r)(k := (q_fields ops r k)(f \<mapsto> v))
          \<and> q_scores ops (q_hset ops k f v r) = q_scores ops r)
     \<and> (\<forall>r k f. dict_get (q_hgetall ops k r) f = q_fields ops r k f)
     \<and> (\<forall>r k f n i. q_fields ops r k f = Some (show_int i) \<longrightarrow>
          (if int64 n \<and> int64 (i + n) then
             fst (q_hincrby ops k f n r) = Some (i + n)
             \<and> q_fields ops (snd (q_hincrby ops k f n r)) = (q_fields ops r)(k := (q_fields ops r k)(f \<mapsto> show_int (i + n)))
           else fst (q_hincrby ops k f n r) = None))
     \<and> (\<forall>r k f n. q_scores ops (snd (q_hincrby ops k f n r)) = q_scores ops r)
     \<and> (\<forall>r k f x. (\<exists>v. q_fields ops (snd (q_hincrbyfloat ops k f x r)) = (q_fields ops r)(k := (q_fields ops r k)(f := v)))
          \<and> q_scores ops (snd (q_hincrbyfloat ops k f x r)) = q_scores ops r)
     \<and> (\<forall>r k ms. q_fields ops (q_pexpire ops k ms r) = q_fields ops r \<and> q_scores ops (q_pexpire ops k ms r) = q_scores ops r)
     \<and> (\<forall>r k s. q_fields ops (q_expire ops k s r) = q_fields ops r \<and> q_scores ops (q_expire ops k s r) = q_scores ops r)
     \<and> (\<forall>n. - lua_exact < n \<and> n < lua_exact \<longrightarrow>
          lua_tonumber ops (show_int n) = Some (of_int n) \<and> lua_tostring ops (of_int n) = show_int n)"

lemma quota_rules:
  assumes "quota_redis_laws ops"
  shows "finite (dom (q_scores ops r k))" "q_card ops k r = card (dom (q_scores ops r k))"
    and "q_scores ops (q_zadd ops k s m r) = (q_scores ops r)(k := (q_scores ops r k)(m \<mapsto> s))"
    and "q_fields ops (q_zadd ops k s m r) = q_fields ops r"
    and "q_scores ops (q_zrem ops k m r) = (q_scores ops r)(k := (q_scores ops r k)(m := None))"
    and "q_fields ops (q_zrem ops k m r) = q_fields ops r"
    and "q_scores ops (q_zrem_upto ops k x r) = (q_scores ops r)(k := drop_old x (q_scores ops r k))"
    and "q_fields ops (q_zrem_upto ops k x r) = q_fields ops r"
    and "q_fields ops (q_hset ops k f v r) = (q_fields ops r)(k := (q_fields ops r k)(f \<mapsto> v))"
    and "q_scores ops (q_hset ops k f v r) = q_scores ops r"
    and "dict_get (q_hgetall ops k r) f = q_fields ops r k f"
    and "q_scores ops (snd (q_hincrby ops k f n r)) = q_scores ops r"
    and "q_scores ops (snd (q_hincrbyfloat ops k f x r)) = q_scores ops r"
    and "q_fields ops (q_pexpire ops k x r) = q_fields ops r" "q_scores ops (q_pexpire ops k x r) = q_scores ops r"
    and "q_fields ops (q_expire ops k n r) = q_fields ops r" "q_scores ops (q_expire ops k n r) = q_scores ops r"
  using assms by (simp_all add: quota_redis_laws_def)

lemma hincrby_rule:
  assumes "quota_redis_laws ops" and "q_fields ops r k f = Some (show_int i)" and "q_hincrby ops k f n r = (Some v, r')"
  shows "v = i + n" "q_fields ops r' = (q_fields ops r)(k := (q_fields ops r k)(f \<mapsto> show_int (i + n)))"
proof -
  from assms(1,2) have "if int64 n \<and> int64 (i + n) then
      fst (q_hincrby ops k f n r) = Some (i + n)
      \<and> q_fields ops (snd (q_hincrby ops k f n r)) = (q_fields ops r)(k := (q_fields ops r k)(f \<mapsto> show_int (i + n)))
    else fst (q_hincrby ops k f n r) = None"
    unfolding quota_redis_laws_def by blast
  with assms(3) show "v = i + n" "q_fields ops r' = (q_fields ops r)(k := (q_fields ops r k)(f \<mapsto> show_int (i + n)))"
    by (simp_all split: if_splits)
qed

lemma hincrbyfloat_rule:
  assumes "quota_redis_laws ops" and "q_hincrbyfloat ops k f x r = (v, r')"
  shows "\<exists>t. q_fields ops r' = (q_fields ops r)(k := (q_fields ops r k)(f := t))"
proof -
  from assms(1) have "\<exists>t. q_fields ops (snd (q_hincrbyfloat ops k f x r)) = (q_fields ops r)(k := (q_fields ops r k)(f := t))"
    unfolding quota_redis_laws_def by blast
  with assms(2) show ?thesis by simp
qed

lemma lua_number_rule:
  assumes "quota_redis_laws ops" and "- lua_exact < n" "n < lua_exact"
  shows "lua_tonumber ops (show_int n) = Some (of_int n)" "lua_tostring ops (of_int n) = show_int n"
  using assms by (simp_all add: quota_redis_laws_def)

lemma q_hget_fields: "q_hget ops k f r = q_fields ops r k f"
  by (simp add: q_fields_def)

text \<open>A call that answers ran its script once; what a call that raises leaves is the old server or the one after the script.\<close>

definition quota_connection_laws :: "('r, 'c) quota_connection_scheme \<Rightarrow> bool" where
  "quota_connection_laws c \<longleftrightarrow>
     (\<forall>sha script r. case qc_evalsha c sha script r of
        (Inr v, r') \<Rightarrow> script r = (Inr v, r')
      | (Inl e, r') \<Rightarrow> r' = r \<or> (r' = snd (script r) \<and> \<not> contains ''NOSCRIPT'' (map upper_char e)))
     \<and> (\<forall>f r. case qc_send c f r of (None, r') \<Rightarrow> r' = f r | (Some e, r') \<Rightarrow> r' = r \<or> r' = f r)"

lemma quota_eval_runs:
  assumes "quota_connection_laws c" and "quota_eval c a script (h, r) = (Inr v, h', r')"
  shows "script r = (Inr v, r')"
proof -
  have law: "case qc_evalsha c sha script q of
        (Inr v, r') \<Rightarrow> script q = (Inr v, r')
      | (Inl e, r') \<Rightarrow> r' = q \<or> (r' = snd (script q) \<and> \<not> contains ''NOSCRIPT'' (map upper_char e))" for sha q
    using assms(1) by (simp add: quota_connection_laws_def)
  obtain h1 where h1: "ensure_scripts c r [ReserveSha, RefundSha, ReconcileSha] h = (None, h1)"
    using assms(2) unfolding quota_eval_def by (auto split: prod.splits option.splits)
  obtain x r1 where e: "qc_evalsha c (case h1 a of Some sha \<Rightarrow> sha | None \<Rightarrow> []) script r = (x, r1)" by fastforce
  show ?thesis
  proof (cases x)
    case (Inr w)
    with assms(2) h1 e law [where sha = "case h1 a of Some sha \<Rightarrow> sha | None \<Rightarrow> []" and q = r] show ?thesis by (simp add: quota_eval_def)
  next
    case (Inl t)
    with assms(2) h1 e obtain sha where n: "contains ''NOSCRIPT'' (map upper_char t)"
      and sha: "qc_load c a r1 = Inr sha" "qc_evalsha c sha script r1 = (Inr v, r')"
      by (auto simp: quota_eval_def split: if_splits sum.splits prod.splits)
    from n Inl e law [where sha = "case h1 a of Some sha \<Rightarrow> sha | None \<Rightarrow> []" and q = r] have "r1 = r" by simp
    with sha law [where sha = sha and q = r1] show ?thesis by simp
  qed
qed

subsection \<open>The token counter of a day\<close>

definition day_tokens :: "('r, 'm) quota_redis_scheme \<Rightarrow> string \<Rightarrow> 'r \<Rightarrow> string \<Rightarrow> int" where
  "day_tokens ops today r team =
     (if q_hget ops (usage_key team) ''day'' r = Some today then
        (case q_hget ops (usage_key team) ''tokens'' r of
           None \<Rightarrow> 0 | Some t \<Rightarrow> (case parse_int t of None \<Rightarrow> 0 | Some n \<Rightarrow> n))
      else 0)"

definition tokens_good :: "('r, 'm) quota_redis_scheme \<Rightarrow> string \<Rightarrow> 'r \<Rightarrow> bool" where
  "tokens_good ops today r \<longleftrightarrow>
     (\<forall>team. q_fields ops r (usage_key team) ''day'' = Some today \<longrightarrow>
        (\<exists>n. 0 \<le> n \<and> n < lua_exact \<and> q_fields ops r (usage_key team) ''tokens'' = Some (show_int n)))"

text \<open>The hash of one team holds today's count \<open>n\<close>, those of the others what they held.\<close>

definition holds_tokens :: "('r, 'm) quota_redis_scheme \<Rightarrow> string \<Rightarrow> string \<Rightarrow> 'r \<Rightarrow> int \<Rightarrow> 'r \<Rightarrow> bool" where
  "holds_tokens ops today team r n r' \<longleftrightarrow>
     q_fields ops r' (usage_key team) ''day'' = Some today
     \<and> q_fields ops r' (usage_key team) ''tokens'' = Some (show_int n)
     \<and> (\<forall>k. k \<noteq> usage_key team \<longrightarrow> q_fields ops r' k = q_fields ops r k)"

lemma usage_key_inj [simp]: "usage_key t = usage_key t' \<longleftrightarrow> t = t'"
  by (simp add: usage_key_def)

lemma show_zero: "show_int 0 = ''0''"
  by code_simp

lemma show_int_nonempty: "show_int n \<noteq> []"
  using show_nat_digits by (simp add: show_int_def)

lemma holds_tokens_good:
  assumes "tokens_good ops today r" and "holds_tokens ops today team r n r'" and "0 \<le> n" "n < lua_exact"
  shows "tokens_good ops today r' \<and> day_tokens ops today r' = (day_tokens ops today r)(team := n)"
proof -
  have other: "q_fields ops r' (usage_key t) = q_fields ops r (usage_key t)" if "t \<noteq> team" for t
    using assms(2) that by (simp add: holds_tokens_def)
  have "tokens_good ops today r'"
    unfolding tokens_good_def
  proof (intro allI impI)
    fix t assume t: "q_fields ops r' (usage_key t) ''day'' = Some today"
    show "\<exists>n. 0 \<le> n \<and> n < lua_exact \<and> q_fields ops r' (usage_key t) ''tokens'' = Some (show_int n)"
    proof (cases "t = team")
      case True
      with assms(2-4) show ?thesis by (auto simp: holds_tokens_def)
    next
      case False
      with t other assms(1) show ?thesis by (simp add: tokens_good_def)
    qed
  qed
  moreover have "day_tokens ops today r' t = ((day_tokens ops today r)(team := n)) t" for t
    using other [of t] assms(2) by (cases "t = team") (simp_all add: day_tokens_def q_hget_fields parse_show_int holds_tokens_def)
  ultimately show ?thesis by blast
qed

lemma holds_tokens_count: "holds_tokens ops today team r n r' \<Longrightarrow> day_tokens ops today r' team = n"
  by (simp add: holds_tokens_def day_tokens_def q_hget_fields parse_show_int)

lemma holds_tokens_float:
  assumes "quota_redis_laws ops" and "holds_tokens ops today team r n r'"
    and "q_hincrbyfloat ops (usage_key team) ''spend_usd'' x r' = (v, r'')"
  shows "holds_tokens ops today team r n r''"
  using assms(2) hincrbyfloat_rule [OF assms(1,3)] by (auto simp: holds_tokens_def)

lemma holds_tokens_writes:
  assumes "quota_redis_laws ops" and "holds_tokens ops today team r n r'"
  shows "holds_tokens ops today team r n (q_expire ops k s r')"
    and "holds_tokens ops today team r n (q_hset ops (usage_key team) ''spend_usd'' v r')"
    and "holds_tokens ops today team r m (q_hset ops (usage_key team) ''tokens'' (show_int m) r')"
  using assms(2) by (simp_all add: holds_tokens_def quota_rules [OF assms(1)])

lemma new_day_holds:
  assumes "quota_redis_laws ops" and "tokens_good ops today r" and "q_fields ops r' = q_fields ops r"
  shows "holds_tokens ops today team r (day_tokens ops today r team) (new_day ops (usage_key team) today r')"
proof (cases "q_fields ops r (usage_key team) ''day'' = Some today")
  case True
  with assms(2) obtain n where "q_fields ops r (usage_key team) ''tokens'' = Some (show_int n)"
    by (auto simp: tokens_good_def)
  with True assms(3) show ?thesis
    by (simp add: new_day_def holds_tokens_def day_tokens_def q_hget_fields parse_show_int)
next
  case False
  with assms(3) show ?thesis
    by (simp add: new_day_def holds_tokens_def day_tokens_def q_hget_fields quota_rules [OF assms(1)] show_zero)
qed

lemma holds_tokens_incr:
  assumes "quota_redis_laws ops" and "holds_tokens ops today team r n r'"
    and "q_hincrby ops (usage_key team) ''tokens'' d r' = (Some v, r'')"
  shows "v = n + d" "holds_tokens ops today team r (n + d) r''"
proof -
  have "q_fields ops r' (usage_key team) ''tokens'' = Some (show_int n)" using assms(2) by (simp add: holds_tokens_def)
  from hincrby_rule [OF assms(1) this assms(3)] assms(2)
  show "v = n + d" "holds_tokens ops today team r (n + d) r''" by (simp_all add: holds_tokens_def)
qed

lemma day_tokens_bounds:
  "tokens_good ops today r \<Longrightarrow> 0 \<le> day_tokens ops today r team \<and> day_tokens ops today r team < lua_exact"
  by (auto simp: tokens_good_def day_tokens_def q_hget_fields parse_show_int lua_exact_def)

lemma reserve_script_tokens:
  assumes "quota_redis_laws ops" and "tokens_good ops today r"
    and "quota_reserve_lua ops zk (usage_key team) now w m d today x r = (Inr v, r')"
  shows "holds_tokens ops today team r (day_tokens ops today r team + d) r'
    \<and> (\<exists>rpm s. v = [RInt rpm, RInt (day_tokens ops today r team + d), RText s])"
proof -
  let ?r = "q_pexpire ops zk ((w + 1) * 1000) (q_zadd ops zk now m (q_zrem_upto ops zk (now - w) r))"
  have "q_fields ops ?r = q_fields ops r" by (simp add: quota_rules [OF assms(1)])
  note held = new_day_holds [OF assms(1,2) this]
  from assms(3) obtain t r1 s r2 where
    "q_hincrby ops (usage_key team) ''tokens'' d (new_day ops (usage_key team) today ?r) = (Some t, r1)"
    and "q_hincrbyfloat ops (usage_key team) ''spend_usd'' x r1 = (Some s, r2)"
    and "r' = q_expire ops (usage_key team) 172800 r2" "\<exists>rpm. v = [RInt rpm, RInt t, RText s]"
    by (auto simp: quota_reserve_lua_def Let_def split: prod.splits option.splits)
  with holds_tokens_incr [OF assms(1) held] show ?thesis
    using holds_tokens_float [OF assms(1)] holds_tokens_writes(1) [OF assms(1)] by metis
qed

lemma refund_script_tokens:
  assumes "quota_redis_laws ops" and "tokens_good ops today r" and "0 \<le> d"
    and "quota_refund_lua ops zk (usage_key team) m d today x r = (Inr v, r')"
  shows "if q_fields ops r (usage_key team) ''day'' = Some today
    then holds_tokens ops today team r (max 0 (day_tokens ops today r team - d)) r' else q_fields ops r' = q_fields ops r"
proof (cases "q_fields ops r (usage_key team) ''day'' = Some today")
  case True
  let ?r = "q_zrem ops zk m r" and ?n = "day_tokens ops today r team"
  have same: "q_fields ops ?r = q_fields ops r" by (simp add: quota_rules [OF assms(1)])
  have held: "holds_tokens ops today team r ?n ?r"
    using new_day_holds [OF assms(1,2) same, of team] True by (simp add: new_day_def q_hget_fields same)
  note b = day_tokens_bounds [OF assms(2), of team]
  have shown: "counter_or_zero ops (usage_key team) ''tokens'' ?r = Some (of_int ?n)"
    using held lua_number_rule(1) [OF assms(1), of ?n] b
    by (simp add: counter_or_zero_def q_hget_fields holds_tokens_def)
  have "- lua_exact < max 0 (?n - d)" "max 0 (?n - d) < lua_exact" using b assms(3) by (simp_all add: lua_exact_def)
  moreover have "max 0 (of_int ?n - of_int d) = (of_int (max 0 (?n - d)) :: rat)" by (simp add: of_int_max)
  ultimately have "lua_tostring ops (max 0 (of_int ?n - of_int d)) = show_int (max 0 (?n - d))"
    by (metis lua_number_rule(2) [OF assms(1)])
  with assms(4) True shown obtain s where
    "r' = q_hset ops (usage_key team) ''spend_usd'' s (q_hset ops (usage_key team) ''tokens'' (show_int (max 0 (?n - d))) ?r)"
    by (auto simp: quota_refund_lua_def Let_def q_hget_fields same split: option.splits)
  with held True show ?thesis by (auto intro: holds_tokens_writes [OF assms(1)])
next
  case False
  with assms(4) show ?thesis by (auto simp: quota_refund_lua_def Let_def q_hget_fields quota_rules [OF assms(1)])
qed

lemma reconcile_script_tokens:
  assumes "quota_redis_laws ops" and "tokens_good ops today r"
    and "quota_reconcile_lua ops (usage_key team) d today x r = (Inr v, r')"
  shows "holds_tokens ops today team r (max 0 (day_tokens ops today r team + d)) r'
    \<and> (\<exists>s. v = [RInt (max 0 (day_tokens ops today r team + d)), RText s])"
proof -
  note held = new_day_holds [OF assms(1,2) refl]
  let ?uk = "usage_key team" and ?n = "day_tokens ops today r team"
  obtain t r1 where t: "q_hincrby ops ?uk ''tokens'' d (new_day ops ?uk today r) = (Some t, r1)"
    using assms(3) by (auto simp: quota_reconcile_lua_def split: prod.splits option.splits)
  note i = holds_tokens_incr [OF assms(1) held t]
  let ?r2 = "if t < 0 then q_hset ops ?uk ''tokens'' ''0'' r1 else r1"
  have r2: "holds_tokens ops today team r (max 0 (?n + d)) ?r2"
    using i holds_tokens_writes(3) [OF assms(1) i(2), of 0] by (simp add: show_zero max_def)
  obtain s r3 where s: "q_hincrbyfloat ops ?uk ''spend_usd'' x ?r2 = (Some s, r3)"
    and v: "\<exists>s. v = [RInt (max 0 t), RText s]" "r' = q_expire ops ?uk 172800 r3
      \<or> r' = q_expire ops ?uk 172800 (q_hset ops ?uk ''spend_usd'' ''0'' r3)"
    using assms(3) t by (auto simp: quota_reconcile_lua_def Let_def split: prod.splits option.splits if_splits)
  note r3 = holds_tokens_float [OF assms(1) r2 s]
  with v i(1) show ?thesis by (auto intro!: holds_tokens_writes [OF assms(1)])
qed

subsection \<open>The counters of the fleet and the ledger\<close>

text \<open>
  A move is a call of some replica, with whatever handles it has loaded. A call that raised moves the
  ledger when its script ran to its end and only the answer was lost; when it left Redis as it was,
  it is a look. The counter a move leaves is one a Lua number prints exactly.
\<close>

definition reserve_ran :: "('r, 'm) quota_redis_scheme \<Rightarrow> string \<Rightarrow> rat \<Rightarrow> QuotaReservation \<Rightarrow> 'r quota_script" where
  "reserve_ran ops today now q = quota_reserve_lua ops (rpm_key (qr_team q)) (usage_key (qr_team q)) now WINDOW_SECONDS
     (qr_member q) (reserved_tokens q) today (reserved_spend q)"

definition refund_ran :: "('r, 'm) quota_redis_scheme \<Rightarrow> string \<Rightarrow> QuotaReservation \<Rightarrow> 'r quota_script" where
  "refund_ran ops today q = quota_refund_lua ops (rpm_key (qr_team q)) (usage_key (qr_team q)) (qr_member q) (reserved_tokens q)
     today (reserved_spend q)"

definition reconcile_ran :: "('r, 'm) quota_redis_scheme \<Rightarrow> string \<Rightarrow> QuotaReservation \<Rightarrow> int \<Rightarrow> rat \<Rightarrow> 'r quota_script" where
  "reconcile_ran ops today q k x =
     quota_reconcile_lua ops (usage_key (qr_team q)) (k - reserved_tokens q) today (x - reserved_spend q)"

fun redis_move ::
  "('r, 'm) quota_redis_scheme \<Rightarrow> ('r, 'c) quota_connection_scheme \<Rightarrow> string \<Rightarrow> 'r \<Rightarrow> ledger_move \<Rightarrow> 'r \<Rightarrow> bool" where
  "redis_move ops c today r (Opened q) r' =
     (\<exists>h h' now uuid team i out x mid res. redis_reserve ops c now today uuid team i out x mid (h, r) = (res, h', r')
        \<and> (case res of
             Inr p \<Rightarrow> p = q \<and> qr_tokens_today q < lua_exact
           | Inl e \<Rightarrow> qr_team q = team \<and> reserved_tokens q = i + out \<and> (\<exists>v. reserve_ran ops today now q r = (Inr v, r'))
               \<and> day_tokens ops today r' team < lua_exact))"
| "redis_move ops c today r (Refunded q) r' =
     (\<exists>h h' res. redis_refund ops c today q (h, r) = (res, h', r')
        \<and> (case res of None \<Rightarrow> True | Some e \<Rightarrow> (\<exists>v. refund_ran ops today q r = (Inr v, r'))))"
| "redis_move ops c today r (Reconciled q k x) r' =
     (\<exists>h h' i out res. k = i + out \<and> redis_reconcile ops c today q i out x (h, r) = (res, h', r')
        \<and> (case res of
             Inr (t, s) \<Rightarrow> t < lua_exact
           | Inl e \<Rightarrow> (\<exists>v. reconcile_ran ops today q k x r = (Inr v, r')) \<and> day_tokens ops today r' (qr_team q) < lua_exact))"
| "redis_move ops c today r Looked r' = (r' = r \<or> (\<exists>now team res. redis_usage_snapshot ops c now today team r = (res, r')))"

text \<open>A call that raised left Redis as it was or as its script left it: it is a look or its move.\<close>

lemma quota_eval_lost:
  assumes "quota_connection_laws c" and "quota_eval c a script (h, r) = (Inl e, h', r')"
  shows "r' = r \<or> r' = snd (script r)"
proof -
  have law: "case qc_evalsha c sha script q of
        (Inr v, r') \<Rightarrow> script q = (Inr v, r')
      | (Inl e, r') \<Rightarrow> r' = q \<or> (r' = snd (script q) \<and> \<not> contains ''NOSCRIPT'' (map upper_char e))" for sha q
    using assms(1) by (simp add: quota_connection_laws_def)
  obtain o1 h1 where h1: "ensure_scripts c r [ReserveSha, RefundSha, ReconcileSha] h = (o1, h1)" by fastforce
  obtain x r1 where e: "qc_evalsha c (case h1 a of Some sha \<Rightarrow> sha | None \<Rightarrow> []) script r = (x, r1)" by fastforce
  note l1 = law [where sha = "case h1 a of Some sha \<Rightarrow> sha | None \<Rightarrow> []" and q = r]
  show ?thesis
  proof (cases "o1 = None \<and> (\<exists>t. x = Inl t \<and> contains ''NOSCRIPT'' (map upper_char t))")
    case True
    with l1 e have "r1 = r" by auto
    with True assms(2) h1 e obtain sha where "r' = r \<or> qc_evalsha c sha script r = (Inl e, r')"
      by (auto simp: quota_eval_def split: sum.splits prod.splits)
    with law [where sha = sha and q = r] show ?thesis by auto
  next
    case False
    with assms(2) h1 e l1 show ?thesis
      by (auto simp: quota_eval_def split: sum.splits prod.splits option.splits if_splits)
  qed
qed

lemma reserve_lost:
  assumes "quota_connection_laws c" and "redis_reserve ops c now today uuid team i out x mid (h, r) = (Inl e, h', r')"
    and "q = \<lparr>qr_team = team, qr_member = (case mid of Some m \<Rightarrow> if m \<noteq> [] then m else uuid | None \<Rightarrow> uuid),
      reserved_tokens = i + out, reserved_spend = x, requests_last_minute = m0, qr_tokens_today = n0, month_to_date = s0\<rparr>"
    and "reserve_ran ops today now q r = (Inr v, s)" and "day_tokens ops today s team < lua_exact"
  shows "redis_move ops c today r Looked r' \<or> redis_move ops c today r (Opened q) r'"
proof -
  obtain res where e: "quota_eval c ReserveSha (reserve_ran ops today now q) (h, r) = (res, h', r')"
    using assms(2) unfolding redis_reserve_def reserve_ran_def assms(3) Let_def
    by (simp split: prod.splits sum.splits list.splits option.splits)
  have "r' = r \<or> r' = s"
    using quota_eval_lost [OF assms(1)] quota_eval_runs [OF assms(1)] e assms(4) by (cases res) fastforce+
  moreover have "redis_move ops c today r (Opened q) s" if "r' = s"
    using assms(2,4,5) that by (fastforce simp: assms(3))
  ultimately show ?thesis by auto
qed

lemma refund_lost:
  assumes "quota_connection_laws c" and "redis_refund ops c today q (h, r) = (Some e, h', r')"
    and "refund_ran ops today q r = (Inr v, s)"
  shows "redis_move ops c today r Looked r' \<or> redis_move ops c today r (Refunded q) r'"
proof -
  have e: "quota_eval c RefundSha (refund_ran ops today q) (h, r) = (Inl e, h', r')"
    using assms(2) unfolding redis_refund_def refund_ran_def by (auto split: prod.splits sum.splits)
  from quota_eval_lost [OF assms(1) e] assms(2,3) show ?thesis by fastforce
qed

lemma reconcile_lost:
  assumes "quota_connection_laws c" and "redis_reconcile ops c today q i out x (h, r) = (Inl e, h', r')"
    and "reconcile_ran ops today q (i + out) x r = (Inr v, s)" and "day_tokens ops today s (qr_team q) < lua_exact"
  shows "redis_move ops c today r Looked r' \<or> redis_move ops c today r (Reconciled q (i + out) x) r'"
proof -
  obtain res where e: "quota_eval c ReconcileSha (reconcile_ran ops today q (i + out) x) (h, r) = (res, h', r')"
    using assms(2) unfolding redis_reconcile_def reconcile_ran_def Let_def
    by (auto split: prod.splits sum.splits list.splits option.splits)
  have "r' = r \<or> r' = s"
    using quota_eval_lost [OF assms(1)] quota_eval_runs [OF assms(1)] e assms(3) by (cases res) fastforce+
  moreover have "redis_move ops c today r (Reconciled q (i + out) x) s" if "r' = s"
    using assms(2-4) that by fastforce
  ultimately show ?thesis by auto
qed

lemma reserve_runs:
  assumes "quota_connection_laws c" and "redis_reserve ops c now today uuid team i out x mid (h, r) = (Inr q, h', r')"
  obtains a b v n where "quota_reserve_lua ops (rpm_key (qr_team q)) (usage_key (qr_team q)) now WINDOW_SECONDS (qr_member q)
      (reserved_tokens q) today (reserved_spend q) r = (Inr (a # b # v), r')"
    and "reply_int a = Some n" "requests_last_minute q = nat n" "reply_int b = Some (qr_tokens_today q)"
    and "qr_team q = team" "reserved_tokens q = i + out" "reserved_spend q = x"
proof -
  let ?mid = "case mid of Some m \<Rightarrow> if m \<noteq> [] then m else uuid | None \<Rightarrow> uuid"
  let ?script = "quota_reserve_lua ops (rpm_key team) (usage_key team) now WINDOW_SECONDS ?mid (i + out) today x"
  obtain a b v where e: "quota_eval c ReserveSha ?script (h, r) = (Inr (a # b # v), h', r')"
    and q: "\<exists>n. reply_int a = Some n \<and> requests_last_minute q = nat n" "reply_int b = Some (qr_tokens_today q)"
      "qr_team q = team" "reserved_tokens q = i + out" "reserved_spend q = x" "qr_member q = ?mid"
    using assms(2) unfolding redis_reserve_def Let_def
    by (simp split: prod.splits sum.splits list.splits option.splits) auto
  show thesis using quota_eval_runs [OF assms(1) e] q that by auto
qed

lemma refund_runs:
  assumes "quota_connection_laws c" and "redis_refund ops c today q (h, r) = (None, h', r')"
  shows "\<exists>v. quota_refund_lua ops (rpm_key (qr_team q)) (usage_key (qr_team q)) (qr_member q) (reserved_tokens q) today
      (reserved_spend q) r = (Inr v, r')"
proof -
  let ?script = "quota_refund_lua ops (rpm_key (qr_team q)) (usage_key (qr_team q)) (qr_member q) (reserved_tokens q) today (reserved_spend q)"
  obtain v where "quota_eval c RefundSha ?script (h, r) = (Inr v, h', r')"
    using assms(2) unfolding redis_refund_def by (auto split: prod.splits sum.splits)
  from quota_eval_runs [OF assms(1) this] show ?thesis by blast
qed

lemma reconcile_runs:
  assumes "quota_connection_laws c" and "redis_reconcile ops c today q i out x (h, r) = (Inr (t, s), h', r')"
  obtains a v where "quota_reconcile_lua ops (usage_key (qr_team q)) (i + out - reserved_tokens q) today (x - reserved_spend q) r
      = (Inr (a # v), r')" "reply_int a = Some t"
proof -
  let ?script = "quota_reconcile_lua ops (usage_key (qr_team q)) (i + out - reserved_tokens q) today (x - reserved_spend q)"
  obtain a v where e: "quota_eval c ReconcileSha ?script (h, r) = (Inr (a # v), h', r')" and "reply_int a = Some t"
    using assms(2) unfolding redis_reconcile_def Let_def
    by (auto split: prod.splits sum.splits list.splits option.splits)
  with quota_eval_runs [OF assms(1) e] that show thesis by blast
qed

lemma snapshot_keeps:
  assumes "quota_redis_laws ops" and "quota_connection_laws c" and "redis_usage_snapshot ops c now today team r = (res, r')"
  shows "q_fields ops r' = q_fields ops r"
    and "res = Inr (n, t) \<Longrightarrow> tokens_good ops today r \<Longrightarrow> today \<noteq> [] \<Longrightarrow> t = day_tokens ops today r team"
proof -
  have law: "case qc_send c f q of (None, r') \<Rightarrow> r' = f q | (Some e, r') \<Rightarrow> r' = q \<or> r' = f q" for f q
    using assms(2) by (simp add: quota_connection_laws_def)
  let ?f = "q_zrem_upto ops (rpm_key team) (now - WINDOW_SECONDS)"
  have keep: "q_fields ops (?f q) = q_fields ops q" for q by (simp add: quota_rules [OF assms(1)])
  have one: "q_fields ops (snd (qc_send c ?f q)) = q_fields ops q" and two: "snd (qc_send c (\<lambda>r. r) q) = q" for q
    using law [of ?f q] law [of "\<lambda>r. r" q] keep by (auto split: prod.splits option.splits)
  obtain x r1 where x: "qc_send c ?f r = (x, r1)" by fastforce
  obtain y where y: "qc_send c (\<lambda>r. r) r1 = (y, r1)" using two [of r1] by (metis prod.collapse)
  have "r' = r1"
    using assms(3) x y unfolding redis_usage_snapshot_def by (auto simp: Let_def split: option.splits if_splits)
  with one [of r] x show fields: "q_fields ops r' = q_fields ops r" by simp
  show "t = day_tokens ops today r team" if "res = Inr (n, t)" "tokens_good ops today r" "today \<noteq> []"
  proof -
    let ?st = "q_hgetall ops (usage_key team) r'"
    have get: "dict_get ?st f = q_hget ops (usage_key team) f r" for f
      by (simp add: quota_rules [OF assms(1)] q_hget_fields fields)
    have t: "if ?st = [] then t = 0
      else (\<exists>k. number_of parse_int 0 ?st ''tokens'' = Some k \<and> t = (if day_of ?st \<noteq> today then 0 else k))"
      using assms(3) that(1) x y unfolding redis_usage_snapshot_def by (auto simp: Let_def split: option.splits if_splits)
    show ?thesis
    proof (cases "q_hget ops (usage_key team) ''day'' r = Some today")
      case True
      with that(2) obtain k where "q_hget ops (usage_key team) ''tokens'' r = Some (show_int k)"
        by (auto simp: tokens_good_def q_hget_fields)
      moreover from True get [of "''day''"] have "?st \<noteq> []" by auto
      ultimately show ?thesis
        using t True by (simp add: get number_of_def day_of_def day_tokens_def parse_show_int show_int_nonempty split: if_splits)
    next
      case False
      with that(3) get [of "''day''"] have "day_of ?st \<noteq> today" by (auto simp: day_of_def split: option.splits)
      with t False show ?thesis by (simp add: day_tokens_def split: if_splits)
    qed
  qed
qed

lemma redis_opened:
  assumes "quota_redis_laws ops" and "quota_connection_laws c" and "tokens_good ops today r" and "0 \<le> reserved_tokens q"
    and "redis_move ops c today r (Opened q) r'"
  shows "tokens_good ops today r'
    \<and> day_tokens ops today r' = (day_tokens ops today r)(qr_team q := day_tokens ops today r (qr_team q) + reserved_tokens q)"
proof -
  let ?n = "day_tokens ops today r (qr_team q) + reserved_tokens q"
  from assms(5) obtain h h' now uuid team i out x mid res
    where e: "redis_reserve ops c now today uuid team i out x mid (h, r) = (res, h', r')"
      and res: "case res of Inr p \<Rightarrow> p = q \<and> qr_tokens_today q < lua_exact
        | Inl e \<Rightarrow> qr_team q = team \<and> reserved_tokens q = i + out \<and> (\<exists>v. reserve_ran ops today now q r = (Inr v, r'))
            \<and> day_tokens ops today r' team < lua_exact"
    by auto
  have "holds_tokens ops today (qr_team q) r ?n r' \<and> ?n < lua_exact"
  proof (cases res)
    case (Inr p)
    with e res have e: "redis_reserve ops c now today uuid team i out x mid (h, r) = (Inr q, h', r')" by simp
    obtain a b v where s: "reserve_ran ops today now q r = (Inr (a # b # v), r')" and "reply_int b = Some (qr_tokens_today q)"
      by (rule reserve_runs [OF assms(2) e]) (auto simp: reserve_ran_def)
    with reserve_script_tokens [OF assms(1,3) s [unfolded reserve_ran_def]] Inr res show ?thesis by simp
  next
    case (Inl f)
    with res obtain v where s: "reserve_ran ops today now q r = (Inr v, r')" and small: "day_tokens ops today r' (qr_team q) < lua_exact"
      by auto
    from reserve_script_tokens [OF assms(1,3) s [unfolded reserve_ran_def]] have "holds_tokens ops today (qr_team q) r ?n r'" by blast
    with small show ?thesis by (simp add: holds_tokens_count)
  qed
  with day_tokens_bounds [OF assms(3), of "qr_team q"] assms(4) show ?thesis
    by (intro holds_tokens_good [OF assms(3)]) auto
qed

lemma redis_refunded:
  assumes "quota_redis_laws ops" and "quota_connection_laws c" and "tokens_good ops today r" and "0 \<le> reserved_tokens q"
    and "redis_move ops c today r (Refunded q) r'"
  shows "tokens_good ops today r' \<and> day_tokens ops today r'
    = (day_tokens ops today r)(qr_team q := max 0 (day_tokens ops today r (qr_team q) - reserved_tokens q))"
proof -
  from assms(5) obtain h h' res where e: "redis_refund ops c today q (h, r) = (res, h', r')"
    and res: "case res of None \<Rightarrow> True | Some e \<Rightarrow> (\<exists>v. refund_ran ops today q r = (Inr v, r'))" by auto
  obtain v where s: "refund_ran ops today q r = (Inr v, r')"
    using refund_runs [OF assms(2), of ops today q h r h' r'] e res unfolding refund_ran_def by (cases res) auto
  note script = refund_script_tokens [OF assms(1,3,4) s [unfolded refund_ran_def]] and b = day_tokens_bounds [OF assms(3), of "qr_team q"]
  show ?thesis
  proof (cases "q_fields ops r (usage_key (qr_team q)) ''day'' = Some today")
    case True
    with script b assms(4) show ?thesis by (intro holds_tokens_good [OF assms(3)]) auto
  next
    case False
    with script have "q_fields ops r' = q_fields ops r" by simp
    then have "day_tokens ops today r' = day_tokens ops today r" "tokens_good ops today r'"
      using assms(3) by (simp_all add: day_tokens_def q_hget_fields tokens_good_def fun_eq_iff)
    moreover have "day_tokens ops today r (qr_team q) = 0" using False by (simp add: day_tokens_def q_hget_fields)
    ultimately show ?thesis using assms(4) by (auto simp: fun_eq_iff)
  qed
qed

lemma redis_reconciled:
  assumes "quota_redis_laws ops" and "quota_connection_laws c" and "tokens_good ops today r"
    and "redis_move ops c today r (Reconciled q k x) r'"
  shows "tokens_good ops today r' \<and> day_tokens ops today r'
    = (day_tokens ops today r)(qr_team q := max 0 (day_tokens ops today r (qr_team q) + (k - reserved_tokens q)))"
proof -
  let ?n = "max 0 (day_tokens ops today r (qr_team q) + (k - reserved_tokens q))"
  from assms(4) obtain h h' i out res where k: "k = i + out"
    and e: "redis_reconcile ops c today q i out x (h, r) = (res, h', r')"
    and res: "case res of Inr (t, s) \<Rightarrow> t < lua_exact
      | Inl e \<Rightarrow> (\<exists>v. reconcile_ran ops today q k x r = (Inr v, r')) \<and> day_tokens ops today r' (qr_team q) < lua_exact" by auto
  have "holds_tokens ops today (qr_team q) r ?n r' \<and> ?n < lua_exact"
  proof (cases res)
    case (Inr p)
    then obtain t s where p: "res = Inr (t, s)" by (cases p) simp
    obtain a v where s: "reconcile_ran ops today q k x r = (Inr (a # v), r')" and "reply_int a = Some t"
      by (rule reconcile_runs [OF assms(2) e [unfolded p]]) (auto simp: reconcile_ran_def k)
    with reconcile_script_tokens [OF assms(1,3) s [unfolded reconcile_ran_def]] p res show ?thesis by simp
  next
    case (Inl f)
    with res obtain v where s: "reconcile_ran ops today q k x r = (Inr v, r')" and small: "day_tokens ops today r' (qr_team q) < lua_exact"
      by auto
    from reconcile_script_tokens [OF assms(1,3) s [unfolded reconcile_ran_def]] have "holds_tokens ops today (qr_team q) r ?n r'" by blast
    with small show ?thesis by (simp add: holds_tokens_count)
  qed
  then show ?thesis by (intro holds_tokens_good [OF assms(3)]) auto
qed

interpretation fleet: day_counter "day_tokens ops today" reserved_tokens "\<lambda>k x. k" charged_tokens
    "redis_move ops c today" "\<lambda>r. quota_redis_laws ops \<and> quota_connection_laws c \<and> tokens_good ops today r" for ops c today
proof (unfold_locales, goal_cases)
  case (1 r q r' l)
  then have "0 \<le> reserved_tokens q" by simp
  with 1 show ?case using redis_opened [of ops c today r q r'] by (simp del: redis_move.simps)
next
  case (2 r q r' l)
  then show ?case using redis_refunded [of ops c today r q r'] by (simp del: redis_move.simps)
next
  case (3 r q k x r')
  then show ?case using redis_reconciled [of ops c today r q k x r'] by (simp del: redis_move.simps)
next
  case (4 r r')
  then have "r' = r \<or> (\<exists>now team res. redis_usage_snapshot ops c now today team r = (res, r'))" by simp
  with 4(1) snapshot_keeps(1) [of ops c _ today _ r _ r'] have "q_fields ops r' = q_fields ops r" by blast
  with 4(1) show ?case by (simp add: day_tokens_def q_hget_fields tokens_good_def fun_eq_iff)
qed (auto simp: close_reservation_def charge_team_def empty_ledger_def ledger_ok_def)

text \<open>
  C26: Whatever replicas reserve, refund and reconcile for whatever teams within one UTC day, as long as
  no counter reaches \<open>10^14\<close> and no script aborts, the token count a snapshot reads from Redis for a team
  is exactly the actual tokens of its reconciled requests plus the estimates of its reservations still
  open, whatever Redis held of other days. Calls that raised are included: one whose script ran to its end
  and only lost its answer counts as made, one that left Redis as it was counts as not made. What calls on
  either side of midnight do, and the spend counter, which is binary floating point in the code, are not
  claimed.
\<close>

theorem fleet_quota_is_exact:
  assumes "quota_redis_laws ops" and "quota_connection_laws c" and "today \<noteq> []"
    and "\<forall>team. q_hget ops (usage_key team) ''day'' r0 \<noteq> Some today"
    and "ledger_run (redis_move ops c today) r0 r l"
    and "redis_usage_snapshot ops c now today team r = (Inr (rpm, n), r')"
  shows "n = charged_tokens l team + open_tokens l team"
proof -
  have start: "quota_redis_laws ops \<and> quota_connection_laws c \<and> tokens_good ops today r0" "day_tokens ops today r0 t = 0" for t
    using assms(1,2,4) by (simp_all add: tokens_good_def day_tokens_def q_hget_fields)
  note exact = fleet.counter_is_exact [OF assms(5) start]
  with snapshot_keeps(2) [OF assms(1,2,6) refl] assms(3) show ?thesis
    by (simp add: open_tokens_def open_sum_def)
qed

subsection \<open>A server for the witness\<close>

record demo_quota =
  dq_zsets :: "(string \<times> string, rat) dict"
  dq_hashes :: "(string \<times> string, string) dict"

definition empty_quota :: demo_quota where
  "empty_quota = \<lparr>dq_zsets = [], dq_hashes = [((''arp:sre:usage'', ''day''), ''2026-01-01''), ((''arp:sre:usage'', ''tokens''), ''77'')]\<rparr>"

definition dq_members :: "string \<Rightarrow> (rat \<Rightarrow> bool) \<Rightarrow> demo_quota \<Rightarrow> string list" where
  "dq_members k P r =
     filter (\<lambda>m. case dict_get (dq_zsets r) (k, m) of None \<Rightarrow> False | Some s \<Rightarrow> P s)
       (remdups (map (snd \<circ> fst) (dq_zsets r)))"

definition dq_set :: "string \<Rightarrow> string \<Rightarrow> string \<Rightarrow> demo_quota \<Rightarrow> demo_quota" where
  "dq_set k f v r = r\<lparr>dq_hashes := dict_set (k, f) v (dq_hashes r)\<rparr>"

definition dq_number :: "string \<Rightarrow> string \<Rightarrow> demo_quota \<Rightarrow> int option" where
  "dq_number k f r = (case dict_get (dq_hashes r) (k, f) of None \<Rightarrow> Some 0 | Some t \<Rightarrow> parse_int t)"

definition demo_quota_redis :: "demo_quota quota_redis" where
  "demo_quota_redis = \<lparr>
     q_score = (\<lambda>k m r. dict_get (dq_zsets r) (k, m)),
     q_card = (\<lambda>k r. length (dq_members k (\<lambda>_. True) r)),
     q_zadd = (\<lambda>k s m r. r\<lparr>dq_zsets := dict_set (k, m) s (dq_zsets r)\<rparr>),
     q_zrem = (\<lambda>k m r. r\<lparr>dq_zsets := dict_pop (k, m) (dq_zsets r)\<rparr>),
     q_zrem_upto = (\<lambda>k x r. r\<lparr>dq_zsets := fold (\<lambda>m. dict_pop (k, m)) (dq_members k (\<lambda>s. s \<le> x) r) (dq_zsets r)\<rparr>),
     q_hget = (\<lambda>k f r. dict_get (dq_hashes r) (k, f)),
     q_hset = dq_set,
     q_hgetall = (\<lambda>k r. map (\<lambda>((_, f), v). (f, v)) (filter (\<lambda>((k', _), _). k' = k) (dq_hashes r))),
     q_hincrby = (\<lambda>k f n r. case dq_number k f r of
          Some i \<Rightarrow> if int64 n \<and> int64 (i + n) then (Some (i + n), dq_set k f (show_int (i + n)) r) else (None, r)
        | None \<Rightarrow> (None, r)),
     q_hincrbyfloat = (\<lambda>k f x r. case dq_number k f r of
          Some i \<Rightarrow> (Some (show_int (i + \<lfloor>x\<rfloor>)), dq_set k f (show_int (i + \<lfloor>x\<rfloor>)) r)
        | None \<Rightarrow> (None, r)),
     q_pexpire = (\<lambda>k ms r. r), q_expire = (\<lambda>k s r. r),
     lua_tonumber = (\<lambda>t. map_option of_int (parse_int t)), lua_tostring = (\<lambda>x. show_int \<lfloor>x\<rfloor>),
     float_text = (\<lambda>t. map_option of_int (parse_int t))\<rparr>"

definition up_quota :: "demo_quota quota_connection" where
  "up_quota = \<lparr>qc_load = (\<lambda>_ _. Inr ''sha''), 
     qc_evalsha = (\<lambda>_ script r. case script r of (Inr v, r') \<Rightarrow> (Inr v, r') | (Inl e, r') \<Rightarrow> (Inl ''ERR'', r')),
     qc_send = (\<lambda>f r. (None, f r))\<rparr>"

lemma dq_members_set: "set (dq_members k P r) = {m. \<exists>s. dict_get (dq_zsets r) (k, m) = Some s \<and> P s}"
proof -
  have "m \<in> (snd \<circ> fst) ` set (dq_zsets r)" if "dict_get (dq_zsets r) (k, m) = Some s" for m s
    using map_of_SomeD [OF that] by (force simp: image_iff)
  then show ?thesis by (auto simp: dq_members_def split: option.splits)
qed

lemma dict_get_key_fields:
  "dict_get (map (\<lambda>((_, f), v). (f, v)) (filter (\<lambda>((k', _), _). k' = k) d)) f = dict_get d (k, f)"
  by (induction d) auto

lemma demo_quota_redis_laws: "quota_redis_laws demo_quota_redis"
proof -
  have d: "distinct (dq_members k P r)" for k P r by (simp add: dq_members_def)
  have n: "finite {m. \<exists>s. dict_get (dq_zsets r) (k, m) = Some s}"
    "card {m. \<exists>s. dict_get (dq_zsets r) (k, m) = Some s} = length (dq_members k (\<lambda>_. True) r)" for r k
    using dq_members_set [of k "\<lambda>_. True" r] distinct_card [OF d, of k "\<lambda>_. True" r]
    by (simp_all, metis List.finite_set)
  have c: "dom (q_scores demo_quota_redis r k) = {m. \<exists>s. dict_get (dq_zsets r) (k, m) = Some s}" for r k
    by (auto simp: q_scores_def demo_quota_redis_def)
  show ?thesis
    unfolding quota_redis_laws_def c
    by (auto simp: dq_members_set q_scores_def q_fields_def demo_quota_redis_def n fun_eq_iff dict_simps
        dict_get_fold_pop dict_get_key_fields drop_old_def dq_set_def dq_number_def parse_show_int split: option.splits)
qed

lemma up_quota_laws: "quota_connection_laws up_quota"
proof -
  have "\<not> contains ''NOSCRIPT'' (map upper_char ''ERR'')" by code_simp
  then show ?thesis by (simp add: quota_connection_laws_def up_quota_def split: prod.split sum.split)
qed

text \<open>One replica reserves for two teams, another reconciles the first; the count of the day before is gone.\<close>

definition no_handles :: handles where
  "no_handles = (\<lambda>_. None)"

definition demo_first :: "(string + QuotaReservation) \<times> handles \<times> demo_quota" where
  "demo_first = redis_reserve demo_quota_redis up_quota 1000 ''2026-01-02'' ''u1'' ''sre'' 100 50 2 None (no_handles, empty_quota)"

definition demo_second :: "(string + QuotaReservation) \<times> handles \<times> demo_quota" where
  "demo_second = redis_reserve demo_quota_redis up_quota 1001 ''2026-01-02'' ''u2'' ''ml'' 7 7 1 None (snd demo_first)"

definition reserved_of :: "(string + QuotaReservation) \<times> handles \<times> demo_quota \<Rightarrow> QuotaReservation" where
  "reserved_of x = (case fst x of Inr q \<Rightarrow> q | Inl e \<Rightarrow> \<lparr>qr_team = [], qr_member = [], reserved_tokens = 0, reserved_spend = 0,
     requests_last_minute = 0, qr_tokens_today = 0, month_to_date = 0\<rparr>)"

definition demo_third :: "(string + int \<times> rat) \<times> handles \<times> demo_quota" where
  "demo_third = redis_reconcile demo_quota_redis up_quota ''2026-01-02'' (reserved_of demo_first) 60 20 1 (no_handles, snd (snd demo_second))"

definition demo_ledger :: ledger where
  "demo_ledger = moved (Reconciled (reserved_of demo_first) 80 1)
     (moved (Opened (reserved_of demo_second)) (moved (Opened (reserved_of demo_first)) empty_ledger))"

lemma redis_moveI:
  "redis_reserve ops c now today uuid team i out x mid st = (Inr q, st') \<Longrightarrow> qr_tokens_today q < lua_exact \<Longrightarrow>
    redis_move ops c today (snd st) (Opened q) (snd st')"
  "redis_reconcile ops c today q i out x st = (Inr y, st') \<Longrightarrow> fst y < lua_exact \<Longrightarrow> k = i + out \<Longrightarrow>
    redis_move ops c today (snd st) (Reconciled q k x) (snd st')"
  by (cases st, cases st', fastforce) (cases st, cases st', cases y, fastforce)

lemma demo_fleet_run: "ledger_run (redis_move demo_quota_redis up_quota ''2026-01-02'') empty_quota (snd (snd demo_third)) demo_ledger"
proof -
  let ?step = "redis_move demo_quota_redis up_quota ''2026-01-02''"
  have ok: "\<not> isl (fst demo_first) \<and> \<not> isl (fst demo_second) \<and> \<not> isl (fst demo_third)"
    "qr_tokens_today (reserved_of demo_first) = 150 \<and> qr_tokens_today (reserved_of demo_second) = 14
      \<and> reserved_tokens (reserved_of demo_first) = 150 \<and> reserved_tokens (reserved_of demo_second) = 14
      \<and> reserved_spend (reserved_of demo_first) = 2 \<and> reserved_spend (reserved_of demo_second) = 1
      \<and> fst (projr (fst demo_third)) = 80"
    by code_simp+
  then have eqs: "demo_first = (Inr (reserved_of demo_first), snd demo_first)"
    "demo_second = (Inr (reserved_of demo_second), snd demo_second)"
    "demo_third = (Inr (projr (fst demo_third)), snd demo_third)"
    by (simp_all add: reserved_of_def prod_eq_iff split: sum.splits)
  have moves: "?step empty_quota (Opened (reserved_of demo_first)) (snd (snd demo_first))"
    "?step (snd (snd demo_first)) (Opened (reserved_of demo_second)) (snd (snd demo_second))"
    "?step (snd (snd demo_second)) (Reconciled (reserved_of demo_first) 80 1) (snd (snd demo_third))"
    using redis_moveI(1) [OF trans [OF demo_first_def [symmetric] eqs(1)]] redis_moveI(1) [OF trans [OF demo_second_def [symmetric] eqs(2)]]
      redis_moveI(2) [OF trans [OF demo_third_def [symmetric] eqs(3)]] ok(2) by (simp_all add: lua_exact_def del: redis_move.simps)
  show ?thesis
    unfolding demo_ledger_def
    by (intro ledger_run.move [where step = ?step, OF _ _ moves(3)] ledger_run.move [where step = ?step, OF _ _ moves(2)]
        ledger_run.move [where step = ?step, OF _ _ moves(1)] ledger_run.start) (use ok(2) in simp_all)
qed

theorem fleet_quota_is_exact_witness:
  "charged_tokens demo_ledger ''sre'' + open_tokens demo_ledger ''sre'' = 80"
proof -
  have days: "\<forall>team. q_hget demo_quota_redis (usage_key team) ''day'' empty_quota \<noteq> Some ''2026-01-02''"
    by (simp add: demo_quota_redis_def empty_quota_def)
  have look: "redis_usage_snapshot demo_quota_redis up_quota 1002 ''2026-01-02'' ''sre'' (snd (snd demo_third))
      = (Inr (1, 80), snd (redis_usage_snapshot demo_quota_redis up_quota 1002 ''2026-01-02'' ''sre'' (snd (snd demo_third))))"
    unfolding prod_eq_iff by code_simp
  show ?thesis
    using fleet_quota_is_exact [OF demo_quota_redis_laws up_quota_laws _ days demo_fleet_run look] by simp
qed

subsection \<open>After midnight\<close>

text \<open>
  A request reserved 150 tokens yesterday and used 80; reconciled today, after another request
  reserved 100, its difference is taken from today's count, which never held its estimate.
\<close>

definition demo_next_day :: "(string + QuotaReservation) \<times> handles \<times> demo_quota" where
  "demo_next_day = redis_reserve demo_quota_redis up_quota 90000 ''2026-01-03'' ''u3'' ''sre'' 60 40 1 None (snd demo_first)"

theorem reconcile_after_midnight_erases_usage:
  "qr_tokens_today (reserved_of demo_next_day) = 100
    \<and> fst (redis_reconcile demo_quota_redis up_quota ''2026-01-03'' (reserved_of demo_first) 60 20 2 (snd demo_next_day)) = Inr (30, 1)"
  by code_simp

text \<open>A refund on another day leaves every counter alone.\<close>

theorem refund_keeps_other_days:
  assumes "quota_redis_laws ops" and "q_hget ops uk ''day'' r \<noteq> Some today"
  shows "q_fields ops (snd (quota_refund_lua ops zk uk member d today x r)) = q_fields ops r"
  using assms(2) by (simp add: quota_refund_lua_def Let_def q_hget_fields quota_rules [OF assms(1)])

end
