(* ===== verification/Health_Redis.thy ===== *)
theory Health_Redis imports Health begin

text \<open>
  \<open>app/gateway/stores/health.py\<close>, the health signals the fleet shares: one Redis hash per model, a probe
  writes three fields of it, a recorded request reads all and writes six. Redis and the printing and
  parsing of floats are parameters; a command may raise. The store is the second provider of the
  interface \<open>health_store\<close> as long as Redis answers and requests are recorded one after the other.
  The probe loop of either store ends with the first exception.
\<close>

record 'r health_redis =
  hr_all :: "string \<Rightarrow> 'r \<Rightarrow> (string, string) dict"
  hr_read_error :: "string \<Rightarrow> 'r \<Rightarrow> string option"
  hr_set :: "string \<Rightarrow> (string \<times> string) list \<Rightarrow> 'r \<Rightarrow> string option \<times> 'r"
  float_repr :: "rat \<Rightarrow> string"
  float_parse :: "string \<Rightarrow> rat option"

subsection \<open>The store\<close>

definition health_key :: "string \<Rightarrow> string" where
  "health_key model = ''arp:health:'' @ model"

text \<open>\<open>data.get(key, 0)\<close> and \<open>data.get(key, 0) or 0\<close>, read as a number.\<close>

definition field_number :: "(string \<Rightarrow> 'n option) \<Rightarrow> 'n \<Rightarrow> (string, string) dict \<Rightarrow> string \<Rightarrow> 'n option" where
  "field_number read zero data key = (case dict_get data key of None \<Rightarrow> Some zero | Some t \<Rightarrow> read t)"

definition field_or_zero :: "(string \<Rightarrow> 'n option) \<Rightarrow> 'n \<Rightarrow> (string, string) dict \<Rightarrow> string \<Rightarrow> 'n option" where
  "field_or_zero read zero data key =
     (case dict_get data key of None \<Rightarrow> Some zero | Some t \<Rightarrow> if t = [] then Some zero else read t)"

definition field_latency :: "('r, 'm) health_redis_scheme \<Rightarrow> (string, string) dict \<Rightarrow> rat option option" where
  "field_latency ops data =
     (case dict_get data ''latency_ms'' of
        None \<Rightarrow> Some None | Some t \<Rightarrow> if t = [] then Some None else map_option Some (float_parse ops t))"

definition field_available :: "(string, string) dict \<Rightarrow> bool option" where
  "field_available data = map_option (\<lambda>v. v = ''1'') (dict_get data ''available'')"

definition decode_health :: "('r, 'm) health_redis_scheme \<Rightarrow> (string, string) dict \<Rightarrow> string + BackendHealth" where
  "decode_health ops data =
     (case (field_latency ops data, field_number parse_int 0 data ''request_count'',
            field_number parse_int 0 data ''error_count'', field_number parse_int 0 data ''fallback_count'') of
        (Some latency, Some requests, Some errors, Some fallbacks) \<Rightarrow>
          (case (field_or_zero (float_parse ops) 0 data ''ewma_error_rate'',
                 field_or_zero parse_int 0 data ''consecutive_failures'',
                 field_or_zero (float_parse ops) 0 data ''updated_at'') of
             (Some ewma, Some failures, Some updated) \<Rightarrow>
               Inr \<lparr>available = field_available data, latency_ms = latency, request_count = requests,
                    error_count = errors, fallback_count = fallbacks, ewma_error_rate = ewma,
                    consecutive_failures = failures, updated_at = updated\<rparr>
           | _ \<Rightarrow> Inl ''ValueError'')
      | _ \<Rightarrow> Inl ''ValueError'')"

definition redis_load :: "('r, 'm) health_redis_scheme \<Rightarrow> string \<Rightarrow> 'r \<Rightarrow> string + BackendHealth" where
  "redis_load ops model r =
     (case hr_read_error ops (health_key model) r of
        Some e \<Rightarrow> Inl e | None \<Rightarrow> decode_health ops (hr_all ops (health_key model) r))"

definition redis_store_probe ::
  "('r, 'm) health_redis_scheme \<Rightarrow> rat \<Rightarrow> string \<Rightarrow> bool \<Rightarrow> rat \<Rightarrow> 'r \<Rightarrow> string option \<times> 'r" where
  "redis_store_probe ops now model is_up latency r =
     hr_set ops (health_key model)
       [(''available'', if is_up then ''1'' else ''0''), (''latency_ms'', float_repr ops latency),
        (''updated_at'', float_repr ops now)] r"

text \<open>The second command of \<open>record_request\<close>; another replica may write between the two.\<close>

definition write_signal :: "('r, 'm) health_redis_scheme \<Rightarrow> string \<Rightarrow> BackendHealth \<Rightarrow> 'r \<Rightarrow> string option \<times> 'r" where
  "write_signal ops model h r =
     hr_set ops (health_key model)
       [(''request_count'', show_int (request_count h)), (''error_count'', show_int (error_count h)),
        (''fallback_count'', show_int (fallback_count h)), (''ewma_error_rate'', float_repr ops (ewma_error_rate h)),
        (''consecutive_failures'', show_int (consecutive_failures h)), (''updated_at'', float_repr ops (updated_at h))] r"

definition redis_record_signal ::
  "('r, 'm) health_redis_scheme \<Rightarrow> rat \<Rightarrow> string \<Rightarrow> bool \<Rightarrow> bool \<Rightarrow> 'r \<Rightarrow> string option \<times> 'r" where
  "redis_record_signal ops now model success fallback_used r =
     (case redis_load ops model r of
        Inl e \<Rightarrow> (Some e, r)
      | Inr h \<Rightarrow> write_signal ops model (apply_request_signal now success fallback_used h) r)"

subsection \<open>Probing\<close>

text \<open>What the client of a probe answers; only \<open>httpx.RequestError\<close> is caught.\<close>

datatype probe_answer = Responded bool | NoResponse | OtherError string

definition redis_probe ::
  "('r, 'm) health_redis_scheme \<Rightarrow> string \<Rightarrow> probe_answer \<Rightarrow> rat \<Rightarrow> rat \<Rightarrow> 'r \<Rightarrow> string option \<times> 'r" where
  "redis_probe ops model answer elapsed_s now r =
     (let write = (\<lambda>is_up. redis_store_probe ops now model is_up (round_to 2 (elapsed_s * 1000)) r) in
      case answer of Responded ok \<Rightarrow> write ok | NoResponse \<Rightarrow> write False | OtherError e \<Rightarrow> (Some e, r))"

type_synonym probe_round = "(string \<times> probe_answer \<times> rat \<times> rat) list"

text \<open>\<open>gather\<close>: every probe runs, the first exception is raised.\<close>

fun probe_all :: "('r, 'm) health_redis_scheme \<Rightarrow> probe_round \<Rightarrow> 'r \<Rightarrow> string option \<times> 'r" where
  "probe_all ops [] r = (None, r)"
| "probe_all ops ((model, answer, elapsed, now) # ps) r =
     (case redis_probe ops model answer elapsed now r of
        (e, r) \<Rightarrow> (case probe_all ops ps r of (e', r) \<Rightarrow> (if e = None then e' else e, r)))"

text \<open>The rounds of \<open>health_probe_loop\<close>: nothing catches an exception, so the task ends with it.\<close>

fun probe_loop :: "('r, 'm) health_redis_scheme \<Rightarrow> probe_round list \<Rightarrow> 'r \<Rightarrow> string option \<times> 'r" where
  "probe_loop ops [] r = (None, r)"
| "probe_loop ops (ps # rounds) r =
     (case probe_all ops ps r of (Some e, r) \<Rightarrow> (Some e, r) | (None, r) \<Rightarrow> probe_loop ops rounds r)"

datatype health_kind = RedisHealth | MemoryHealth

definition create_health_store :: "GatewaySettings \<Rightarrow> health_kind" where
  "create_health_store settings =
     (if redis_url settings \<noteq> None \<and> redis_url settings \<noteq> Some [] then RedisHealth else MemoryHealth)"

subsection \<open>Documented behaviour\<close>

text \<open>\<open>HSET\<close> with a mapping writes its fields; when the client raises, it ran or it did not. Floats print as their \<open>repr\<close>.\<close>

definition fields_after :: "(string \<Rightarrow> string \<Rightarrow> string option) \<Rightarrow> string \<Rightarrow> (string \<times> string) list \<Rightarrow> string \<Rightarrow> string \<Rightarrow> string option" where
  "fields_after before k fs = (\<lambda>k' f. if k' = k \<and> dict_get fs f \<noteq> None then dict_get fs f else before k' f)"

definition hr_fields :: "('r, 'm) health_redis_scheme \<Rightarrow> 'r \<Rightarrow> string \<Rightarrow> string \<Rightarrow> string option" where
  "hr_fields ops r = (\<lambda>k f. dict_get (hr_all ops k r) f)"

definition health_redis_laws :: "('r, 'm) health_redis_scheme \<Rightarrow> bool" where
  "health_redis_laws ops \<longleftrightarrow>
     (\<forall>k fs r. case hr_set ops k fs r of
        (None, r') \<Rightarrow> hr_fields ops r' = fields_after (hr_fields ops r) k fs
      | (Some e, r') \<Rightarrow> hr_fields ops r' = fields_after (hr_fields ops r) k fs \<or> hr_fields ops r' = hr_fields ops r)
     \<and> (\<forall>x. float_parse ops (float_repr ops x) = Some x \<and> float_repr ops x \<noteq> [])"

definition always_up :: "('r, 'm) health_redis_scheme \<Rightarrow> bool" where
  "always_up ops \<longleftrightarrow> (\<forall>k r. hr_read_error ops k r = None) \<and> (\<forall>k fs r. fst (hr_set ops k fs r) = None)"

definition health_hashes_ok :: "('r, 'm) health_redis_scheme \<Rightarrow> 'r \<Rightarrow> bool" where
  "health_hashes_ok ops r \<longleftrightarrow>
     health_redis_laws ops \<and> always_up ops \<and> (\<forall>m. \<exists>h. decode_health ops (hr_all ops (health_key m) r) = Inr h \<and> health_ok h)"

lemma health_key_inj [simp]: "health_key m = health_key m' \<longleftrightarrow> m = m'"
  by (simp add: health_key_def)

lemma hr_set_up:
  assumes "health_redis_laws ops" and "always_up ops"
  shows "fst (hr_set ops k fs r) = None"
    and "hr_fields ops (snd (hr_set ops k fs r)) = fields_after (hr_fields ops r) k fs"
proof -
  show a: "fst (hr_set ops k fs r) = None" using assms(2) by (simp add: always_up_def)
  have "case hr_set ops k fs r of
        (None, r') \<Rightarrow> hr_fields ops r' = fields_after (hr_fields ops r) k fs
      | (Some e, r') \<Rightarrow> hr_fields ops r' = fields_after (hr_fields ops r) k fs \<or> hr_fields ops r' = hr_fields ops r"
    using assms(1) by (simp add: health_redis_laws_def)
  with a show "hr_fields ops (snd (hr_set ops k fs r)) = fields_after (hr_fields ops r) k fs"
    by (cases "hr_set ops k fs r") simp
qed

lemma decode_Inr:
  "decode_health ops d = Inr h \<longleftrightarrow>
     field_latency ops d = Some (latency_ms h) \<and> field_available d = available h
     \<and> field_number parse_int 0 d ''request_count'' = Some (request_count h)
     \<and> field_number parse_int 0 d ''error_count'' = Some (error_count h)
     \<and> field_number parse_int 0 d ''fallback_count'' = Some (fallback_count h)
     \<and> field_or_zero (float_parse ops) 0 d ''ewma_error_rate'' = Some (ewma_error_rate h)
     \<and> field_or_zero parse_int 0 d ''consecutive_failures'' = Some (consecutive_failures h)
     \<and> field_or_zero (float_parse ops) 0 d ''updated_at'' = Some (updated_at h)"
  unfolding decode_health_def by (cases h) (auto split: option.splits prod.splits)

lemma after_write:
  "dict_get (hr_all ops k' r') f = fields_after (hr_fields ops r) k fs k' f" if "hr_fields ops r' = fields_after (hr_fields ops r) k fs"
  using that by (simp add: hr_fields_def fun_eq_iff)

lemma show_int_some: "show_int n \<noteq> []"
  using show_nat_digits by (simp add: show_int_def)

lemma decode_after_probe:
  assumes "health_redis_laws ops" and "decode_health ops (hr_all ops (health_key m) r) = Inr h"
    and "hr_fields ops r' = fields_after (hr_fields ops r) (health_key m)
      [(''available'', if a then ''1'' else ''0''), (''latency_ms'', float_repr ops l), (''updated_at'', float_repr ops now)]"
  shows "decode_health ops (hr_all ops (health_key m) r') = Inr (h\<lparr>available := Some a, latency_ms := Some l, updated_at := now\<rparr>)"
proof -
  have num: "float_parse ops (float_repr ops x) = Some x" "float_repr ops x \<noteq> []" for x
    using assms(1) by (simp_all add: health_redis_laws_def)
  show ?thesis
    using assms(2) num unfolding decode_Inr
    by (simp add: field_latency_def field_number_def field_or_zero_def field_available_def
        after_write [OF assms(3)] fields_after_def hr_fields_def)
qed

lemma decode_after_signal:
  assumes "health_redis_laws ops" and "decode_health ops (hr_all ops (health_key m) r) = Inr h"
    and "hr_fields ops r' = fields_after (hr_fields ops r) (health_key m)
      [(''request_count'', show_int (request_count h')), (''error_count'', show_int (error_count h')),
        (''fallback_count'', show_int (fallback_count h')), (''ewma_error_rate'', float_repr ops (ewma_error_rate h')),
        (''consecutive_failures'', show_int (consecutive_failures h')), (''updated_at'', float_repr ops (updated_at h'))]"
    and "available h' = available h" "latency_ms h' = latency_ms h"
  shows "decode_health ops (hr_all ops (health_key m) r') = Inr h'"
proof -
  have num: "float_parse ops (float_repr ops x) = Some x" "float_repr ops x \<noteq> []" for x
    using assms(1) by (simp_all add: health_redis_laws_def)
  show ?thesis
    using assms(2,4,5) num unfolding decode_Inr
    by (simp add: field_latency_def field_number_def field_or_zero_def field_available_def
        after_write [OF assms(3)] fields_after_def hr_fields_def parse_show_int show_int_some)
qed

lemma decode_other:
  assumes "hr_fields ops r' = fields_after (hr_fields ops r) (health_key m) fs" and "m' \<noteq> m"
  shows "decode_health ops (hr_all ops (health_key m') r') = decode_health ops (hr_all ops (health_key m') r)"
proof -
  have "dict_get (hr_all ops (health_key m') r') f = dict_get (hr_all ops (health_key m') r) f" for f
    using assms(2) by (simp add: after_write [OF assms(1)] fields_after_def hr_fields_def)
  then have "field_latency ops (hr_all ops (health_key m') r') = field_latency ops (hr_all ops (health_key m') r)"
    "field_available (hr_all ops (health_key m') r') = field_available (hr_all ops (health_key m') r)"
    "field_number p n (hr_all ops (health_key m') r') k = field_number p n (hr_all ops (health_key m') r) k"
    "field_or_zero q x (hr_all ops (health_key m') r') k = field_or_zero q x (hr_all ops (health_key m') r) k" for p n q x k
    by (simp_all add: field_latency_def field_number_def field_or_zero_def field_available_def)
  note fields = this
  show ?thesis unfolding decode_health_def fields ..
qed

lemma health_hashes_load:
  assumes "health_hashes_ok ops r"
  obtains h where "redis_load ops m r = Inr h" "decode_health ops (hr_all ops (health_key m) r) = Inr h" "health_ok h"
  using assms unfolding health_hashes_ok_def always_up_def redis_load_def by (metis option.simps(4))

lemma redis_load_decode: "always_up ops \<Longrightarrow> redis_load ops m r = decode_health ops (hr_all ops (health_key m) r)"
  by (simp add: redis_load_def always_up_def)

lemma probe_effect:
  assumes "health_hashes_ok ops r" and "redis_load ops m r = Inr h"
  shows "redis_load ops m' (snd (redis_store_probe ops now m a l r))
    = (if m' = m then Inr (h\<lparr>available := Some a, latency_ms := Some l, updated_at := now\<rparr>) else redis_load ops m' r)"
proof -
  have up: "health_redis_laws ops" "always_up ops" using assms(1) by (simp_all add: health_hashes_ok_def)
  note w = hr_set_up(2) [OF up, of "health_key m" _ r]
  show ?thesis
    using decode_after_probe [OF up(1) assms(2) [unfolded redis_load_decode [OF up(2)]] w] decode_other [OF w]
    by (simp add: redis_load_decode [OF up(2)] redis_store_probe_def)
qed

lemma record_effect:
  assumes "health_hashes_ok ops r" and "redis_load ops m r = Inr h"
  shows "redis_load ops m' (snd (redis_record_signal ops now m ok fb r))
    = (if m' = m then Inr (apply_request_signal now ok fb h) else redis_load ops m' r)"
proof -
  have up: "health_redis_laws ops" "always_up ops" using assms(1) by (simp_all add: health_hashes_ok_def)
  have kept: "available (apply_request_signal now ok fb h) = available h" "latency_ms (apply_request_signal now ok fb h) = latency_ms h"
    by (simp_all add: apply_request_signal_def Let_def)
  note w = hr_set_up(2) [OF up, of "health_key m" _ r]
  show ?thesis
    using decode_after_signal [OF up(1) assms(2) [unfolded redis_load_decode [OF up(2)]] w kept] decode_other [OF w]
    by (simp add: redis_load_decode [OF up(2)] redis_record_signal_def assms(2) [unfolded redis_load_decode [OF up(2)]] write_signal_def)
qed

lemma hashes_ok_I:
  assumes "health_hashes_ok ops r" and "health_ok h" and "redis_load ops m r' = Inr h"
    and "\<And>m'. m' \<noteq> m \<Longrightarrow> redis_load ops m' r' = redis_load ops m' r"
  shows "health_hashes_ok ops r'"
proof -
  have up: "health_redis_laws ops" "always_up ops" using assms(1) by (simp_all add: health_hashes_ok_def)
  have "\<exists>h. decode_health ops (hr_all ops (health_key m') r') = Inr h \<and> health_ok h" for m'
    using assms unfolding redis_load_decode [OF up(2)] health_hashes_ok_def by (cases "m' = m") fastforce+
  with up show ?thesis by (simp add: health_hashes_ok_def)
qed

interpretation redis_health: health_store
  "\<lambda>r m. proj new_health (redis_load ops m r)"
  "\<lambda>now m a l r. snd (redis_store_probe ops now m a l r)"
  "\<lambda>now m ok fb r. snd (redis_record_signal ops now m ok fb r)"
  "\<lambda>m. True" "health_hashes_ok ops" for ops
proof (unfold_locales, goal_cases)
  case (1 r m)
  obtain h where "redis_load ops m r = Inr h" "health_ok h" by (rule health_hashes_load [OF 1(1), of m])
  then show ?case by (simp add: proj_def)
next
  case (2 r m l now a)
  obtain h where h: "redis_load ops m r = Inr h" "health_ok h" by (rule health_hashes_load [OF 2(1), of m])
  have "health_ok (h\<lparr>available := Some a, latency_ms := Some l, updated_at := now\<rparr>)" using h(2) 2(3) by (simp add: health_ok_def)
  then show ?case by (rule hashes_ok_I [OF 2(1), of _ m]) (simp_all add: probe_effect [OF 2(1) h(1)])
next
  case (3 r m now ok fb)
  obtain h where h: "redis_load ops m r = Inr h" "health_ok h" by (rule health_hashes_load [OF 3(1), of m])
  from signal_ok [OF h(2)] show ?case
    by (rule hashes_ok_I [OF 3(1), of _ m]) (simp_all add: record_effect [OF 3(1) h(1)])
next
  case (4 r m m' now a l)
  obtain h where "redis_load ops m r = Inr h" by (rule health_hashes_load [OF 4(1), of m])
  then show ?case by (simp add: probe_effect [OF 4(1)] proj_def)
next
  case (5 r m m' now ok fb)
  obtain h where "redis_load ops m r = Inr h" by (rule health_hashes_load [OF 5(1), of m])
  then show ?case by (simp add: record_effect [OF 5(1)] proj_def)
qed

subsection \<open>Replicas recording at once\<close>

text \<open>
  Two replicas record a request of one model; both read before either writes. The second write
  replaces the first, so one of the two requests, and its failure, is never counted.
\<close>

theorem concurrent_records_lose_updates:
  assumes "health_hashes_ok ops r" and "redis_load ops m r = Inr h"
  shows "redis_load ops m (snd (write_signal ops m (apply_request_signal t2 ok2 fb2 h)
      (snd (write_signal ops m (apply_request_signal t1 ok1 fb1 h) r)))) = Inr (apply_request_signal t2 ok2 fb2 h)"
proof -
  have up: "health_redis_laws ops" "always_up ops" using assms(1) by (simp_all add: health_hashes_ok_def)
  note dec = assms(2) [unfolded redis_load_decode [OF up(2)]]
  have kept: "available (apply_request_signal t ok fb h) = available h" "latency_ms (apply_request_signal t ok fb h) = latency_ms h"
    for t ok fb by (simp_all add: apply_request_signal_def Let_def)
  let ?r1 = "snd (write_signal ops m (apply_request_signal t1 ok1 fb1 h) r)"
  note w1 = hr_set_up(2) [OF up, of "health_key m" _ r] and w2 = hr_set_up(2) [OF up, of "health_key m" _ ?r1]
  have d1: "decode_health ops (hr_all ops (health_key m) ?r1) = Inr (apply_request_signal t1 ok1 fb1 h)"
    unfolding write_signal_def by (rule decode_after_signal [OF up(1) dec w1 kept])
  show ?thesis
    unfolding redis_load_decode [OF up(2)]
    by (subst (1) write_signal_def, rule decode_after_signal [OF up(1) d1 w2]) (simp_all add: kept)
qed

subsection \<open>The end of probing\<close>

fun redis_records :: "('r, 'm) health_redis_scheme \<Rightarrow> (rat \<times> string \<times> bool \<times> bool) list \<Rightarrow> 'r \<Rightarrow> 'r" where
  "redis_records ops [] r = r"
| "redis_records ops ((now, m, ok, fb) # es) r = redis_records ops es (snd (redis_record_signal ops now m ok fb r))"

lemma probe_loop_append:
  "probe_loop ops (rounds @ later) r =
     (case probe_loop ops rounds r of (Some e, r) \<Rightarrow> (Some e, r) | (None, r) \<Rightarrow> probe_loop ops later r)"
  by (induction rounds arbitrary: r) (auto split: prod.splits option.splits)

lemma record_keeps_available:
  assumes "health_redis_laws ops"
  shows "hr_fields ops (snd (redis_record_signal ops now m' ok fb r)) k ''available'' = hr_fields ops r k ''available''"
proof (cases "redis_load ops m' r")
  case (Inr h)
  then obtain fs where fs: "redis_record_signal ops now m' ok fb r = hr_set ops (health_key m') fs r" "dict_get fs ''available'' = None"
    by (simp add: redis_record_signal_def write_signal_def)
  obtain x r' where x: "hr_set ops (health_key m') fs r = (x, r')" by fastforce
  have "case hr_set ops (health_key m') fs r of
        (None, r') \<Rightarrow> hr_fields ops r' = fields_after (hr_fields ops r) (health_key m') fs
      | (Some e, r') \<Rightarrow> hr_fields ops r' = fields_after (hr_fields ops r) (health_key m') fs \<or> hr_fields ops r' = hr_fields ops r"
    using assms by (simp add: health_redis_laws_def)
  then have "hr_fields ops r' = fields_after (hr_fields ops r) (health_key m') fs \<or> hr_fields ops r' = hr_fields ops r"
    by (cases x) (simp_all add: x)
  then show ?thesis by (auto simp: fs x fields_after_def)
qed (simp add: redis_record_signal_def)

text \<open>
  One failed round ends health probing. When a round of the probe loop raises (Redis did not
  take a write, or a probe met an error that is no \<open>httpx.RequestError\<close>), no later round of the
  process runs, and a backend recorded as unavailable at that moment meets no score threshold ever
  after in that state, whatever it would answer to later rounds and however many requests are
  recorded for it.
\<close>

theorem failed_round_ends_probing:
  assumes "health_redis_laws ops" and "probe_loop ops rounds r = (Some e, r1)"
    and "dict_get (hr_all ops (health_key m) r1) ''available'' = Some ''0''"
    and "redis_load ops m (redis_records ops es (snd (probe_loop ops (rounds @ later) r))) = Inr h"
  shows "\<not> meets_score h threshold"
proof -
  have loop: "snd (probe_loop ops (rounds @ later) r) = r1" by (simp add: probe_loop_append assms(2))
  have "hr_fields ops (redis_records ops es r1) (health_key m) ''available'' = hr_fields ops r1 (health_key m) ''available''"
    by (induction es arbitrary: r1) (auto simp: record_keeps_available [OF assms(1)])
  with assms(3) have "field_available (hr_all ops (health_key m) (redis_records ops es r1)) = Some False"
    by (simp add: field_available_def hr_fields_def)
  with assms(4) have "available h = Some False"
    unfolding loop by (auto simp: redis_load_def decode_Inr split: option.splits)
  then show ?thesis by (simp add: meets_score_def)
qed

text \<open>A server that refuses writes to one key; rationals print as numerator and denominator.\<close>

definition demo_repr :: "rat \<Rightarrow> string" where
  "demo_repr x = (case quotient_of x of (n, d) \<Rightarrow> show_int n @ ''/'' @ show_int d)"

definition demo_parse :: "string \<Rightarrow> rat option" where
  "demo_parse t =
     (case (parse_int (takeWhile (\<lambda>c. c \<noteq> CHR ''/'') t), parse_int (drop 1 (dropWhile (\<lambda>c. c \<noteq> CHR ''/'') t))) of
        (Some n, Some d) \<Rightarrow> Some (of_int n / of_int d) | _ \<Rightarrow> None)"

definition demo_hashes :: "((string \<times> string, string) dict) health_redis" where
  "demo_hashes = \<lparr>hr_all = (\<lambda>k r. map (\<lambda>((_, f), v). (f, v)) (filter (\<lambda>((k', _), _). k' = k) r)),
     hr_read_error = (\<lambda>_ _. None),
     hr_set = (\<lambda>k fs r. if k = health_key ''b'' then (Some ''READONLY'', r)
                         else (None, fold (\<lambda>(f, v). dict_set (k, f) v) (rev fs) r)),
     float_repr = demo_repr, float_parse = demo_parse\<rparr>"

lemma show_int_no_slash: "takeWhile (\<lambda>c. c \<noteq> CHR ''/'') (show_int n @ CHR ''/'' # t) = show_int n"
  "dropWhile (\<lambda>c. c \<noteq> CHR ''/'') (show_int n @ CHR ''/'' # t) = CHR ''/'' # t"
proof -
  have "\<not> is_digit (CHR ''/'')" by code_simp
  then have "CHR ''/'' \<notin> set (show_nat k)" for k using show_nat_digits [of k] by (auto simp: list_all_iff)
  then have "\<forall>c\<in>set (show_int n). c \<noteq> CHR ''/''" by (auto simp: show_int_def)
  then show "takeWhile (\<lambda>c. c \<noteq> CHR ''/'') (show_int n @ CHR ''/'' # t) = show_int n"
    "dropWhile (\<lambda>c. c \<noteq> CHR ''/'') (show_int n @ CHR ''/'' # t) = CHR ''/'' # t"
    by (simp_all add: takeWhile_append2 dropWhile_append2)
qed

lemma demo_parse_repr: "demo_parse (demo_repr x) = Some x"
proof -
  obtain n d where q: "quotient_of x = (n, d)" by fastforce
  have "demo_parse (demo_repr x) = Some (of_int n / of_int d)"
    by (simp add: demo_parse_def demo_repr_def q show_int_no_slash parse_show_int)
  with quotient_of_div [OF q] show ?thesis by simp
qed

lemma demo_hashes_laws: "health_redis_laws demo_hashes"
proof -
  have get: "dict_get (map (\<lambda>((_, f), v). (f, v)) (filter (\<lambda>((k', _), _). k' = k) d)) f = dict_get d (k, f)"
    for d :: "(string \<times> string, string) dict" and k f
    by (induction d) auto
  have set: "dict_get (fold (\<lambda>(f, v). dict_set (k, f) v) (rev fs) r) (k', f)
      = fields_after (\<lambda>k f. dict_get r (k, f)) k fs k' f" for k fs k' f and r :: "(string \<times> string, string) dict"
    by (induction fs) (auto simp: fields_after_def dict_simps)
  show ?thesis
    by (auto simp: health_redis_laws_def demo_hashes_def hr_fields_def get set demo_parse_repr fun_eq_iff fields_after_def)
      (simp add: demo_repr_def split: prod.splits)
qed

theorem failed_round_ends_probing_witness:
  "\<exists>h. redis_load demo_hashes ''a'' (redis_records demo_hashes [(7, ''a'', True, False)]
      (snd (probe_loop demo_hashes ([[(''a'', NoResponse, 1, 5), (''b'', Responded True, 1, 5)]] @ [[(''a'', Responded True, 1, 15)]]) []))) = Inr h
    \<and> \<not> meets_score h 0"
proof -
  have loop: "probe_loop demo_hashes [[(''a'', NoResponse, 1, 5), (''b'', Responded True, 1, 5)]] []
    = (Some ''READONLY'', snd (probe_loop demo_hashes [[(''a'', NoResponse, 1, 5), (''b'', Responded True, 1, 5)]] []))"
    "dict_get (hr_all demo_hashes (health_key ''a'') (snd (probe_loop demo_hashes [[(''a'', NoResponse, 1, 5), (''b'', Responded True, 1, 5)]] [])))
      ''available'' = Some ''0''"
    unfolding prod_eq_iff by code_simp+
  let ?x = "redis_load demo_hashes ''a'' (redis_records demo_hashes [(7, ''a'', True, False)]
      (snd (probe_loop demo_hashes ([[(''a'', NoResponse, 1, 5), (''b'', Responded True, 1, 5)]] @ [[(''a'', Responded True, 1, 15)]]) [])))"
  have "\<not> isl ?x" by code_simp
  then obtain h where h: "?x = Inr h" by (cases ?x) auto
  with failed_round_ends_probing [OF demo_hashes_laws loop h] show ?thesis by blast
qed

end
