(* ===== verification/Replay_Redis.thy ===== *)
theory Replay_Redis imports Digest begin

text \<open>
  \<open>app/gateway/decision_replay.py\<close>, the store of spent decision tokens the fleet shares: one \<open>SET NX EX\<close>
  per token. Redis is a parameter: what a key holds and until when, and the command, which may raise.
  The store is the second provider of the interface \<open>replay_backend\<close>.
\<close>

record 'r replay_redis =
  rr_entry :: "string \<Rightarrow> 'r \<Rightarrow> (string \<times> rat) option"
  rr_set_nx_ex :: "rat \<Rightarrow> string \<Rightarrow> string \<Rightarrow> int \<Rightarrow> 'r \<Rightarrow> (string + bool) \<times> 'r"

definition replay_key :: "string \<Rightarrow> string" where
  "replay_key jti = ''arp:decision:jti:'' @ jti"

text \<open>The answer, or the exception of the client; \<open>now\<close> is the server's clock at the command.\<close>

definition redis_consume ::
  "'r replay_redis \<Rightarrow> string \<Rightarrow> string \<Rightarrow> string \<Rightarrow> int \<Rightarrow> rat \<Rightarrow> 'r \<Rightarrow> (string + bool) \<times> 'r" where
  "redis_consume ops jti tenant request_digest ttl_seconds now r =
     rr_set_nx_ex ops now (replay_key jti) (binding_value tenant request_digest) (max 1 ttl_seconds) r"

datatype replay_kind = RedisReplayStore | InMemoryReplayStore

definition create_decision_replay_store :: "(string \<Rightarrow> string option) \<Rightarrow> string option \<Rightarrow> replay_kind option" where
  "create_decision_replay_store env redis_url =
     (if \<not> replay_protection_enabled env then None
      else if redis_url \<noteq> None \<and> redis_url \<noteq> Some [] then Some RedisReplayStore
      else Some InMemoryReplayStore)"

subsection \<open>Documented behaviour\<close>

text \<open>
  A key whose time is over is gone. \<open>SET NX EX\<close> sets an absent key and answers true, leaves a present
  one and answers false; when the client raises, the command ran or it did not.
\<close>

definition live_entry :: "rat \<Rightarrow> (string \<times> rat) option \<Rightarrow> (string \<times> rat) option" where
  "live_entry now x = (case x of None \<Rightarrow> None | Some (v, e) \<Rightarrow> if now < e then Some (v, e) else None)"

definition set_nx_result :: "rat \<Rightarrow> string \<Rightarrow> string \<Rightarrow> int \<Rightarrow> (string \<Rightarrow> (string \<times> rat) option) \<Rightarrow> string \<Rightarrow> (string \<times> rat) option" where
  "set_nx_result now k v ttl en = (\<lambda>k'.
     if k' = k \<and> live_entry now (en k) = None then Some (v, now + of_int ttl) else live_entry now (en k'))"

definition replay_redis_laws :: "'r replay_redis \<Rightarrow> bool" where
  "replay_redis_laws ops \<longleftrightarrow>
     (\<forall>now k v ttl r. 0 < ttl \<longrightarrow>
       (let en = (\<lambda>k. rr_entry ops k r); r' = snd (rr_set_nx_ex ops now k v ttl r);
            after = (\<lambda>k'. live_entry now (rr_entry ops k' r'))
        in case fst (rr_set_nx_ex ops now k v ttl r) of
             Inr created \<Rightarrow> created = (live_entry now (en k) = None) \<and> after = set_nx_result now k v ttl en
           | Inl e \<Rightarrow> after = set_nx_result now k v ttl en \<or> after = (\<lambda>k'. live_entry now (en k'))))"

definition redis_used_until :: "'r replay_redis \<Rightarrow> string \<Rightarrow> rat \<Rightarrow> 'r \<Rightarrow> bool" where
  "redis_used_until ops j e r \<longleftrightarrow> (\<exists>b. rr_entry ops (replay_key j) r = Some (b, e))"

lemma live_Some: "live_entry now x = Some (v, e) \<longleftrightarrow> x = Some (v, e) \<and> now < e"
  by (auto simp: live_entry_def split: option.splits if_splits)

lemma replay_key_inj [simp]: "replay_key j = replay_key j' \<longleftrightarrow> j = j'"
  by (simp add: replay_key_def)

lemma consume_cases:
  assumes "replay_redis_laws ops" and "redis_consume ops j t d ttl now r = (res, r')"
  shows "res = Inr created \<Longrightarrow> created = (live_entry now (rr_entry ops (replay_key j) r) = None)"
    and "res = Inr True \<Longrightarrow> rr_entry ops (replay_key j) r' = Some (binding_value t d, now + of_int (max 1 ttl))"
    and "rr_entry ops k r = Some (b, e) \<Longrightarrow> now < e \<Longrightarrow> rr_entry ops k r' = Some (b, e)"
proof -
  let ?k = "replay_key j" and ?v = "binding_value t d" and ?en = "\<lambda>k. rr_entry ops k r"
  let ?after = "\<lambda>k'. live_entry now (rr_entry ops k' r')"
  have law: "case res of
      Inr created \<Rightarrow> created = (live_entry now (?en ?k) = None) \<and> ?after = set_nx_result now ?k ?v (max 1 ttl) ?en
    | Inl e \<Rightarrow> ?after = set_nx_result now ?k ?v (max 1 ttl) ?en \<or> ?after = (\<lambda>k'. live_entry now (?en k'))"
    using assms(1) [unfolded replay_redis_laws_def, rule_format, where now = now and k = ?k and v = ?v and ttl = "max 1 ttl" and r = r]
      assms(2) by (cases res) (simp_all add: redis_consume_def Let_def)
  then show "created = (live_entry now (?en ?k) = None)" if "res = Inr created" using that by simp
  show "rr_entry ops ?k r' = Some (?v, now + of_int (max 1 ttl))" if "res = Inr True"
  proof -
    from law that have "?after ?k = Some (?v, now + of_int (max 1 ttl))" by (simp add: set_nx_result_def fun_eq_iff)
    then show ?thesis by (simp add: live_Some)
  qed
  show "rr_entry ops k r' = Some (b, e)" if "rr_entry ops k r = Some (b, e)" "now < e"
  proof -
    have "live_entry now (?en k) = Some (b, e)" using that by (simp add: live_Some)
    with law have "?after k = Some (b, e)"
      by (cases res) (auto simp: set_nx_result_def fun_eq_iff)
    then show ?thesis by (simp add: live_Some)
  qed
qed

interpretation redis_replay: replay_backend
  "\<lambda>j t d ttl now r. (fst (redis_consume ops j t d ttl now r) = Inr True, snd (redis_consume ops j t d ttl now r))"
  "redis_used_until ops" "\<lambda>r. replay_redis_laws ops" for ops :: "'r replay_redis"
proof (unfold_locales, goal_cases)
  case (2 s j t d ttl now)
  then show ?case
    using consume_cases(2) [of ops j t d ttl now s "Inr True" "snd (redis_consume ops j t d ttl now s)"]
    by (auto simp: redis_used_until_def prod_eq_iff)
next
  case (3 s j e now t d ttl)
  then have "live_entry now (rr_entry ops (replay_key j) s) \<noteq> None" by (auto simp: redis_used_until_def live_Some)
  with 3(1) show ?case using consume_cases(1) [of ops j t d ttl now s _ _ True] by (metis fst_conv prod.collapse)
next
  case (4 s j e now j' t d ttl)
  then show ?case
    using consume_cases(3) [of ops j' t d ttl now s "fst (redis_consume ops j' t d ttl now s)"
        "snd (redis_consume ops j' t d ttl now s)" "replay_key j"]
    by (auto simp: redis_used_until_def)
qed

fun fleet_consumes :: "'r replay_redis \<Rightarrow> (string \<times> string \<times> string \<times> int \<times> rat) list \<Rightarrow> 'r \<Rightarrow> 'r" where
  "fleet_consumes ops [] r = r"
| "fleet_consumes ops ((j, t, d, ttl, now) # es) r = fleet_consumes ops es (snd (redis_consume ops j t d ttl now r))"

text \<open>
  C17: The fleet accepts a decision token once. After a replica's consumption of a token id was
  accepted, every later attempt of any replica with that id, before the id's lifetime is over, is
  refused or raises, whatever it is bound to and whatever other tokens were consumed, or attempted
  with a failing connection, in between.
\<close>

theorem fleet_accepts_token_once:
  assumes "replay_redis_laws ops" and "fst (redis_consume ops j t d ttl now r) = Inr True"
    and "\<forall>(j', t', d', ttl', u)\<in>set es. u < now + of_int (max 1 ttl)" and "later < now + of_int (max 1 ttl)"
  shows "fst (redis_consume ops j t2 d2 ttl2 later (fleet_consumes ops es (snd (redis_consume ops j t d ttl now r)))) \<noteq> Inr True"
proof -
  have "fleet_consumes ops es s = redis_replay.consume_run ops es s" for s
    by (induction es arbitrary: s) auto
  with redis_replay.accepted_once [OF assms(1), of j t d ttl now r es later t2 d2 ttl2] assms(2-4) show ?thesis by simp
qed

subsection \<open>A server for the witness\<close>

definition demo_replay :: "(string \<Rightarrow> (string \<times> rat) option) replay_redis" where
  "demo_replay = \<lparr>rr_entry = (\<lambda>k r. r k),
     rr_set_nx_ex = (\<lambda>now k v ttl r. (Inr (live_entry now (r k) = None), set_nx_result now k v ttl r))\<rparr>"

lemma live_twice: "live_entry now (live_entry now x) = live_entry now x"
  by (auto simp: live_entry_def split: option.splits)

lemma demo_replay_laws: "replay_redis_laws demo_replay"
  by (auto simp: replay_redis_laws_def demo_replay_def set_nx_result_def Let_def live_twice fun_eq_iff)
    (simp add: live_entry_def)

theorem fleet_accepts_token_once_witness:
  "fst (redis_consume demo_replay ''d1'' ''ml'' ''zzz'' 30 120 (fleet_consumes demo_replay [(''d2'', ''ml'', ''x'', 5, 110)]
      (snd (redis_consume demo_replay ''d1'' ''finance'' ''abc'' 30 100 (\<lambda>_. None))))) \<noteq> Inr True"
proof (rule fleet_accepts_token_once [OF demo_replay_laws])
  show "fst (redis_consume demo_replay ''d1'' ''finance'' ''abc'' 30 100 (\<lambda>_. None)) = Inr True"
    by (simp add: redis_consume_def demo_replay_def live_entry_def)
qed simp_all

end
