(* ===== verification/Decisions_Redis.thy ===== *)
theory Decisions_Redis imports Decisions Completions Replay_Redis begin

text \<open>
  \<open>app/gateway/decisions.py\<close>, the decision store the fleet shares (one hash per record, an index from the
  request id to its tenant), and what writes into it besides the recording of a decision: the outcome
  of shadow traffic (\<open>services/completions.py\<close>), which completes in a task of its own. Redis, the printing
  of floats and the JSON decoder of old records are parameters; an exception of the client reaches
  the caller and is left out.
\<close>

record 'r decision_redis =
  dz_all :: "string \<Rightarrow> 'r \<Rightarrow> (string, string) dict"
  dz_hset :: "string \<Rightarrow> (string \<times> string) list \<Rightarrow> 'r \<Rightarrow> nat \<times> 'r"
  dz_get :: "string \<Rightarrow> 'r \<Rightarrow> string option"
  dz_set :: "string \<Rightarrow> string \<Rightarrow> int \<Rightarrow> 'r \<Rightarrow> 'r"
  dz_expire :: "string \<Rightarrow> int \<Rightarrow> 'r \<Rightarrow> 'r"
  dz_exists :: "string \<Rightarrow> 'r \<Rightarrow> bool"

record decision_codec =
  dc_floats :: float_io
  dc_json :: "string \<Rightarrow> py_exc + DecisionRecord"

subsection \<open>The store\<close>

definition decision_legacy_key :: "string \<Rightarrow> string" where
  "decision_legacy_key request_id = ''arp:decision:'' @ request_id"

definition decision_index_key :: "string \<Rightarrow> string" where
  "decision_index_key request_id = ''arp:decision-index:'' @ request_id"

definition decode_decision :: "decision_codec \<Rightarrow> (string, string) dict \<Rightarrow> py_exc + DecisionRecord option" where
  "decode_decision c data =
     (if data = [] then Inr None
      else if length data = 1 \<and> dict_get data ''data'' \<noteq> None then
        map_sum id Some (dc_json c (case dict_get data ''data'' of Some t \<Rightarrow> t | None \<Rightarrow> []))
      else map_sum id Some (from_mapping (dc_floats c) data))"

definition redis_decision_put ::
  "('r, 'm) decision_redis_scheme \<Rightarrow> decision_codec \<Rightarrow> int \<Rightarrow> pyfloat \<Rightarrow> DecisionRecord \<Rightarrow> 'r \<Rightarrow> 'r" where
  "redis_decision_put ops c ttl now rec r =
     (let stamped = rec\<lparr>dr_recorded_at := now\<rparr>;
          tenant = tenant_or_platform (dr_tenant_id stamped);
          key = redis_key tenant (dr_request_id stamped);
          r = snd (dz_hset ops key (serialize (dc_floats c) stamped) r);
          r = dz_expire ops key ttl r
      in dz_set ops (decision_index_key (dr_request_id stamped)) tenant ttl r)"

definition redis_decision_get ::
  "('r, 'm) decision_redis_scheme \<Rightarrow> decision_codec \<Rightarrow> string \<Rightarrow> string option \<Rightarrow> bool \<Rightarrow> 'r \<Rightarrow> py_exc + DecisionRecord option" where
  "redis_decision_get ops c request_id tenant_id any_tenant r =
     (let legacy = decode_decision c (dz_all ops (decision_legacy_key request_id) r);
          stored = (\<lambda>tenant. bind_exc (decode_decision c (dz_all ops (redis_key tenant request_id) r))
                      (\<lambda>d. if d \<noteq> None then Inr d else legacy))
      in if any_tenant then
           (case dz_get ops (decision_index_key request_id) r of
              None \<Rightarrow> legacy
            | Some t \<Rightarrow> if t = [] then legacy else stored t)
         else stored (tenant_or_platform tenant_id))"

definition redis_patch_shadow ::
  "('r, 'm) decision_redis_scheme \<Rightarrow> decision_codec \<Rightarrow> int \<Rightarrow> string \<Rightarrow> string \<Rightarrow> pyfloat \<Rightarrow> 'r \<Rightarrow> 'r" where
  "redis_patch_shadow ops c ttl request_id outcome duration_ms r =
     (let indexed = dz_get ops (decision_index_key request_id) r;
          key = (case indexed of
                   None \<Rightarrow> decision_legacy_key request_id
                 | Some t \<Rightarrow> if t = [] then decision_legacy_key request_id else redis_key t request_id)
      in case dz_hset ops key [(''shadow_outcome'', outcome),
               (''shadow_duration_ms'', show_float (dc_floats c) duration_ms)] r of
           (updated, r) \<Rightarrow> if updated = 0 \<and> \<not> dz_exists ops key r then r else dz_expire ops key ttl r)"

text \<open>The background task of shadow traffic, on a store's \<open>patch_shadow\<close>.\<close>

definition complete_shadow_traffic ::
  "(string \<Rightarrow> string \<Rightarrow> pyfloat \<Rightarrow> 's \<Rightarrow> 's) \<Rightarrow> (rat \<Rightarrow> pyfloat) \<Rightarrow> upstream \<Rightarrow> string \<Rightarrow> obj
    \<Rightarrow> (string, string) dict \<Rightarrow> string \<Rightarrow> ModelTarget \<Rightarrow> rat \<Rightarrow> 's \<Rightarrow> 's" where
  "complete_shadow_traffic patch as_float post request_id payload headers shadow_model t duration_s s =
     (case run_shadow_request post payload headers shadow_model t duration_s of
        (outcome, duration_ms) \<Rightarrow> patch request_id outcome (as_float duration_ms) s)"

datatype decision_kind = RedisDecisions | MemoryDecisions

definition create_decision_store :: "string option \<Rightarrow> decision_kind" where
  "create_decision_store url = (if url \<noteq> None \<and> url \<noteq> Some [] then RedisDecisions else MemoryDecisions)"

subsection \<open>Documented behaviour\<close>

definition decision_redis_laws :: "('r, 'm) decision_redis_scheme \<Rightarrow> bool" where
  "decision_redis_laws ops \<longleftrightarrow>
     (\<forall>k fs r k' f. dict_get (dz_all ops k' (snd (dz_hset ops k fs r))) f
        = (if k' = k \<and> dict_get fs f \<noteq> None then dict_get fs f else dict_get (dz_all ops k' r) f))
     \<and> (\<forall>k fs r. fst (dz_hset ops k fs r) = card {f \<in> keys fs. dict_get (dz_all ops k r) f = None})
     \<and> (\<forall>k fs r k'. dz_get ops k' (snd (dz_hset ops k fs r)) = dz_get ops k' r)
     \<and> (\<forall>k v ttl r k'. dz_get ops k' (dz_set ops k v ttl r) = (if k' = k then Some v else dz_get ops k' r)
          \<and> (k' \<noteq> k \<longrightarrow> dz_all ops k' (dz_set ops k v ttl r) = dz_all ops k' r))
     \<and> (\<forall>k ttl r k'. dz_all ops k' (dz_expire ops k ttl r) = dz_all ops k' r \<and> dz_get ops k' (dz_expire ops k ttl r) = dz_get ops k' r)"

lemma decision_rules:
  assumes "decision_redis_laws ops"
  shows "dict_get (dz_all ops k' (snd (dz_hset ops k fs r))) f
      = (if k' = k \<and> dict_get fs f \<noteq> None then dict_get fs f else dict_get (dz_all ops k' r) f)"
    and "fst (dz_hset ops k fs r) = card {f \<in> keys fs. dict_get (dz_all ops k r) f = None}"
    and "dz_get ops k' (snd (dz_hset ops k fs r)) = dz_get ops k' r"
    and "dz_get ops k' (dz_set ops k v ttl r) = (if k' = k then Some v else dz_get ops k' r)"
    and "k' \<noteq> k \<Longrightarrow> dz_all ops k' (dz_set ops k v ttl r) = dz_all ops k' r"
    and "dz_all ops k' (dz_expire ops k ttl r) = dz_all ops k' r"
    and "dz_get ops k' (dz_expire ops k ttl r) = dz_get ops k' r"
  using assms by (auto simp: decision_redis_laws_def)

lemma own_keys_apart:
  "redis_key t i \<noteq> decision_index_key i" "redis_key t i \<noteq> decision_legacy_key i"
proof -
  have "t @ '':decision:'' \<noteq> ''decision-index:''"
  proof
    assume "t @ '':decision:'' = ''decision-index:''"
    then have "rev (t @ '':decision:'') = rev ''decision-index:''" by (rule arg_cong)
    then show False by simp
  qed
  then have "(t @ '':decision:'') @ i \<noteq> ''decision-index:'' @ i" by (simp only: append_same_eq) blast
  then show "redis_key t i \<noteq> decision_index_key i" by (simp add: redis_key_def decision_index_key_def)
  have "length (redis_key t i) \<noteq> length (decision_legacy_key i)" by (simp add: redis_key_def decision_legacy_key_def)
  then show "redis_key t i \<noteq> decision_legacy_key i" by metis
qed

lemma from_mapping_cong:
  assumes "\<And>k. k \<in> keys (serialize io rec) \<Longrightarrow> dict_get d k = dict_get (serialize io rec) k"
  shows "from_mapping io d = from_mapping io (serialize io rec)"
proof -
  let ?s = "serialize io rec"
  have eq: "dict_get d k = dict_get ?s k" if "k \<in> {''request_id'', ''requested_model'', ''selected_backend'', ''routing_reason'',
      ''fallback_used'', ''health_score'', ''duration_ms'', ''shadow_backend'', ''shadow_duration_ms'', ''shadow_outcome'',
      ''estimated_cost'', ''stream_outcome'', ''stream_ttft_ms'', ''control_plane_decision_id'', ''approval_id'',
      ''policy_bundle_id'', ''policy_digest'', ''request_digest'', ''control_plane_version'', ''runtime_version'',
      ''enforcement_outcome'', ''tenant_id'', ''recorded_at''}" for k
    using that by (intro assms) (auto simp: serialize_def Let_def)
  show ?thesis
    by (simp add: from_mapping_def need_def read_score_def optional_float_def optional_str_def float_or_zero_def plain_str_def
        get_default_def eq)
qed

lemma length_two_keys:
  assumes "dict_get d k \<noteq> None" and "dict_get d k' \<noteq> None" and "k \<noteq> k'"
  shows "length d \<noteq> 1 \<and> d \<noteq> []"
  using assms by (cases d) (auto split: if_splits)

lemma no_entry: "(\<And>f. dict_get d f = None) \<Longrightarrow> d = []"
proof (cases d)
  case (Cons p ps)
  then have "dict_get d (fst p) = Some (snd p)" by (cases p) simp
  then show "(\<And>f. dict_get d f = None) \<Longrightarrow> d = []" by (metis option.simps(3))
qed simp

text \<open>
  C34: A recorded decision is found again. Whatever Redis held before, after \<open>put\<close> of a record whose
  optional texts are neither empty nor \<open>None\<close> the lookup of its request id by its own tenant gives
  exactly that record with its time stamp, and so does the auditor's lookup over all tenants.
\<close>

theorem decision_put_get:
  assumes "decision_redis_laws ops" and "float_io_ok (dc_floats c) (rec\<lparr>dr_recorded_at := now\<rparr>)" and "storable rec"
  shows "redis_decision_get ops c (dr_request_id rec) (dr_tenant_id rec) auditor (redis_decision_put ops c ttl now rec r)
    = Inr (Some (rec\<lparr>dr_recorded_at := now\<rparr>))"
proof -
  note rules = decision_rules [OF assms(1)]
  let ?rec = "rec\<lparr>dr_recorded_at := now\<rparr>" and ?t = "tenant_or_platform (dr_tenant_id rec)" and ?i = "dr_request_id rec"
  let ?s = "serialize (dc_floats c) ?rec" and ?r = "redis_decision_put ops c ttl now rec r"
  have all: "dict_get (dz_all ops (redis_key ?t ?i) ?r) k = (case dict_get ?s k of None \<Rightarrow> dict_get (dz_all ops (redis_key ?t ?i) r) k | Some v \<Rightarrow> Some v)" for k
    by (simp add: redis_decision_put_def Let_def rules own_keys_apart split: option.split)
  have "dict_get ?s ''request_id'' \<noteq> None" "dict_get ?s ''requested_model'' \<noteq> None" by (simp_all add: serialize_def Let_def)
  with all [of "''request_id''"] all [of "''requested_model''"]
  have two: "length (dz_all ops (redis_key ?t ?i) ?r) \<noteq> 1 \<and> dz_all ops (redis_key ?t ?i) ?r \<noteq> []"
    by (intro length_two_keys [of _ "''request_id''" "''requested_model''"]) auto
  have "dict_get (dz_all ops (redis_key ?t ?i) ?r) k = dict_get ?s k" if "k \<in> keys ?s" for k
    using that all [of k] by (auto split: option.split simp: get_None_iff)
  then have "from_mapping (dc_floats c) (dz_all ops (redis_key ?t ?i) ?r) = from_mapping (dc_floats c) ?s"
    by (rule from_mapping_cong)
  also have "\<dots> = Inr ?rec" using assms(2,3) by (intro decision_round_trip) (simp_all add: storable_def)
  finally have dec: "decode_decision c (dz_all ops (redis_key ?t ?i) ?r) = Inr (Some ?rec)"
    using two by (simp add: decode_decision_def)
  have index: "dz_get ops (decision_index_key ?i) ?r = Some ?t" by (simp add: redis_decision_put_def Let_def rules)
  have "?t \<noteq> []" by (auto simp: tenant_or_platform_def str_or_def split: option.splits)
  then show ?thesis by (cases auditor) (simp_all add: redis_decision_get_def Let_def dec index)
qed

text \<open>
  Shadow traffic that completes before its decision is recorded (a streamed request records it when
  the stream ends) patches a hash that is not there: \<open>HSET\<close> creates it, the test of \<open>updated\<close> never
  stops it, and from then on a lookup of the id that finds no record of its own raises \<open>KeyError\<close>.
\<close>

theorem early_shadow_breaks_lookup:
  assumes "decision_redis_laws ops" and "dz_get ops (decision_index_key i) r = None"
    and "dz_all ops (decision_legacy_key i) r = []" and "dz_all ops (redis_key (tenant_or_platform t) i) r = []"
  shows "redis_decision_get ops c i t False (redis_patch_shadow ops c ttl i outcome ms r) = Inl KeyError"
proof -
  note rules = decision_rules [OF assms(1)]
  let ?k = "decision_legacy_key i" and ?r = "redis_patch_shadow ops c ttl i outcome ms r"
  let ?fs = "[(''shadow_outcome'', outcome), (''shadow_duration_ms'', show_float (dc_floats c) ms)]"
  have r: "dz_all ops k ?r = dz_all ops k (snd (dz_hset ops ?k ?fs r))" for k
    using assms(2) by (simp add: redis_patch_shadow_def Let_def rules split: prod.split)
  have get: "dict_get (dz_all ops ?k ?r) f = dict_get ?fs f" for f by (simp add: r rules assms(3))
  have "dict_get (dz_all ops (redis_key (tenant_or_platform t) i) ?r) f = None" for f
    using assms(4) own_keys_apart(2) by (simp add: r rules)
  then have own: "dz_all ops (redis_key (tenant_or_platform t) i) ?r = []"
    by (rule no_entry)
  have "dict_get ?fs ''request_id'' = None" "dict_get ?fs ''data'' = None" by simp_all
  then have "dict_get (dz_all ops ?k ?r) ''request_id'' = None" "dict_get (dz_all ops ?k ?r) ''data'' = None"
    by (simp_all only: get)
  moreover have "dict_get (dz_all ops ?k ?r) ''shadow_outcome'' = Some outcome" by (simp add: get)
  then have "dz_all ops ?k ?r \<noteq> []" by auto
  ultimately have "decode_decision c (dz_all ops ?k ?r) = Inl KeyError"
    by (simp add: decode_decision_def from_mapping_def need_def)
  then show ?thesis by (simp add: redis_decision_get_def Let_def own decode_decision_def)
qed

text \<open>The key a lookup of the id \<open>jti:x\<close> reads as an old record is the key of the spent token \<open>x\<close>.\<close>

theorem legacy_key_is_replay_key: "decision_legacy_key (''jti:'' @ x) = replay_key x"
  by (simp add: decision_legacy_key_def replay_key_def)

subsection \<open>A server for the witness\<close>

record demo_store =
  dm_hashes :: "(string \<times> string, string) dict"
  dm_strings :: "(string, string) dict"

definition demo_fields :: "string \<Rightarrow> (string \<times> string, string) dict \<Rightarrow> (string, string) dict" where
  "demo_fields k d = map (\<lambda>((_, f), v). (f, v)) (filter (\<lambda>((k', _), _). k' = k) d)"

definition demo_write :: "string \<Rightarrow> (string \<times> string) list \<Rightarrow> (string \<times> string, string) dict \<Rightarrow> (string \<times> string, string) dict" where
  "demo_write k fs d = fold (\<lambda>(f, v). dict_set (k, f) v) (rev fs) d"

definition demo_decisions :: "demo_store decision_redis" where
  "demo_decisions = \<lparr>dz_all = (\<lambda>k r. demo_fields k (dm_hashes r)),
     dz_hset = (\<lambda>k fs r. (length (filter (\<lambda>f. dict_get (dm_hashes r) (k, f) = None) (remdups (map fst fs))),
                          r\<lparr>dm_hashes := demo_write k fs (dm_hashes r)\<rparr>)),
     dz_get = (\<lambda>k r. dict_get (dm_strings r) k),
     dz_set = (\<lambda>k v ttl r. r\<lparr>dm_strings := dict_set k v (dm_strings r)\<rparr>),
     dz_expire = (\<lambda>k ttl r. r), dz_exists = (\<lambda>k r. demo_fields k (dm_hashes r) \<noteq> [] \<or> dict_get (dm_strings r) k \<noteq> None)\<rparr>"

lemma demo_fields_get: "dict_get (demo_fields k d) f = dict_get d (k, f)"
  by (induction d) (auto simp: demo_fields_def)

lemma demo_write_get:
  "dict_get (demo_write k fs d) (k', f) = (if k' = k \<and> dict_get fs f \<noteq> None then dict_get fs f else dict_get d (k', f))"
  by (induction fs) (auto simp: demo_write_def dict_simps)

lemma demo_decisions_laws: "decision_redis_laws demo_decisions"
proof -
  have "length (filter P (remdups (map fst fs))) = card {f \<in> keys fs. P f}" for P and fs :: "(string \<times> string) list"
    by (subst distinct_card [symmetric]) (auto intro!: arg_cong [where f = card])
  then show ?thesis
    by (auto simp: decision_redis_laws_def demo_decisions_def demo_fields_get demo_write_get dict_simps)
qed

theorem decision_put_get_witness:
  "redis_decision_get demo_decisions \<lparr>dc_floats = demo_io, dc_json = (\<lambda>_. Inl ValueError)\<rparr> ''r1'' (Some ''finance'') True
      (redis_decision_put demo_decisions \<lparr>dc_floats = demo_io, dc_json = (\<lambda>_. Inl ValueError)\<rparr> 3600 (FDec 0 0) demo_decision
        \<lparr>dm_hashes = [], dm_strings = []\<rparr>)
    = Inr (Some demo_decision)"
proof -
  let ?c = "\<lparr>dc_floats = demo_io, dc_json = (\<lambda>_. Inl ValueError)\<rparr>"
  have same: "demo_decision\<lparr>dr_recorded_at := FDec 0 0\<rparr> = demo_decision" "dr_request_id demo_decision = ''r1''"
    "dr_tenant_id demo_decision = Some ''finance''" by (simp_all add: demo_decision_def)
  have "show_int 97 = ''97''" by code_simp
  then have "float_io_ok demo_io demo_decision"
    by (simp add: float_io_ok_def demo_io_def demo_decision_def record_floats_def opt_list_def dec_val_def pow10_def)
  moreover have "storable demo_decision" by (simp add: storable_def demo_decision_def plain_opt_def)
  ultimately show ?thesis
    using decision_put_get [OF demo_decisions_laws, where c = ?c and rec = demo_decision and now = "FDec 0 0"] by (simp add: same)
qed

end
