(* ===== verification/Lifecycle.thy ===== *)
theory Lifecycle imports Health_Redis Decisions_Redis Quota_Redis Gateway begin

text \<open>
  \<open>app/gateway/main.py\<close>, the process around the requests: which backend of every part \<open>lifespan\<close> builds,
  the signal that starts draining, and the ordered shutdown, in which every step may raise and then
  ends it. The tasks of the process are the probe loop of \<open>Health_Redis\<close> and the event worker of \<open>Usage\<close>.
\<close>

subsection \<open>What is built\<close>

text \<open>\<open>create_admission_controller\<close> and \<open>create_budget_guard\<close>: a client given, or one for the URL.\<close>

definition redis_client :: "'c option \<Rightarrow> (string \<Rightarrow> 'c) \<Rightarrow> string option \<Rightarrow> 'c option" where
  "redis_client redis from_url url =
     (if redis = None \<and> url \<noteq> None \<and> url \<noteq> Some [] then Some (from_url (the url)) else redis)"

definition create_budget_guard ::
  "string + InferenceBudgetPolicy option \<Rightarrow> 'c option \<Rightarrow> (string \<Rightarrow> 'c) \<Rightarrow> string option \<Rightarrow> string + 'c InferenceBudgetGuard option" where
  "create_budget_guard policy redis from_url url =
     (case policy of
        Inl e \<Rightarrow> Inl e
      | Inr None \<Rightarrow> Inr None
      | Inr (Some p) \<Rightarrow> Inr (Some (init_guard (Some p) (redis_client redis from_url url))))"

definition create_admission_controller ::
  "environ \<Rightarrow> (string \<Rightarrow> string + pyfloat) \<Rightarrow> TenantPolicyBundle \<Rightarrow> string option \<Rightarrow> 'c option \<Rightarrow> rat option \<Rightarrow> rat option
    \<Rightarrow> string + TenantAdmissionController" where
  "create_admission_controller env read bundle url redis ttl interval =
     new_controller env read bundle (redis \<noteq> None \<or> (url \<noteq> None \<and> url \<noteq> Some [])) ttl interval"

record backends =
  be_admission_redis :: bool
  be_guard_redis :: "bool option"
  be_health :: health_kind
  be_decisions :: decision_kind
  be_tenant :: "tenant_backend option"
  be_replay :: "replay_kind option"

definition lifespan_backends :: "environ \<Rightarrow> GatewaySettings \<Rightarrow> string + InferenceBudgetPolicy option \<Rightarrow> backends" where
  "lifespan_backends env settings policy =
     (let url = redis_url settings in
      \<lparr>be_admission_redis = (redis_client None (\<lambda>u. u) url \<noteq> None),
       be_guard_redis = (case create_budget_guard policy None (\<lambda>u. u) url of
           Inr (Some g) \<Rightarrow> Some (guard_redis g \<noteq> None) | _ \<Rightarrow> None),
       be_health = create_health_store settings, be_decisions = create_decision_store url,
       be_tenant = create_tenant_store (env ''TENANT_ATTRIBUTION_ENABLED'') url,
       be_replay = create_decision_replay_store env url\<rparr>)"

text \<open>No part is left behind in the process when the fleet shares Redis, and none needs Redis without it.\<close>

theorem backends_agree_on_redis:
  fixes settings :: GatewaySettings
  defines "fleet \<equiv> redis_url settings \<noteq> None \<and> redis_url settings \<noteq> Some []"
  shows "(let b = lifespan_backends env settings policy in
      be_admission_redis b = fleet \<and> be_guard_redis b \<in> {None, Some fleet}
      \<and> be_health b = (if fleet then RedisHealth else MemoryHealth)
      \<and> be_decisions b = (if fleet then RedisDecisions else MemoryDecisions)
      \<and> be_tenant b \<in> {None, Some (if fleet then RedisTenantStore else MemoryTenantStore)}
      \<and> be_replay b \<in> {None, Some (if fleet then RedisReplayStore else InMemoryReplayStore)})"
  by (auto simp: Let_def lifespan_backends_def redis_client_def create_budget_guard_def init_guard_def create_health_store_def
      create_decision_store_def create_tenant_store_def create_decision_replay_store_def fleet_def
      split: sum.splits option.splits)

subsection \<open>The end of the process\<close>

datatype part = UsagePart | HealthPart | TenantPart | ReplayPart | AdmissionPart | GuardPart | DecisionPart | ClientPart

text \<open>
  The probe task, still running or ended by an exception nobody has read yet. A running one is
  cancelled, and awaiting it raises only the suppressed \<open>CancelledError\<close>; a failed one cannot be
  cancelled any more, and awaiting it raises its exception.
\<close>

datatype probe_task = Probing | ProbeFailed string

record process =
  ps_drain :: DrainState
  ps_task :: probe_task
  ps_events :: UsageEventEmitter
  ps_tenant :: bool
  ps_replay :: bool
  ps_guard :: bool

text \<open>\<open>_begin_drain\<close>, the handler of SIGTERM and SIGINT.\<close>

definition begin_drain :: "rat \<Rightarrow> process \<Rightarrow> process" where
  "begin_drain now p = p\<lparr>ps_drain := drain_begin now (ps_drain p)\<rparr>"

definition close_order :: "process \<Rightarrow> part list" where
  "close_order p = [UsagePart, HealthPart] @ (if ps_tenant p then [TenantPart] else [])
     @ (if ps_replay p then [ReplayPart] else []) @ [AdmissionPart] @ (if ps_guard p then [GuardPart] else [])
     @ [DecisionPart, ClientPart]"

text \<open>The closings in order; the first exception ends them.\<close>

fun close_parts :: "(part \<Rightarrow> string option) \<Rightarrow> part list \<Rightarrow> string option \<times> part list" where
  "close_parts raises [] = (None, [])"
| "close_parts raises (x # xs) =
     (case raises x of
        Some e \<Rightarrow> (Some e, [])
      | None \<Rightarrow> (case close_parts raises xs of (e, done_parts) \<Rightarrow> (e, x # done_parts)))"

text \<open>\<open>UsageEventEmitter.aclose\<close>: the rounds of the worker until the wait ends, whose posts answer \<open>oks\<close>.\<close>

definition close_events :: "rat \<Rightarrow> bool list \<Rightarrow> UsageEventEmitter \<Rightarrow> UsageEventEmitter" where
  "close_events now oks s = end_close (worker_rounds now oks (stop_accepting s))"

definition shutdown ::
  "rat \<Rightarrow> bool list \<Rightarrow> (part \<Rightarrow> string option) \<Rightarrow> process \<Rightarrow> (string option \<times> part list) \<times> process" where
  "shutdown now oks raises p =
     (let p = begin_drain now p in
      case ps_task p of
        ProbeFailed e \<Rightarrow> ((Some e, []), p)
      | Probing \<Rightarrow>
          (case close_parts raises (close_order p) of
             (e, done_parts) \<Rightarrow>
               ((e, done_parts), if UsagePart \<in> set done_parts then p\<lparr>ps_events := close_events now oks (ps_events p)\<rparr> else p)))"

subsection \<open>Properties\<close>

lemma worker_rounds_hold:
  "emitter_inv s \<Longrightarrow> posting s = None \<Longrightarrow>
    posting (worker_rounds now oks s) = None \<and> held_ids (worker_rounds now oks s) = held_ids s"
proof (induction oks arbitrary: now s)
  case (Cons ok oks)
  note nr = next_ready_facts [OF Cons.prems, of now]
  note fp = finish_post_facts [OF conjunct1 [OF nr], of now ok]
  with nr Cons.IH [of "worker_round now ok s" "now + 30"] show ?case by (simp add: worker_round_def)
qed simp

lemma end_close_holds: "posting s = None \<Longrightarrow> held_ids (end_close s) = held_ids s"
  by (simp add: end_close_def drained_def held_ids_def Let_def image_mset.compositionality comp_def)

lemma close_events_facts:
  assumes "emitter_inv s" and "posting s = None"
  shows "em_pending (close_events now oks s) = [] \<and> held_ids (close_events now oks s) = held_ids s"
proof -
  have s: "emitter_inv (stop_accepting s)" "posting (stop_accepting s) = None" "held_ids (stop_accepting s) = held_ids s"
    using assms by (simp_all add: stop_accepting_def emitter_inv_def held_ids_def)
  from worker_rounds_hold [OF s(1,2), of now oks] s(3) end_close_holds
  have "held_ids (close_events now oks s) = held_ids s" by (simp add: close_events_def)
  moreover have "em_pending (close_events now oks s) = []"
    by (simp add: close_events_def end_close_def drained_def Let_def)
  ultimately show ?thesis by blast
qed

lemma close_parts_all: "(\<forall>x. raises x = None) \<Longrightarrow> close_parts raises xs = (None, xs)"
  by (induction xs) simp_all

text \<open>
  A clean end: while the probe task runs and no closing raises, the process drains, closes every part
  it has, in order, and no usage event is lost: what was queued is delivered or dropped with a
  counted reason.
\<close>

theorem clean_shutdown_closes_everything:
  assumes "ps_task p = Probing" and "\<forall>x. raises x = None" and "emitter_inv (ps_events p)" and "posting (ps_events p) = None"
  shows "case shutdown now oks raises p of ((e, done_parts), p') \<Rightarrow>
    e = None \<and> done_parts = close_order p \<and> draining (ps_drain p')
    \<and> em_pending (ps_events p') = [] \<and> held_ids (ps_events p') = held_ids (ps_events p)"
proof -
  let ?q = "begin_drain now p"
  have q: "close_order ?q = close_order p" "ps_task ?q = Probing" "ps_events ?q = ps_events p" "draining (ps_drain ?q)"
    using assms(1) by (simp_all add: begin_drain_def close_order_def drain_begin_def)
  have "UsagePart \<in> set (close_order p)" by (simp add: close_order_def)
  with q close_parts_all [OF assms(2), of "close_order p"] close_events_facts [OF assms(3,4), of now oks]
  show ?thesis by (simp add: shutdown_def Let_def)
qed

text \<open>
  A probe failure costs the shutdown. When any round of the health probe loop raised while the
  process ran, its shutdown re-raises that exception before anything is closed: no part is closed
  and the usage events queued then are neither posted nor counted as dropped.
\<close>

theorem failed_probe_aborts_shutdown:
  assumes "probe_loop ops rounds r = (Some e, r1)"
    and "ps_task p = (case fst (probe_loop ops (rounds @ later) r) of None \<Rightarrow> Probing | Some e \<Rightarrow> ProbeFailed e)"
  shows "shutdown now oks raises p = ((Some e, []), begin_drain now p)"
  using assms(2) by (simp add: shutdown_def probe_loop_append assms(1) Let_def begin_drain_def)

definition demo_process :: process where
  "demo_process = \<lparr>ps_drain = \<lparr>draining = False, started_at = None\<rparr>, ps_task = Probing,
     ps_events = emitter_run demo_env demo_emissions demo_emitter, ps_tenant = True, ps_replay = True, ps_guard = False\<rparr>"

theorem failed_probe_aborts_shutdown_witness:
  "em_pending (ps_events (snd (shutdown 50 [True, True] (\<lambda>_. None) (demo_process\<lparr>ps_task := ProbeFailed ''READONLY''\<rparr>))))
     = em_pending (ps_events demo_process) \<and> em_pending (ps_events demo_process) \<noteq> []"
proof -
  let ?r = "[[(''a'', NoResponse, 1, 5), (''b'', Responded True, 1, 5)]] :: probe_round list"
  have e: "fst (probe_loop demo_hashes ?r []) = Some ''READONLY''" by code_simp
  then have loop: "probe_loop demo_hashes ?r [] = (Some ''READONLY'', snd (probe_loop demo_hashes ?r []))"
    by (metis prod.collapse)
  have "ps_task (demo_process\<lparr>ps_task := ProbeFailed ''READONLY''\<rparr>)
      = (case fst (probe_loop demo_hashes (?r @ []) []) of None \<Rightarrow> Probing | Some e \<Rightarrow> ProbeFailed e)"
    unfolding append_Nil2 e by simp
  note failed = failed_probe_aborts_shutdown [OF loop this]
  have "em_pending (ps_events demo_process) \<noteq> []" by code_simp
  then show ?thesis unfolding failed by (simp add: begin_drain_def)
qed

theorem clean_shutdown_closes_everything_witness:
  "fst (fst (shutdown 50 [True, True] (\<lambda>_. None) demo_process)) = None"
proof -
  have e: "new_emitter demo_env = Inr demo_emitter" by code_simp
  have w: "usage_webhook_url demo_env \<noteq> None" by code_simp
  have "emitter_inv (ps_events demo_process)"
    using emitter_run_facts [OF _ w] new_emitter_facts [OF e] by (simp add: demo_process_def)
  moreover have "posting (ps_events demo_process) = None" by code_simp
  ultimately show ?thesis
    using clean_shutdown_closes_everything [of demo_process "\<lambda>_. None" 50 "[True, True]"]
    by (auto simp: demo_process_def split: prod.splits)
qed

end
