(* ===== verification/Budget_Client.thy ===== *)
theory Budget_Client imports Budget_Lua_Properties Budget_Guard_Properties begin

text \<open>
  The client side of the scripts of \<open>app/gateway/budget_guard.py\<close>: the handle of each script is
  loaded on first use and loaded again when the server answers that it does not know it. What a
  guard may rely on is the interface \<open>script_client\<close>; \<open>_eval_unbounded\<close> over a documented connection
  provides it, so that what is proved of the scripts holds of the guard that calls them.
\<close>

record ('s, 'd) budget_connection =
  bk_data :: "'s \<Rightarrow> 'd"
  bk_load :: "string \<Rightarrow> 's \<Rightarrow> (py_exc + string) \<times> 's"
  bk_evalsha :: "string \<Rightarrow> string list \<Rightarrow> json list \<Rightarrow> 's \<Rightarrow> (py_exc + json) \<times> 's"

type_synonym budget_handles = "string \<Rightarrow> string option"

text \<open>\<open>"NOSCRIPT" in str(error).upper()\<close>\<close>

definition missing_script :: "py_exc \<Rightarrow> bool" where
  "missing_script e = (case e of OtherError t \<Rightarrow> contains ''NOSCRIPT'' (map upper_char t) | _ \<Rightarrow> False)"

definition eval_unbounded :: "('s, 'd, 'm) budget_connection_scheme \<Rightarrow> (budget_handles \<times> 's) evaluator" where
  "eval_unbounded conn attr ks args st =
     (case st of (h, s) \<Rightarrow>
        case (case h attr of Some sha \<Rightarrow> (Inr sha, s) | None \<Rightarrow> bk_load conn attr s) of
          (Inl e, s) \<Rightarrow> (Inl e, h, s)
        | (Inr sha, s) \<Rightarrow>
            (let h = h(attr := Some sha) in
             case bk_evalsha conn sha ks args s of
               (Inr v, s) \<Rightarrow> (Inr v, h, s)
             | (Inl e, s) \<Rightarrow>
                 if \<not> missing_script e then (Inl e, h, s)
                 else (case bk_load conn attr s of
                         (Inl e, s) \<Rightarrow> (Inl e, h, s)
                       | (Inr sha, s) \<Rightarrow>
                           (case bk_evalsha conn sha ks args s of (res, s) \<Rightarrow> (res, h(attr := Some sha), s)))))"

subsection \<open>Documented behaviour\<close>

text \<open>What a script does with its \<open>KEYS\<close> and \<open>ARGV\<close>; other arguments are never passed.\<close>

definition budget_script ::
  "('d, 'm) redis_scheme \<Rightarrow> (string \<Rightarrow> int option) \<Rightarrow> string \<Rightarrow> string list \<Rightarrow> json list \<Rightarrow> 'd script" where
  "budget_script ops tn attr ks args =
     (case (ks, args) of
        ([wk, zk, ak], [JInt now, JInt window, JInt budget, JInt est, JStr rid, JInt ttl]) \<Rightarrow>
          if attr = ''_reserve_sha'' then reserve_lua ops tn wk zk ak now window budget est rid ttl else Pair []
      | ([wk, zk, ak], [JStr rid, JInt actual, JInt now, JInt window]) \<Rightarrow>
          if attr = ''_settle_sha'' then settle_lua ops tn wk zk ak rid actual now window else Pair []
      | ([wk, zk, ak], [JInt now]) \<Rightarrow> if attr = ''_purge_sha'' then purge_lua ops tn wk zk ak now else Pair []
      | _ \<Rightarrow> Pair [])"

lemma budget_script_simps [simp]:
  "budget_script ops tn ''_reserve_sha'' (budget_keys sc) [JInt now, JInt w, JInt cap, JInt est, JStr rid, JInt ttl] =
     reserve_lua ops tn (budget_keys sc ! 0) (budget_keys sc ! 1) (budget_keys sc ! 2) now w cap est rid ttl"
  "budget_script ops tn ''_settle_sha'' (budget_keys sc) [JStr rid, JInt actual, JInt now, JInt w] =
     settle_lua ops tn (budget_keys sc ! 0) (budget_keys sc ! 1) (budget_keys sc ! 2) rid actual now w"
  "budget_script ops tn ''_purge_sha'' (budget_keys sc) [JInt now] =
     purge_lua ops tn (budget_keys sc ! 0) (budget_keys sc ! 1) (budget_keys sc ! 2) now"
  by (simp_all add: budget_script_def budget_keys_def)

text \<open>
  \<open>SCRIPT LOAD\<close> changes no data and answers the handle of the script. \<open>EVALSHA\<close> with that handle
  runs the script when it answers; when it raises, the script ran or it did not, and an exception
  about a missing script means it did not.
\<close>

definition budget_connection_laws ::
  "('d, 'm) redis_scheme \<Rightarrow> (string \<Rightarrow> int option) \<Rightarrow> ('s, 'd, 'n) budget_connection_scheme \<Rightarrow> bool" where
  "budget_connection_laws ops tn conn \<longleftrightarrow>
     (\<forall>attr s. bk_data conn (snd (bk_load conn attr s)) = bk_data conn s)
     \<and> (\<forall>attr sha s0 ks args s. fst (bk_load conn attr s0) = Inr sha \<longrightarrow>
          (let (v, d) = budget_script ops tn attr ks args (bk_data conn s) in
           case bk_evalsha conn sha ks args s of
             (Inr reply, s') \<Rightarrow> reply = JArr (map JInt v) \<and> bk_data conn s' = d
           | (Inl e, s') \<Rightarrow> bk_data conn s' = bk_data conn s \<or> bk_data conn s' = d \<and> \<not> missing_script e))"

definition client_ready ::
  "('d, 'm) redis_scheme \<Rightarrow> (string \<Rightarrow> int option) \<Rightarrow> ('s, 'd, 'n) budget_connection_scheme \<Rightarrow> budget_handles \<times> 's \<Rightarrow> bool" where
  "client_ready ops tn conn st \<longleftrightarrow>
     budget_connection_laws ops tn conn \<and> (\<forall>attr sha. fst st attr = Some sha \<longrightarrow> (\<exists>s. fst (bk_load conn attr s) = Inr sha))"

lemma evalsha_law:
  assumes "budget_connection_laws ops tn conn" and "fst (bk_load conn attr s0) = Inr sha"
    and "bk_evalsha conn sha ks args s = (res, s')"
  shows "case res of
      Inr reply \<Rightarrow> reply = JArr (map JInt (fst (budget_script ops tn attr ks args (bk_data conn s))))
        \<and> bk_data conn s' = snd (budget_script ops tn attr ks args (bk_data conn s))
    | Inl e \<Rightarrow> bk_data conn s' = bk_data conn s
        \<or> bk_data conn s' = snd (budget_script ops tn attr ks args (bk_data conn s)) \<and> \<not> missing_script e"
proof -
  have "fst (bk_load conn attr s0) = Inr sha \<longrightarrow>
      (let (v, d) = budget_script ops tn attr ks args (bk_data conn s) in
       case bk_evalsha conn sha ks args s of
         (Inr reply, s') \<Rightarrow> reply = JArr (map JInt v) \<and> bk_data conn s' = d
       | (Inl e, s') \<Rightarrow> bk_data conn s' = bk_data conn s \<or> bk_data conn s' = d \<and> \<not> missing_script e)"
    using assms(1) unfolding budget_connection_laws_def by blast
  with assms(2,3) show ?thesis by (cases res) (simp_all add: case_prod_beta)
qed

lemma load_law:
  "budget_connection_laws ops tn conn \<Longrightarrow> bk_load conn attr s = (a, s') \<Longrightarrow> bk_data conn s' = bk_data conn s"
  unfolding budget_connection_laws_def by (metis snd_conv)

lemma ready_with: "client_ready ops tn conn (h, s) \<Longrightarrow> fst (bk_load conn attr q) = Inr sha \<Longrightarrow> client_ready ops tn conn (h(attr := Some sha), s')"
  by (auto simp: client_ready_def)

lemma ready_state: "client_ready ops tn conn (h, s) \<Longrightarrow> client_ready ops tn conn (h, s')"
  by (simp add: client_ready_def)

text \<open>The first call with a handle: a load when there is none.\<close>

lemma handle_ready:
  assumes "client_ready ops tn conn (h, s)"
    and "(case h attr of Some sha \<Rightarrow> (Inr sha, s) | None \<Rightarrow> bk_load conn attr s) = (a, s1)"
  shows "bk_data conn s1 = bk_data conn s" and "a = Inr sha \<Longrightarrow> \<exists>q. fst (bk_load conn attr q) = Inr sha"
  using assms by (auto simp: client_ready_def dest: load_law split: option.splits) (metis fst_conv)

text \<open>A call runs its script once when it answers, at most once when it raises.\<close>

lemma eval_unbounded_runs:
  assumes ready: "client_ready ops tn conn st" and run: "eval_unbounded conn attr ks args st = (res, st')"
  shows "case res of
      Inr v \<Rightarrow> v = JArr (map JInt (fst (budget_script ops tn attr ks args (bk_data conn (snd st)))))
        \<and> bk_data conn (snd st') = snd (budget_script ops tn attr ks args (bk_data conn (snd st))) \<and> client_ready ops tn conn st'
    | Inl e \<Rightarrow> (bk_data conn (snd st') = bk_data conn (snd st)
        \<or> bk_data conn (snd st') = snd (budget_script ops tn attr ks args (bk_data conn (snd st)))) \<and> client_ready ops tn conn st'"
proof -
  obtain h s where st: "st = (h, s)" by fastforce
  note ready = ready [unfolded st] and laws = conjunct1 [OF ready [unfolded client_ready_def]]
  obtain a s1 where a: "(case h attr of Some sha \<Rightarrow> (Inr sha, s) | None \<Rightarrow> bk_load conn attr s) = (a, s1)" by fastforce
  note first = handle_ready [OF ready [unfolded st] a]
  show ?thesis
  proof (cases a)
    case (Inl e)
    with a run st first(1) ready_state [OF ready [unfolded st]] show ?thesis by (auto simp: eval_unbounded_def)
  next
    case (Inr sha)
    then obtain q where q: "fst (bk_load conn attr q) = Inr sha" using first(2) by blast
    note r1 = ready_with [OF ready [unfolded st] q]
    obtain b s2 where b: "bk_evalsha conn sha ks args s1 = (b, s2)" by fastforce
    note l1 = evalsha_law [OF laws q b, unfolded first(1)]
    consider (answer) v where "b = Inr v" | (raised) e where "b = Inl e" "\<not> missing_script e"
      | (missing) e where "b = Inl e" "missing_script e" by (cases b) auto
    then show ?thesis
    proof cases
      case answer
      with a Inr b run st l1 r1 show ?thesis by (auto simp: eval_unbounded_def)
    next
      case raised
      with a Inr b run st l1 r1 show ?thesis by (auto simp: eval_unbounded_def)
    next
      case missing
      with l1 have same: "bk_data conn s2 = bk_data conn s" by simp
      obtain c s3 where c: "bk_load conn attr s2 = (c, s3)" by fastforce
      note l3 = load_law [OF laws c, unfolded same]
      show ?thesis
      proof (cases c)
        case (Inl e)
        with a Inr b missing c run st l3 r1 show ?thesis by (auto simp: eval_unbounded_def)
      next
        case sha2: (Inr sha2)
        then have q2: "fst (bk_load conn attr s2) = Inr sha2" using c by simp
        obtain d s4 where d: "bk_evalsha conn sha2 ks args s3 = (d, s4)" by fastforce
        note l4 = evalsha_law [OF laws q2 d, unfolded l3]
        have "st' = (h(attr := Some sha2), s4)" "res = d"
          using a Inr b missing c sha2 d run st by (auto simp: eval_unbounded_def)
        with l4 ready_with [OF ready [unfolded st] q2] st show ?thesis by (auto split: sum.splits)
      qed
    qed
  qed
qed

subsection \<open>The interface of the guard\<close>

text \<open>The reserve script as a guard calls it for a scope and its budget.\<close>

definition scope_reserve ::
  "('d, 'm) redis_scheme \<Rightarrow> (string \<Rightarrow> int option) \<Rightarrow> ScopeBudget \<Rightarrow> string \<Rightarrow> int \<Rightarrow> int \<Rightarrow> int \<Rightarrow> string \<Rightarrow> int \<Rightarrow> 'd script" where
  "scope_reserve ops tn b sc cap ttl est rid now =
     reserve_lua ops tn (budget_keys sc ! 0) (budget_keys sc ! 1) (budget_keys sc ! 2) now (window_seconds b * 1000) cap est rid ttl"

lemma admits_head:
  assumes "store_admits v" and "v = JArr (map JInt xs)"
  shows "hd xs = 1"
proof -
  obtain com res where "read_reply (JArr (map JInt xs)) = Inr (1, com, res)" using assms by (auto simp: store_admits_def)
  then show ?thesis by (cases xs) (auto simp: read_reply_def bind_exc_Inr_iff)
qed

locale script_client =
  fixes ops :: "('d, 'm) redis_scheme" and tn :: "string \<Rightarrow> int option"
    and ev :: "'s evaluator" and data :: "'s \<Rightarrow> 'd" and ready :: "'s \<Rightarrow> bool"
  assumes answered: "ready s \<Longrightarrow> ev attr ks args s = (Inr v, s') \<Longrightarrow>
      v = JArr (map JInt (fst (budget_script ops tn attr ks args (data s))))
      \<and> data s' = snd (budget_script ops tn attr ks args (data s)) \<and> ready s'"
    and raised: "ready s \<Longrightarrow> ev attr ks args s = (Inl e, s') \<Longrightarrow>
      (data s' = data s \<or> data s' = snd (budget_script ops tn attr ks args (data s))) \<and> ready s'"
begin

lemma store_eval_runs:
  assumes "guard_redis g = Some s" and "ready s" and "store_eval ev attr ks args g = (res, g')"
  obtains s' where "guard_redis g' = Some s'" and "ready s'"
    and "data s' = data s \<or> data s' = snd (budget_script ops tn attr ks args (data s))"
    and "\<And>v. res = Inr v \<Longrightarrow> v \<noteq> JArr [JStr ''corrupt''] \<Longrightarrow>
      v = JArr (map JInt (fst (budget_script ops tn attr ks args (data s))))
      \<and> data s' = snd (budget_script ops tn attr ks args (data s))"
proof (cases "force_unavailable g \<or> force_timeout g \<or> force_corrupt g")
  case True
  with assms have "g' = g" "\<And>v. res = Inr v \<Longrightarrow> v = JArr [JStr ''corrupt'']"
    by (auto simp: store_eval_def split: if_splits)
  with assms show thesis by (intro that [of s]) auto
next
  case False
  obtain a s' where e: "ev attr ks args s = (a, s')" by fastforce
  with False assms have g': "guard_redis g' = Some s'" and res: "res = a"
    by (auto simp: store_eval_def split: sum.splits)
  show thesis
  proof (cases a)
    case (Inl x)
    with raised [OF assms(2)] e res g' show thesis by (intro that [of s']) auto
  next
    case (Inr v)
    with answered [OF assms(2)] e res g' show thesis by (intro that [of s']) auto
  qed
qed

text \<open>
  A reservation through the guard: the scope's data is as it was or as the reserve script leaves
  it, and a reservation handed out is one the script answered 1 for.
\<close>

lemma reserve_redis_runs:
  assumes "guard_redis g = Some s" and "ready s" and "0 \<le> est"
    and "reserve_redis env ev sc b est policy rid now g = (answer, g')"
  obtains s' where "guard_redis g' = Some s'" and "ready s'" and "data s' = data s" and "\<And>d r. answer \<noteq> Inr (d, Some r)"
  | s' cap ttl where "guard_redis g' = Some s'" and "ready s'" and "budget_to_micros (budget_usd b) = Inr cap"
      and "data s' = snd (scope_reserve ops tn b sc cap ttl est rid now (data s))"
      and "\<And>d r. answer = Inr (d, Some r) \<Longrightarrow> res_id r = rid \<and> res_micros r = est
        \<and> hd (fst (scope_reserve ops tn b sc cap ttl est rid now (data s))) = 1"
proof (cases "\<exists>cap ttl. budget_to_micros (budget_usd b) = Inr cap \<and> ttl_ms_of b = Inr ttl")
  case False
  then obtain e where "reserve_redis env ev sc b est policy rid now g = (Inl e, g)"
    by (cases "budget_to_micros (budget_usd b)"; cases "ttl_ms_of b") (auto simp: reserve_redis_def)
  with assms show thesis by (intro that(1) [of s]) auto
next
  case True
  then obtain cap ttl where ct: "budget_to_micros (budget_usd b) = Inr cap" "ttl_ms_of b = Inr ttl" by blast
  let ?args = "[JInt now, JInt (window_seconds b * 1000), JInt cap, JInt est, JStr rid, JInt ttl]"
  let ?run = "scope_reserve ops tn b sc cap ttl est rid now (data s)"
  obtain res g1 where se: "store_eval ev ''_reserve_sha'' (budget_keys sc) ?args g = (res, g1)" by fastforce
  obtain s' where s': "guard_redis g1 = Some s'" "ready s'" and data: "data s' = data s \<or> data s' = snd ?run"
    and reply: "\<And>v. res = Inr v \<Longrightarrow> v \<noteq> JArr [JStr ''corrupt''] \<Longrightarrow> v = JArr (map JInt (fst ?run)) \<and> data s' = snd ?run"
    by (rule store_eval_runs [OF assms(1,2) se]) (simp add: scope_reserve_def)
  have run: "g' = g1" "answer = (case res of Inl e \<Rightarrow> Inl e | Inr v \<Rightarrow> interpret_reserve_result env v sc b est policy rid)"
    using assms(4) se ct by (auto simp: reserve_redis_def split: sum.splits)
  have won: "hd (fst ?run) = 1 \<and> data s' = snd ?run \<and> res_id r = rid \<and> res_micros r = est" if a: "answer = Inr (d, Some r)" for d r
  proof -
    obtain v where v: "res = Inr v" "interpret_reserve_result env v sc b est policy rid = Inr (d, Some r)"
      using run(2) a by (cases res) auto
    from interpret_cases [OF v(2) assms(3)] have adm: "store_admits v" and r: "reservation_for (Some r) sc b est rid"
      by (auto simp: denial_ok_def)
    have "v \<noteq> JArr [JStr ''corrupt'']" using adm corrupt_reply(1) by auto
    from reply [OF v(1) this] have d: "data s' = snd ?run" and vv: "v = JArr (map JInt (fst ?run))" by simp_all
    have "hd (fst ?run) = 1" using adm vv by (rule admits_head)
    with d r show ?thesis by (auto simp: reservation_for_def)
  qed
  show thesis
  proof (cases "\<exists>d r. answer = Inr (d, Some r)")
    case True
    then have "data s' = snd ?run" using won by blast
    with True won s' run(1) ct(1) show thesis by (intro that(2)) auto
  next
    case False
    from data show thesis
    proof
      assume "data s' = data s"
      with False s' run(1) show thesis by (intro that(1) [of s']) auto
    next
      assume "data s' = snd ?run"
      with False s' run(1) ct(1) show thesis by (intro that(2)) auto
    qed
  qed
qed

lemma guard_reserve_runs:
  assumes "guard_redis g = Some s" and "ready s" and "guard_policy g = Some policy"
    and "scope_for (sha256_hex env) policy tenant key = (sc, b)"
    and "guard_reserve env ev tenant model inp out key usd rid now g = ((d, x), g')"
  obtains s' where "guard_redis g' = Some s'" and "ready s'" and "x = None" and "data s' = data s"
  | s' est cap ttl where "guard_redis g' = Some s'" and "ready s'" and "0 \<le> est" and "budget_to_micros (budget_usd b) = Inr cap"
      and "data s' = snd (scope_reserve ops tn b sc cap ttl est rid now (data s))"
      and "\<And>r. x = Some r \<Longrightarrow> res_id r = rid \<and> res_micros r = est
        \<and> hd (fst (scope_reserve ops tn b sc cap ttl est rid now (data s))) = 1"
proof -
  note cases = that
  obtain est eo where est: "estimate_of policy model inp out usd = (est, eo)" by fastforce
  note run = assms(5) [unfolded guard_reserve_eq [OF assms(3,4) est] assms(1), simplified]
  have fault: "guard_redis g' = guard_redis gg \<and> x = None" if "reserve_fault env e sc b est policy gg = ((d, x), g')" for e gg
    using that by (auto simp: reserve_fault_def split: if_splits)
  show thesis
  proof (cases eo)
    case (Inl e)
    with run fault assms(1,2) show thesis by (intro cases(1) [of s]) auto
  next
    case (Inr n)
    then have nn: "0 \<le> est" using est by (auto dest: estimate_of_nonneg)
    obtain answer g1 where rr: "reserve_redis env ev sc b est policy rid now g = (answer, g1)" by fastforce
    with run Inr have run2: "(case answer of Inl e \<Rightarrow> reserve_fault env e sc b est policy g1 | Inr result \<Rightarrow> (result, g1)) = ((d, x), g')"
      by simp
    have g': "guard_redis g' = guard_redis g1" and x: "\<And>r. x = Some r \<Longrightarrow> answer = Inr (d, Some r)"
      using run2 fault by (auto split: sum.splits)
    show thesis
    proof (rule reserve_redis_runs [OF assms(1,2) nn rr])
      fix s' assume "guard_redis g1 = Some s'" "ready s'" "data s' = data s" "\<And>d r. answer \<noteq> Inr (d, Some r)"
      with g' x show thesis by (intro cases(1) [of s']) (auto intro: ccontr)
    next
      fix s' cap ttl
      assume *: "guard_redis g1 = Some s'" "ready s'" "budget_to_micros (budget_usd b) = Inr cap"
        "data s' = snd (scope_reserve ops tn b sc cap ttl est rid now (data s))"
        "\<And>d r. answer = Inr (d, Some r) \<Longrightarrow> res_id r = rid \<and> res_micros r = est
          \<and> hd (fst (scope_reserve ops tn b sc cap ttl est rid now (data s))) = 1"
      show thesis by (rule cases(2) [OF _ *(2) nn *(3,4)]) (use g' x * in auto)
    qed
  qed
qed

text \<open>A settlement: the data is as it was or as the settle script leaves it.\<close>

lemma guard_settle_runs:
  assumes "guard_redis g = Some s" and "ready s" and "guard_settle ev r actual now g = g'"
  obtains s' w where "guard_redis g' = Some s'" and "ready s'"
    and "data s' = data s \<or> data s' = snd (settle_lua ops tn (budget_keys (res_scope r) ! 0) (budget_keys (res_scope r) ! 1)
      (budget_keys (res_scope r) ! 2) (res_id r) (max 0 actual) now w (data s))"
proof -
  let ?w = "if res_window_ms r \<noteq> 0 then res_window_ms r else 3600000"
  obtain res g1 where se: "store_eval ev ''_settle_sha'' (budget_keys (res_scope r))
      [JStr (res_id r), JInt (max 0 actual), JInt now, JInt ?w] g = (res, g1)" by fastforce
  have g': "guard_redis g' = guard_redis g1"
    using assms(1,3) se by (auto simp: guard_settle_def Let_def split: sum.splits)
  show thesis
    by (rule store_eval_runs [OF assms(1,2) se]) (use g' in \<open>auto intro: that [where w = ?w]\<close>)
qed

end

subsection \<open>The client provides the interface\<close>

interpretation bc: script_client ops tn "eval_unbounded conn" "\<lambda>st. bk_data conn (snd st)" "client_ready ops tn conn"
  for ops :: "('d, 'm) redis_scheme" and tn and conn :: "('s, 'd, 'n) budget_connection_scheme"
proof unfold_locales
  have both: "case res of
        Inr v \<Rightarrow> v = JArr (map JInt (fst (budget_script ops tn attr ks args (bk_data conn (snd st)))))
          \<and> bk_data conn (snd st') = snd (budget_script ops tn attr ks args (bk_data conn (snd st))) \<and> client_ready ops tn conn st'
      | Inl e \<Rightarrow> (bk_data conn (snd st') = bk_data conn (snd st)
          \<or> bk_data conn (snd st') = snd (budget_script ops tn attr ks args (bk_data conn (snd st)))) \<and> client_ready ops tn conn st'"
    if ready: "client_ready ops tn conn st" and run: "eval_unbounded conn attr ks args st = (res, st')"
    for attr ks args and st st' :: "budget_handles \<times> 's" and res
    by (rule eval_unbounded_runs [OF ready run])
  show "v = JArr (map JInt (fst (budget_script ops tn attr ks args (bk_data conn (snd s)))))
      \<and> bk_data conn (snd s') = snd (budget_script ops tn attr ks args (bk_data conn (snd s))) \<and> client_ready ops tn conn s'"
    if "client_ready ops tn conn s" and "eval_unbounded conn attr ks args s = (Inr v, s')" for s attr ks args v s'
    using both [OF that] by simp
  show "(bk_data conn (snd s') = bk_data conn (snd s)
      \<or> bk_data conn (snd s') = snd (budget_script ops tn attr ks args (bk_data conn (snd s)))) \<and> client_ready ops tn conn s'"
    if "client_ready ops tn conn s" and "eval_unbounded conn attr ks args s = (Inl e, s')" for s attr ks args e s'
    using both [OF that] by simp
qed

end
