(* ===== verification/Budget_Client_Properties.thy ===== *)
theory Budget_Client_Properties imports Budget_Client begin

text \<open>
  The guard of one replica over the scripts in the Redis all replicas share: what an admission is
  worth there, whatever the connection does, and what becomes of the guard when the server lost
  the scripts it had loaded.
\<close>

subsection \<open>Scopes and their keys\<close>

abbreviation scope_lua_inv :: "('d, 'm) redis_scheme \<Rightarrow> (string \<Rightarrow> int option) \<Rightarrow> string \<Rightarrow> int \<Rightarrow> 'd \<Rightarrow> bool" where
  "scope_lua_inv ops tn sc w d \<equiv> lua_inv ops tn (budget_keys sc ! 0) (budget_keys sc ! 1) (budget_keys sc ! 2) w d"

definition scopes_ok :: "('d, 'm) redis_scheme \<Rightarrow> (string \<Rightarrow> int option) \<Rightarrow> 'd \<Rightarrow> bool" where
  "scopes_ok ops tn d \<longleftrightarrow> (\<forall>sc. scope_lua_inv ops tn sc 1 d)"

definition same_keys :: "('d, 'm) redis_scheme \<Rightarrow> string list \<Rightarrow> 'd \<Rightarrow> 'd \<Rightarrow> bool" where
  "same_keys ops ks d d' \<longleftrightarrow> (\<forall>k\<in>set ks. zsets ops d' k = zsets ops d k \<and> hashes ops d' k = hashes ops d k)"

lemma budget_keys_nth:
  "budget_keys sc ! 0 = ''arp:budget:'' @ sc @ '':window''" "budget_keys sc ! 1 = ''arp:budget:'' @ sc @ '':reservations''"
  "budget_keys sc ! 2 = ''arp:budget:'' @ sc @ '':amounts''" "set (budget_keys sc) = {budget_keys sc ! 0, budget_keys sc ! 1, budget_keys sc ! 2}"
  by (simp_all add: budget_keys_def)

lemma different_ends: "last u \<noteq> last v \<Longrightarrow> u \<noteq> [] \<Longrightarrow> v \<noteq> [] \<Longrightarrow> a @ u \<noteq> b @ v"
  by (metis last_appendR)

lemma scope_keys_apart: "sc' \<noteq> sc \<Longrightarrow> set (budget_keys sc') \<inter> set (budget_keys sc) = {}"
  using different_ends [of "'':window''" "'':reservations''"] different_ends [of "'':window''" "'':amounts''"]
  by (auto simp: budget_keys_def append_assoc [symmetric] simp del: append_assoc) 

lemma lua_inv_window: "lua_inv ops tn wk zk ak w d \<Longrightarrow> 0 < w' \<Longrightarrow> lua_inv ops tn wk zk ak w' d"
  by (simp add: lua_inv_def)

lemma lua_inv_cong:
  assumes "hashes ops d' wk = hashes ops d wk" and "hashes ops d' ak = hashes ops d ak" and "zsets ops d' zk = zsets ops d zk"
  shows "lua_inv ops tn wk zk ak w d' \<longleftrightarrow> lua_inv ops tn wk zk ak w d"
  unfolding lua_inv_def using assms by (simp add: load_cong [OF assms(1)])

text \<open>The scripts touch no other key.\<close>

lemma fold_tombstones_others:
  assumes "redis_laws ops"
  shows "zsets ops (fold (\<lambda>(i, a). hset ops ak i (tombstone_text a)) xs r) = zsets ops r"
    and "k \<noteq> ak \<Longrightarrow> hashes ops (fold (\<lambda>(i, a). hset ops ak i (tombstone_text a)) xs r) k = hashes ops r k"
  by (induction xs arbitrary: r) (auto simp: redis_rules [OF assms])

lemma expire_others:
  assumes "redis_laws ops" and "lua_expire ops tn zk ak now reserved r = (a, r')" and "k \<noteq> zk" and "k \<noteq> ak"
  shows "zsets ops r' k = zsets ops r k \<and> hashes ops r' k = hashes ops r k"
  using assms(2-) fold_tombstones_others [OF assms(1)]
  by (auto simp: lua_expire_def Let_def redis_rules [OF assms(1)] split: option.splits if_splits)

lemma write_others:
  assumes "redis_laws ops" and "k \<noteq> wk"
  shows "zsets ops (write_window ops wk ws c v r) = zsets ops r" "hashes ops (write_window ops wk ws c v r) k = hashes ops r k"
  using assms(2) by (simp_all add: write_window_def redis_rules [OF assms(1)])

lemma reserve_others:
  assumes "redis_laws ops" and "k \<notin> {wk, zk, ak}"
  shows "zsets ops (snd (reserve_lua ops tn wk zk ak now w cap est i ttl r)) k = zsets ops r k
    \<and> hashes ops (snd (reserve_lua ops tn wk zk ak now w cap est i ttl r)) k = hashes ops r k"
proof (cases "load_window ops tn wk r")
  case (Some t)
  obtain c v ws where t: "t = (c, v, ws)" by (cases t)
  obtain a r1 where e: "lua_expire ops tn zk ak now v r = (a, r1)" by fastforce
  note r1 = expire_others [OF assms(1) e, of k]
  obtain ws' c' where roll: "lua_roll now w ws c = (ws', c')" by fastforce
  show ?thesis
    using Some t e r1 roll assms(2)
    by (cases a) (auto simp: reserve_lua_def Let_def touch_facts [OF assms(1)] write_others [OF assms(1)] redis_rules [OF assms(1)])
qed (simp add: reserve_lua_def)

lemma settle_others:
  assumes "redis_laws ops" and "k \<notin> {wk, zk, ak}"
  shows "zsets ops (snd (settle_lua ops tn wk zk ak i actual now w r)) k = zsets ops r k
    \<and> hashes ops (snd (settle_lua ops tn wk zk ak i actual now w r)) k = hashes ops r k"
  using assms(2)
  by (auto simp: settle_lua_def Let_def write_others [OF assms(1)] redis_rules [OF assms(1)] split: option.splits prod.splits)

text \<open>A step on one scope that keeps its invariant and the other keys keeps every scope.\<close>

lemma scopes_step:
  assumes "scopes_ok ops tn d" and "scope_lua_inv ops tn sc w d'"
    and "\<And>k. k \<notin> set (budget_keys sc) \<Longrightarrow> zsets ops d' k = zsets ops d k \<and> hashes ops d' k = hashes ops d k"
  shows "scopes_ok ops tn d' \<and> (\<forall>sc'. sc' \<noteq> sc \<longrightarrow> same_keys ops (budget_keys sc') d d')"
proof -
  have same: "same_keys ops (budget_keys sc') d d'" if "sc' \<noteq> sc" for sc'
    using scope_keys_apart [OF that] assms(3) by (auto simp: same_keys_def)
  have "scope_lua_inv ops tn sc' 1 d'" for sc'
  proof (cases "sc' = sc")
    case True
    with lua_inv_window [OF assms(2), of 1] show ?thesis by simp
  next
    case False
    have "scope_lua_inv ops tn sc' 1 d' = scope_lua_inv ops tn sc' 1 d"
      using same [OF False] budget_keys_nth(4) [of sc'] by (intro lua_inv_cong) (auto simp: same_keys_def)
    with assms(1) show ?thesis by (simp add: scopes_ok_def)
  qed
  with same show ?thesis by (simp add: scopes_ok_def)
qed

lemma scopes_laws: "scopes_ok ops tn d \<Longrightarrow> redis_laws ops"
  by (auto simp: scopes_ok_def lua_inv_def)

subsection \<open>Admission\<close>

lemma scope_reserve_step:
  assumes "scopes_ok ops tn d" and "hget ops (budget_keys sc ! 2) rid d = None" and "0 \<le> est"
  shows "scopes_ok ops tn (snd (scope_reserve ops tn b sc cap ttl est rid now d))
    \<and> (\<forall>sc'. sc' \<noteq> sc \<longrightarrow> same_keys ops (budget_keys sc') d (snd (scope_reserve ops tn b sc cap ttl est rid now d)))"
proof (cases "0 < window_seconds b")
  case False
  then have "snd (scope_reserve ops tn b sc cap ttl est rid now d) = d" by (simp add: scope_reserve_def reserve_lua_def)
  with assms(1) show ?thesis by (simp add: same_keys_def)
next
  case True
  let ?w = "window_seconds b * 1000"
  have inv: "scope_lua_inv ops tn sc ?w d"
    using assms(1) True by (auto simp: scopes_ok_def intro: lua_inv_window [where w = 1])
  have unk: "lua_live ops tn (budget_keys sc ! 1) (budget_keys sc ! 2) d rid = None"
    "lua_late ops tn (budget_keys sc ! 1) (budget_keys sc ! 2) d rid = None"
    using assms(2) entries_okD [OF lua_inv_facts(5) [OF inv], of rid] by (simp_all add: lua_live_def lua_late_def hashes_def)
  show ?thesis
  proof (rule scopes_step [OF assms(1)])
    show "scope_lua_inv ops tn sc ?w (snd (scope_reserve ops tn b sc cap ttl est rid now d))"
      using reserve_inv_lua [OF inv assms(3) unk, of ttl now cap] by (simp add: scope_reserve_def lua_reserve_def case_prod_beta)
    show "zsets ops (snd (scope_reserve ops tn b sc cap ttl est rid now d)) k = zsets ops d k
        \<and> hashes ops (snd (scope_reserve ops tn b sc cap ttl est rid now d)) k = hashes ops d k"
      if "k \<notin> set (budget_keys sc)" for k
      unfolding scope_reserve_def
      using that budget_keys_nth(4) [of sc] by (intro reserve_others [OF scopes_laws [OF assms(1)]]) auto
  qed
qed

lemma scope_reserve_admits:
  assumes "scopes_ok ops tn d" and "hd (fst (scope_reserve ops tn b sc cap ttl est rid now d)) = 1"
    and "snd (scope_reserve ops tn b sc cap ttl est rid now d) = d'"
  shows "lua_live ops tn (budget_keys sc ! 1) (budget_keys sc ! 2) d' rid = Some est
    \<and> (\<exists>com res start. load_window ops tn (budget_keys sc ! 0) d' = Some (com, res, start) \<and> com + res \<le> cap)"
proof -
  let ?w = "window_seconds b * 1000"
  have "0 < window_seconds b" using assms(2) by (rule_tac ccontr) (simp add: scope_reserve_def reserve_lua_def)
  then have inv: "scope_lua_inv ops tn sc ?w d"
    using assms(1) by (auto simp: scopes_ok_def intro: lua_inv_window [where w = 1])
  note tn = lua_inv_facts(2) [OF inv]
  show ?thesis
    by (cases rule: reserve_lua_cases [OF inv, of now cap est rid ttl])
      (use assms(2,3) tn in \<open>auto simp: scope_reserve_def lua_live_def amount_of_def\<close>)
qed

text \<open>
  C5: an admission of a guard on Redis respects the dollar cap of the fleet. Whatever the connection
  does (loads, a lost script, a timeout before or after the script ran), a reservation call with a
  fresh id keeps every scope's stored totals equal to what its reservations hold and leaves the keys of
  the other scopes alone. When it admits, the server itself holds the reservation at its estimate,
  and the committed plus reserved micros stored for the scope are within \<open>budget_usd\<close> exactly.
\<close>

theorem fleet_admission_within_dollar_cap:
  assumes "client_ready ops tn conn (h, s)" and "guard_redis g = Some (h, s)" and "guard_policy g = Some policy"
    and "scope_for (sha256_hex env) policy tenant key = (sc, b)" and "float_repr (budget_usd b)"
    and "scopes_ok ops tn (bk_data conn s)" and "hget ops (budget_keys sc ! 2) rid (bk_data conn s) = None"
    and "guard_reserve env (eval_unbounded conn) tenant model inp out key usd rid now g = ((d, x), g')"
  shows "\<exists>h' s'. guard_redis g' = Some (h', s') \<and> client_ready ops tn conn (h', s') \<and> scopes_ok ops tn (bk_data conn s')
    \<and> (\<forall>sc'. sc' \<noteq> sc \<longrightarrow> same_keys ops (budget_keys sc') (bk_data conn s) (bk_data conn s'))
    \<and> (\<forall>r. x = Some r \<longrightarrow> res_id r = rid
        \<and> lua_live ops tn (budget_keys sc ! 1) (budget_keys sc ! 2) (bk_data conn s') rid = Some (res_micros r)
        \<and> (\<exists>com res start. load_window ops tn (budget_keys sc ! 0) (bk_data conn s') = Some (com, res, start)
             \<and> of_int (com + res) \<le> fval (budget_usd b) * 1000000))"
proof (rule bc.guard_reserve_runs [OF assms(2,1,3,4,8)])
  fix st' assume "guard_redis g' = Some st'" "client_ready ops tn conn st'" "x = None"
    "bk_data conn (snd st') = bk_data conn (snd (h, s))"
  with assms(6) show ?thesis by (cases st') (auto simp: same_keys_def)
next
  fix st' est cap ttl
  assume st': "guard_redis g' = Some st'" "client_ready ops tn conn st'"
    and est: "0 \<le> est" and cap: "budget_to_micros (budget_usd b) = Inr cap"
    and data: "bk_data conn (snd st') = snd (scope_reserve ops tn b sc cap ttl est rid now (bk_data conn (snd (h, s))))"
    and won: "\<And>r. x = Some r \<Longrightarrow> res_id r = rid \<and> res_micros r = est
      \<and> hd (fst (scope_reserve ops tn b sc cap ttl est rid now (bk_data conn (snd (h, s))))) = 1"
  obtain h' s' where p: "st' = (h', s')" by fastforce
  note data = data [unfolded p, simplified]
  have "of_int (com + res) \<le> fval (budget_usd b) * 1000000" if "com + res \<le> cap" for com res
  proof -
    have "of_int (com + res) \<le> (of_int cap :: rat)" using that by (simp only: of_int_le_iff)
    also have "\<dots> \<le> fval (budget_usd b) * 1000000" using budget_to_micros_floor [OF assms(5) cap] by simp
    finally show ?thesis .
  qed
  then have "\<exists>com res start. load_window ops tn (budget_keys sc ! 0) (bk_data conn s') = Some (com, res, start)
      \<and> of_int (com + res) \<le> fval (budget_usd b) * 1000000
      \<and> lua_live ops tn (budget_keys sc ! 1) (budget_keys sc ! 2) (bk_data conn s') rid = Some est" if "x = Some r" for r
    using scope_reserve_admits [OF assms(6) _ data [symmetric]] won [OF that] by (simp del: of_int_add) blast
  with won st' p scope_reserve_step [OF assms(6,7) est, of b cap ttl now] show ?thesis
    unfolding data [symmetric] by (intro exI [of _ h'] exI [of _ s']) fastforce
qed

text \<open>A settlement keeps the scopes as well.\<close>

lemma fleet_settle_keeps_scopes:
  assumes "client_ready ops tn conn (h, s)" and "guard_redis g = Some (h, s)" and "scopes_ok ops tn (bk_data conn s)"
  obtains h' s' where "guard_redis (guard_settle (eval_unbounded conn) r actual now g) = Some (h', s')"
    and "client_ready ops tn conn (h', s')" and "scopes_ok ops tn (bk_data conn s')"
    and "\<And>sc'. sc' \<noteq> res_scope r \<Longrightarrow> same_keys ops (budget_keys sc') (bk_data conn s) (bk_data conn s')"
proof (rule bc.guard_settle_runs [OF assms(2,1) refl, of r actual now])
  fix st' w
  let ?sc = "res_scope r" and ?d = "bk_data conn s"
  let ?run = "snd (settle_lua ops tn (budget_keys ?sc ! 0) (budget_keys ?sc ! 1) (budget_keys ?sc ! 2) (res_id r) (max 0 actual) now w ?d)"
  assume st': "guard_redis (guard_settle (eval_unbounded conn) r actual now g) = Some st'" "client_ready ops tn conn st'"
    and data: "bk_data conn (snd st') = bk_data conn (snd (h, s)) \<or> bk_data conn (snd st') =
      snd (settle_lua ops tn (budget_keys ?sc ! 0) (budget_keys ?sc ! 1) (budget_keys ?sc ! 2) (res_id r) (max 0 actual) now w (bk_data conn (snd (h, s))))"
  have run: "scopes_ok ops tn ?run \<and> (\<forall>sc'. sc' \<noteq> ?sc \<longrightarrow> same_keys ops (budget_keys sc') ?d ?run)"
  proof (cases "0 < w")
    case True
    then have inv: "scope_lua_inv ops tn ?sc w ?d"
      using assms(3) by (auto simp: scopes_ok_def intro: lua_inv_window [where w = 1])
    show ?thesis
    proof (rule scopes_step [OF assms(3)])
      show "scope_lua_inv ops tn ?sc w ?run"
        using settle_inv_lua [OF inv, of "max 0 actual" now "res_id r"] by (simp add: lua_settle_def)
      show "zsets ops ?run k = zsets ops ?d k \<and> hashes ops ?run k = hashes ops ?d k" if "k \<notin> set (budget_keys ?sc)" for k
        using that budget_keys_nth(4) [of ?sc] by (intro settle_others [OF scopes_laws [OF assms(3)]]) auto
    qed
  next
    case False
    with assms(3) show ?thesis by (simp add: settle_lua_def same_keys_def)
  qed
  obtain h' s' where p: "st' = (h', s')" by fastforce
  have "bk_data conn s' = ?d \<or> bk_data conn s' = ?run" using data p by simp
  with run assms(3) have "scopes_ok ops tn (bk_data conn s')"
    and "\<And>sc'. sc' \<noteq> ?sc \<Longrightarrow> same_keys ops (budget_keys sc') ?d (bk_data conn s')"
    by (auto simp: same_keys_def)
  with st' p show thesis by (intro that) simp_all
qed

subsection \<open>A concrete server\<close>

text \<open>
  An instance of the interface, used by the witnesses only: a server that keeps the scripts loaded
  into it until it restarts. \<open>message\<close> is the text of the exception the client library raises for an
  unknown handle, which the server itself words \<open>NOSCRIPT No matching script\<close>. The handle of a
  script is its name here.
\<close>

record 'd script_server =
  sv_data :: 'd
  sv_scripts :: "string list"

definition cached_connection ::
  "('d, 'm) redis_scheme \<Rightarrow> (string \<Rightarrow> int option) \<Rightarrow> string \<Rightarrow> ('d script_server, 'd) budget_connection" where
  "cached_connection ops tn message =
     \<lparr>bk_data = sv_data,
      bk_load = (\<lambda>attr s. (Inr attr, s\<lparr>sv_scripts := attr # sv_scripts s\<rparr>)),
      bk_evalsha = (\<lambda>sha ks args s.
        if sha \<in> set (sv_scripts s) then
          (case budget_script ops tn sha ks args (sv_data s) of (v, d) \<Rightarrow> (Inr (JArr (map JInt v)), s\<lparr>sv_data := d\<rparr>))
        else (Inl (OtherError message), s))\<rparr>"

lemma cached_connection_laws: "budget_connection_laws ops tn (cached_connection ops tn message)"
  by (auto simp: budget_connection_laws_def cached_connection_def case_prod_beta)

lemma cached_ready: "(\<forall>attr sha. h attr = Some sha \<longrightarrow> sha = attr) \<Longrightarrow> client_ready ops tn (cached_connection ops tn message) (h, s)"
  by (simp add: client_ready_def cached_connection_laws) (auto simp: cached_connection_def)

lemma fresh_scopes_ok:
  assumes "\<And>sc. fresh_scope \<lparr>ls_redis = ops, ls_tonumber = tn, ls_window = budget_keys sc ! 0, ls_zset = budget_keys sc ! 1,
    ls_amounts = budget_keys sc ! 2\<rparr> d"
  shows "scopes_ok ops tn d"
  using fresh_inv [OF assms, of 1] by (simp add: scopes_ok_def)

lemma empty_scopes_ok: "scopes_ok demo_redis parse_int empty_server"
  by (rule fresh_scopes_ok)
    (simp add: fresh_scope_def empty_server_def demo_redis_laws parse_show_int zsets_def hashes_def fun_eq_iff budget_keys_def,
     simp add: demo_redis_def)

definition demo_guard :: "(budget_handles \<times> demo_server script_server) InferenceBudgetGuard" where
  "demo_guard = init_guard (Some demo_policy) (Some (Map.empty, \<lparr>sv_data = empty_server, sv_scripts = []\<rparr>))"

abbreviation demo_eval :: "string \<Rightarrow> (budget_handles \<times> demo_server script_server) evaluator" where
  "demo_eval message \<equiv> eval_unbounded (cached_connection demo_redis parse_int message)"

theorem fleet_admission_within_dollar_cap_witness:
  "\<exists>d r g' h s. guard_reserve demo_env (demo_eval ''NOSCRIPT'') ''t'' ''qwen'' 10 20 None None ''id'' 5 demo_guard = ((d, Some r), g')
     \<and> guard_redis g' = Some (h, s) \<and> res_micros r = 33
     \<and> (\<exists>com res start. load_window demo_redis parse_int (budget_keys ''tenant:t'' ! 0) (sv_data s) = Some (com, res, start)
          \<and> of_int (com + res) \<le> (1000000 :: rat))"
proof -
  let ?ev = "demo_eval ''NOSCRIPT''" and ?s = "\<lparr>sv_data = empty_server, sv_scripts = []\<rparr>"
  let ?res = "guard_reserve demo_env ?ev ''t'' ''qwen'' 10 20 None None ''id'' 5 demo_guard"
  have "map_option res_micros (snd (fst ?res)) = Some 33" by code_simp
  then obtain r where some: "snd (fst ?res) = Some r" and r: "res_micros r = 33"
    unfolding map_option_eq_Some by blast
  obtain d g' where eq: "?res = ((d, Some r), g')" using some by (metis prod.collapse)
  have h1: "client_ready demo_redis parse_int (cached_connection demo_redis parse_int ''NOSCRIPT'') (Map.empty, ?s)"
    by (rule cached_ready) simp
  have h2: "guard_redis demo_guard = Some (Map.empty, ?s)" "guard_policy demo_guard = Some demo_policy"
    by (simp_all add: demo_guard_def init_guard_def)
  have h3: "scope_for (sha256_hex demo_env) demo_policy ''t'' None = (''tenant:t'', default_budget demo_policy)" by code_simp
  have h4: "float_repr (budget_usd (default_budget demo_policy))" by (simp add: demo_policy_def float_repr_def)
  have data: "bk_data (cached_connection demo_redis parse_int ''NOSCRIPT'') = sv_data" by (simp add: cached_connection_def)
  have h5: "scopes_ok demo_redis parse_int (bk_data (cached_connection demo_redis parse_int ''NOSCRIPT'') ?s)"
    by (simp add: data empty_scopes_ok)
  have h6: "hget demo_redis (budget_keys ''tenant:t'' ! 2) ''id'' (bk_data (cached_connection demo_redis parse_int ''NOSCRIPT'') ?s) = None"
    by (simp add: data) (simp add: demo_redis_def empty_server_def)
  have v: "fval (budget_usd (default_budget demo_policy)) = 1" by (simp add: demo_policy_def dec_val_def pow10_def)
  from fleet_admission_within_dollar_cap [OF h1 h2 h3 h4 h5 h6 eq] eq r show ?thesis
    unfolding v data by auto
qed

subsection \<open>A server that lost its scripts\<close>

record reserve_call =
  rq_tenant :: string
  rq_model :: string
  rq_input :: int
  rq_output :: int
  rq_key :: "string option"
  rq_usd :: "pyfloat option"
  rq_id :: string
  rq_now :: int

text \<open>
  Requests of one guard, and before each of them whatever other replicas and clients do to the
  server meanwhile: an arbitrary change of its state.
\<close>

definition meanwhile :: "('s \<Rightarrow> 's) \<Rightarrow> ('h \<times> 's) InferenceBudgetGuard \<Rightarrow> ('h \<times> 's) InferenceBudgetGuard" where
  "meanwhile others g = g\<lparr>guard_redis := map_option (map_prod id others) (guard_redis g)\<rparr>"

fun reserve_all ::
  "hash_env \<Rightarrow> ('h \<times> 's) evaluator \<Rightarrow> (('s \<Rightarrow> 's) \<times> reserve_call) list \<Rightarrow> ('h \<times> 's) InferenceBudgetGuard
    \<Rightarrow> (BudgetDecision \<times> BudgetReservation option) list \<times> ('h \<times> 's) InferenceBudgetGuard" where
  "reserve_all env ev [] g = ([], g)"
| "reserve_all env ev ((others, q) # qs) g =
     (case guard_reserve env ev (rq_tenant q) (rq_model q) (rq_input q) (rq_output q) (rq_key q) (rq_usd q) (rq_id q) (rq_now q)
        (meanwhile others g) of
        (answer, g) \<Rightarrow> (case reserve_all env ev qs g of (answers, g) \<Rightarrow> (answer # answers, g)))"

text \<open>
  What Redis documents of its script cache. \<open>known s sha\<close> says that the server of the connection state
  \<open>s\<close> has a script of that handle. An unknown handle is answered with an exception of the text
  \<open>message\<close>, unless the transport fails first, and changes nothing; a known one never is, and stays
  known; a handle \<open>SCRIPT LOAD\<close> answered is known.
\<close>

definition script_cache_laws ::
  "('s, 'd, 'm) budget_connection_scheme \<Rightarrow> ('s \<Rightarrow> string \<Rightarrow> bool) \<Rightarrow> string \<Rightarrow> bool" where
  "script_cache_laws conn known message \<longleftrightarrow>
     (\<forall>sha ks args s. \<not> known s sha \<longrightarrow>
        (\<exists>e s'. bk_evalsha conn sha ks args s = (Inl e, s') \<and> (e = OtherError message \<or> \<not> missing_script e)
          \<and> bk_data conn s' = bk_data conn s \<and> known s' = known s))
     \<and> (\<forall>sha ks args s res s'. known s sha \<longrightarrow> bk_evalsha conn sha ks args s = (res, s') \<longrightarrow>
          known s' = known s \<and> (\<forall>e. res = Inl e \<longrightarrow> \<not> missing_script e))
     \<and> (\<forall>attr s sha s'. bk_load conn attr s = (Inr sha, s') \<longrightarrow> known s' sha)"

lemma cache_unknown:
  "script_cache_laws conn known message \<Longrightarrow> \<not> known s sha \<Longrightarrow>
    \<exists>e s'. bk_evalsha conn sha ks args s = (Inl e, s') \<and> (e = OtherError message \<or> \<not> missing_script e)
      \<and> bk_data conn s' = bk_data conn s \<and> known s' = known s"
  by (simp add: script_cache_laws_def)

lemma cache_known:
  "script_cache_laws conn known message \<Longrightarrow> known s sha \<Longrightarrow> bk_evalsha conn sha ks args s = (res, s') \<Longrightarrow>
    known s' = known s \<and> (\<forall>e. res = Inl e \<longrightarrow> \<not> missing_script e)"
  by (simp add: script_cache_laws_def)

lemma cache_loaded: "script_cache_laws conn known message \<Longrightarrow> bk_load conn attr s = (Inr sha, s') \<Longrightarrow> known s' sha"
  by (simp add: script_cache_laws_def)

lemma cached_script_cache_laws:
  "script_cache_laws (cached_connection ops tn message) (\<lambda>s sha. sha \<in> set (sv_scripts s)) message"
  by (auto simp: script_cache_laws_def cached_connection_def case_prod_beta)

lemma fault_answer:
  "reserve_fault env e sc b est policy g = ((d, x), g') \<Longrightarrow>
    x = None \<and> status_code d = 503 \<and> guard_redis g' = guard_redis g \<and> guard_policy g' = guard_policy g"
  by (auto simp: reserve_fault_def deny_for_def split: if_splits)

lemma corrupt_answer:
  "interpret_reserve_result env (JArr [JStr ''corrupt'']) sc b est policy rid =
    Inr (deny_for env ''store_corrupt'' 503 sc b est policy 0 0, None)"
  by (simp add: interpret_reserve_result_def corrupt_reply(2))

text \<open>A guard whose evaluator always raises, keeping what makes it raise, denies and stays there.\<close>

lemma dead_store_answer:
  assumes dead: "\<And>ks args. \<exists>e s'. ev ''_reserve_sha'' ks args s = (Inl e, s') \<and> dead s'"
    and s: "dead s" and g: "guard_redis g = Some s" "guard_policy g = Some policy"
    and run: "guard_reserve env ev tenant model inp out key usd rid now g = ((d, x), g')"
  shows "x = None \<and> status_code d = 503 \<and> (\<exists>s'. guard_redis g' = Some s' \<and> dead s') \<and> guard_policy g' = Some policy"
proof -
  obtain sc b where sc: "scope_for (sha256_hex env) policy tenant key = (sc, b)" by fastforce
  obtain est eo where est: "estimate_of policy model inp out usd = (est, eo)" by fastforce
  obtain answer g1 where rr: "reserve_redis env ev sc b est policy rid now g = (answer, g1)" by fastforce
  have store: "(\<exists>s'. guard_redis g2 = Some s' \<and> dead s') \<and> guard_policy g2 = Some policy
      \<and> (a = Inr (JArr [JStr ''corrupt'']) \<or> (\<exists>e. a = Inl e))"
    if "store_eval ev ''_reserve_sha'' ks args g = (a, g2)" for ks args a g2
    using that g s dead [of ks args] by (auto simp: store_eval_def split: if_splits)
  have g1: "(\<exists>s'. guard_redis g1 = Some s' \<and> dead s') \<and> guard_policy g1 = Some policy \<and>
      (answer = Inr (deny_for env ''store_corrupt'' 503 sc b est policy 0 0, None) \<or> (\<exists>e. answer = Inl e))"
    using rr g s store by (fastforce simp: reserve_redis_def corrupt_answer split: sum.splits prod.splits)
  note run' = run [unfolded guard_reserve_eq [OF g(2) sc est] g(1), simplified]
  show ?thesis
  proof (cases eo)
    case (Inl e)
    with run' fault_answer [of env e sc b est policy g d x g'] g s show ?thesis by simp
  next
    case (Inr n)
    with run' rr g g1 show ?thesis
      by (cases answer) (use fault_answer [of env _ sc b est policy g1 d x g'] in \<open>auto simp: deny_for_def\<close>)
  qed
qed

text \<open>A cached handle the server does not know raises for ever when the message does not say so.\<close>

lemma unknown_handle_raises:
  assumes laws: "script_cache_laws conn known message" and silent: "\<not> contains ''NOSCRIPT'' (map upper_char message)"
    and h: "h attr = Some sha" and s: "\<not> known s sha"
  shows "\<exists>e s'. eval_unbounded conn attr ks args (h, s) = (Inl e, h, s') \<and> \<not> known s' sha"
proof -
  obtain e s' where e: "bk_evalsha conn sha ks args s = (Inl e, s')" "e = OtherError message \<or> \<not> missing_script e" "known s' = known s"
    using cache_unknown [OF laws s] by blast
  then have "\<not> missing_script e" using silent by (auto simp: missing_script_def)
  moreover have "h(attr := Some sha) = h" using h by auto
  ultimately show ?thesis using e s h by (auto simp: eval_unbounded_def)
qed

text \<open>
  C6: whether a guard survives the loss of its scripts depends on the wording of one exception.
  Suppose the guard has a handle of its reserve script which the server does not know any more, as
  after a restart of Redis. If the text of the client library's exception contains \<open>NOSCRIPT\<close> and
  the exception and the answer to a new \<open>SCRIPT LOAD\<close> reach the guard, its handle is the new one, which
  the server knows, and the call runs the reserve script: once if it answers, with the
  script's reply, and at most once if it raises. If the text does not contain \<open>NOSCRIPT\<close> (\<open>No matching
  script. Please use EVAL.\<close>, the server's text without its code), the guard never loads the script
  again: every request is denied with 503, however many come and whatever others do to the
  server in between, as long as nobody else loads this very script.
\<close>

theorem lost_scripts_recovery:
  assumes laws: "script_cache_laws conn known message"
    and h: "h ''_reserve_sha'' = Some sha" and lost: "\<not> known s sha"
    and g: "guard_redis g = Some (h, s)" "guard_policy g = Some policy"
  shows "(contains ''NOSCRIPT'' (map upper_char message) \<longrightarrow>
      (\<forall>ks args s1 sha2 s2 res h' s'. client_ready ops tn conn (h, s) \<longrightarrow>
         bk_evalsha conn sha ks args s = (Inl (OtherError message), s1) \<longrightarrow> bk_load conn ''_reserve_sha'' s1 = (Inr sha2, s2) \<longrightarrow>
         eval_unbounded conn ''_reserve_sha'' ks args (h, s) = (res, h', s') \<longrightarrow>
         h' ''_reserve_sha'' = Some sha2 \<and> known s' sha2
         \<and> (let (reply, d) = budget_script ops tn ''_reserve_sha'' ks args (bk_data conn s) in
            case res of Inr v \<Rightarrow> v = JArr (map JInt reply) \<and> bk_data conn s' = d
            | Inl e \<Rightarrow> \<not> missing_script e \<and> bk_data conn s' \<in> {bk_data conn s, d})))
    \<and> (\<not> contains ''NOSCRIPT'' (map upper_char message) \<longrightarrow>
      (\<forall>qs answers g'. (\<forall>(others, q)\<in>set qs. \<forall>s. \<not> known s sha \<longrightarrow> \<not> known (others s) sha) \<longrightarrow>
         reserve_all env (eval_unbounded conn) qs g = (answers, g') \<longrightarrow>
         (\<forall>(d, x)\<in>set answers. x = None \<and> status_code d = 503) \<and> (\<exists>s'. guard_redis g' = Some (h, s') \<and> \<not> known s' sha)))"
proof (intro conjI impI allI)
  fix ks args s1 sha2 s2 res h' s'
  assume says: "contains ''NOSCRIPT'' (map upper_char message)" and ready: "client_ready ops tn conn (h, s)"
    and e: "bk_evalsha conn sha ks args s = (Inl (OtherError message), s1)" and l: "bk_load conn ''_reserve_sha'' s1 = (Inr sha2, s2)"
    and run: "eval_unbounded conn ''_reserve_sha'' ks args (h, s) = (res, h', s')"
  have "missing_script (OtherError message)" using says by (simp add: missing_script_def)
  with run e l h have again: "bk_evalsha conn sha2 ks args s2 = (res, s')" and "h' ''_reserve_sha'' = Some sha2"
    by (auto simp: eval_unbounded_def split: prod.splits)
  moreover note cache_loaded [OF laws l] cache_known [OF laws cache_loaded [OF laws l] again]
  moreover note eval_unbounded_runs [OF ready run]
  ultimately show "h' ''_reserve_sha'' = Some sha2"
    and "known s' sha2"
    and "let (reply, d) = budget_script ops tn ''_reserve_sha'' ks args (bk_data conn s) in
        case res of Inr v \<Rightarrow> v = JArr (map JInt reply) \<and> bk_data conn s' = d
        | Inl e \<Rightarrow> \<not> missing_script e \<and> bk_data conn s' \<in> {bk_data conn s, d}"
    by (auto simp: case_prod_beta split: sum.splits)
next
  fix qs answers g'
  assume silent: "\<not> contains ''NOSCRIPT'' (map upper_char message)"
    and others: "\<forall>(others, q)\<in>set qs. \<forall>s. \<not> known s sha \<longrightarrow> \<not> known (others s) sha"
    and run: "reserve_all env (eval_unbounded conn) qs g = (answers, g')"
  let ?dead = "\<lambda>(h', s). h' = h \<and> \<not> known s sha"
  have "(\<forall>(d, x)\<in>set answers. x = None \<and> status_code d = 503) \<and> (\<exists>s'. guard_redis g' = Some s' \<and> ?dead s')"
    using others run lost g
  proof (induction qs arbitrary: g s answers)
    case (Cons oq qs)
    obtain m q where oq: "oq = (m, q)" by fastforce
    let ?g = "meanwhile m g"
    obtain d x g1 where r: "guard_reserve env (eval_unbounded conn) (rq_tenant q) (rq_model q) (rq_input q) (rq_output q) (rq_key q)
        (rq_usd q) (rq_id q) (rq_now q) ?g = ((d, x), g1)" by (metis surj_pair)
    have m: "\<not> known (m s) sha" using Cons.prems(1,3) oq by auto
    have mg: "guard_redis ?g = Some (h, m s)" "guard_policy ?g = Some policy"
      using Cons.prems(4,5) by (simp_all add: meanwhile_def)
    have "\<exists>e s'. eval_unbounded conn ''_reserve_sha'' ks args (h, m s) = (Inl e, s') \<and> ?dead s'" for ks args
      using unknown_handle_raises [where known = known and s = "m s" and h = h and sha = sha and attr = "''_reserve_sha''", OF laws silent h m, of ks args] by auto
    from dead_store_answer [where dead = ?dead, OF this _ mg r] m
    obtain s' where a: "x = None" "status_code d = 503" "guard_redis g1 = Some (h, s')" "\<not> known s' sha" "guard_policy g1 = Some policy"
      by auto
    obtain answers' g2 where rest: "reserve_all env (eval_unbounded conn) qs g1 = (answers', g2)" by fastforce
    with Cons.prems(2) oq r have e: "answers = (d, x) # answers'" "g2 = g'" by auto
    from Cons.IH [OF _ rest [unfolded e] a(4,3,5)] Cons.prems(1) a e show ?case by auto
  qed auto
  then show "\<forall>(d, x)\<in>set answers. x = None \<and> status_code d = 503" and "\<exists>s'. guard_redis g' = Some (h, s') \<and> \<not> known s' sha"
    by auto
qed

text \<open>
  The server restarts and forgets its scripts, the guard keeps its handle; two more requests come
  and another client writes in between.
\<close>

definition demo_request :: "string \<Rightarrow> int \<Rightarrow> reserve_call" where
  "demo_request rid now = \<lparr>rq_tenant = ''t'', rq_model = ''qwen'', rq_input = 10, rq_output = 20, rq_key = None, rq_usd = None,
     rq_id = rid, rq_now = now\<rparr>"

definition loaded_handles :: budget_handles where
  "loaded_handles = [''_reserve_sha'' \<mapsto> ''_reserve_sha'']"

definition restarted_server :: "demo_server script_server" where
  "restarted_server = \<lparr>sv_data = empty_server, sv_scripts = []\<rparr>"

definition restarted_guard :: "(budget_handles \<times> demo_server script_server) InferenceBudgetGuard" where
  "restarted_guard = init_guard (Some demo_policy) (Some (loaded_handles, restarted_server))"

definition demo_traffic :: "((demo_server script_server \<Rightarrow> demo_server script_server) \<times> reserve_call) list" where
  "demo_traffic = [(id, demo_request ''b'' 6), (\<lambda>s. s\<lparr>sv_data := hset demo_redis ''other'' ''f'' ''1'' (sv_data s)\<rparr>, demo_request ''c'' 7)]"

theorem lost_scripts_recovery_witness:
  "(case reserve_all demo_env (demo_eval ''No matching script. Please use EVAL.'') demo_traffic restarted_guard of
      (answers, g') \<Rightarrow> (\<forall>(d, x)\<in>set answers. x = None \<and> status_code d = 503))
   \<and> (case demo_eval ''NOSCRIPT No matching script. Please use EVAL.'' ''_reserve_sha'' (budget_keys ''tenant:t'')
        [JInt 6, JInt 3600000, JInt 1000000, JInt 33, JStr ''b'', JInt 120000] (loaded_handles, restarted_server) of
      (res, h', s') \<Rightarrow> ''_reserve_sha'' \<in> set (sv_scripts s'))"
proof -
  let ?args = "[JInt 6, JInt 3600000, JInt 1000000, JInt 33, JStr ''b'', JInt 120000]" and ?ks = "budget_keys ''tenant:t''"
  let ?no = "''No matching script. Please use EVAL.''" and ?yes = "''NOSCRIPT No matching script. Please use EVAL.''"
  let ?cc = "cached_connection demo_redis parse_int" and ?known = "\<lambda>s sha. sha \<in> set (sv_scripts s)"
  have h: "loaded_handles ''_reserve_sha'' = Some ''_reserve_sha''" "\<not> ?known restarted_server ''_reserve_sha''"
    "guard_redis restarted_guard = Some (loaded_handles, restarted_server)" "guard_policy restarted_guard = Some demo_policy"
    by (simp_all add: loaded_handles_def restarted_server_def restarted_guard_def init_guard_def)
  note recov = lost_scripts_recovery [OF cached_script_cache_laws h, where ops = demo_redis and tn = parse_int and env = demo_env]
  have no: "\<not> contains ''NOSCRIPT'' (map upper_char ?no)" and yes: "contains ''NOSCRIPT'' (map upper_char ?yes)" by code_simp+
  obtain answers g' where r: "reserve_all demo_env (demo_eval ?no) demo_traffic restarted_guard = (answers, g')" by fastforce
  have "\<forall>(others, q)\<in>set demo_traffic. \<forall>s. \<not> ?known s ''_reserve_sha'' \<longrightarrow> \<not> ?known (others s) ''_reserve_sha''"
    by (simp add: demo_traffic_def)
  with conjunct2 [OF recov, rule_format, OF no _ r] have 1: "\<forall>(d, x)\<in>set answers. x = None \<and> status_code d = 503" by blast
  have ready: "client_ready demo_redis parse_int (?cc ?yes) (loaded_handles, restarted_server)"
    by (rule cached_ready) (simp add: loaded_handles_def)
  obtain res h' s' where e: "demo_eval ?yes ''_reserve_sha'' ?ks ?args (loaded_handles, restarted_server) = (res, h', s')"
    by (metis surj_pair)
  have ev: "bk_evalsha (?cc ?yes) ''_reserve_sha'' ?ks ?args restarted_server = (Inl (OtherError ?yes), restarted_server)"
    and ld: "bk_load (?cc ?yes) ''_reserve_sha'' restarted_server = (Inr ''_reserve_sha'', restarted_server\<lparr>sv_scripts := [''_reserve_sha'']\<rparr>)"
    by (simp_all add: cached_connection_def restarted_server_def)
  from conjunct1 [OF recov, rule_format, OF yes ready ev ld e] have "?known s' ''_reserve_sha''" by blast
  with 1 r e show ?thesis by simp
qed

end
