(* ===== verification/Budget_Evidence.thy ===== *)
theory Budget_Evidence imports Budget_Guard_Properties Config begin

text \<open>
  \<open>app/gateway/budget_evidence.py\<close>, the evidence envelope of a budget decision, and from
  \<open>scripts/generate_budget_evidence.py\<close> the merge of a test run's evidence into the results file: the
  counts of the test report, the merged document and the rows kept of the previous evidence table.
  Canonical JSON, SHA-256 in hex, \<open>uuid4\<close> and the clock are parameters; the rendering of the Markdown
  page around the rows is not modelled.
\<close>

subsection \<open>The envelope\<close>

definition first_set :: "environ \<Rightarrow> string list \<Rightarrow> string option" where
  "first_set env ks = find (\<lambda>v. v \<noteq> []) (map (\<lambda>k. getenv env k []) ks)"

definition resolve_commit_sha :: "environ \<Rightarrow> string option \<Rightarrow> string" where
  "resolve_commit_sha env explicit =
     (if explicit \<noteq> None \<and> explicit \<noteq> Some [] then the explicit
      else (case first_set env [''GITHUB_SHA'', ''COMMIT_SHA'', ''GIT_COMMIT''] of None \<Rightarrow> ''unknown'' | Some v \<Rightarrow> v))"

definition SCHEMA_VERSION :: string where
  "SCHEMA_VERSION = ''1.0.0''"

definition DIGEST_FIELD :: string where
  "DIGEST_FIELD = ''envelope_sha256''"

definition envelope_digest :: "(obj \<Rightarrow> string) \<Rightarrow> (string \<Rightarrow> string) \<Rightarrow> obj \<Rightarrow> string" where
  "envelope_digest dumps sha envelope = ''sha256:'' @ sha (dumps (filter (\<lambda>p. fst p \<noteq> DIGEST_FIELD) envelope))"

definition decision_text :: "Decision \<Rightarrow> string" where
  "decision_text d = (case d of ALLOW \<Rightarrow> ''ALLOW'' | DENY \<Rightarrow> ''DENY'')"

definition dict_merge :: "('k, 'v) dict \<Rightarrow> ('k, 'v) dict \<Rightarrow> ('k, 'v) dict" where
  "dict_merge d e = fold (\<lambda>(k, v). dict_set k v) e d"

text \<open>\<open>trace_id or uuid4()\<close>, \<open>timestamp or utc_now_iso()\<close>: \<open>uuid\<close> and \<open>clock\<close> are what they would answer.\<close>

definition envelope_body ::
  "environ \<Rightarrow> string \<Rightarrow> string \<Rightarrow> BudgetDecision \<Rightarrow> string
    \<Rightarrow> string option \<Rightarrow> string option \<Rightarrow> string option \<Rightarrow> obj option \<Rightarrow> obj" where
  "envelope_body env uuid clock d scenario_id trace_id commit_sha timestamp details =
     (let verdict = (if decision d = ALLOW then ''ALLOW'' else ''BLOCK'');
          acs = (if decision d = ALLOW then ''ALLOW'' else ''DENY'')
      in
            [(''schema_version'', JStr SCHEMA_VERSION),
             (''policy_version'', JStr (str_or (decision_policy_version d) ''unknown'')),
             (''policy_sha256'', JStr (str_or (decision_policy_sha256 d) (''sha256:'' @ replicate 64 (CHR ''0'')))),
             (''scenario_id'', JStr scenario_id),
             (''decision'', JStr (decision_text (decision d))),
             (''verdict'', JStr verdict),
             (''acs_disposition'', JStr acs),
             (''reason'', JStr (reason d)),
             (''trace_id'', JStr (str_or (case trace_id of None \<Rightarrow> [] | Some t \<Rightarrow> t) uuid)),
             (''commit_sha'', JStr (resolve_commit_sha env commit_sha)),
             (''timestamp'', JStr (str_or (case timestamp of None \<Rightarrow> [] | Some t \<Rightarrow> t) clock)),
             (''details'', JObj (dict_merge
               [(''scope'', JStr (scope d)), (''estimated_usd'', JFloat (estimated_usd d)),
                (''reserved_usd'', JFloat (reserved_usd d)), (''committed_usd'', JFloat (committed_usd d)),
                (''budget_usd'', JFloat (decision_budget_usd d)), (''soft_warning'', JBool (soft_warning d)),
                (''status_code'', JInt (status_code d))]
               (case details of None \<Rightarrow> [] | Some x \<Rightarrow> x)))])"

definition build_budget_envelope ::
  "(obj \<Rightarrow> string) \<Rightarrow> (string \<Rightarrow> string) \<Rightarrow> environ \<Rightarrow> string \<Rightarrow> string \<Rightarrow> BudgetDecision \<Rightarrow> string
    \<Rightarrow> string option \<Rightarrow> string option \<Rightarrow> string option \<Rightarrow> obj option \<Rightarrow> obj" where
  "build_budget_envelope dumps sha env uuid clock d scenario_id trace_id commit_sha timestamp details =
     (let envelope = envelope_body env uuid clock d scenario_id trace_id commit_sha timestamp details
      in dict_set DIGEST_FIELD (JStr (envelope_digest dumps sha envelope)) envelope)"

text \<open>What a reader of the evidence recomputes.\<close>

definition envelope_verifies :: "(obj \<Rightarrow> string) \<Rightarrow> (string \<Rightarrow> string) \<Rightarrow> obj \<Rightarrow> bool" where
  "envelope_verifies dumps sha envelope \<longleftrightarrow> dict_get envelope DIGEST_FIELD = Some (JStr (envelope_digest dumps sha envelope))"

lemma filter_set_other: "filter (\<lambda>p. fst p \<noteq> k) (dict_set k v d) = filter (\<lambda>p. fst p \<noteq> k) d"
  by (induction d) auto

lemma envelope_digest_set: "envelope_digest dumps sha (dict_set DIGEST_FIELD v d) = envelope_digest dumps sha d"
  by (simp add: envelope_digest_def filter_set_other)

text \<open>
  An envelope verifies as it was built, says \<open>DENY\<close> and \<open>BLOCK\<close> for a denial and \<open>ALLOW\<close> throughout for an
  admission, and no other content under the same digest verifies unless the hash collides.
\<close>

theorem envelope_is_sound:
  fixes d :: BudgetDecision and dumps sha env uuid clock scenario trace commit stamp details
  defines "e \<equiv> build_budget_envelope dumps sha env uuid clock d scenario trace commit stamp details"
  shows "envelope_verifies dumps sha e
    \<and> (\<forall>k. envelope_verifies dumps sha changed \<and> dict_get changed DIGEST_FIELD = dict_get e DIGEST_FIELD
        \<and> (\<forall>x y. sha (dumps x) = sha (dumps y) \<longrightarrow> Map.map_of x = Map.map_of y) \<longrightarrow> dict_get changed k = dict_get e k)
    \<and> (dict_get e ''decision'' = Some (JStr ''DENY'') \<longleftrightarrow> decision d = DENY)
    \<and> (dict_get e ''verdict'' = Some (JStr ''BLOCK'') \<longleftrightarrow> decision d = DENY)
    \<and> (dict_get e ''acs_disposition'' = Some (JStr ''ALLOW'') \<longleftrightarrow> decision d = ALLOW)"
proof -
  have ver: "envelope_verifies dumps sha e"
    by (simp add: e_def build_budget_envelope_def Let_def envelope_verifies_def envelope_digest_set dict_get_set)
  have same: "dict_get changed k = dict_get e k"
    if "envelope_verifies dumps sha changed" "dict_get changed DIGEST_FIELD = dict_get e DIGEST_FIELD"
      and inj: "\<forall>x y. sha (dumps x) = sha (dumps y) \<longrightarrow> Map.map_of x = Map.map_of y" for k
  proof (cases "k = DIGEST_FIELD")
    case False
    let ?f = "filter (\<lambda>p. fst p \<noteq> DIGEST_FIELD)"
    have "Map.map_of (?f changed) = Map.map_of (?f e)"
    proof -
      have "sha (dumps (?f changed)) = sha (dumps (?f e))"
        using that(1,2) ver by (simp add: envelope_verifies_def envelope_digest_def)
      with inj show ?thesis by blast
    qed
    moreover have "Map.map_of (?f x) k = Map.map_of x k" for x :: obj using False by (induction x) auto
    ultimately show ?thesis by metis
  qed (use that(2) in simp)
  have fields: "dict_get e ''decision'' = Some (JStr (decision_text (decision d)))"
    "dict_get e ''verdict'' = Some (JStr (if decision d = ALLOW then ''ALLOW'' else ''BLOCK''))"
    "dict_get e ''acs_disposition'' = Some (JStr (if decision d = ALLOW then ''ALLOW'' else ''DENY''))"
    by (simp_all add: e_def build_budget_envelope_def Let_def dict_get_set DIGEST_FIELD_def envelope_body_def)
  have "(dict_get e ''decision'' = Some (JStr ''DENY'') \<longleftrightarrow> decision d = DENY)
    \<and> (dict_get e ''verdict'' = Some (JStr ''BLOCK'') \<longleftrightarrow> decision d = DENY)
    \<and> (dict_get e ''acs_disposition'' = Some (JStr ''ALLOW'') \<longleftrightarrow> decision d = ALLOW)"
    unfolding fields by (cases "decision d") (simp_all add: decision_text_def)
  with ver same show ?thesis by blast
qed

subsection \<open>The evidence of a test run\<close>

text \<open>\<open>int(suite.get(name, 0))\<close> on the attributes of the test suite.\<close>

definition suite_int :: "(string, string) dict \<Rightarrow> string \<Rightarrow> py_exc + int" where
  "suite_int suite name =
     (case dict_get suite name of None \<Rightarrow> Inr 0 | Some t \<Rightarrow> (case parse_int t of None \<Rightarrow> Inl ValueError | Some n \<Rightarrow> Inr n))"

definition junit_counts :: "(string, string) dict \<Rightarrow> py_exc + obj" where
  "junit_counts suite =
     bind_exc (suite_int suite ''tests'') (\<lambda>total.
     bind_exc (suite_int suite ''failures'') (\<lambda>f.
     bind_exc (suite_int suite ''errors'') (\<lambda>e.
     bind_exc (suite_int suite ''skipped'') (\<lambda>skipped.
       Inr [(''tests'', JInt total), (''passed'', JInt (total - (f + e) - skipped)), (''failed'', JInt (f + e)),
            (''skipped'', JInt skipped)]))))"

lemma junit_counts_add_up:
  "junit_counts suite = Inr c \<Longrightarrow> \<exists>t p f s. c = [(''tests'', JInt t), (''passed'', JInt p), (''failed'', JInt f), (''skipped'', JInt s)]
    \<and> t = p + f + s"
  by (auto simp: junit_counts_def bind_exc_Inr_iff)

text \<open>
  \<open>partial[key]\<close>, \<open>dict(value)\<close> and \<open>len(value)\<close> of decoded JSON. A list given to \<open>dict\<close> would have to hold
  pairs; the evidence of the test run holds objects there, and anything else is refused.
\<close>

definition obj_item :: "obj \<Rightarrow> string \<Rightarrow> py_exc + json" where
  "obj_item d k = (case dict_get d k of None \<Rightarrow> Inl KeyError | Some v \<Rightarrow> Inr v)"

fun obj_copy :: "json \<Rightarrow> py_exc + obj" where
  "obj_copy (JObj d) = Inr d"
| "obj_copy v = Inl TypeError"

fun json_len :: "json \<Rightarrow> py_exc + int" where
  "json_len (JArr xs) = Inr (int (length xs))"
| "json_len (JObj d) = Inr (int (length d))"
| "json_len (JStr s) = Inr (int (length s))"
| "json_len v = Inl TypeError"

text \<open>What is bound to a name is an object; a scalar there raises on assignment.\<close>

definition metrics_of :: "obj \<Rightarrow> py_exc + obj" where
  "metrics_of existing = (case dict_get existing ''metrics'' of None \<Rightarrow> Inr [] | Some v \<Rightarrow> obj_copy v)"

definition run_url :: "environ \<Rightarrow> string" where
  "run_url env =
     (if getenv env ''GITHUB_RUN_ID'' [] \<noteq> [] then
        ''https://github.com/'' @ getenv env ''GITHUB_REPOSITORY'' ''justrunme/ai-runtime-platform''
          @ ''/actions/runs/'' @ getenv env ''GITHUB_RUN_ID'' []
      else ''(local)'')"

text \<open>\<open>previous\<close> is the decoded results file: none, not JSON (both start afresh) or its object.\<close>

definition merge_results :: "environ \<Rightarrow> string \<Rightarrow> obj option \<Rightarrow> obj \<Rightarrow> py_exc + obj" where
  "merge_results env measured_at previous part =
     (let existing = (case previous of None \<Rightarrow> [] | Some d \<Rightarrow> d) in
      bind_exc (bind_exc (obj_item part ''concurrency'') obj_copy) (\<lambda>conc0.
      let conc = dict_pop ''results'' conc0 in
      bind_exc (obj_item part ''suite'') (\<lambda>suite.
      bind_exc (obj_item part ''scope'') (\<lambda>sc.
      bind_exc (obj_item part ''policy_version'') (\<lambda>version.
      bind_exc (obj_item part ''policy_sha256'') (\<lambda>sha.
      bind_exc (obj_item part ''envelopes'') (\<lambda>envelopes.
      bind_exc (json_len envelopes) (\<lambda>n.
      bind_exc (obj_item part ''false_deny_count_legitimate'') (\<lambda>false_deny.
      bind_exc (obj_item part ''limits'') (\<lambda>limits.
      let guard = [(''suite'', suite), (''scope'', sc), (''measured_at'', JStr measured_at), (''source_run'', JStr (run_url env)),
             (''commit_sha'', jget part ''commit_sha''), (''policy_version'', version), (''policy_sha256'', sha),
             (''scenario_count'', JInt n), (''false_deny_count_legitimate'', false_deny),
             (''test_counts'', get_default part ''test_counts'' (JObj [])),
             (''real_redis'', JBool (getenv env ''BUDGET_GUARD_REDIS_URL'' [] \<noteq> [])),
             (''concurrency'', JObj conc), (''limits'', limits), (''envelopes'', envelopes)];
          existing = dict_set ''budget_guard'' (JObj guard) existing;
          existing = (if dict_get existing ''repo'' = None then dict_set ''repo'' (JStr ''ai-runtime-platform'') existing else existing)
      in
      bind_exc (metrics_of existing) (\<lambda>metrics.
      bind_exc (obj_item conc ''overspend_events'') (\<lambda>overspend.
      bind_exc (bind_exc (obj_item conc ''real_redis_multiprocess'') obj_copy) (\<lambda>real.
      bind_exc (obj_item real ''rounds'') (\<lambda>rounds.
        Inr (dict_set ''metrics''
          (JObj (dict_set ''budget_guard_real_redis_rounds'' rounds (dict_set ''budget_guard_overspend_events'' overspend
            (dict_set ''budget_guard_false_deny'' false_deny metrics)))) existing)))))))))))))))"

lemma merge_keeps_other_results:
  assumes "merge_results env stamp previous part = Inr merged" and "k \<notin> {''budget_guard'', ''metrics'', ''repo''}"
  shows "dict_get merged k = (case previous of None \<Rightarrow> None | Some d \<Rightarrow> dict_get d k)"
  using assms by (auto simp: merge_results_def Let_def bind_exc_Inr_iff dict_get_set split: option.splits if_splits)

text \<open>
  The rows of the previous table that are kept: those under its header, up to the first line that is no
  row, without the separator and without rows of the budget guard itself.
\<close>

definition about_budget_guard :: "string \<Rightarrow> bool" where
  "about_budget_guard line \<longleftrightarrow> contains ''Inference budget guard'' line \<or> contains ''budget guard'' (lower line)"

fun table_rows :: "string list \<Rightarrow> string list" where
  "table_rows [] = []"
| "table_rows (line # rest) =
     (if startswith line ''| Claim | Status |'' then table_rows rest
      else if \<not> startswith line ''|'' then []
      else if startswith line ''| ---'' then table_rows rest
      else if about_budget_guard line then table_rows rest
      else line # table_rows rest)"

fun prior_rows :: "string list \<Rightarrow> string list" where
  "prior_rows [] = []"
| "prior_rows (line # rest) = (if startswith line ''| Claim | Status |'' then table_rows rest else prior_rows rest)"

text \<open>The header and the rule under it, as the page is written.\<close>

definition table_header :: string where
  "table_header = ''| Claim | Status | Scenario + environment | Real limits | Proof link | Negative tests |''"

definition table_rule :: string where
  "table_rule = ''| --- | --- | --- | --- | --- | --- |''"

definition table_line :: "string \<Rightarrow> bool" where
  "table_line line \<longleftrightarrow> startswith line ''|'' \<and> \<not> startswith line ''| ---'' \<and> \<not> startswith line ''| Claim | Status |''
     \<and> \<not> about_budget_guard line"

lemma table_rows_lines: "\<forall>l\<in>set (table_rows ls). table_line l"
  by (induction ls) (auto simp: table_line_def)

lemma table_rows_append:
  assumes "\<forall>l\<in>set rows. table_line l"
  shows "table_rows (rows @ rest) = rows @ table_rows rest"
  using assms by (induction rows) (auto simp: table_line_def)

lemma table_rows_guard:
  "\<forall>l\<in>set ours. startswith l ''|'' \<and> about_budget_guard l \<Longrightarrow> table_rows (ours @ [] # rest) = []"
  by (induction ours) (auto simp: startswith_def)

text \<open>
  Regenerating the page loses no claim of anybody else: when the page is written with the kept rows,
  the budget guard's own rows after them and a blank line, the next run keeps exactly the same rows.
\<close>

theorem regeneration_keeps_other_claims:
  assumes "\<forall>l\<in>set heading. \<not> startswith l ''| Claim | Status |''"
    and "\<forall>l\<in>set ours. startswith l ''|'' \<and> about_budget_guard l"
  shows "prior_rows (heading @ [table_header, table_rule] @ prior_rows old @ ours @ [] # rest) = prior_rows old"
proof -
  have rows: "\<forall>l\<in>set (prior_rows old). table_line l"
    by (induction old) (auto dest: bspec [OF table_rows_lines])
  have "prior_rows (heading @ t) = prior_rows t" for t
    using assms(1) by (induction heading) auto
  moreover have "startswith table_header ''| Claim | Status |''" "startswith table_rule ''| ---''"
    "startswith table_rule ''|''" "\<not> startswith table_rule ''| Claim | Status |''"
    by code_simp+
  ultimately show ?thesis
    by (simp add: table_rows_append [OF rows] table_rows_guard [OF assms(2)])
qed

end
