(* ===== verification/Canary.thy ===== *)
theory Canary imports Config "HOL-Library.Char_ord" "HOL-Library.List_Lexorder" begin

text \<open>
  \<open>experiments/canary-analysis/analyze.py\<close>, the recommendation to promote, hold or roll back a canary
  from its metrics, and the percentile of \<open>scripts/slo_benchmark.py\<close>. The CSV reader is given by its
  header and rows; \<open>float()\<close> and the printing of floats are parameters. Floats are finite and exact.
\<close>

record comparison =
  cm_primary :: string
  cm_canary :: string
  cm_requests :: rat
  cm_primary_latency :: rat
  cm_canary_latency :: rat
  cm_primary_errors :: rat
  cm_canary_errors :: rat
  cm_primary_cost :: rat
  cm_canary_cost :: rat

record thresholds =
  max_latency_regression :: rat
  max_error_regression :: rat
  max_cost_regression :: rat
  min_latency_improvement :: rat

definition default_thresholds :: thresholds where
  "default_thresholds = \<lparr>max_latency_regression = 10, max_error_regression = 5, max_cost_regression = 15,
     min_latency_improvement = 5\<rparr>"

subsection \<open>Reading the rows\<close>

text \<open>The required columns in the order in which the missing ones are named.\<close>

definition REQUIRED_COLUMNS :: "string list" where
  "REQUIRED_COLUMNS = [''canary_cost_usd'', ''canary_error_rate'', ''canary_model'', ''canary_p95_latency_ms'',
     ''primary_cost_usd'', ''primary_error_rate'', ''primary_model'', ''primary_p95_latency_ms'', ''sample_requests'']"

datatype row_error = MissingColumns "string list" | NotANumber

text \<open>\<open>float(row[key])\<close>; a cell missing at the end of a row is \<open>None\<close>, which \<open>float\<close> refuses.\<close>

definition float_cell :: "(string \<Rightarrow> rat option) \<Rightarrow> (string, string option) dict \<Rightarrow> string \<Rightarrow> row_error + rat" where
  "float_cell to_number row key =
     (case get_default row key None of
        None \<Rightarrow> Inl NotANumber
      | Some t \<Rightarrow> (case to_number t of None \<Rightarrow> Inl NotANumber | Some x \<Rightarrow> Inr x))"

definition text_cell :: "(string, string option) dict \<Rightarrow> string \<Rightarrow> string" where
  "text_cell row key = (case get_default row key None of None \<Rightarrow> [] | Some t \<Rightarrow> t)"

definition bind_row :: "row_error + 'a \<Rightarrow> ('a \<Rightarrow> row_error + 'b) \<Rightarrow> row_error + 'b" where
  "bind_row x f = (case x of Inl e \<Rightarrow> Inl e | Inr v \<Rightarrow> f v)"

definition load_row :: "(string \<Rightarrow> rat option) \<Rightarrow> (string, string option) dict \<Rightarrow> row_error + comparison" where
  "load_row fl row =
     bind_row (float_cell fl row ''sample_requests'') (\<lambda>n.
     bind_row (float_cell fl row ''primary_p95_latency_ms'') (\<lambda>pl.
     bind_row (float_cell fl row ''canary_p95_latency_ms'') (\<lambda>cl.
     bind_row (float_cell fl row ''primary_error_rate'') (\<lambda>pe.
     bind_row (float_cell fl row ''canary_error_rate'') (\<lambda>ce.
     bind_row (float_cell fl row ''primary_cost_usd'') (\<lambda>pc.
     bind_row (float_cell fl row ''canary_cost_usd'') (\<lambda>cc.
       Inr \<lparr>cm_primary = text_cell row ''primary_model'', cm_canary = text_cell row ''canary_model'', cm_requests = n,
            cm_primary_latency = pl, cm_canary_latency = cl, cm_primary_errors = pe, cm_canary_errors = ce,
            cm_primary_cost = pc, cm_canary_cost = cc\<rparr>)))))))"

fun load_each :: "(string \<Rightarrow> rat option) \<Rightarrow> (string, string option) dict list \<Rightarrow> row_error + comparison list" where
  "load_each fl [] = Inr []"
| "load_each fl (row # rows) = bind_row (load_row fl row) (\<lambda>c. bind_row (load_each fl rows) (\<lambda>cs. Inr (c # cs)))"

definition load_rows ::
  "(string \<Rightarrow> rat option) \<Rightarrow> string list option \<Rightarrow> (string, string option) dict list \<Rightarrow> row_error + comparison list" where
  "load_rows fl fieldnames rows =
     (let missing = filter (\<lambda>c. c \<notin> set (case fieldnames of None \<Rightarrow> [] | Some fs \<Rightarrow> fs)) REQUIRED_COLUMNS in
      if missing \<noteq> [] then Inl (MissingColumns missing) else load_each fl rows)"

lemma required_columns_sorted: "sorted REQUIRED_COLUMNS" "distinct REQUIRED_COLUMNS"
  by code_simp+

subsection \<open>The recommendation\<close>

definition percent_delta :: "rat \<Rightarrow> rat \<Rightarrow> rat" where
  "percent_delta primary canary =
     (if primary = 0 then (if canary = 0 then 0 else 100) else round_to 2 ((canary - primary) / primary * 100))"

datatype recommendation = Promote | Hold | Rollback

text \<open>From the best to the worst.\<close>

instantiation recommendation :: linorder
begin

definition less_eq_recommendation :: "recommendation \<Rightarrow> recommendation \<Rightarrow> bool" where
  "less_eq_recommendation a b \<longleftrightarrow> a = Promote \<or> b = Rollback \<or> a = b"

definition less_recommendation :: "recommendation \<Rightarrow> recommendation \<Rightarrow> bool" where
  "less_recommendation a b \<longleftrightarrow> a \<le> b \<and> \<not> b \<le> (a :: recommendation)"

instance
proof
  fix a b c :: recommendation
  show "a \<le> a" by (simp add: less_eq_recommendation_def)
  show "a < b \<longleftrightarrow> a \<le> b \<and> \<not> b \<le> a" by (simp add: less_recommendation_def)
  show "a \<le> b \<Longrightarrow> b \<le> c \<Longrightarrow> a \<le> c" by (auto simp: less_eq_recommendation_def)
  show "a \<le> b \<Longrightarrow> b \<le> a \<Longrightarrow> a = b" by (auto simp: less_eq_recommendation_def)
  show "a \<le> b \<or> b \<le> a" by (cases a; cases b) (simp_all add: less_eq_recommendation_def)
qed

end

record verdict =
  vd_row :: comparison
  vd_promote :: bool
  vd_recommendation :: recommendation
  vd_reason :: string
  vd_latency :: rat
  vd_errors :: rat
  vd_cost :: rat

fun join_with :: "string \<Rightarrow> string list \<Rightarrow> string" where
  "join_with sep [] = []"
| "join_with sep [s] = s"
| "join_with sep (s # t # ss) = s @ sep @ join_with sep (t # ss)"

definition guardrail_reasons :: "(rat \<Rightarrow> string) \<Rightarrow> thresholds \<Rightarrow> rat \<Rightarrow> rat \<Rightarrow> rat \<Rightarrow> string list" where
  "guardrail_reasons fmt t latency errors cost =
     (if latency > max_latency_regression t then [''canary p95 latency +'' @ fmt latency @ ''%''] else [])
     @ (if errors > max_error_regression t then [''canary error rate +'' @ fmt errors @ ''%''] else [])
     @ (if cost > max_cost_regression t then [''canary cost +'' @ fmt cost @ ''%''] else [])"

definition recommend_verdict :: "(rat \<Rightarrow> string) \<Rightarrow> thresholds \<Rightarrow> comparison \<Rightarrow> verdict" where
  "recommend_verdict fmt t row =
     (let latency = percent_delta (cm_primary_latency row) (cm_canary_latency row);
          errors = percent_delta (cm_primary_errors row) (cm_canary_errors row);
          cost = percent_delta (cm_primary_cost row) (cm_canary_cost row);
          reasons = guardrail_reasons fmt t latency errors cost;
          (recommendation, promote, rsn) =
            (if reasons \<noteq> [] then
               (if latency > 0 \<or> errors > 0 then Rollback else Hold, False, join_with '', '' reasons)
             else if latency \<le> - min_latency_improvement t \<and> errors \<le> 0 \<and> cost \<le> max_cost_regression t then
               (Promote, True, ''canary p95 latency '' @ fmt latency @ ''%, error rate '' @ fmt errors @ ''%, cost '' @ fmt cost @ ''%'')
             else
               (Hold, False, ''canary is within guardrails but does not beat primary enough to promote (latency '' @ fmt latency
                  @ ''%, error '' @ fmt errors @ ''%, cost '' @ fmt cost @ ''%)''))
      in \<lparr>vd_row = row, vd_promote = promote, vd_recommendation = recommendation, vd_reason = rsn,
          vd_latency = latency, vd_errors = errors, vd_cost = cost\<rparr>)"

definition recommendation_count :: "verdict list \<Rightarrow> recommendation \<Rightarrow> nat" where
  "recommendation_count analyses r = length (filter (\<lambda>v. vd_recommendation v = r) analyses)"

definition build_result ::
  "(string \<Rightarrow> rat option) \<Rightarrow> (rat \<Rightarrow> string) \<Rightarrow> thresholds \<Rightarrow> string list option \<Rightarrow> (string, string option) dict list
    \<Rightarrow> row_error + (recommendation \<Rightarrow> nat) \<times> verdict list" where
  "build_result fl fmt t fieldnames rows =
     bind_row (load_rows fl fieldnames rows) (\<lambda>cs.
       let analyses = map (recommend_verdict fmt t) cs in Inr (recommendation_count analyses, analyses))"

subsection \<open>What a recommendation means\<close>

lemma round_to_bounds: "round_to n q \<le> q + 1 / (2 * 10 ^ n)" "q - 1 / (2 * 10 ^ n) \<le> round_to n q"
proof -
  have pos: "(0::rat) < 10 ^ n" by simp
  have "of_int (round_half_even (q * 10 ^ n)) / 10 ^ n \<le> (q * 10 ^ n + 1 / 2) / (10 ^ n :: rat)"
    "(q * 10 ^ n - 1 / 2) / (10 ^ n :: rat) \<le> of_int (round_half_even (q * 10 ^ n)) / 10 ^ n"
    using round_half_even_bounds [of "q * 10 ^ n"] by (intro divide_right_mono; simp)+
  then show "round_to n q \<le> q + 1 / (2 * 10 ^ n)" "q - 1 / (2 * 10 ^ n) \<le> round_to n q"
    by (simp_all add: round_to_def add_divide_distrib diff_divide_distrib)
qed

lemma round_half_even_mono: "a \<le> b \<Longrightarrow> round_half_even a \<le> round_half_even b"
proof (rule ccontr)
  assume ab: "a \<le> b" and "\<not> round_half_even a \<le> round_half_even b"
  then have gt: "of_int (round_half_even b) + 1 \<le> (of_int (round_half_even a) :: rat)" by linarith
  with round_half_even_bounds [of a] round_half_even_bounds [of b] ab have eq: "a = b" by linarith
  with gt show False by simp
qed

lemma percent_delta_le:
  assumes "0 < p" and "percent_delta p c \<le> x"
  shows "c \<le> p * (1 + (x + 5 / 1000) / 100)"
proof -
  have "(c - p) / p * 100 - 1 / (2 * 10 ^ 2) \<le> x"
    using round_to_bounds(2) [of "(c - p) / p * 100" 2] assms by (simp add: percent_delta_def)
  then have "(c - p) / p * 100 \<le> x + 5 / 1000" by simp
  with assms(1) show ?thesis by (simp add: field_simps)
qed

lemma recommend_cases:
  obtains (violated) "guardrail_reasons fmt t (vd_latency (recommend_verdict fmt t row)) (vd_errors (recommend_verdict fmt t row))
        (vd_cost (recommend_verdict fmt t row)) \<noteq> []"
      and "\<not> vd_promote (recommend_verdict fmt t row)" and "vd_recommendation (recommend_verdict fmt t row) \<noteq> Promote"
  | (promoted) "vd_promote (recommend_verdict fmt t row)" and "vd_recommendation (recommend_verdict fmt t row) = Promote"
      and "vd_latency (recommend_verdict fmt t row) \<le> - min_latency_improvement t" and "vd_errors (recommend_verdict fmt t row) \<le> 0"
      and "vd_cost (recommend_verdict fmt t row) \<le> max_cost_regression t"
  | (held) "\<not> vd_promote (recommend_verdict fmt t row)" and "vd_recommendation (recommend_verdict fmt t row) = Hold"
  by (fastforce simp: recommend_verdict_def Let_def split: if_splits)

text \<open>
  A promoted canary is better where it counts, in the measured numbers and not only in the rounded
  percentages: its latency is below the primary's by the required improvement, its error rate is not
  above the primary's and its cost within the allowed regression, each up to the five thousandths of
  a percent that rounding may hide.
\<close>

theorem promoted_canary_is_better:
  assumes "vd_promote (recommend_verdict fmt t row)"
    and "0 < cm_primary_latency row" and "0 < cm_primary_errors row" and "0 < cm_primary_cost row"
  shows "cm_canary_latency row \<le> cm_primary_latency row * (1 + (- min_latency_improvement t + 5 / 1000) / 100)
    \<and> cm_canary_errors row \<le> cm_primary_errors row * (1 + 5 / 100000)
    \<and> cm_canary_cost row \<le> cm_primary_cost row * (1 + (max_cost_regression t + 5 / 1000) / 100)"
proof -
  have d: "vd_latency (recommend_verdict fmt t row) = percent_delta (cm_primary_latency row) (cm_canary_latency row)"
    "vd_errors (recommend_verdict fmt t row) = percent_delta (cm_primary_errors row) (cm_canary_errors row)"
    "vd_cost (recommend_verdict fmt t row) = percent_delta (cm_primary_cost row) (cm_canary_cost row)"
    by (simp_all add: recommend_verdict_def Let_def)
  from assms(1) show ?thesis
  proof (cases rule: recommend_cases [of fmt t row])
    case promoted
    note b = promoted(3-5) [unfolded d]
    from percent_delta_le [OF assms(2) b(1)] percent_delta_le [OF assms(3) b(2)] percent_delta_le [OF assms(4) b(3)]
    show ?thesis by simp
  qed simp_all
qed

text \<open>
  No canary gains by getting worse: with thresholds that are not negative, a canary whose latency,
  error rate and cost are all at least those of another, against the same primary, is not recommended
  higher.
\<close>

lemma percent_delta_mono:
  assumes "0 \<le> p" and "0 \<le> c" and "c \<le> c'"
  shows "percent_delta p c \<le> percent_delta p c'"
proof (cases "p = 0")
  case True
  with assms show ?thesis by (simp add: percent_delta_def)
next
  case False
  with assms have "(c - p) / p * 100 \<le> (c' - p) / p * 100" by (simp add: divide_right_mono)
  then have "(c - p) / p * 100 * 10 ^ 2 \<le> (c' - p) / p * 100 * 10 ^ 2" by (rule mult_right_mono) simp
  from round_half_even_mono [OF this] False show ?thesis by (simp add: percent_delta_def round_to_def divide_right_mono)
qed

lemma recommendation_of:
  "vd_recommendation (recommend_verdict fmt t row) =
    (let l = percent_delta (cm_primary_latency row) (cm_canary_latency row); e = percent_delta (cm_primary_errors row) (cm_canary_errors row);
         c = percent_delta (cm_primary_cost row) (cm_canary_cost row)
     in if l > max_latency_regression t \<or> e > max_error_regression t \<or> c > max_cost_regression t
        then (if l > 0 \<or> e > 0 then Rollback else Hold)
        else if l \<le> - min_latency_improvement t \<and> e \<le> 0 then Promote else Hold)"
  by (auto simp: recommend_verdict_def Let_def guardrail_reasons_def)

definition worse :: "comparison \<Rightarrow> comparison \<Rightarrow> bool" where
  "worse row row' \<longleftrightarrow>
     cm_primary_latency row' = cm_primary_latency row \<and> cm_primary_errors row' = cm_primary_errors row
     \<and> cm_primary_cost row' = cm_primary_cost row
     \<and> 0 \<le> cm_primary_latency row \<and> 0 \<le> cm_primary_errors row \<and> 0 \<le> cm_primary_cost row
     \<and> 0 \<le> cm_canary_latency row \<and> 0 \<le> cm_canary_errors row \<and> 0 \<le> cm_canary_cost row
     \<and> cm_canary_latency row \<le> cm_canary_latency row' \<and> cm_canary_errors row \<le> cm_canary_errors row'
     \<and> cm_canary_cost row \<le> cm_canary_cost row'"

theorem worse_canary_not_rated_better:
  assumes "worse row row'" and "0 \<le> max_latency_regression t" and "0 \<le> max_error_regression t" and "0 \<le> min_latency_improvement t"
  shows "vd_recommendation (recommend_verdict fmt t row) \<le> vd_recommendation (recommend_verdict fmt t row')"
proof -
  have "percent_delta (cm_primary_latency row) (cm_canary_latency row) \<le> percent_delta (cm_primary_latency row) (cm_canary_latency row')"
    "percent_delta (cm_primary_errors row) (cm_canary_errors row) \<le> percent_delta (cm_primary_errors row) (cm_canary_errors row')"
    "percent_delta (cm_primary_cost row) (cm_canary_cost row) \<le> percent_delta (cm_primary_cost row) (cm_canary_cost row')"
    using assms(1) by (auto simp: worse_def intro: percent_delta_mono)
  with assms show ?thesis
    unfolding recommendation_of Let_def by (auto simp: worse_def less_eq_recommendation_def)
qed

text \<open>A primary without errors: one error of the canary is a regression of a hundred percent.\<close>

lemma error_free_primary_vetoes:
  assumes "cm_primary_errors row = 0" and "cm_canary_errors row \<noteq> 0" and "max_error_regression t < 100"
  shows "vd_recommendation (recommend_verdict fmt t row) = Rollback"
  using assms by (auto simp: recommend_verdict_def Let_def percent_delta_def guardrail_reasons_def)

lemma counts_add_up:
  "recommendation_count vs Promote + recommendation_count vs Hold + recommendation_count vs Rollback = length vs"
proof (induction vs)
  case (Cons v vs)
  then show ?case by (cases "vd_recommendation v") (simp_all add: recommendation_count_def)
qed (simp add: recommendation_count_def)

lemma promoted_iff_recommended: "vd_promote (recommend_verdict fmt t row) \<longleftrightarrow> vd_recommendation (recommend_verdict fmt t row) = Promote"
  by (cases rule: recommend_cases [of fmt t row]) simp_all

text \<open>
  The first sample row. The README quotes latency and cost as its reasons; the error rate, a quarter
  higher, is the second of three.
\<close>

definition sample_row :: comparison where
  "sample_row = \<lparr>cm_primary = ''qwen2.5:1.5b'', cm_canary = ''llama3.2:1b'', cm_requests = 1200, cm_primary_latency = 420,
     cm_canary_latency = 556, cm_primary_errors = 12 / 1000, cm_canary_errors = 15 / 1000, cm_primary_cost = 84 / 100,
     cm_canary_cost = 99 / 100\<rparr>"

lemma sample_row_has_three_reasons:
  "guardrail_reasons (\<lambda>_. ''N'') default_thresholds (vd_latency (recommend_verdict (\<lambda>_. ''N'') default_thresholds sample_row))
     (vd_errors (recommend_verdict (\<lambda>_. ''N'') default_thresholds sample_row)) (vd_cost (recommend_verdict (\<lambda>_. ''N'') default_thresholds sample_row))
   = [''canary p95 latency +N%'', ''canary error rate +N%'', ''canary cost +N%'']"
  "vd_errors (recommend_verdict (\<lambda>_. ''N'') default_thresholds sample_row) = 25"
  by code_simp+

subsection \<open>The percentile of the benchmark\<close>

definition percentile :: "rat list \<Rightarrow> rat \<Rightarrow> rat" where
  "percentile samples pct =
     (if samples = [] then 0
      else (let ordered = sort samples;
                index = min (int (length ordered) - 1) (max 0 (round_half_even (pct / 100 * of_int (int (length ordered) - 1))))
            in ordered ! nat index))"

theorem percentile_sound:
  assumes "samples \<noteq> []"
  shows "percentile samples pct \<in> set samples \<and> (pct \<le> pct' \<longrightarrow> percentile samples pct \<le> percentile samples pct')
    \<and> percentile samples 100 = Max (set samples)"
proof -
  let ?o = "sort samples" and ?n = "int (length samples) - 1"
  let ?i = "\<lambda>p. nat (min ?n (max 0 (round_half_even (p / 100 * of_int ?n))))"
  have p: "percentile samples q = ?o ! ?i q" for q using assms by (simp add: percentile_def Let_def)
  have n: "0 \<le> ?n" using assms by (cases samples) simp_all
  have lt: "?i q < length ?o" for q
  proof -
    have "?i q \<le> nat ?n" by (rule nat_mono) simp
    also have "\<dots> < length ?o" using n by (simp add: nat_less_iff)
    finally show ?thesis .
  qed
  have mono: "?i pct \<le> ?i pct'" if "pct \<le> pct'"
  proof -
    have n': "0 \<le> (of_int ?n :: rat)" using n by (simp only: of_int_0_le_iff)
    have "pct / 100 * of_int ?n \<le> pct' / 100 * of_int ?n"
      by (rule mult_right_mono [OF _ n']) (use that in simp)
    from round_half_even_mono [OF this] show ?thesis by (intro nat_mono min.mono max.mono) simp_all
  qed
  have mem: "percentile samples q \<in> set samples" for q using nth_mem [OF lt [of q]] by (simp add: p)
  have "round_half_even (of_int ?n) = ?n" 
    using round_half_even_mono_int(1) [of "of_int ?n" ?n] round_half_even_mono_int(2) [of ?n "of_int ?n"] by linarith
  moreover have "100 / 100 * of_int ?n = (of_int ?n :: rat)" by simp
  ultimately have "?i 100 = nat (min ?n (max 0 ?n))" by (simp only:)
  also have "\<dots> = length samples - 1" using n by (simp add: nat_diff_distrib)
  finally have last: "percentile samples 100 = ?o ! (length samples - 1)" unfolding p by (rule arg_cong)
  have "x \<le> percentile samples 100" if "x \<in> set samples" for x
  proof -
    have "x \<in> set ?o" using that by simp
    then obtain k where k: "k < length ?o" "?o ! k = x" unfolding in_set_conv_nth by blast
    then have "k \<le> length samples - 1" "length samples - 1 < length ?o" using assms by auto
    then have "?o ! k \<le> ?o ! (length samples - 1)" by (rule sorted_nth_mono [OF sorted_sort])
    with k(2) last show ?thesis by simp
  qed
  with mem [of 100] have "percentile samples 100 = Max (set samples)" by (intro Max_eqI [symmetric]) simp_all
  moreover have "percentile samples pct \<le> percentile samples pct'" if "pct \<le> pct'"
    unfolding p by (rule sorted_nth_mono [OF sorted_sort mono [OF that] lt])
  ultimately show ?thesis using mem by blast
qed

end
