(* ===== verification/Replay_Cli.thy ===== *)
theory Replay_Cli imports Decisions begin

text \<open>
  \<open>app/cli/replay.py\<close>, the operator's view of a recorded decision, and the tree it prints
  (\<open>format_decision_tree\<close> of \<open>app/gateway/decisions.py\<close>). A line of the tree is its branch and its text:
  the box-drawing characters lie outside the characters modelled. The HTTP client, the JSON parser and
  printer and the \<open>repr\<close> of floats are parameters; the argument parser is left out.
\<close>

subsection \<open>The tree\<close>

datatype branch = Plain | Tee | Corner

type_synonym tree_line = "branch \<times> string"

text \<open>\<open>data[key]\<close> printed, and \<open>data.get(key, default)\<close> printed.\<close>

definition shown_item :: "(json \<Rightarrow> string) \<Rightarrow> obj \<Rightarrow> string \<Rightarrow> py_exc + string" where
  "shown_item rep data key = (case dict_get data key of None \<Rightarrow> Inl KeyError | Some v \<Rightarrow> Inr (py_str rep v))"

definition shown_get :: "(json \<Rightarrow> string) \<Rightarrow> obj \<Rightarrow> string \<Rightarrow> string \<Rightarrow> string" where
  "shown_get rep data key dflt = (case dict_get data key of None \<Rightarrow> dflt | Some v \<Rightarrow> py_str rep v)"

text \<open>\<open>lines[-1].replace(tee, corner, 1)\<close>\<close>

definition close_last :: "tree_line list \<Rightarrow> tree_line list" where
  "close_last lines = (if lines = [] then [] else butlast lines @ [(Corner, snd (last lines))])"

definition format_decision_tree :: "(json \<Rightarrow> string) \<Rightarrow> obj \<Rightarrow> py_exc + tree_line list" where
  "format_decision_tree rep data =
     bind_exc (shown_item rep data ''request_id'') (\<lambda>rid.
     bind_exc (shown_item rep data ''requested_model'') (\<lambda>requested.
     bind_exc (shown_item rep data ''selected_backend'') (\<lambda>selected.
     bind_exc (shown_item rep data ''routing_reason'') (\<lambda>rsn.
     bind_exc (shown_item rep data ''fallback_used'') (\<lambda>fallback.
     bind_exc (shown_item rep data ''duration_ms'') (\<lambda>duration.
       let lines =
             [(Plain, ''request_id: '' @ rid), (Plain, ''requested:  '' @ requested), (Tee, ''selected: '' @ selected),
              (Tee, ''reason:   '' @ rsn), (Tee, ''fallback: '' @ fallback),
              (Tee, ''health:   '' @ shown_get rep data ''health_score'' ''n/a''), (Tee, ''latency:  '' @ duration @ '' ms'')];
           lines = lines @ (if jget data ''estimated_cost'' \<noteq> JNull
                            then [(Tee, ''cost:     $'' @ py_str rep (jget data ''estimated_cost''))] else []);
           shadow = jget data ''shadow_backend''
       in Inr (if py_bool shadow then
                 lines @ [(Corner, ''shadow:   '' @ py_str rep shadow @ '' ('' @ shown_get rep data ''shadow_outcome'' ''unknown''
                   @ '', '' @ py_str rep (jget data ''shadow_duration_ms'') @ '' ms)'')]
               else close_last lines)))))))"

text \<open>The lookup endpoint's answer, \<open>asdict(record)\<close>.\<close>

definition jfloat_opt :: "pyfloat option \<Rightarrow> json" where
  "jfloat_opt v = (case v of None \<Rightarrow> JNull | Some x \<Rightarrow> JFloat x)"

definition decision_dict :: "DecisionRecord \<Rightarrow> obj" where
  "decision_dict r =
     [(''request_id'', JStr (dr_request_id r)), (''requested_model'', JStr (dr_requested_model r)),
      (''selected_backend'', JStr (dr_selected_backend r)), (''routing_reason'', JStr (dr_routing_reason r)),
      (''fallback_used'', JBool (dr_fallback_used r)),
      (''health_score'', case dr_health_score r of None \<Rightarrow> JNull | Some n \<Rightarrow> JInt n),
      (''duration_ms'', JFloat (dr_duration_ms r)), (''shadow_backend'', jstr_opt (dr_shadow_backend r)),
      (''shadow_duration_ms'', jfloat_opt (dr_shadow_duration_ms r)), (''shadow_outcome'', jstr_opt (dr_shadow_outcome r)),
      (''estimated_cost'', jfloat_opt (dr_estimated_cost r)), (''stream_outcome'', jstr_opt (dr_stream_outcome r)),
      (''stream_ttft_ms'', jfloat_opt (dr_stream_ttft_ms r)),
      (''control_plane_decision_id'', jstr_opt (dr_control_plane_decision_id r)), (''approval_id'', jstr_opt (dr_approval_id r)),
      (''policy_bundle_id'', jstr_opt (dr_policy_bundle_id r)), (''policy_digest'', jstr_opt (dr_policy_digest r)),
      (''request_digest'', jstr_opt (dr_request_digest r)), (''control_plane_version'', jstr_opt (dr_control_plane_version r)),
      (''runtime_version'', jstr_opt (dr_runtime_version r)), (''enforcement_outcome'', jstr_opt (dr_enforcement_outcome r)),
      (''tenant_id'', jstr_opt (dr_tenant_id r)), (''recorded_at'', JFloat (dr_recorded_at r))]"

subsection \<open>The command\<close>

datatype http_result = Body string | HttpError int | UrlError string

datatype cli_exit = SystemExit string | Raised py_exc

definition fetch_url :: "string \<Rightarrow> string \<Rightarrow> string" where
  "fetch_url gateway_url request_id = rstrip_char (CHR ''/'') gateway_url @ ''/v1/decisions/'' @ request_id"

definition fetch_decision :: "(string \<Rightarrow> http_result) \<Rightarrow> (string \<Rightarrow> py_exc + obj) \<Rightarrow> string \<Rightarrow> string \<Rightarrow> cli_exit + obj" where
  "fetch_decision urlopen parse gateway_url request_id =
     (case urlopen (fetch_url gateway_url request_id) of
        Body t \<Rightarrow> map_sum Raised id (parse t)
      | HttpError code \<Rightarrow>
          if code = 404 then Inl (SystemExit (''routing decision not found for request_id='' @ request_id))
          else Inl (SystemExit (''gateway returned HTTP '' @ show_int code))
      | UrlError rsn \<Rightarrow> Inl (SystemExit (''failed to reach gateway at '' @ gateway_url @ '': '' @ rsn)))"

text \<open>What is printed: the raw JSON or the tree.\<close>

definition replay_main ::
  "(string \<Rightarrow> http_result) \<Rightarrow> (string \<Rightarrow> py_exc + obj) \<Rightarrow> (obj \<Rightarrow> string) \<Rightarrow> (json \<Rightarrow> string) \<Rightarrow> string \<Rightarrow> string \<Rightarrow> bool
    \<Rightarrow> cli_exit + (string + tree_line list)" where
  "replay_main urlopen parse dumps rep gateway request_id as_json =
     (case fetch_decision urlopen parse gateway request_id of
        Inl e \<Rightarrow> Inl e
      | Inr data \<Rightarrow> if as_json then Inr (Inl (dumps data)) else map_sum Raised Inr (format_decision_tree rep data))"

subsection \<open>Properties\<close>

definition well_drawn :: "tree_line list \<Rightarrow> bool" where
  "well_drawn lines \<longleftrightarrow> (\<exists>n. map fst lines = Plain # Plain # replicate n Tee @ [Corner])"

lemma tees:
  "\<exists>n. [Plain, Plain, Tee, Tee, Tee, Tee, Corner] = Plain # Plain # replicate n Tee @ [Corner]"
  "\<exists>n. [Plain, Plain, Tee, Tee, Tee, Tee, Tee, Corner] = Plain # Plain # replicate n Tee @ [Corner]"
  "\<exists>n. [Plain, Plain, Tee, Tee, Tee, Tee, Tee, Tee, Corner] = Plain # Plain # replicate n Tee @ [Corner]"
  by (rule exI [of _ 4], simp add: eval_nat_numeral, rule exI [of _ 5], simp add: eval_nat_numeral,
      rule exI [of _ 6], simp add: eval_nat_numeral)

lemma format_drawn:
  assumes "format_decision_tree rep data = Inr lines"
  shows "well_drawn lines"
proof -
  have "map fst lines \<in> {Plain # Plain # [Tee, Tee, Tee, Tee, Corner], Plain # Plain # [Tee, Tee, Tee, Tee, Tee, Corner],
      Plain # Plain # [Tee, Tee, Tee, Tee, Tee, Tee, Corner]}"
    using assms
    by (cases "py_bool (jget data ''shadow_backend'')"; cases "jget data ''estimated_cost'' = JNull")
      (auto simp: format_decision_tree_def bind_exc_Inr_iff Let_def close_last_def)
  with tees show ?thesis unfolding well_drawn_def by auto
qed

text \<open>
  Every decision the gateway recorded can be replayed: the endpoint's answer prints as a tree, never
  fails for a missing key, and the tree is drawn to its end, with a corner at the last line only.
\<close>

theorem recorded_decision_is_printed:
  assumes "urlopen (fetch_url gateway rid) = Body t" and "parse t = Inr (decision_dict r)"
  shows "\<exists>lines. replay_main urlopen parse dumps rep gateway rid False = Inr (Inr lines) \<and> well_drawn lines"
proof -
  have "\<exists>lines. format_decision_tree rep (decision_dict r) = Inr lines"
    by (simp add: format_decision_tree_def shown_item_def decision_dict_def Let_def)
  then obtain lines where l: "format_decision_tree rep (decision_dict r) = Inr lines" ..
  with format_drawn [OF l] assms show ?thesis by (simp add: replay_main_def fetch_decision_def)
qed

text \<open>
  The defaults of the tree never show: the record has every key, so a decision without a health score
  prints \<open>None\<close> where the tree means \<open>n/a\<close>, and a pending shadow prints \<open>None\<close> for \<open>unknown\<close>.
\<close>

lemma missing_score_prints_none:
  assumes "dr_health_score r = None"
  shows "shown_get rep (decision_dict r) ''health_score'' ''n/a'' = ''None''"
  using assms by (simp add: shown_get_def decision_dict_def)

lemma pending_shadow_prints_none:
  assumes "dr_shadow_outcome r = None"
  shows "shown_get rep (decision_dict r) ''shadow_outcome'' ''unknown'' = ''None''"
  using assms by (simp add: shown_get_def decision_dict_def jstr_opt_def)

end
