(* ===== verification/Mock_Control_Plane.thy ===== *)
theory Mock_Control_Plane imports Py_Values begin

text \<open>
  \<open>deploy/e2e/mocks/mock_control_plane.py\<close>, the stub the end-to-end tests run the gateway against: what it
  evaluates, and its approvals, bound to a request and granted once per approval. Canonical JSON and
  SHA-256 in hex are parameters.
\<close>

datatype approval_status = Pending | Approved | Consumed

record approval_record =
  ap_status :: approval_status
  ap_request_digest :: string
  ap_policy_digest :: string

type_synonym approvals = "(string, approval_record) dict"

definition MATERIAL_FIELDS :: "string list" where
  "MATERIAL_FIELDS = [''team'', ''owner'', ''environment'', ''namespace'', ''action'', ''model'', ''provider'', ''prompt_text'',
     ''cost_per_hour_usd'', ''sensitive_data'', ''tool_access'', ''write_permission'']"

definition mock_request_digest :: "(obj \<Rightarrow> string) \<Rightarrow> (string \<Rightarrow> string) \<Rightarrow> obj \<Rightarrow> string" where
  "mock_request_digest dumps sha payload = sha (dumps (map (\<lambda>f. (f, jget payload f)) MATERIAL_FIELDS))"

text \<open>\<open>str(payload.get("prompt_text") or "").lower()\<close>\<close>

definition prompt_of :: "(json \<Rightarrow> string) \<Rightarrow> obj \<Rightarrow> string" where
  "prompt_of rep payload = lower (py_str rep (py_or (jget payload ''prompt_text'') (JStr [])))"

definition mock_answer :: "string \<Rightarrow> string option \<Rightarrow> string list \<Rightarrow> string \<Rightarrow> string \<Rightarrow> obj" where
  "mock_answer verdict approval_id reasons decision_id digest =
     [(''final_verdict'', JStr verdict), (''reasons'', JArr (map JStr reasons)), (''stages'', JObj []),
      (''decision_id'', JStr decision_id)]
     @ (case approval_id of None \<Rightarrow> [] | Some i \<Rightarrow> [(''approval_id'', JStr i)])
     @ [(''policy_digest'', JStr ''pol_e2e''), (''request_digest'', JStr digest)]"

definition mock_evaluate ::
  "(json \<Rightarrow> string) \<Rightarrow> (obj \<Rightarrow> string) \<Rightarrow> (string \<Rightarrow> string) \<Rightarrow> string option \<Rightarrow> obj \<Rightarrow> approvals \<Rightarrow> obj \<times> approvals" where
  "mock_evaluate rep dumps sha header payload approvals =
     (let approval_header = strip (case header of None \<Rightarrow> [] | Some h \<Rightarrow> h);
          prompt = prompt_of rep payload;
          digest = mock_request_digest dumps sha payload
      in if contains ''e2e-block'' prompt then
           (mock_answer ''block'' None [''e2e-block''] ''dec_block'' digest, approvals)
         else if approval_header \<noteq> [] then
           (case dict_get approvals approval_header of
              None \<Rightarrow> (mock_answer ''approval_required'' None [''unknown approval id''] ''dec_unknown_apr'' digest, approvals)
            | Some r \<Rightarrow>
                if ap_status r = Consumed then
                  (mock_answer ''approval_required'' (Some approval_header) [''approval already consumed''] ''dec_consumed'' digest, approvals)
                else if ap_status r = Approved \<and> ap_request_digest r = digest then
                  (mock_answer ''allow'' (Some approval_header) [''durable approval grants allow''] ''dec_allow'' digest,
                   dict_set approval_header (r\<lparr>ap_status := Consumed\<rparr>) approvals)
                else
                  (mock_answer ''approval_required'' (Some approval_header) [''approval request digest mismatch''] ''dec_mismatch'' digest,
                   approvals))
         else if contains ''e2e-approve'' prompt then
           (mock_answer ''approval_required'' (Some ''apr_e2e'') [''needs-human''] ''dec_pending'' digest,
            dict_set ''apr_e2e'' \<lparr>ap_status = Pending, ap_request_digest = digest, ap_policy_digest = ''pol_e2e''\<rparr> approvals)
         else (mock_answer ''allow'' None [] ''dec'' digest, approvals))"

definition mock_approve :: "string \<Rightarrow> approvals \<Rightarrow> obj \<times> approvals" where
  "mock_approve approval_id approvals =
     (let r = get_default approvals approval_id
                \<lparr>ap_status = Pending, ap_request_digest = [], ap_policy_digest = ''pol_e2e''\<rparr>
      in ([(''status'', JStr ''approved''), (''approval_id'', JStr approval_id)],
          dict_set approval_id (r\<lparr>ap_status := Approved\<rparr>) approvals))"

subsection \<open>Runs\<close>

datatype mock_event = Evaluate "string option" obj | Approve string

fun mock_step :: "(json \<Rightarrow> string) \<Rightarrow> (obj \<Rightarrow> string) \<Rightarrow> (string \<Rightarrow> string) \<Rightarrow> mock_event \<Rightarrow> approvals \<Rightarrow> obj \<times> approvals" where
  "mock_step rep dumps sha (Evaluate header payload) a = mock_evaluate rep dumps sha header payload a"
| "mock_step rep dumps sha (Approve i) a = mock_approve i a"

fun mock_run :: "(json \<Rightarrow> string) \<Rightarrow> (obj \<Rightarrow> string) \<Rightarrow> (string \<Rightarrow> string) \<Rightarrow> mock_event list \<Rightarrow> approvals \<Rightarrow> approvals" where
  "mock_run rep dumps sha [] a = a"
| "mock_run rep dumps sha (e # es) a = mock_run rep dumps sha es (snd (mock_step rep dumps sha e a))"

lemma mock_run_append: "mock_run rep dumps sha (es @ es') a = mock_run rep dumps sha es' (mock_run rep dumps sha es a)"
  by (induction es arbitrary: a) simp_all

text \<open>An answer that lets a request through because of an approval.\<close>

definition grants :: "string \<Rightarrow> obj \<Rightarrow> bool" where
  "grants i answer \<longleftrightarrow> dict_get answer ''final_verdict'' = Some (JStr ''allow'') \<and> dict_get answer ''approval_id'' = Some (JStr i)"

definition approved_for :: "string \<Rightarrow> (string \<Rightarrow> bool) \<Rightarrow> approvals \<Rightarrow> bool" where
  "approved_for i P a \<longleftrightarrow> (\<exists>r. dict_get a i = Some r \<and> ap_status r = Approved \<and> P (ap_request_digest r))"

lemma mock_answer_grants [simp]:
  "grants i (mock_answer v x reasons d digest) \<longleftrightarrow> v = ''allow'' \<and> x = Some i"
  by (cases x) (auto simp: grants_def mock_answer_def)

text \<open>A grant needs an approval of exactly this request and consumes it.\<close>

lemma grant_consumes:
  assumes "mock_evaluate rep dumps sha header payload a = (answer, a')" and "grants i answer"
  shows "approved_for i (\<lambda>g. g = mock_request_digest dumps sha payload) a \<and> \<not> approved_for i (\<lambda>_. True) a'"
  using assms by (auto simp: mock_evaluate_def Let_def approved_for_def dict_get_set split: if_splits option.splits)

text \<open>Only an approval makes an id approved.\<close>

lemma approval_needs_approve:
  assumes "\<not> approved_for i (\<lambda>_. True) a" and "e \<noteq> Approve i"
  shows "\<not> approved_for i (\<lambda>_. True) (snd (mock_step rep dumps sha e a))"
  using assms
  by (cases e) (auto simp: mock_evaluate_def mock_approve_def Let_def approved_for_def dict_get_set split: if_splits option.splits)

lemma run_needs_approve:
  assumes "\<not> approved_for i (\<lambda>_. True) a" and "Approve i \<notin> set es"
  shows "\<not> approved_for i (\<lambda>_. True) (mock_run rep dumps sha es a)"
  using assms
proof (induction es arbitrary: a)
  case (Cons e es)
  then have "e \<noteq> Approve i" "Approve i \<notin> set es" by auto
  then show ?case using Cons.IH [OF approval_needs_approve [OF Cons.prems(1)]] by simp
qed simp

text \<open>
  The stub grants an approval once: after a grant of an id no request is let through with that id
  again, whatever is evaluated, until somebody approves it anew, and every grant is for a request with
  the digest the approval was asked for.
\<close>

theorem approval_granted_once:
  assumes "mock_evaluate rep dumps sha h1 p1 a = (ans1, a1)" and "grants i ans1"
    and "mock_evaluate rep dumps sha h2 p2 (mock_run rep dumps sha es a1) = (ans2, a2)" and "grants i ans2"
  shows "Approve i \<in> set es"
proof (rule ccontr)
  assume "Approve i \<notin> set es"
  with grant_consumes [OF assms(1,2)] have "\<not> approved_for i (\<lambda>_. True) (mock_run rep dumps sha es a1)"
    by (intro run_needs_approve) simp_all
  with grant_consumes [OF assms(3,4)] show False by (auto simp: approved_for_def)
qed

text \<open>An approval nobody asked for lets nothing through: it is bound to the empty digest.\<close>

lemma unasked_approval_is_useless:
  assumes "dict_get a i = None" and "\<And>x. sha x \<noteq> []"
    and "mock_evaluate rep dumps sha h p (snd (mock_approve i a)) = (answer, a')"
  shows "\<not> grants i answer"
proof
  assume "grants i answer"
  from grant_consumes [OF assms(3) this] have "mock_request_digest dumps sha p = []"
    using assms(1) by (auto simp: approved_for_def mock_approve_def Let_def get_default_def dict_get_set)
  with assms(2) show False by (simp add: mock_request_digest_def)
qed

end
